(* ===== verification/Prelude.thy ===== *)
theory Prelude
  imports Main "HOL-Library.Word" "HOL-Library.Signed_Division" "HOL-Library.List_Lexorder"
begin

text \<open>
  The vocabulary shared by every component of the development: the outcome of a Go call
  (a value, a returned \<^verbatim>\<open>error\<close>, or a panic), sequencing of such calls, byte strings and
  fixed-width integers, and the generic facts about lists and outcomes that the component
  proofs rest on.

  A returned error carries no state: a message handler that returns an error is run by the
  SDK on a branch of the store which is then dropped, so what the handler wrote before the
  error is never observed.
\<close>

section \<open>Collections of facts\<close>

named_theorems res_simps "how a sequence of calls can succeed, fail or panic"
named_theorems store_simps "reading a store after a write"

section \<open>Outcomes\<close>

datatype err =
    ErrInvalidCoins
  | ErrUnauthorized string
  | ErrUnknownAddress string
  | ErrInsufficientFunds "(int \<times> int) option"
  | ErrInvalidAddress string
  | ErrInvalidRequest string
  | ErrInvalidSigner
  | ErrSendDisabled
  | ErrInvalidGasLimit
  | ErrTxDecode
  | ErrWrongModerator
  | ErrIntOverflowCoin
  | ErrGasOverflow
  | ErrInvalidGasCap
  | ErrInvalidGasPrice
  | ErrInvalidGasFee
  | ErrInvalidAmount
  | ErrInvalidChainID
  | ErrOutOfGas
  | ErrInsufficientFee
  | ErrInvalidRefund
  | ErrIntrinsicGas
  | ErrInvalidType
  | ErrInvalidSequence
  | ErrNotSupported
  | ErrUnknownRequest
  | ErrCreateDisabled
  | ErrCallDisabled
  | ErrInvalidBaseFee
  | ErrPlain string

datatype 'a res = Ok 'a | Fail err | Panic string

primrec bind_res :: "'a res \<Rightarrow> ('a \<Rightarrow> 'b res) \<Rightarrow> 'b res" where
  "bind_res (Ok x) f = f x"
| "bind_res (Fail e) f = Fail e"
| "bind_res (Panic p) f = Panic p"

text \<open>\<open>require c e\<close> is the guard \<^verbatim>\<open>if !c { return e }\<close>; \<open>must c p\<close> is \<^verbatim>\<open>if !c { panic(p) }\<close>.\<close>

definition require :: "bool \<Rightarrow> err \<Rightarrow> unit res" where
  "require c e = (if c then Ok () else Fail e)"

definition must :: "bool \<Rightarrow> string \<Rightarrow> unit res" where
  "must c p = (if c then Ok () else Panic p)"

definition is_ok :: "'a res \<Rightarrow> bool" where
  "is_ok r = (case r of Ok _ \<Rightarrow> True | _ \<Rightarrow> False)"

lemma bind_res_Ok_iff [res_simps]: "bind_res r f = Ok y \<longleftrightarrow> (\<exists>x. r = Ok x \<and> f x = Ok y)"
  by (cases r) auto

lemma bind_res_Fail_iff [res_simps]:
  "bind_res r f = Fail e \<longleftrightarrow> r = Fail e \<or> (\<exists>x. r = Ok x \<and> f x = Fail e)"
  by (cases r) auto

lemma bind_res_Panic_iff [res_simps]:
  "bind_res r f = Panic p \<longleftrightarrow> r = Panic p \<or> (\<exists>x. r = Ok x \<and> f x = Panic p)"
  by (cases r) auto

lemma bind_res_assoc: "bind_res (bind_res r f) g = bind_res r (\<lambda>x. bind_res (f x) g)"
  by (cases r) auto

lemma bind_res_cong [fundef_cong]:
  "r = r' \<Longrightarrow> (\<And>x. r' = Ok x \<Longrightarrow> f x = g x) \<Longrightarrow> bind_res r f = bind_res r' g"
  by (cases r') auto

lemma require_iff [res_simps]:
  "require c e = Ok u \<longleftrightarrow> c"
  "require c e = Fail e' \<longleftrightarrow> \<not> c \<and> e' = e"
  "require c e \<noteq> Panic p"
  by (auto simp: require_def)

lemma must_iff [res_simps]:
  "must c p = Ok u \<longleftrightarrow> c"
  "must c p \<noteq> Fail e"
  "must c p = Panic p' \<longleftrightarrow> \<not> c \<and> p' = p"
  by (auto simp: must_def)

lemma require_simps [simp]:
  "require True e = Ok ()" "require False e = Fail e"
  "must True p = Ok ()" "must False p = Panic p"
  by (auto simp: require_def must_def)

lemma is_ok_iff [res_simps]: "is_ok r \<longleftrightarrow> (\<exists>x. r = Ok x)"
  by (auto simp: is_ok_def split: res.splits)

text \<open>A Go loop whose body may return an error: it stops at the first one.\<close>

fun for_each :: "('x \<Rightarrow> 's \<Rightarrow> 's res) \<Rightarrow> 'x list \<Rightarrow> 's \<Rightarrow> 's res" where
  "for_each f [] s = Ok s"
| "for_each f (x # xs) s = bind_res (f x s) (for_each f xs)"

lemma for_each_append:
  "for_each f (xs @ ys) s = bind_res (for_each f xs s) (for_each f ys)"
  by (induction xs arbitrary: s) (auto simp: bind_res_assoc intro: bind_res_cong)

lemma for_each_inv:
  assumes "for_each f xs s = Ok s'" and "P s"
    and "\<And>x s s'. x \<in> set xs \<Longrightarrow> P s \<Longrightarrow> f x s = Ok s' \<Longrightarrow> P s'"
  shows "P s'"
  using assms
proof (induction xs arbitrary: s)
  case (Cons x xs)
  from Cons.prems(1) obtain s1 where s1: "f x s = Ok s1" "for_each f xs s1 = Ok s'"
    by (auto simp: res_simps)
  have "P s1"
    using Cons.prems(2,3) s1(1) by auto
  then show ?case
    using Cons.IH [OF s1(2)] Cons.prems(3) by auto
qed simp

lemma list_all_subset: "list_all P xs \<Longrightarrow> set ys \<subseteq> set xs \<Longrightarrow> list_all P ys"
  by (auto simp: list_all_iff)

section \<open>Bytes and integers\<close>

type_synonym byte = "8 word"
type_synonym bytes = "8 word list"
type_synonym uint8 = "8 word"
type_synonym uint32 = "32 word"
type_synonym uint64 = "64 word"
type_synonym uint256 = "256 word"

text \<open>Go's \<^verbatim>\<open>[]byte(s)\<close>.\<close>

definition StringToBytes :: "string \<Rightarrow> bytes" where
  "StringToBytes s = map of_char s"

lemma unat_of_char_byte: "unat (of_char c :: byte) = of_char c"
proof -
  have "(of_char c :: byte) = word_of_nat (of_char c)" by (simp only: of_nat_of_char)
  then show ?thesis using nat_of_char_less_256 [of c] by (simp only: unat_of_nat) simp
qed

lemma of_char_byte_inj: "(of_char c :: byte) = of_char d \<longleftrightarrow> c = d"
  using unat_of_char_byte [of c] unat_of_char_byte [of d] by (metis char_of_char)

lemma StringToBytes_inj: "StringToBytes s = StringToBytes t \<longleftrightarrow> s = t"
  by (simp add: StringToBytes_def inj_map_eq_map inj_def of_char_byte_inj)

text \<open>
  Big-endian encodings: \<^verbatim>\<open>binary.BigEndian\<close> for integers, and the byte arrays of hashes and addresses.
  Reading more bytes than fit keeps the last ones, reading fewer pads on the left.
\<close>

definition be_bytes :: "nat \<Rightarrow> 'a::len word \<Rightarrow> bytes" where
  "be_bytes n w = map (\<lambda>i. ucast (drop_bit (8 * (n - 1 - i)) w)) [0..<n]"

definition un_be :: "bytes \<Rightarrow> 'a::len word" where
  "un_be bs = foldl (\<lambda>acc b. push_bit 8 acc + ucast b) 0 bs"

lemma length_be_bytes [simp]: "length (be_bytes n w) = n" "be_bytes n w = [] \<longleftrightarrow> n = 0"
  by (simp_all add: be_bytes_def)

lemma ucast_byte: "(ucast (ucast w :: byte) :: 'a::len word) = take_bit 8 w"
  by (rule bit_word_eqI) (auto simp: bit_simps)

lemma un_be_prefix:
  fixes w :: "'a::len word"
  assumes "m \<le> n" and "LENGTH('a) \<le> 8 * n"
  shows "foldl (\<lambda>acc b. push_bit 8 acc + ucast b) 0 (map (\<lambda>i. ucast (drop_bit (8 * (n - 1 - i)) w) :: byte) [0..<m]) =
    drop_bit (8 * (n - m)) w"
  using assms(1)
proof (induction m)
  case 0
  have "drop_bit (8 * n) w = 0"
    using assms(2) by (intro bit_word_eqI) (auto simp: bit_simps dest: bit_imp_le_length)
  then show ?case by simp
next
  case (Suc m)
  let ?v = "drop_bit (8 * (n - Suc m)) w"
  have "8 * (n - m) = 8 + 8 * (n - Suc m)" using Suc.prems by simp
  then have d: "drop_bit (8 * (n - m)) w = drop_bit 8 ?v" by (simp only: drop_bit_drop_bit)
  have "n - 1 - m = n - Suc m" by simp
  then have "foldl (\<lambda>acc b. push_bit 8 acc + ucast b) 0
      (map (\<lambda>i. ucast (drop_bit (8 * (n - 1 - i)) w) :: byte) [0..<Suc m]) = push_bit 8 (drop_bit (8 * (n - m)) w) + take_bit 8 ?v"
    using Suc by (simp add: ucast_byte)
  also have "\<dots> = ?v" unfolding d by (rule bits_ident)
  finally show ?case .
qed

lemma un_be_bytes:
  fixes w :: "'a::len word"
  assumes "LENGTH('a) \<le> 8 * n"
  shows "un_be (be_bytes n w) = w"
  using un_be_prefix [OF le_refl assms, of w] by (simp add: un_be_def be_bytes_def)

lemma be_bytes_inj:
  fixes v w :: "'a::len word"
  assumes "LENGTH('a) \<le> 8 * n"
  shows "be_bytes n v = be_bytes n w \<longleftrightarrow> v = w"
  using un_be_bytes [OF assms, of v] un_be_bytes [OF assms, of w] by metis

text \<open>\<^verbatim>\<open>big.Int.Bytes\<close>, the magnitude without leading zeros, and \<^verbatim>\<open>big.Int.SetBytes\<close>.\<close>

fun big_Bytes :: "nat \<Rightarrow> bytes" where
  "big_Bytes n = (if n = 0 then [] else big_Bytes (n div 256) @ [word_of_nat (n mod 256)])"

declare big_Bytes.simps [simp del]

definition big_SetBytes :: "bytes \<Rightarrow> nat" where
  "big_SetBytes bs = foldl (\<lambda>acc b. 256 * acc + unat b) 0 bs"

lemma big_Bytes_Nil [simp]: "big_Bytes n = [] \<longleftrightarrow> n = 0"
  by (subst big_Bytes.simps) simp

lemma big_SetBytes_Bytes [simp]: "big_SetBytes (big_Bytes n) = n"
proof (induction n rule: big_Bytes.induct)
  case (1 n)
  have "unat (word_of_nat (n mod 256) :: byte) = n mod 256" by (simp add: unat_of_nat take_bit_eq_mod)
  with 1 show ?case by (subst big_Bytes.simps) (simp add: big_SetBytes_def)
qed

section \<open>Truncated division\<close>

text \<open>\<^verbatim>\<open>big.Int.Quo\<close> truncates towards zero; on non-negative operands it is \<open>div\<close>.\<close>

lemma sdiv_nonneg [simp]: "0 \<le> a \<Longrightarrow> 0 \<le> b \<Longrightarrow> a sdiv b = a div (b::int)"
  by (cases "a = 0"; cases "b = 0") (auto simp: signed_divide_int_def)

lemma div_mult_le_int: "0 < b \<Longrightarrow> a div b * b \<le> (a::int)"
  using div_mult_mod_eq [of a b] pos_mod_sign [of b a] by linarith

text \<open>Comparing an amount with a number of whole units \<open>c\<close>.\<close>

lemma mult_add_le_iff:
  assumes "- c < y" and "y < (c::int)"
  shows "x * c + y \<le> n * c \<longleftrightarrow> x + of_bool (0 < y) \<le> n"
proof -
  have c: "0 < c" using assms by linarith
  consider "n \<le> x - 1" | "n = x" | "x + 1 \<le> n" by linarith
  then show ?thesis
  proof cases
    case 1
    then have "n * c \<le> (x - 1) * c" using c by (intro mult_right_mono) auto
    with 1 assms show ?thesis by (auto simp: algebra_simps)
  next
    case 3
    then have "(x + 1) * c \<le> n * c" using c by (intro mult_right_mono) auto
    with 3 assms show ?thesis by (auto simp: algebra_simps)
  qed auto
qed

lemma sdiv_mult_self:
  assumes "(c::int) \<noteq> 0"
  shows "(c * n) sdiv c = n"
proof -
  have "sgn (c * n) * sgn c * \<bar>n\<bar> = (sgn c * sgn c) * (sgn n * \<bar>n\<bar>)"
    by (simp add: sgn_mult ac_simps)
  also have "\<dots> = n"
    using assms by (simp add: sgn_mult_abs sgn_if)
  finally show ?thesis
    using assms by (simp add: signed_divide_int_def abs_mult)
qed

end
