(* ===== verification/KVStore.thy ===== *)
theory KVStore
  imports Prelude
begin

text \<open>
  The key-value store of a module, as the keepers see it: \<^verbatim>\<open>Get\<close>, \<^verbatim>\<open>Set\<close>, \<^verbatim>\<open>Delete\<close> and a
  prefix iterator that visits the entries in ascending byte order of their keys. A store is
  the list of its entries in that order; values are kept decoded, so that \<^verbatim>\<open>cdc.Marshal\<close>
  followed by \<^verbatim>\<open>cdc.Unmarshal\<close> is the identity. The interface the keepers rely on is the
  locale \<open>ordered_store\<close>, interpreted at the end on these operations.
\<close>

type_synonym ('k, 'v) kv = "('k \<times> 'v) list"

definition kv_get :: "('k, 'v) kv \<Rightarrow> 'k \<Rightarrow> 'v option" where
  "kv_get = map_of"

fun kv_set :: "'k::linorder \<Rightarrow> 'v \<Rightarrow> ('k, 'v) kv \<Rightarrow> ('k, 'v) kv" where
  "kv_set k v [] = [(k, v)]"
| "kv_set k v ((k', v') # s) =
     (if k < k' then (k, v) # (k', v') # s
      else if k = k' then (k, v) # s
      else (k', v') # kv_set k v s)"

definition kv_delete :: "'k \<Rightarrow> ('k, 'v) kv \<Rightarrow> ('k, 'v) kv" where
  "kv_delete k s = filter (\<lambda>(k', _). k' \<noteq> k) s"

definition kv_ok :: "('k::linorder, 'v) kv \<Rightarrow> bool" where
  "kv_ok s = sorted_wrt (<) (map fst s)"

definition kv_sum :: "('k, int) kv \<Rightarrow> int" where
  "kv_sum s = sum_list (map snd s)"

text \<open>\<^verbatim>\<open>KVStorePrefixIterator(store, p)\<close>: the entries whose key starts with \<open>p\<close>, ascending.\<close>

definition has_prefix :: "bytes \<Rightarrow> bytes \<Rightarrow> bool" where
  "has_prefix p k = (take (length p) k = p)"

definition kv_prefix :: "bytes \<Rightarrow> (bytes, 'v) kv \<Rightarrow> (bytes, 'v) kv" where
  "kv_prefix p s = filter (\<lambda>(k, _). has_prefix p k) s"

section \<open>Reading after writing\<close>

lemma kv_get_Nil [simp]: "kv_get [] k = None"
  by (simp add: kv_get_def)

lemma kv_get_Cons [simp]: "kv_get ((k', v) # s) k = (if k = k' then Some v else kv_get s k)"
  by (simp add: kv_get_def)

lemma kv_get_set [store_simps]: "kv_get (kv_set k v s) = (kv_get s)(k \<mapsto> v)"
  unfolding kv_get_def by (induction k v s rule: kv_set.induct) auto

lemma kv_get_delete [store_simps]: "kv_get (kv_delete k s) = (kv_get s)(k := None)"
proof -
  have "map_of (filter (\<lambda>(k', _). k' \<noteq> k) s) = (map_of s)(k := None)"
    by (induction s) auto
  then show ?thesis by (simp add: kv_get_def kv_delete_def)
qed

lemma set_kv_set_keys [simp]: "fst ` set (kv_set k v s) = insert k (fst ` set s)"
  by (induction k v s rule: kv_set.induct) auto

section \<open>The ordering of the entries\<close>

lemma kv_ok_Nil [simp, intro]: "kv_ok []"
  by (simp add: kv_ok_def)

lemma kv_ok_set [simp, intro]: "kv_ok s \<Longrightarrow> kv_ok (kv_set k v s)"
proof (induction k v s rule: kv_set.induct)
  case (2 k v k' v' s)
  then show ?case
    by (force simp: kv_ok_def image_iff
        dest: set_kv_set_keys [THEN equalityD1, THEN subsetD, OF imageI])
qed (simp add: kv_ok_def)

lemma kv_ok_delete [simp, intro]: "kv_ok s \<Longrightarrow> kv_ok (kv_delete k s)"
  unfolding kv_ok_def kv_delete_def by (induction s) auto

lemma kv_ok_distinct: "kv_ok s \<Longrightarrow> distinct (map fst s)"
  unfolding kv_ok_def by (induction s) auto

lemma kv_ok_Cons [simp]: "kv_ok ((k, v) # s) \<longleftrightarrow> (\<forall>k' \<in> fst ` set s. k < k') \<and> kv_ok s"
  by (auto simp: kv_ok_def)

lemma kv_get_in_set: "kv_ok s \<Longrightarrow> kv_get s k = Some v \<longleftrightarrow> (k, v) \<in> set s"
  unfolding kv_get_def using kv_ok_distinct [of s] by (simp add: map_of_eq_Some_iff)

lemma kv_ok_ext:
  assumes "kv_ok s" and "kv_ok t" and "kv_get s = kv_get t"
  shows "s = t"
proof -
  have "set s = set t"
    using assms kv_get_in_set by (metis subsetI subset_antisym surj_pair)
  moreover have "distinct s" "distinct t"
    using assms(1,2) [THEN kv_ok_distinct] by (simp_all add: distinct_map)
  moreover have "sorted (map fst s)" "sorted (map fst t)"
    using assms(1,2) by (auto simp: kv_ok_def strict_sorted_iff)
  moreover have "inj_on fst (set s \<union> set t)"
    using kv_ok_distinct [OF assms(1)] calculation(1) by (simp add: distinct_map)
  ultimately show ?thesis
    by (metis map_sorted_distinct_set_unique kv_ok_distinct assms(1,2))
qed

section \<open>Sums over the entries\<close>

lemma kv_sum_Nil [simp]: "kv_sum [] = 0"
  by (simp add: kv_sum_def)

lemma kv_sum_Cons [simp]: "kv_sum ((k, v) # s) = v + kv_sum s"
  by (simp add: kv_sum_def)

definition kv_amount :: "('k, int) kv \<Rightarrow> 'k \<Rightarrow> int" where
  "kv_amount s k = (case kv_get s k of None \<Rightarrow> 0 | Some v \<Rightarrow> v)"

lemma kv_amount_Nil [simp]: "kv_amount [] k = 0"
  by (simp add: kv_amount_def)

lemma kv_amount_Cons [simp]:
  "kv_amount ((k', v) # s) k = (if k = k' then v else kv_amount s k)"
  by (simp add: kv_amount_def)

lemma kv_amount_absent: "k \<notin> fst ` set s \<Longrightarrow> kv_amount s k = 0"
  by (induction s) auto

lemma kv_amount_set [store_simps]: "kv_amount (kv_set k v s) k' = (if k' = k then v else kv_amount s k')"
  by (simp add: kv_amount_def store_simps)

lemma kv_amount_delete [store_simps]: "kv_amount (kv_delete k s) k' = (if k' = k then 0 else kv_amount s k')"
  by (simp add: kv_amount_def store_simps)

lemma kv_sum_set: "kv_ok s \<Longrightarrow> kv_sum (kv_set k v s) = kv_sum s - kv_amount s k + v"
proof (induction k v s rule: kv_set.induct)
  case (2 k v k' v' s)
  then show ?case
    using kv_amount_absent [of k s] by (cases "k < k'") force+
qed simp

lemma kv_delete_absent: "k \<notin> fst ` set s \<Longrightarrow> kv_delete k s = s"
  unfolding kv_delete_def by (rule filter_True) force

lemma kv_sum_delete: "kv_ok s \<Longrightarrow> kv_sum (kv_delete k s) = kv_sum s - kv_amount s k"
proof (induction s)
  case (Cons p s)
  obtain k' v where p: "p = (k', v)" by (cases p)
  show ?case
  proof (cases "k' = k")
    case True
    with Cons.prems p have "kv_delete k s = s"
      by (intro kv_delete_absent) auto
    with True p show ?thesis by (simp add: kv_delete_def)
  next
    case False
    with Cons p show ?thesis by (simp add: kv_delete_def)
  qed
qed (simp add: kv_delete_def)

text \<open>Two different entries of non-negative amounts are together at most the sum.\<close>

lemma kv_amount_le_sum:
  assumes "kv_ok s" and "\<And>k v. kv_get s k = Some v \<Longrightarrow> 0 \<le> v"
  shows "0 \<le> kv_sum s" and "kv_amount s k \<le> kv_sum s"
    and "k \<noteq> k' \<Longrightarrow> kv_amount s k + kv_amount s k' \<le> kv_sum s"
proof -
  have nonneg: "kv_ok t \<Longrightarrow> (\<And>k v. kv_get t k = Some v \<Longrightarrow> 0 \<le> v) \<Longrightarrow> 0 \<le> kv_sum t" for t :: "('a, int) kv"
    unfolding kv_sum_def by (intro sum_list_nonneg) (auto simp: kv_get_in_set)
  have amt: "0 \<le> kv_amount s j" for j
    using assms(2) by (auto simp: kv_amount_def split: option.splits)
  have sub: "0 \<le> kv_sum (kv_delete j s)" for j
    by (rule nonneg) (use assms in \<open>auto simp: store_simps split: if_splits\<close>)
  show "0 \<le> kv_sum s" using assms by (rule nonneg)
  show "kv_amount s k \<le> kv_sum s"
    using sub [of k] assms(1) by (simp add: kv_sum_delete)
  show "kv_amount s k + kv_amount s k' \<le> kv_sum s" if "k \<noteq> k'"
  proof -
    have "0 \<le> kv_sum (kv_delete k' (kv_delete k s))"
      by (rule nonneg) (use assms in \<open>auto simp: store_simps split: if_splits\<close>)
    with that assms(1) show ?thesis
      by (simp add: kv_sum_delete store_simps)
  qed
qed

section \<open>Writing a list of entries\<close>

definition kv_build :: "('k::linorder \<times> 'v) list \<Rightarrow> ('k, 'v) kv \<Rightarrow> ('k, 'v) kv" where
  "kv_build es s = fold (\<lambda>(k, v). kv_set k v) es s"

lemma kv_build_simps [simp]:
  "kv_build [] s = s" "kv_build ((k, v) # es) s = kv_build es (kv_set k v s)"
  by (simp_all add: kv_build_def)

lemma kv_ok_build [simp, intro]: "kv_ok s \<Longrightarrow> kv_ok (kv_build es s)"
  unfolding kv_build_def by (induction es arbitrary: s) (simp_all add: split_beta)

lemma kv_get_build [store_simps]:
  "distinct (map fst es) \<Longrightarrow>
     kv_get (kv_build es s) k = (case map_of es k of None \<Rightarrow> kv_get s k | Some v \<Rightarrow> Some v)"
proof (induction es arbitrary: s)
  case (Cons e es)
  then have "map_of es (fst e) = None" by (auto simp: map_of_eq_None_iff)
  with Cons show ?case by (cases e) (auto simp: store_simps split: option.splits)
qed simp

lemma kv_sum_build:
  "kv_ok s \<Longrightarrow> distinct (map fst es) \<Longrightarrow> fst ` set es \<inter> fst ` set s = {} \<Longrightarrow>
     kv_sum (kv_build es s) = kv_sum s + sum_list (map snd es)"
proof (induction es arbitrary: s)
  case (Cons e es)
  obtain k v where e: "e = (k, v)" by (cases e)
  with Cons.prems have k: "k \<notin> fst ` set s" by auto
  have "kv_sum (kv_build es (kv_set k v s)) = kv_sum (kv_set k v s) + sum_list (map snd es)"
    using Cons.prems e by (intro Cons.IH) auto
  then show ?case
    using Cons.prems(1) k by (simp add: e kv_sum_set kv_amount_absent)
qed simp

lemma set_kv_set_subset: "set (kv_set k v s) \<subseteq> insert (k, v) (set s)"
  by (induction k v s rule: kv_set.induct) auto

lemma set_kv_build: "set (kv_build es s) \<subseteq> set es \<union> set s"
proof (induction es arbitrary: s)
  case (Cons e es)
  show ?case
    using Cons [of "kv_set (fst e) (snd e) s"] set_kv_set_subset [of "fst e" "snd e" s] by (cases e) auto
qed simp

lemma kv_build_self:
  assumes "kv_ok es"
  shows "kv_build es [] = es"
proof (rule kv_ok_ext)
  show "kv_get (kv_build es []) = kv_get es"
    using kv_get_build [OF kv_ok_distinct [OF assms], of "[]"]
    by (auto simp: fun_eq_iff kv_get_def split: option.splits)
qed (use assms in auto)

section \<open>Prefix iteration\<close>

lemma has_prefix_append [simp]: "has_prefix p (p @ k)"
  by (simp add: has_prefix_def)

lemma kv_prefix_set:
  "set (kv_prefix p s) = {(k, v). (k, v) \<in> set s \<and> has_prefix p k}"
  by (auto simp: kv_prefix_def)

lemma kv_ok_prefix: "kv_ok s \<Longrightarrow> kv_ok (kv_prefix p s)"
  unfolding kv_ok_def kv_prefix_def by (induction s) auto

lemma kv_prefix_get:
  "kv_ok s \<Longrightarrow> kv_get (kv_prefix p s) k = (if has_prefix p k then kv_get s k else None)"
proof -
  have "map_of (filter (\<lambda>(k, _). has_prefix p k) s) k =
      (if has_prefix p k then map_of s k else None)"
    by (induction s) auto
  then show ?thesis by (simp add: kv_prefix_def kv_get_def)
qed

section \<open>The interface\<close>

locale ordered_store =
  fixes get :: "'s \<Rightarrow> 'k::linorder \<Rightarrow> 'v option"
    and put :: "'k \<Rightarrow> 'v \<Rightarrow> 's \<Rightarrow> 's"
    and del :: "'k \<Rightarrow> 's \<Rightarrow> 's"
    and entries :: "'s \<Rightarrow> ('k \<times> 'v) list"
    and invar :: "'s \<Rightarrow> bool"
  assumes get_put: "invar s \<Longrightarrow> get (put k v s) = (get s)(k \<mapsto> v)"
    and get_del: "invar s \<Longrightarrow> get (del k s) = (get s)(k := None)"
    and invar_put: "invar s \<Longrightarrow> invar (put k v s)"
    and invar_del: "invar s \<Longrightarrow> invar (del k s)"
    and entries_get: "invar s \<Longrightarrow> (k, v) \<in> set (entries s) \<longleftrightarrow> get s k = Some v"
    and entries_sorted: "invar s \<Longrightarrow> sorted_wrt (<) (map fst (entries s))"
begin

lemma put_put: "invar s \<Longrightarrow> get (put k v (put k w s)) = get (put k v s)"
  by (simp add: get_put invar_put)

lemma del_put: "invar s \<Longrightarrow> get s k = None \<Longrightarrow> get (del k (put k v s)) = get s"
  by (auto simp: get_put get_del invar_put fun_eq_iff)

lemma entries_distinct: "invar s \<Longrightarrow> distinct (map fst (entries s))"
  using entries_sorted [of s] by (simp add: strict_sorted_iff)

lemma entries_put_other:
  "invar s \<Longrightarrow> k' \<noteq> k \<Longrightarrow> (k', v') \<in> set (entries (put k v s)) \<longleftrightarrow> (k', v') \<in> set (entries s)"
  by (simp add: entries_get get_put invar_put)

end

interpretation kvs: ordered_store kv_get kv_set kv_delete "\<lambda>s. s" kv_ok
  by unfold_locales (auto simp: store_simps kv_get_in_set, simp add: kv_ok_def)

end
