(* ===== verification/AccessList.thy ===== *)
theory AccessList
  imports KVStore
begin

text \<open>
  The per-transaction access list (\<^verbatim>\<open>x/vm/statedb/access_list.go\<close>) and the transient storage
  (\<^verbatim>\<open>x/vm/statedb/transient_storage.go\<close>) of the EVM state. The access list keeps its slots in a
  slice indexed from the address map, and undoes additions by truncating that slice; the facts
  here say when that is the exact inverse.
\<close>

type_synonym addr = "160 word"
type_synonym hash = "256 word"

section \<open>The access list\<close>

record accessList =
  addresses :: "addr \<Rightarrow> int option"
  slots :: "hash set list"

definition ContainsAddress :: "accessList \<Rightarrow> addr \<Rightarrow> bool" where
  "ContainsAddress al a \<longleftrightarrow> addresses al a \<noteq> None"

definition Contains :: "accessList \<Rightarrow> addr \<Rightarrow> hash \<Rightarrow> (bool \<times> bool) res" where
  "Contains al a slot =
     (case addresses al a of
        None \<Rightarrow> Ok (False, False)
      | Some idx \<Rightarrow>
          if idx = -1 then Ok (True, False)
          else if 0 \<le> idx \<and> nat idx < length (slots al) then Ok (True, slot \<in> slots al ! nat idx)
          else Panic ''index out of range'')"

definition newAccessList :: accessList where
  "newAccessList = \<lparr>addresses = (\<lambda>_. None), slots = []\<rparr>"

definition AddAddress :: "addr \<Rightarrow> accessList \<Rightarrow> bool \<times> accessList" where
  "AddAddress a al =
     (if addresses al a \<noteq> None then (False, al)
      else (True, al\<lparr>addresses := (addresses al)(a \<mapsto> -1)\<rparr>))"

definition AddSlot :: "addr \<Rightarrow> hash \<Rightarrow> accessList \<Rightarrow> ((bool \<times> bool) \<times> accessList) res" where
  "AddSlot a slot al =
     (case addresses al a of
        None \<Rightarrow> Ok ((True, True),
          al\<lparr>addresses := (addresses al)(a \<mapsto> int (length (slots al))), slots := slots al @ [{slot}]\<rparr>)
      | Some idx \<Rightarrow>
          if idx = -1 then Ok ((False, True),
            al\<lparr>addresses := (addresses al)(a \<mapsto> int (length (slots al))), slots := slots al @ [{slot}]\<rparr>)
          else if 0 \<le> idx \<and> nat idx < length (slots al)
          then if slot \<notin> slots al ! nat idx
               then Ok ((False, True), al\<lparr>slots := (slots al)[nat idx := insert slot (slots al ! nat idx)]\<rparr>)
               else Ok ((False, False), al)
          else Panic ''index out of range'')"

definition DeleteSlot :: "addr \<Rightarrow> hash \<Rightarrow> accessList \<Rightarrow> accessList res" where
  "DeleteSlot a slot al =
     (case addresses al a of
        None \<Rightarrow> Panic ''reverting slot change, address not present in list''
      | Some idx \<Rightarrow>
          if 0 \<le> idx \<and> nat idx < length (slots al)
          then let slotmap = slots al ! nat idx - {slot} in
               if slotmap = {}
               then Ok (al\<lparr>slots := take (nat idx) (slots al), addresses := (addresses al)(a \<mapsto> -1)\<rparr>)
               else Ok (al\<lparr>slots := (slots al)[nat idx := slotmap]\<rparr>)
          else Panic ''index out of range'')"

definition DeleteAddress :: "addr \<Rightarrow> accessList \<Rightarrow> accessList" where
  "DeleteAddress a al = al\<lparr>addresses := (addresses al)(a := None)\<rparr>"

text \<open>Well-formedness: the indices are in range and no slot set is empty.\<close>

definition al_ok :: "accessList \<Rightarrow> bool" where
  "al_ok al \<longleftrightarrow>
     (\<forall>a idx. addresses al a = Some idx \<longrightarrow> -1 \<le> idx \<and> idx < int (length (slots al))) \<and>
     {} \<notin> set (slots al)"

lemma al_okD:
  assumes "al_ok al"
  shows "addresses al a = Some idx \<Longrightarrow> idx \<noteq> -1 \<Longrightarrow> 0 \<le> idx \<and> nat idx < length (slots al)"
    and "addresses al a = Some idx \<Longrightarrow> -1 \<le> idx \<and> idx < int (length (slots al))"
    and "i < length (slots al) \<Longrightarrow> slots al ! i \<noteq> {}"
proof -
  have r: "addresses al a = Some idx \<Longrightarrow> -1 \<le> idx \<and> idx < int (length (slots al))" for a idx
    using assms by (simp add: al_ok_def)
  show "addresses al a = Some idx \<Longrightarrow> idx \<noteq> -1 \<Longrightarrow> 0 \<le> idx \<and> nat idx < length (slots al)"
    using r [of a idx] by auto
  show "addresses al a = Some idx \<Longrightarrow> -1 \<le> idx \<and> idx < int (length (slots al))" by (rule r)
  show "i < length (slots al) \<Longrightarrow> slots al ! i \<noteq> {}"
    using assms unfolding al_ok_def by (metis nth_mem)
qed

lemma al_ok_new [simp]: "al_ok newAccessList"
  by (simp add: al_ok_def newAccessList_def)

lemma AddAddress_ok: "al_ok al \<Longrightarrow> al_ok (snd (AddAddress a al))"
  by (simp add: al_ok_def AddAddress_def)

lemma AddSlot_total: "al_ok al \<Longrightarrow> \<exists>r al'. AddSlot a slot al = Ok (r, al')"
  using al_okD(1) [of al a] by (auto simp: AddSlot_def split: option.splits)

text \<open>Undoing an addition gives the same representation back.\<close>

lemma DeleteAddress_AddAddress:
  "AddAddress a al = (True, al') \<Longrightarrow> DeleteAddress a al' = al"
  by (auto simp: AddAddress_def DeleteAddress_def fun_upd_idem split: if_splits)

lemma DeleteSlot_AddSlot:
  assumes "al_ok al" and "AddSlot a slot al = Ok ((addrMod, True), al')"
  shows "\<exists>al''. DeleteSlot a slot al' = Ok al'' \<and> (if addrMod then DeleteAddress a al'' else al'') = al"
proof (cases "addresses al a")
  case None
  then have n: "addrMod" "al' = al\<lparr>addresses := (addresses al)(a \<mapsto> int (length (slots al))), slots := slots al @ [{slot}]\<rparr>"
    using assms(2) by (auto simp: AddSlot_def)
  show ?thesis
    using None by (simp add: n DeleteSlot_def DeleteAddress_def nth_append fun_upd_idem)
next
  case (Some idx)
  show ?thesis
  proof (cases "idx = -1")
    case True
    then have n: "\<not> addrMod" "al' = al\<lparr>addresses := (addresses al)(a \<mapsto> int (length (slots al))), slots := slots al @ [{slot}]\<rparr>"
      using assms(2) Some by (auto simp: AddSlot_def)
    have "(addresses al)(a \<mapsto> - 1) = addresses al" using Some True by (simp add: fun_upd_idem)
    then show ?thesis by (simp add: n DeleteSlot_def nth_append)
  next
    case False
    then have i: "0 \<le> idx" "nat idx < length (slots al)" and ne: "slots al ! nat idx \<noteq> {}"
      using al_okD(1,3) [OF assms(1)] Some by auto
    then have n: "\<not> addrMod" "slot \<notin> slots al ! nat idx"
        "al' = al\<lparr>slots := (slots al)[nat idx := insert slot (slots al ! nat idx)]\<rparr>"
      using assms(2) Some False by (auto simp: AddSlot_def split: if_splits)
    then have "insert slot (slots al ! nat idx) - {slot} = slots al ! nat idx" by auto
    then show ?thesis
      using Some i n ne by (simp add: DeleteSlot_def)
  qed
qed

lemma AddSlot_ok:
  assumes "al_ok al" and "AddSlot a slot al = Ok (r, al')"
  shows "al_ok al'"
proof (cases "addresses al a = None \<or> addresses al a = Some (-1)")
  case True
  then have al': "al' = al\<lparr>addresses := (addresses al)(a \<mapsto> int (length (slots al))), slots := slots al @ [{slot}]\<rparr>"
    using assms(2) by (auto simp: AddSlot_def)
  have "-1 \<le> idx \<and> idx < int (length (slots al')) " if "addresses al' b = Some idx" for b idx
    using that al_okD(2) [OF assms(1), of b idx] by (auto simp: al' split: if_splits)
  moreover have "{} \<notin> set (slots al')" using assms(1) by (simp add: al_ok_def al')
  ultimately show ?thesis by (simp add: al_ok_def)
next
  case False
  then have "al' = al \<or> (\<exists>i. al' = al\<lparr>slots := (slots al)[i := insert slot (slots al ! i)]\<rparr>)"
    using assms(2) by (auto simp: AddSlot_def split: option.splits if_splits)
  then show ?thesis
  proof
    assume "\<exists>i. al' = al\<lparr>slots := (slots al)[i := insert slot (slots al ! i)]\<rparr>"
    then obtain i where i: "al' = al\<lparr>slots := (slots al)[i := insert slot (slots al ! i)]\<rparr>" by blast
    have "{} \<notin> set ((slots al)[i := insert slot (slots al ! i)])"
      using assms(1) set_update_subset_insert [of "slots al" i] by (auto simp: al_ok_def)
    then show ?thesis using assms(1) by (simp add: al_ok_def i)
  qed (use assms(1) in simp)
qed

section \<open>Transient storage\<close>

type_synonym storage = "(hash, hash) kv"
type_synonym transient = "addr \<Rightarrow> storage option"

definition newTransientStorage :: transient where
  "newTransientStorage = (\<lambda>_. None)"

definition transient_Set :: "addr \<Rightarrow> hash \<Rightarrow> hash \<Rightarrow> transient \<Rightarrow> transient" where
  "transient_Set a key value t =
     (if value = 0
      then (case t a of
              None \<Rightarrow> t
            | Some st \<Rightarrow> let st' = kv_delete key st in if st' = [] then t(a := None) else t(a \<mapsto> st'))
      else t(a \<mapsto> kv_set key value (case t a of None \<Rightarrow> [] | Some st \<Rightarrow> st)))"

definition transient_Get :: "transient \<Rightarrow> addr \<Rightarrow> hash \<Rightarrow> hash" where
  "transient_Get t a key =
     (case t a of None \<Rightarrow> 0 | Some st \<Rightarrow> (case kv_get st key of None \<Rightarrow> 0 | Some v \<Rightarrow> v))"

lemma transient_Get_Set:
  "transient_Get (transient_Set a key value t) b j =
     (if b = a \<and> j = key then value else transient_Get t b j)"
proof (cases "value = 0")
  case True
  show ?thesis
  proof (cases "t a")
    case (Some st)
    have "kv_delete key st = [] \<Longrightarrow> j \<noteq> key \<Longrightarrow> kv_get st j = None"
      using kv_get_delete [of key st] by (auto simp: fun_eq_iff split: if_splits)
    then show ?thesis
      using True Some by (auto simp: transient_Set_def transient_Get_def Let_def store_simps)
  qed (use True in \<open>simp add: transient_Set_def transient_Get_def\<close>)
qed (auto simp: transient_Set_def transient_Get_def store_simps split: option.splits)

end
