(* ===== verification/SnapshotStore.thy ===== *)
theory SnapshotStore
  imports Prelude "HOL-Library.Char_ord"
begin

text \<open>
  \<^verbatim>\<open>x/vm/store\<close>: the stack of cache stores behind the EVM's snapshots, for one key-value store
  (\<^verbatim>\<open>snapshotkv\<close>) and for all of them in lockstep (\<^verbatim>\<open>snapshotmulti\<close>). The cache store itself
  (\<^verbatim>\<open>cachekv\<close>) belongs to the SDK: it is a record of operations over an unspecified type of stores,
  with its documented behaviour in the locale \<open>cachekv\<close>.
\<close>

section \<open>Cache stores\<close>

record 'v cachekv_ops =
  ck_NewStore :: "'v \<Rightarrow> 'v"
  ck_Write :: "'v \<Rightarrow> 'v \<Rightarrow> 'v"
  ck_Set :: "bytes \<Rightarrow> bytes \<Rightarrow> 'v \<Rightarrow> 'v"
  ck_Delete :: "bytes \<Rightarrow> 'v \<Rightarrow> 'v"
  ck_Get :: "'v \<Rightarrow> bytes \<Rightarrow> bytes option"

text \<open>
  \<open>over c p\<close> says that \<open>c\<close> caches \<open>p\<close>. \<open>ck_Write c p\<close> is the parent \<open>p\<close> after \<open>c\<close> has been flushed
  into it.
\<close>

locale cachekv =
  fixes C :: "'v cachekv_ops" and over :: "'v \<Rightarrow> 'v \<Rightarrow> bool"
  assumes new_over: "over (ck_NewStore C p) p"
    and new_get: "ck_Get C (ck_NewStore C p) = ck_Get C p"
    and write_get: "over c p \<Longrightarrow> ck_Get C (ck_Write C c p) = ck_Get C c"
    and write_over: "over c p \<Longrightarrow> over p q \<Longrightarrow> over (ck_Write C c p) q"
    and set_over: "over c p \<Longrightarrow> over (ck_Set C k v c) p"
    and delete_over: "over c p \<Longrightarrow> over (ck_Delete C k c) p"
    and set_get: "ck_Get C (ck_Set C k v c) = (ck_Get C c)(k \<mapsto> v)"
    and delete_get: "ck_Get C (ck_Delete C k c) = (ck_Get C c)(k := None)"

section \<open>One store\<close>

record 'v snapshotkv =
  initialStore :: 'v
  cacheStores :: "'v list"

definition snapshotkv_NewStore :: "'v \<Rightarrow> 'v snapshotkv" where
  "snapshotkv_NewStore store = \<lparr>initialStore = store, cacheStores = []\<rparr>"

definition CurrentStore :: "'v snapshotkv \<Rightarrow> 'v" where
  "CurrentStore cs =
     (let l = length (cacheStores cs) in if l = 0 then initialStore cs else cacheStores cs ! (l - 1))"

text \<open>
  \<open>flush_stack C s cs\<close> is the store \<open>s\<close> after the stores \<open>cs\<close> above it have been written down, from
  top to bottom. \<open>base\<close> is the store that the initial store caches.
\<close>

fun flush_stack :: "'v cachekv_ops \<Rightarrow> 'v \<Rightarrow> 'v list \<Rightarrow> 'v" where
  "flush_stack C s [] = s"
| "flush_stack C s (c # cs) = ck_Write C (flush_stack C c cs) s"

definition snapshotkv_Commit :: "'v cachekv_ops \<Rightarrow> 'v \<Rightarrow> 'v snapshotkv \<Rightarrow> 'v \<times> 'v snapshotkv" where
  "snapshotkv_Commit C base cs =
     (let s = flush_stack C (initialStore cs) (cacheStores cs)
      in (ck_Write C s base, cs\<lparr>initialStore := s, cacheStores := []\<rparr>))"

definition snapshotkv_Snapshot :: "'v cachekv_ops \<Rightarrow> 'v snapshotkv \<Rightarrow> 'v snapshotkv \<times> int" where
  "snapshotkv_Snapshot C cs =
     (let cs' = cs\<lparr>cacheStores := cacheStores cs @ [ck_NewStore C (CurrentStore cs)]\<rparr>
      in (cs', int (length (cacheStores cs')) - 1))"

definition snapshotkv_RevertToSnapshot :: "int \<Rightarrow> 'v snapshotkv \<Rightarrow> 'v snapshotkv res" where
  "snapshotkv_RevertToSnapshot target cs =
     (if target < 0 \<or> target \<ge> int (length (cacheStores cs))
      then Panic ''snapshot index out of bound''
      else Ok (cs\<lparr>cacheStores := take (nat target) (cacheStores cs)\<rparr>))"

text \<open>Writing through the store that \<open>CurrentStore\<close> returns.\<close>

definition update_current :: "('v \<Rightarrow> 'v) \<Rightarrow> 'v snapshotkv \<Rightarrow> 'v snapshotkv" where
  "update_current f cs =
     (if cacheStores cs = [] then cs\<lparr>initialStore := f (initialStore cs)\<rparr>
      else cs\<lparr>cacheStores := butlast (cacheStores cs) @ [f (last (cacheStores cs))]\<rparr>)"

section \<open>All stores\<close>

record 'v snapshotmulti =
  stores :: "string \<Rightarrow> 'v snapshotkv option"
  storeKeys :: "string list"
  head :: int

definition InitialHead :: int where
  "InitialHead = 0"

definition SortedKVStoreKeys :: "string list \<Rightarrow> string list" where
  "SortedKVStoreKeys names = sort names"

text \<open>\<open>cms\<close> is \<^verbatim>\<open>CacheMultiStore.GetKVStore\<close>; the keys of a Go map are listed without repetition.\<close>

definition snapshotmulti_NewStore :: "(string \<Rightarrow> 'v) \<Rightarrow> string list \<Rightarrow> 'v snapshotmulti" where
  "snapshotmulti_NewStore cms keys =
     \<lparr>stores = (\<lambda>key. if key \<in> set (SortedKVStoreKeys keys) then Some (snapshotkv_NewStore (cms key)) else None),
      storeKeys = SortedKVStoreKeys keys, head = InitialHead\<rparr>"

definition NewStoreWithKVStores :: "(string \<times> 'v) list \<Rightarrow> 'v snapshotmulti" where
  "NewStoreWithKVStores ss =
     \<lparr>stores = map_option snapshotkv_NewStore \<circ> map_of ss, storeKeys = sort (map fst ss), head = InitialHead\<rparr>"

text \<open>Calling a method of \<^verbatim>\<open>s.stores[key]\<close>, for every key in order.\<close>

definition on_stores ::
  "(string \<Rightarrow> 'v snapshotkv \<Rightarrow> 'v snapshotkv res) \<Rightarrow> 'v snapshotmulti \<Rightarrow> 'v snapshotmulti res" where
  "on_stores f s =
     bind_res (for_each (\<lambda>key st.
         case st key of
           None \<Rightarrow> Panic ''nil pointer''
         | Some kv \<Rightarrow> bind_res (f key kv) (\<lambda>kv'. Ok (st(key \<mapsto> kv')))) (storeKeys s) (stores s))
       (\<lambda>st. Ok (s\<lparr>stores := st\<rparr>))"

definition snapshotmulti_Snapshot :: "'v cachekv_ops \<Rightarrow> 'v snapshotmulti \<Rightarrow> ('v snapshotmulti \<times> int) res" where
  "snapshotmulti_Snapshot C s =
     bind_res (on_stores (\<lambda>_ kv. Ok (fst (snapshotkv_Snapshot C kv))) s) (\<lambda>s.
     let s = s\<lparr>head := head s + 1\<rparr> in Ok (s, head s - 1))"

definition snapshotmulti_RevertToSnapshot :: "int \<Rightarrow> 'v snapshotmulti \<Rightarrow> 'v snapshotmulti res" where
  "snapshotmulti_RevertToSnapshot target s =
     bind_res (on_stores (\<lambda>_. snapshotkv_RevertToSnapshot target) s) (\<lambda>s. Ok (s\<lparr>head := target\<rparr>))"

definition CacheMultiStore :: "'v cachekv_ops \<Rightarrow> 'v snapshotmulti \<Rightarrow> 'v snapshotmulti res" where
  "CacheMultiStore C s = bind_res (snapshotmulti_Snapshot C s) (\<lambda>(s, _). Ok s)"

definition GetKVStore :: "string \<Rightarrow> 'v snapshotmulti \<Rightarrow> 'v res" where
  "GetKVStore key s =
     (case stores s key of
        None \<Rightarrow> Panic ''kv store has not been registered in stores''
      | Some kv \<Rightarrow> Ok (CurrentStore kv))"

definition LatestVersion :: "'v snapshotmulti \<Rightarrow> int" where
  "LatestVersion s = head s"

text \<open>\<open>Write\<close> commits every store into the store below it; \<open>bases\<close> are those stores.\<close>

definition snapshotmulti_Write ::
  "'v cachekv_ops \<Rightarrow> (string \<Rightarrow> 'v) \<Rightarrow> 'v snapshotmulti \<Rightarrow> ((string \<Rightarrow> 'v) \<times> 'v snapshotmulti) res" where
  "snapshotmulti_Write C bases s =
     bind_res (on_stores (\<lambda>key kv. Ok (snd (snapshotkv_Commit C (bases key) kv))) s) (\<lambda>s'.
     Ok (\<lambda>key. if key \<in> set (storeKeys s)
               then (case stores s key of None \<Rightarrow> bases key | Some kv \<Rightarrow> fst (snapshotkv_Commit C (bases key) kv))
               else bases key,
         s'\<lparr>head := InitialHead\<rparr>))"

text \<open>Writing to the current store of one key.\<close>

definition update_store :: "string \<Rightarrow> ('v \<Rightarrow> 'v) \<Rightarrow> 'v snapshotmulti \<Rightarrow> 'v snapshotmulti" where
  "update_store key f s = s\<lparr>stores := (stores s)(key := map_option (update_current f) (stores s key))\<rparr>"

section \<open>Lockstep\<close>

definition depth :: "'v snapshotmulti \<Rightarrow> string \<Rightarrow> int option" where
  "depth s key = map_option (\<lambda>kv. int (length (cacheStores kv))) (stores s key)"

definition lockstep :: "'v snapshotmulti \<Rightarrow> bool" where
  "lockstep s \<longleftrightarrow> distinct (storeKeys s) \<and>
     (\<forall>key. depth s key = (if key \<in> set (storeKeys s) then Some (head s) else None))"

lemma lockstepD:
  assumes "lockstep s"
  shows "key \<in> set (storeKeys s) \<Longrightarrow> \<exists>kv. stores s key = Some kv \<and> int (length (cacheStores kv)) = head s"
    and "key \<notin> set (storeKeys s) \<Longrightarrow> stores s key = None"
    and "distinct (storeKeys s)"
proof -
  have d: "depth s key = (if key \<in> set (storeKeys s) then Some (head s) else None)"
    using assms by (simp add: lockstep_def)
  then show "key \<in> set (storeKeys s) \<Longrightarrow> \<exists>kv. stores s key = Some kv \<and> int (length (cacheStores kv)) = head s"
    by (auto simp: depth_def)
  show "key \<notin> set (storeKeys s) \<Longrightarrow> stores s key = None"
    using d by (simp add: depth_def)
  show "distinct (storeKeys s)" using assms by (simp add: lockstep_def)
qed

lemma for_each_stores:
  assumes "distinct keys"
    and "\<And>key. key \<in> set keys \<Longrightarrow> \<exists>kv. st key = Some kv \<and> f key kv = Ok (g key kv)"
  shows "for_each (\<lambda>key st.
         case st key of
           None \<Rightarrow> Panic ''nil pointer''
         | Some kv \<Rightarrow> bind_res (f key kv) (\<lambda>kv'. Ok (st(key \<mapsto> kv')))) keys st =
    Ok (\<lambda>key. if key \<in> set keys then map_option (g key) (st key) else st key)"
  using assms
proof (induction keys arbitrary: st)
  case (Cons key keys)
  from Cons.prems(2) [of key] obtain kv where kv: "st key = Some kv" "f key kv = Ok (g key kv)" by auto
  let ?st = "st(key \<mapsto> g key kv)"
  have ih: "\<And>k. k \<in> set keys \<Longrightarrow> \<exists>kv. ?st k = Some kv \<and> f k kv = Ok (g k kv)"
    using Cons.prems by auto
  show ?case
    using Cons.prems(1) kv by (auto simp: Cons.IH [OF _ ih] fun_eq_iff)
qed simp

lemma on_stores_Ok:
  assumes "distinct (storeKeys s)"
    and "\<And>key. key \<in> set (storeKeys s) \<Longrightarrow> \<exists>kv. stores s key = Some kv \<and> f key kv = Ok (g key kv)"
  shows "on_stores f s = Ok (s\<lparr>stores := (\<lambda>key. if key \<in> set (storeKeys s)
    then map_option (g key) (stores s key) else stores s key)\<rparr>)"
  using for_each_stores [of "storeKeys s" "stores s" f g, OF assms] by (simp add: on_stores_def)

lemma Snapshot_Ok:
  assumes "lockstep s"
  shows "snapshotmulti_Snapshot C s = Ok (s\<lparr>stores := (\<lambda>key. if key \<in> set (storeKeys s)
      then map_option (\<lambda>kv. fst (snapshotkv_Snapshot C kv)) (stores s key) else stores s key), head := head s + 1\<rparr>, head s)"
proof -
  have "\<exists>kv. stores s key = Some kv" if "key \<in> set (storeKeys s)" for key
    using lockstepD(1) [OF assms that] by blast
  then show ?thesis
    unfolding snapshotmulti_Snapshot_def
    by (subst on_stores_Ok [OF lockstepD(3) [OF assms], where g = "\<lambda>_ kv. fst (snapshotkv_Snapshot C kv)"])
      (auto simp: Let_def)
qed

lemma Revert_Ok:
  assumes "lockstep s" and "0 \<le> target" and "target < head s"
  shows "snapshotmulti_RevertToSnapshot target s = Ok (s\<lparr>stores := (\<lambda>key. if key \<in> set (storeKeys s)
      then map_option (\<lambda>kv. kv\<lparr>cacheStores := take (nat target) (cacheStores kv)\<rparr>) (stores s key)
      else stores s key), head := target\<rparr>)"
proof -
  have "\<exists>kv. stores s key = Some kv \<and> snapshotkv_RevertToSnapshot target kv =
      Ok (kv\<lparr>cacheStores := take (nat target) (cacheStores kv)\<rparr>)" if key: "key \<in> set (storeKeys s)" for key
  proof -
    obtain kv where "stores s key = Some kv" "int (length (cacheStores kv)) = head s"
      using lockstepD(1) [OF assms(1) key] by blast
    with assms(2,3) show ?thesis by (intro exI [of _ kv]) (simp add: snapshotkv_RevertToSnapshot_def)
  qed
  then show ?thesis
    unfolding snapshotmulti_RevertToSnapshot_def
    by (subst on_stores_Ok [OF lockstepD(3) [OF assms(1)],
          where g = "\<lambda>_ kv. kv\<lparr>cacheStores := take (nat target) (cacheStores kv)\<rparr>"]) auto
qed

lemma Revert_out_of_bounds:
  assumes "lockstep s" and "storeKeys s \<noteq> []" and "target < 0 \<or> head s \<le> target"
  shows "snapshotmulti_RevertToSnapshot target s = Panic ''snapshot index out of bound''"
proof -
  obtain key keys where k: "storeKeys s = key # keys" using assms(2) by (cases "storeKeys s") auto
  then obtain kv where "stores s key = Some kv" "int (length (cacheStores kv)) = head s"
    using lockstepD(1) [OF assms(1), of key] by auto
  then show ?thesis
    using assms(3) k by (auto simp: snapshotmulti_RevertToSnapshot_def on_stores_def snapshotkv_RevertToSnapshot_def)
qed

lemma lockstep_Snapshot:
  assumes "lockstep s" and "snapshotmulti_Snapshot C s = Ok (s', n)"
  shows "lockstep s' \<and> head s' = head s + 1 \<and> n = head s"
proof -
  have s': "s' = s\<lparr>stores := (\<lambda>key. if key \<in> set (storeKeys s)
      then map_option (\<lambda>kv. fst (snapshotkv_Snapshot C kv)) (stores s key) else stores s key), head := head s + 1\<rparr>"
    and n: "n = head s"
    using assms(2) by (auto simp: Snapshot_Ok [OF assms(1)])
  have "depth s' key = (if key \<in> set (storeKeys s) then map_option (\<lambda>d. 1 + d) (depth s key) else depth s key)" for key
    by (simp add: s' depth_def option.map_comp o_def snapshotkv_Snapshot_def Let_def)
  then show ?thesis using assms(1) n by (simp add: lockstep_def s')
qed

lemma lockstep_Revert:
  assumes "lockstep s" and "snapshotmulti_RevertToSnapshot target s = Ok s'" and "0 \<le> target" and "target < head s"
  shows "lockstep s' \<and> head s' = target"
proof -
  have s': "s' = s\<lparr>stores := (\<lambda>key. if key \<in> set (storeKeys s)
      then map_option (\<lambda>kv. kv\<lparr>cacheStores := take (nat target) (cacheStores kv)\<rparr>) (stores s key)
      else stores s key), head := target\<rparr>"
    using assms(2) by (simp add: Revert_Ok [OF assms(1,3,4)])
  have "depth s' key = (if key \<in> set (storeKeys s) then map_option (\<lambda>d. min d target) (depth s key) else depth s key)" for key
  proof -
    have "int (min (length xs) (nat target)) = min (int (length xs)) target" for xs :: "'a list"
      using assms(3) by (auto simp: min_def)
    then show ?thesis by (simp add: s' depth_def option.map_comp o_def)
  qed
  then show ?thesis using assms(1,4) by (simp add: lockstep_def s')
qed

lemma length_update_current [simp]: "length (cacheStores (update_current f kv)) = length (cacheStores kv)"
  by (auto simp: update_current_def)

lemma lockstep_update: "lockstep s \<Longrightarrow> lockstep (update_store key f s)"
proof -
  have "depth (update_store key f s) j = depth s j" for j
    by (simp add: update_store_def depth_def option.map_comp o_def)
  then show "lockstep s \<Longrightarrow> ?thesis" by (simp add: lockstep_def update_store_def)
qed

lemma lockstep_NewStore: "distinct keys \<Longrightarrow> lockstep (snapshotmulti_NewStore cms keys)"
  by (simp add: lockstep_def depth_def snapshotmulti_NewStore_def SortedKVStoreKeys_def InitialHead_def
      snapshotkv_NewStore_def)

section \<open>Reverting a snapshot\<close>

text \<open>What may happen between taking the snapshot \<open>n\<close> and reverting it: writes to current stores,
  further snapshots, and reverts of those.\<close>

inductive ms_run :: "'v cachekv_ops \<Rightarrow> int \<Rightarrow> 'v snapshotmulti \<Rightarrow> 'v snapshotmulti \<Rightarrow> bool"
  for C :: "'v cachekv_ops" and n :: int where
  stop: "ms_run C n s s"
| writes: "ms_run C n s s' \<Longrightarrow> ms_run C n s (update_store key f s')"
| nested: "ms_run C n s s' \<Longrightarrow> snapshotmulti_Snapshot C s' = Ok (s'', m) \<Longrightarrow> ms_run C n s s''"
| undone: "ms_run C n s s' \<Longrightarrow> n < m \<Longrightarrow> snapshotmulti_RevertToSnapshot m s' = Ok s'' \<Longrightarrow> ms_run C n s s''"

text \<open>The layers below the snapshot are those of \<open>s\<close>.\<close>

definition below_kept :: "int \<Rightarrow> 'v snapshotmulti \<Rightarrow> 'v snapshotmulti \<Rightarrow> bool" where
  "below_kept n s s' \<longleftrightarrow>
     lockstep s' \<and> n < head s' \<and> storeKeys s' = storeKeys s \<and>
     (\<forall>key \<in> set (storeKeys s). \<exists>kv kv'. stores s key = Some kv \<and> stores s' key = Some kv' \<and>
        initialStore kv' = initialStore kv \<and> take (nat n) (cacheStores kv') = take (nat n) (cacheStores kv))"

lemma below_keptD:
  assumes "below_kept n s s'" and "key \<in> set (storeKeys s)"
  obtains kv kv' where "stores s key = Some kv" "stores s' key = Some kv'" "initialStore kv' = initialStore kv"
    "take (nat n) (cacheStores kv') = take (nat n) (cacheStores kv)" "n < int (length (cacheStores kv'))"
    "key \<in> set (storeKeys s')"
proof -
  from assms obtain kv kv' where kv: "stores s key = Some kv" "stores s' key = Some kv'"
      "initialStore kv' = initialStore kv" "take (nat n) (cacheStores kv') = take (nat n) (cacheStores kv)"
    unfolding below_kept_def by blast
  have "lockstep s'" "n < head s'" "key \<in> set (storeKeys s')" using assms by (auto simp: below_kept_def)
  with lockstepD(1) [of s' key] kv that show thesis by auto
qed

lemma below_keptI:
  assumes "lockstep s'" and "n < head s'" and "storeKeys s' = storeKeys s"
    and "\<And>key. key \<in> set (storeKeys s) \<Longrightarrow> \<exists>kv kv'. stores s key = Some kv \<and> stores s' key = Some kv' \<and>
        initialStore kv' = initialStore kv \<and> take (nat n) (cacheStores kv') = take (nat n) (cacheStores kv)"
  shows "below_kept n s s'"
  using assms by (auto simp: below_kept_def)

lemma below_kept_start:
  assumes "lockstep s" and "snapshotmulti_Snapshot C s = Ok (s', n)"
  shows "below_kept n s s'"
proof (rule below_keptI)
  show "lockstep s'" "n < head s'" using lockstep_Snapshot [OF assms] by auto
  show "storeKeys s' = storeKeys s" using assms by (auto simp: Snapshot_Ok)
  fix key assume key: "key \<in> set (storeKeys s)"
  then obtain kv where "stores s key = Some kv" "int (length (cacheStores kv)) = head s"
    using lockstepD(1) [OF assms(1)] by blast
  with key assms show "\<exists>kv kv'. stores s key = Some kv \<and> stores s' key = Some kv' \<and>
        initialStore kv' = initialStore kv \<and> take (nat n) (cacheStores kv') = take (nat n) (cacheStores kv)"
    by (auto simp: Snapshot_Ok snapshotkv_Snapshot_def Let_def)
qed

lemma below_kept_write:
  assumes "0 \<le> n" and "below_kept n s s'"
  shows "below_kept n s (update_store key f s')"
proof (rule below_keptI)
  show "lockstep (update_store key f s')" "n < head (update_store key f s')"
      "storeKeys (update_store key f s') = storeKeys s"
    using assms(2) lockstep_update [of s' key f] by (auto simp: below_kept_def update_store_def)
  fix j assume j: "j \<in> set (storeKeys s)"
  from assms(2) j obtain kv kv' where kv: "stores s j = Some kv" "stores s' j = Some kv'"
      "initialStore kv' = initialStore kv" "take (nat n) (cacheStores kv') = take (nat n) (cacheStores kv)"
      "n < int (length (cacheStores kv'))"
    by (rule below_keptD)
  then have "cacheStores kv' \<noteq> []" "nat n \<le> length (cacheStores kv') - 1" using assms(1) by auto
  then have "take (nat n) (cacheStores (update_current f kv')) = take (nat n) (cacheStores kv')"
    "initialStore (update_current f kv') = initialStore kv'"
    by (auto simp: update_current_def butlast_conv_take min_def)
  with kv show "\<exists>kv kv'. stores s j = Some kv \<and> stores (update_store key f s') j = Some kv' \<and>
      initialStore kv' = initialStore kv \<and> take (nat n) (cacheStores kv') = take (nat n) (cacheStores kv)"
    by (cases "j = key") (auto simp: update_store_def)
qed

lemma below_kept_nested:
  assumes "below_kept n s s'" and "snapshotmulti_Snapshot C s' = Ok (s'', m)"
  shows "below_kept n s s''"
proof (rule below_keptI)
  have l: "lockstep s'" and keys: "storeKeys s' = storeKeys s" using assms(1) by (auto simp: below_kept_def)
  show "lockstep s''" "n < head s''" "storeKeys s'' = storeKeys s"
    using assms l lockstep_Snapshot [OF l assms(2)] by (auto simp: below_kept_def Snapshot_Ok [OF l])
  fix j assume j: "j \<in> set (storeKeys s)"
  from assms(1) j obtain kv kv' where kv: "stores s j = Some kv" "stores s' j = Some kv'"
      "initialStore kv' = initialStore kv" "take (nat n) (cacheStores kv') = take (nat n) (cacheStores kv)"
      "n < int (length (cacheStores kv'))"
    by (rule below_keptD)
  with assms(2) j keys show "\<exists>kv kv''. stores s j = Some kv \<and> stores s'' j = Some kv'' \<and>
      initialStore kv'' = initialStore kv \<and> take (nat n) (cacheStores kv'') = take (nat n) (cacheStores kv)"
    by (auto simp: Snapshot_Ok [OF l] snapshotkv_Snapshot_def Let_def)
qed

lemma below_kept_undone:
  assumes "0 \<le> n" and "storeKeys s \<noteq> []" and "below_kept n s s'" and "n < m"
    and "snapshotmulti_RevertToSnapshot m s' = Ok s''"
  shows "below_kept n s s''"
proof (rule below_keptI)
  have l: "lockstep s'" and keys: "storeKeys s' = storeKeys s" using assms(3) by (auto simp: below_kept_def)
  have m: "0 \<le> m" "m < head s'"
    using assms(1,2,4,5) Revert_out_of_bounds [OF l, of m] keys by (cases "head s' \<le> m"; auto)+
  show "lockstep s''" "n < head s''" "storeKeys s'' = storeKeys s"
    using assms l lockstep_Revert [OF l assms(5) m] keys by (auto simp: Revert_Ok [OF l m])
  fix j assume j: "j \<in> set (storeKeys s)"
  from assms(3) j obtain kv kv' where kv: "stores s j = Some kv" "stores s' j = Some kv'"
      "initialStore kv' = initialStore kv" "take (nat n) (cacheStores kv') = take (nat n) (cacheStores kv)"
      "n < int (length (cacheStores kv'))"
    by (rule below_keptD)
  moreover have "nat n \<le> nat m" using assms(4) by simp
  ultimately show "\<exists>kv kv''. stores s j = Some kv \<and> stores s'' j = Some kv'' \<and>
      initialStore kv'' = initialStore kv \<and> take (nat n) (cacheStores kv'') = take (nat n) (cacheStores kv)"
    using assms(5) j keys by (auto simp: Revert_Ok [OF l m] min_absorb1)
qed

lemma below_kept_run:
  assumes "ms_run C n s0 s'" and "0 \<le> n" and "storeKeys s \<noteq> []" and "below_kept n s s0"
  shows "below_kept n s s'"
  using assms(1,4)
proof induction
  case (writes s0 s' key f)
  then show ?case using below_kept_write [OF assms(2)] by blast
next
  case (nested s0 s' s'' m)
  then show ?case using below_kept_nested by blast
next
  case (undone s0 s' m s'')
  then show ?case using below_kept_undone [OF assms(2,3)] by blast
qed

lemma below_kept_revert:
  assumes "lockstep s" and "0 \<le> head s" and "below_kept (head s) s s'"
  shows "snapshotmulti_RevertToSnapshot (head s) s' = Ok s"
proof -
  have l: "lockstep s'" "head s < head s'" "storeKeys s' = storeKeys s" using assms(3) by (auto simp: below_kept_def)
  have "(if key \<in> set (storeKeys s)
      then map_option (\<lambda>kv. kv\<lparr>cacheStores := take (nat (head s)) (cacheStores kv)\<rparr>) (stores s' key)
      else stores s' key) = stores s key" for key
  proof (cases "key \<in> set (storeKeys s)")
    case True
    from assms(3) True obtain kv kv' where kv: "stores s key = Some kv" "stores s' key = Some kv'"
        "initialStore kv' = initialStore kv"
        "take (nat (head s)) (cacheStores kv') = take (nat (head s)) (cacheStores kv)"
      by (rule below_keptD)
    moreover have "nat (head s) = length (cacheStores kv)"
      using lockstepD(1) [OF assms(1) True] kv(1) by auto
    ultimately show ?thesis using True by auto
  next
    case False
    then show ?thesis using l lockstepD(2) [OF assms(1)] lockstepD(2) [OF l(1)] by auto
  qed
  then show ?thesis
    by (simp add: Revert_Ok [OF l(1) assms(2) l(2)] l(3))
qed

section \<open>Writing the stack down\<close>

text \<open>Every store of the stack caches the one below it.\<close>

fun layered :: "('v \<Rightarrow> 'v \<Rightarrow> bool) \<Rightarrow> 'v \<Rightarrow> 'v list \<Rightarrow> bool" where
  "layered over base [] = True"
| "layered over base (x # xs) = (over x base \<and> layered over x xs)"

lemma CurrentStore_last: "CurrentStore kv = last (initialStore kv # cacheStores kv)"
  by (simp add: CurrentStore_def Let_def last_conv_nth)

context cachekv
begin

lemma flush_stack_get:
  assumes "layered over s cs" and "over s q"
  shows "ck_Get C (flush_stack C s cs) = ck_Get C (last (s # cs)) \<and> over (flush_stack C s cs) q"
  using assms
proof (induction cs arbitrary: s q)
  case (Cons c cs)
  then have "ck_Get C (flush_stack C c cs) = ck_Get C (last (c # cs)) \<and> over (flush_stack C c cs) s"
    by (intro Cons.IH) auto
  then show ?case using Cons.prems write_get write_over by auto
qed simp

lemma Commit_get:
  assumes "layered over base (initialStore kv # cacheStores kv)"
  shows "ck_Get C (fst (snapshotkv_Commit C base kv)) = ck_Get C (CurrentStore kv)"
    and "ck_Get C (CurrentStore (snd (snapshotkv_Commit C base kv))) = ck_Get C (CurrentStore kv)"
  using flush_stack_get [of "initialStore kv" "cacheStores kv" base] assms write_get
  by (auto simp: snapshotkv_Commit_def Let_def CurrentStore_last)

lemma Snapshot_layered:
  assumes "layered over base (initialStore kv # cacheStores kv)"
  shows "layered over base (initialStore (fst (snapshotkv_Snapshot C kv)) # cacheStores (fst (snapshotkv_Snapshot C kv)))"
    and "ck_Get C (CurrentStore (fst (snapshotkv_Snapshot C kv))) = ck_Get C (CurrentStore kv)"
proof -
  have "layered over b (x # xs) \<Longrightarrow> layered over b (x # xs @ [ck_NewStore C (last (x # xs))])" for b x xs
    by (induction xs arbitrary: b x) (auto simp: new_over)
  from this [OF assms] show "layered over base (initialStore (fst (snapshotkv_Snapshot C kv)) #
      cacheStores (fst (snapshotkv_Snapshot C kv)))"
    by (simp add: snapshotkv_Snapshot_def Let_def CurrentStore_last)
  show "ck_Get C (CurrentStore (fst (snapshotkv_Snapshot C kv))) = ck_Get C (CurrentStore kv)"
    by (simp add: snapshotkv_Snapshot_def Let_def CurrentStore_last new_get del: last.simps)
      (simp add: new_get)
qed

end

section \<open>A reference cache store\<close>

datatype lstore = LBase "bytes \<Rightarrow> bytes option" | LCache "bytes \<Rightarrow> bytes option option" lstore

fun l_get :: "lstore \<Rightarrow> bytes \<Rightarrow> bytes option" where
  "l_get (LBase m) k = m k"
| "l_get (LCache d p) k = (case d k of Some x \<Rightarrow> x | None \<Rightarrow> l_get p k)"

fun l_put :: "bytes \<Rightarrow> bytes option \<Rightarrow> lstore \<Rightarrow> lstore" where
  "l_put k x (LBase m) = LBase (m(k := x))"
| "l_put k x (LCache d p) = LCache (d(k \<mapsto> x)) p"

fun l_write :: "lstore \<Rightarrow> lstore \<Rightarrow> lstore" where
  "l_write (LCache d _) (LBase m) = LBase (\<lambda>k. case d k of Some x \<Rightarrow> x | None \<Rightarrow> m k)"
| "l_write (LCache d _) (LCache d' q) = LCache (\<lambda>k. case d k of Some x \<Rightarrow> Some x | None \<Rightarrow> d' k) q"
| "l_write (LBase _) p = p"

fun l_over :: "lstore \<Rightarrow> lstore \<Rightarrow> bool" where
  "l_over (LCache _ p) q \<longleftrightarrow> p = q"
| "l_over (LBase _) q \<longleftrightarrow> False"

definition ref_cachekv :: "lstore cachekv_ops" where
  "ref_cachekv =
     \<lparr>ck_NewStore = LCache (\<lambda>_. None), ck_Write = l_write, ck_Set = (\<lambda>k v. l_put k (Some v)),
      ck_Delete = (\<lambda>k. l_put k None), ck_Get = l_get\<rparr>"

lemma l_get_put: "l_get (l_put k x s) = (l_get s)(k := x)"
  by (cases s) (auto simp: fun_eq_iff)

interpretation rck: cachekv ref_cachekv l_over
proof
  fix c p assume o: "l_over c p"
  then obtain d where c: "c = LCache d p" by (cases c) auto
  show "ck_Get ref_cachekv (ck_Write ref_cachekv c p) = ck_Get ref_cachekv c"
    by (cases p) (auto simp: ref_cachekv_def c fun_eq_iff split: option.splits)
  show "l_over (ck_Write ref_cachekv c p) q" if "l_over p q" for q
    using that by (cases p) (auto simp: ref_cachekv_def c)
  show "l_over (ck_Set ref_cachekv k v c) p" "l_over (ck_Delete ref_cachekv k c) p" for k v
    by (auto simp: ref_cachekv_def c)
qed (auto simp: ref_cachekv_def l_get_put fun_eq_iff)

section \<open>Properties\<close>

text \<open>
  Reverting the multi store to a snapshot gives back exactly the stores, and the head, from
  before the snapshot was taken, whatever was written, snapshotted and reverted above it in between.
\<close>

lemma snapshotmulti_revert_restores:
  assumes "lockstep s" and "storeKeys s \<noteq> []" and "snapshotmulti_Snapshot C s = Ok (s1, n)" and "ms_run C n s1 s'"
  shows "snapshotmulti_RevertToSnapshot n s' = Ok s"
proof -
  have n: "n = head s" using lockstep_Snapshot [OF assms(1,3)] by simp
  obtain key where "key \<in> set (storeKeys s)" using assms(2) by (cases "storeKeys s") auto
  then have "0 \<le> head s" using lockstepD(1) [OF assms(1)] by fastforce
  then show ?thesis
    using below_kept_revert [OF assms(1)] below_kept_run [OF assms(4) _ assms(2) below_kept_start [OF assms(1,3)]]
    by (simp add: n)
qed

definition ref_multi :: "lstore snapshotmulti" where
  "ref_multi = snapshotmulti_NewStore (\<lambda>_. LCache (\<lambda>_. None) (LBase (\<lambda>_. None))) [''evm'', ''bank'']"

lemma ref_multi_lockstep: "lockstep ref_multi" "storeKeys ref_multi \<noteq> []"
proof -
  show "lockstep ref_multi" unfolding ref_multi_def by (rule lockstep_NewStore) simp
  show "storeKeys ref_multi \<noteq> []" by (simp add: ref_multi_def snapshotmulti_NewStore_def SortedKVStoreKeys_def)
qed

text \<open>
  The multi store keeps all its stores at the same depth, so a revert panics exactly when the
  index is negative or not below the number of snapshots taken.
\<close>

lemma snapshotmulti_revert_bounds:
  assumes "lockstep s" and "storeKeys s \<noteq> []"
  shows "if 0 \<le> target \<and> target < head s
    then \<exists>s'. snapshotmulti_RevertToSnapshot target s = Ok s' \<and> lockstep s' \<and> head s' = target
    else snapshotmulti_RevertToSnapshot target s = Panic ''snapshot index out of bound''"
  using Revert_Ok [OF assms(1), of target] lockstep_Revert [OF assms(1), of target]
    Revert_out_of_bounds [OF assms, of target] by (auto simp: not_less not_le)

text \<open>
  \<open>Write\<close> flushes every stack of caches: each base store afterwards reads exactly like the store
  that was current, the stacks are empty and the head is back at its initial value.
\<close>

lemma snapshotmulti_Write_flushes:
  assumes "cachekv C over" and "lockstep s"
    and "\<And>key kv. stores s key = Some kv \<Longrightarrow> layered over (bases key) (initialStore kv # cacheStores kv)"
  shows "\<exists>bases' s'. snapshotmulti_Write C bases s = Ok (bases', s') \<and> lockstep s' \<and> head s' = InitialHead \<and>
    (\<forall>key kv. stores s key = Some kv \<longrightarrow> ck_Get C (bases' key) = ck_Get C (CurrentStore kv))"
proof -
  let ?st = "\<lambda>key. if key \<in> set (storeKeys s)
      then map_option (\<lambda>kv. snd (snapshotkv_Commit C (bases key) kv)) (stores s key) else stores s key"
  have "on_stores (\<lambda>key kv. Ok (snd (snapshotkv_Commit C (bases key) kv))) s = Ok (s\<lparr>stores := ?st\<rparr>)"
    by (rule on_stores_Ok [OF lockstepD(3) [OF assms(2)]]) (use lockstepD(1) [OF assms(2)] in blast)
  moreover have "depth (s\<lparr>stores := ?st, head := InitialHead\<rparr>) key =
      (if key \<in> set (storeKeys s) then map_option (\<lambda>_. InitialHead) (depth s key) else depth s key)" for key
    by (simp add: depth_def option.map_comp o_def snapshotkv_Commit_def Let_def InitialHead_def)
  then have "lockstep (s\<lparr>stores := ?st, head := InitialHead\<rparr>)"
    using assms(2) by (simp add: lockstep_def)
  moreover have "key \<in> set (storeKeys s)" if "stores s key = Some kv" for key kv
    using lockstepD(2) [OF assms(2), of key] that by auto
  ultimately show ?thesis
    using cachekv.Commit_get(1) [OF assms(1) assms(3)] by (auto simp: snapshotmulti_Write_def)
qed

end
