(* ===== verification/StateDB.thy ===== *)
theory StateDB
  imports AccessList SnapshotStore
begin

text \<open>
  \<^verbatim>\<open>x/vm/statedb\<close>: the journaled EVM state (\<^verbatim>\<open>statedb.go\<close>, \<^verbatim>\<open>state_object.go\<close>, \<^verbatim>\<open>journal.go\<close>).
  A state object is only ever changed through its live pointer in \<^verbatim>\<open>stateObjects\<close>, and balances
  and code are replaced, never mutated in place, so objects are values: a method of an object takes
  the live object and writes the changed one back under its address. The keeper below is a record
  of operations over the context; \<^verbatim>\<open>crypto.Keccak256Hash\<close> and the SDK's cache store are fields
  of the same record. Go's \<^verbatim>\<open>int\<close> identifiers and indices are mathematical integers.
\<close>

section \<open>Data\<close>

record Account =
  Nonce :: uint64
  Balance :: uint256
  CodeHash :: hash

record stateObject =
  account :: Account
  code :: "bytes option"
  originStorage :: "hash \<Rightarrow> hash option"
  dirtyStorage :: storage
  obj_address :: addr
  dirtyCode :: bool
  selfDestructed :: bool
  newContract :: bool

datatype 'e journalEntry =
    createObjectChange addr
  | resetObjectChange stateObject
  | selfDestructChange addr bool uint256
  | balanceChange addr uint256
  | nonceChange addr uint64
  | storageChange addr hash hash
  | transientStorageChange addr hash hash
  | codeChange addr "bytes option" hash
  | refundChange uint64
  | addLogChange
  | accessListAddAccountChange addr
  | accessListAddSlotChange addr hash
  | precompileCallChange int "'e list"
  | createContractChange addr

fun Dirtied :: "'e journalEntry \<Rightarrow> addr option" where
  "Dirtied (createObjectChange a) = Some a"
| "Dirtied (resetObjectChange _) = None"
| "Dirtied (selfDestructChange a _ _) = Some a"
| "Dirtied (balanceChange a _) = Some a"
| "Dirtied (nonceChange a _) = Some a"
| "Dirtied (storageChange a _ _) = Some a"
| "Dirtied (transientStorageChange _ _ _) = None"
| "Dirtied (codeChange a _ _) = Some a"
| "Dirtied (refundChange _) = None"
| "Dirtied addLogChange = None"
| "Dirtied (accessListAddAccountChange _) = None"
| "Dirtied (accessListAddSlotChange _ _) = None"
| "Dirtied (precompileCallChange _ _) = None"
| "Dirtied (createContractChange _) = None"

record TxConfig =
  BlockHash :: hash
  TxHash :: hash
  TxIndex :: uint64
  LogIndex :: uint64

record eth_log =
  log_Address :: addr
  log_Topics :: "hash list"
  log_Data :: bytes
  log_BlockNumber :: uint64
  log_TxHash :: hash
  log_BlockHash :: hash
  log_TxIndex :: uint64
  log_Index :: uint64
  log_Removed :: bool

record revision =
  rev_id :: int
  journalIndex :: nat

text \<open>
  The closure \<^verbatim>\<open>writeCache\<close> emits either the events of the cache context or the events saved with
  a reverted precompile call, and then writes the cache multi store.
\<close>

datatype 'e write_cache = WriteCacheCtx | WriteEvents "'e list"

record ('c, 'v, 'e) statedb =
  ctx :: 'c
  snapshotter :: "'v snapshotmulti option"
  cacheEvents :: "'e list"
  writeCache :: "'e write_cache option"
  transientStorage :: transient
  entries :: "'e journalEntry list"
  dirties :: "(addr, int) kv"
  validRevisions :: "revision list"
  nextRevisionID :: int
  stateObjects :: "addr \<Rightarrow> stateObject option"
  txConfig :: TxConfig
  refund :: uint64
  logs :: "eth_log list"
  accessList :: accessList
  precompileCallsCounter :: uint8

record ('c, 'v, 'e) db_keeper =
  kGetAccount :: "'c \<Rightarrow> addr \<Rightarrow> Account option"
  kGetState :: "'c \<Rightarrow> addr \<Rightarrow> hash \<Rightarrow> hash"
  kGetCode :: "'c \<Rightarrow> hash \<Rightarrow> bytes option"
  kForEachStorage :: "'c \<Rightarrow> addr \<Rightarrow> (hash \<times> hash) list"
  kSetAccount :: "addr \<Rightarrow> Account \<Rightarrow> 'c \<Rightarrow> 'c \<times> err option"
  kDeleteState :: "addr \<Rightarrow> hash \<Rightarrow> 'c \<Rightarrow> 'c"
  kSetState :: "addr \<Rightarrow> hash \<Rightarrow> bytes \<Rightarrow> 'c \<Rightarrow> 'c"
  kDeleteCode :: "hash \<Rightarrow> 'c \<Rightarrow> 'c"
  kSetCode :: "hash \<Rightarrow> bytes \<Rightarrow> 'c \<Rightarrow> 'c"
  kDeleteAccount :: "addr \<Rightarrow> 'c \<Rightarrow> 'c \<times> err option"
  ctx_events :: "'c \<Rightarrow> 'e list"
  kKVStoreKeys :: "string list"
  ctx_stores :: "'c \<Rightarrow> (string \<Rightarrow> 'v) option"
  ctx_put_stores :: "(string \<Rightarrow> 'v option) \<Rightarrow> 'c \<Rightarrow> 'c"
  ctx_with_events :: "'e list \<Rightarrow> 'c \<Rightarrow> 'c"
  cache_ops :: "'v cachekv_ops"
  keccak :: "bytes \<Rightarrow> hash"

definition EmptyCodeHash :: "('c, 'v, 'e) db_keeper \<Rightarrow> hash" where
  "EmptyCodeHash K = keccak K []"

definition IsEmptyCodeHash :: "('c, 'v, 'e) db_keeper \<Rightarrow> hash \<Rightarrow> bool" where
  "IsEmptyCodeHash K h \<longleftrightarrow> h = EmptyCodeHash K"

definition IsContract :: "('c, 'v, 'e) db_keeper \<Rightarrow> Account \<Rightarrow> bool" where
  "IsContract K acct \<longleftrightarrow> \<not> IsEmptyCodeHash K (CodeHash acct)"

definition NewEmptyAccount :: "('c, 'v, 'e) db_keeper \<Rightarrow> Account" where
  "NewEmptyAccount K = \<lparr>Nonce = 0, Balance = 0, CodeHash = EmptyCodeHash K\<rparr>"

text \<open>\<open>None\<close> is the literal \<^verbatim>\<open>Account{}\<close>, whose nil balance and code hash the function replaces.\<close>

definition newObject :: "('c, 'v, 'e) db_keeper \<Rightarrow> addr \<Rightarrow> Account option \<Rightarrow> stateObject" where
  "newObject K a acct =
     \<lparr>account = (case acct of None \<Rightarrow> \<lparr>Nonce = 0, Balance = 0, CodeHash = EmptyCodeHash K\<rparr> | Some acct \<Rightarrow> acct),
      code = None, originStorage = (\<lambda>_. None), dirtyStorage = [], obj_address = a,
      dirtyCode = False, selfDestructed = False, newContract = False\<rparr>"

definition empty :: "('c, 'v, 'e) db_keeper \<Rightarrow> stateObject \<Rightarrow> bool" where
  "empty K obj \<longleftrightarrow> Nonce (account obj) = 0 \<and> Balance (account obj) = 0 \<and> IsEmptyCodeHash K (CodeHash (account obj))"

definition New :: "'c \<Rightarrow> TxConfig \<Rightarrow> ('c, 'v, 'e) statedb" where
  "New c cfg =
     \<lparr>ctx = c, snapshotter = None, cacheEvents = [], writeCache = None, transientStorage = newTransientStorage,
      entries = [], dirties = [], validRevisions = [], nextRevisionID = 0, stateObjects = (\<lambda>_. None),
      txConfig = cfg, refund = 0, logs = [], accessList = newAccessList, precompileCallsCounter = 0\<rparr>"

section \<open>Journal and live objects\<close>

definition journal_append :: "'e journalEntry \<Rightarrow> ('c, 'v, 'e) statedb \<Rightarrow> ('c, 'v, 'e) statedb" where
  "journal_append e db =
     db\<lparr>entries := entries db @ [e],
        dirties := (case Dirtied e of
          None \<Rightarrow> dirties db
        | Some a \<Rightarrow> kv_set a (kv_amount (dirties db) a + 1) (dirties db))\<rparr>"

definition sortedDirties :: "('c, 'v, 'e) statedb \<Rightarrow> addr list" where
  "sortedDirties db = map fst (dirties db)"

definition setStateObject :: "stateObject \<Rightarrow> ('c, 'v, 'e) statedb \<Rightarrow> ('c, 'v, 'e) statedb" where
  "setStateObject obj db = db\<lparr>stateObjects := (stateObjects db)(obj_address obj \<mapsto> obj)\<rparr>"

definition getStateObject ::
  "('c, 'v, 'e) db_keeper \<Rightarrow> addr \<Rightarrow> ('c, 'v, 'e) statedb \<Rightarrow> stateObject option \<times> ('c, 'v, 'e) statedb" where
  "getStateObject K a db =
     (case stateObjects db a of
        Some obj \<Rightarrow> (Some obj, db)
      | None \<Rightarrow>
          (case kGetAccount K (ctx db) a of
             None \<Rightarrow> (None, db)
           | Some acct \<Rightarrow> let obj = newObject K a (Some acct) in (Some obj, setStateObject obj db)))"

definition createObject ::
  "('c, 'v, 'e) db_keeper \<Rightarrow> addr \<Rightarrow> ('c, 'v, 'e) statedb \<Rightarrow>
     (stateObject \<times> stateObject option) \<times> ('c, 'v, 'e) statedb" where
  "createObject K a db =
     (let (prev, db) = getStateObject K a db;
          newobj = newObject K a None;
          db = journal_append (case prev of None \<Rightarrow> createObjectChange a | Some p \<Rightarrow> resetObjectChange p) db
      in ((newobj, prev), setStateObject newobj db))"

definition getOrNewStateObject ::
  "('c, 'v, 'e) db_keeper \<Rightarrow> addr \<Rightarrow> ('c, 'v, 'e) statedb \<Rightarrow> stateObject \<times> ('c, 'v, 'e) statedb" where
  "getOrNewStateObject K a db =
     (case getStateObject K a db of
        (Some obj, db) \<Rightarrow> (obj, db)
      | (None, db) \<Rightarrow> (case createObject K a db of ((newobj, _), db) \<Rightarrow> (newobj, db)))"

section \<open>State objects\<close>

definition obj_setBalance :: "uint256 \<Rightarrow> stateObject \<Rightarrow> stateObject" where
  "obj_setBalance amount obj = obj\<lparr>account := (account obj)\<lparr>Balance := amount\<rparr>\<rparr>"

definition obj_setNonce :: "uint64 \<Rightarrow> stateObject \<Rightarrow> stateObject" where
  "obj_setNonce nonce obj = obj\<lparr>account := (account obj)\<lparr>Nonce := nonce\<rparr>\<rparr>"

definition obj_setCode :: "hash \<Rightarrow> bytes option \<Rightarrow> stateObject \<Rightarrow> stateObject" where
  "obj_setCode codeHash c obj =
     obj\<lparr>code := c, account := (account obj)\<lparr>CodeHash := codeHash\<rparr>, dirtyCode := True\<rparr>"

definition obj_setState :: "hash \<Rightarrow> hash \<Rightarrow> stateObject \<Rightarrow> stateObject" where
  "obj_setState key value obj = obj\<lparr>dirtyStorage := kv_set key value (dirtyStorage obj)\<rparr>"

definition markSelfDestructed :: "stateObject \<Rightarrow> stateObject" where
  "markSelfDestructed obj = obj\<lparr>selfDestructed := True\<rparr>"

definition obj_SetBalance ::
  "uint256 \<Rightarrow> stateObject \<Rightarrow> ('c, 'v, 'e) statedb \<Rightarrow> uint256 \<times> ('c, 'v, 'e) statedb" where
  "obj_SetBalance amount obj db =
     (let prev = Balance (account obj);
          db = journal_append (balanceChange (obj_address obj) prev) db
      in (prev, setStateObject (obj_setBalance amount obj) db))"

definition obj_AddBalance ::
  "uint256 \<Rightarrow> stateObject \<Rightarrow> ('c, 'v, 'e) statedb \<Rightarrow> uint256 \<times> ('c, 'v, 'e) statedb" where
  "obj_AddBalance amount obj db =
     (if amount = 0 then (Balance (account obj), db)
      else obj_SetBalance (Balance (account obj) + amount) obj db)"

definition obj_SubBalance ::
  "uint256 \<Rightarrow> stateObject \<Rightarrow> ('c, 'v, 'e) statedb \<Rightarrow> uint256 \<times> ('c, 'v, 'e) statedb" where
  "obj_SubBalance amount obj db =
     (if amount = 0 then (Balance (account obj), db)
      else obj_SetBalance (Balance (account obj) - amount) obj db)"

definition obj_SetNonce :: "uint64 \<Rightarrow> stateObject \<Rightarrow> ('c, 'v, 'e) statedb \<Rightarrow> ('c, 'v, 'e) statedb" where
  "obj_SetNonce nonce obj db =
     setStateObject (obj_setNonce nonce obj)
       (journal_append (nonceChange (obj_address obj) (Nonce (account obj))) db)"

definition obj_Code ::
  "('c, 'v, 'e) db_keeper \<Rightarrow> stateObject \<Rightarrow> ('c, 'v, 'e) statedb \<Rightarrow>
     bytes option \<times> stateObject \<times> ('c, 'v, 'e) statedb" where
  "obj_Code K obj db =
     (if code obj \<noteq> None then (code obj, obj, db)
      else if IsEmptyCodeHash K (CodeHash (account obj)) then (None, obj, db)
      else let c = kGetCode K (ctx db) (CodeHash (account obj)); obj = obj\<lparr>code := c\<rparr>
           in (c, obj, setStateObject obj db))"

definition obj_SetCode ::
  "('c, 'v, 'e) db_keeper \<Rightarrow> hash \<Rightarrow> bytes option \<Rightarrow> stateObject \<Rightarrow> ('c, 'v, 'e) statedb \<Rightarrow> ('c, 'v, 'e) statedb" where
  "obj_SetCode K codeHash c obj db =
     (case obj_Code K obj db of (prevcode, obj, db) \<Rightarrow>
        setStateObject (obj_setCode codeHash c obj)
          (journal_append (codeChange (obj_address obj) prevcode (CodeHash (account obj))) db))"

definition obj_GetCommittedState ::
  "('c, 'v, 'e) db_keeper \<Rightarrow> hash \<Rightarrow> stateObject \<Rightarrow> ('c, 'v, 'e) statedb \<Rightarrow>
     hash \<times> stateObject \<times> ('c, 'v, 'e) statedb" where
  "obj_GetCommittedState K key obj db =
     (case originStorage obj key of
        Some value \<Rightarrow> (value, obj, db)
      | None \<Rightarrow>
          let value = kGetState K (ctx db) (obj_address obj) key;
              obj = obj\<lparr>originStorage := (originStorage obj)(key \<mapsto> value)\<rparr>
          in (value, obj, setStateObject obj db))"

definition obj_GetState ::
  "('c, 'v, 'e) db_keeper \<Rightarrow> hash \<Rightarrow> stateObject \<Rightarrow> ('c, 'v, 'e) statedb \<Rightarrow>
     hash \<times> stateObject \<times> ('c, 'v, 'e) statedb" where
  "obj_GetState K key obj db =
     (case kv_get (dirtyStorage obj) key of
        Some value \<Rightarrow> (value, obj, db)
      | None \<Rightarrow> obj_GetCommittedState K key obj db)"

definition obj_SetState ::
  "('c, 'v, 'e) db_keeper \<Rightarrow> hash \<Rightarrow> hash \<Rightarrow> stateObject \<Rightarrow> ('c, 'v, 'e) statedb \<Rightarrow>
     hash \<times> ('c, 'v, 'e) statedb" where
  "obj_SetState K key value obj db =
     (case obj_GetState K key obj db of (prev, obj, db) \<Rightarrow>
        if prev = value then (prev, db)
        else (prev, setStateObject (obj_setState key value obj)
                      (journal_append (storageChange (obj_address obj) key prev) db)))"

section \<open>Reading\<close>

definition Exist :: "('c, 'v, 'e) db_keeper \<Rightarrow> addr \<Rightarrow> ('c, 'v, 'e) statedb \<Rightarrow> bool \<times> ('c, 'v, 'e) statedb" where
  "Exist K a db = (case getStateObject K a db of (obj, db) \<Rightarrow> (obj \<noteq> None, db))"

definition Empty :: "('c, 'v, 'e) db_keeper \<Rightarrow> addr \<Rightarrow> ('c, 'v, 'e) statedb \<Rightarrow> bool \<times> ('c, 'v, 'e) statedb" where
  "Empty K a db =
     (case getStateObject K a db of (None, db) \<Rightarrow> (True, db) | (Some so, db) \<Rightarrow> (empty K so, db))"

definition db_GetBalance :: "('c, 'v, 'e) db_keeper \<Rightarrow> addr \<Rightarrow> ('c, 'v, 'e) statedb \<Rightarrow> uint256 \<times> ('c, 'v, 'e) statedb" where
  "db_GetBalance K a db =
     (case getStateObject K a db of (None, db) \<Rightarrow> (0, db) | (Some so, db) \<Rightarrow> (Balance (account so), db))"

definition GetNonce :: "('c, 'v, 'e) db_keeper \<Rightarrow> addr \<Rightarrow> ('c, 'v, 'e) statedb \<Rightarrow> uint64 \<times> ('c, 'v, 'e) statedb" where
  "GetNonce K a db =
     (case getStateObject K a db of (None, db) \<Rightarrow> (0, db) | (Some so, db) \<Rightarrow> (Nonce (account so), db))"

definition GetCode :: "('c, 'v, 'e) db_keeper \<Rightarrow> addr \<Rightarrow> ('c, 'v, 'e) statedb \<Rightarrow> bytes option \<times> ('c, 'v, 'e) statedb" where
  "GetCode K a db =
     (case getStateObject K a db of
        (None, db) \<Rightarrow> (None, db)
      | (Some so, db) \<Rightarrow> (case obj_Code K so db of (c, _, db) \<Rightarrow> (c, db)))"

definition GetCodeSize :: "('c, 'v, 'e) db_keeper \<Rightarrow> addr \<Rightarrow> ('c, 'v, 'e) statedb \<Rightarrow> nat \<times> ('c, 'v, 'e) statedb" where
  "GetCodeSize K a db =
     (case getStateObject K a db of
        (None, db) \<Rightarrow> (0, db)
      | (Some so, db) \<Rightarrow>
          (case obj_Code K so db of (c, _, db) \<Rightarrow> (case c of None \<Rightarrow> 0 | Some bs \<Rightarrow> length bs, db)))"

definition GetCodeHash :: "('c, 'v, 'e) db_keeper \<Rightarrow> addr \<Rightarrow> ('c, 'v, 'e) statedb \<Rightarrow> hash \<times> ('c, 'v, 'e) statedb" where
  "GetCodeHash K a db =
     (case getStateObject K a db of (None, db) \<Rightarrow> (0, db) | (Some so, db) \<Rightarrow> (CodeHash (account so), db))"

definition GetState :: "('c, 'v, 'e) db_keeper \<Rightarrow> addr \<Rightarrow> hash \<Rightarrow> ('c, 'v, 'e) statedb \<Rightarrow> hash \<times> ('c, 'v, 'e) statedb" where
  "GetState K a key db =
     (case getStateObject K a db of
        (None, db) \<Rightarrow> (0, db)
      | (Some so, db) \<Rightarrow> (case obj_GetState K key so db of (v, _, db) \<Rightarrow> (v, db)))"

definition GetCommittedState ::
  "('c, 'v, 'e) db_keeper \<Rightarrow> addr \<Rightarrow> hash \<Rightarrow> ('c, 'v, 'e) statedb \<Rightarrow> hash \<times> ('c, 'v, 'e) statedb" where
  "GetCommittedState K a key db =
     (case getStateObject K a db of
        (None, db) \<Rightarrow> (0, db)
      | (Some so, db) \<Rightarrow> (case obj_GetCommittedState K key so db of (v, _, db) \<Rightarrow> (v, db)))"

definition HasSelfDestructed ::
  "('c, 'v, 'e) db_keeper \<Rightarrow> addr \<Rightarrow> ('c, 'v, 'e) statedb \<Rightarrow> bool \<times> ('c, 'v, 'e) statedb" where
  "HasSelfDestructed K a db =
     (case getStateObject K a db of (None, db) \<Rightarrow> (False, db) | (Some so, db) \<Rightarrow> (selfDestructed so, db))"

definition GetTransientState :: "addr \<Rightarrow> hash \<Rightarrow> ('c, 'v, 'e) statedb \<Rightarrow> hash" where
  "GetTransientState a key db = transient_Get (transientStorage db) a key"

definition AddressInAccessList :: "addr \<Rightarrow> ('c, 'v, 'e) statedb \<Rightarrow> bool" where
  "AddressInAccessList a db = ContainsAddress (accessList db) a"

definition SlotInAccessList :: "addr \<Rightarrow> hash \<Rightarrow> ('c, 'v, 'e) statedb \<Rightarrow> (bool \<times> bool) res" where
  "SlotInAccessList a slot db = Contains (accessList db) a slot"

text \<open>The callback takes the accumulator and returns whether to go on.\<close>

fun for_storage :: "(hash \<Rightarrow> hash \<Rightarrow> 'x \<Rightarrow> 'x \<times> bool) \<Rightarrow> storage \<Rightarrow> (hash \<times> hash) list \<Rightarrow> 'x \<Rightarrow> 'x" where
  "for_storage cb dirty [] x = x"
| "for_storage cb dirty ((key, value) # es) x =
     (case cb key (case kv_get dirty key of Some v \<Rightarrow> v | None \<Rightarrow> value) x of
        (y, go) \<Rightarrow> if go then for_storage cb dirty es y else y)"

definition ForEachStorage ::
  "('c, 'v, 'e) db_keeper \<Rightarrow> addr \<Rightarrow> (hash \<Rightarrow> hash \<Rightarrow> 'x \<Rightarrow> 'x \<times> bool) \<Rightarrow> 'x \<Rightarrow>
     ('c, 'v, 'e) statedb \<Rightarrow> 'x \<times> ('c, 'v, 'e) statedb" where
  "ForEachStorage K a cb x db =
     (case getStateObject K a db of
        (None, db) \<Rightarrow> (x, db)
      | (Some so, db) \<Rightarrow> (for_storage cb (dirtyStorage so) (kForEachStorage K (ctx db) a) x, db))"

section \<open>Writing\<close>

definition CreateAccount :: "('c, 'v, 'e) db_keeper \<Rightarrow> addr \<Rightarrow> ('c, 'v, 'e) statedb \<Rightarrow> ('c, 'v, 'e) statedb" where
  "CreateAccount K a db =
     (case createObject K a db of ((newObj, prev), db) \<Rightarrow>
        (case prev of
           None \<Rightarrow> db
         | Some p \<Rightarrow> setStateObject (obj_setBalance (Balance (account p)) newObj) db))"

definition CreateContract ::
  "('c, 'v, 'e) db_keeper \<Rightarrow> addr \<Rightarrow> ('c, 'v, 'e) statedb \<Rightarrow> ('c, 'v, 'e) statedb res" where
  "CreateContract K a db =
     (case getStateObject K a db of
        (None, _) \<Rightarrow> Panic ''nil pointer''
      | (Some obj, db) \<Rightarrow>
          if \<not> newContract obj
          then Ok (journal_append (createContractChange a) (setStateObject (obj\<lparr>newContract := True\<rparr>) db))
          else Ok db)"

definition AddBalance ::
  "('c, 'v, 'e) db_keeper \<Rightarrow> addr \<Rightarrow> uint256 \<Rightarrow> ('c, 'v, 'e) statedb \<Rightarrow> uint256 \<times> ('c, 'v, 'e) statedb" where
  "AddBalance K a amount db = (case getOrNewStateObject K a db of (so, db) \<Rightarrow> obj_AddBalance amount so db)"

definition SubBalance ::
  "('c, 'v, 'e) db_keeper \<Rightarrow> addr \<Rightarrow> uint256 \<Rightarrow> ('c, 'v, 'e) statedb \<Rightarrow> uint256 \<times> ('c, 'v, 'e) statedb" where
  "SubBalance K a amount db =
     (case getOrNewStateObject K a db of (so, db) \<Rightarrow>
        if amount = 0 then (Balance (account so), db) else obj_SubBalance amount so db)"

definition SetNonce ::
  "('c, 'v, 'e) db_keeper \<Rightarrow> addr \<Rightarrow> uint64 \<Rightarrow> ('c, 'v, 'e) statedb \<Rightarrow> ('c, 'v, 'e) statedb" where
  "SetNonce K a nonce db = (case getOrNewStateObject K a db of (so, db) \<Rightarrow> obj_SetNonce nonce so db)"

definition SetCode ::
  "('c, 'v, 'e) db_keeper \<Rightarrow> addr \<Rightarrow> bytes option \<Rightarrow> ('c, 'v, 'e) statedb \<Rightarrow>
     bytes option \<times> ('c, 'v, 'e) statedb" where
  "SetCode K a c db =
     (case getOrNewStateObject K a db of (so, db) \<Rightarrow>
        (code so, obj_SetCode K (keccak K (case c of None \<Rightarrow> [] | Some bs \<Rightarrow> bs)) c so db))"

definition SetState ::
  "('c, 'v, 'e) db_keeper \<Rightarrow> addr \<Rightarrow> hash \<Rightarrow> hash \<Rightarrow> ('c, 'v, 'e) statedb \<Rightarrow> hash \<times> ('c, 'v, 'e) statedb" where
  "SetState K a key value db = (case getOrNewStateObject K a db of (so, db) \<Rightarrow> obj_SetState K key value so db)"

definition SelfDestruct ::
  "('c, 'v, 'e) db_keeper \<Rightarrow> addr \<Rightarrow> ('c, 'v, 'e) statedb \<Rightarrow> uint256 \<times> ('c, 'v, 'e) statedb" where
  "SelfDestruct K a db =
     (case getStateObject K a db of
        (None, db) \<Rightarrow> (0, db)
      | (Some so, db) \<Rightarrow>
          let prevBalance = Balance (account so);
              db = journal_append (selfDestructChange a (selfDestructed so) prevBalance) db
          in (prevBalance, setStateObject (obj_setBalance 0 (markSelfDestructed so)) db))"

definition SelfDestruct6780 ::
  "('c, 'v, 'e) db_keeper \<Rightarrow> addr \<Rightarrow> ('c, 'v, 'e) statedb \<Rightarrow> (uint256 \<times> bool) \<times> ('c, 'v, 'e) statedb" where
  "SelfDestruct6780 K a db =
     (case getStateObject K a db of
        (None, db) \<Rightarrow> ((0, False), db)
      | (Some so, db) \<Rightarrow>
          if newContract so
          then (case SelfDestruct K a db of (prev, db) \<Rightarrow> ((prev, True), db))
          else ((Balance (account so), False), db))"

definition setTransientState :: "addr \<Rightarrow> hash \<Rightarrow> hash \<Rightarrow> ('c, 'v, 'e) statedb \<Rightarrow> ('c, 'v, 'e) statedb" where
  "setTransientState a key value db = db\<lparr>transientStorage := transient_Set a key value (transientStorage db)\<rparr>"

definition SetTransientState :: "addr \<Rightarrow> hash \<Rightarrow> hash \<Rightarrow> ('c, 'v, 'e) statedb \<Rightarrow> ('c, 'v, 'e) statedb" where
  "SetTransientState a key value db =
     (let prev = GetTransientState a key db in
      if prev = value then db
      else setTransientState a key value (journal_append (transientStorageChange a key prev) db))"

definition AddLog :: "eth_log \<Rightarrow> ('c, 'v, 'e) statedb \<Rightarrow> ('c, 'v, 'e) statedb" where
  "AddLog l db =
     (let db = journal_append addLogChange db;
          l = l\<lparr>log_TxHash := TxHash (txConfig db), log_BlockHash := BlockHash (txConfig db),
                log_TxIndex := TxIndex (txConfig db),
                log_Index := LogIndex (txConfig db) + word_of_nat (length (logs db))\<rparr>
      in db\<lparr>logs := logs db @ [l]\<rparr>)"

definition AddRefund :: "uint64 \<Rightarrow> ('c, 'v, 'e) statedb \<Rightarrow> ('c, 'v, 'e) statedb" where
  "AddRefund gas db =
     (let db = journal_append (refundChange (refund db)) db in db\<lparr>refund := refund db + gas\<rparr>)"

definition SubRefund :: "uint64 \<Rightarrow> ('c, 'v, 'e) statedb \<Rightarrow> ('c, 'v, 'e) statedb res" where
  "SubRefund gas db =
     (let db = journal_append (refundChange (refund db)) db in
      if gas > refund db then Panic ''Refund counter below zero''
      else Ok (db\<lparr>refund := refund db - gas\<rparr>))"

definition AddAddressToAccessList :: "addr \<Rightarrow> ('c, 'v, 'e) statedb \<Rightarrow> ('c, 'v, 'e) statedb" where
  "AddAddressToAccessList a db =
     (case AddAddress a (accessList db) of (added, al) \<Rightarrow>
        let db = db\<lparr>accessList := al\<rparr> in
        if added then journal_append (accessListAddAccountChange a) db else db)"

definition AddSlotToAccessList :: "addr \<Rightarrow> hash \<Rightarrow> ('c, 'v, 'e) statedb \<Rightarrow> ('c, 'v, 'e) statedb res" where
  "AddSlotToAccessList a slot db =
     bind_res (AddSlot a slot (accessList db)) (\<lambda>((addrMod, slotMod), al).
     let db = db\<lparr>accessList := al\<rparr>;
         db = (if addrMod then journal_append (accessListAddAccountChange a) db else db);
         db = (if slotMod then journal_append (accessListAddSlotChange a slot) db else db)
     in Ok db)"

record rules =
  IsEIP2929 :: bool
  IsEIP4762 :: bool
  IsShanghai :: bool

definition add_addresses :: "addr list \<Rightarrow> accessList \<Rightarrow> accessList" where
  "add_addresses as al = fold (\<lambda>a al. snd (AddAddress a al)) as al"

definition add_slots :: "addr \<Rightarrow> hash list \<Rightarrow> accessList \<Rightarrow> accessList res" where
  "add_slots a keys al = for_each (\<lambda>key al. bind_res (AddSlot a key al) (\<lambda>(_, al). Ok al)) keys al"

definition warm_list ::
  "rules \<Rightarrow> addr \<Rightarrow> addr \<Rightarrow> addr option \<Rightarrow> addr list \<Rightarrow> (addr \<times> hash list) list \<Rightarrow> accessList res" where
  "warm_list r sender coinbase dst precompiles al0 =
     (let al = snd (AddAddress sender newAccessList);
          al = (case dst of None \<Rightarrow> al | Some d \<Rightarrow> snd (AddAddress d al));
          al = add_addresses precompiles al
      in bind_res (for_each (\<lambda>(a, keys) al. add_slots a keys (snd (AddAddress a al))) al0 al) (\<lambda>al.
         Ok (if IsShanghai r then snd (AddAddress coinbase al) else al)))"

definition Prepare ::
  "rules \<Rightarrow> addr \<Rightarrow> addr \<Rightarrow> addr option \<Rightarrow> addr list \<Rightarrow> (addr \<times> hash list) list \<Rightarrow>
     ('c, 'v, 'e) statedb \<Rightarrow> ('c, 'v, 'e) statedb res" where
  "Prepare r sender coinbase dst precompiles al0 db =
     bind_res (must (\<not> (IsEIP2929 r \<and> IsEIP4762 r)) ''eip2929 and eip4762 are both activated'') (\<lambda>_.
     bind_res (if IsEIP2929 r then warm_list r sender coinbase dst precompiles al0 else Ok (accessList db)) (\<lambda>al.
     Ok (db\<lparr>accessList := al, transientStorage := newTransientStorage\<rparr>)))"

section \<open>Snapshots\<close>

definition Snapshot :: "('c, 'v, 'e) statedb \<Rightarrow> int \<times> ('c, 'v, 'e) statedb" where
  "Snapshot db =
     (let i = nextRevisionID db in
      (i, db\<lparr>nextRevisionID := nextRevisionID db + 1,
             validRevisions := validRevisions db @ [\<lparr>rev_id = i, journalIndex = length (entries db)\<rparr>]\<rparr>))"

text \<open>\<^verbatim>\<open>RevertMultiStore\<close>: the cache context keeps the events that it has; only the closure changes.\<close>

definition RevertMultiStore ::
  "int \<Rightarrow> 'e list \<Rightarrow> ('c, 'v, 'e) statedb \<Rightarrow> ('c, 'v, 'e) statedb res" where
  "RevertMultiStore snapshot events db =
     (case snapshotter db of
        None \<Rightarrow> Panic ''nil pointer''
      | Some ms \<Rightarrow> bind_res (snapshotmulti_RevertToSnapshot snapshot ms)
          (\<lambda>ms. Ok (db\<lparr>snapshotter := Some ms, writeCache := Some (WriteEvents events)\<rparr>)))"

text \<open>A method called on the result of \<^verbatim>\<open>getStateObject\<close>, which may be nil.\<close>

definition on_object ::
  "('c, 'v, 'e) db_keeper \<Rightarrow> addr \<Rightarrow> (stateObject \<Rightarrow> stateObject) \<Rightarrow> ('c, 'v, 'e) statedb \<Rightarrow>
     ('c, 'v, 'e) statedb res" where
  "on_object K a f db =
     (case getStateObject K a db of
        (None, _) \<Rightarrow> Panic ''nil pointer''
      | (Some obj, db) \<Rightarrow> Ok (setStateObject (f obj) db))"

fun Revert :: "('c, 'v, 'e) db_keeper \<Rightarrow> 'e journalEntry \<Rightarrow> ('c, 'v, 'e) statedb \<Rightarrow> ('c, 'v, 'e) statedb res" where
  "Revert K (createContractChange a) db = on_object K a (\<lambda>obj. obj\<lparr>newContract := False\<rparr>) db"
| "Revert K (precompileCallChange snapshot events) db = RevertMultiStore snapshot events db"
| "Revert K (createObjectChange a) db = Ok (db\<lparr>stateObjects := (stateObjects db)(a := None)\<rparr>)"
| "Revert K (resetObjectChange prev) db = Ok (setStateObject prev db)"
| "Revert K (selfDestructChange a prev prevbalance) db =
     (case getStateObject K a db of
        (None, db) \<Rightarrow> Ok db
      | (Some obj, db) \<Rightarrow> Ok (setStateObject (obj_setBalance prevbalance (obj\<lparr>selfDestructed := prev\<rparr>)) db))"
| "Revert K (balanceChange a prev) db = on_object K a (obj_setBalance prev) db"
| "Revert K (nonceChange a prev) db = on_object K a (obj_setNonce prev) db"
| "Revert K (codeChange a prevcode prevhash) db = on_object K a (obj_setCode prevhash prevcode) db"
| "Revert K (storageChange a key prevalue) db = on_object K a (obj_setState key prevalue) db"
| "Revert K (transientStorageChange a key prevalue) db = Ok (setTransientState a key prevalue db)"
| "Revert K (refundChange prev) db = Ok (db\<lparr>refund := prev\<rparr>)"
| "Revert K addLogChange db =
     (if logs db = [] then Panic ''slice bounds out of range'' else Ok (db\<lparr>logs := butlast (logs db)\<rparr>))"
| "Revert K (accessListAddAccountChange a) db = Ok (db\<lparr>accessList := DeleteAddress a (accessList db)\<rparr>)"
| "Revert K (accessListAddSlotChange a slot) db =
     bind_res (DeleteSlot a slot (accessList db)) (\<lambda>al. Ok (db\<lparr>accessList := al\<rparr>))"

definition drop_dirty :: "'e journalEntry \<Rightarrow> ('c, 'v, 'e) statedb \<Rightarrow> ('c, 'v, 'e) statedb" where
  "drop_dirty e db =
     (case Dirtied e of
        None \<Rightarrow> db
      | Some a \<Rightarrow>
          let n = kv_amount (dirties db) a - 1; ds = kv_set a n (dirties db)
          in db\<lparr>dirties := if n = 0 then kv_delete a ds else ds\<rparr>)"

definition journal_Revert ::
  "('c, 'v, 'e) db_keeper \<Rightarrow> nat \<Rightarrow> ('c, 'v, 'e) statedb \<Rightarrow> ('c, 'v, 'e) statedb res" where
  "journal_Revert K snapshot db =
     bind_res (for_each (\<lambda>e db. bind_res (Revert K e db) (\<lambda>db. Ok (drop_dirty e db)))
         (rev (drop snapshot (entries db))) db)
       (\<lambda>db. Ok (db\<lparr>entries := take snapshot (entries db)\<rparr>))"

text \<open>The binary search of Go's \<^verbatim>\<open>sort.Search\<close>.\<close>

function search_loop :: "(nat \<Rightarrow> bool) \<Rightarrow> nat \<Rightarrow> nat \<Rightarrow> nat" where
  "search_loop f i j =
     (if i < j
      then let h = (i + j) div 2 in if \<not> f h then search_loop f (h + 1) j else search_loop f i h
      else i)"
  by pat_completeness auto
termination by (relation "measure (\<lambda>(f, i, j). j - i)") auto

declare search_loop.simps [simp del]

definition sort_Search :: "nat \<Rightarrow> (nat \<Rightarrow> bool) \<Rightarrow> nat" where
  "sort_Search n f = search_loop f 0 n"

definition RevertToSnapshot ::
  "('c, 'v, 'e) db_keeper \<Rightarrow> int \<Rightarrow> ('c, 'v, 'e) statedb \<Rightarrow> ('c, 'v, 'e) statedb res" where
  "RevertToSnapshot K revid db =
     (let idx = sort_Search (length (validRevisions db)) (\<lambda>i. rev_id (validRevisions db ! i) \<ge> revid) in
      if idx = length (validRevisions db) \<or> rev_id (validRevisions db ! idx) \<noteq> revid
      then Panic ''revision id cannot be reverted''
      else bind_res (journal_Revert K (journalIndex (validRevisions db ! idx)) db) (\<lambda>db.
           Ok (db\<lparr>validRevisions := take idx (validRevisions db)\<rparr>)))"

section \<open>Commit\<close>

text \<open>
  \<^verbatim>\<open>dirtyStorage.SortedKeys\<close> is the order of the association list. The bytes of a hash are always
  32, so the branch that deletes a slot is never taken.
\<close>

definition hash_Bytes :: "hash \<Rightarrow> bytes" where
  "hash_Bytes h = be_bytes 32 h"

definition commit_storage ::
  "('c, 'v, 'e) db_keeper \<Rightarrow> addr \<Rightarrow> storage \<Rightarrow> 'c \<Rightarrow> 'c" where
  "commit_storage K a st c =
     fold (\<lambda>(key, value) c.
        let valueBytes = hash_Bytes value in
        if length valueBytes = 0 then kDeleteState K a key c else kSetState K a key valueBytes c) st c"

definition commit_object :: "('c, 'v, 'e) db_keeper \<Rightarrow> stateObject \<Rightarrow> 'c \<Rightarrow> 'c \<times> err option" where
  "commit_object K obj c =
     (if selfDestructed obj then kDeleteAccount K (obj_address obj) c
      else
        let c = (case code obj of
                   None \<Rightarrow> c
                 | Some bs \<Rightarrow>
                     if dirtyCode obj
                     then if length bs = 0 then kDeleteCode K (CodeHash (account obj)) c
                          else kSetCode K (CodeHash (account obj)) bs c
                     else c)
        in (case kSetAccount K (obj_address obj) (account obj) c of
              (c, Some e) \<Rightarrow> (c, Some e)
            | (c, None) \<Rightarrow> (commit_storage K (obj_address obj) (dirtyStorage obj) c, None)))"

text \<open>The context is passed on together with a returned error: what was written stays written.\<close>

fun commit_objects ::
  "('c, 'v, 'e) db_keeper \<Rightarrow> (addr \<Rightarrow> stateObject option) \<Rightarrow> addr list \<Rightarrow> 'c \<Rightarrow> ('c \<times> err option) res" where
  "commit_objects K objs [] c = Ok (c, None)"
| "commit_objects K objs (a # as) c =
     (case objs a of
        None \<Rightarrow> Panic ''nil pointer''
      | Some obj \<Rightarrow>
          (case commit_object K obj c of
             (c, Some e) \<Rightarrow> Ok (c, Some e)
           | (c, None) \<Rightarrow> commit_objects K objs as c))"

definition commitWithCtx ::
  "('c, 'v, 'e) db_keeper \<Rightarrow> 'c \<Rightarrow> ('c, 'v, 'e) statedb \<Rightarrow> ('c \<times> err option) res" where
  "commitWithCtx K c db = commit_objects K (stateObjects db) (sortedDirties db) c"

definition ctx_emit :: "('c, 'v, 'e) db_keeper \<Rightarrow> 'e list \<Rightarrow> 'c \<Rightarrow> 'c" where
  "ctx_emit K es c = ctx_with_events K (ctx_events K c @ es) c"

text \<open>Calling the closure \<^verbatim>\<open>writeCache\<close>.\<close>

definition pending_events :: "('c, 'v, 'e) statedb \<Rightarrow> 'e list" where
  "pending_events db =
     (case writeCache db of
        None \<Rightarrow> [] | Some WriteCacheCtx \<Rightarrow> cacheEvents db | Some (WriteEvents es) \<Rightarrow> es)"

definition write_cache_call ::
  "('c, 'v, 'e) db_keeper \<Rightarrow> ('c, 'v, 'e) statedb \<Rightarrow> ('c, 'v, 'e) statedb res" where
  "write_cache_call K db =
     (let c = ctx_emit K (pending_events db) (ctx db) in
      case (snapshotter db, ctx_stores K c) of
        (Some ms, Some bases) \<Rightarrow>
          bind_res (snapshotmulti_Write (cache_ops K) bases ms) (\<lambda>(bases, ms).
          Ok (db\<lparr>ctx := ctx_put_stores K (\<lambda>key. if key \<in> set (storeKeys ms) then Some (bases key) else None) c,
                 snapshotter := Some ms\<rparr>))
      | _ \<Rightarrow> Panic ''nil pointer'')"

definition Commit ::
  "('c, 'v, 'e) db_keeper \<Rightarrow> ('c, 'v, 'e) statedb \<Rightarrow> (('c, 'v, 'e) statedb \<times> err option) res" where
  "Commit K db =
     bind_res (if writeCache db \<noteq> None then write_cache_call K db else Ok db) (\<lambda>db.
     bind_res (commitWithCtx K (ctx db) db) (\<lambda>(c, e). Ok (db\<lparr>ctx := c\<rparr>, e)))"

definition Finalise ::
  "('c, 'v, 'e) db_keeper \<Rightarrow> bool \<Rightarrow> ('c, 'v, 'e) statedb \<Rightarrow> ('c, 'v, 'e) statedb" where
  "Finalise K deleteEmptyObjects db =
     fold (\<lambda>a db.
        case stateObjects db a of
          None \<Rightarrow> db
        | Some obj \<Rightarrow>
            if selfDestructed obj \<or> (deleteEmptyObjects \<and> empty K obj)
            then db\<lparr>stateObjects := (stateObjects db)(obj_address obj := None)\<rparr> else db)
      (map fst (dirties db)) db"

section \<open>Calls to precompiles\<close>

text \<open>
  \<^verbatim>\<open>KVStoreKeys\<close> lists every store mounted in the application, so the cache context reads no store
  but those of the snapshot store. \<^verbatim>\<open>CacheContext\<close> starts with a new event manager.
\<close>

definition cache_stores :: "('c, 'v, 'e) db_keeper \<Rightarrow> (string \<Rightarrow> 'v) \<Rightarrow> 'v snapshotmulti" where
  "cache_stores K base =
     snapshotmulti_NewStore (\<lambda>key. ck_NewStore (cache_ops K) (base key)) (kKVStoreKeys K)"

definition cache ::
  "('c, 'v, 'e) db_keeper \<Rightarrow> ('c, 'v, 'e) statedb \<Rightarrow> ('c, 'v, 'e) statedb \<times> err option" where
  "cache K db =
     (case ctx_stores K (ctx db) of
        None \<Rightarrow> (db, Some (ErrPlain ''ctx has no multi store''))
      | Some base \<Rightarrow>
          (db\<lparr>snapshotter := Some (cache_stores K base), cacheEvents := [], writeCache := Some WriteCacheCtx\<rparr>, None))"

definition GetCacheContext ::
  "('c, 'v, 'e) db_keeper \<Rightarrow> ('c, 'v, 'e) statedb \<Rightarrow> ('c, 'v, 'e) statedb \<times> err option" where
  "GetCacheContext K db = (if writeCache db = None then cache K db else (db, None))"

definition MultiStoreSnapshot ::
  "('c, 'v, 'e) db_keeper \<Rightarrow> ('c, 'v, 'e) statedb \<Rightarrow> (int \<times> ('c, 'v, 'e) statedb) res" where
  "MultiStoreSnapshot K db =
     (case snapshotter db of
        None \<Rightarrow> Panic ''nil pointer''
      | Some ms \<Rightarrow> bind_res (snapshotmulti_Snapshot (cache_ops K) ms) (\<lambda>(ms, n).
          Ok (n, db\<lparr>snapshotter := Some ms\<rparr>)))"

definition MaxPrecompileCalls :: uint8 where
  "MaxPrecompileCalls = 7"

definition AddPrecompileFn ::
  "('c, 'v, 'e) db_keeper \<Rightarrow> addr \<Rightarrow> int \<Rightarrow> 'e list \<Rightarrow> ('c, 'v, 'e) statedb \<Rightarrow> ('c, 'v, 'e) statedb \<times> err option" where
  "AddPrecompileFn K a snapshot events db =
     (case getOrNewStateObject K a db of (_, db) \<Rightarrow>
        let db = journal_append (precompileCallChange snapshot events) db;
            db = db\<lparr>precompileCallsCounter := precompileCallsCounter db + 1\<rparr>
        in (db, if precompileCallsCounter db > MaxPrecompileCalls
                then Some (ErrPlain ''max calls to precompiles reached'') else None))"

text \<open>The cache context as the keeper sees it, and what was written through that context.\<close>

definition cacheCtx :: "('c, 'v, 'e) db_keeper \<Rightarrow> 'v snapshotmulti \<Rightarrow> ('c, 'v, 'e) statedb \<Rightarrow> 'c" where
  "cacheCtx K ms db =
     ctx_with_events K (cacheEvents db)
       (ctx_put_stores K (\<lambda>key. map_option CurrentStore (stores ms key)) (ctx db))"

definition put_current :: "(string \<Rightarrow> 'v) \<Rightarrow> 'v snapshotmulti \<Rightarrow> 'v snapshotmulti" where
  "put_current st ms = fold (\<lambda>key. update_store key (\<lambda>_. st key)) (storeKeys ms) ms"

definition set_cacheCtx ::
  "('c, 'v, 'e) db_keeper \<Rightarrow> 'c \<Rightarrow> 'v snapshotmulti \<Rightarrow> ('c, 'v, 'e) statedb \<Rightarrow> ('c, 'v, 'e) statedb" where
  "set_cacheCtx K c ms db =
     db\<lparr>snapshotter := Some (case ctx_stores K c of None \<Rightarrow> ms | Some st \<Rightarrow> put_current st ms),
        cacheEvents := ctx_events K c\<rparr>"

definition CommitWithCacheCtx ::
  "('c, 'v, 'e) db_keeper \<Rightarrow> ('c, 'v, 'e) statedb \<Rightarrow> (('c, 'v, 'e) statedb \<times> err option) res" where
  "CommitWithCacheCtx K db =
     (case snapshotter db of
        None \<Rightarrow> if sortedDirties db = [] then Ok (db, None) else Panic ''nil pointer''
      | Some ms \<Rightarrow>
          bind_res (commitWithCtx K (cacheCtx K ms db) db) (\<lambda>(c, e). Ok (set_cacheCtx K c ms db, e)))"

text \<open>
  The beginning of every call to a precompile (\<^verbatim>\<open>Precompile.RunSetup\<close>), up to the decoding of the
  call data; and the whole call, \<open>body\<close> being what the precompile does in the cache context.
\<close>

definition RunSetup ::
  "('c, 'v, 'e) db_keeper \<Rightarrow> addr \<Rightarrow> ('c, 'v, 'e) statedb \<Rightarrow> (('c, 'v, 'e) statedb \<times> err option) res" where
  "RunSetup K a db =
     (case GetCacheContext K db of
        (db, Some e) \<Rightarrow> Ok (db, Some e)
      | (db, None) \<Rightarrow>
          bind_res (MultiStoreSnapshot K db) (\<lambda>(snapshot, db).
            case AddPrecompileFn K a snapshot (cacheEvents db) db of
              (db, Some e) \<Rightarrow> Ok (db, Some e)
            | (db, None) \<Rightarrow> CommitWithCacheCtx K db))"

definition precompile_body ::
  "('c, 'v, 'e) db_keeper \<Rightarrow> ('c \<Rightarrow> 'c) \<Rightarrow> ('c, 'v, 'e) statedb \<Rightarrow> ('c, 'v, 'e) statedb" where
  "precompile_body K body db =
     (case snapshotter db of
        None \<Rightarrow> db
      | Some ms \<Rightarrow> set_cacheCtx K (body (cacheCtx K ms db)) ms db)"

definition precompile_call ::
  "('c, 'v, 'e) db_keeper \<Rightarrow> addr \<Rightarrow> ('c \<Rightarrow> 'c) \<Rightarrow> ('c, 'v, 'e) statedb \<Rightarrow>
     (('c, 'v, 'e) statedb \<times> err option) res" where
  "precompile_call K a body db =
     bind_res (RunSetup K a db) (\<lambda>(db, e).
       Ok (case e of Some e \<Rightarrow> (db, Some e) | None \<Rightarrow> (precompile_body K body db, None)))"

end
