(* ===== verification/StateDBProofs.thy ===== *)
theory StateDBProofs
  imports StateDB
begin

text \<open>
  Facts about the journaled state. \<open>view\<close> is what the EVM can observe of a \<^verbatim>\<open>StateDB\<close>: the accounts
  with whatever is loaded lazily from the keeper filled in, the refund counter, the logs, the access
  list, the transient storage and the stores that precompiles see. \<open>undo\<close> is the effect of
  reverting a journal entry on the view. \<open>hist\<close> relates a view to an earlier one by journal entries
  that lead back to it, and every operation extends it.
\<close>

section \<open>What can be observed\<close>

record account_view =
  av_account :: Account
  av_code :: "bytes option"
  av_committed :: "hash \<Rightarrow> hash"
  av_state :: "hash \<Rightarrow> hash"
  av_destructed :: bool
  av_new :: bool

record ('c, 'v) db_view =
  v_ctx :: 'c
  v_accounts :: "addr \<Rightarrow> account_view option"
  v_refund :: uint64
  v_logs :: "eth_log list"
  v_access :: accessList
  v_transient :: "addr \<Rightarrow> hash \<Rightarrow> hash"
  v_stores :: "'v snapshotmulti option"

definition eff_code :: "('c, 'v, 'e) db_keeper \<Rightarrow> 'c \<Rightarrow> bytes option \<Rightarrow> hash \<Rightarrow> bytes option" where
  "eff_code K c bs h = (if bs \<noteq> None then bs else if IsEmptyCodeHash K h then None else kGetCode K c h)"

definition eff_committed :: "('c, 'v, 'e) db_keeper \<Rightarrow> 'c \<Rightarrow> stateObject \<Rightarrow> hash \<Rightarrow> hash" where
  "eff_committed K c obj key =
     (case originStorage obj key of Some x \<Rightarrow> x | None \<Rightarrow> kGetState K c (obj_address obj) key)"

definition eff_state :: "('c, 'v, 'e) db_keeper \<Rightarrow> 'c \<Rightarrow> stateObject \<Rightarrow> hash \<Rightarrow> hash" where
  "eff_state K c obj key =
     (case kv_get (dirtyStorage obj) key of Some x \<Rightarrow> x | None \<Rightarrow> eff_committed K c obj key)"

definition obj_view :: "('c, 'v, 'e) db_keeper \<Rightarrow> 'c \<Rightarrow> stateObject \<Rightarrow> account_view" where
  "obj_view K c obj =
     \<lparr>av_account = account obj, av_code = eff_code K c (code obj) (CodeHash (account obj)),
      av_committed = eff_committed K c obj, av_state = eff_state K c obj,
      av_destructed = selfDestructed obj, av_new = newContract obj\<rparr>"

definition stored :: "('c, 'v, 'e) db_keeper \<Rightarrow> 'c \<Rightarrow> addr \<Rightarrow> stateObject option" where
  "stored K c a = map_option (\<lambda>acct. newObject K a (Some acct)) (kGetAccount K c a)"

definition live :: "('c, 'v, 'e) db_keeper \<Rightarrow> ('c, 'v, 'e) statedb \<Rightarrow> addr \<Rightarrow> stateObject option" where
  "live K db a = (case stateObjects db a of Some obj \<Rightarrow> Some obj | None \<Rightarrow> stored K (ctx db) a)"

definition view_stores :: "('c, 'v, 'e) db_keeper \<Rightarrow> ('c, 'v, 'e) statedb \<Rightarrow> 'v snapshotmulti option" where
  "view_stores K db =
     (case snapshotter db of
        Some ms \<Rightarrow> Some ms
      | None \<Rightarrow> map_option (cache_stores K) (ctx_stores K (ctx db)))"

definition view :: "('c, 'v, 'e) db_keeper \<Rightarrow> ('c, 'v, 'e) statedb \<Rightarrow> ('c, 'v) db_view" where
  "view K db =
     \<lparr>v_ctx = ctx db, v_accounts = (\<lambda>a. map_option (obj_view K (ctx db)) (live K db a)),
      v_refund = refund db, v_logs = logs db, v_access = accessList db,
      v_transient = transient_Get (transientStorage db), v_stores = view_stores K db\<rparr>"

section \<open>Undoing an entry\<close>

definition on_account ::
  "addr \<Rightarrow> (account_view \<Rightarrow> account_view) \<Rightarrow> ('c, 'v) db_view \<Rightarrow> ('c, 'v) db_view res" where
  "on_account a f v =
     (case v_accounts v a of
        None \<Rightarrow> Panic ''nil pointer''
      | Some x \<Rightarrow> Ok (v\<lparr>v_accounts := (v_accounts v)(a \<mapsto> f x)\<rparr>))"

definition av_setBalance :: "uint256 \<Rightarrow> account_view \<Rightarrow> account_view" where
  "av_setBalance b x = x\<lparr>av_account := (av_account x)\<lparr>Balance := b\<rparr>\<rparr>"

fun undo :: "('c, 'v, 'e) db_keeper \<Rightarrow> 'e journalEntry \<Rightarrow> ('c, 'v) db_view \<Rightarrow> ('c, 'v) db_view res" where
  "undo K (createContractChange a) v = on_account a (\<lambda>x. x\<lparr>av_new := False\<rparr>) v"
| "undo K (precompileCallChange n es) v =
     (case v_stores v of
        None \<Rightarrow> Panic ''nil pointer''
      | Some ms \<Rightarrow> bind_res (snapshotmulti_RevertToSnapshot n ms) (\<lambda>ms. Ok (v\<lparr>v_stores := Some ms\<rparr>)))"
| "undo K (createObjectChange a) v =
     Ok (v\<lparr>v_accounts := (v_accounts v)(a := map_option (obj_view K (v_ctx v)) (stored K (v_ctx v) a))\<rparr>)"
| "undo K (resetObjectChange p) v =
     Ok (v\<lparr>v_accounts := (v_accounts v)(obj_address p \<mapsto> obj_view K (v_ctx v) p)\<rparr>)"
| "undo K (selfDestructChange a d b) v =
     (case v_accounts v a of
        None \<Rightarrow> Ok v
      | Some x \<Rightarrow> Ok (v\<lparr>v_accounts := (v_accounts v)(a \<mapsto> av_setBalance b (x\<lparr>av_destructed := d\<rparr>))\<rparr>))"
| "undo K (balanceChange a b) v = on_account a (av_setBalance b) v"
| "undo K (nonceChange a n) v = on_account a (\<lambda>x. x\<lparr>av_account := (av_account x)\<lparr>Nonce := n\<rparr>\<rparr>) v"
| "undo K (codeChange a c h) v =
     on_account a (\<lambda>x. x\<lparr>av_account := (av_account x)\<lparr>CodeHash := h\<rparr>, av_code := eff_code K (v_ctx v) c h\<rparr>) v"
| "undo K (storageChange a key x) v = on_account a (\<lambda>y. y\<lparr>av_state := (av_state y)(key := x)\<rparr>) v"
| "undo K (transientStorageChange a key x) v =
     Ok (v\<lparr>v_transient := (v_transient v)(a := (v_transient v a)(key := x))\<rparr>)"
| "undo K (refundChange r) v = Ok (v\<lparr>v_refund := r\<rparr>)"
| "undo K addLogChange v =
     (if v_logs v = [] then Panic ''slice bounds out of range'' else Ok (v\<lparr>v_logs := butlast (v_logs v)\<rparr>))"
| "undo K (accessListAddAccountChange a) v = Ok (v\<lparr>v_access := DeleteAddress a (v_access v)\<rparr>)"
| "undo K (accessListAddSlotChange a slot) v =
     bind_res (DeleteSlot a slot (v_access v)) (\<lambda>al. Ok (v\<lparr>v_access := al\<rparr>))"

text \<open>The live objects are filed under their addresses.\<close>

definition objects_ok :: "('c, 'v, 'e) statedb \<Rightarrow> bool" where
  "objects_ok db \<longleftrightarrow> (\<forall>a obj. stateObjects db a = Some obj \<longrightarrow> obj_address obj = a)"

lemma objects_okD: "objects_ok db \<Longrightarrow> stateObjects db a = Some obj \<Longrightarrow> obj_address obj = a"
  by (simp add: objects_ok_def)

lemma objects_ok_set [simp]: "objects_ok db \<Longrightarrow> objects_ok (setStateObject obj db)"
  by (auto simp: objects_ok_def setStateObject_def)

lemma live_address: "objects_ok db \<Longrightarrow> live K db a = Some obj \<Longrightarrow> obj_address obj = a"
  by (auto simp: live_def stored_def newObject_def objects_okD split: option.splits)

lemma getStateObject_live:
  assumes "objects_ok db"
  shows "getStateObject K a db =
    (live K db a, case live K db a of None \<Rightarrow> db | Some obj \<Rightarrow> setStateObject obj db)"
proof (cases "stateObjects db a")
  case (Some obj)
  then have "(stateObjects db)(obj_address obj \<mapsto> obj) = stateObjects db"
    using objects_okD [OF assms] by (auto simp: fun_eq_iff)
  with Some show ?thesis by (simp add: getStateObject_def live_def setStateObject_def)
qed (auto simp: getStateObject_def live_def stored_def Let_def split: option.splits)

lemma view_set:
  assumes "obj_address obj = a"
  shows "view K (setStateObject obj db) =
    (view K db)\<lparr>v_accounts := (v_accounts (view K db))(a \<mapsto> obj_view K (ctx db) obj)\<rparr>"
  using assms by (auto simp: view_def setStateObject_def live_def view_stores_def fun_eq_iff split: option.splits)

lemma view_set_same:
  assumes "objects_ok db" and "live K db a = Some obj" and "obj_view K (ctx db) obj' = obj_view K (ctx db) obj"
    and "obj_address obj' = a"
  shows "view K (setStateObject obj' db) = view K db"
proof -
  have "v_accounts (view K db) a = Some (obj_view K (ctx db) obj)" using assms(2) by (simp add: view_def)
  then have "(v_accounts (view K db))(a \<mapsto> obj_view K (ctx db) obj) = v_accounts (view K db)" by (simp add: fun_upd_idem)
  then show ?thesis using view_set [OF assms(4), of K db] assms(3) by simp
qed

lemma on_object_view:
  assumes "objects_ok db" and "\<And>obj. obj_address (f obj) = obj_address obj"
    and "\<And>obj. obj_view K (ctx db) (f obj) = g (obj_view K (ctx db) obj)"
  shows "bind_res (on_object K a f db) (\<lambda>db. Ok (view K db)) = on_account a g (view K db)"
proof (cases "live K db a")
  case None
  then show ?thesis
    by (simp add: on_object_def getStateObject_live [OF assms(1)] on_account_def view_def)
next
  case (Some obj)
  let ?db = "setStateObject obj db"
  have a: "obj_address obj = a" by (rule live_address [OF assms(1) Some])
  have v: "view K ?db = view K db" by (rule view_set_same [OF assms(1) Some refl a])
  have "v_accounts (view K db) a = Some (obj_view K (ctx db) obj)" using Some by (simp add: view_def)
  then show ?thesis
    using view_set [of "f obj" a K ?db] a assms(2,3) v Some
    by (simp add: on_object_def getStateObject_live [OF assms(1)] on_account_def) (simp add: setStateObject_def)
qed

lemma obj_address_set [simp]:
  "obj_address (obj_setBalance b obj) = obj_address obj"
  "obj_address (obj_setNonce n obj) = obj_address obj"
  "obj_address (obj_setCode h c obj) = obj_address obj"
  "obj_address (obj_setState k v obj) = obj_address obj"
  "obj_address (markSelfDestructed obj) = obj_address obj"
  "obj_address (newObject K a acct) = a"
  by (simp_all add: obj_setBalance_def obj_setNonce_def obj_setCode_def obj_setState_def markSelfDestructed_def newObject_def)

lemma obj_view_set:
  "obj_view K c (obj_setBalance b obj) = av_setBalance b (obj_view K c obj)"
  "obj_view K c (obj_setNonce n obj) = (let x = obj_view K c obj in x\<lparr>av_account := (av_account x)\<lparr>Nonce := n\<rparr>\<rparr>)"
  "obj_view K c (obj_setCode h bs obj) =
     (let x = obj_view K c obj in x\<lparr>av_account := (av_account x)\<lparr>CodeHash := h\<rparr>, av_code := eff_code K c bs h\<rparr>)"
  "obj_view K c (obj_setState key y obj) =
     (let x = obj_view K c obj in x\<lparr>av_state := (av_state x)(key := y)\<rparr>)"
  "obj_view K c (obj\<lparr>newContract := b'\<rparr>) = (obj_view K c obj)\<lparr>av_new := b'\<rparr>"
  "obj_view K c (obj\<lparr>selfDestructed := b'\<rparr>) = (obj_view K c obj)\<lparr>av_destructed := b'\<rparr>"
  by (simp_all add: obj_view_def av_setBalance_def obj_setBalance_def obj_setNonce_def obj_setCode_def obj_setState_def
      Let_def eff_committed_def eff_state_def store_simps fun_eq_iff split: option.splits)

lemmas view_defs = view_def live_def view_stores_def

lemma view_upd [simp]:
  "view K (db\<lparr>refund := r\<rparr>) = (view K db)\<lparr>v_refund := r\<rparr>"
  "view K (db\<lparr>logs := ls\<rparr>) = (view K db)\<lparr>v_logs := ls\<rparr>"
  "view K (db\<lparr>accessList := al\<rparr>) = (view K db)\<lparr>v_access := al\<rparr>"
  "view K (db\<lparr>snapshotter := Some ms\<rparr>) = (view K db)\<lparr>v_stores := Some ms\<rparr>"
  "view K (db\<lparr>transientStorage := t\<rparr>) = (view K db)\<lparr>v_transient := transient_Get t\<rparr>"
  "view K (db\<lparr>entries := es\<rparr>) = view K db"
  "view K (db\<lparr>dirties := ds\<rparr>) = view K db"
  "view K (db\<lparr>writeCache := w\<rparr>) = view K db"
  "view K (db\<lparr>cacheEvents := ev\<rparr>) = view K db"
  "view K (db\<lparr>precompileCallsCounter := n\<rparr>) = view K db"
  "view K (db\<lparr>validRevisions := rs\<rparr>) = view K db"
  "view K (db\<lparr>nextRevisionID := i\<rparr>) = view K db"
  by (simp_all add: view_defs cong: option.case_cong)

lemma view_journal_append [simp]: "view K (journal_append e db) = view K db"
  by (simp add: journal_append_def view_defs cong: option.case_cong)

lemma view_drop_dirty [simp]: "view K (drop_dirty e db) = view K db"
  by (simp add: drop_dirty_def Let_def split: option.split)

lemma view_sel [simp]:
  "v_ctx (view K db) = ctx db" "v_refund (view K db) = refund db" "v_logs (view K db) = logs db"
  "v_access (view K db) = accessList db" "v_transient (view K db) = transient_Get (transientStorage db)"
  "v_accounts (view K db) = (\<lambda>a. map_option (obj_view K (ctx db)) (live K db a))"
  "v_stores (view K db) = view_stores K db"
  by (simp_all add: view_def)

lemma transient_Get_Set_upd:
  "transient_Get (transient_Set a key x t) = (transient_Get t)(a := (transient_Get t a)(key := x))"
  by (auto simp: fun_eq_iff transient_Get_Set)

text \<open>Reverting an entry is undoing it in the view, panics included.\<close>

definition is_precompile :: "'e journalEntry \<Rightarrow> bool" where
  "is_precompile e = (case e of precompileCallChange _ _ \<Rightarrow> True | _ \<Rightarrow> False)"

lemma Revert_refines:
  assumes "objects_ok db" and "is_precompile e \<Longrightarrow> snapshotter db \<noteq> None"
  shows "bind_res (Revert K e db) (\<lambda>db. Ok (view K db)) = undo K e (view K db)"
proof (cases e)
  case (createObjectChange a)
  then show ?thesis by (auto simp: view_defs fun_eq_iff split: option.splits)
next
  case (selfDestructChange a d b)
  show ?thesis
  proof (cases "live K db a")
    case (Some obj)
    then have a: "obj_address obj = a" by (rule live_address [OF assms(1)])
    have "view K (setStateObject obj db) = view K db" by (rule view_set_same [OF assms(1) Some refl a])
    then show ?thesis
      using Some a view_set [of "obj_setBalance b (obj\<lparr>selfDestructed := d\<rparr>)" a K "setStateObject obj db"]
      by (simp add: selfDestructChange getStateObject_live [OF assms(1)] obj_view_set)
        (simp add: setStateObject_def)
  qed (simp add: selfDestructChange getStateObject_live [OF assms(1)])
next
  case (precompileCallChange n ev)
  then obtain ms where "snapshotter db = Some ms" using assms(2) by (auto simp: is_precompile_def)
  then show ?thesis
    by (simp add: precompileCallChange RevertMultiStore_def view_stores_def bind_res_assoc)
next
  case (accessListAddSlotChange a slot)
  then show ?thesis by (simp add: bind_res_assoc)
next
  case (codeChange a c h)
  then show ?thesis
    using on_object_view [OF assms(1), where f = "obj_setCode h c"] by (simp add: obj_view_set Let_def)
next
  case (storageChange a key x)
  then show ?thesis
    using on_object_view [OF assms(1), where f = "obj_setState key x" and
        g = "\<lambda>y. y\<lparr>av_state := (av_state y)(key := x)\<rparr>"] by (simp add: obj_view_set Let_def)
qed (simp_all add: on_object_view [OF assms(1)] obj_view_set Let_def view_set setTransientState_def transient_Get_Set_upd)

section \<open>The invariant of the journal\<close>

definition dirtied :: "'e journalEntry list \<Rightarrow> addr set" where
  "dirtied es = {a. \<exists>e \<in> set es. Dirtied e = Some a}"

definition dirty_count :: "addr \<Rightarrow> 'e journalEntry list \<Rightarrow> int" where
  "dirty_count a es = int (length (filter (\<lambda>e. Dirtied e = Some a) es))"

definition dirties_ok :: "'e journalEntry list \<Rightarrow> (addr, int) kv \<Rightarrow> bool" where
  "dirties_ok es ds \<longleftrightarrow> kv_ok ds \<and>
     (\<forall>a. kv_get ds a = (if dirty_count a es = 0 then None else Some (dirty_count a es)))"

text \<open>An object is created before anything else is recorded of its account.\<close>

fun create_first :: "'e journalEntry list \<Rightarrow> bool" where
  "create_first [] = True"
| "create_first (e # es) \<longleftrightarrow> create_first es \<and> (\<forall>a. Dirtied e = Some a \<longrightarrow> createObjectChange a \<notin> set es)"

text \<open>
  \<open>db_inv es db\<close>: the state between two steps of a revert, \<open>es\<close> being the entries not yet reverted.
  Dirty counts are those of \<open>es\<close>, every dirty account has a live object, and a recorded precompile
  call has its snapshot store.
\<close>

definition db_inv :: "'e journalEntry list \<Rightarrow> ('c, 'v, 'e) statedb \<Rightarrow> bool" where
  "db_inv es db \<longleftrightarrow>
     objects_ok db \<and> dirties_ok es (dirties db) \<and> create_first es \<and>
     (\<forall>a \<in> dirtied es. stateObjects db a \<noteq> None) \<and>
     (\<forall>e \<in> set es. is_precompile e \<longrightarrow> snapshotter db \<noteq> None) \<and>
     (writeCache db = None \<longleftrightarrow> snapshotter db = None)"

lemma dirtied_append [simp]:
  "dirtied [] = {}" "dirtied (es @ fs) = dirtied es \<union> dirtied fs" "dirtied [e] = {a. Dirtied e = Some a}"
  by (auto simp: dirtied_def)

lemma dirty_count_append [simp]:
  "dirty_count a [] = 0"
  "dirty_count a (es @ [e]) = dirty_count a es + (if Dirtied e = Some a then 1 else 0)"
  by (auto simp: dirty_count_def)

lemma dirty_count_nonneg [simp]: "0 \<le> dirty_count a es"
  by (simp add: dirty_count_def)

lemma dirty_count_Suc [simp]: "dirty_count a es + 1 \<noteq> 0"
  using dirty_count_nonneg [of a es] by linarith

lemma dirty_count_zero: "dirty_count a es = 0 \<longleftrightarrow> a \<notin> dirtied es"
  by (auto simp: dirty_count_def dirtied_def filter_empty_conv)

lemma dirty_amount: "dirties_ok es ds \<Longrightarrow> kv_amount ds a = dirty_count a es"
  by (auto simp: dirties_ok_def kv_amount_def)

lemma dirties_ok_append: "dirties_ok es (dirties db) \<Longrightarrow> dirties_ok (es @ [e]) (dirties (journal_append e db))"
  using dirty_amount [of es "dirties db"]
  by (auto simp: journal_append_def dirties_ok_def store_simps split: option.splits)

lemma dirties_ok_drop:
  assumes "dirties_ok (es @ [e]) (dirties db)"
  shows "dirties_ok es (dirties (drop_dirty e db))"
proof (cases "Dirtied e")
  case None
  with assms show ?thesis by (simp add: drop_dirty_def dirties_ok_def)
next
  case (Some a)
  have "kv_amount (dirties db) a = dirty_count a es + 1" using dirty_amount [OF assms, of a] Some by simp
  then show ?thesis
    using assms Some by (auto simp: drop_dirty_def dirties_ok_def Let_def store_simps)
qed

lemma create_first_append:
  "create_first (es @ [e]) \<longleftrightarrow> create_first es \<and> (\<forall>a. e = createObjectChange a \<longrightarrow> a \<notin> dirtied es)"
  by (induction es) (auto simp: dirtied_def)

text \<open>What no method of a state object touches.\<close>

definition frame :: "('c, 'v, 'e) statedb \<Rightarrow>
    'c \<times> 'v snapshotmulti option \<times> 'e list \<times> 'e write_cache option \<times> revision list \<times> int \<times> TxConfig" where
  "frame db = (ctx db, snapshotter db, cacheEvents db, writeCache db, validRevisions db, nextRevisionID db, txConfig db)"

definition jframe :: "('c, 'v, 'e) statedb \<Rightarrow> 'e journalEntry list \<times> (addr, int) kv" where
  "jframe db = (entries db, dirties db)"

lemma frame_simps [simp]:
  "frame (setStateObject obj db) = frame db" "jframe (setStateObject obj db) = jframe db"
  "frame (journal_append e db) = frame db" "stateObjects (journal_append e db) = stateObjects db"
  "frame (drop_dirty e db) = frame db" "stateObjects (drop_dirty e db) = stateObjects db"
  "entries (drop_dirty e db) = entries db" "entries (journal_append e db) = entries db @ [e]"
  "ctx (setStateObject obj db) = ctx db" "ctx (journal_append e db) = ctx db"
  "entries (setStateObject obj db) = entries db" "dirties (setStateObject obj db) = dirties db"
  "snapshotter (setStateObject obj db) = snapshotter db" "writeCache (setStateObject obj db) = writeCache db"
  "stateObjects (setStateObject obj db) = (stateObjects db)(obj_address obj \<mapsto> obj)"
  by (simp_all add: frame_def jframe_def setStateObject_def journal_append_def drop_dirty_def Let_def split: option.split)

lemma getStateObject_frame [simp]:
  "frame (snd (getStateObject K a db)) = frame db" "jframe (snd (getStateObject K a db)) = jframe db"
  by (simp_all add: getStateObject_def Let_def split: option.split)

lemma on_object_frame:
  assumes "on_object K a f db = Ok db'"
  shows "frame db' = frame db \<and> jframe db' = jframe db"
  using assms getStateObject_frame [of K a db]
  by (auto simp: on_object_def split: prod.splits option.splits simp del: getStateObject_frame)

lemma on_object_objects:
  assumes "on_object K b f db = Ok db'" and "objects_ok db"
  shows "objects_ok db' \<and> (stateObjects db a \<noteq> None \<longrightarrow> stateObjects db' a \<noteq> None)"
  using assms by (auto simp: on_object_def getStateObject_live [OF assms(2)] split: option.splits)

lemma Revert_cases [consumes 1, case_names object created reset stores other]:
  assumes "Revert K e db = Ok db'"
  obtains a f where "on_object K a f db = Ok db'"
  | a where "e = createObjectChange a" "db' = db\<lparr>stateObjects := (stateObjects db)(a := None)\<rparr>"
  | p where "db' = setStateObject p db"
  | ms ms' ev where "snapshotter db = Some ms" "db' = db\<lparr>snapshotter := Some ms', writeCache := Some (WriteEvents ev)\<rparr>"
  | r ls al t where "db' = db\<lparr>refund := r, logs := ls, accessList := al, transientStorage := t\<rparr>"
proof (cases e)
  case (selfDestructChange b d x)
  then have "db' = db \<or> on_object K b (\<lambda>obj. obj_setBalance x (obj\<lparr>selfDestructed := d\<rparr>)) db = Ok db'"
    using assms by (auto simp: on_object_def getStateObject_def Let_def split: option.splits)
  then show thesis using that(1) that(5) [of "transientStorage db" "accessList db" "logs db" "refund db"] by auto
next
  case (precompileCallChange n ev)
  then show thesis using assms that(4) by (auto simp: RevertMultiStore_def res_simps split: option.splits)
next
  case (accessListAddSlotChange b slot)
  then obtain al where "db' = db\<lparr>accessList := al\<rparr>" using assms by (auto simp: res_simps)
  then show thesis by (intro that(5) [of "transientStorage db" al "logs db" "refund db"]) simp
next
  case addLogChange
  then have "db' = db\<lparr>logs := butlast (logs db)\<rparr>" using assms by (auto split: if_splits)
  then show thesis by (intro that(5) [of "transientStorage db" "accessList db" "butlast (logs db)" "refund db"]) simp
next
  case (accessListAddAccountChange a)
  then show thesis
    using assms by (intro that(5) [of "transientStorage db" "DeleteAddress a (accessList db)" "logs db" "refund db"]) auto
next
  case (refundChange r)
  then show thesis using assms by (intro that(5) [of "transientStorage db" "accessList db" "logs db" r]) auto
next
  case (transientStorageChange a key x)
  then show thesis
    using assms by (intro that(5) [of "transient_Set a key x (transientStorage db)" "accessList db" "logs db" "refund db"])
      (auto simp: setTransientState_def)
next
  case (resetObjectChange p)
  then show thesis using assms by (intro that(3) [of p]) auto
next
  case (createObjectChange a)
  then show thesis using assms by (intro that(2) [of a]) auto
next
  case (balanceChange a x)
  then show thesis using assms by (intro that(1)) simp
next
  case (nonceChange a x)
  then show thesis using assms by (intro that(1)) simp
next
  case (storageChange a key x)
  then show thesis using assms by (intro that(1)) simp
next
  case (codeChange a c h)
  then show thesis using assms by (intro that(1)) simp
next
  case (createContractChange a)
  then show thesis using assms by (intro that(1)) simp
qed

lemma Revert_objects:
  assumes "Revert K e db = Ok db'" and "objects_ok db"
  shows "objects_ok db' \<and> (stateObjects db a \<noteq> None \<longrightarrow> e \<noteq> createObjectChange a \<longrightarrow> stateObjects db' a \<noteq> None)"
  using assms(1)
proof (cases rule: Revert_cases)
  case (object b f)
  then show ?thesis using on_object_objects [OF _ assms(2)] by blast
qed (use assms(2) in \<open>auto simp: objects_ok_def split: if_splits\<close>)

lemma Revert_frame:
  assumes "Revert K e db = Ok db'"
  shows "jframe db' = jframe db \<and> (frame db' = frame db \<or>
    (\<exists>ms ms' ev. snapshotter db = Some ms \<and>
       frame db' = frame (db\<lparr>snapshotter := Some ms', writeCache := Some (WriteEvents ev)\<rparr>)))"
  using assms
proof (cases rule: Revert_cases)
  case (object b f)
  then show ?thesis using on_object_frame by blast
next
  case (stores ms ms' ev)
  then have "jframe db' = jframe db" "frame db' = frame (db\<lparr>snapshotter := Some ms', writeCache := Some (WriteEvents ev)\<rparr>)"
    by (simp_all add: jframe_def)
  with stores(1) show ?thesis by blast
qed (simp_all, simp_all add: frame_def jframe_def)

lemma db_inv_Revert:
  assumes "db_inv (es @ [e]) db" and "Revert K e db = Ok db'"
  shows "db_inv es (drop_dirty e db')"
proof -
  have o: "objects_ok db" using assms(1) by (simp add: db_inv_def)
  have j: "entries db' = entries db" "dirties db' = dirties db" using Revert_frame [OF assms(2)] by (auto simp: jframe_def)
  have "dirties_ok es (dirties (drop_dirty e db'))"
    using assms(1) j by (intro dirties_ok_drop) (simp add: db_inv_def)
  moreover have "stateObjects db' a \<noteq> None" if "a \<in> dirtied es" for a
  proof -
    have "stateObjects db a \<noteq> None" "e \<noteq> createObjectChange a"
      using assms(1) that by (auto simp: db_inv_def create_first_append)
    then show ?thesis using Revert_objects [OF assms(2) o] by blast
  qed
  moreover have "snapshotter (drop_dirty e db') = None \<longleftrightarrow> snapshotter db = None"
    "writeCache (drop_dirty e db') = None \<longleftrightarrow> snapshotter db = None"
    using Revert_frame [OF assms(2)] frame_simps(5) [of e db'] assms(1) unfolding frame_def db_inv_def
    by (auto simp del: frame_simps(5))
  moreover have "objects_ok (drop_dirty e db')"
    using Revert_objects [OF assms(2) o] by (simp add: objects_ok_def)
  ultimately show ?thesis
    using assms(1) by (auto simp: db_inv_def create_first_append)
qed

section \<open>Histories\<close>

definition good :: "('c, 'v) db_view \<Rightarrow> bool" where
  "good v \<longleftrightarrow> al_ok (v_access v) \<and> (\<forall>ms. v_stores v = Some ms \<longrightarrow> lockstep ms \<and> 0 \<le> head ms)"

inductive hist :: "('c, 'v, 'e) db_keeper \<Rightarrow> ('c, 'v) db_view \<Rightarrow> 'e journalEntry list \<Rightarrow> ('c, 'v) db_view \<Rightarrow> bool"
  for K :: "('c, 'v, 'e) db_keeper" and v0 :: "('c, 'v) db_view" where
  same: "good v0 \<Longrightarrow> hist K v0 [] v0"
| entry: "hist K v0 es v \<Longrightarrow> undo K e v' = Ok v \<Longrightarrow> good v' \<Longrightarrow> hist K v0 (es @ [e]) v'"

inductive_cases hist_snocE: "hist K v0 (es @ [e]) v"
inductive_cases hist_NilE: "hist K v0 [] v"

lemma hist_good: "hist K v0 es v \<Longrightarrow> good v0 \<and> good v"
  by (induction rule: hist.induct) auto

lemma hist_trans: "hist K v1 fs v2 \<Longrightarrow> hist K v0 es v1 \<Longrightarrow> hist K v0 (es @ fs) v2"
proof (induction rule: hist.induct)
  case (entry fs v e v')
  then show ?case using hist.entry [of K v0 "es @ fs" v e v'] by simp
qed simp

lemma hist_split:
  assumes "hist K v0 (es @ fs) v"
  shows "\<exists>v1. hist K v0 es v1 \<and> hist K v1 fs v"
  using assms
proof (induction fs arbitrary: v rule: rev_induct)
  case Nil
  then show ?case using hist_good hist.same by fastforce
next
  case (snoc e fs)
  then have "hist K v0 ((es @ fs) @ [e]) v" by simp
  then obtain w where w: "hist K v0 (es @ fs) w" "undo K e v = Ok w" "good v" by (rule hist_snocE) auto
  with snoc.IH obtain v1 where "hist K v0 es v1" "hist K v1 fs w" by blast
  with w hist.entry show ?case by blast
qed

definition unwind :: "('c, 'v, 'e) db_keeper \<Rightarrow> 'e journalEntry list \<Rightarrow> ('c, 'v, 'e) statedb \<Rightarrow> ('c, 'v, 'e) statedb res" where
  "unwind K es db = for_each (\<lambda>e db. bind_res (Revert K e db) (\<lambda>db. Ok (drop_dirty e db))) (rev es) db"

definition rframe :: "('c, 'v, 'e) statedb \<Rightarrow> 'c \<times> 'e journalEntry list \<times> revision list \<times> int \<times> TxConfig" where
  "rframe db = (ctx db, entries db, validRevisions db, nextRevisionID db, txConfig db)"

lemma unwind_hist:
  assumes "hist K v0 es (view K db)" and "db_inv (es0 @ es) db"
  shows "\<exists>db'. unwind K es db = Ok db' \<and> view K db' = v0 \<and> db_inv es0 db' \<and> rframe db' = rframe db"
  using assms
proof (induction es arbitrary: db rule: rev_induct)
  case Nil
  then show ?case by (auto simp: unwind_def elim: hist_NilE)
next
  case (snoc e es)
  from snoc.prems(1) obtain v where v: "hist K v0 es v" "undo K e (view K db) = Ok v"
    by (rule hist_snocE) auto
  have "objects_ok db" and "is_precompile e \<Longrightarrow> snapshotter db \<noteq> None"
    using snoc.prems(2) by (auto simp: db_inv_def)
  with v(2) obtain db1 where db1: "Revert K e db = Ok db1" "view K db1 = v"
    using Revert_refines [of db e K] by (auto simp: res_simps)
  have "db_inv (es0 @ es) (drop_dirty e db1)"
    using db_inv_Revert [OF _ db1(1)] snoc.prems(2) by simp
  with snoc.IH [of "drop_dirty e db1"] v(1) db1(2) obtain db' where
    "unwind K es (drop_dirty e db1) = Ok db'" "view K db' = v0" "db_inv es0 db'" "rframe db' = rframe (drop_dirty e db1)"
    by auto
  moreover have "rframe (drop_dirty e db1) = rframe db"
    using Revert_frame [OF db1(1)] frame_simps(5) [of e db1]
    by (auto simp: rframe_def frame_def jframe_def simp del: frame_simps(5))
  ultimately show ?case using db1(1) by (simp add: unwind_def)
qed

section \<open>Every operation extends the history\<close>

definition db_ok :: "('c, 'v, 'e) db_keeper \<Rightarrow> ('c, 'v, 'e) statedb \<Rightarrow> bool" where
  "db_ok K db \<longleftrightarrow> db_inv (entries db) db \<and> good (view K db)"

definition nframe :: "('c, 'v, 'e) statedb \<Rightarrow> 'c \<times> revision list \<times> int \<times> TxConfig" where
  "nframe db = (ctx db, validRevisions db, nextRevisionID db, txConfig db)"

definition advances :: "('c, 'v, 'e) db_keeper \<Rightarrow> ('c, 'v, 'e) statedb \<Rightarrow> ('c, 'v, 'e) statedb \<Rightarrow> bool" where
  "advances K db db' \<longleftrightarrow>
     db_ok K db' \<and> nframe db' = nframe db \<and>
     (\<exists>es. entries db' = entries db @ es \<and> hist K (view K db) es (view K db'))"

lemma advances_trans: "advances K db1 db2 \<Longrightarrow> advances K db2 db3 \<Longrightarrow> advances K db1 db3"
  unfolding advances_def by (metis append.assoc hist_trans)

lemma advances_ok: "advances K db db' \<Longrightarrow> db_ok K db'"
  by (simp add: advances_def)

lemma db_ok_objects: "db_ok K db \<Longrightarrow> objects_ok db"
  by (simp add: db_ok_def db_inv_def)

lemma advances_quiet:
  assumes "db_ok K db" and "view K db' = view K db" and "entries db' = entries db" and "db_inv (entries db) db'"
    and "nframe db' = nframe db"
  shows "advances K db db'"
proof -
  have "hist K (view K db) [] (view K db')" using assms(1,2) by (simp add: db_ok_def hist.same)
  then show ?thesis using assms by (simp add: advances_def db_ok_def)
qed

lemma advances_refl: "db_ok K db \<Longrightarrow> advances K db db"
  by (rule advances_quiet) (simp_all add: db_ok_def)

lemma advances_entry:
  assumes "db_ok K db" and "entries db' = entries db @ [e]" and "undo K e (view K db') = Ok (view K db)"
    and "good (view K db')" and "db_inv (entries db @ [e]) db'" and "nframe db' = nframe db"
  shows "advances K db db'"
proof -
  have "hist K (view K db) ([] @ [e]) (view K db')"
    by (rule hist.entry [OF hist.same]) (use assms in \<open>simp_all add: db_ok_def\<close>)
  then show ?thesis using assms by (simp add: advances_def db_ok_def)
qed

lemma db_inv_set [simp]: "db_inv es db \<Longrightarrow> db_inv es (setStateObject obj db)"
  by (auto simp: db_inv_def)

lemma db_inv_upd [simp]:
  "db_inv es (db\<lparr>refund := r\<rparr>) \<longleftrightarrow> db_inv es db"
  "db_inv es (db\<lparr>logs := ls\<rparr>) \<longleftrightarrow> db_inv es db"
  "db_inv es (db\<lparr>accessList := al\<rparr>) \<longleftrightarrow> db_inv es db"
  "db_inv es (db\<lparr>transientStorage := t\<rparr>) \<longleftrightarrow> db_inv es db"
  "db_inv es (db\<lparr>cacheEvents := ev\<rparr>) \<longleftrightarrow> db_inv es db"
  "db_inv es (db\<lparr>precompileCallsCounter := n\<rparr>) \<longleftrightarrow> db_inv es db"
  "db_inv es (db\<lparr>entries := fs\<rparr>) \<longleftrightarrow> db_inv es db"
  "db_inv es (db\<lparr>validRevisions := rs\<rparr>) \<longleftrightarrow> db_inv es db"
  "db_inv es (db\<lparr>nextRevisionID := i\<rparr>) \<longleftrightarrow> db_inv es db"
  by (simp_all add: db_inv_def objects_ok_def)

lemma db_inv_append:
  assumes "db_inv es db" and "is_precompile e \<Longrightarrow> snapshotter db \<noteq> None"
    and "\<And>a. Dirtied e = Some a \<Longrightarrow> stateObjects db a \<noteq> None"
    and "\<And>a. e = createObjectChange a \<Longrightarrow> a \<notin> dirtied es"
  shows "db_inv (es @ [e]) (journal_append e db)"
proof -
  have f: "frame (journal_append e db) = frame db" by simp
  then have "snapshotter (journal_append e db) = snapshotter db" "writeCache (journal_append e db) = writeCache db"
    by (simp_all add: frame_def del: frame_simps)
  then show ?thesis
    using assms dirties_ok_append [of es db e] by (auto simp: db_inv_def create_first_append objects_ok_def)
qed

lemma nframe_simps [simp]:
  "nframe (setStateObject obj db) = nframe db" "nframe (journal_append e db) = nframe db"
  "nframe (db\<lparr>refund := r\<rparr>) = nframe db" "nframe (db\<lparr>logs := ls\<rparr>) = nframe db"
  "nframe (db\<lparr>accessList := al\<rparr>) = nframe db" "nframe (db\<lparr>transientStorage := t\<rparr>) = nframe db"
  "nframe (db\<lparr>cacheEvents := ev\<rparr>) = nframe db" "nframe (db\<lparr>snapshotter := ms\<rparr>) = nframe db"
  "nframe (db\<lparr>writeCache := w\<rparr>) = nframe db" "nframe (db\<lparr>precompileCallsCounter := n\<rparr>) = nframe db"
  by (simp_all add: nframe_def setStateObject_def journal_append_def)

lemma good_accounts [simp]: "good (v\<lparr>v_accounts := x\<rparr>) = good v"
  by (simp add: good_def)

lemma good_other [simp]:
  "good (v\<lparr>v_refund := r\<rparr>) = good v" "good (v\<lparr>v_logs := ls\<rparr>) = good v" "good (v\<lparr>v_transient := t\<rparr>) = good v"
  by (simp_all add: good_def)

text \<open>Loading an object changes nothing observable.\<close>

lemma getStateObject_advances:
  assumes "db_ok K db" and "getStateObject K a db = (x, db')"
  shows "advances K db db'" and "x = live K db a" and "view K db' = view K db" and "live K db' a = x"
    and "x = Some obj \<Longrightarrow> stateObjects db' a = Some obj \<and> obj_address obj = a"
    and "x = None \<Longrightarrow> db' = db"
proof -
  have o: "objects_ok db" by (rule db_ok_objects [OF assms(1)])
  have g: "x = live K db a" "db' = (case live K db a of None \<Rightarrow> db | Some obj \<Rightarrow> setStateObject obj db)"
    using assms(2) by (auto simp: getStateObject_live [OF o])
  then show "x = live K db a" "x = None \<Longrightarrow> db' = db" by simp_all
  have a: "obj_address obj = a" if "live K db a = Some obj" for obj by (rule live_address [OF o that])
  show "x = Some obj \<Longrightarrow> stateObjects db' a = Some obj \<and> obj_address obj = a" using g a by simp
  have c: "view K db' = view K db \<and> live K db' a = x \<and> entries db' = entries db \<and>
    db_inv (entries db) db' \<and> nframe db' = nframe db"
  proof (cases "live K db a")
    case None
    then show ?thesis using g assms(1) by (simp add: db_ok_def)
  next
    case (Some obj)
    have "view K (setStateObject obj db) = view K db" by (rule view_set_same [OF o Some refl a [OF Some]])
    moreover have "live K (setStateObject obj db) a = Some obj" using a [OF Some] by (simp add: live_def)
    ultimately show ?thesis using g Some assms(1) by (simp add: db_ok_def)
  qed
  then show "view K db' = view K db" "live K db' a = x" by simp_all
  show "advances K db db'" by (rule advances_quiet [OF assms(1)]) (simp_all add: c)
qed

text \<open>Changing an existing object after recording how to change it back.\<close>

lemma edit_advances:
  assumes "db_ok K db" and "stateObjects db a = Some obj" and "obj_address obj' = a"
    and "\<not> is_precompile e" and "\<And>b. e \<noteq> createObjectChange b" and "\<And>b. Dirtied e = Some b \<Longrightarrow> b = a"
    and "undo K e ((view K db)\<lparr>v_accounts := (v_accounts (view K db))(a \<mapsto> obj_view K (ctx db) obj')\<rparr>) = Ok (view K db)"
  shows "advances K db (setStateObject obj' (journal_append e db))"
proof (rule advances_entry [OF assms(1)])
  show "db_inv (entries db @ [e]) (setStateObject obj' (journal_append e db))"
    using assms by (intro db_inv_set db_inv_append) (auto simp: db_ok_def)
  have "view K (setStateObject obj' (journal_append e db)) =
      (view K db)\<lparr>v_accounts := (v_accounts (view K db))(a \<mapsto> obj_view K (ctx db) obj')\<rparr>"
    using view_set [OF assms(3), of K "journal_append e db"] by simp
  then show "undo K e (view K (setStateObject obj' (journal_append e db))) = Ok (view K db)"
    "good (view K (setStateObject obj' (journal_append e db)))"
    using assms(1,7) by (simp_all add: db_ok_def del: view_sel)
qed simp_all

lemma on_account_restore:
  "v_accounts v a = Some x \<Longrightarrow> f y = x \<Longrightarrow> on_account a f (v\<lparr>v_accounts := (v_accounts v)(a \<mapsto> y)\<rparr>) = Ok v"
  by (simp add: on_account_def fun_upd_idem)

lemma accounts_live:
  "stateObjects db a = Some obj \<Longrightarrow> v_accounts (view K db) a = Some (obj_view K (ctx db) obj)"
  by (simp add: live_def)

lemma view_accounts_idem:
  "v_accounts v a = x \<Longrightarrow> v\<lparr>v_accounts := (v_accounts v)(a := x)\<rparr> = v"
  by (simp add: fun_upd_idem)

lemma createObject_advances:
  assumes "db_ok K db" and "createObject K a db = ((newobj, prev), db')"
  shows "advances K db db' \<and> newobj = newObject K a None \<and> prev = live K db a \<and> stateObjects db' a = Some newobj"
proof -
  obtain x db1 where g: "getStateObject K a db = (x, db1)" by fastforce
  note l = getStateObject_advances [OF assms(1) g]
  let ?e = "case x of None \<Rightarrow> createObjectChange a | Some p \<Rightarrow> resetObjectChange p"
  have c: "newobj = newObject K a None" "prev = x" "db' = setStateObject newobj (journal_append ?e db1)"
    using assms(2) g by (auto simp: createObject_def Let_def)
  have ok: "db_ok K db1" by (rule advances_ok [OF l(1)])
  have "advances K db1 db'"
  proof (cases x)
    case None
    have n: "stateObjects db1 a = None" "stored K (ctx db1) a = None"
      using l(4) None by (auto simp: live_def split: option.splits)
    show ?thesis
    proof (rule advances_entry [OF ok, where e = "createObjectChange a"])
      have "a \<notin> dirtied (entries db1)" using ok n(1) by (auto simp: db_ok_def db_inv_def)
      then have "db_inv (entries db1 @ [createObjectChange a])
          (journal_append (createObjectChange a) (setStateObject newobj db1))"
        using ok c(1) by (intro db_inv_append) (auto simp: db_ok_def is_precompile_def)
      moreover have "journal_append (createObjectChange a) (setStateObject newobj db1) = db'"
        by (simp add: c None journal_append_def setStateObject_def)
      ultimately show "db_inv (entries db1 @ [createObjectChange a]) db'" by simp
      have v: "view K db' = (view K db1)\<lparr>v_accounts := (v_accounts (view K db1))(a \<mapsto> obj_view K (ctx db1) newobj)\<rparr>"
        using view_set [of newobj a K "journal_append (createObjectChange a) db1"] c None by simp
      show "good (view K db')" using ok by (simp add: v db_ok_def del: view_sel)
      have "(v_accounts (view K db1))(a := None) = v_accounts (view K db1)"
        using n by (simp add: live_def fun_eq_iff)
      then show "undo K (createObjectChange a) (view K db') = Ok (view K db1)"
        using n(2) by (simp add: v del: view_sel(6))
    qed (simp_all add: c None)
  next
    case (Some p)
    then have p: "stateObjects db1 a = Some p" "obj_address p = a" using l(5) by auto
    have "advances K db1 (setStateObject newobj (journal_append (resetObjectChange p) db1))"
    proof (rule edit_advances [OF ok p(1)])
      show "undo K (resetObjectChange p)
          ((view K db1)\<lparr>v_accounts := (v_accounts (view K db1))(a \<mapsto> obj_view K (ctx db1) newobj)\<rparr>) = Ok (view K db1)"
        using view_accounts_idem [OF accounts_live [OF p(1)]] p(2) by (simp del: view_sel(6))
    qed (simp_all add: c is_precompile_def)
    then show ?thesis by (simp add: c Some)
  qed
  then show ?thesis using advances_trans [OF l(1)] c l(2) by simp
qed

lemma getOrNewStateObject_advances:
  assumes "db_ok K db" and "getOrNewStateObject K a db = (so, db')"
  shows "advances K db db'" and "stateObjects db' a = Some so" and "obj_address so = a"
proof -
  obtain x db1 where g: "getStateObject K a db = (x, db1)" by fastforce
  note l = getStateObject_advances [OF assms(1) g]
  have "advances K db db' \<and> stateObjects db' a = Some so"
  proof (cases x)
    case None
    then obtain n p where "createObject K a db1 = ((n, p), db')" "n = so"
      using assms(2) g by (auto simp: getOrNewStateObject_def split: prod.splits)
    then show ?thesis using createObject_advances [OF advances_ok [OF l(1)]] advances_trans [OF l(1)] by blast
  next
    case (Some obj)
    then show ?thesis using assms(2) g l(1,5) by (auto simp: getOrNewStateObject_def)
  qed
  then show "advances K db db'" "stateObjects db' a = Some so" by auto
  then show "obj_address so = a" using advances_ok db_ok_objects objects_okD by metis
qed

text \<open>The setters of a state object.\<close>

lemma obj_view_back:
  "av_setBalance (Balance (account obj)) (obj_view K c (obj_setBalance b obj)) = obj_view K c obj"
  "(obj_view K c (obj_setNonce n obj))\<lparr>av_account := (av_account (obj_view K c (obj_setNonce n obj)))
     \<lparr>Nonce := Nonce (account obj)\<rparr>\<rparr> = obj_view K c obj"
  "(obj_view K c (obj_setCode h bs obj))\<lparr>av_account := (av_account (obj_view K c (obj_setCode h bs obj)))
     \<lparr>CodeHash := CodeHash (account obj)\<rparr>, av_code := eff_code K c (code obj) (CodeHash (account obj))\<rparr> = obj_view K c obj"
  "(obj_view K c (obj_setState key y obj))\<lparr>av_state := (av_state (obj_view K c (obj_setState key y obj)))
     (key := eff_state K c obj key)\<rparr> = obj_view K c obj"
  "av_setBalance (Balance (account obj)) ((obj_view K c (obj_setBalance b (markSelfDestructed obj)))
     \<lparr>av_destructed := selfDestructed obj\<rparr>) = obj_view K c obj"
  by (simp_all only: obj_view_set markSelfDestructed_def Let_def) (simp_all add: av_setBalance_def obj_view_def)

lemma obj_SetBalance_advances:
  assumes "db_ok K db" and "stateObjects db a = Some obj"
  shows "advances K db (snd (obj_SetBalance amount obj db))"
proof -
  have a: "obj_address obj = a" using assms db_ok_objects objects_okD by blast
  have "advances K db (setStateObject (obj_setBalance amount obj) (journal_append (balanceChange a (Balance (account obj))) db))"
    by (rule edit_advances [OF assms])
      (simp_all add: a is_precompile_def obj_view_back on_account_restore [OF accounts_live [OF assms(2)]] del: view_sel(6))
  then show ?thesis by (simp add: obj_SetBalance_def Let_def a)
qed

lemma obj_SetNonce_advances:
  assumes "db_ok K db" and "stateObjects db a = Some obj"
  shows "advances K db (obj_SetNonce nonce obj db)"
proof -
  have a: "obj_address obj = a" using assms db_ok_objects objects_okD by blast
  have "advances K db (setStateObject (obj_setNonce nonce obj) (journal_append (nonceChange a (Nonce (account obj))) db))"
    by (rule edit_advances [OF assms])
      (simp_all add: a is_precompile_def obj_view_back on_account_restore [OF accounts_live [OF assms(2)]] del: view_sel(6))
  then show ?thesis by (simp add: obj_SetNonce_def a)
qed

lemma set_same_advances:
  assumes "db_ok K db" and "stateObjects db a = Some obj" and "obj_address obj' = a"
    and "obj_view K (ctx db) obj' = obj_view K (ctx db) obj"
  shows "advances K db (setStateObject obj' db)"
proof (rule advances_quiet [OF assms(1)])
  show "view K (setStateObject obj' db) = view K db"
    using assms db_ok_objects by (intro view_set_same [where a = a and obj = obj]) (auto simp: live_def)
qed (use assms(1) in \<open>simp_all add: db_ok_def\<close>)

lemma eff_code_upd [simp]:
  "eff_committed K c (obj\<lparr>code := x\<rparr>) = eff_committed K c obj"
  "eff_state K c (obj\<lparr>code := x\<rparr>) = eff_state K c obj"
  by (simp_all add: eff_committed_def eff_state_def fun_eq_iff cong: option.case_cong)

lemma eff_origin_upd:
  assumes "originStorage obj key = None"
  shows "obj_view K c (obj\<lparr>originStorage := (originStorage obj)(key \<mapsto> kGetState K c (obj_address obj) key)\<rparr>) =
    obj_view K c obj"
proof -
  let ?obj = "obj\<lparr>originStorage := (originStorage obj)(key \<mapsto> kGetState K c (obj_address obj) key)\<rparr>"
  have e: "eff_committed K c ?obj = eff_committed K c obj"
    using assms by (auto simp: eff_committed_def fun_eq_iff split: option.split)
  then have "eff_state K c ?obj = eff_state K c obj"
    by (simp add: eff_state_def fun_eq_iff cong: option.case_cong)
  with e show ?thesis by (simp add: obj_view_def)
qed

lemma obj_Code_advances:
  assumes "db_ok K db" and "stateObjects db a = Some obj" and "obj_Code K obj db = (c, obj', db')"
  shows "advances K db db'" and "stateObjects db' a = Some obj'" and "obj_address obj' = a"
    and "c = eff_code K (ctx db) (code obj) (CodeHash (account obj))" and "CodeHash (account obj') = CodeHash (account obj)"
    and "view K db' = view K db" and "ctx db' = ctx db"
    and "obj_view K (ctx db) obj' = obj_view K (ctx db) obj"
proof -
  have a: "obj_address obj = a" using assms db_ok_objects objects_okD by blast
  have c: "c = eff_code K (ctx db) (code obj) (CodeHash (account obj))"
    "obj' = obj \<and> db' = db \<or> obj' = obj\<lparr>code := c\<rparr> \<and> db' = setStateObject obj' db"
    using assms(3) by (auto simp: obj_Code_def eff_code_def Let_def split: if_splits)
  then show "c = eff_code K (ctx db) (code obj) (CodeHash (account obj))" "CodeHash (account obj') = CodeHash (account obj)"
    "stateObjects db' a = Some obj'" "obj_address obj' = a" "ctx db' = ctx db"
    using assms(2) a by auto
  show v: "obj_view K (ctx db) obj' = obj_view K (ctx db) obj"
    using c by (auto simp: obj_view_def eff_code_def)
  then show "advances K db db'"
    using c(2) a advances_refl [OF assms(1)] set_same_advances [OF assms(1,2), of obj'] by auto
  show "view K db' = view K db"
    using c(2) a v view_set_same [OF db_ok_objects [OF assms(1)], of K a obj obj'] assms(2) by (auto simp: live_def)
qed

lemma obj_SetCode_advances:
  assumes "db_ok K db" and "stateObjects db a = Some obj"
  shows "advances K db (obj_SetCode K h c obj db)"
proof -
  obtain prev obj1 db1 where g: "obj_Code K obj db = (prev, obj1, db1)" by (metis prod_cases3)
  note l = obj_Code_advances [OF assms g]
  have "obj_view K (ctx db1) obj1 = obj_view K (ctx db1) obj" using l(7,8) by simp
  then have "eff_code K (ctx db1) (code obj1) (CodeHash (account obj1)) = eff_code K (ctx db1) (code obj) (CodeHash (account obj))"
    by (metis account_view.select_convs(2) obj_view_def)
  then have p: "eff_code K (ctx db1) prev (CodeHash (account obj1)) = eff_code K (ctx db1) (code obj1) (CodeHash (account obj1))"
    using l(4,5,7) by (simp add: eff_code_def)
  have "advances K db1 (setStateObject (obj_setCode h c obj1)
      (journal_append (codeChange a prev (CodeHash (account obj1))) db1))"
    by (rule edit_advances [OF advances_ok [OF l(1)] l(2)])
      (simp_all add: l(3) is_precompile_def p obj_view_back on_account_restore [OF accounts_live [OF l(2)]] del: view_sel(6))
  then show ?thesis using g l(3) advances_trans [OF l(1)] by (simp add: obj_SetCode_def)
qed

lemma obj_GetCommittedState_advances:
  assumes "db_ok K db" and "stateObjects db a = Some obj" and "obj_GetCommittedState K key obj db = (x, obj', db')"
  shows "advances K db db'" and "stateObjects db' a = Some obj'" and "obj_address obj' = a"
    and "x = eff_committed K (ctx db) obj key" and "view K db' = view K db" and "ctx db' = ctx db"
    and "obj_view K (ctx db) obj' = obj_view K (ctx db) obj" and "dirtyStorage obj' = dirtyStorage obj"
proof -
  have a: "obj_address obj = a" using assms db_ok_objects objects_okD by blast
  have c: "x = eff_committed K (ctx db) obj key" "dirtyStorage obj' = dirtyStorage obj"
    "obj' = obj \<and> db' = db \<or> obj_view K (ctx db) obj' = obj_view K (ctx db) obj \<and> db' = setStateObject obj' db \<and> obj_address obj' = a"
    using assms(3) a eff_origin_upd [of obj key K "ctx db"]
    by (auto simp: obj_GetCommittedState_def eff_committed_def Let_def split: option.splits)
  then show "x = eff_committed K (ctx db) obj key" "stateObjects db' a = Some obj'" "obj_address obj' = a" "ctx db' = ctx db"
    "obj_view K (ctx db) obj' = obj_view K (ctx db) obj" "dirtyStorage obj' = dirtyStorage obj"
    using assms(2) a by auto
  show "advances K db db'"
    using c(3) advances_refl [OF assms(1)] set_same_advances [OF assms(1,2), of obj'] by auto
  show "view K db' = view K db"
    using c(3) view_set_same [OF db_ok_objects [OF assms(1)], of K a obj obj'] assms(2) by (auto simp: live_def)
qed

lemma obj_GetState_advances:
  assumes "db_ok K db" and "stateObjects db a = Some obj" and "obj_GetState K key obj db = (x, obj', db')"
  shows "advances K db db'" and "stateObjects db' a = Some obj'" and "obj_address obj' = a"
    and "x = eff_state K (ctx db) obj key" and "view K db' = view K db" and "ctx db' = ctx db"
    and "obj_view K (ctx db) obj' = obj_view K (ctx db) obj"
proof -
  have a: "obj_address obj = a" using assms db_ok_objects objects_okD by blast
  have "(x = eff_state K (ctx db) obj key \<and> obj' = obj \<and> db' = db) \<or>
    (kv_get (dirtyStorage obj) key = None \<and> obj_GetCommittedState K key obj db = (x, obj', db'))"
    using assms(3) by (auto simp: obj_GetState_def eff_state_def split: option.splits)
  then have "advances K db db' \<and> stateObjects db' a = Some obj' \<and> obj_address obj' = a \<and>
    x = eff_state K (ctx db) obj key \<and> view K db' = view K db \<and> ctx db' = ctx db \<and>
    obj_view K (ctx db) obj' = obj_view K (ctx db) obj"
    using obj_GetCommittedState_advances [OF assms(1,2)] assms(1,2) advances_refl a
    by (elim disjE) (auto simp: eff_state_def)
  then show "advances K db db'" "stateObjects db' a = Some obj'" "obj_address obj' = a"
    "x = eff_state K (ctx db) obj key" "view K db' = view K db" "ctx db' = ctx db"
    "obj_view K (ctx db) obj' = obj_view K (ctx db) obj" by auto
qed

lemma obj_SetState_advances:
  assumes "db_ok K db" and "stateObjects db a = Some obj"
  shows "advances K db (snd (obj_SetState K key y obj db))"
proof -
  obtain prev obj1 db1 where g: "obj_GetState K key obj db = (prev, obj1, db1)" by (metis prod_cases3)
  note l = obj_GetState_advances [OF assms g]
  have "eff_state K (ctx db) obj1 = eff_state K (ctx db) obj"
    using l(7) by (metis account_view.select_convs(4) obj_view_def)
  then have p: "prev = eff_state K (ctx db1) obj1 key" using l(4,6) by simp
  have "advances K db1 (setStateObject (obj_setState key y obj1) (journal_append (storageChange a key prev) db1))"
    by (rule edit_advances [OF advances_ok [OF l(1)] l(2)])
      (simp_all add: l(3) is_precompile_def p obj_view_back on_account_restore [OF accounts_live [OF l(2)]] del: view_sel(6))
  then show ?thesis using g l(1,3) advances_trans [OF l(1)] by (simp add: obj_SetState_def)
qed

section \<open>Commit never meets a missing object\<close>

lemma sortedDirties_iff: "db_inv es db \<Longrightarrow> a \<in> set (sortedDirties db) \<longleftrightarrow> a \<in> dirtied es"
proof -
  assume i: "db_inv es db"
  have "a \<in> set (sortedDirties db) \<longleftrightarrow> kv_get (dirties db) a \<noteq> None"
    by (force simp: sortedDirties_def kv_get_def map_of_eq_None_iff)
  also have "\<dots> \<longleftrightarrow> a \<in> dirtied es"
    using i dirty_count_zero [of a es] by (simp add: db_inv_def dirties_ok_def)
  finally show ?thesis .
qed

lemma commit_objects_total:
  "(\<And>a. a \<in> set as \<Longrightarrow> objs a \<noteq> None) \<Longrightarrow> \<exists>c' e. commit_objects K objs as c = Ok (c', e)"
proof (induction as arbitrary: c)
  case (Cons a as)
  obtain obj where obj: "objs a = Some obj" using Cons.prems [of a] by auto
  obtain c1 e1 where c1: "commit_object K obj c = (c1, e1)" by fastforce
  show ?case
  proof (cases e1)
    case None
    then show ?thesis using Cons.IH [of c1] Cons.prems obj c1 by simp
  qed (simp add: obj c1)
qed simp

lemma commitWithCtx_total:
  assumes "db_inv es db"
  shows "\<exists>c' e. commitWithCtx K c db = Ok (c', e)"
  unfolding commitWithCtx_def
proof (rule commit_objects_total)
  fix a assume "a \<in> set (sortedDirties db)"
  then show "stateObjects db a \<noteq> None" using assms sortedDirties_iff [OF assms] by (simp add: db_inv_def)
qed

section \<open>Calls to precompiles\<close>

lemma getOrNewStateObject_snapshotter:
  "getOrNewStateObject K a (db\<lparr>snapshotter := s\<rparr>) =
     (fst (getOrNewStateObject K a db), (snd (getOrNewStateObject K a db))\<lparr>snapshotter := s\<rparr>)"
  by (simp add: getOrNewStateObject_def createObject_def getStateObject_def journal_append_def setStateObject_def Let_def
      split: option.split)

lemma getOrNewStateObject_frame: "frame (snd (getOrNewStateObject K a db)) = frame db"
  by (simp add: getOrNewStateObject_def createObject_def getStateObject_def Let_def split: option.split)

text \<open>The states of a call to a precompile that has been recorded in \<open>db\<close>.\<close>

definition in_precompile :: "('c, 'v, 'e) statedb \<Rightarrow> ('c, 'v, 'e) statedb \<Rightarrow> bool" where
  "in_precompile db db' \<longleftrightarrow>
     (\<exists>ms ms' ev x y. snapshotter db = Some ms \<and> below_kept (head ms) ms ms' \<and>
        db' = (journal_append (precompileCallChange (head ms) ev) db)
          \<lparr>snapshotter := Some ms', cacheEvents := x, precompileCallsCounter := y\<rparr>)"

lemma in_precompile_advances:
  assumes "db_ok K db" and "in_precompile db db'"
  shows "advances K db db'"
proof -
  from assms(2) obtain ms ms' ev x y where ms: "snapshotter db = Some ms" "below_kept (head ms) ms ms'"
    and db': "db' = (journal_append (precompileCallChange (head ms) ev) db)
          \<lparr>snapshotter := Some ms', cacheEvents := x, precompileCallsCounter := y\<rparr>"
    by (auto simp: in_precompile_def)
  have vs: "v_stores (view K db) = Some ms" using ms(1) by (simp add: view_stores_def)
  then have l: "lockstep ms" "0 \<le> head ms" using assms(1) by (auto simp: db_ok_def good_def)
  have r: "snapshotmulti_RevertToSnapshot (head ms) ms' = Ok ms" by (rule below_kept_revert [OF l ms(2)])
  have v: "view K db' = (view K db)\<lparr>v_stores := Some ms'\<rparr>" by (simp add: db')
  have wc: "writeCache db \<noteq> None" using assms(1) ms(1) by (simp add: db_ok_def db_inv_def)
  show ?thesis
  proof (rule advances_entry [OF assms(1), where e = "precompileCallChange (head ms) ev"])
    have "(view K db)\<lparr>v_stores := Some ms\<rparr> = view K db" using vs by simp
    then show "undo K (precompileCallChange (head ms) ev) (view K db') = Ok (view K db)"
      by (simp add: v r del: view_sel)
    show "good (view K db')"
      using assms(1) ms(2) l(2) by (auto simp: v good_def db_ok_def below_kept_def)
    have "db_inv (entries db @ [precompileCallChange (head ms) ev]) (journal_append (precompileCallChange (head ms) ev) db)"
      using assms(1) ms(1) by (intro db_inv_append) (auto simp: db_ok_def)
    then show "db_inv (entries db @ [precompileCallChange (head ms) ev]) db'"
      using wc by (simp add: db' db_inv_def objects_ok_def journal_append_def)
  qed (simp_all add: db')
qed

lemma below_kept_put_current:
  assumes "0 \<le> n" and "below_kept n ms ms'"
  shows "below_kept n ms (put_current st ms')"
proof -
  have "below_kept n ms (fold (\<lambda>key. update_store key (\<lambda>_. st key)) keys ms')" for keys
    using assms(2) by (induction keys arbitrary: ms') (auto intro: below_kept_write [OF assms(1)])
  then show ?thesis by (simp add: put_current_def)
qed

lemma in_precompile_set_cacheCtx:
  assumes "db_ok K db" and "in_precompile db db'" and "snapshotter db' = Some ms"
  shows "in_precompile db (set_cacheCtx K c ms db')"
proof -
  from assms(2) obtain ms0 ms' ev x y where ms: "snapshotter db = Some ms0" "below_kept (head ms0) ms0 ms'"
    and db': "db' = (journal_append (precompileCallChange (head ms0) ev) db)
          \<lparr>snapshotter := Some ms', cacheEvents := x, precompileCallsCounter := y\<rparr>"
    by (auto simp: in_precompile_def)
  have "0 \<le> head ms0" using assms(1) ms(1) by (auto simp: db_ok_def good_def view_stores_def)
  then have "below_kept (head ms0) ms0 (case ctx_stores K c of None \<Rightarrow> ms | Some st \<Rightarrow> put_current st ms)"
    using ms(2) assms(3) db' by (auto intro: below_kept_put_current split: option.split)
  then show ?thesis
    unfolding in_precompile_def
    by (intro exI [of _ ms0] exI [of _ "case ctx_stores K c of None \<Rightarrow> ms | Some st \<Rightarrow> put_current st ms"]
        exI [of _ ev] exI [of _ "ctx_events K c"] exI [of _ y]) (simp add: ms(1) set_cacheCtx_def db')
qed

lemma GetCacheContext_advances:
  assumes "db_ok K db" and "GetCacheContext K db = (db', e)"
  shows "advances K db db'" and "view K db' = view K db" and "e = None \<Longrightarrow> snapshotter db' \<noteq> None"
    and "ctx_stores K (ctx db) \<noteq> None \<Longrightarrow> e = None"
proof -
  have w: "writeCache db = None \<longleftrightarrow> snapshotter db = None" using assms(1) by (simp add: db_ok_def db_inv_def)
  have c: "db' = db \<and> (e = None \<longrightarrow> snapshotter db \<noteq> None) \<or> (\<exists>base. ctx_stores K (ctx db) = Some base \<and> writeCache db = None \<and>
      e = None \<and> db' = db\<lparr>snapshotter := Some (cache_stores K base), cacheEvents := [], writeCache := Some WriteCacheCtx\<rparr>)"
    using assms(2) w by (auto simp: GetCacheContext_def cache_def split: if_splits option.splits)
  then show v: "view K db' = view K db" using w by (auto simp: view_stores_def)
  show "e = None \<Longrightarrow> snapshotter db' \<noteq> None" using c by auto
  show "ctx_stores K (ctx db) \<noteq> None \<Longrightarrow> e = None"
    using assms(2) by (auto simp: GetCacheContext_def cache_def split: if_splits)
  have "db_inv (entries db) db'" "entries db' = entries db" "nframe db' = nframe db"
    using c assms(1) by (auto simp: db_ok_def db_inv_def objects_ok_def)
  then show "advances K db db'" by (intro advances_quiet [OF assms(1) v]) simp_all
qed

lemma MultiStoreSnapshot_Ok:
  assumes "snapshotter db = Some ms" and "lockstep ms"
  shows "\<exists>ms'. MultiStoreSnapshot K db = Ok (head ms, db\<lparr>snapshotter := Some ms'\<rparr>) \<and> below_kept (head ms) ms ms'"
proof -
  obtain ms' where ms': "snapshotmulti_Snapshot (cache_ops K) ms = Ok (ms', head ms)"
    using Snapshot_Ok [OF assms(2)] by blast
  then show ?thesis
    using below_kept_start [OF assms(2) ms'] assms(1) by (auto simp: MultiStoreSnapshot_def)
qed

lemma AddPrecompileFn_recorded:
  assumes "db_ok K db" and "snapshotter db = Some ms" and "below_kept (head ms) ms ms1"
    and "AddPrecompileFn K a (head ms) ev (db\<lparr>snapshotter := Some ms1\<rparr>) = (db2, e)"
  shows "\<exists>db1. advances K db db1 \<and> in_precompile db1 db2"
proof -
  obtain so db1 where o: "getOrNewStateObject K a db = (so, db1)" by fastforce
  have f1: "snapshotter db1 = Some ms" "cacheEvents db1 = cacheEvents db"
    using getOrNewStateObject_frame [of K a db] o assms(2) by (simp_all add: frame_def)
  have "db2 = (journal_append (precompileCallChange (head ms) ev) (db1\<lparr>snapshotter := Some ms1\<rparr>))
      \<lparr>precompileCallsCounter := precompileCallsCounter db1 + 1\<rparr>"
    using o assms(4) by (auto simp: AddPrecompileFn_def getOrNewStateObject_snapshotter journal_append_def Let_def)
  then have "in_precompile db1 db2"
    unfolding in_precompile_def using f1 assms(3)
    by (intro exI [of _ ms] exI [of _ ms1] exI [of _ ev] exI [of _ "cacheEvents db"]
        exI [of _ "precompileCallsCounter db1 + 1"]) (simp add: journal_append_def)
  then show ?thesis using getOrNewStateObject_advances(1) [OF assms(1) o] by blast
qed

lemma CommitWithCacheCtx_recorded:
  assumes "db_ok K db1" and "in_precompile db1 db2"
  shows "\<exists>db3 e. CommitWithCacheCtx K db2 = Ok (db3, e) \<and> in_precompile db1 db3"
proof -
  obtain ms where ms: "snapshotter db2 = Some ms" using assms(2) by (auto simp: in_precompile_def)
  have i: "db_inv (entries db2) db2"
    using in_precompile_advances [OF assms] by (simp add: advances_def db_ok_def)
  obtain c e where "commitWithCtx K (cacheCtx K ms db2) db2 = Ok (c, e)"
    using commitWithCtx_total [OF i, of K "cacheCtx K ms db2"] by (elim exE) simp
  then show ?thesis
    using in_precompile_set_cacheCtx [OF assms ms, of c] ms by (simp add: CommitWithCacheCtx_def)
qed

lemma RunSetup_recorded:
  assumes "db_ok K db"
  shows "\<exists>db' e. RunSetup K a db = Ok (db', e) \<and>
    (advances K db db' \<and> e \<noteq> None \<or> (\<exists>db1. advances K db db1 \<and> in_precompile db1 db'))"
proof -
  obtain db0 e0 where g: "GetCacheContext K db = (db0, e0)" by fastforce
  note l = GetCacheContext_advances [OF assms g]
  show ?thesis
  proof (cases e0)
    case (Some err)
    then show ?thesis using g l(1) by (simp add: RunSetup_def)
  next
    case None
    then obtain ms where ms: "snapshotter db0 = Some ms" using l(3) by auto
    have ok0: "db_ok K db0" by (rule advances_ok [OF l(1)])
    then have "lockstep ms" using ms by (auto simp: db_ok_def good_def view_stores_def)
    with ms obtain ms1 where s: "MultiStoreSnapshot K db0 = Ok (head ms, db0\<lparr>snapshotter := Some ms1\<rparr>)"
      and k: "below_kept (head ms) ms ms1"
      using MultiStoreSnapshot_Ok by blast
    obtain db2 e2 where fn: "AddPrecompileFn K a (head ms) (cacheEvents db0) (db0\<lparr>snapshotter := Some ms1\<rparr>) = (db2, e2)"
      by fastforce
    from AddPrecompileFn_recorded [OF ok0 ms k fn] obtain db1 where
      a1: "advances K db db1" and p2: "in_precompile db1 db2"
      using advances_trans [OF l(1)] by blast
    show ?thesis
    proof (cases e2)
      case (Some err)
      then show ?thesis using g None s fn a1 p2 by (auto simp: RunSetup_def)
    next
      case None
      obtain db3 e3 where "CommitWithCacheCtx K db2 = Ok (db3, e3)" "in_precompile db1 db3"
        using CommitWithCacheCtx_recorded [OF advances_ok [OF a1] p2] by blast
      then show ?thesis using g \<open>e0 = None\<close> None s fn a1 by (auto simp: RunSetup_def)
    qed
  qed
qed

lemma precompile_call_advances:
  assumes "db_ok K db"
  shows "\<exists>db' e. precompile_call K a body db = Ok (db', e) \<and> advances K db db'"
proof -
  obtain db' e where r: "RunSetup K a db = Ok (db', e)"
    and c: "advances K db db' \<and> e \<noteq> None \<or> (\<exists>db1. advances K db db1 \<and> in_precompile db1 db')"
    using RunSetup_recorded [OF assms] by blast
  from c show ?thesis
  proof
    assume "advances K db db' \<and> e \<noteq> None"
    then show ?thesis using r by (auto simp: precompile_call_def)
  next
    assume "\<exists>db1. advances K db db1 \<and> in_precompile db1 db'"
    then obtain db1 where db1: "advances K db db1" "in_precompile db1 db'" by blast
    then have a: "advances K db db'"
      using in_precompile_advances [OF advances_ok [OF db1(1)]] advances_trans by blast
    obtain ms where ms: "snapshotter db' = Some ms" using db1(2) by (auto simp: in_precompile_def)
    have "in_precompile db1 (precompile_body K body db')"
      using in_precompile_set_cacheCtx [OF advances_ok [OF db1(1)] db1(2) ms] by (simp add: precompile_body_def ms)
    then have b: "advances K db (precompile_body K body db')"
      using in_precompile_advances [OF advances_ok [OF db1(1)]] advances_trans [OF db1(1)] by blast
    show ?thesis using r a b by (cases e) (auto simp: precompile_call_def)
  qed
qed

section \<open>The operations of the EVM\<close>

text \<open>The calls by which the EVM changes the state between snapshots.\<close>

datatype 'c db_op =
    OpCreateAccount addr
  | OpCreateContract addr
  | OpAddBalance addr uint256
  | OpSubBalance addr uint256
  | OpSetNonce addr uint64
  | OpSetCode addr "bytes option"
  | OpSetState addr hash hash
  | OpSelfDestruct addr
  | OpSelfDestruct6780 addr
  | OpSetTransientState addr hash hash
  | OpAddRefund uint64
  | OpSubRefund uint64
  | OpAddLog eth_log
  | OpAddAddress addr
  | OpAddSlot addr hash
  | OpRead addr hash
  | OpPrecompile addr "'c \<Rightarrow> 'c"

fun exec :: "('c, 'v, 'e) db_keeper \<Rightarrow> 'c db_op \<Rightarrow> ('c, 'v, 'e) statedb \<Rightarrow> ('c, 'v, 'e) statedb res" where
  "exec K (OpCreateAccount a) db = Ok (CreateAccount K a db)"
| "exec K (OpCreateContract a) db = CreateContract K a db"
| "exec K (OpAddBalance a x) db = Ok (snd (AddBalance K a x db))"
| "exec K (OpSubBalance a x) db = Ok (snd (SubBalance K a x db))"
| "exec K (OpSetNonce a n) db = Ok (SetNonce K a n db)"
| "exec K (OpSetCode a c) db = Ok (snd (SetCode K a c db))"
| "exec K (OpSetState a key x) db = Ok (snd (SetState K a key x db))"
| "exec K (OpSelfDestruct a) db = Ok (snd (SelfDestruct K a db))"
| "exec K (OpSelfDestruct6780 a) db = Ok (snd (SelfDestruct6780 K a db))"
| "exec K (OpSetTransientState a key x) db = Ok (SetTransientState a key x db)"
| "exec K (OpAddRefund gas) db = Ok (AddRefund gas db)"
| "exec K (OpSubRefund gas) db = SubRefund gas db"
| "exec K (OpAddLog l) db = Ok (AddLog l db)"
| "exec K (OpAddAddress a) db = Ok (AddAddressToAccessList a db)"
| "exec K (OpAddSlot a slot) db = AddSlotToAccessList a slot db"
| "exec K (OpRead a key) db = Ok (snd (GetState K a key (snd (GetCode K a db))))"
| "exec K (OpPrecompile a body) db = bind_res (precompile_call K a body db) (\<lambda>(db, _). Ok db)"

lemma getStateObject_edit_advances:
  assumes "db_ok K db" and "getStateObject K a db = (Some so, db1)" and "obj_address obj' = a"
    and "\<not> is_precompile e" and "\<And>b. e \<noteq> createObjectChange b" and "\<And>b. Dirtied e = Some b \<Longrightarrow> b = a"
    and "undo K e ((view K db1)\<lparr>v_accounts := (v_accounts (view K db1))(a \<mapsto> obj_view K (ctx db1) obj')\<rparr>) = Ok (view K db1)"
  shows "advances K db (setStateObject obj' (journal_append e db1))"
proof -
  note l = getStateObject_advances [OF assms(1,2)]
  have "stateObjects db1 a = Some so" using l(5) by simp
  from edit_advances [OF advances_ok [OF l(1)] this assms(3-7)] advances_trans [OF l(1)] show ?thesis by blast
qed

lemma CreateAccount_advances:
  assumes "db_ok K db"
  shows "advances K db (CreateAccount K a db)"
proof -
  obtain n p db' where c: "createObject K a db = ((n, p), db')" by (metis prod.exhaust)
  note l = createObject_advances [OF assms c]
  show ?thesis
  proof (cases p)
    case None
    then show ?thesis using l c by (simp add: CreateAccount_def)
  next
    case (Some prev)
    obtain db1 where g: "getStateObject K a db = (Some prev, db1)"
      and db': "db' = setStateObject n (journal_append (resetObjectChange prev) db1)"
      using c Some by (auto simp: createObject_def Let_def split: prod.splits)
    note m = getStateObject_advances [OF assms g]
    let ?n = "obj_setBalance (Balance (account prev)) n"
    have e: "CreateAccount K a db = setStateObject ?n (journal_append (resetObjectChange prev) db1)"
      using c Some l db' by (simp add: CreateAccount_def setStateObject_def)
    have a: "stateObjects db1 a = Some prev" "obj_address prev = a" using m(5) by auto
    show ?thesis
      unfolding e
      by (rule getStateObject_edit_advances [OF assms g])
        (use l a view_accounts_idem [OF accounts_live [OF a(1)]] in \<open>simp_all add: is_precompile_def del: view_sel(6)\<close>)
  qed
qed

lemma CreateContract_advances:
  assumes "db_ok K db" and "CreateContract K a db = Ok db'"
  shows "advances K db db'"
proof -
  obtain so db1 where g: "getStateObject K a db = (Some so, db1)"
    using assms(2) by (auto simp: CreateContract_def split: prod.splits option.splits)
  note l = getStateObject_advances [OF assms(1) g]
  have a: "stateObjects db1 a = Some so" "obj_address so = a" using l(5) by auto
  show ?thesis
  proof (cases "newContract so")
    case True
    then show ?thesis using assms(2) g l(1) by (simp add: CreateContract_def)
  next
    case False
    then have "db' = setStateObject (so\<lparr>newContract := True\<rparr>) (journal_append (createContractChange a) db1)"
      using assms(2) g by (auto simp: CreateContract_def journal_append_def setStateObject_def)
    moreover have "(obj_view K (ctx db1) (so\<lparr>newContract := True\<rparr>))\<lparr>av_new := False\<rparr> = obj_view K (ctx db1) so"
      using False by (simp only: obj_view_set) (simp add: obj_view_def)
    ultimately show ?thesis
      using a on_account_restore [OF accounts_live [OF a(1)]]
      by (auto simp: is_precompile_def simp del: view_sel(6) intro!: getStateObject_edit_advances [OF assms(1) g])
  qed
qed

lemma SelfDestruct_advances:
  assumes "db_ok K db"
  shows "advances K db (snd (SelfDestruct K a db))"
proof -
  obtain x db1 where g: "getStateObject K a db = (x, db1)" by fastforce
  note l = getStateObject_advances [OF assms g]
  show ?thesis
  proof (cases x)
    case None
    then show ?thesis using l(1) g by (simp add: SelfDestruct_def)
  next
    case (Some so)
    then have a: "stateObjects db1 a = Some so" "obj_address so = a" using l(5) by auto
    have "advances K db (setStateObject (obj_setBalance 0 (markSelfDestructed so))
        (journal_append (selfDestructChange a (selfDestructed so) (Balance (account so))) db1))"
      by (rule getStateObject_edit_advances [OF assms g [unfolded Some]])
        (simp_all add: a(2) is_precompile_def obj_view_back view_accounts_idem [OF accounts_live [OF a(1)]] del: view_sel(6))
    then show ?thesis using g Some by (simp add: SelfDestruct_def Let_def)
  qed
qed

lemma setters_advance:
  assumes "db_ok K db"
  shows "advances K db (snd (AddBalance K a amount db))" "advances K db (snd (SubBalance K a amount db))"
    "advances K db (SetNonce K a nonce db)" "advances K db (snd (SetCode K a c db))"
    "advances K db (snd (SetState K a key x db))"
proof -
  obtain so db1 where g: "getOrNewStateObject K a db = (so, db1)" by fastforce
  note l = getOrNewStateObject_advances [OF assms g]
  note ok = advances_ok [OF l(1)]
  note t = advances_trans [OF l(1)]
  show "advances K db (snd (AddBalance K a amount db))" "advances K db (snd (SubBalance K a amount db))"
    using g l(1) t obj_SetBalance_advances [OF ok l(2)]
    by (simp_all add: AddBalance_def obj_AddBalance_def SubBalance_def obj_SubBalance_def)
  show "advances K db (SetNonce K a nonce db)"
    using g t obj_SetNonce_advances [OF ok l(2)] by (simp add: SetNonce_def)
  show "advances K db (snd (SetCode K a c db))"
    using g t obj_SetCode_advances [OF ok l(2)] by (simp add: SetCode_def)
  show "advances K db (snd (SetState K a key x db))"
    using g t obj_SetState_advances [OF ok l(2)] by (simp add: SetState_def)
qed

lemma db_inv_append_other:
  assumes "db_ok K db" and "\<not> is_precompile e" and "Dirtied e = None"
  shows "db_inv (entries db @ [e]) (journal_append e db)"
  using assms by (intro db_inv_append) (auto simp: db_ok_def)

lemma SetTransientState_advances:
  assumes "db_ok K db"
  shows "advances K db (SetTransientState a key x db)"
proof (cases "GetTransientState a key db = x")
  case True
  then show ?thesis by (simp add: SetTransientState_def advances_refl [OF assms])
next
  case False
  let ?e = "transientStorageChange a key (GetTransientState a key db)"
  have e: "SetTransientState a key x db = setTransientState a key x (journal_append ?e db)"
    using False by (simp add: SetTransientState_def)
  show ?thesis
  proof (rule advances_entry [OF assms, where e = ?e])
    show "undo K ?e (view K (SetTransientState a key x db)) = Ok (view K db)"
      unfolding e by (simp add: setTransientState_def journal_append_def transient_Get_Set_upd GetTransientState_def)
    show "good (view K (SetTransientState a key x db))" "nframe (SetTransientState a key x db) = nframe db"
      using assms unfolding e by (simp_all add: setTransientState_def db_ok_def)
    show "db_inv (entries db @ [?e]) (SetTransientState a key x db)"
      using db_inv_append_other [OF assms, of ?e] unfolding e by (simp add: setTransientState_def is_precompile_def)
  qed (simp add: e setTransientState_def)
qed

lemma view_restore:
  "(view K db)\<lparr>v_refund := refund db\<rparr> = view K db" "(view K db)\<lparr>v_logs := logs db\<rparr> = view K db"
  "(view K db)\<lparr>v_access := accessList db\<rparr> = view K db"
  by (simp_all add: view_def)

lemma refund_advances:
  assumes "db_ok K db"
  shows "advances K db ((journal_append (refundChange (refund db)) db)\<lparr>refund := r\<rparr>)"
  by (rule advances_entry [OF assms, where e = "refundChange (refund db)"])
    (use assms db_inv_append_other [OF assms, of "refundChange (refund db)"] in
      \<open>simp_all add: view_restore is_precompile_def db_ok_def\<close>)

lemma AddLog_advances:
  assumes "db_ok K db"
  shows "advances K db (AddLog l db)"
proof -
  have l: "logs (journal_append addLogChange db) = logs db" by (simp add: journal_append_def)
  obtain l' where l': "AddLog l db = (journal_append addLogChange db)\<lparr>logs := logs db @ [l']\<rparr>"
    by (simp add: AddLog_def Let_def l)
  show ?thesis
    unfolding l'
    by (rule advances_entry [OF assms, where e = addLogChange])
      (use assms db_inv_append_other [OF assms, of addLogChange] in
        \<open>simp_all add: view_restore is_precompile_def db_ok_def\<close>)
qed

lemma good_access: "good (v\<lparr>v_access := al\<rparr>) \<longleftrightarrow> al_ok al \<and> (\<forall>ms. v_stores v = Some ms \<longrightarrow> lockstep ms \<and> 0 \<le> head ms)"
  by (simp add: good_def)

lemma access_entry_advances:
  assumes "db_ok K db" and "al_ok al" and "\<not> is_precompile e" and "Dirtied e = None"
    and "undo K e ((view K db)\<lparr>v_access := al\<rparr>) = Ok (view K db)"
  shows "advances K db (journal_append e (db\<lparr>accessList := al\<rparr>))"
proof -
  have j: "journal_append e (db\<lparr>accessList := al\<rparr>) = (journal_append e db)\<lparr>accessList := al\<rparr>"
    by (simp add: journal_append_def assms(4))
  have "good (view K db)" using assms(1) by (simp add: db_ok_def)
  then have "good ((view K db)\<lparr>v_access := al\<rparr>)" using assms(2) by (simp add: good_def)
  then show ?thesis
    unfolding j
    by (intro advances_entry [OF assms(1), where e = e])
      (use assms db_inv_append_other [OF assms(1,3,4)] in simp_all)
qed

lemma AddAddressToAccessList_advances:
  assumes "db_ok K db"
  shows "advances K db (AddAddressToAccessList a db)"
proof -
  obtain added al where g: "AddAddress a (accessList db) = (added, al)" by fastforce
  have "al_ok (accessList db)" using assms by (simp add: db_ok_def good_def)
  then have al: "al_ok al" using AddAddress_ok [of "accessList db" a] g by simp
  show ?thesis
  proof (cases added)
    case True
    then have "DeleteAddress a al = accessList db" using DeleteAddress_AddAddress g by simp
    then show ?thesis
      using access_entry_advances [OF assms al, of "accessListAddAccountChange a"] g True
      by (simp add: AddAddressToAccessList_def is_precompile_def view_restore)
  next
    case False
    then have "al = accessList db" using g by (auto simp: AddAddress_def split: if_splits)
    then show ?thesis using False g advances_refl [OF assms] by (simp add: AddAddressToAccessList_def)
  qed
qed

lemma AddSlotToAccessList_advances:
  assumes "db_ok K db"
  shows "\<exists>db'. AddSlotToAccessList a slot db = Ok db' \<and> advances K db db'"
proof -
  have ok: "al_ok (accessList db)" using assms by (simp add: db_ok_def good_def)
  then obtain addrMod slotMod al where g: "AddSlot a slot (accessList db) = Ok ((addrMod, slotMod), al)"
    using AddSlot_total by fastforce
  have al: "al_ok al" by (rule AddSlot_ok [OF ok g])
  show ?thesis
  proof (cases slotMod)
    case False
    then have "al = accessList db" "\<not> addrMod" using g by (auto simp: AddSlot_def split: option.splits if_splits)
    then show ?thesis using False g advances_refl [OF assms] by (simp add: AddSlotToAccessList_def)
  next
    case slot: True
    have g1: "AddSlot a slot (accessList db) = Ok ((addrMod, True), al)" using g slot by simp
    obtain al1 where d: "DeleteSlot a slot al = Ok al1" "(if addrMod then DeleteAddress a al1 else al1) = accessList db"
      using DeleteSlot_AddSlot [OF ok g1] by blast
    show ?thesis
    proof (cases addrMod)
      case False
      then show ?thesis
        using access_entry_advances [OF assms al, of "accessListAddSlotChange a slot"] g d slot
        by (simp add: AddSlotToAccessList_def is_precompile_def view_restore)
    next
      case True
      have al1: "al_ok al1" "al1 = snd (AddAddress a (accessList db))"
      proof -
        have n: "addresses (accessList db) a = None"
          using g True by (auto simp: AddSlot_def split: option.splits if_splits)
        then have "al = (accessList db)\<lparr>addresses := (addresses (accessList db))(a \<mapsto> int (length (slots (accessList db)))),
            slots := slots (accessList db) @ [{slot}]\<rparr>" using g by (simp add: AddSlot_def)
        with n d show "al1 = snd (AddAddress a (accessList db))"
          by (auto simp: DeleteSlot_def AddAddress_def nth_append)
        with ok show "al_ok al1" using AddAddress_ok by simp
      qed
      let ?db1 = "journal_append (accessListAddAccountChange a) (db\<lparr>accessList := al1\<rparr>)"
      have a1: "advances K db ?db1"
        by (rule access_entry_advances [OF assms al1(1)]) (use d True in \<open>simp_all add: is_precompile_def view_restore\<close>)
      have "advances K ?db1 (journal_append (accessListAddSlotChange a slot) (?db1\<lparr>accessList := al\<rparr>))"
        by (rule access_entry_advances [OF advances_ok [OF a1] al]) (use d in \<open>simp_all add: is_precompile_def\<close>)
      then show ?thesis
        using advances_trans [OF a1] g slot True by (simp add: AddSlotToAccessList_def journal_append_def)
    qed
  qed
qed

lemma GetState_GetCode_advances:
  assumes "db_ok K db"
  shows "advances K db (snd (GetCode K a db))" "advances K db (snd (GetState K a key db))"
    "view K (snd (GetCode K a db)) = view K db" "view K (snd (GetState K a key db)) = view K db"
proof -
  obtain x db1 where g: "getStateObject K a db = (x, db1)" by fastforce
  note l = getStateObject_advances [OF assms g]
  have "(advances K db (snd (GetCode K a db)) \<and> view K (snd (GetCode K a db)) = view K db) \<and>
      advances K db (snd (GetState K a key db)) \<and> view K (snd (GetState K a key db)) = view K db"
  proof (cases x)
    case None
    then show ?thesis using g l(1,3) by (simp add: GetCode_def GetState_def)
  next
    case (Some so)
    have so: "stateObjects db1 a = Some so" using l(5) Some by simp
    obtain c obj2 db2 where c: "obj_Code K so db1 = (c, obj2, db2)" by (metis prod_cases3)
    obtain y obj3 db3 where y: "obj_GetState K key so db1 = (y, obj3, db3)" by (metis prod_cases3)
    show ?thesis
      using g Some c y obj_Code_advances(1,6) [OF advances_ok [OF l(1)] so c]
        obj_GetState_advances(1,5) [OF advances_ok [OF l(1)] so y] advances_trans [OF l(1)] l(3)
      by (simp add: GetCode_def GetState_def)
  qed
  then show "advances K db (snd (GetCode K a db))" "advances K db (snd (GetState K a key db))"
    "view K (snd (GetCode K a db)) = view K db" "view K (snd (GetState K a key db)) = view K db" by auto
qed

text \<open>When an operation panics.\<close>

definition exec_safe :: "('c, 'v, 'e) db_keeper \<Rightarrow> 'c db_op \<Rightarrow> ('c, 'v, 'e) statedb \<Rightarrow> bool" where
  "exec_safe K op db =
     (case op of
        OpCreateContract a \<Rightarrow> live K db a \<noteq> None
      | OpSubRefund gas \<Rightarrow> gas \<le> refund db
      | _ \<Rightarrow> True)"

lemma exec_advances:
  assumes "db_ok K db"
  shows "if exec_safe K op db then \<exists>db'. exec K op db = Ok db' \<and> advances K db db'
    else \<exists>msg. exec K op db = Panic msg"
proof (cases op)
  case (OpCreateContract a)
  obtain x db1 where g: "getStateObject K a db = (x, db1)" by fastforce
  note l = getStateObject_advances [OF assms g]
  show ?thesis
  proof (cases x)
    case None
    then show ?thesis using OpCreateContract g l(2) by (simp add: CreateContract_def exec_safe_def)
  next
    case (Some so)
    then obtain db' where "CreateContract K a db = Ok db'"
      using g by (cases "newContract so") (simp_all add: CreateContract_def)
    then show ?thesis
      using OpCreateContract CreateContract_advances [OF assms] l(2) [symmetric] Some by (auto simp: exec_safe_def)
  qed
next
  case (OpSelfDestruct6780 a)
  obtain x db1 where g: "getStateObject K a db = (x, db1)" by fastforce
  note l = getStateObject_advances [OF assms g]
  have "advances K db (snd (SelfDestruct6780 K a db))"
    using g l(1) advances_trans [OF l(1) SelfDestruct_advances [OF advances_ok [OF l(1)], of a]]
    by (auto simp: SelfDestruct6780_def split: option.split prod.split)
  then show ?thesis using OpSelfDestruct6780 by (simp add: exec_safe_def)
next
  case (OpSubRefund gas)
  then show ?thesis
    using refund_advances [OF assms] by (auto simp: SubRefund_def Let_def exec_safe_def journal_append_def)
next
  case (OpAddRefund gas)
  then show ?thesis
    using refund_advances [OF assms] by (simp add: AddRefund_def Let_def exec_safe_def journal_append_def)
next
  case (OpAddSlot a slot)
  then show ?thesis using AddSlotToAccessList_advances [OF assms] by (simp add: exec_safe_def)
next
  case (OpRead a key)
  then show ?thesis
    using GetState_GetCode_advances(1) [OF assms, of a] GetState_GetCode_advances(2) advances_ok advances_trans
    by (simp add: exec_safe_def) blast
next
  case (OpPrecompile a body)
  then show ?thesis
    using precompile_call_advances [OF assms, of a body] by (auto simp: exec_safe_def)
qed (use assms in \<open>simp_all add: exec_safe_def CreateAccount_advances setters_advance SelfDestruct_advances
      SetTransientState_advances AddLog_advances AddAddressToAccessList_advances\<close>)

section \<open>Revisions\<close>

lemma search_loop_spec:
  assumes "\<And>a b. a \<le> b \<Longrightarrow> b < n \<Longrightarrow> f a \<Longrightarrow> f b" and "i \<le> j" and "j \<le> n"
    and "\<And>k. k < i \<Longrightarrow> \<not> f k" and "\<And>k. j \<le> k \<Longrightarrow> k < n \<Longrightarrow> f k"
  shows "search_loop f i j \<le> n \<and> (\<forall>k < n. f k \<longleftrightarrow> search_loop f i j \<le> k)"
  using assms
proof (induction f i j rule: search_loop.induct)
  case (1 f i j)
  let ?h = "(i + j) div 2"
  show ?case
  proof (cases "i < j")
    case False
    then have "search_loop f i j = i" "j = i" using 1(4) by (auto simp: search_loop.simps)
    then show ?thesis using 1(5-7) by (metis not_le_imp_less)
  next
    case True
    then have h: "i \<le> ?h" "?h < j" by auto
    show ?thesis
    proof (cases "f ?h")
      case f: True
      have "search_loop f i ?h \<le> n \<and> (\<forall>k < n. f k \<longleftrightarrow> search_loop f i ?h \<le> k)"
        by (rule 1(2) [OF True refl]) (use f h 1(3,5-7) in auto)
      then show ?thesis using True f by (simp add: search_loop.simps [of f i j] Let_def)
    next
      case nf: False
      have b: "\<not> f k" if "k < ?h + 1" for k
        using 1(3) [of k ?h] nf that h 1(5) by (metis less_Suc_eq_le Suc_eq_plus1 order.strict_trans2)
      have "search_loop f (?h + 1) j \<le> n \<and> (\<forall>k < n. f k \<longleftrightarrow> search_loop f (?h + 1) j \<le> k)"
        by (rule 1(1) [OF True refl nf]) (use h b 1(3,5,7) in auto)
      then show ?thesis using True nf by (simp add: search_loop.simps [of f i j] Let_def)
    qed
  qed
qed

definition rev_ok :: "('c, 'v, 'e) statedb \<Rightarrow> bool" where
  "rev_ok db \<longleftrightarrow>
     sorted_wrt (\<lambda>r r'. rev_id r < rev_id r' \<and> journalIndex r \<le> journalIndex r') (validRevisions db) \<and>
     (\<forall>r \<in> set (validRevisions db). rev_id r < nextRevisionID db \<and> journalIndex r \<le> length (entries db))"

lemma sort_Search_revisions:
  assumes "rev_ok db"
  defines "n \<equiv> length (validRevisions db)"
    and "f \<equiv> \<lambda>revid i. rev_id (validRevisions db ! i) \<ge> (revid::int)"
  shows "sort_Search n (f revid) \<le> n" and "k < n \<Longrightarrow> f revid k \<longleftrightarrow> sort_Search n (f revid) \<le> k"
proof -
  have m: "f revid b" if "a \<le> b" "b < n" "f revid a" for a b
    using that assms(1) sorted_wrt_nth_less [of "\<lambda>r r'. rev_id r < rev_id r' \<and> journalIndex r \<le> journalIndex r'" "validRevisions db" a b]
    by (cases "a = b") (auto simp: rev_ok_def f_def n_def)
  have "search_loop (f revid) 0 n \<le> n \<and> (\<forall>k < n. f revid k \<longleftrightarrow> search_loop (f revid) 0 n \<le> k)"
    by (rule search_loop_spec [where f = "f revid" and i = 0 and j = n and n = n]) (use m in auto)
  then show "sort_Search n (f revid) \<le> n" "k < n \<Longrightarrow> f revid k \<longleftrightarrow> sort_Search n (f revid) \<le> k"
    by (auto simp: sort_Search_def)
qed

lemma rev_ids_less:
  assumes "rev_ok db" and "i < k" and "k < length (validRevisions db)"
  shows "rev_id (validRevisions db ! i) < rev_id (validRevisions db ! k)"
    and "journalIndex (validRevisions db ! i) \<le> journalIndex (validRevisions db ! k)"
proof -
  have "sorted_wrt (\<lambda>r r'. rev_id r < rev_id r' \<and> journalIndex r \<le> journalIndex r') (validRevisions db)"
    using assms(1) by (simp add: rev_ok_def)
  from sorted_wrt_nth_less [OF this assms(2,3)]
  show "rev_id (validRevisions db ! i) < rev_id (validRevisions db ! k)"
    "journalIndex (validRevisions db ! i) \<le> journalIndex (validRevisions db ! k)" by simp_all
qed

lemma sort_Search_found:
  assumes "rev_ok db" and "k < length (validRevisions db)"
  shows "sort_Search (length (validRevisions db)) (\<lambda>i. rev_id (validRevisions db ! i) \<ge> rev_id (validRevisions db ! k)) = k"
    (is "?idx = k")
proof -
  have le: "?idx \<le> k"
    using sort_Search_revisions(2) [OF assms(1,2), of "rev_id (validRevisions db ! k)"] by simp
  have "\<not> ?idx < k"
  proof
    assume i: "?idx < k"
    then have "?idx < length (validRevisions db)" using assms(2) by simp
    from sort_Search_revisions(2) [OF assms(1) this, of "rev_id (validRevisions db ! k)"]
    have "rev_id (validRevisions db ! k) \<le> rev_id (validRevisions db ! ?idx)" by simp
    with rev_ids_less(1) [OF assms(1) i assms(2)] show False by simp
  qed
  with le show ?thesis by simp
qed

lemma RevertToSnapshot_unknown:
  assumes "rev_ok db" and "\<And>r. r \<in> set (validRevisions db) \<Longrightarrow> rev_id r \<noteq> revid"
  shows "RevertToSnapshot K revid db = Panic ''revision id cannot be reverted''"
proof -
  let ?idx = "sort_Search (length (validRevisions db)) (\<lambda>i. rev_id (validRevisions db ! i) \<ge> revid)"
  have "?idx \<le> length (validRevisions db)" using sort_Search_revisions(1) [OF assms(1)] .
  then have "?idx = length (validRevisions db) \<or> rev_id (validRevisions db ! ?idx) \<noteq> revid"
    using assms(2) nth_mem [of ?idx "validRevisions db"] by fastforce
  then show ?thesis by (simp add: RevertToSnapshot_def Let_def)
qed

lemma rev_ok_take:
  assumes "rev_ok db" and "k < length (validRevisions db)" and "validRevisions db' = take k (validRevisions db)"
    and "length (entries db') = journalIndex (validRevisions db ! k)" and "nextRevisionID db' = nextRevisionID db"
  shows "rev_ok db'"
  unfolding rev_ok_def
proof (intro conjI ballI)
  show "sorted_wrt (\<lambda>r r'. rev_id r < rev_id r' \<and> journalIndex r \<le> journalIndex r') (validRevisions db')"
    unfolding assms(3) using assms(1) by (intro sorted_wrt_take) (simp add: rev_ok_def)
  fix r assume r: "r \<in> set (validRevisions db')"
  then obtain i where i: "i < length (take k (validRevisions db))" "take k (validRevisions db) ! i = r"
    unfolding assms(3) in_set_conv_nth by blast
  then have "i < k" "r = validRevisions db ! i" by auto
  then show "journalIndex r \<le> length (entries db')"
    using rev_ids_less(2) [OF assms(1) _ assms(2), of i] assms(4) by simp
  show "rev_id r < nextRevisionID db'"
    using in_set_takeD [of r k "validRevisions db"] r assms(1,3,5) by (simp add: rev_ok_def)
qed

lemma RevertToSnapshot_found:
  assumes "db_ok K db" and "rev_ok db" and "k < length (validRevisions db)"
    and "entries db = es0 @ es" and "length es0 = journalIndex (validRevisions db ! k)" and "hist K v0 es (view K db)"
  shows "\<exists>db'. RevertToSnapshot K (rev_id (validRevisions db ! k)) db = Ok db' \<and> view K db' = v0 \<and> entries db' = es0 \<and>
    validRevisions db' = take k (validRevisions db) \<and> nextRevisionID db' = nextRevisionID db \<and> ctx db' = ctx db \<and>
    db_ok K db' \<and> rev_ok db'"
proof -
  have "db_inv (es0 @ es) db" using assms(1,4) by (simp add: db_ok_def)
  from unwind_hist [OF assms(6) this] obtain db1 where db1: "unwind K es db = Ok db1" "view K db1 = v0" "db_inv es0 db1"
      "rframe db1 = rframe db" by blast
  let ?db' = "db1\<lparr>entries := es0, validRevisions := take k (validRevisions db)\<rparr>"
  have f: "entries db1 = es0 @ es" "validRevisions db1 = validRevisions db" "nextRevisionID db1 = nextRevisionID db"
      "ctx db1 = ctx db"
    using db1(4) assms(4) by (simp_all add: rframe_def)
  have "journal_Revert K (length es0) db = Ok (db1\<lparr>entries := es0\<rparr>)"
    using db1(1) f(1) assms(4) by (simp add: journal_Revert_def unwind_def)
  then have "RevertToSnapshot K (rev_id (validRevisions db ! k)) db = Ok ?db'"
    using assms(3,5) f(2) by (simp add: RevertToSnapshot_def Let_def sort_Search_found [OF assms(2,3)])
  moreover have "db_ok K ?db'" using db1(2,3) hist_good [OF assms(6)] by (simp add: db_ok_def)
  moreover have "rev_ok ?db'" by (rule rev_ok_take [OF assms(2,3)]) (simp_all add: f assms(5))
  moreover have "view K ?db' = v0" using db1(2) by simp
  ultimately show ?thesis using f by (intro exI [of _ ?db']) simp
qed

end
