(* ===== verification/StateDBSpec.thy ===== *)
theory StateDBSpec
  imports StateDBProofs
begin

text \<open>
  The states a transaction can reach and the specification of the operations of the EVM on what can be
  observed, with the refinement of the one by the other.
\<close>

section \<open>Reachable states\<close>

inductive db_reach :: "('c, 'v, 'e) db_keeper \<Rightarrow> ('c, 'v, 'e) statedb \<Rightarrow> bool" for K :: "('c, 'v, 'e) db_keeper" where
  start: "Prepare r sender coinbase dst precompiles al (New c cfg) = Ok db \<Longrightarrow> db_reach K db"
| op: "db_reach K db \<Longrightarrow> exec K x db = Ok db' \<Longrightarrow> db_reach K db'"
| snap: "db_reach K db \<Longrightarrow> db_reach K (snd (Snapshot db))"
| revert: "db_reach K db \<Longrightarrow> RevertToSnapshot K i db = Ok db' \<Longrightarrow> db_reach K db'"

text \<open>What may happen between taking the snapshot \<open>n\<close> and reverting to it.\<close>

inductive db_run :: "('c, 'v, 'e) db_keeper \<Rightarrow> int \<Rightarrow> ('c, 'v, 'e) statedb \<Rightarrow> ('c, 'v, 'e) statedb \<Rightarrow> bool"
  for K :: "('c, 'v, 'e) db_keeper" and n :: int where
  stop: "db_run K n db db"
| op: "db_run K n db db' \<Longrightarrow> exec K x db' = Ok db'' \<Longrightarrow> db_run K n db db''"
| snap: "db_run K n db db' \<Longrightarrow> db_run K n db (snd (Snapshot db'))"
| revert: "db_run K n db db' \<Longrightarrow> n < i \<Longrightarrow> RevertToSnapshot K i db' = Ok db'' \<Longrightarrow> db_run K n db db''"

lemma Snapshot_view [simp]:
  "view K (snd (Snapshot db)) = view K db" "entries (snd (Snapshot db)) = entries db"
  "validRevisions (snd (Snapshot db)) = validRevisions db @ [\<lparr>rev_id = nextRevisionID db, journalIndex = length (entries db)\<rparr>]"
  "nextRevisionID (snd (Snapshot db)) = nextRevisionID db + 1" "fst (Snapshot db) = nextRevisionID db"
  by (simp_all add: Snapshot_def Let_def)

lemma Snapshot_ok: "db_ok K db \<Longrightarrow> db_ok K (snd (Snapshot db))"
  by (simp add: db_ok_def Snapshot_def Let_def)

lemma rev_ok_Snapshot: "rev_ok db \<Longrightarrow> rev_ok (snd (Snapshot db))"
  by (force simp: rev_ok_def sorted_wrt_append)

lemma rev_ok_advances: "rev_ok db \<Longrightarrow> advances K db db' \<Longrightarrow> rev_ok db'"
  by (fastforce simp: rev_ok_def advances_def nframe_def)

lemma exec_Ok_advances:
  assumes "db_ok K db" and "exec K x db = Ok db'"
  shows "advances K db db'"
  using exec_advances [OF assms(1), of x] assms(2) by (auto split: if_splits)

text \<open>A revert that succeeds is a revert to a valid revision.\<close>

lemma RevertToSnapshot_cases:
  assumes "rev_ok db" and "RevertToSnapshot K i db = Ok db'"
  obtains k where "k < length (validRevisions db)" "rev_id (validRevisions db ! k) = i"
proof -
  have "\<exists>r \<in> set (validRevisions db). rev_id r = i"
    using RevertToSnapshot_unknown [OF assms(1), of i K] assms(2) by force
  then show thesis using that by (auto simp: in_set_conv_nth)
qed

lemma add_slots_ok: "add_slots a keys al = Ok al' \<Longrightarrow> al_ok al \<Longrightarrow> al_ok al'"
  unfolding add_slots_def by (erule for_each_inv) (auto simp: res_simps intro: AddSlot_ok)

lemma add_addresses_ok: "al_ok al \<Longrightarrow> al_ok (add_addresses as al)"
  unfolding add_addresses_def by (induction as arbitrary: al) (auto intro: AddAddress_ok)

lemma warm_list_ok:
  assumes "warm_list r sender coinbase dst precompiles al0 = Ok al"
  shows "al_ok al"
proof -
  let ?al1 = "add_addresses precompiles (case dst of None \<Rightarrow> snd (AddAddress sender newAccessList)
      | Some d \<Rightarrow> snd (AddAddress d (snd (AddAddress sender newAccessList))))"
  have "al_ok ?al1"
    by (rule add_addresses_ok) (simp add: AddAddress_ok split: option.split)
  obtain al2 where al2: "for_each (\<lambda>(a, keys) al. add_slots a keys (snd (AddAddress a al))) al0 ?al1 = Ok al2"
    and al: "al = (if IsShanghai r then snd (AddAddress coinbase al2) else al2)"
    using assms by (auto simp: warm_list_def Let_def res_simps)
  have "al_ok al2" by (rule for_each_inv [where P = al_ok, OF al2 \<open>al_ok ?al1\<close>]) (auto intro: add_slots_ok AddAddress_ok)
  then show ?thesis using al by (simp add: AddAddress_ok)
qed

lemma Prepare_cases:
  assumes "Prepare r sender coinbase dst precompiles al0 db = Ok db'" and "al_ok (accessList db)"
  shows "\<exists>al. db' = db\<lparr>accessList := al, transientStorage := newTransientStorage\<rparr> \<and> al_ok al"
proof -
  obtain al where al: "(if IsEIP2929 r then warm_list r sender coinbase dst precompiles al0 else Ok (accessList db)) = Ok al"
    and db': "db' = db\<lparr>accessList := al, transientStorage := newTransientStorage\<rparr>"
    using assms(1) by (auto simp: Prepare_def res_simps)
  have "al_ok al" using al assms(2) warm_list_ok by (auto split: if_splits)
  with db' show ?thesis by blast
qed

lemma start_ok:
  assumes "distinct (kKVStoreKeys K)" and "Prepare r sender coinbase dst precompiles al (New c cfg) = Ok db"
  shows "db_ok K db \<and> rev_ok db \<and> entries db = []"
proof -
  have "al_ok (accessList (New c cfg :: ('a, 'b, 'c) statedb))" by (simp add: New_def)
  from Prepare_cases [OF assms(2) this] obtain al' where
    db: "db = (New c cfg)\<lparr>accessList := al', transientStorage := newTransientStorage\<rparr>" and al': "al_ok al'" by blast
  have "lockstep (cache_stores K base) \<and> 0 \<le> head (cache_stores K base)" for base
    using lockstep_NewStore [OF assms(1)]
    by (simp add: cache_stores_def) (simp add: snapshotmulti_NewStore_def InitialHead_def)
  with al' have "good (view K db)"
    by (auto simp: good_def db New_def view_stores_def)
  moreover have "db_inv [] db" by (simp add: db New_def db_inv_def objects_ok_def dirties_ok_def)
  ultimately show ?thesis by (simp add: db_ok_def db New_def rev_ok_def)
qed

lemma reach_inv:
  assumes "distinct (kKVStoreKeys K)" and "db_reach K db"
  shows "db_ok K db \<and> rev_ok db \<and> (\<exists>v0. hist K v0 (entries db) (view K db))"
  using assms(2)
proof induction
  case (start r sender coinbase dst precompiles al c cfg db)
  from start_ok [OF assms(1) this] show ?case by (auto simp: db_ok_def intro: hist.same)
next
  case (op db x db')
  then have a: "advances K db db'" by (blast intro: exec_Ok_advances)
  from op obtain v0 where "hist K v0 (entries db) (view K db)" by blast
  with a have "hist K v0 (entries db') (view K db')" by (auto simp: advances_def intro: hist_trans)
  with op a show ?case using advances_ok rev_ok_advances by blast
next
  case (snap db)
  then show ?case using Snapshot_ok rev_ok_Snapshot by auto
next
  case (revert db i db')
  then have inv: "db_ok K db" "rev_ok db" by auto
  from revert obtain v0 where h: "hist K v0 (entries db) (view K db)" by blast
  from RevertToSnapshot_cases [OF inv(2) revert.hyps(2)] obtain k where k: "k < length (validRevisions db)"
    "rev_id (validRevisions db ! k) = i" .
  let ?n = "journalIndex (validRevisions db ! k)"
  have n: "?n \<le> length (entries db)" using inv(2) k(1) nth_mem by (fastforce simp: rev_ok_def)
  have "hist K v0 (take ?n (entries db) @ drop ?n (entries db)) (view K db)" using h by simp
  from hist_split [OF this] obtain v1 where v1: "hist K v0 (take ?n (entries db)) v1"
    "hist K v1 (drop ?n (entries db)) (view K db)" by blast
  from RevertToSnapshot_found [OF inv k(1) _ _ v1(2), of "take ?n (entries db)"] n k(2) revert.hyps(2) v1(1)
  show ?case by auto
qed

lemma run_inv:
  assumes "db_run K n db1 db'" and "db1 = snd (Snapshot db)" and "n = nextRevisionID db" and "db_ok K db" and "rev_ok db"
  shows "db_ok K db' \<and> rev_ok db' \<and> ctx db' = ctx db \<and> (\<exists>es rs. entries db' = entries db @ es \<and> hist K (view K db) es (view K db') \<and>
    validRevisions db' = validRevisions db @ \<lparr>rev_id = n, journalIndex = length (entries db)\<rparr> # rs)"
  using assms(1,2)
proof induction
  case (stop db1)
  have "hist K (view K db) [] (view K db)" using assms(4) by (simp add: db_ok_def hist.same)
  moreover have "ctx (snd (Snapshot db)) = ctx db" by (simp add: Snapshot_def Let_def)
  ultimately show ?case using stop assms(3-5) Snapshot_ok rev_ok_Snapshot by auto
next
  case (op db1 db' x db'')
  then obtain es rs where inv: "db_ok K db'" "rev_ok db'" "ctx db' = ctx db" and e: "entries db' = entries db @ es"
    "hist K (view K db) es (view K db')"
    "validRevisions db' = validRevisions db @ \<lparr>rev_id = n, journalIndex = length (entries db)\<rparr> # rs" by blast
  have a: "advances K db' db''" by (rule exec_Ok_advances [OF inv(1) op.hyps(2)])
  then obtain fs where f: "entries db'' = entries db' @ fs" "hist K (view K db') fs (view K db'')"
    by (auto simp: advances_def)
  have "ctx db'' = ctx db" "validRevisions db'' = validRevisions db'" using a inv(3) by (simp_all add: advances_def nframe_def)
  moreover have "hist K (view K db) (es @ fs) (view K db'')" by (rule hist_trans [OF f(2) e(2)])
  ultimately show ?case
    using advances_ok [OF a] rev_ok_advances [OF inv(2) a] e f(1) by auto
next
  case (snap db1 db')
  then show ?case
    using Snapshot_ok [of K db'] rev_ok_Snapshot [of db'] by (auto simp: Snapshot_def Let_def)
next
  case (revert db1 db' i db'')
  then obtain es rs where inv: "db_ok K db'" "rev_ok db'" "ctx db' = ctx db" and e: "entries db' = entries db @ es"
    "hist K (view K db) es (view K db')"
    "validRevisions db' = validRevisions db @ \<lparr>rev_id = n, journalIndex = length (entries db)\<rparr> # rs" by blast
  from RevertToSnapshot_cases [OF inv(2) revert.hyps(3)] obtain k where k: "k < length (validRevisions db')"
    "rev_id (validRevisions db' ! k) = i" .
  let ?m = "length (validRevisions db)" and ?n = "journalIndex (validRevisions db' ! k)"
  have m: "rev_id (validRevisions db' ! ?m) = n" "journalIndex (validRevisions db' ! ?m) = length (entries db)" "?m < length (validRevisions db')"
    using e(3) by (simp_all add: nth_append)
  have km: "?m < k"
    using rev_ids_less(1) [OF inv(2), of k ?m] m k revert.hyps(2) by (metis less_asym linorder_neqE_nat)
  then have le: "length (entries db) \<le> ?n" "?n \<le> length (entries db')"
    using rev_ids_less(2) [OF inv(2) km k(1)] m inv(2) nth_mem [OF k(1)] by (auto simp: rev_ok_def)
  let ?fs = "take (?n - length (entries db)) es"
  have t: "take ?n (entries db') = entries db @ ?fs" using e(1) le by simp
  have d: "entries db' = (entries db @ ?fs) @ drop (?n - length (entries db)) es" by (simp add: e(1))
  have "hist K (view K db) (?fs @ drop (?n - length (entries db)) es) (view K db')" using e(2) by simp
  from hist_split [OF this] obtain v1 where v1: "hist K (view K db) ?fs v1"
    "hist K v1 (drop (?n - length (entries db)) es) (view K db')" by blast
  have "length (entries db @ ?fs) = ?n" using le e(1) by (metis t length_take min.absorb2)
  from RevertToSnapshot_found [OF inv(1,2) k(1) d this v1(2)] k(2) revert.hyps(3)
  have r: "view K db'' = v1" "entries db'' = entries db @ ?fs" "validRevisions db'' = take k (validRevisions db')"
    "ctx db'' = ctx db'" "db_ok K db''" "rev_ok db''" by auto
  have "take k (validRevisions db') = validRevisions db @ \<lparr>rev_id = n, journalIndex = length (entries db)\<rparr> # take (k - ?m - 1) rs"
    using km e(3) by (cases "k - ?m") auto
  then show ?case using r v1(1) inv(3) by auto
qed

section \<open>What the operations do\<close>

text \<open>The operations on what can be observed, without journal, caches or lazy loading.\<close>

definition av_fresh :: "('c, 'v, 'e) db_keeper \<Rightarrow> 'c \<Rightarrow> addr \<Rightarrow> account_view" where
  "av_fresh K c a =
     \<lparr>av_account = NewEmptyAccount K, av_code = None, av_committed = kGetState K c a, av_state = kGetState K c a,
      av_destructed = False, av_new = False\<rparr>"

definition acct_of :: "('c, 'v, 'e) db_keeper \<Rightarrow> addr \<Rightarrow> ('c, 'v) db_view \<Rightarrow> account_view" where
  "acct_of K a v = (case v_accounts v a of Some x \<Rightarrow> x | None \<Rightarrow> av_fresh K (v_ctx v) a)"

definition set_acct :: "addr \<Rightarrow> account_view \<Rightarrow> ('c, 'v) db_view \<Rightarrow> ('c, 'v) db_view" where
  "set_acct a x v = v\<lparr>v_accounts := (v_accounts v)(a \<mapsto> x)\<rparr>"

definition av_balance :: "account_view \<Rightarrow> uint256" where
  "av_balance x = Balance (av_account x)"

definition al_add :: "addr \<Rightarrow> accessList \<Rightarrow> accessList" where
  "al_add a al = snd (AddAddress a al)"

fun spec :: "('c, 'v, 'e) db_keeper \<Rightarrow> TxConfig \<Rightarrow> 'c db_op \<Rightarrow> ('c, 'v) db_view \<Rightarrow> ('c, 'v) db_view res" where
  "spec K cfg (OpCreateAccount a) v =
     Ok (set_acct a (av_setBalance (case v_accounts v a of None \<Rightarrow> 0 | Some x \<Rightarrow> av_balance x) (av_fresh K (v_ctx v) a)) v)"
| "spec K cfg (OpCreateContract a) v =
     (case v_accounts v a of None \<Rightarrow> Panic ''nil pointer'' | Some x \<Rightarrow> Ok (set_acct a (x\<lparr>av_new := True\<rparr>) v))"
| "spec K cfg (OpAddBalance a n) v = Ok (set_acct a (let x = acct_of K a v in av_setBalance (av_balance x + n) x) v)"
| "spec K cfg (OpSubBalance a n) v = Ok (set_acct a (let x = acct_of K a v in av_setBalance (av_balance x - n) x) v)"
| "spec K cfg (OpSetNonce a n) v =
     Ok (set_acct a (let x = acct_of K a v in x\<lparr>av_account := (av_account x)\<lparr>Nonce := n\<rparr>\<rparr>) v)"
| "spec K cfg (OpSetCode a c) v =
     Ok (set_acct a (let x = acct_of K a v; h = keccak K (case c of None \<Rightarrow> [] | Some bs \<Rightarrow> bs)
                     in x\<lparr>av_account := (av_account x)\<lparr>CodeHash := h\<rparr>, av_code := c\<rparr>) v)"
| "spec K cfg (OpSetState a key y) v =
     Ok (set_acct a (let x = acct_of K a v in x\<lparr>av_state := (av_state x)(key := y)\<rparr>) v)"
| "spec K cfg (OpSelfDestruct a) v =
     Ok (case v_accounts v a of
           None \<Rightarrow> v | Some x \<Rightarrow> set_acct a (av_setBalance 0 (x\<lparr>av_destructed := True\<rparr>)) v)"
| "spec K cfg (OpSelfDestruct6780 a) v =
     Ok (case v_accounts v a of
           None \<Rightarrow> v
         | Some x \<Rightarrow> if av_new x then set_acct a (av_setBalance 0 (x\<lparr>av_destructed := True\<rparr>)) v else v)"
| "spec K cfg (OpSetTransientState a key y) v = Ok (v\<lparr>v_transient := (v_transient v)(a := (v_transient v a)(key := y))\<rparr>)"
| "spec K cfg (OpAddRefund gas) v = Ok (v\<lparr>v_refund := v_refund v + gas\<rparr>)"
| "spec K cfg (OpSubRefund gas) v =
     (if gas > v_refund v then Panic ''Refund counter below zero'' else Ok (v\<lparr>v_refund := v_refund v - gas\<rparr>))"
| "spec K cfg (OpAddLog l) v =
     Ok (v\<lparr>v_logs := v_logs v @ [l\<lparr>log_TxHash := TxHash cfg, log_BlockHash := BlockHash cfg, log_TxIndex := TxIndex cfg,
                log_Index := LogIndex cfg + word_of_nat (length (v_logs v))\<rparr>]\<rparr>)"
| "spec K cfg (OpAddAddress a) v = Ok (v\<lparr>v_access := al_add a (v_access v)\<rparr>)"
| "spec K cfg (OpAddSlot a slot) v = bind_res (AddSlot a slot (v_access v)) (\<lambda>(_, al). Ok (v\<lparr>v_access := al\<rparr>))"
| "spec K cfg (OpRead a key) v = Ok v"
| "spec K cfg (OpPrecompile a body) v = Ok v"

lemma obj_view_new: "obj_view K c (newObject K a None) = av_fresh K c a"
  by (simp add: obj_view_def av_fresh_def newObject_def NewEmptyAccount_def eff_code_def eff_committed_def eff_state_def
      IsEmptyCodeHash_def fun_eq_iff)

lemma getOrNewStateObject_view:
  assumes "db_ok K db" and "getOrNewStateObject K a db = (so, db')"
  shows "view K db' = set_acct a (acct_of K a (view K db)) (view K db)"
    and "obj_view K (ctx db) so = acct_of K a (view K db)" and "ctx db' = ctx db"
proof -
  obtain x db1 where g: "getStateObject K a db = (x, db1)" by fastforce
  note l = getStateObject_advances [OF assms(1) g]
  have c1: "ctx db1 = ctx db" using l(1) by (simp add: advances_def nframe_def)
  have "view K db' = set_acct a (acct_of K a (view K db)) (view K db) \<and> obj_view K (ctx db) so = acct_of K a (view K db) \<and>
    ctx db' = ctx db"
  proof (cases x)
    case None
    then have db1: "db1 = db" and n: "live K db a = None" using l(2,6) by auto
    then have "so = newObject K a None" "db' = setStateObject so (journal_append (createObjectChange a) db)"
      using assms(2) g None by (auto simp: getOrNewStateObject_def createObject_def Let_def)
    moreover from this have "view K db' = (view K db)\<lparr>v_accounts := (v_accounts (view K db))(a \<mapsto> obj_view K (ctx db) so)\<rparr>"
      using view_set [of so a K "journal_append (createObjectChange a) db"] by (simp del: view_sel(6))
    ultimately show ?thesis
      using n by (simp add: set_acct_def acct_of_def obj_view_new)
  next
    case (Some obj)
    then have "so = obj" "db' = db1" "live K db a = Some obj" using assms(2) g l(2) by (auto simp: getOrNewStateObject_def)
    moreover from this have "v_accounts (view K db) a = Some (obj_view K (ctx db) obj)" by simp
    ultimately show ?thesis
      using l(3) c1 view_accounts_idem [of "view K db" a] by (simp add: set_acct_def acct_of_def del: view_sel(6))
  qed
  then show "view K db' = set_acct a (acct_of K a (view K db)) (view K db)"
    "obj_view K (ctx db) so = acct_of K a (view K db)" "ctx db' = ctx db" by auto
qed

lemma set_acct_set [simp]: "set_acct a x (set_acct a y v) = set_acct a x v" "v_ctx (set_acct a x v) = v_ctx v"
  by (simp_all add: set_acct_def)

lemma set_acct_idem: "v_accounts v a = Some x \<Longrightarrow> set_acct a x v = v"
  by (simp add: set_acct_def fun_upd_idem)

lemma view_edit:
  "obj_address obj = a \<Longrightarrow>
     view K (setStateObject obj (journal_append e db)) = set_acct a (obj_view K (ctx db) obj) (view K db)"
  using view_set [of obj a K "journal_append e db"] by (simp add: set_acct_def del: view_sel(6))

lemma obj_view_code: "av_code (obj_view K c obj) = eff_code K c (code obj) (CodeHash (account obj))"
  "av_account (obj_view K c obj) = account obj" "av_state (obj_view K c obj) = eff_state K c obj"
  "av_destructed (obj_view K c obj) = selfDestructed obj" "av_new (obj_view K c obj) = newContract obj"
  by (simp_all add: obj_view_def)

lemma balance_refines:
  assumes "db_ok K db"
  shows "view K (snd (AddBalance K a n db)) =
      set_acct a (let x = acct_of K a (view K db) in av_setBalance (av_balance x + n) x) (view K db)" (is ?add)
    and "view K (snd (SubBalance K a n db)) =
      set_acct a (let x = acct_of K a (view K db) in av_setBalance (av_balance x - n) x) (view K db)" (is ?sub)
proof -
  obtain so db1 where g: "getOrNewStateObject K a db = (so, db1)" by fastforce
  note l = getOrNewStateObject_advances [OF assms g] and v = getOrNewStateObject_view [OF assms g]
  have b: "av_balance (acct_of K a (view K db)) = Balance (account so)"
    using v(2) [symmetric] by (simp add: av_balance_def obj_view_code)
  have id: "av_setBalance (av_balance x) x = x" for x by (simp add: av_setBalance_def av_balance_def)
  have e: "view K (snd (obj_SetBalance m so db1)) = set_acct a (av_setBalance m (acct_of K a (view K db))) (view K db)" for m
    using l(3) v view_edit [of "obj_setBalance m so" a K "balanceChange a (Balance (account so))" db1]
    by (simp add: obj_SetBalance_def Let_def obj_view_set)
  show ?add ?sub
    using g e v(1) b id [of "acct_of K a (view K db)"]
    by (simp_all add: AddBalance_def obj_AddBalance_def SubBalance_def obj_SubBalance_def Let_def)
qed

lemma SetNonce_refines:
  assumes "db_ok K db"
  shows "view K (SetNonce K a n db) =
    set_acct a (let x = acct_of K a (view K db) in x\<lparr>av_account := (av_account x)\<lparr>Nonce := n\<rparr>\<rparr>) (view K db)"
proof -
  obtain so db1 where g: "getOrNewStateObject K a db = (so, db1)" by fastforce
  note l = getOrNewStateObject_advances [OF assms g] and v = getOrNewStateObject_view [OF assms g]
  show ?thesis
    using g l(3) v by (simp add: SetNonce_def obj_SetNonce_def view_edit obj_view_set)
qed

lemma SetCode_refines:
  assumes "db_ok K db"
  shows "view K (snd (SetCode K a c db)) =
    set_acct a (let x = acct_of K a (view K db); h = keccak K (case c of None \<Rightarrow> [] | Some bs \<Rightarrow> bs)
                in x\<lparr>av_account := (av_account x)\<lparr>CodeHash := h\<rparr>, av_code := c\<rparr>) (view K db)"
proof -
  obtain so db1 where g: "getOrNewStateObject K a db = (so, db1)" by fastforce
  note l = getOrNewStateObject_advances [OF assms g] and v = getOrNewStateObject_view [OF assms g]
  obtain prev obj2 db2 where c: "obj_Code K so db1 = (prev, obj2, db2)" by (metis prod_cases3)
  note m = obj_Code_advances [OF advances_ok [OF l(1)] l(2) c]
  have "eff_code K (ctx db) c (keccak K (case c of None \<Rightarrow> [] | Some bs \<Rightarrow> bs)) = c"
    by (simp add: eff_code_def IsEmptyCodeHash_def EmptyCodeHash_def)
  then show ?thesis
    using g c m v by (simp add: SetCode_def obj_SetCode_def view_edit obj_view_set Let_def)
qed

lemma SetState_refines:
  assumes "db_ok K db"
  shows "view K (snd (SetState K a key y db)) =
    set_acct a (let x = acct_of K a (view K db) in x\<lparr>av_state := (av_state x)(key := y)\<rparr>) (view K db)"
proof -
  obtain so db1 where g: "getOrNewStateObject K a db = (so, db1)" by fastforce
  note l = getOrNewStateObject_advances [OF assms g] and v = getOrNewStateObject_view [OF assms g]
  obtain prev obj2 db2 where c: "obj_GetState K key so db1 = (prev, obj2, db2)" by (metis prod_cases3)
  note m = obj_GetState_advances [OF advances_ok [OF l(1)] l(2) c]
  show ?thesis
  proof (cases "prev = y")
    case True
    have "av_state (acct_of K a (view K db)) key = y" using True m(4) v(2,3) by (metis obj_view_code(3))
    then have "(let x = acct_of K a (view K db) in x\<lparr>av_state := (av_state x)(key := y)\<rparr>) = acct_of K a (view K db)"
      by (simp add: Let_def fun_upd_idem)
    then show ?thesis using g c True m(5) v(1) by (simp add: SetState_def obj_SetState_def)
  next
    case False
    then show ?thesis using g c m v by (simp add: SetState_def obj_SetState_def view_edit obj_view_set Let_def)
  qed
qed

lemma CreateAccount_refines:
  assumes "db_ok K db"
  shows "view K (CreateAccount K a db) = set_acct a (av_setBalance
    (case v_accounts (view K db) a of None \<Rightarrow> 0 | Some x \<Rightarrow> av_balance x) (av_fresh K (ctx db) a)) (view K db)"
proof -
  obtain x db1 where g: "getStateObject K a db = (x, db1)" by fastforce
  note l = getStateObject_advances [OF assms g]
  have c: "ctx db1 = ctx db" using l(1) by (simp add: advances_def nframe_def)
  have f: "av_setBalance 0 (av_fresh K (ctx db) a) = av_fresh K (ctx db) a"
    by (simp add: av_setBalance_def av_fresh_def NewEmptyAccount_def)
  show ?thesis
  proof (cases x)
    case None
    then show ?thesis
      using g l(2,3) c f by (simp add: CreateAccount_def createObject_def Let_def view_edit obj_view_new)
  next
    case (Some p)
    then have "CreateAccount K a db =
        setStateObject (obj_setBalance (Balance (account p)) (newObject K a None)) (journal_append (resetObjectChange p) db1)"
      using g by (simp add: CreateAccount_def createObject_def Let_def setStateObject_def)
    then show ?thesis
      using Some l(2) [symmetric] l(3) c by (simp add: view_edit obj_view_set obj_view_new av_balance_def obj_view_code)
  qed
qed

lemma CreateContract_refines:
  assumes "db_ok K db"
  shows "bind_res (CreateContract K a db) (\<lambda>db. Ok (view K db)) =
    (case v_accounts (view K db) a of None \<Rightarrow> Panic ''nil pointer'' | Some x \<Rightarrow> Ok (set_acct a (x\<lparr>av_new := True\<rparr>) (view K db)))"
proof -
  obtain x db1 where g: "getStateObject K a db = (x, db1)" by fastforce
  note l = getStateObject_advances [OF assms g]
  have c: "ctx db1 = ctx db" using l(1) by (simp add: advances_def nframe_def)
  show ?thesis
  proof (cases x)
    case None
    then show ?thesis using g l(2) [symmetric] by (simp add: CreateContract_def)
  next
    case (Some obj)
    then have a: "v_accounts (view K db) a = Some (obj_view K (ctx db) obj)" "obj_address obj = a" using l(2,5) by auto
    have j: "journal_append e (setStateObject o' db1) = setStateObject o' (journal_append e db1)" if "Dirtied e = None" for e o'
      using that by (simp add: journal_append_def setStateObject_def)
    show ?thesis
    proof (cases "newContract obj")
      case True
      then have "(obj_view K (ctx db) obj)\<lparr>av_new := True\<rparr> = obj_view K (ctx db) obj" by (simp add: obj_view_def)
      then show ?thesis
        using g Some True l(3) a set_acct_idem [OF a(1)] by (simp add: CreateContract_def del: view_sel(6))
    next
      case False
      then show ?thesis
        using g Some a l(3) c by (simp add: CreateContract_def j view_edit obj_view_set del: view_sel(6))
    qed
  qed
qed

lemma SelfDestruct_refines:
  assumes "db_ok K db"
  shows "view K (snd (SelfDestruct K a db)) = (case v_accounts (view K db) a of
    None \<Rightarrow> view K db | Some x \<Rightarrow> set_acct a (av_setBalance 0 (x\<lparr>av_destructed := True\<rparr>)) (view K db))"
proof -
  obtain x db1 where g: "getStateObject K a db = (x, db1)" by fastforce
  note l = getStateObject_advances [OF assms g]
  have c: "ctx db1 = ctx db" using l(1) by (simp add: advances_def nframe_def)
  show ?thesis
  proof (cases x)
    case None
    then show ?thesis using g l(2) [symmetric] l(3) by (simp add: SelfDestruct_def)
  next
    case (Some obj)
    then have "obj_address obj = a" using l(5) by auto
    then show ?thesis
      using g Some c l(2) [symmetric] l(3)
      by (simp add: SelfDestruct_def Let_def view_edit obj_view_set markSelfDestructed_def)
  qed
qed

lemma SelfDestruct6780_refines:
  assumes "db_ok K db"
  shows "view K (snd (SelfDestruct6780 K a db)) = (case v_accounts (view K db) a of
    None \<Rightarrow> view K db
  | Some x \<Rightarrow> if av_new x then set_acct a (av_setBalance 0 (x\<lparr>av_destructed := True\<rparr>)) (view K db) else view K db)"
proof -
  obtain x db1 where g: "getStateObject K a db = (x, db1)" by fastforce
  note l = getStateObject_advances [OF assms g]
  have c: "ctx db1 = ctx db" using l(1) by (simp add: advances_def nframe_def)
  show ?thesis
    using g l(2) [symmetric] l(3,4) SelfDestruct_refines [OF advances_ok [OF l(1)], of a] c
    by (cases x) (simp_all add: SelfDestruct6780_def split_beta obj_view_code)
qed

definition is_call :: "'c db_op \<Rightarrow> bool" where
  "is_call op = (case op of OpPrecompile _ _ \<Rightarrow> True | _ \<Rightarrow> False)"

lemma exec_refines:
  assumes "db_ok K db" and "\<not> is_call op"
  shows "bind_res (exec K op db) (\<lambda>db. Ok (view K db)) = spec K (txConfig db) op (view K db)"
proof (cases op)
  case (OpCreateContract a)
  then show ?thesis using CreateContract_refines [OF assms(1)] by simp
next
  case (OpSetTransientState a key y)
  then show ?thesis
    by (simp add: SetTransientState_def setTransientState_def GetTransientState_def Let_def transient_Get_Set_upd)
      (auto simp: view_def fun_eq_iff journal_append_def)
next
  case (OpAddAddress a)
  then show ?thesis
    by (auto simp: AddAddressToAccessList_def al_add_def AddAddress_def split_beta Let_def)
next
  case (OpAddSlot a slot)
  then show ?thesis
    by (auto simp: AddSlotToAccessList_def bind_res_assoc split_beta Let_def intro: bind_res_cong)
next
  case (OpRead a key)
  have "db_ok K (snd (GetCode K a db))" using GetState_GetCode_advances(1) [OF assms(1)] advances_ok by blast
  from GetState_GetCode_advances(4) [OF this, of a key] show ?thesis
    using OpRead GetState_GetCode_advances(3) [OF assms(1)] by simp
next
  case (OpAddLog l)
  then show ?thesis by (simp add: AddLog_def Let_def journal_append_def)
next
  case (OpAddRefund gas)
  then show ?thesis by (simp add: AddRefund_def Let_def journal_append_def)
next
  case (OpSubRefund gas)
  then show ?thesis by (simp add: SubRefund_def Let_def journal_append_def)
next
  case (OpPrecompile a body)
  then show ?thesis using assms(2) by (simp add: is_call_def)
qed (use assms(1) in \<open>simp_all add: balance_refines SetNonce_refines SetCode_refines SetState_refines CreateAccount_refines
      SelfDestruct_refines SelfDestruct6780_refines del: view_sel(6)\<close>)

end
