(* ===== verification/StateDBCommit.thy ===== *)
theory StateDBCommit
  imports StateDBSpec
begin

text \<open>
  Committing the journaled state: the objects keep their dirty slots ordered and cache only what the
  keeper holds, and a commit writes exactly the dirty accounts.
\<close>

section \<open>Well-formed objects\<close>

definition obj_wf :: "('c, 'v, 'e) db_keeper \<Rightarrow> 'c \<Rightarrow> stateObject \<Rightarrow> bool" where
  "obj_wf K c obj \<longleftrightarrow> kv_ok (dirtyStorage obj) \<and>
     (\<forall>key x. originStorage obj key = Some x \<longrightarrow> x = kGetState K c (obj_address obj) key)"

definition wf_db :: "('c, 'v, 'e) db_keeper \<Rightarrow> ('c, 'v, 'e) statedb \<Rightarrow> bool" where
  "wf_db K db \<longleftrightarrow>
     (\<forall>a obj. stateObjects db a = Some obj \<longrightarrow> obj_wf K (ctx db) obj) \<and>
     (\<forall>p. resetObjectChange p \<in> set (entries db) \<longrightarrow> obj_wf K (ctx db) p)"

lemma obj_wf_set [simp]:
  "obj_wf K c (obj_setBalance b obj) = obj_wf K c obj" "obj_wf K c (obj_setNonce n obj) = obj_wf K c obj"
  "obj_wf K c (obj_setCode h bs obj) = obj_wf K c obj" "obj_wf K c (markSelfDestructed obj) = obj_wf K c obj"
  "obj_wf K c (obj\<lparr>newContract := b'\<rparr>) = obj_wf K c obj" "obj_wf K c (obj\<lparr>selfDestructed := b'\<rparr>) = obj_wf K c obj"
  "obj_wf K c (obj\<lparr>code := cd\<rparr>) = obj_wf K c obj" "obj_wf K c (newObject K a acct)"
  "obj_wf K c obj \<Longrightarrow> obj_wf K c (obj_setState key y obj)"
  by (auto simp: obj_wf_def obj_setBalance_def obj_setNonce_def obj_setCode_def markSelfDestructed_def newObject_def
      obj_setState_def)

lemma wf_set [simp]: "wf_db K db \<Longrightarrow> obj_wf K (ctx db) obj \<Longrightarrow> wf_db K (setStateObject obj db)"
  by (simp add: wf_db_def)

lemma wf_append [simp]:
  "wf_db K db \<Longrightarrow> \<forall>p. e = resetObjectChange p \<longrightarrow> obj_wf K (ctx db) p \<Longrightarrow> wf_db K (journal_append e db)"
  by (auto simp: wf_db_def)

lemma wf_upd [simp]:
  "wf_db K (db\<lparr>refund := r\<rparr>) = wf_db K db" "wf_db K (db\<lparr>logs := ls\<rparr>) = wf_db K db"
  "wf_db K (db\<lparr>accessList := al\<rparr>) = wf_db K db" "wf_db K (db\<lparr>transientStorage := t\<rparr>) = wf_db K db"
  "wf_db K (db\<lparr>snapshotter := sn\<rparr>) = wf_db K db" "wf_db K (db\<lparr>cacheEvents := ev\<rparr>) = wf_db K db"
  "wf_db K (db\<lparr>writeCache := w\<rparr>) = wf_db K db" "wf_db K (db\<lparr>precompileCallsCounter := n\<rparr>) = wf_db K db"
  "wf_db K (db\<lparr>validRevisions := rs\<rparr>) = wf_db K db" "wf_db K (db\<lparr>nextRevisionID := i\<rparr>) = wf_db K db"
  "wf_db K (db\<lparr>dirties := ds\<rparr>) = wf_db K db"
  by (simp_all add: wf_db_def)

lemma wf_get:
  assumes "wf_db K db" and "getStateObject K a db = (x, db')"
  shows "wf_db K db'" and "ctx db' = ctx db" and "entries db' = entries db"
    and "x = Some obj \<Longrightarrow> obj_wf K (ctx db) obj"
proof -
  have "x = Some obj \<Longrightarrow> stateObjects db a = Some obj \<or> (\<exists>acct. obj = newObject K a (Some acct))" for obj
    using assms(2) by (auto simp: getStateObject_def Let_def split: option.splits)
  then show "x = Some obj \<Longrightarrow> obj_wf K (ctx db) obj" using assms(1) by (auto simp: wf_db_def)
  show "wf_db K db'" "ctx db' = ctx db" "entries db' = entries db"
    using assms by (auto simp: getStateObject_def Let_def split: option.splits)
qed

lemma wf_create:
  assumes "wf_db K db" and "createObject K a db = ((n, p), db')"
  shows "wf_db K db'" and "ctx db' = ctx db" and "obj_wf K (ctx db) n"
proof -
  obtain x db1 where g: "getStateObject K a db = (x, db1)" by fastforce
  note l = wf_get [OF assms(1) g]
  have "db' = setStateObject (newObject K a None)
      (journal_append (case x of None \<Rightarrow> createObjectChange a | Some p \<Rightarrow> resetObjectChange p) db1)" "n = newObject K a None"
    using assms(2) g by (auto simp: createObject_def Let_def)
  then show "wf_db K db'" "ctx db' = ctx db" "obj_wf K (ctx db) n"
    using l by (auto split: option.splits)
qed

lemma wf_getOrNew:
  assumes "wf_db K db" and "getOrNewStateObject K a db = (so, db')"
  shows "wf_db K db'" and "ctx db' = ctx db" and "obj_wf K (ctx db) so"
proof -
  obtain x db1 where g: "getStateObject K a db = (x, db1)" by fastforce
  note l = wf_get [OF assms(1) g]
  have "wf_db K db' \<and> ctx db' = ctx db \<and> obj_wf K (ctx db) so"
  proof (cases x)
    case None
    obtain n p db2 where c: "createObject K a db1 = ((n, p), db2)" by (metis prod.exhaust)
    then have "so = n" "db' = db2" using assms(2) g None by (simp_all add: getOrNewStateObject_def)
    then show ?thesis using wf_create [OF l(1) c] l(2) by simp
  next
    case (Some obj)
    then have "so = obj" "db' = db1" using assms(2) g by (simp_all add: getOrNewStateObject_def)
    then show ?thesis using l Some by simp
  qed
  then show "wf_db K db'" "ctx db' = ctx db" "obj_wf K (ctx db) so" by auto
qed

lemma wf_obj_Code:
  assumes "wf_db K db" and "obj_wf K (ctx db) obj" and "obj_Code K obj db = (x, obj', db')"
  shows "wf_db K db'" and "ctx db' = ctx db" and "obj_wf K (ctx db) obj'"
  using assms by (auto simp: obj_Code_def Let_def split: if_splits)

lemma wf_obj_GetCommittedState:
  assumes "wf_db K db" and "obj_wf K (ctx db) obj" and "obj_GetCommittedState K key obj db = (x, obj', db')"
  shows "wf_db K db'" and "ctx db' = ctx db" and "obj_wf K (ctx db) obj'"
proof -
  have "obj_wf K (ctx db) (obj\<lparr>originStorage := (originStorage obj)(key \<mapsto> kGetState K (ctx db) (obj_address obj) key)\<rparr>)"
    using assms(2) by (auto simp: obj_wf_def)
  then show "wf_db K db'" "ctx db' = ctx db" "obj_wf K (ctx db) obj'"
    using assms by (auto simp: obj_GetCommittedState_def Let_def split: option.splits)
qed

lemma wf_obj_GetState:
  assumes "wf_db K db" and "obj_wf K (ctx db) obj" and "obj_GetState K key obj db = (x, obj', db')"
  shows "wf_db K db'" and "ctx db' = ctx db" and "obj_wf K (ctx db) obj'"
  using assms wf_obj_GetCommittedState [OF assms(1,2)] by (auto simp: obj_GetState_def split: option.splits)

lemma wf_setters:
  assumes "wf_db K db"
  shows "wf_db K (snd (AddBalance K a n db))" "wf_db K (snd (SubBalance K a n db))" "wf_db K (SetNonce K a nonce db)"
    "wf_db K (snd (SetCode K a c db))" "wf_db K (snd (SetState K a key y db))"
proof -
  obtain so db1 where g: "getOrNewStateObject K a db = (so, db1)" by fastforce
  note l = wf_getOrNew [OF assms g]
  show "wf_db K (snd (AddBalance K a n db))" "wf_db K (snd (SubBalance K a n db))" "wf_db K (SetNonce K a nonce db)"
    using g l by (auto simp: AddBalance_def SubBalance_def SetNonce_def obj_AddBalance_def obj_SubBalance_def
        obj_SetBalance_def obj_SetNonce_def Let_def)
  obtain prev obj2 db2 where c: "obj_Code K so db1 = (prev, obj2, db2)" by (metis prod_cases3)
  show "wf_db K (snd (SetCode K a c db))"
    using g c l wf_obj_Code [OF l(1) _ c] by (simp add: SetCode_def obj_SetCode_def)
  obtain x obj3 db3 where s: "obj_GetState K key so db1 = (x, obj3, db3)" by (metis prod_cases3)
  show "wf_db K (snd (SetState K a key y db))"
    using g s l wf_obj_GetState [OF l(1) _ s] by (simp add: SetState_def obj_SetState_def)
qed

lemma wf_CreateAccount:
  assumes "wf_db K db"
  shows "wf_db K (CreateAccount K a db)"
proof -
  obtain n p db' where c: "createObject K a db = ((n, p), db')" by (metis prod.exhaust)
  show ?thesis using wf_create [OF assms c] c by (simp add: CreateAccount_def split: option.split)
qed

lemma wf_CreateContract:
  assumes "wf_db K db" and "CreateContract K a db = Ok db'"
  shows "wf_db K db'"
proof -
  obtain so db1 where g: "getStateObject K a db = (Some so, db1)"
    using assms(2) by (auto simp: CreateContract_def split: prod.splits option.splits)
  show ?thesis
    using wf_get [OF assms(1) g] assms(2) g by (auto simp: CreateContract_def split: if_splits)
qed

lemma wf_SelfDestruct:
  assumes "wf_db K db"
  shows "wf_db K (snd (SelfDestruct K a db))"
proof -
  obtain x db1 where g: "getStateObject K a db = (x, db1)" by fastforce
  show ?thesis
    using wf_get [OF assms g] g by (simp add: SelfDestruct_def Let_def split: option.split)
qed

lemma wf_SelfDestruct6780:
  assumes "wf_db K db"
  shows "wf_db K (snd (SelfDestruct6780 K a db))"
proof -
  obtain x db1 where g: "getStateObject K a db = (x, db1)" by fastforce
  show ?thesis
    using wf_get [OF assms g] g wf_SelfDestruct [of K db1 a]
    by (simp add: SelfDestruct6780_def Let_def split_beta split: option.split)
qed

lemma wf_reads:
  assumes "wf_db K db"
  shows "wf_db K (snd (GetCode K a db))" "wf_db K (snd (GetState K a key db))"
proof -
  obtain x db1 where g: "getStateObject K a db = (x, db1)" by fastforce
  note l = wf_get [OF assms g]
  have "wf_db K (snd (GetCode K a db)) \<and> wf_db K (snd (GetState K a key db))"
  proof (cases x)
    case (Some so)
    obtain c obj2 db2 where c: "obj_Code K so db1 = (c, obj2, db2)" by (metis prod_cases3)
    obtain y obj3 db3 where y: "obj_GetState K key so db1 = (y, obj3, db3)" by (metis prod_cases3)
    have "obj_wf K (ctx db1) so" using l(2,4) Some by simp
    then show ?thesis
      using g Some c y wf_obj_Code(1) [OF l(1) _ c] wf_obj_GetState(1) [OF l(1) _ y] by (simp add: GetCode_def GetState_def)
  qed (use g l in \<open>simp add: GetCode_def GetState_def\<close>)
  then show "wf_db K (snd (GetCode K a db))" "wf_db K (snd (GetState K a key db))" by auto
qed

lemma wf_set_cacheCtx [simp]: "wf_db K (set_cacheCtx K c ms db) = wf_db K db"
  by (simp add: set_cacheCtx_def)

lemma wf_precompile_call:
  assumes "wf_db K db" and "precompile_call K a body db = Ok (db', e)"
  shows "wf_db K db'"
proof -
  have c: "wf_db K (fst (GetCacheContext K db))"
    using assms(1) by (simp add: GetCacheContext_def cache_def split: option.split)
  have s: "MultiStoreSnapshot K d = Ok (n, d') \<Longrightarrow> wf_db K d \<Longrightarrow> wf_db K d'" for d d' n
    by (auto simp: MultiStoreSnapshot_def res_simps split: option.splits)
  have f: "AddPrecompileFn K a n ev d = (d', e') \<Longrightarrow> wf_db K d \<Longrightarrow> wf_db K d'" for n ev d d' e'
    using wf_getOrNew(1) [of K d a] by (auto simp: AddPrecompileFn_def Let_def split: prod.splits)
  have m: "CommitWithCacheCtx K d = Ok (d', e') \<Longrightarrow> wf_db K d \<Longrightarrow> wf_db K d'" for d d' e'
    by (auto simp: CommitWithCacheCtx_def res_simps split: option.splits if_splits)
  obtain d1 e1 where r: "RunSetup K a db = Ok (d1, e1)"
    and db': "db' = d1 \<or> db' = precompile_body K body d1"
    using assms(2) by (auto simp: precompile_call_def res_simps split: option.splits)
  obtain d0 e0 where g: "GetCacheContext K db = (d0, e0)" by fastforce
  have "wf_db K d1"
  proof (cases e0)
    case None
    then obtain n d2 where d2: "MultiStoreSnapshot K d0 = Ok (n, d2)"
      using r g by (auto simp: RunSetup_def res_simps)
    obtain d3 e3 where d3: "AddPrecompileFn K a n (cacheEvents d2) d2 = (d3, e3)" by fastforce
    have "wf_db K d3" using f [OF d3 s [OF d2]] c g by simp
    then show ?thesis using r g None d2 d3 m by (cases e3) (auto simp: RunSetup_def)
  qed (use r g c in \<open>simp add: RunSetup_def\<close>)
  with db' show ?thesis by (auto simp: precompile_body_def split: option.split)
qed

lemma wf_exec:
  assumes "wf_db K db" and "exec K op db = Ok db'"
  shows "wf_db K db'"
proof (cases op)
  case (OpPrecompile a body)
  then show ?thesis using assms wf_precompile_call by (auto simp: res_simps)
next
  case (OpCreateContract a)
  then show ?thesis using assms wf_CreateContract by simp
next
  case (OpAddSlot a slot)
  then show ?thesis using assms by (auto simp: AddSlotToAccessList_def res_simps Let_def)
next
  case (OpAddAddress a)
  then show ?thesis using assms by (auto simp: AddAddressToAccessList_def Let_def split: prod.splits)
next
  case (OpRead a key)
  then show ?thesis using assms(2) wf_reads(2) [OF wf_reads(1) [OF assms(1)], of a key a] by auto
next
  case (OpSubRefund gas)
  then show ?thesis using assms by (auto simp: SubRefund_def Let_def split: if_splits)
next
  case (OpSetTransientState a key y)
  then show ?thesis using assms by (auto simp: SetTransientState_def setTransientState_def Let_def)
qed (use assms in \<open>auto simp: wf_setters wf_CreateAccount wf_SelfDestruct wf_SelfDestruct6780 AddRefund_def AddLog_def Let_def\<close>)

lemma wf_on_object:
  assumes "wf_db K db" and "on_object K a f db = Ok db'" and "\<And>c obj. obj_wf K c obj \<Longrightarrow> obj_wf K c (f obj)"
  shows "wf_db K db'"
proof -
  obtain so db1 where g: "getStateObject K a db = (Some so, db1)" and db': "db' = setStateObject (f so) db1"
    using assms(2) by (auto simp: on_object_def split: prod.splits option.splits)
  note l = wf_get [OF assms(1) g]
  have "obj_wf K (ctx db1) (f so)" using l(2,4) assms(3) by simp
  with l(1) db' show ?thesis by simp
qed

lemma wf_Revert:
  assumes "wf_db K db" and "Revert K e db = Ok db'" and "e \<in> set (entries db)"
  shows "wf_db K db'"
proof (cases e)
  case (selfDestructChange a d b)
  obtain x db1 where g: "getStateObject K a db = (x, db1)" by fastforce
  show ?thesis
    using wf_get [OF assms(1) g] g assms(2) selfDestructChange by (auto split: option.splits)
next
  case (createObjectChange a)
  then show ?thesis using assms by (auto simp: wf_db_def split: if_splits)
next
  case (resetObjectChange p)
  then show ?thesis using assms by (auto simp: wf_db_def split: if_splits)
next
  case (precompileCallChange n ev)
  then show ?thesis using assms by (auto simp: RevertMultiStore_def res_simps split: option.splits)
next
  case (storageChange a key x)
  then have "on_object K a (obj_setState key x) db = Ok db'" using assms(2) by simp
  then show ?thesis by (rule wf_on_object [OF assms(1)]) simp
qed (use assms wf_on_object [OF assms(1)] in \<open>auto simp: res_simps setTransientState_def split: if_splits\<close>)

lemma wf_drop_dirty [simp]: "wf_db K (drop_dirty e db) = wf_db K db"
  by (simp add: drop_dirty_def Let_def split: option.split)

lemma wf_RevertToSnapshot:
  assumes "wf_db K db" and "RevertToSnapshot K i db = Ok db'"
  shows "wf_db K db'"
proof -
  obtain n db1 rs where r: "for_each (\<lambda>e db. bind_res (Revert K e db) (\<lambda>db. Ok (drop_dirty e db))) (rev (drop n (entries db))) db = Ok db1"
    and db': "db' = db1\<lparr>entries := take n (entries db1), validRevisions := rs\<rparr>"
    using assms(2) by (auto simp: RevertToSnapshot_def journal_Revert_def Let_def res_simps split: if_splits)
  have "wf_db K db1 \<and> entries db1 = entries db"
  proof (rule for_each_inv [OF r, where P = "\<lambda>d. wf_db K d \<and> entries d = entries db"])
    fix e d d' assume e: "e \<in> set (rev (drop n (entries db)))" and d: "wf_db K d \<and> entries d = entries db"
      and b: "bind_res (Revert K e d) (\<lambda>db. Ok (drop_dirty e db)) = Ok d'"
    obtain d1 where d1: "Revert K e d = Ok d1" "d' = drop_dirty e d1" using b by (auto simp: res_simps)
    have "wf_db K d1" using wf_Revert [OF _ d1(1)] d e in_set_dropD [of e n "entries db"] by simp
    then show "wf_db K d' \<and> entries d' = entries db"
      using d d1 Revert_frame [OF d1(1)] by (simp add: jframe_def)
  qed (use assms(1) in simp)
  then show ?thesis using in_set_takeD [of _ n "entries db"] by (auto simp: db' wf_db_def)
qed

lemma reach_wf: "db_reach K db \<Longrightarrow> wf_db K db"
proof (induction rule: db_reach.induct)
  case (start r sender coinbase dst precompiles al c cfg db)
  have "al_ok (accessList (New c cfg :: ('a, 'b, 'c) statedb))" by (simp add: New_def)
  from Prepare_cases [OF start this] show ?case by (auto simp: wf_db_def New_def)
next
  case (snap db)
  then show ?case by (simp add: Snapshot_def Let_def)
qed (auto intro: wf_exec wf_RevertToSnapshot)

section \<open>What a commit writes\<close>

text \<open>The context \<open>c'\<close> holds what \<open>obj\<close> has over \<open>c\<close>; \<open>c'\<close> holds at \<open>b\<close> what \<open>c\<close> does.\<close>

definition holds_object :: "('c, 'v, 'e) db_keeper \<Rightarrow> 'c \<Rightarrow> stateObject \<Rightarrow> 'c \<Rightarrow> bool" where
  "holds_object K c obj c' \<longleftrightarrow> (let a = obj_address obj in
     kGetAccount K c' a = (if selfDestructed obj then None else Some (account obj)) \<and>
     (\<not> selfDestructed obj \<longrightarrow> (\<forall>key. kGetState K c' a key =
        (case kv_get (dirtyStorage obj) key of Some x \<Rightarrow> x | None \<Rightarrow> kGetState K c a key))))"

definition same_account :: "('c, 'v, 'e) db_keeper \<Rightarrow> (addr \<Rightarrow> bool) \<Rightarrow> 'c \<Rightarrow> 'c \<Rightarrow> addr \<Rightarrow> bool" where
  "same_account K ord c c' b \<longleftrightarrow>
     (ord b \<longrightarrow> kGetAccount K c' b = kGetAccount K c b) \<and> kGetState K c' b = kGetState K c b"

lemma holds_object_same:
  assumes "holds_object K c obj c1" and "same_account K ord c1 c' (obj_address obj)" and "ord (obj_address obj)"
  shows "holds_object K c obj c'"
  using assms by (simp add: holds_object_def same_account_def)

lemma holds_object_later:
  assumes "holds_object K c1 obj c'" and "kGetState K c1 (obj_address obj) = kGetState K c (obj_address obj)"
  shows "holds_object K c obj c'"
  using assms by (simp add: holds_object_def cong: option.case_cong)

text \<open>
  What a commit relies on of the keeper: accounts and slots are read back as written, and a write to
  one leaves the others alone. \<open>inv\<close> is an invariant of the context, and \<open>ord\<close> are the addresses of
  accounts that hold no coins on behalf of a module.
\<close>

locale db_store =
  fixes K :: "('c, 'v, 'e) db_keeper" and inv :: "'c \<Rightarrow> bool" and ord :: "addr \<Rightarrow> bool"
  assumes set_account: "inv c \<Longrightarrow> ord a \<Longrightarrow> kSetAccount K a acct c = (c', None) \<Longrightarrow>
      inv c' \<and> kGetAccount K c' a = Some acct \<and> (\<forall>b. ord b \<longrightarrow> b \<noteq> a \<longrightarrow> kGetAccount K c' b = kGetAccount K c b) \<and>
      kGetState K c' = kGetState K c"
    and delete_account: "inv c \<Longrightarrow> ord a \<Longrightarrow> kDeleteAccount K a c = (c', None) \<Longrightarrow>
      inv c' \<and> kGetAccount K c' a = None \<and> (\<forall>b. ord b \<longrightarrow> b \<noteq> a \<longrightarrow> kGetAccount K c' b = kGetAccount K c b) \<and>
      (\<forall>b. b \<noteq> a \<longrightarrow> kGetState K c' b = kGetState K c b)"
    and set_state: "inv c \<Longrightarrow> inv (kSetState K a key (hash_Bytes x) c) \<and>
      kGetAccount K (kSetState K a key (hash_Bytes x) c) = kGetAccount K c \<and>
      kGetState K (kSetState K a key (hash_Bytes x) c) = (kGetState K c)(a := (kGetState K c a)(key := x))"
    and set_code: "inv c \<Longrightarrow> inv (kSetCode K h bs c) \<and>
      kGetAccount K (kSetCode K h bs c) = kGetAccount K c \<and> kGetState K (kSetCode K h bs c) = kGetState K c"
    and delete_code: "inv c \<Longrightarrow> inv (kDeleteCode K h c) \<and>
      kGetAccount K (kDeleteCode K h c) = kGetAccount K c \<and> kGetState K (kDeleteCode K h c) = kGetState K c"
begin

lemma commit_storage_spec:
  assumes "inv c"
  shows "inv (commit_storage K a st c) \<and> kGetAccount K (commit_storage K a st c) = kGetAccount K c \<and>
   kGetState K (commit_storage K a st c) = (kGetState K c)(a :=
     (\<lambda>key. case map_of (rev st) key of Some x \<Rightarrow> x | None \<Rightarrow> kGetState K c a key))"
  using assms
proof (induction st arbitrary: c)
  case (Cons kx st)
  obtain key x where kx: "kx = (key, x)" by fastforce
  have "commit_storage K a (kx # st) c = commit_storage K a st (kSetState K a key (hash_Bytes x) c)"
    by (simp add: commit_storage_def kx hash_Bytes_def Let_def)
  then show ?case
    using Cons.IH [of "kSetState K a key (hash_Bytes x) c"] set_state [OF Cons.prems, of a key x]
    by (auto simp: kx map_add_def fun_eq_iff split: option.splits)
qed (simp add: commit_storage_def)

lemma commit_object_spec:
  assumes "commit_object K obj c = (c', None)" and "kv_ok (dirtyStorage obj)" and "inv c" and "ord (obj_address obj)"
  defines "a \<equiv> obj_address obj"
  shows "inv c' \<and> holds_object K c obj c' \<and> (\<forall>b. b \<noteq> a \<longrightarrow> same_account K ord c c' b)"
proof (cases "selfDestructed obj")
  case True
  then have "kDeleteAccount K a c = (c', None)" using assms(1) by (simp add: commit_object_def a_def)
  from delete_account [OF assms(3) _ this] True assms(4) show ?thesis
    by (simp add: a_def holds_object_def same_account_def)
next
  case False
  have m: "map_of (rev (dirtyStorage obj)) = kv_get (dirtyStorage obj)"
    using kv_ok_distinct [OF assms(2)] map_of_inject_set [of "rev (dirtyStorage obj)" "dirtyStorage obj"]
    by (simp add: kv_get_def fun_eq_iff rev_map [symmetric])
  let ?c1 = "case code obj of None \<Rightarrow> c | Some bs \<Rightarrow> if dirtyCode obj
     then if length bs = 0 then kDeleteCode K (CodeHash (account obj)) c else kSetCode K (CodeHash (account obj)) bs c else c"
  have c1: "inv ?c1" "kGetAccount K ?c1 = kGetAccount K c" "kGetState K ?c1 = kGetState K c"
    using set_code [OF assms(3)] delete_code [OF assms(3)] assms(3) by (auto split: option.split)
  obtain c2 e2 where k: "kSetAccount K a (account obj) ?c1 = (c2, e2)" by fastforce
  have "commit_object K obj c = (case (c2, e2) of (c, Some e) \<Rightarrow> (c, Some e)
      | (c, None) \<Rightarrow> (commit_storage K a (dirtyStorage obj) c, None))"
    unfolding commit_object_def Let_def k [unfolded a_def, symmetric] a_def using False by (simp only: if_False)
  with assms(1) k have c2: "kSetAccount K a (account obj) ?c1 = (c2, None)" "c' = commit_storage K a (dirtyStorage obj) c2"
    by (auto split: option.splits)
  have s: "inv c2" "kGetAccount K c2 a = Some (account obj)" "kGetState K c2 = kGetState K c"
    "\<And>b. ord b \<Longrightarrow> b \<noteq> a \<Longrightarrow> kGetAccount K c2 b = kGetAccount K c b"
    using set_account [OF c1(1) _ c2(1)] assms(4) c1(2,3) by (simp_all add: a_def)
  then show ?thesis
    using commit_storage_spec [OF s(1), of a "dirtyStorage obj"] c2(2) m False
    by (simp add: holds_object_def same_account_def a_def [symmetric] cong: option.case_cong)
qed

lemma commit_objects_spec:
  assumes "commit_objects K objs as c = Ok (c', None)" and "distinct as" and "inv c"
    and "\<And>a obj. objs a = Some obj \<Longrightarrow> obj_address obj = a \<and> kv_ok (dirtyStorage obj)" and "\<And>a. a \<in> set as \<Longrightarrow> ord a"
  shows "inv c' \<and> (\<forall>a. (a \<notin> set as \<longrightarrow> same_account K ord c c' a) \<and>
    (a \<in> set as \<longrightarrow> (\<exists>obj. objs a = Some obj \<and> holds_object K c obj c')))"
  using assms(1-3,5)
proof (induction as arbitrary: c)
  case (Cons b as)
  obtain obj where obj: "objs b = Some obj" using Cons.prems(1) by (auto split: option.splits)
  note wf = assms(4) [OF obj]
  obtain c1 where c1: "commit_object K obj c = (c1, None)" "commit_objects K objs as c1 = Ok (c', None)"
    using Cons.prems(1) obj by (auto split: prod.splits option.splits)
  have o: "inv c1" "holds_object K c obj c1" "\<And>a. a \<noteq> b \<Longrightarrow> same_account K ord c c1 a"
    using commit_object_spec [OF c1(1)] wf Cons.prems(3,4) by simp_all
  have ih: "inv c'" "\<And>a. a \<notin> set as \<Longrightarrow> same_account K ord c1 c' a"
    "\<And>a. a \<in> set as \<Longrightarrow> \<exists>obj. objs a = Some obj \<and> holds_object K c1 obj c'"
    using Cons.IH [OF c1(2) _ o(1)] Cons.prems by simp_all
  have m: "b \<notin> set as" "ord b" using Cons.prems(2,4) by simp_all
  have "holds_object K c obj c'" using holds_object_same [OF o(2)] ih(2) [OF m(1)] wf m(2) by simp
  moreover have "same_account K ord c c' a" if "a \<notin> set (b # as)" for a
    using o(3) [of a] ih(2) [of a] that by (simp add: same_account_def)
  moreover have "\<exists>obj. objs a = Some obj \<and> holds_object K c obj c'" if "a \<in> set as" for a
  proof -
    obtain obj' where obj': "objs a = Some obj'" "holds_object K c1 obj' c'" using ih(3) [OF \<open>a \<in> set as\<close>] by blast
    have "kGetState K c1 a = kGetState K c a" using o(3) [of a] that m(1) by (auto simp: same_account_def)
    then show ?thesis using holds_object_later [OF obj'(2), of c] obj'(1) assms(4) [OF obj'(1)] by auto
  qed
  ultimately show ?case using ih(1) obj by auto
qed (simp add: same_account_def)

end

lemma obj_wf_state:
  assumes "obj_wf K c obj"
  shows "eff_state K c obj key = (case kv_get (dirtyStorage obj) key of Some x \<Rightarrow> x | None \<Rightarrow> kGetState K c (obj_address obj) key)"
  using assms by (auto simp: eff_state_def eff_committed_def obj_wf_def split: option.split)

section \<open>The closure that writes the cache\<close>

text \<open>A commit first calls \<^verbatim>\<open>writeCache\<close>, if there is one, and then writes the dirty accounts onto what it leaves.\<close>

definition flush_cache :: "('c, 'v, 'e) db_keeper \<Rightarrow> ('c, 'v, 'e) statedb \<Rightarrow> ('c, 'v, 'e) statedb res" where
  "flush_cache K db = (if writeCache db = None then Ok db else write_cache_call K db)"

lemma Commit_flush:
  "Commit K db = bind_res (flush_cache K db) (\<lambda>db1. bind_res (commitWithCtx K (ctx db1) db) (\<lambda>(c, e). Ok (db1\<lparr>ctx := c\<rparr>, e)))"
proof -
  have "commitWithCtx K c db1 = commitWithCtx K c db" if "write_cache_call K db = Ok db1" for c db1
    using that by (auto simp: write_cache_call_def Let_def res_simps commitWithCtx_def sortedDirties_def split: option.splits)
  then show ?thesis
    by (cases "write_cache_call K db") (auto simp: Commit_def flush_cache_def)
qed

text \<open>The events saved with the first precompile call of a journal.\<close>

fun saved_events :: "'e journalEntry list \<Rightarrow> 'e list option" where
  "saved_events [] = None"
| "saved_events (precompileCallChange n ev # es) = Some ev"
| "saved_events (e # es) = saved_events es"

definition closure_of :: "'e list option \<Rightarrow> 'e write_cache option \<Rightarrow> 'e write_cache option" where
  "closure_of saved w = (case saved of None \<Rightarrow> w | Some ev \<Rightarrow> Some (WriteEvents ev))"

lemma saved_events_append: "saved_events (es @ fs) = (case saved_events es of None \<Rightarrow> saved_events fs | Some ev \<Rightarrow> Some ev)"
  by (induction es rule: saved_events.induct) auto

lemma Revert_closure:
  assumes "Revert K e db = Ok db'"
  shows "writeCache db' = closure_of (saved_events [e]) (writeCache db)"
proof (cases "\<exists>n ev. e = precompileCallChange n ev")
  case True
  then show ?thesis using assms by (auto simp: closure_of_def RevertMultiStore_def res_simps split: option.splits)
next
  case False
  then have "saved_events [e] = None" by (cases e) auto
  moreover have "writeCache db' = writeCache db"
    using assms False by (cases e) (auto simp: on_object_def getStateObject_def Let_def res_simps setTransientState_def frame_def
        dest!: on_object_frame split: option.splits if_splits prod.splits)
  ultimately show ?thesis by (simp add: closure_of_def)
qed

lemma Reverts_closure:
  assumes "for_each (\<lambda>e db. bind_res (Revert K e db) (\<lambda>db. Ok (drop_dirty e db))) (rev es) db = Ok db'"
  shows "writeCache db' = closure_of (saved_events es) (writeCache db) \<and> entries db' = entries db"
  using assms
proof (induction es arbitrary: db rule: rev_induct)
  case (snoc e es)
  obtain d where d: "Revert K e db = Ok d" "for_each (\<lambda>e db. bind_res (Revert K e db) (\<lambda>db. Ok (drop_dirty e db))) (rev es) (drop_dirty e d) = Ok db'"
    using snoc.prems by (auto simp: res_simps)
  have "writeCache (drop_dirty e d) = writeCache d" using frame_simps(5) [of e d] unfolding frame_def by simp
  moreover have "entries d = entries db" using Revert_frame [OF d(1)] by (simp add: jframe_def)
  ultimately show ?case using snoc.IH [OF d(2)] Revert_closure [OF d(1)]
    by (auto simp: closure_of_def saved_events_append split: option.split)
qed (simp add: closure_of_def)

lemma RevertToSnapshot_closure:
  assumes "RevertToSnapshot K i db = Ok db'"
  shows "entries db' = take (length (entries db')) (entries db) \<and>
    writeCache db' = closure_of (saved_events (drop (length (entries db')) (entries db))) (writeCache db)"
proof -
  obtain n db1 rs where r: "for_each (\<lambda>e db. bind_res (Revert K e db) (\<lambda>db. Ok (drop_dirty e db))) (rev (drop n (entries db))) db = Ok db1"
    and db': "db' = db1\<lparr>entries := take n (entries db1), validRevisions := rs\<rparr>"
    using assms by (auto simp: RevertToSnapshot_def journal_Revert_def Let_def res_simps split: if_splits)
  from Reverts_closure [OF r] db' show ?thesis by (auto simp: min_def)
qed

text \<open>No operation of the EVM touches the context of the database, and none but the first precompile call its closure.\<close>

lemma frame_updates [simp]:
  "frame (db\<lparr>refund := r\<rparr>) = frame db" "frame (db\<lparr>logs := l\<rparr>) = frame db" "frame (db\<lparr>accessList := al\<rparr>) = frame db"
  "frame (db\<lparr>transientStorage := t\<rparr>) = frame db" "frame (db\<lparr>precompileCallsCounter := n\<rparr>) = frame db"
  by (simp_all add: frame_def)

lemma object_frame [simp]:
  "frame (snd (getOrNewStateObject K a db)) = frame db" "frame (snd (createObject K a db)) = frame db"
  "frame (snd (snd (obj_Code K obj db))) = frame db" "frame (snd (snd (obj_GetState K key obj db))) = frame db"
  "frame (snd (obj_SetBalance x obj db)) = frame db"
  by (simp_all add: getOrNewStateObject_frame createObject_def obj_Code_def obj_GetState_def obj_GetCommittedState_def
      obj_SetBalance_def Let_def split_beta split: option.split)

lemma exec_frame:
  assumes "\<not> is_call op" and "exec K op db = Ok db'"
  shows "frame db' = frame db"
proof (cases op)
  case (OpPrecompile a body)
  then show ?thesis using assms(1) by (simp add: is_call_def)
next
  case (OpCreateContract a)
  then show ?thesis using assms(2) getStateObject_frame(1) [of K a db]
    by (auto simp: CreateContract_def split: prod.splits option.splits if_splits simp del: getStateObject_frame)
next
  case (OpAddSlot a slot)
  then show ?thesis using assms(2) by (auto simp: AddSlotToAccessList_def res_simps Let_def split: if_splits)
next
  case (OpSelfDestruct6780 a)
  have "frame (snd (SelfDestruct K a d)) = frame d" for d
    by (auto simp: SelfDestruct_def Let_def split_beta split: option.split)
  then show ?thesis using assms(2) OpSelfDestruct6780 by (auto simp: SelfDestruct6780_def split_beta split: option.split)
next
  case (OpRead a key)
  then show ?thesis using assms(2) by (auto simp: GetState_def GetCode_def split_beta split: option.split)
qed (use assms(2) in \<open>auto simp: CreateAccount_def AddBalance_def SubBalance_def SetNonce_def SetCode_def SetState_def
  SelfDestruct_def SetTransientState_def setTransientState_def AddRefund_def SubRefund_def AddLog_def
  AddAddressToAccessList_def obj_AddBalance_def obj_SubBalance_def obj_SetNonce_def obj_SetCode_def obj_SetState_def
  Let_def split_beta split: option.split if_splits\<close>)

lemma precompile_call_closure:
  assumes "precompile_call K a body db = Ok (db', e)" and "writeCache db = Some w"
  shows "ctx db' = ctx db \<and> writeCache db' = Some w"
proof -
  let ?f = "\<lambda>d :: ('a, 'b, 'c) statedb. (ctx d, writeCache d)"
  have f: "AddPrecompileFn K a n ev d = (d', e') \<Longrightarrow> ?f d' = ?f d" for n ev d d' e'
    using getOrNewStateObject_frame [of K a d] by (auto simp: AddPrecompileFn_def frame_def journal_append_def Let_def split: prod.splits)
  have m: "CommitWithCacheCtx K d = Ok (d', e') \<Longrightarrow> ?f d' = ?f d" for d d' e'
    by (auto simp: CommitWithCacheCtx_def set_cacheCtx_def res_simps split: option.splits if_splits)
  obtain d1 e1 where r: "RunSetup K a db = Ok (d1, e1)" and db': "db' = d1 \<or> db' = precompile_body K body d1"
    using assms(1) by (auto simp: precompile_call_def res_simps split: option.splits)
  have c: "GetCacheContext K db = (db, None)" using assms(2) by (simp add: GetCacheContext_def)
  then obtain n d2 where d2: "MultiStoreSnapshot K db = Ok (n, d2)" using r by (auto simp: RunSetup_def res_simps)
  obtain d3 e3 where d3: "AddPrecompileFn K a n (cacheEvents d2) d2 = (d3, e3)" by fastforce
  have "?f d2 = ?f db" using d2 by (auto simp: MultiStoreSnapshot_def res_simps split: option.splits)
  then have "?f d1 = ?f db" using r c d2 d3 f [OF d3] m by (cases e3) (auto simp: RunSetup_def)
  then show ?thesis using db' assms(2) by (auto simp: precompile_body_def set_cacheCtx_def split: option.split)
qed

lemma exec_closure:
  assumes "exec K op db = Ok db'" and "writeCache db = Some w"
  shows "ctx db' = ctx db \<and> writeCache db' = Some w"
proof (cases "is_call op")
  case True
  then show ?thesis using assms by (cases op) (auto simp: is_call_def res_simps dest: precompile_call_closure)
next
  case False
  from exec_frame [OF this assms(1)] assms(2) show ?thesis by (simp add: frame_def)
qed

lemma RevertToSnapshot_ctx:
  assumes "RevertToSnapshot K i db = Ok db'"
  shows "ctx db' = ctx db"
proof -
  have "ctx d' = ctx d" if "for_each (\<lambda>e db. bind_res (Revert K e db) (\<lambda>db. Ok (drop_dirty e db))) es d = Ok d'" for es d d'
    using that
  proof (induction es arbitrary: d)
    case (Cons e es)
    obtain d1 where d1: "Revert K e d = Ok d1"
        "for_each (\<lambda>e db. bind_res (Revert K e db) (\<lambda>db. Ok (drop_dirty e db))) es (drop_dirty e d1) = Ok d'"
      using Cons.prems by (auto simp: res_simps)
    have "ctx (drop_dirty e d1) = ctx d1" using frame_simps(5) [of e d1] unfolding frame_def by simp
    then show ?case using Cons.IH [OF d1(2)] Revert_frame [OF d1(1)] by (auto simp: frame_def)
  qed simp
  then show ?thesis using assms by (auto simp: RevertToSnapshot_def journal_Revert_def Let_def res_simps split: if_splits)
qed

end
