(* ===== verification/StateDBProps.thy ===== *)
theory StateDBProps
  imports StateDBCommit
begin

text \<open>
  The properties of the journaled state, over the functions of \<^verbatim>\<open>x/vm/statedb\<close> themselves, and a
  reference keeper on which they are evaluated.
\<close>

section \<open>A reference keeper\<close>

text \<open>The instance on which the properties are evaluated: plain maps, one module store.\<close>

record ref_ctx =
  rc_accounts :: "addr \<Rightarrow> Account option"
  rc_state :: "addr \<Rightarrow> hash \<Rightarrow> hash"
  rc_code :: "hash \<Rightarrow> bytes option"
  rc_stores :: "string \<Rightarrow> lstore"
  rc_events :: "nat list"

definition ref_keeper :: "(ref_ctx, lstore, nat) db_keeper" where
  "ref_keeper =
     \<lparr>kGetAccount = rc_accounts, kGetState = rc_state, kGetCode = rc_code, kForEachStorage = (\<lambda>_ _. []),
      kSetAccount = (\<lambda>a acct c. (c\<lparr>rc_accounts := (rc_accounts c)(a \<mapsto> acct)\<rparr>, None)),
      kDeleteState = (\<lambda>a key c. c\<lparr>rc_state := (rc_state c)(a := (rc_state c a)(key := 0))\<rparr>),
      kSetState = (\<lambda>a key bs c. c\<lparr>rc_state := (rc_state c)(a := (rc_state c a)(key := un_be bs))\<rparr>),
      kDeleteCode = (\<lambda>h c. c\<lparr>rc_code := (rc_code c)(h := None)\<rparr>),
      kSetCode = (\<lambda>h bs c. c\<lparr>rc_code := (rc_code c)(h \<mapsto> bs)\<rparr>),
      kDeleteAccount = (\<lambda>a c. (c\<lparr>rc_accounts := (rc_accounts c)(a := None), rc_state := (rc_state c)(a := \<lambda>_. 0)\<rparr>, None)),
      ctx_events = rc_events, kKVStoreKeys = [''evm''], ctx_stores = (\<lambda>c. Some (rc_stores c)),
      ctx_put_stores = (\<lambda>m c. c\<lparr>rc_stores := (\<lambda>k. case m k of Some v \<Rightarrow> v | None \<Rightarrow> rc_stores c k)\<rparr>),
      ctx_with_events = (\<lambda>es c. c\<lparr>rc_events := es\<rparr>), cache_ops = ref_cachekv,
      keccak = (\<lambda>bs. word_of_nat (Suc (length bs)))\<rparr>"

definition ref_ctx0 :: ref_ctx where
  "ref_ctx0 =
     \<lparr>rc_accounts = (\<lambda>a. if a = 1 then Some \<lparr>Nonce = 5, Balance = 100, CodeHash = 1\<rparr> else None),
      rc_state = (\<lambda>_ _. 0), rc_code = (\<lambda>_. None), rc_stores = (\<lambda>_. LBase (\<lambda>_. None)), rc_events = []\<rparr>"

definition ref_cfg :: TxConfig where
  "ref_cfg = \<lparr>BlockHash = 0, TxHash = 7, TxIndex = 0, LogIndex = 0\<rparr>"

definition ref_rules :: rules where
  "ref_rules = \<lparr>IsEIP2929 = True, IsEIP4762 = False, IsShanghai = True\<rparr>"

definition ref_db :: "(ref_ctx, lstore, nat) statedb" where
  "ref_db = (New ref_ctx0 ref_cfg)\<lparr>accessList := \<lparr>addresses = (\<lambda>_. None)(1 \<mapsto> -1, 9 \<mapsto> -1), slots = []\<rparr>\<rparr>"

lemma ref_db_reach: "db_reach ref_keeper ref_db"
  by (rule db_reach.start [of ref_rules 1 9 None "[]" "[]" ref_ctx0 ref_cfg])
    (simp add: Prepare_def ref_rules_def warm_list_def AddAddress_def newAccessList_def add_addresses_def ref_db_def
      New_def Let_def newTransientStorage_def)

lemma ref_keys: "distinct (kKVStoreKeys ref_keeper)"
  by (simp add: ref_keeper_def)

interpretation rdb: db_store ref_keeper "\<lambda>_. True" "\<lambda>_. True"
  by unfold_locales (auto simp: ref_keeper_def hash_Bytes_def un_be_bytes)

section \<open>Properties\<close>

text \<open>
  C18. Reverting to a snapshot restores what was observable when it was taken, whatever the EVM did in
  between: balances, nonces, code and storage, refund counter, logs, access list, transient
  storage and the stores written by precompiles, through nested snapshots and reverts. The journal,
  the dirty accounts and the valid revisions are again those of the snapshot, and nothing panics.
\<close>

theorem RevertToSnapshot_restores:
  assumes "distinct (kKVStoreKeys K)" and "db_reach K db" and "Snapshot db = (n, db1)" and "db_run K n db1 db2"
  shows "\<exists>db'. RevertToSnapshot K n db2 = Ok db' \<and> view K db' = view K db \<and> entries db' = entries db \<and>
    dirties db' = dirties db \<and> validRevisions db' = validRevisions db"
proof -
  have inv: "db_ok K db" "rev_ok db" using reach_inv [OF assms(1,2)] by auto
  have n: "n = nextRevisionID db" "db1 = snd (Snapshot db)" using assms(3) Snapshot_view(5) [of db] by auto
  from run_inv [OF assms(4) n(2,1) inv] obtain es rs where inv2: "db_ok K db2" "rev_ok db2"
    and e: "entries db2 = entries db @ es" "hist K (view K db) es (view K db2)"
      "validRevisions db2 = validRevisions db @ \<lparr>rev_id = n, journalIndex = length (entries db)\<rparr> # rs" by blast
  let ?k = "length (validRevisions db)"
  have k: "?k < length (validRevisions db2)" "rev_id (validRevisions db2 ! ?k) = n"
    "length (entries db) = journalIndex (validRevisions db2 ! ?k)" using e(3) by (simp_all add: nth_append)
  from RevertToSnapshot_found [OF inv2 k(1) e(1) k(3) e(2)] obtain db' where
    r: "RevertToSnapshot K n db2 = Ok db'" "view K db' = view K db" "entries db' = entries db"
      "validRevisions db' = take ?k (validRevisions db2)" "db_ok K db'" using k(2) by auto
  have "dirties db' = dirties db"
    using inv(1) r(3,5) by (intro kv_ok_ext) (auto simp: db_ok_def db_inv_def dirties_ok_def)
  with r e(3) show ?thesis by auto
qed

theorem RevertToSnapshot_restores_witness:
  "\<exists>db2 db'. exec ref_keeper (OpAddBalance 2 40) (snd (Snapshot ref_db)) = Ok db2 \<and>
     RevertToSnapshot ref_keeper 0 db2 = Ok db' \<and> view ref_keeper db' = view ref_keeper ref_db"
proof -
  obtain db2 where db2: "exec ref_keeper (OpAddBalance 2 40) (snd (Snapshot ref_db)) = Ok db2" by simp
  have s: "Snapshot ref_db = (0, snd (Snapshot ref_db))" by (simp add: Snapshot_def Let_def ref_db_def New_def)
  have "db_run ref_keeper 0 (snd (Snapshot ref_db)) db2" by (rule db_run.op [OF db_run.stop db2])
  from RevertToSnapshot_restores [OF ref_keys ref_db_reach s this] db2 show ?thesis by blast
qed

text \<open>
  A revision can be reverted exactly while it is valid: in a reachable state
  \<open>RevertToSnapshot\<close> succeeds for the ids it has handed out and not yet undone, and panics for every other.
\<close>

lemma RevertToSnapshot_valid_ids:
  assumes "distinct (kKVStoreKeys K)" and "db_reach K db"
  shows "if n \<in> rev_id ` set (validRevisions db) then is_ok (RevertToSnapshot K n db)
    else RevertToSnapshot K n db = Panic ''revision id cannot be reverted''"
proof (cases "n \<in> rev_id ` set (validRevisions db)")
  case False
  then show ?thesis using RevertToSnapshot_unknown [of db n K] reach_inv [OF assms] by force
next
  case True
  then obtain k where k: "k < length (validRevisions db)" "rev_id (validRevisions db ! k) = n" by (auto simp: in_set_conv_nth)
  obtain v0 where inv: "db_ok K db" "rev_ok db" and h: "hist K v0 (entries db) (view K db)"
    using reach_inv [OF assms] by blast
  let ?n = "journalIndex (validRevisions db ! k)"
  have "?n \<le> length (entries db)" using inv(2) nth_mem [OF k(1)] by (auto simp: rev_ok_def)
  moreover obtain v1 where "hist K v1 (drop ?n (entries db)) (view K db)"
    using hist_split [of K v0 "take ?n (entries db)" "drop ?n (entries db)"] h by auto
  ultimately show ?thesis
    using RevertToSnapshot_found [OF inv k(1), of "take ?n (entries db)" "drop ?n (entries db)" v1] k(2) True
    by (auto simp: is_ok_iff)
qed

text \<open>
  C19. Every operation of the EVM has the effect of its specification on what can be observed, whatever
  is cached and journaled: balances are added and subtracted modulo \<open>2 ^ 256\<close>, code hashes follow the
  code, a new account keeps the balance of the one it replaces, self-destruction after EIP-6780 acts
  only on contracts created in the same transaction, and the two operations that panic do so exactly as
  specified.
\<close>

theorem operations_refine_spec:
  assumes "distinct (kKVStoreKeys K)" and "db_reach K db" and "\<not> is_call op"
  shows "bind_res (exec K op db) (\<lambda>db. Ok (view K db)) = spec K (txConfig db) op (view K db)"
  using exec_refines [OF _ assms(3)] reach_inv [OF assms(1,2)] by blast

theorem operations_refine_spec_witness:
  "\<exists>db' x. exec ref_keeper (OpSubBalance 1 30) ref_db = Ok db' \<and>
     v_accounts (view ref_keeper db') 1 = Some x \<and> Balance (av_account x) = 70 \<and> Nonce (av_account x) = 5"
proof -
  have c: "\<not> is_call (OpSubBalance 1 30 :: ref_ctx db_op)" by (simp add: is_call_def)
  obtain db' where db': "exec ref_keeper (OpSubBalance 1 30) ref_db = Ok db'" by simp
  have "acct_of ref_keeper 1 (view ref_keeper ref_db) = obj_view ref_keeper ref_ctx0
      (newObject ref_keeper 1 (Some \<lparr>Nonce = 5, Balance = 100, CodeHash = 1\<rparr>))"
    by (simp add: acct_of_def live_def stored_def ref_db_def New_def ref_keeper_def ref_ctx0_def)
  then have "v_accounts (view ref_keeper db') 1 =
      Some (av_setBalance 70 (obj_view ref_keeper ref_ctx0 (newObject ref_keeper 1 (Some \<lparr>Nonce = 5, Balance = 100, CodeHash = 1\<rparr>))))"
    using operations_refine_spec [OF ref_keys ref_db_reach c] db'
    by (simp add: Let_def av_balance_def obj_view_def newObject_def set_acct_def del: view_sel)
  with db' show ?thesis by (auto simp: av_setBalance_def obj_view_def newObject_def)
qed

text \<open>
  The accounts a commit visits are exactly those some journal entry dirties, each once and in
  ascending order, each of them has a live object, and so a commit never dereferences nil.
\<close>

lemma dirties_follow_journal:
  assumes "distinct (kKVStoreKeys K)" and "db_reach K db"
  shows "sorted_wrt (<) (sortedDirties db) \<and> set (sortedDirties db) = dirtied (entries db) \<and>
    (\<exists>c' e. commitWithCtx K c db = Ok (c', e))"
proof -
  have i: "db_inv (entries db) db" using reach_inv [OF assms] by (simp add: db_ok_def)
  then have "kv_ok (dirties db)" by (simp add: db_inv_def dirties_ok_def)
  then have "sorted_wrt (<) (sortedDirties db)" by (simp add: sortedDirties_def kv_ok_def)
  then show ?thesis using sortedDirties_iff [OF i] commitWithCtx_total [OF i] by auto
qed

lemma commit_view:
  assumes "db_store K I P" and "distinct (kKVStoreKeys K)" and "db_reach K db" and "flush_cache K db = Ok db1"
    and "I (ctx db1)" and "\<And>a. a \<in> dirtied (entries db) \<Longrightarrow> P a" and "Commit K db = Ok (db', None)"
  shows "if a \<in> dirtied (entries db)
    then \<exists>x obj. v_accounts (view K db) a = Some x \<and> stateObjects db a = Some obj \<and>
      (if av_destructed x then kGetAccount K (ctx db') a = None
       else kGetAccount K (ctx db') a = Some (av_account x) \<and>
         (\<forall>key. kGetState K (ctx db') a key =
           (if kv_get (dirtyStorage obj) key = None then kGetState K (ctx db1) a key else av_state x key)))
    else same_account K P (ctx db1) (ctx db') a" and "I (ctx db')"
proof -
  have i: "db_inv (entries db) db" using reach_inv [OF assms(2,3)] by (simp add: db_ok_def)
  have w: "wf_db K db" by (rule reach_wf [OF assms(3)])
  obtain c' where c': "commitWithCtx K (ctx db1) db = Ok (c', None)" "db' = db1\<lparr>ctx := c'\<rparr>"
    using assms(4,7) by (auto simp: Commit_flush res_simps)
  have obj: "stateObjects db a = Some obj \<Longrightarrow> obj_address obj = a \<and> kv_ok (dirtyStorage obj)" for a obj
    using i w by (auto simp: db_inv_def objects_ok_def wf_db_def obj_wf_def)
  have d: "distinct (sortedDirties db)"
    using i kv_ok_distinct by (auto simp: db_inv_def dirties_ok_def sortedDirties_def)
  have spec: "I c' \<and> (\<forall>a. (a \<notin> set (sortedDirties db) \<longrightarrow> same_account K P (ctx db1) c' a) \<and>
    (a \<in> set (sortedDirties db) \<longrightarrow> (\<exists>obj. stateObjects db a = Some obj \<and> holds_object K (ctx db1) obj c')))"
    by (rule db_store.commit_objects_spec [OF assms(1) c'(1) [unfolded commitWithCtx_def] d assms(5)])
      (use obj assms(6) sortedDirties_iff [OF i] in auto)
  show "I (ctx db')" using spec c'(2) by simp
  show "if a \<in> dirtied (entries db)
    then \<exists>x obj. v_accounts (view K db) a = Some x \<and> stateObjects db a = Some obj \<and>
      (if av_destructed x then kGetAccount K (ctx db') a = None
       else kGetAccount K (ctx db') a = Some (av_account x) \<and>
         (\<forall>key. kGetState K (ctx db') a key =
           (if kv_get (dirtyStorage obj) key = None then kGetState K (ctx db1) a key else av_state x key)))
    else same_account K P (ctx db1) (ctx db') a"
  proof (cases "a \<in> dirtied (entries db)")
    case False
    then show ?thesis using spec sortedDirties_iff [OF i] c'(2) by simp
  next
    case True
    then obtain so where so: "stateObjects db a = Some so" "holds_object K (ctx db1) so c'"
      using spec sortedDirties_iff [OF i] by blast
    have "obj_wf K (ctx db) so" using w so(1) by (simp add: wf_db_def)
    from obj_wf_state [OF this] so obj [OF so(1)] show ?thesis
      using True c'(2) by (auto simp: live_def obj_view_code holds_object_def split: option.split)
  qed
qed

lemma commit_slots:
  assumes "db_reach K db" and "writeCache db = None" and "flush_cache K db = Ok db1" and "distinct (kKVStoreKeys K)"
    and "stateObjects db a = Some obj" and "v_accounts (view K db) a = Some x" and "kv_get (dirtyStorage obj) key = None"
  shows "kGetState K (ctx db1) a key = av_state x key"
proof -
  have i: "db_inv (entries db) db" using reach_inv [OF assms(4,1)] by (simp add: db_ok_def)
  have "obj_wf K (ctx db) obj" "obj_address obj = a"
    using reach_wf [OF assms(1)] i assms(5) by (auto simp: wf_db_def db_inv_def objects_ok_def)
  from obj_wf_state [OF this(1), of key] this(2) assms show ?thesis
    by (auto simp: flush_cache_def live_def obj_view_code)
qed





text \<open>
  What the EVM may do after a precompile call has been reverted: any operations, precompile calls and
  snapshots, and reverts that undo no further precompile call.
\<close>

inductive later_run :: "('c, 'v, 'e) db_keeper \<Rightarrow> ('c, 'v, 'e) statedb \<Rightarrow> ('c, 'v, 'e) statedb \<Rightarrow> bool" for K db where
  stop: "later_run K db db"
| op: "later_run K db d \<Longrightarrow> exec K op d = Ok d' \<Longrightarrow> later_run K db d'"
| mark: "later_run K db d \<Longrightarrow> later_run K db (snd (Snapshot d))"
| revert: "later_run K db d \<Longrightarrow> RevertToSnapshot K i d = Ok d' \<Longrightarrow>
    saved_events (drop (length (entries d')) (entries d)) = None \<Longrightarrow> later_run K db d'"

lemma later_run_closure:
  assumes "later_run K db db'" and "writeCache db = Some w"
  shows "ctx db' = ctx db \<and> writeCache db' = Some w"
  using assms
proof induction
  case (op d op d')
  then show ?case using exec_closure [OF op.hyps(2)] by auto
next
  case (mark d)
  then show ?case by (auto simp: Snapshot_def Let_def)
next
  case (revert d i d')
  then show ?case using RevertToSnapshot_closure [OF revert.hyps(2)] RevertToSnapshot_ctx [OF revert.hyps(2)]
    by (auto simp: closure_of_def)
qed simp

text \<open>
  C21. After a revert has undone precompile calls, the events that later precompile calls emit are
  lost: whatever the transaction does from there on, as long as no later call is itself reverted, its
  commit emits exactly the events saved with the first call undone, and then writes the stores and
  the dirty accounts.
\<close>

theorem reverted_call_hides_later_events:
  assumes "RevertToSnapshot K i db = Ok db1" and "saved_events (drop (length (entries db1)) (entries db)) = Some es"
    and "later_run K db1 db2" and "Commit K db2 = Ok (db3, e)"
  shows "\<exists>m. commitWithCtx K (ctx_put_stores K m (ctx_emit K es (ctx db))) db2 = Ok (ctx db3, e)"
proof -
  have "writeCache db1 = Some (WriteEvents es)" "ctx db1 = ctx db"
    using RevertToSnapshot_closure [OF assms(1)] RevertToSnapshot_ctx [OF assms(1)] assms(2) by (simp_all add: closure_of_def)
  from later_run_closure [OF assms(3) this(1)] this(2) have w: "writeCache db2 = Some (WriteEvents es)" "ctx db2 = ctx db" by auto
  obtain d c where d: "write_cache_call K db2 = Ok d" "commitWithCtx K (ctx d) db2 = Ok (c, e)" "db3 = d\<lparr>ctx := c\<rparr>"
    using assms(4) w(1) by (auto simp: Commit_flush flush_cache_def res_simps)
  obtain m where "ctx d = ctx_put_stores K m (ctx_emit K es (ctx db))"
    using d(1) w by (auto simp: write_cache_call_def pending_events_def Let_def res_simps split: option.splits)
  with d show ?thesis by auto
qed

text \<open>A call that emits 1, one that emits 2 and is reverted, one that emits 9, and the commit.\<close>

definition ref_emit :: "nat \<Rightarrow> ref_ctx db_op" where
  "ref_emit n = OpPrecompile 3 (\<lambda>c. c\<lparr>rc_events := rc_events c @ [n]\<rparr>)"

definition ref_calls :: "(ref_ctx, lstore, nat) statedb res" where
  "ref_calls = bind_res (exec ref_keeper (ref_emit 1) ref_db) (\<lambda>d. exec ref_keeper (ref_emit 2) (snd (Snapshot d)))"

lemma ref_calls_run:
  "case bind_res ref_calls (\<lambda>d. bind_res (RevertToSnapshot ref_keeper 0 d) (\<lambda>d1. bind_res (exec ref_keeper (ref_emit 9) d1)
      (\<lambda>d2. bind_res (Commit ref_keeper d2) (\<lambda>(d3, e). Ok (d, d1, d2, d3, e))))) of
    Ok (d, d1, d2, d3, e) \<Rightarrow> saved_events (drop (length (entries d1)) (entries d)) = Some [1] \<and>
      cacheEvents d2 = [1, 2, 9] \<and> rc_events (ctx d3) = [1]
  | _ \<Rightarrow> False"
  by code_simp

theorem reverted_call_hides_later_events_witness:
  "\<exists>d d1 d2 d3 e m. ref_calls = Ok d \<and> RevertToSnapshot ref_keeper 0 d = Ok d1 \<and> exec ref_keeper (ref_emit 9) d1 = Ok d2 \<and>
     Commit ref_keeper d2 = Ok (d3, e) \<and> cacheEvents d2 = [1, 2, 9] \<and> rc_events (ctx d3) = [1] \<and>
     commitWithCtx ref_keeper (ctx_put_stores ref_keeper m (ctx_emit ref_keeper [1] (ctx d))) d2 = Ok (ctx d3, e)"
proof -
  obtain d d1 d2 d3 e where r: "ref_calls = Ok d" "RevertToSnapshot ref_keeper 0 d = Ok d1"
      "exec ref_keeper (ref_emit 9) d1 = Ok d2" "Commit ref_keeper d2 = Ok (d3, e)"
      "saved_events (drop (length (entries d1)) (entries d)) = Some [1]" "cacheEvents d2 = [1, 2, 9]" "rc_events (ctx d3) = [1]"
    using ref_calls_run by (auto simp: res_simps split: res.splits prod.splits)
  have "later_run ref_keeper d1 d2" by (rule later_run.op [OF later_run.stop r(3)])
  from reverted_call_hides_later_events [OF r(2,5) this r(4)] r show ?thesis by blast
qed

text \<open>
  Between two snapshots of the EVM no operation can panic but creating a contract at an address
  without an account and subtracting more gas than the refund counter holds.
\<close>

lemma operations_panic_iff:
  assumes "distinct (kKVStoreKeys K)" and "db_reach K db"
  shows "if exec_safe K op db then is_ok (exec K op db) else \<exists>msg. exec K op db = Panic msg"
  using exec_advances [of K db op] reach_inv [OF assms] by (auto simp: is_ok_iff split: if_splits)

text \<open>
  Every call to a precompile is counted, and from the eighth in a transaction on it is refused with
  an error, after its snapshot has been recorded, until the 8-bit counter wraps around.
\<close>

lemma precompile_calls_limited:
  assumes "AddPrecompileFn K a n es db = (db', e)"
  shows "precompileCallsCounter db' = precompileCallsCounter db + 1 \<and> precompileCallChange n es \<in> set (entries db') \<and>
    (e = None \<longleftrightarrow> unat (precompileCallsCounter db) < 7 \<or> unat (precompileCallsCounter db) = 255)"
proof -
  let ?c = "precompileCallsCounter db"
  have g: "precompileCallsCounter (snd (getOrNewStateObject K a db)) = ?c"
    by (simp add: getOrNewStateObject_def createObject_def getStateObject_def journal_append_def setStateObject_def Let_def
        split: option.split)
  have u: "unat (?c + 1) = (unat ?c + 1) mod 256" by (simp add: unat_word_ariths)
  have "unat ?c < 256" using unsigned_less [of ?c] by simp
  then have "?c + 1 \<le> 7 \<longleftrightarrow> unat ?c < 7 \<or> unat ?c = 255"
    unfolding word_le_nat_alt u by (cases "unat ?c = 255") auto
  with assms g show ?thesis
    by (auto simp: AddPrecompileFn_def journal_append_def Let_def MaxPrecompileCalls_def split_beta split: if_splits)
qed

end
