(* ===== verification/Sdk.thy ===== *)
theory Sdk
  imports KVStore "HOL-Library.Char_ord" "HOL-Library.Multiset"
begin

text \<open>
  The interfaces of the Cosmos SDK that the modules are written against. None of this code is
  in the repository, so each interface is a record of operations that the model takes as a
  parameter, and a locale that states the documented behaviour a proof may rely on:
  \<^item> \<open>sdk_coins\<close>: \<^verbatim>\<open>sdk.Coin\<close> and \<^verbatim>\<open>sdk.Coins\<close> (construction, validity, \<^verbatim>\<open>AmountOf\<close>, \<^verbatim>\<open>Add\<close>, \<^verbatim>\<open>Sub\<close>);
  \<^item> \<open>legacy_dec\<close>: \<^verbatim>\<open>math.LegacyDec\<close>, an 18-decimal fixed point number;
  The interface of the \<^verbatim>\<open>x/bank\<close> keeper is in the theory \<^verbatim>\<open>Bank\<close>.
  Each locale is interpreted on a reference implementation at the end of its section, which is
  also what the concrete instances of the theorems are evaluated on.

  \<^verbatim>\<open>sdkmath.Int\<close> wraps Go's \<^verbatim>\<open>big.Int\<close> and is modelled by \<open>int\<close>; its panic beyond 256 bits is
  not modelled. \<^verbatim>\<open>sdk.AccAddress\<close> is a byte string, the nil address being the empty one.
\<close>

section \<open>Coins\<close>

type_synonym coin = "string \<times> int"
type_synonym coins = "coin list"
type_synonym address = bytes

record sdk_coins_ops =
  ValidateDenom :: "string \<Rightarrow> bool"
  NewCoin :: "string \<Rightarrow> int \<Rightarrow> coin res"
  NewCoins :: "coins \<Rightarrow> coins res"
  IsValid :: "coins \<Rightarrow> bool"
  IsAllPositive :: "coins \<Rightarrow> bool"
  AmountOf :: "coins \<Rightarrow> string \<Rightarrow> int"
  CoinsAdd :: "coins \<Rightarrow> coins \<Rightarrow> coins"
  CoinsSub :: "coins \<Rightarrow> coins \<Rightarrow> coins res"
  CoinsSort :: "coins \<Rightarrow> coins"
  CoinsIsZero :: "coins \<Rightarrow> bool"
  IsAnyGTE :: "coins \<Rightarrow> coins \<Rightarrow> bool"

locale sdk_coins =
  fixes S :: sdk_coins_ops
  assumes new_coin: "ValidateDenom S d \<Longrightarrow> 0 \<le> a \<Longrightarrow> NewCoin S d a = Ok (d, a)"
    and new_coin_neg: "a < 0 \<Longrightarrow> \<exists>p. NewCoin S d a = Panic p"
    and new_coins_one: "ValidateDenom S d \<Longrightarrow> 0 \<le> a \<Longrightarrow>
      NewCoins S [(d, a)] = Ok (if a = 0 then [] else [(d, a)])"
    and is_valid_one: "ValidateDenom S d \<Longrightarrow> 0 < a \<Longrightarrow> IsValid S [(d, a)]"
    and all_positive: "IsValid S cs \<Longrightarrow> IsAllPositive S cs \<longleftrightarrow> cs \<noteq> []"
    and amount_nil: "AmountOf S [] d = 0"
    and amount_one: "AmountOf S [(d, a)] d' = (if d' = d then a else 0)"
    and amount_nonneg: "IsValid S cs \<Longrightarrow> 0 \<le> AmountOf S cs d"
    and valid_distinct: "IsValid S cs \<Longrightarrow> distinct (map fst cs)"
    and valid_coin: "IsValid S cs \<Longrightarrow> (d, a) \<in> set cs \<Longrightarrow> ValidateDenom S d \<and> 0 < a \<and> AmountOf S cs d = a"
    and amount_absent: "IsValid S cs \<Longrightarrow> d \<notin> fst ` set cs \<Longrightarrow> AmountOf S cs d = 0"
    and valid_nil: "IsValid S []"
    and sub_coins: "IsValid S cs \<Longrightarrow> IsValid S ds \<Longrightarrow> (\<And>d. AmountOf S ds d \<le> AmountOf S cs d) \<Longrightarrow>
      \<exists>cs'. CoinsSub S cs ds = Ok cs' \<and> IsValid S cs' \<and> (\<forall>d. AmountOf S cs' d = AmountOf S cs d - AmountOf S ds d)"
    and sub_one: "ValidateDenom S d \<Longrightarrow> 0 \<le> b \<Longrightarrow> b \<le> a \<Longrightarrow>
      CoinsSub S [(d, a)] [(d, b)] = Ok (if a = b then [] else [(d, a - b)])"
    and any_gte: "IsValid S ds \<Longrightarrow> IsAnyGTE S cs ds \<longleftrightarrow> (\<exists>(d, a) \<in> set cs. d \<in> fst ` set ds \<and> AmountOf S ds d \<le> a)"
    and add_amount: "IsValid S cs \<Longrightarrow> IsValid S ds \<Longrightarrow>
      IsValid S (CoinsAdd S cs ds) \<and>
      AmountOf S (CoinsAdd S cs ds) d = AmountOf S cs d + AmountOf S ds d"
    and add_zero: "IsValid S cs \<Longrightarrow> CoinsAdd S cs [(d, 0)] = cs"
    and sort_mset: "mset (CoinsSort S cs) = mset cs"
    and is_zero: "CoinsIsZero S cs \<longleftrightarrow> (\<forall>c \<in> set cs. snd c = 0)"
begin

lemma amount_positive_denom:
  assumes "IsValid S cs" and "0 < AmountOf S cs d"
  shows "ValidateDenom S d"
proof (cases "d \<in> fst ` set cs")
  case True
  then obtain a where "(d, a) \<in> set cs" by auto
  with assms(1) show ?thesis using valid_coin by blast
qed (use assms amount_absent in force)

lemma sub_amount:
  assumes "IsValid S cs" and "AmountOf S cs d = a" and "0 < a"
  shows "\<exists>cs'. CoinsSub S cs [(d, a)] = Ok cs' \<and> IsValid S cs' \<and>
    (\<forall>d'. AmountOf S cs' d' = (if d' = d then 0 else AmountOf S cs d'))"
proof -
  have "IsValid S [(d, a)]" using assms amount_positive_denom is_valid_one by blast
  from sub_coins [OF assms(1) this] show ?thesis
    using assms amount_nonneg by (fastforce simp: amount_one)
qed

end

text \<open>A reference implementation: a valid coin list is sorted by denomination, without duplicates,
  and all its amounts are positive.\<close>

definition ref_add_coin :: "coin \<Rightarrow> coins \<Rightarrow> coins" where
  "ref_add_coin c cs =
     (let r = kv_amount cs (fst c) + snd c
      in if r = 0 then kv_delete (fst c) cs else kv_set (fst c) r cs)"

fun ref_sub_coins :: "coins \<Rightarrow> coins \<Rightarrow> coins res" where
  "ref_sub_coins cs [] = Ok cs"
| "ref_sub_coins cs ((d, a) # ds) =
     (let r = kv_amount cs d - a
      in if r < 0 then Panic ''negative coin amount''
         else ref_sub_coins (if r = 0 then kv_delete d cs else kv_set d r cs) ds)"

definition ref_valid :: "coins \<Rightarrow> bool" where
  "ref_valid cs \<longleftrightarrow> kv_ok cs \<and> list_all (\<lambda>(d, a). d \<noteq> [] \<and> 0 < a) cs"

definition ref_coins :: sdk_coins_ops where
  "ref_coins =
     \<lparr>ValidateDenom = (\<lambda>d. d \<noteq> []),
      NewCoin = (\<lambda>d a. if a < 0 \<or> d = [] then Panic ''invalid coin'' else Ok (d, a)),
      NewCoins = (\<lambda>cs. let cs' = filter (\<lambda>(d, a). a \<noteq> 0) (fold ref_add_coin cs []) in
         if ref_valid cs' then Ok cs' else Panic ''invalid coins''),
      IsValid = ref_valid,
      IsAllPositive = (\<lambda>cs. cs \<noteq> [] \<and> list_all (\<lambda>(d, a). 0 < a) cs),
      AmountOf = kv_amount,
      CoinsAdd = (\<lambda>cs ds. fold ref_add_coin ds cs),
      CoinsSub = ref_sub_coins,
      CoinsSort = sort_key fst,
      CoinsIsZero = list_all (\<lambda>c. snd c = 0),
      IsAnyGTE = (\<lambda>cs ds. list_ex (\<lambda>(d, a). kv_amount ds d \<noteq> 0 \<and> kv_amount ds d \<le> a) cs)\<rparr>"

lemma ref_valid_get:
  "ref_valid cs \<longleftrightarrow> kv_ok cs \<and> (\<forall>d a. kv_get cs d = Some a \<longrightarrow> d \<noteq> [] \<and> 0 < a)"
  unfolding ref_valid_def by (fastforce simp: list_all_iff kv_get_in_set)

lemma ref_valid_set: "ref_valid cs \<Longrightarrow> d \<noteq> [] \<Longrightarrow> 0 < a \<Longrightarrow> ref_valid (kv_set d a cs)"
  by (auto simp: ref_valid_get store_simps)

lemma ref_valid_delete: "ref_valid cs \<Longrightarrow> ref_valid (kv_delete d cs)"
  by (auto simp: ref_valid_get store_simps)

lemma ref_valid_amount: "ref_valid cs \<Longrightarrow> 0 \<le> kv_amount cs d"
  by (fastforce simp: ref_valid_get kv_amount_def split: option.splits)

lemma ref_add_valid:
  assumes "ref_valid cs" and "d \<noteq> []" and "0 < a"
  shows "ref_valid (ref_add_coin (d, a) cs)"
    and "kv_amount (ref_add_coin (d, a) cs) d' = kv_amount cs d' + (if d' = d then a else 0)"
  using assms ref_valid_amount [of cs d]
  by (auto simp: ref_add_coin_def Let_def store_simps intro!: ref_valid_set)

lemma ref_fold_add:
  "ref_valid cs \<Longrightarrow> ref_valid ds \<Longrightarrow>
     ref_valid (fold ref_add_coin ds cs) \<and>
     kv_amount (fold ref_add_coin ds cs) d = kv_amount cs d + kv_amount ds d"
proof (induction ds arbitrary: cs)
  case (Cons c ds)
  obtain d' a where c: "c = (d', a)" by (cases c)
  with Cons.prems(2) have da: "d' \<noteq> []" "0 < a" and ds: "ref_valid ds"
    and new: "d' \<notin> fst ` set ds"
    by (auto simp: ref_valid_def)
  from Cons.prems(1) da have v: "ref_valid (ref_add_coin (d', a) cs)"
    by (rule ref_add_valid)
  show ?case
    using Cons.IH [OF v ds] ref_add_valid(2) [OF Cons.prems(1) da, of d] new
    by (auto simp: c kv_amount_absent)
qed simp

lemma ref_sub_spec:
  "ref_valid cs \<Longrightarrow> ref_valid ds \<Longrightarrow> (\<And>d. kv_amount ds d \<le> kv_amount cs d) \<Longrightarrow>
     \<exists>cs'. ref_sub_coins cs ds = Ok cs' \<and> ref_valid cs' \<and> (\<forall>d. kv_amount cs' d = kv_amount cs d - kv_amount ds d)"
proof (induction ds arbitrary: cs)
  case (Cons c ds)
  obtain d a where c: "c = (d, a)" by (cases c)
  with Cons.prems(2) have da: "d \<noteq> []" "0 < a" and ds: "ref_valid ds" and new: "kv_amount ds d = 0"
    by (auto simp: ref_valid_def intro: kv_amount_absent)
  let ?r = "kv_amount cs d - a"
  let ?cs = "if ?r = 0 then kv_delete d cs else kv_set d ?r cs"
  have r: "0 \<le> ?r" using Cons.prems(3) [of d] by (simp add: c)
  have v: "ref_valid ?cs" using Cons.prems(1) da r by (auto intro: ref_valid_delete ref_valid_set)
  have am: "kv_amount ?cs d' = kv_amount cs d' - (if d' = d then a else 0)" for d' by (simp add: store_simps)
  have "kv_amount ds d' \<le> kv_amount ?cs d'" for d'
    using Cons.prems(3) [of d'] r new by (auto simp: c store_simps split: if_splits)
  from Cons.IH [OF v ds this] am new r show ?case by (auto simp: c Let_def)
qed simp

interpretation rc: sdk_coins ref_coins
proof
  fix cs ds :: coins
  assume "IsValid ref_coins cs" "IsValid ref_coins ds" "\<And>d. AmountOf ref_coins ds d \<le> AmountOf ref_coins cs d"
  then show "\<exists>cs'. CoinsSub ref_coins cs ds = Ok cs' \<and> IsValid ref_coins cs' \<and>
      (\<forall>d. AmountOf ref_coins cs' d = AmountOf ref_coins cs d - AmountOf ref_coins ds d)"
    using ref_sub_spec [of cs ds] by (simp add: ref_coins_def)
next
  fix cs :: coins and d and a :: int
  assume "IsValid ref_coins cs" "(d, a) \<in> set cs"
  then show "ValidateDenom ref_coins d \<and> 0 < a \<and> AmountOf ref_coins cs d = a"
    by (auto simp: ref_coins_def ref_valid_def list_all_iff kv_amount_def simp flip: kv_get_in_set)
next
  fix cs :: coins and d
  assume v: "IsValid ref_coins cs"
  then show "distinct (map fst cs)" by (simp add: ref_coins_def ref_valid_def kv_ok_distinct)
  show "d \<notin> fst ` set cs \<Longrightarrow> AmountOf ref_coins cs d = 0" by (simp add: ref_coins_def kv_amount_absent)
  show "IsAnyGTE ref_coins ds cs \<longleftrightarrow> (\<exists>(d, a) \<in> set ds. d \<in> fst ` set cs \<and> AmountOf ref_coins cs d \<le> a)" for ds
  proof -
    have "kv_amount cs d \<noteq> 0 \<longleftrightarrow> d \<in> fst ` set cs" for d
    proof (cases "kv_get cs d")
      case (Some a)
      with v have "(d, a) \<in> set cs" "0 < a"
        using kv_get_in_set [of cs d a] by (auto simp: ref_coins_def ref_valid_get ref_valid_def [symmetric])
      with Some show ?thesis by (force simp: kv_amount_def)
    next
      case None
      then have "d \<notin> fst ` set cs" by (auto simp: kv_get_def map_of_eq_None_iff)
      then show ?thesis by (simp add: kv_amount_absent)
    qed
    then show ?thesis by (auto simp: ref_coins_def list_ex_iff)
  qed
  show "CoinsAdd ref_coins cs [(d, 0)] = cs"
  proof (cases "kv_get cs d")
    case None
    then have "d \<notin> fst ` set cs" by (auto simp: kv_get_def map_of_eq_None_iff)
    then show ?thesis by (simp add: ref_coins_def ref_add_coin_def kv_amount_absent kv_delete_absent)
  next
    case (Some a)
    with v have "0 < a" "kv_set d a cs = cs"
      by (auto simp: ref_coins_def ref_valid_get intro!: kv_ok_ext simp: store_simps)
    with Some show ?thesis by (simp add: ref_coins_def ref_add_coin_def kv_amount_def)
  qed
next
  fix cs ds :: coins and d
  assume "IsValid ref_coins cs" "IsValid ref_coins ds"
  then show "IsValid ref_coins (CoinsAdd ref_coins cs ds) \<and>
      AmountOf ref_coins (CoinsAdd ref_coins cs ds) d = AmountOf ref_coins cs d + AmountOf ref_coins ds d"
    using ref_fold_add [of cs ds d] by (simp add: ref_coins_def)
next
  fix cs show "CoinsIsZero ref_coins cs \<longleftrightarrow> (\<forall>c \<in> set cs. snd c = 0)"
    by (simp add: ref_coins_def list_all_iff)
next
  fix cs d assume "IsValid ref_coins cs"
  then show "0 \<le> AmountOf ref_coins cs d" by (simp add: ref_coins_def ref_valid_amount)
next
  fix cs assume "IsValid ref_coins cs"
  then show "IsAllPositive ref_coins cs \<longleftrightarrow> cs \<noteq> []" by (auto simp: ref_coins_def ref_valid_def list_all_iff)
next
  fix d and a :: int assume "ValidateDenom ref_coins d" "0 \<le> a"
  then show "NewCoins ref_coins [(d, a)] = Ok (if a = 0 then [] else [(d, a)])"
    by (auto simp: ref_coins_def ref_valid_def ref_add_coin_def kv_delete_def)
qed (auto simp: ref_coins_def ref_valid_def kv_delete_def)

section \<open>Addresses as text\<close>

text \<open>\<^verbatim>\<open>strings.ToLower\<close> on ASCII strings.\<close>

definition ToLower :: "string \<Rightarrow> string" where
  "ToLower s = map (\<lambda>c. if CHR ''A'' \<le> c \<and> c \<le> CHR ''Z'' then char_of (of_char c + 32 :: nat) else c) s"

text \<open>
  \<^verbatim>\<open>sdk.AccAddressFromBech32\<close> and \<^verbatim>\<open>AccAddress.String\<close>: bech32 text is lower case, and its all
  upper case variant decodes to the same address.
\<close>

locale bech32_codec =
  fixes bech :: "string \<Rightarrow> address option" and unbech :: "address \<Rightarrow> string"
  assumes decode_encode: "a \<noteq> [] \<Longrightarrow> bech (unbech a) = Some a"
    and decode_lower: "bech x = Some a \<Longrightarrow> ToLower x = unbech a"
    and decode_nonempty: "bech x \<noteq> Some []"
begin

lemma encode_lower: "a \<noteq> [] \<Longrightarrow> ToLower (unbech a) = unbech a"
  using decode_encode decode_lower by blast

lemma decode_inj: "bech x = Some a \<Longrightarrow> bech y = Some a \<Longrightarrow> ToLower x = ToLower y"
  using decode_lower by metis

lemma encode_inj: "a \<noteq> [] \<Longrightarrow> b \<noteq> [] \<Longrightarrow> unbech a = unbech b \<longleftrightarrow> a = b"
  using decode_encode by (metis option.inject)

end

text \<open>The reference codec writes each byte as two of the sixteen letters from \<^verbatim>\<open>a\<close> to \<^verbatim>\<open>p\<close>.\<close>

definition ref_unbech :: "address \<Rightarrow> string" where
  "ref_unbech a = concat (map (\<lambda>b. [char_of (97 + unat b div 16), char_of (97 + unat b mod 16)]) a)"

fun ref_unpair :: "string \<Rightarrow> address option" where
  "ref_unpair [] = Some []"
| "ref_unpair (c # d # cs) =
     (if 97 \<le> (of_char c :: nat) \<and> (of_char c :: nat) \<le> 112 \<and> 97 \<le> (of_char d :: nat) \<and> (of_char d :: nat) \<le> 112
      then map_option ((#) (word_of_nat ((of_char c - 97) * 16 + (of_char d - 97)))) (ref_unpair cs)
      else None)"
| "ref_unpair [c] = None"

definition ref_bech :: "string \<Rightarrow> address option" where
  "ref_bech s = (if s = [] then None else ref_unpair (ToLower s))"

lemma ToLower_length [simp]: "length (ToLower s) = length s" "ToLower s = [] \<longleftrightarrow> s = []"
  by (simp_all add: ToLower_def)

lemma nibble_char [simp]: "n < 16 \<Longrightarrow> of_char (char_of (97 + n :: nat)) = (97 + n :: nat)"
  by (simp add: of_char_of)

lemma nibble_lower: "n < 16 \<Longrightarrow> ToLower (char_of (97 + n :: nat) # s) = char_of (97 + n) # ToLower s"
  by (simp add: ToLower_def less_eq_char_def)

lemma unat_lt_256: "unat (b :: byte) < 256"
  using unsigned_less [of b] by simp

lemma ref_unbech_lower: "ToLower (ref_unbech a) = ref_unbech a"
proof (induction a)
  case (Cons b a)
  have "unat b div 16 < 16" using unat_lt_256 [of b] by simp
  with Cons show ?case by (simp add: ref_unbech_def nibble_lower)
qed (simp add: ref_unbech_def ToLower_def)

lemma ref_unpair_unbech: "ref_unpair (ref_unbech a) = Some a"
proof (induction a)
  case (Cons b a)
  have "unat b div 16 < 16" using unat_lt_256 [of b] by simp
  with Cons show ?case by (simp add: ref_unbech_def)
qed (simp add: ref_unbech_def)

lemma ref_unbech_unpair: "ref_unpair s = Some a \<Longrightarrow> ref_unbech a = s"
proof (induction s arbitrary: a rule: ref_unpair.induct)
  case (2 c d cs)
  then obtain a' where a': "ref_unpair cs = Some a'" "a = word_of_nat ((of_char c - 97) * 16 + (of_char d - 97)) # a'"
    and r: "97 \<le> (of_char c :: nat)" "(of_char c :: nat) \<le> 112" "97 \<le> (of_char d :: nat)" "(of_char d :: nat) \<le> 112"
    by (auto split: if_splits)
  define n m where nm: "n = of_char c - (97::nat)" "m = of_char d - (97::nat)"
  have lt: "n < 16" "m < 16" and c: "char_of (97 + n) = c" "char_of (97 + m) = d"
    using r by (simp_all add: nm)
  have w: "unat (word_of_nat (n * 16 + m) :: byte) = n * 16 + m"
    using lt by (simp only: unat_of_nat) simp
  have "ref_unbech a' = cs" using 2(1) [OF _ a'(1)] r by simp
  then show ?case
    using lt c by (simp only: a'(2) nm [symmetric]) (simp add: ref_unbech_def w del: of_nat_add of_nat_mult)
qed (auto simp: ref_unbech_def)

interpretation rbech: bech32_codec ref_bech ref_unbech
proof
  fix a :: address assume "a \<noteq> []"
  then have "ref_unbech a \<noteq> []" by (cases a) (auto simp: ref_unbech_def)
  then show "ref_bech (ref_unbech a) = Some a"
    by (simp add: ref_bech_def ref_unbech_lower ref_unpair_unbech)
next
  fix x a assume "ref_bech x = Some a"
  then show "ToLower x = ref_unbech a"
    using ref_unbech_unpair by (auto simp: ref_bech_def split: if_splits)
next
  fix x show "ref_bech x \<noteq> Some []"
    using ref_unbech_unpair [of "ToLower x" "[]"] ToLower_length(2) [of x]
    by (cases "ToLower x") (auto simp: ref_bech_def ref_unbech_def)
qed

section \<open>Fixed point decimals\<close>

text \<open>
  A \<^verbatim>\<open>LegacyDec\<close> is the integer number of \<open>10 ^ (- 18)\<close> units it stands for; the nil value
  \<^verbatim>\<open>LegacyDec{}\<close> is modelled by \<open>None\<close> where the code can meet it. \<^verbatim>\<open>MulInt\<close> is exact, \<^verbatim>\<open>QuoInt\<close> and
  \<^verbatim>\<open>TruncateInt\<close> truncate, \<^verbatim>\<open>Mul\<close> and \<^verbatim>\<open>Quo\<close> round to the nearest unit. The panic of \<^verbatim>\<open>Quo\<close> on a
  zero divisor and the 315-bit overflow panics are not part of the interface: the code guards the
  former, the latter is not modelled.
\<close>

type_synonym dec = int

record legacy_dec_ops =
  DecAdd :: "dec \<Rightarrow> dec \<Rightarrow> dec"
  DecSub :: "dec \<Rightarrow> dec \<Rightarrow> dec"
  DecMul :: "dec \<Rightarrow> dec \<Rightarrow> dec"
  DecQuo :: "dec \<Rightarrow> dec \<Rightarrow> dec"
  DecMulInt :: "dec \<Rightarrow> int \<Rightarrow> dec"
  DecQuoInt :: "dec \<Rightarrow> int \<Rightarrow> dec"
  DecTruncateInt :: "dec \<Rightarrow> int"
  DecCeil :: "dec \<Rightarrow> dec"
  DecRoundInt :: "dec \<Rightarrow> int"
  LegacyNewDec :: "int \<Rightarrow> dec"
  LegacyNewDecFromStr :: "string \<Rightarrow> dec option"

abbreviation (input) dec_one :: dec where "dec_one \<equiv> 1000000000000000000"

locale legacy_dec =
  fixes D :: legacy_dec_ops
  assumes dec_add: "DecAdd D x y = x + y"
    and dec_sub: "DecSub D x y = x - y"
    and dec_mul_int: "DecMulInt D x n = x * n"
    and dec_quo_int: "n \<noteq> 0 \<Longrightarrow> DecQuoInt D x n = x sdiv n"
    and dec_truncate: "DecTruncateInt D x = x sdiv dec_one"
    and dec_ceil: "DecCeil D x = - (- x div dec_one) * dec_one"
    and dec_round: "DecRoundInt D (n * dec_one) = n"
    and dec_new: "LegacyNewDec D n = n * dec_one"
    and dec_mul_near: "2 * \<bar>DecMul D x y * dec_one - x * y\<bar> \<le> dec_one"
    and dec_quo_near: "y \<noteq> 0 \<Longrightarrow>
      2 * dec_one * \<bar>DecQuo D x y * y - x * dec_one\<bar> \<le> (dec_one + 2) * \<bar>y\<bar>"
begin

lemma dec_mul_bounds:
  "x * y - dec_one \<le> 2 * (DecMul D x y * dec_one) - x * y"
  "2 * (DecMul D x y * dec_one) - x * y \<le> x * y + dec_one"
  using dec_mul_near [of x y] by (auto simp: abs_le_iff)

lemma dec_mul_exact:
  assumes "x * y = z * dec_one"
  shows "DecMul D x y = z"
  using dec_mul_near [of x y] assms by (simp add: abs_le_iff)

lemma dec_mul_nonneg: "0 \<le> x \<Longrightarrow> 0 \<le> y \<Longrightarrow> 0 \<le> DecMul D x y"
  using dec_mul_bounds [of x y] mult_nonneg_nonneg [of x y] by linarith

lemma dec_mul_int_le:
  assumes "0 \<le> n" and "0 \<le> y" and "y \<le> dec_one"
  shows "0 \<le> DecMul D (n * dec_one) y" and "DecMul D (n * dec_one) y = n * y"
    and "DecMul D (n * dec_one) y \<le> n * dec_one"
proof -
  have e: "DecMul D (n * dec_one) y = n * y"
    by (rule dec_mul_exact) (simp add: algebra_simps)
  show "DecMul D (n * dec_one) y = n * y" by (fact e)
  show "0 \<le> DecMul D (n * dec_one) y" using assms by (simp add: e)
  show "DecMul D (n * dec_one) y \<le> n * dec_one"
    using assms by (simp add: e mult_left_mono)
qed

lemma dec_truncate_new: "DecTruncateInt D (LegacyNewDec D n) = n"
  by (auto simp: dec_truncate dec_new signed_divide_int_def sgn_mult abs_mult sgn_if)

lemma dec_truncate_le: "0 \<le> x \<Longrightarrow> DecTruncateInt D x * dec_one \<le> x"
  by (simp add: dec_truncate)

lemma dec_truncate_gt: "0 \<le> x \<Longrightarrow> x < (DecTruncateInt D x + 1) * dec_one"
  using div_mult_mod_eq [of x dec_one] pos_mod_bound [of dec_one x]
  by (simp add: dec_truncate algebra_simps)

lemma dec_truncate_mono: "0 \<le> x \<Longrightarrow> x \<le> y \<Longrightarrow> DecTruncateInt D x \<le> DecTruncateInt D y"
  by (simp add: dec_truncate zdiv_mono1)

lemma dec_truncate_nonneg: "0 \<le> x \<Longrightarrow> 0 \<le> DecTruncateInt D x"
  by (simp add: dec_truncate)

end

text \<open>A nil \<^verbatim>\<open>LegacyDec\<close> is \<open>None\<close>: using one as a number is a panic, and it is marshalled as zero.\<close>

definition dec_val :: "dec option \<Rightarrow> dec res" where
  "dec_val d = (case d of None \<Rightarrow> Panic ''nil pointer'' | Some x \<Rightarrow> Ok x)"

definition marshal_dec :: "dec option \<Rightarrow> dec option" where
  "marshal_dec d = (case d of None \<Rightarrow> Some 0 | Some x \<Rightarrow> Some x)"

lemma marshal_dec_Some [simp]: "marshal_dec (Some x) = Some x"
  by (simp add: marshal_dec_def)

text \<open>\<^verbatim>\<open>math.LegacyMaxDec\<close>.\<close>

definition LegacyMaxDec :: "dec \<Rightarrow> dec \<Rightarrow> dec" where
  "LegacyMaxDec x y = (if x < y then y else x)"

lemma LegacyMaxDec_max [simp]: "LegacyMaxDec x y = max x y"
  by (auto simp: LegacyMaxDec_def)

text \<open>The reference implementation rounds half to even, as the SDK does (whose \<^verbatim>\<open>Quo\<close> truncates to 36
  decimals first, so that the promised error is a little above half a unit).\<close>

definition round_half_even :: "int \<Rightarrow> int \<Rightarrow> int" where
  "round_half_even a b =
     (let q = \<bar>a\<bar> div \<bar>b\<bar>; r = \<bar>a\<bar> mod \<bar>b\<bar>;
          q' = (if 2 * r < \<bar>b\<bar> then q else if 2 * r > \<bar>b\<bar> then q + 1
                else if even q then q else q + 1)
      in sgn a * sgn b * q')"

fun ref_digits :: "string \<Rightarrow> int option" where
  "ref_digits [] = Some 0"
| "ref_digits cs =
     (let c = of_char (last cs) - (48::int) in
      if c < 0 \<or> 9 < c then None
      else (case ref_digits (butlast cs) of None \<Rightarrow> None | Some n \<Rightarrow> Some (10 * n + c)))"

text \<open>The reference parser reads an optionally negative whole number.\<close>

definition ref_dec_of_string :: "string \<Rightarrow> dec option" where
  "ref_dec_of_string s =
     (case s of [] \<Rightarrow> None
      | c # cs \<Rightarrow> (if c = CHR ''-'' then (if cs = [] then None else map_option (\<lambda>n. - (n * dec_one)) (ref_digits cs))
                  else map_option (\<lambda>n. n * dec_one) (ref_digits s)))"

definition ref_dec :: legacy_dec_ops where
  "ref_dec =
     \<lparr>DecAdd = (\<lambda>x y. x + y), DecSub = (\<lambda>x y. x - y),
      DecMul = (\<lambda>x y. round_half_even (x * y) dec_one),
      DecQuo = (\<lambda>x y. round_half_even (x * dec_one) y),
      DecMulInt = (\<lambda>x n. x * n), DecQuoInt = (\<lambda>x n. x sdiv n),
      DecTruncateInt = (\<lambda>x. x sdiv dec_one), DecCeil = (\<lambda>x. - (- x div dec_one) * dec_one),
      DecRoundInt = (\<lambda>x. round_half_even x dec_one), LegacyNewDec = (\<lambda>n. n * dec_one),
      LegacyNewDecFromStr = ref_dec_of_string\<rparr>"

lemma round_half_even_near_pos:
  assumes "0 < b" and "0 \<le> a"
  shows "2 * \<bar>round_half_even a b * b - a\<bar> \<le> b"
proof (cases "a = 0")
  case False
  let ?q = "a div b" and ?r = "a mod b"
  have a: "a = ?q * b + ?r" by simp
  have r: "0 \<le> ?r" "?r < b" using assms by auto
  have "round_half_even a b = ?q \<and> 2 * ?r \<le> b \<or> round_half_even a b = ?q + 1 \<and> b \<le> 2 * ?r"
    using assms False by (auto simp: round_half_even_def Let_def)
  then show ?thesis
  proof
    assume *: "round_half_even a b = ?q \<and> 2 * ?r \<le> b"
    then have "round_half_even a b * b - a = ?q * b - a" by simp
    also have "\<dots> = - ?r" by (simp add: minus_mod_eq_div_mult [symmetric])
    finally have "round_half_even a b * b - a = - ?r" .
    with * r show ?thesis by simp
  next
    assume *: "round_half_even a b = ?q + 1 \<and> b \<le> 2 * ?r"
    then have "round_half_even a b * b - a = (?q + 1) * b - a" by simp
    also have "\<dots> = b - ?r" by (simp add: distrib_right minus_mod_eq_div_mult [symmetric])
    finally have "round_half_even a b * b - a = b - ?r" .
    with * r show ?thesis by simp
  qed
qed (use assms in \<open>auto simp: round_half_even_def\<close>)

lemma round_half_even_sgn: "round_half_even a b = sgn a * sgn b * round_half_even \<bar>a\<bar> \<bar>b\<bar>"
  by (cases "a = 0"; cases "b = 0") (auto simp: round_half_even_def Let_def)

lemma round_half_even_near:
  assumes "b \<noteq> 0"
  shows "2 * \<bar>round_half_even a b * b - a\<bar> \<le> \<bar>b\<bar>"
proof -
  have "round_half_even a b * b - a = sgn a * (round_half_even \<bar>a\<bar> \<bar>b\<bar> * \<bar>b\<bar> - \<bar>a\<bar>)"
    by (subst round_half_even_sgn) (auto simp: algebra_simps sgn_mult_abs mult_sgn_abs abs_sgn)
  then have "\<bar>round_half_even a b * b - a\<bar> \<le> \<bar>round_half_even \<bar>a\<bar> \<bar>b\<bar> * \<bar>b\<bar> - \<bar>a\<bar>\<bar>"
    by (auto simp: abs_mult abs_sgn_eq)
  with round_half_even_near_pos [of "\<bar>b\<bar>" "\<bar>a\<bar>"] assms show ?thesis by simp
qed

interpretation rd: legacy_dec ref_dec
proof
  fix x y :: dec
  show "2 * \<bar>DecMul ref_dec x y * dec_one - x * y\<bar> \<le> dec_one"
    using round_half_even_near [of dec_one "x * y"] by (simp add: ref_dec_def)
  show "DecRoundInt ref_dec (n * dec_one) = n" for n
    by (auto simp: ref_dec_def round_half_even_def Let_def abs_mult sgn_mult sgn_if)
  show "y \<noteq> 0 \<Longrightarrow> 2 * dec_one * \<bar>DecQuo ref_dec x y * y - x * dec_one\<bar> \<le> (dec_one + 2) * \<bar>y\<bar>"
    using round_half_even_near [of y "x * dec_one"] by (simp add: ref_dec_def)
qed (auto simp: ref_dec_def)

end
