(* ===== verification/Bank.thy ===== *)
theory Bank
  imports Sdk
begin

text \<open>
  The interface of the \<^verbatim>\<open>x/bank\<close> keeper and of the module accounts of \<^verbatim>\<open>x/auth\<close>, as
  \<^verbatim>\<open>x/precisebank/types/interfaces.go\<close> and the other modules' expected keepers declare it. The
  keepers themselves belong to the SDK, so they are records of operations over an unspecified
  bank state; \<open>bank_laws\<close> says what a transfer, a mint and a burn do to balances and supply.
\<close>

record module_account =
  ma_address :: address
  ma_permissions :: "string list"

record account_keeper =
  GetModuleAddress :: "string \<Rightarrow> address option"
  GetModuleAccount :: "string \<Rightarrow> module_account option"

record 'b bank_keeper =
  bk_GetBalance :: "'b \<Rightarrow> address \<Rightarrow> string \<Rightarrow> int"
  bk_SpendableCoin :: "'b \<Rightarrow> address \<Rightarrow> string \<Rightarrow> int"
  bk_GetSupply :: "'b \<Rightarrow> string \<Rightarrow> int"
  bk_BlockedAddr :: "address \<Rightarrow> bool"
  bk_IsSendEnabledCoin :: "'b \<Rightarrow> coin \<Rightarrow> bool"
  bk_SendCoins :: "address \<Rightarrow> address \<Rightarrow> coins \<Rightarrow> 'b \<Rightarrow> 'b res"
  bk_SendCoinsFromAccountToModule :: "address \<Rightarrow> string \<Rightarrow> coins \<Rightarrow> 'b \<Rightarrow> 'b res"
  bk_SendCoinsFromModuleToAccount :: "string \<Rightarrow> address \<Rightarrow> coins \<Rightarrow> 'b \<Rightarrow> 'b res"
  bk_SendCoinsFromModuleToModule :: "string \<Rightarrow> string \<Rightarrow> coins \<Rightarrow> 'b \<Rightarrow> 'b res"
  bk_MintCoins :: "string \<Rightarrow> coins \<Rightarrow> 'b \<Rightarrow> 'b res"
  bk_BurnCoins :: "string \<Rightarrow> coins \<Rightarrow> 'b \<Rightarrow> 'b res"

text \<open>The nil address a missing module account has.\<close>

definition module_addr :: "account_keeper \<Rightarrow> string \<Rightarrow> address" where
  "module_addr A m = (case GetModuleAddress A m of None \<Rightarrow> [] | Some a \<Rightarrow> a)"

text \<open>What moving \<open>cs\<close> from \<open>f\<close> to \<open>t\<close> does to every balance.\<close>

definition moved :: "sdk_coins_ops \<Rightarrow> 'b bank_keeper \<Rightarrow> address \<Rightarrow> address \<Rightarrow> coins \<Rightarrow> 'b \<Rightarrow> 'b \<Rightarrow> bool" where
  "moved S B f t cs b b' \<longleftrightarrow>
     (\<forall>a d. bk_GetBalance B b' a d =
        bk_GetBalance B b a d - (if a = f then AmountOf S cs d else 0)
          + (if a = t then AmountOf S cs d else 0)) \<and>
     (\<forall>d. bk_GetSupply B b' d = bk_GetSupply B b d)"

text \<open>What adding (\<open>k = 1\<close>) or removing (\<open>k = - 1\<close>) \<open>cs\<close> at \<open>t\<close> does to balances and supply.\<close>

definition issued :: "sdk_coins_ops \<Rightarrow> 'b bank_keeper \<Rightarrow> int \<Rightarrow> address \<Rightarrow> coins \<Rightarrow> 'b \<Rightarrow> 'b \<Rightarrow> bool" where
  "issued S B k t cs b b' \<longleftrightarrow>
     (\<forall>a d. bk_GetBalance B b' a d =
        bk_GetBalance B b a d + (if a = t then k * AmountOf S cs d else 0)) \<and>
     (\<forall>d. bk_GetSupply B b' d = bk_GetSupply B b d + k * AmountOf S cs d)"

definition covers :: "sdk_coins_ops \<Rightarrow> 'b bank_keeper \<Rightarrow> 'b \<Rightarrow> address \<Rightarrow> coins \<Rightarrow> bool" where
  "covers S B b a cs \<longleftrightarrow> (\<forall>d. AmountOf S cs d \<le> bk_SpendableCoin B b a d)"

locale bank_laws = sdk_coins S for S :: sdk_coins_ops +
  fixes B :: "'b bank_keeper" and A :: account_keeper
  assumes balance_nonneg: "0 \<le> bk_GetBalance B b a d"
    and module_account: "GetModuleAccount A m = Some acc \<Longrightarrow> GetModuleAddress A m = Some (ma_address acc)"
    and module_address_nonempty: "GetModuleAddress A m = Some a \<Longrightarrow> a \<noteq> []"
    and module_spendable: "GetModuleAddress A m = Some a \<Longrightarrow>
      bk_SpendableCoin B b a d = bk_GetBalance B b a d"
    and spendable_nonneg: "0 \<le> bk_SpendableCoin B b a d"
    and send_spendable: "IsValid S cs \<Longrightarrow> f \<noteq> t \<Longrightarrow> bk_SendCoins B f t cs b = Ok b' \<Longrightarrow>
      bk_SpendableCoin B b' f d = bk_SpendableCoin B b f d - AmountOf S cs d"
    and send_moves: "IsValid S cs \<Longrightarrow> bk_SendCoins B f t cs b = Ok b' \<Longrightarrow> moved S B f t cs b b'"
    and send_succeeds: "IsValid S cs \<Longrightarrow> covers S B b f cs \<Longrightarrow> is_ok (bk_SendCoins B f t cs b)"
    and send_fails: "IsValid S cs \<Longrightarrow> \<not> covers S B b f cs \<Longrightarrow>
      \<exists>x. bk_SendCoins B f t cs b = Fail (ErrInsufficientFunds x)"
    and account_to_module: "GetModuleAddress A m = Some t \<Longrightarrow>
      bk_SendCoinsFromAccountToModule B f m cs b = bk_SendCoins B f t cs b"
    and module_to_module: "GetModuleAddress A m = Some f \<Longrightarrow> GetModuleAddress A n = Some t \<Longrightarrow>
      bk_SendCoinsFromModuleToModule B m n cs b = bk_SendCoins B f t cs b"
    and mint_issues: "GetModuleAddress A m = Some t \<Longrightarrow> IsValid S cs \<Longrightarrow>
      bk_MintCoins B m cs b = Ok b' \<Longrightarrow> issued S B 1 t cs b b'"
    and burn_issues: "GetModuleAddress A m = Some t \<Longrightarrow> IsValid S cs \<Longrightarrow>
      bk_BurnCoins B m cs b = Ok b' \<Longrightarrow> issued S B (- 1) t cs b b'"
    and module_address_inj: "GetModuleAddress A m = Some a \<Longrightarrow> GetModuleAddress A n = Some a \<Longrightarrow> m = n"
    and mint_succeeds: "GetModuleAccount A m = Some acc \<Longrightarrow> ''minter'' \<in> set (ma_permissions acc) \<Longrightarrow>
      IsValid S cs \<Longrightarrow> is_ok (bk_MintCoins B m cs b)"
    and burn_succeeds: "GetModuleAccount A m = Some acc \<Longrightarrow> ''burner'' \<in> set (ma_permissions acc) \<Longrightarrow>
      IsValid S cs \<Longrightarrow> covers S B b (ma_address acc) cs \<Longrightarrow> is_ok (bk_BurnCoins B m cs b)"
    and burn_fails: "GetModuleAccount A m = Some acc \<Longrightarrow> ''burner'' \<in> set (ma_permissions acc) \<Longrightarrow>
      IsValid S cs \<Longrightarrow> \<not> covers S B b (ma_address acc) cs \<Longrightarrow>
      \<exists>x. bk_BurnCoins B m cs b = Fail (ErrInsufficientFunds x)"
begin

lemma covers_one:
  "covers S B b a [(d, n)] \<longleftrightarrow> n \<le> bk_SpendableCoin B b a d"
  by (auto simp: covers_def amount_one spendable_nonneg)

lemma module_covers_one:
  assumes "GetModuleAddress A m = Some a"
  shows "covers S B b a [(d, n)] \<longleftrightarrow> n \<le> bk_GetBalance B b a d"
  using assms by (simp add: covers_one module_spendable)

lemma send_Ok_iff: "IsValid S cs \<Longrightarrow> is_ok (bk_SendCoins B f t cs b) \<longleftrightarrow> covers S B b f cs"
  using send_succeeds [of cs b f t] send_fails [of cs b f t]
  by (cases "covers S B b f cs") (auto simp: res_simps)

lemma send_no_panic: "IsValid S cs \<Longrightarrow> bk_SendCoins B f t cs b \<noteq> Panic p"
  using send_succeeds [of cs b f t] send_fails [of cs b f t]
  by (cases "covers S B b f cs") (auto simp: res_simps)

end

section \<open>A reference ledger\<close>

text \<open>
  The instance the witnesses are evaluated on: balances per address and denomination, module
  accounts at fixed addresses, nothing locked, nothing blocked.
\<close>

record ledger =
  lg_balance :: "address \<Rightarrow> string \<Rightarrow> nat"
  lg_supply :: "string \<Rightarrow> int"

definition ref_module_addr :: "string \<Rightarrow> address option" where
  "ref_module_addr m = (if m = [] then None else Some (255 # StringToBytes m))"

definition ref_accounts :: "string list \<Rightarrow> account_keeper" where
  "ref_accounts perms =
     \<lparr>GetModuleAddress = ref_module_addr,
      GetModuleAccount = (\<lambda>m. map_option (\<lambda>a. \<lparr>ma_address = a, ma_permissions = perms\<rparr>) (ref_module_addr m))\<rparr>"

definition lg_covers :: "ledger \<Rightarrow> address \<Rightarrow> coins \<Rightarrow> bool" where
  "lg_covers b f cs \<longleftrightarrow> list_all (\<lambda>(d, n). n \<le> int (lg_balance b f d)) cs"

definition lg_add :: "int \<Rightarrow> address \<Rightarrow> coins \<Rightarrow> ledger \<Rightarrow> ledger" where
  "lg_add k a cs b =
     b\<lparr>lg_balance := (lg_balance b)(a := (\<lambda>d. nat (int (lg_balance b a d) + k * kv_amount cs d)))\<rparr>"

definition lg_issue :: "int \<Rightarrow> coins \<Rightarrow> ledger \<Rightarrow> ledger" where
  "lg_issue k cs b = b\<lparr>lg_supply := (\<lambda>d. lg_supply b d + k * kv_amount cs d)\<rparr>"

definition lg_send :: "address \<Rightarrow> address \<Rightarrow> coins \<Rightarrow> ledger \<Rightarrow> ledger res" where
  "lg_send f t cs b =
     (if lg_covers b f cs then Ok (lg_add 1 t cs (lg_add (- 1) f cs b))
      else Fail (ErrInsufficientFunds None))"

definition lg_mint :: "string \<Rightarrow> coins \<Rightarrow> ledger \<Rightarrow> ledger res" where
  "lg_mint m cs b =
     (case ref_module_addr m of None \<Rightarrow> Panic ''no module account''
      | Some a \<Rightarrow> Ok (lg_issue 1 cs (lg_add 1 a cs b)))"

definition lg_burn :: "string \<Rightarrow> coins \<Rightarrow> ledger \<Rightarrow> ledger res" where
  "lg_burn m cs b =
     (case ref_module_addr m of None \<Rightarrow> Panic ''no module account''
      | Some a \<Rightarrow> if lg_covers b a cs then Ok (lg_issue (- 1) cs (lg_add (- 1) a cs b))
                  else Fail (ErrInsufficientFunds None))"

definition ref_bank :: "ledger bank_keeper" where
  "ref_bank =
     \<lparr>bk_GetBalance = (\<lambda>b a d. int (lg_balance b a d)),
      bk_SpendableCoin = (\<lambda>b a d. int (lg_balance b a d)),
      bk_GetSupply = lg_supply,
      bk_BlockedAddr = (\<lambda>_. False),
      bk_IsSendEnabledCoin = (\<lambda>_ _. True),
      bk_SendCoins = lg_send,
      bk_SendCoinsFromAccountToModule = (\<lambda>f m. lg_send f (case ref_module_addr m of None \<Rightarrow> [] | Some t \<Rightarrow> t)),
      bk_SendCoinsFromModuleToAccount = (\<lambda>m. lg_send (case ref_module_addr m of None \<Rightarrow> [] | Some t \<Rightarrow> t)),
      bk_SendCoinsFromModuleToModule =
        (\<lambda>m n. lg_send (case ref_module_addr m of None \<Rightarrow> [] | Some t \<Rightarrow> t)
                       (case ref_module_addr n of None \<Rightarrow> [] | Some t \<Rightarrow> t)),
      bk_MintCoins = lg_mint,
      bk_BurnCoins = lg_burn\<rparr>"

lemma lg_covers_iff:
  assumes "ref_valid cs"
  shows "lg_covers b f cs \<longleftrightarrow> (\<forall>d. kv_amount cs d \<le> int (lg_balance b f d))"
proof
  assume c: "lg_covers b f cs"
  show "\<forall>d. kv_amount cs d \<le> int (lg_balance b f d)"
  proof
    fix d
    show "kv_amount cs d \<le> int (lg_balance b f d)"
    proof (cases "kv_get cs d")
      case (Some a)
      with assms have "(d, a) \<in> set cs" by (simp add: ref_valid_def kv_get_in_set)
      with c Some show ?thesis by (auto simp: lg_covers_def list_all_iff kv_amount_def)
    qed (simp add: kv_amount_def)
  qed
next
  assume c: "\<forall>d. kv_amount cs d \<le> int (lg_balance b f d)"
  show "lg_covers b f cs"
    unfolding lg_covers_def list_all_iff
  proof safe
    fix d a assume "(d, a) \<in> set cs"
    then have "kv_amount cs d = a"
      using assms kv_get_in_set [of cs d a] by (simp add: kv_amount_def ref_valid_def)
    with c show "a \<le> int (lg_balance b f d)" by metis
  qed
qed

lemma lg_balance_add:
  "0 \<le> int (lg_balance b a d) + k * kv_amount cs d \<Longrightarrow>
     int (lg_balance (lg_add k a cs b) a' d) =
       int (lg_balance b a' d) + (if a' = a then k * kv_amount cs d else 0)"
  by (simp add: lg_add_def)

lemma lg_issue_simps [simp]:
  "lg_balance (lg_issue k cs b) = lg_balance b"
  "lg_supply (lg_issue k cs b) d = lg_supply b d + k * kv_amount cs d"
  "lg_supply (lg_add k a cs b) = lg_supply b"
  by (auto simp: lg_issue_def lg_add_def)

lemma lg_send_moves:
  assumes v: "ref_valid cs" and r: "lg_send f t cs b = Ok b'"
  shows "moved ref_coins ref_bank f t cs b b'"
proof -
  from r have c: "lg_covers b f cs" and b': "b' = lg_add 1 t cs (lg_add (- 1) f cs b)"
    by (auto simp: lg_send_def split: if_splits)
  have nn: "0 \<le> kv_amount cs d" and le: "kv_amount cs d \<le> int (lg_balance b f d)" for d
    using v c by (auto simp: lg_covers_iff ref_valid_amount)
  have m: "int (lg_balance (lg_add (- 1) f cs b) a d) =
      int (lg_balance b a d) + (if a = f then - kv_amount cs d else 0)" for a d
    using le [of d] by (subst lg_balance_add) auto
  have "0 \<le> int (lg_balance (lg_add (- 1) f cs b) t d) + 1 * kv_amount cs d" for d
    using nn [of d] by simp
  note p = lg_balance_add [OF this]
  show ?thesis
    by (simp add: moved_def b' ref_bank_def ref_coins_def p m)
qed

lemma lg_mint_issues:
  assumes "ref_valid cs" and "ref_module_addr m = Some t" and "lg_mint m cs b = Ok b'"
  shows "issued ref_coins ref_bank 1 t cs b b'"
  using assms ref_valid_amount [OF assms(1)]
  by (auto simp: issued_def lg_mint_def ref_bank_def ref_coins_def lg_balance_add lg_add_def)

lemma lg_burn_issues:
  assumes "ref_valid cs" and "ref_module_addr m = Some t" and "lg_burn m cs b = Ok b'"
  shows "issued ref_coins ref_bank (- 1) t cs b b'"
proof -
  from assms have c: "lg_covers b t cs" and b': "b' = lg_issue (- 1) cs (lg_add (- 1) t cs b)"
    by (auto simp: lg_burn_def split: if_splits)
  have "0 \<le> int (lg_balance b t d) + - 1 * kv_amount cs d" for d
    using c assms(1) by (simp add: lg_covers_iff)
  then show ?thesis
    by (auto simp: issued_def b' ref_bank_def ref_coins_def lg_balance_add)
qed

interpretation rb: bank_laws ref_coins ref_bank "ref_accounts perms" for perms
proof (unfold_locales, goal_cases)
  case (6 cs f t b b' d)
  then have "moved ref_coins ref_bank f t cs b b'"
    using lg_send_moves [of cs f t b b'] by (simp add: ref_bank_def ref_coins_def)
  then have "bk_GetBalance ref_bank b' f d = bk_GetBalance ref_bank b f d - AmountOf ref_coins cs d"
    using 6(2) by (simp add: moved_def)
  then show ?case by (simp add: ref_bank_def)
next
  case (7 cs f t b b')
  then show ?case
    using lg_send_moves [of cs f t b b'] by (simp add: ref_bank_def ref_coins_def)
next
  case (8 cs b f t)
  then show ?case
    by (auto simp: ref_bank_def ref_coins_def covers_def is_ok_def lg_send_def lg_covers_iff)
next
  case (9 cs b f t)
  then show ?case
    by (auto simp: ref_bank_def ref_coins_def covers_def lg_send_def lg_covers_iff)
next
  case (12 m t cs b b')
  then show ?case
    using lg_mint_issues [of cs m t b b'] by (simp add: ref_bank_def ref_coins_def ref_accounts_def)
next
  case (13 m t cs b b')
  then show ?case
    using lg_burn_issues [of cs m t b b'] by (simp add: ref_bank_def ref_coins_def ref_accounts_def)
next
  case (14 m a n)
  then show ?case
    by (auto simp: ref_accounts_def ref_module_addr_def StringToBytes_inj split: if_splits)
next
  case (15 m acc cs b)
  then show ?case
    by (auto simp: ref_bank_def ref_accounts_def is_ok_def lg_mint_def)
next
  case (16 m acc cs b)
  then show ?case
    by (auto simp: ref_bank_def ref_coins_def ref_accounts_def covers_def is_ok_def lg_burn_def lg_covers_iff)
next
  case (17 m acc cs b)
  then show ?case
    by (auto simp: ref_bank_def ref_coins_def ref_accounts_def covers_def lg_burn_def lg_covers_iff)
qed (auto simp: ref_bank_def ref_accounts_def ref_module_addr_def split: if_splits)

end
