(* ===== verification/EvmCoin.thy ===== *)
theory EvmCoin
  imports Sdk
begin

text \<open>
  The configuration of the EVM gas coin (\<^verbatim>\<open>x/vm/types/denom.go\<close>, \<^verbatim>\<open>x/vm/types/denom_config.go\<close>) and the
  conversions between the coin's own decimals and the 18 decimals the EVM works with
  (\<^verbatim>\<open>x/vm/types/scaling.go\<close>). The global variable \<^verbatim>\<open>evmCoinInfo\<close> is an argument.
\<close>

section \<open>Decimals\<close>

type_synonym decimals = uint8

definition EighteenDecimals :: decimals where
  "EighteenDecimals = 18"

definition ConversionFactors :: "(decimals \<times> int) list" where
  "ConversionFactors =
     [(1, 100000000000000000), (2, 10000000000000000), (3, 1000000000000000),
      (4, 100000000000000), (5, 10000000000000), (6, 1000000000000),
      (7, 100000000000), (8, 10000000000), (9, 1000000000),
      (10, 100000000), (11, 10000000), (12, 1000000),
      (13, 100000), (14, 10000), (15, 1000),
      (16, 100), (17, 10), (18, 1)]"

definition Decimals_Validate :: "decimals \<Rightarrow> unit res" where
  "Decimals_Validate d =
     (if 0 < d \<and> d \<le> EighteenDecimals then Ok () else Fail (ErrPlain ''received unsupported decimals''))"

text \<open>A Go map lookup of a missing key gives the nil \<^verbatim>\<open>math.Int{}\<close>, modelled by \<open>None\<close>.\<close>

definition Decimals_ConversionFactor :: "decimals \<Rightarrow> int option" where
  "Decimals_ConversionFactor d = map_of ConversionFactors d"

record EvmCoinInfo =
  Denom :: string
  ExtendedDenom :: string
  DisplayDenom :: string
  Decimals :: decimals

section \<open>Setting the coin\<close>

text \<open>
  The setters write the global variable, which survives an error: each returns the new value and
  the error, if any.
\<close>

definition setEVMCoinDecimals :: "decimals \<Rightarrow> EvmCoinInfo \<Rightarrow> EvmCoinInfo \<times> err option" where
  "setEVMCoinDecimals d i =
     (case Decimals_Validate d of
        Ok _ \<Rightarrow> (i\<lparr>Decimals := d\<rparr>, None)
      | Fail e \<Rightarrow> (i, Some e)
      | Panic p \<Rightarrow> (i, Some (ErrPlain p)))"

definition setEVMCoinDenom :: "sdk_coins_ops \<Rightarrow> string \<Rightarrow> EvmCoinInfo \<Rightarrow> EvmCoinInfo \<times> err option" where
  "setEVMCoinDenom S denom i =
     (if ValidateDenom S denom then (i\<lparr>Denom := denom\<rparr>, None)
      else (i, Some (ErrPlain ''setting EVM coin denom'')))"

definition setEVMCoinExtendedDenom :: "sdk_coins_ops \<Rightarrow> string \<Rightarrow> EvmCoinInfo \<Rightarrow> EvmCoinInfo \<times> err option" where
  "setEVMCoinExtendedDenom S denom i =
     (if ValidateDenom S denom then (i\<lparr>ExtendedDenom := denom\<rparr>, None)
      else (i, Some (ErrPlain ''invalid denom'')))"

definition newEvmCoinInfo :: EvmCoinInfo where
  "newEvmCoinInfo = \<lparr>Denom = [], ExtendedDenom = [], DisplayDenom = [], Decimals = 0\<rparr>"

definition setEVMCoinInfo ::
  "sdk_coins_ops \<Rightarrow> EvmCoinInfo \<Rightarrow> EvmCoinInfo option \<Rightarrow> EvmCoinInfo option \<times> err option" where
  "setEVMCoinInfo S eci g =
     (if g \<noteq> None then (g, Some (ErrPlain ''EVM coin info already set''))
      else if Decimals eci = EighteenDecimals \<and> Denom eci \<noteq> ExtendedDenom eci
      then (g, Some (ErrPlain ''EVM coin denom and extended denom must be the same for 18 decimals''))
      else case setEVMCoinDenom S (Denom eci) newEvmCoinInfo of
        (i, Some e) \<Rightarrow> (Some i, Some e)
      | (i, None) \<Rightarrow>
          (case setEVMCoinExtendedDenom S (ExtendedDenom eci) i of
             (j, Some e) \<Rightarrow> (Some j, Some e)
           | (j, None) \<Rightarrow>
               (case setEVMCoinDecimals (Decimals eci) j of (k, r) \<Rightarrow> (Some k, r))))"

text \<open>The factor of a configured coin; \<open>0\<close> stands for the nil integer of an unsupported one.\<close>

definition EvmConversionFactor :: "EvmCoinInfo \<Rightarrow> int" where
  "EvmConversionFactor i = (case Decimals_ConversionFactor (Decimals i) of None \<Rightarrow> 0 | Some f \<Rightarrow> f)"

text \<open>What a coin that \<open>setEVMCoinInfo\<close> accepted satisfies.\<close>

definition coin_info_ok :: "sdk_coins_ops \<Rightarrow> EvmCoinInfo \<Rightarrow> bool" where
  "coin_info_ok S i \<longleftrightarrow>
     ValidateDenom S (Denom i) \<and> ValidateDenom S (ExtendedDenom i) \<and>
     0 < Decimals i \<and> Decimals i \<le> EighteenDecimals \<and>
     (Decimals i = EighteenDecimals \<longrightarrow> Denom i = ExtendedDenom i)"

section \<open>Scaling\<close>

definition ConvertAmountTo18DecimalsLegacy :: "legacy_dec_ops \<Rightarrow> EvmCoinInfo \<Rightarrow> dec \<Rightarrow> dec" where
  "ConvertAmountTo18DecimalsLegacy D i amt = DecMulInt D amt (EvmConversionFactor i)"

definition ConvertAmountTo18DecimalsBigInt :: "EvmCoinInfo \<Rightarrow> int \<Rightarrow> int" where
  "ConvertAmountTo18DecimalsBigInt i amt = amt * EvmConversionFactor i"

definition ConvertAmountTo18Decimals256Int :: "EvmCoinInfo \<Rightarrow> uint256 \<Rightarrow> uint256" where
  "ConvertAmountTo18Decimals256Int i amt = amt * of_int (EvmConversionFactor i)"

definition ConvertBigIntFrom18DecimalsToLegacyDec :: "legacy_dec_ops \<Rightarrow> EvmCoinInfo \<Rightarrow> int \<Rightarrow> dec" where
  "ConvertBigIntFrom18DecimalsToLegacyDec D i amt =
     DecQuoInt D (LegacyNewDec D amt) (EvmConversionFactor i)"

definition ConvertEvmCoinDenomToExtendedDenom :: "EvmCoinInfo \<Rightarrow> coin \<Rightarrow> coin res" where
  "ConvertEvmCoinDenomToExtendedDenom i c =
     (if fst c \<noteq> Denom i then Fail (ErrPlain ''expected coin denom'')
      else Ok (ExtendedDenom i, snd c))"

definition ConvertCoinsDenomToExtendedDenom :: "sdk_coins_ops \<Rightarrow> EvmCoinInfo \<Rightarrow> coins \<Rightarrow> coins" where
  "ConvertCoinsDenomToExtendedDenom S i cs =
     CoinsSort S (map (\<lambda>c. if fst c = Denom i
        then (case ConvertEvmCoinDenomToExtendedDenom i c of Ok c' \<Rightarrow> c' | _ \<Rightarrow> ([], 0)) else c) cs)"

section \<open>Facts\<close>

lemma uint8_le_18_cases:
  assumes "(d::uint8) \<le> 18" and "0 < d"
  shows "d \<in> {1, 2, 3, 4, 5, 6, 7, 8, 9, 10, 11, 12, 13, 14, 15, 16, 17, 18}"
proof -
  have "unat d \<in> {1..<19}"
    using assms by (simp add: word_le_nat_alt word_less_nat_alt)
  then have "unat d \<in> set [1..<19]" by simp
  moreover have "d = word_of_nat (unat d)" by simp
  ultimately have "d \<in> word_of_nat ` set [1..<19]" by blast
  then show ?thesis by (simp add: upt_rec numeral_eq_Suc)
qed

lemma ConversionFactor_eq:
  assumes "0 < d" and "d \<le> EighteenDecimals"
  shows "Decimals_ConversionFactor d = Some (10 ^ (18 - unat d))"
  using uint8_le_18_cases [of d] assms
  by (auto simp: EighteenDecimals_def Decimals_ConversionFactor_def ConversionFactors_def)

lemma EvmConversionFactor_eq:
  "coin_info_ok S i \<Longrightarrow> EvmConversionFactor i = 10 ^ (18 - unat (Decimals i))"
  by (simp add: coin_info_ok_def EvmConversionFactor_def ConversionFactor_eq)

lemma EvmConversionFactor_pos: "coin_info_ok S i \<Longrightarrow> 0 < EvmConversionFactor i"
  by (simp add: EvmConversionFactor_eq)

lemma EvmConversionFactor_one: "Decimals i = EighteenDecimals \<Longrightarrow> EvmConversionFactor i = 1"
  by (simp add: EvmConversionFactor_def Decimals_ConversionFactor_def ConversionFactors_def EighteenDecimals_def)

section \<open>Properties\<close>

text \<open>
  When \<open>setEVMCoinInfo\<close> reports no error, no coin had been set before, the coin now set has the
  requested denominations and decimals, is well formed (1 to 18 decimals, equal denominations for
  18), and its conversion factor is the missing power of ten. The display denomination of the
  request is dropped.
\<close>

lemma setEVMCoinInfo_sets:
  assumes "setEVMCoinInfo S eci g = (g', None)"
  shows "g = None \<and> (\<exists>i. g' = Some i \<and> coin_info_ok S i \<and> i = eci\<lparr>DisplayDenom := []\<rparr> \<and>
    EvmConversionFactor i = 10 ^ (18 - unat (Decimals eci)))"
proof -
  have "g = None \<and> g' = Some (eci\<lparr>DisplayDenom := []\<rparr>) \<and> coin_info_ok S (eci\<lparr>DisplayDenom := []\<rparr>)"
    using assms
    by (auto simp: setEVMCoinInfo_def setEVMCoinDenom_def setEVMCoinExtendedDenom_def coin_info_ok_def
        setEVMCoinDecimals_def Decimals_Validate_def newEvmCoinInfo_def EighteenDecimals_def
        split: if_splits)
  then show ?thesis
    using EvmConversionFactor_eq [of S "eci\<lparr>DisplayDenom := []\<rparr>"] by simp
qed

definition ref_coin6 :: EvmCoinInfo where
  "ref_coin6 = \<lparr>Denom = ''uatom'', ExtendedDenom = ''aatom'', DisplayDenom = ''atom'', Decimals = 6\<rparr>"

text \<open>
  Scaling an amount to 18 decimals and back to a decimal of the coin's own precision gives the
  amount. On 256-bit words the scaling is the same multiplication, taken modulo \<open>2 ^ 256\<close>: it
  agrees with the unbounded one exactly when that fits in 256 bits.
\<close>

lemma scaling_round_trip:
  assumes "legacy_dec D" and "coin_info_ok S i"
  shows "ConvertBigIntFrom18DecimalsToLegacyDec D i (ConvertAmountTo18DecimalsBigInt i n) = LegacyNewDec D n \<and>
    uint (ConvertAmountTo18Decimals256Int i w) = ConvertAmountTo18DecimalsBigInt i (uint w) mod 2 ^ 256"
proof -
  let ?f = "EvmConversionFactor i"
  have f: "0 < ?f" using assms(2) by (rule EvmConversionFactor_pos)
  have "(n * ?f * 1000000000000000000) sdiv ?f = n * 1000000000000000000"
    using f sdiv_mult_self [of ?f "n * 1000000000000000000"] by (simp add: ac_simps)
  then have "ConvertBigIntFrom18DecimalsToLegacyDec D i (ConvertAmountTo18DecimalsBigInt i n) = LegacyNewDec D n"
    using f by (simp add: ConvertBigIntFrom18DecimalsToLegacyDec_def ConvertAmountTo18DecimalsBigInt_def
        legacy_dec.dec_quo_int [OF assms(1)] legacy_dec.dec_new [OF assms(1)])
  moreover have "uint (w * of_int ?f) = (uint w * ?f) mod 2 ^ 256"
    by (simp add: uint_word_ariths uint_word_of_int mod_mult_right_eq)
  ultimately show ?thesis
    by (simp add: ConvertAmountTo18Decimals256Int_def ConvertAmountTo18DecimalsBigInt_def)
qed

end
