(* ===== verification/PreciseBank.thy ===== *)
theory PreciseBank
  imports Bank EvmCoin
begin

text \<open>
  \<^verbatim>\<open>x/precisebank\<close>: extended (18 decimal) balances on top of the integer balances of
  \<^verbatim>\<open>x/bank\<close>. The module stores one fractional balance per account and one remainder, and owns a
  reserve of integer coins that backs them. One definition per keeper function; the proofs are
  in the theory \<^verbatim>\<open>PreciseBankProofs\<close>.
\<close>

section \<open>State\<close>

datatype pb_event =
    EventTransfer address address coins
  | CoinSpentEvent address coins
  | CoinReceivedEvent address coins
  | CoinMintEvent address coins
  | CoinBurnEvent address coins

text \<open>The keeper's fields, with the coin configuration and the SDK's coin operations it reads.\<close>

record 'b pb_keeper =
  bk :: "'b bank_keeper"
  ak :: account_keeper
  sdk :: sdk_coins_ops
  evmCoin :: EvmCoinInfo

record 'b pb_state =
  fractional :: "(address, int) kv"
  remainder :: "int option"
  bank :: 'b
  pb_events :: "pb_event list"

definition pb_ModuleName :: string where
  "pb_ModuleName = ''precisebank''"

definition ConversionFactor :: "'b pb_keeper \<Rightarrow> int" where
  "ConversionFactor k = EvmConversionFactor (evmCoin k)"

definition IntegerCoinDenom :: "'b pb_keeper \<Rightarrow> string" where
  "IntegerCoinDenom k = Denom (evmCoin k)"

definition ExtendedCoinDenom :: "'b pb_keeper \<Rightarrow> string" where
  "ExtendedCoinDenom k = ExtendedDenom (evmCoin k)"

definition reserve :: "'b pb_keeper \<Rightarrow> address" where
  "reserve k = module_addr (ak k) pb_ModuleName"

text \<open>\<^verbatim>\<open>sdk.NewCoins(sdk.NewCoin(denom, a))\<close>.\<close>

definition new_coins :: "'b pb_keeper \<Rightarrow> string \<Rightarrow> int \<Rightarrow> coins res" where
  "new_coins k d a = bind_res (NewCoin (sdk k) d a) (\<lambda>c. NewCoins (sdk k) [c])"

section \<open>Fractional balances and remainder\<close>

definition ValidateFractionalAmount :: "'b pb_keeper \<Rightarrow> int option \<Rightarrow> unit res" where
  "ValidateFractionalAmount k amt =
     (case amt of
        None \<Rightarrow> Fail (ErrPlain ''nil amount'')
      | Some a \<Rightarrow>
          if \<not> 0 < a then Fail (ErrPlain ''non-positive amount'')
          else if ConversionFactor k \<le> a then Fail (ErrPlain ''amount exceeds max'')
          else Ok ())"

definition GetFractionalBalance :: "address \<Rightarrow> 'b pb_state \<Rightarrow> int" where
  "GetFractionalBalance a s = (case kv_get (fractional s) a of None \<Rightarrow> 0 | Some bal \<Rightarrow> bal)"

definition DeleteFractionalBalance :: "address \<Rightarrow> 'b pb_state \<Rightarrow> 'b pb_state" where
  "DeleteFractionalBalance a s = s\<lparr>fractional := kv_delete a (fractional s)\<rparr>"

definition SetFractionalBalance :: "'b pb_keeper \<Rightarrow> address \<Rightarrow> int \<Rightarrow> 'b pb_state \<Rightarrow> 'b pb_state res" where
  "SetFractionalBalance k a amount s =
     (if a = [] then Panic ''address cannot be empty''
      else if amount = 0 then Ok (DeleteFractionalBalance a s)
      else case ValidateFractionalAmount k (Some amount) of
        Ok _ \<Rightarrow> Ok (s\<lparr>fractional := kv_set a amount (fractional s)\<rparr>)
      | _ \<Rightarrow> Panic ''amount is invalid'')"

text \<open>The callback of the iterator returns the new accumulator and whether to stop.\<close>

fun iterate_entries :: "(address \<Rightarrow> int \<Rightarrow> 'x \<Rightarrow> 'x \<times> bool) \<Rightarrow> (address, int) kv \<Rightarrow> 'x \<Rightarrow> 'x" where
  "iterate_entries cb [] x = x"
| "iterate_entries cb ((a, amount) # es) x =
     (case cb a amount x of (y, stop) \<Rightarrow> if stop then y else iterate_entries cb es y)"

definition IterateFractionalBalances :: "(address \<Rightarrow> int \<Rightarrow> 'x \<Rightarrow> 'x \<times> bool) \<Rightarrow> 'b pb_state \<Rightarrow> 'x \<Rightarrow> 'x" where
  "IterateFractionalBalances cb s x = iterate_entries cb (fractional s) x"

definition GetTotalSumFractionalBalances :: "'b pb_state \<Rightarrow> int" where
  "GetTotalSumFractionalBalances s =
     IterateFractionalBalances (\<lambda>_ amount sum. (sum + amount, False)) s 0"

definition GetRemainderAmount :: "'b pb_state \<Rightarrow> int" where
  "GetRemainderAmount s = (case remainder s of None \<Rightarrow> 0 | Some bal \<Rightarrow> bal)"

definition DeleteRemainderAmount :: "'b pb_state \<Rightarrow> 'b pb_state" where
  "DeleteRemainderAmount s = s\<lparr>remainder := None\<rparr>"

definition SetRemainderAmount :: "'b pb_keeper \<Rightarrow> int \<Rightarrow> 'b pb_state \<Rightarrow> 'b pb_state res" where
  "SetRemainderAmount k amount s =
     (if amount = 0 then Ok (DeleteRemainderAmount s)
      else case ValidateFractionalAmount k (Some amount) of
        Ok _ \<Rightarrow> Ok (s\<lparr>remainder := Some amount\<rparr>)
      | _ \<Rightarrow> Panic ''remainder amount is invalid'')"

section \<open>Views\<close>

definition GetBalance :: "'b pb_keeper \<Rightarrow> address \<Rightarrow> string \<Rightarrow> 'b pb_state \<Rightarrow> coin res" where
  "GetBalance k a denom s =
     (if denom = ExtendedCoinDenom k \<and> a = reserve k then NewCoin (sdk k) denom 0
      else if denom \<noteq> ExtendedCoinDenom k then Ok (denom, bk_GetBalance (bk k) (bank s) a denom)
      else NewCoin (sdk k) (ExtendedCoinDenom k)
             (bk_GetBalance (bk k) (bank s) a (IntegerCoinDenom k) * ConversionFactor k
                + GetFractionalBalance a s))"

definition SpendableCoin :: "'b pb_keeper \<Rightarrow> address \<Rightarrow> string \<Rightarrow> 'b pb_state \<Rightarrow> coin res" where
  "SpendableCoin k a denom s =
     (if denom = ExtendedCoinDenom k \<and> a = reserve k then NewCoin (sdk k) denom 0
      else if denom \<noteq> ExtendedCoinDenom k then Ok (denom, bk_SpendableCoin (bk k) (bank s) a denom)
      else NewCoin (sdk k) (ExtendedCoinDenom k)
             (bk_SpendableCoin (bk k) (bank s) a (IntegerCoinDenom k) * ConversionFactor k
                + GetFractionalBalance a s))"

definition SumExtendedCoin :: "'b pb_keeper \<Rightarrow> coins \<Rightarrow> coin res" where
  "SumExtendedCoin k amt =
     NewCoin (sdk k) (ExtendedCoinDenom k)
       (AmountOf (sdk k) amt (IntegerCoinDenom k) * ConversionFactor k
          + AmountOf (sdk k) amt (ExtendedCoinDenom k))"

text \<open>
  \<open>updateInsufficientFundsError\<close> turns an insufficient-funds error of \<^verbatim>\<open>x/bank\<close> into one that
  carries the extended amounts (spendable and requested).
\<close>

definition updateInsufficientFundsError ::
  "'b pb_keeper \<Rightarrow> address \<Rightarrow> int \<Rightarrow> err \<Rightarrow> 'b pb_state \<Rightarrow> 'x res" where
  "updateInsufficientFundsError k a amt e s =
     (case e of
        ErrInsufficientFunds _ \<Rightarrow>
          bind_res (SpendableCoin k a (ExtendedCoinDenom k) s) (\<lambda>bal.
          bind_res (NewCoin (sdk k) (ExtendedCoinDenom k) amt) (\<lambda>coin.
          Fail (ErrInsufficientFunds (Some (snd bal, snd coin)))))
      | _ \<Rightarrow> Fail e)"

text \<open>Running an operation of the bank keeper, with the handler the caller has for its error.\<close>

definition on_bank ::
  "('b \<Rightarrow> 'b res) \<Rightarrow> (err \<Rightarrow> 'b pb_state \<Rightarrow> 'b pb_state res) \<Rightarrow> 'b pb_state \<Rightarrow> 'b pb_state res" where
  "on_bank f h s =
     (case f (bank s) of Ok b \<Rightarrow> Ok (s\<lparr>bank := b\<rparr>) | Fail e \<Rightarrow> h e s | Panic p \<Rightarrow> Panic p)"

definition reraise :: "err \<Rightarrow> 'b pb_state \<Rightarrow> 'b pb_state res" where
  "reraise e s = Fail e"

section \<open>Sending\<close>

definition IsSendEnabledCoin :: "'b pb_keeper \<Rightarrow> coin \<Rightarrow> 'b pb_state \<Rightarrow> bool res" where
  "IsSendEnabledCoin k coin s =
     (if fst coin = ExtendedCoinDenom k
      then bind_res (NewCoin (sdk k) (IntegerCoinDenom k) (snd coin sdiv ConversionFactor k)) (\<lambda>c.
           Ok (bk_IsSendEnabledCoin (bk k) (bank s) c))
      else Ok (bk_IsSendEnabledCoin (bk k) (bank s) coin))"

definition IsSendEnabledCoins :: "'b pb_keeper \<Rightarrow> coins \<Rightarrow> 'b pb_state \<Rightarrow> unit res" where
  "IsSendEnabledCoins k cs s =
     for_each (\<lambda>c _. bind_res (IsSendEnabledCoin k c s) (\<lambda>b. require b ErrSendDisabled)) cs ()"

definition subFromFractionalBalance :: "'b pb_keeper \<Rightarrow> int \<Rightarrow> int \<Rightarrow> (int \<times> bool) res" where
  "subFromFractionalBalance k cur amountToSub =
     (if ConversionFactor k \<le> cur then Panic ''currentFractionalBalance must be less than ConversionFactor''
      else if ConversionFactor k \<le> amountToSub then Panic ''amountToSub must be less than ConversionFactor''
      else let new = cur - amountToSub; borrowRequired = new < 0
           in Ok (if borrowRequired then new + ConversionFactor k else new, borrowRequired))"

definition addToFractionalBalance :: "'b pb_keeper \<Rightarrow> int \<Rightarrow> int \<Rightarrow> (int \<times> bool) res" where
  "addToFractionalBalance k cur amountToAdd =
     (if ConversionFactor k \<le> cur then Panic ''currentFractionalBalance must be less than ConversionFactor''
      else if ConversionFactor k \<le> amountToAdd then Panic ''amountToAdd must be less than ConversionFactor''
      else let new = cur + amountToAdd; carryRequired = ConversionFactor k \<le> new
           in Ok (if carryRequired then new - ConversionFactor k else new, carryRequired))"

definition sendExtendedCoins ::
  "'b pb_keeper \<Rightarrow> address \<Rightarrow> address \<Rightarrow> int \<Rightarrow> 'b pb_state \<Rightarrow> 'b pb_state res" where
  "sendExtendedCoins k from to amt s =
     (if from = to then Ok s
      else
       let senderFracBal = GetFractionalBalance from s;
           recipientFracBal = GetFractionalBalance to s;
           integerAmt = amt sdiv ConversionFactor k;
           fractionalAmt = amt mod ConversionFactor k
       in
       bind_res (subFromFractionalBalance k senderFracBal fractionalAmt) (\<lambda>(senderNewFracBal, senderNeedsBorrow).
       bind_res (addToFractionalBalance k recipientFracBal fractionalAmt) (\<lambda>(recipientNewFracBal, recipientNeedsCarry).
       let integerAmt = (if senderNeedsBorrow \<and> recipientNeedsCarry then integerAmt + 1 else integerAmt) in
       bind_res
         (if 0 < integerAmt
          then bind_res (new_coins k (IntegerCoinDenom k) integerAmt) (\<lambda>cs.
               on_bank (bk_SendCoins (bk k) from to cs) (updateInsufficientFundsError k from amt) s)
          else Ok s) (\<lambda>s.
       bind_res
         (if senderNeedsBorrow \<and> \<not> recipientNeedsCarry
          then bind_res (new_coins k (IntegerCoinDenom k) 1) (\<lambda>cs.
               on_bank (bk_SendCoinsFromAccountToModule (bk k) from pb_ModuleName cs)
                 (updateInsufficientFundsError k from amt) s)
          else Ok s) (\<lambda>s.
       bind_res
         (if \<not> senderNeedsBorrow \<and> recipientNeedsCarry
          then bind_res (new_coins k (IntegerCoinDenom k) 1) (\<lambda>cs.
               on_bank (bk_SendCoins (bk k) (reserve k) to cs)
                 (\<lambda>_ _. Panic ''failed to carry fractional coins'') s)
          else Ok s) (\<lambda>s.
       bind_res (SetFractionalBalance k from senderNewFracBal s)
         (SetFractionalBalance k to recipientNewFracBal)))))))"

definition SendCoins ::
  "'b pb_keeper \<Rightarrow> address \<Rightarrow> address \<Rightarrow> coins \<Rightarrow> 'b pb_state \<Rightarrow> 'b pb_state res" where
  "SendCoins k from to amt s =
     bind_res (require (IsValid (sdk k) amt) ErrInvalidCoins) (\<lambda>_.
     let extendedCoinAmount = AmountOf (sdk k) amt (ExtendedCoinDenom k) in
     bind_res
       (if 0 < extendedCoinAmount
        then bind_res (NewCoin (sdk k) (ExtendedCoinDenom k) extendedCoinAmount) (\<lambda>subCoin.
             CoinsSub (sdk k) amt [subCoin])
        else Ok amt) (\<lambda>passthroughCoins.
     bind_res
       (if IsAllPositive (sdk k) passthroughCoins
        then on_bank (bk_SendCoins (bk k) from to passthroughCoins) reraise s
        else Ok s) (\<lambda>s.
     bind_res
       (if 0 < extendedCoinAmount then sendExtendedCoins k from to extendedCoinAmount s else Ok s) (\<lambda>s.
     bind_res (SumExtendedCoin k amt) (\<lambda>c.
     bind_res (NewCoins (sdk k) [c]) (\<lambda>fullEmissionCoins.
     if CoinsIsZero (sdk k) fullEmissionCoins then Ok s
     else Ok (s\<lparr>pb_events := pb_events s @
       [EventTransfer to from fullEmissionCoins, CoinSpentEvent from fullEmissionCoins,
        CoinReceivedEvent to fullEmissionCoins]\<rparr>)))))))"

definition SendCoinsFromAccountToModule ::
  "'b pb_keeper \<Rightarrow> address \<Rightarrow> string \<Rightarrow> coins \<Rightarrow> 'b pb_state \<Rightarrow> 'b pb_state res" where
  "SendCoinsFromAccountToModule k senderAddr recipientModule amt s =
     (case GetModuleAccount (ak k) recipientModule of
        None \<Rightarrow> Panic ''module account does not exist''
      | Some recipientAcc \<Rightarrow>
          bind_res (require (recipientModule \<noteq> pb_ModuleName)
            (ErrUnauthorized ''module account is not allowed to receive funds'')) (\<lambda>_.
          SendCoins k senderAddr (ma_address recipientAcc) amt s))"

definition SendCoinsFromModuleToAccount ::
  "'b pb_keeper \<Rightarrow> string \<Rightarrow> address \<Rightarrow> coins \<Rightarrow> 'b pb_state \<Rightarrow> 'b pb_state res" where
  "SendCoinsFromModuleToAccount k senderModule recipientAddr amt s =
     (case GetModuleAddress (ak k) senderModule of
        None \<Rightarrow> Panic ''module account does not exist''
      | Some senderAddr \<Rightarrow>
          bind_res (require (senderModule \<noteq> pb_ModuleName)
            (ErrUnauthorized ''module account is not allowed to send funds'')) (\<lambda>_.
          bind_res (require (\<not> bk_BlockedAddr (bk k) recipientAddr)
            (ErrUnauthorized ''is not allowed to receive funds'')) (\<lambda>_.
          SendCoins k senderAddr recipientAddr amt s)))"

definition SendCoinsFromModuleToModule ::
  "'b pb_keeper \<Rightarrow> string \<Rightarrow> string \<Rightarrow> coins \<Rightarrow> 'b pb_state \<Rightarrow> 'b pb_state res" where
  "SendCoinsFromModuleToModule k senderModule recipientModule amt s =
     (case GetModuleAddress (ak k) senderModule of
        None \<Rightarrow> Panic ''module account does not exist''
      | Some senderAddr \<Rightarrow>
          (case GetModuleAccount (ak k) recipientModule of
             None \<Rightarrow> Panic ''module account does not exist''
           | Some recipientAcc \<Rightarrow>
               bind_res (require (recipientModule \<noteq> pb_ModuleName)
                 (ErrUnauthorized ''module account is not allowed to receive funds'')) (\<lambda>_.
               SendCoins k senderAddr (ma_address recipientAcc) amt s)))"

text \<open>The message handler \<^verbatim>\<open>Send\<close>; \<open>codec\<close> is the address codec of the account keeper.\<close>

record MsgSend =
  FromAddress :: string
  ToAddress :: string
  msg_Amount :: coins

definition pb_Send ::
  "(string \<Rightarrow> address option) \<Rightarrow> 'b pb_keeper \<Rightarrow> MsgSend \<Rightarrow> 'b pb_state \<Rightarrow> 'b pb_state res" where
  "pb_Send codec k msg s =
     (case codec (FromAddress msg) of
        None \<Rightarrow> Fail (ErrInvalidAddress ''invalid from address'')
      | Some from \<Rightarrow>
     (case codec (ToAddress msg) of
        None \<Rightarrow> Fail (ErrInvalidAddress ''invalid to address'')
      | Some to \<Rightarrow>
     bind_res (require (IsValid (sdk k) (msg_Amount msg)) ErrInvalidCoins) (\<lambda>_.
     bind_res (require (IsAllPositive (sdk k) (msg_Amount msg)) ErrInvalidCoins) (\<lambda>_.
     bind_res (IsSendEnabledCoins k (msg_Amount msg) s) (\<lambda>_.
     bind_res (require (\<not> bk_BlockedAddr (bk k) to)
       (ErrUnauthorized ''is not allowed to receive funds'')) (\<lambda>_.
     SendCoins k from to (msg_Amount msg) s))))))"

section \<open>Minting\<close>

definition mintExtendedCoin :: "'b pb_keeper \<Rightarrow> string \<Rightarrow> int \<Rightarrow> 'b pb_state \<Rightarrow> 'b pb_state res" where
  "mintExtendedCoin k recipientModuleName amt s =
     (let moduleAddr = module_addr (ak k) recipientModuleName;
          fractionalAmount = GetFractionalBalance moduleAddr s;
          integerMintAmount = amt sdiv ConversionFactor k;
          fractionalMintAmount = amt mod ConversionFactor k;
          prevRemainder = GetRemainderAmount s;
          newRemainder = prevRemainder - fractionalMintAmount;
          newFractionalBalance = fractionalAmount + fractionalMintAmount
      in
      bind_res
        (if ConversionFactor k \<le> newFractionalBalance \<and> 0 \<le> newRemainder
         then bind_res (new_coins k (IntegerCoinDenom k) 1) (\<lambda>cs.
              on_bank (bk_SendCoinsFromModuleToModule (bk k) pb_ModuleName recipientModuleName cs) reraise s)
         else Ok s) (\<lambda>s.
      let integerMintAmount =
            (if ConversionFactor k \<le> newFractionalBalance \<and> newRemainder < 0
             then integerMintAmount + 1 else integerMintAmount);
          newFractionalBalance' =
            (if ConversionFactor k \<le> newFractionalBalance
             then newFractionalBalance - ConversionFactor k else newFractionalBalance)
      in
      bind_res
        (if 0 < integerMintAmount
         then bind_res (new_coins k (IntegerCoinDenom k) integerMintAmount) (\<lambda>cs.
              on_bank (bk_MintCoins (bk k) recipientModuleName cs) reraise s)
         else Ok s) (\<lambda>s.
      bind_res (SetFractionalBalance k moduleAddr newFractionalBalance' s) (\<lambda>s.
      let wasCarried = ConversionFactor k \<le> fractionalAmount + fractionalMintAmount in
      bind_res
        (if prevRemainder < fractionalMintAmount \<and> \<not> wasCarried
         then bind_res (new_coins k (IntegerCoinDenom k) 1) (\<lambda>cs.
              on_bank (bk_MintCoins (bk k) pb_ModuleName cs) reraise s)
         else Ok s) (\<lambda>s.
      SetRemainderAmount k
        (if newRemainder < 0 then newRemainder + ConversionFactor k else newRemainder) s)))))"

definition HasPermission :: "module_account \<Rightarrow> string \<Rightarrow> bool" where
  "HasPermission acc p = (p \<in> set (ma_permissions acc))"

definition MintCoins :: "'b pb_keeper \<Rightarrow> string \<Rightarrow> coins \<Rightarrow> 'b pb_state \<Rightarrow> 'b pb_state res" where
  "MintCoins k moduleName amt s =
     bind_res (must (moduleName \<noteq> pb_ModuleName) ''module account cannot be minted to'') (\<lambda>_.
     case GetModuleAccount (ak k) moduleName of
       None \<Rightarrow> Panic ''module account does not exist''
     | Some acc \<Rightarrow>
         bind_res (must (HasPermission acc ''minter'') ''no permissions to mint tokens'') (\<lambda>_.
         bind_res (require (IsValid (sdk k) amt) ErrInvalidCoins) (\<lambda>_.
         let extendedAmount = AmountOf (sdk k) amt (ExtendedCoinDenom k) in
         bind_res
           (if 0 < extendedAmount
            then bind_res (NewCoin (sdk k) (ExtendedCoinDenom k) extendedAmount) (\<lambda>removeCoin.
                 CoinsSub (sdk k) amt [removeCoin])
            else Ok amt) (\<lambda>passthroughCoins.
         bind_res
           (if passthroughCoins \<noteq> []
            then on_bank (bk_MintCoins (bk k) moduleName passthroughCoins) reraise s
            else Ok s) (\<lambda>s.
         bind_res
           (if 0 < extendedAmount then mintExtendedCoin k moduleName extendedAmount s else Ok s) (\<lambda>s.
         bind_res (SumExtendedCoin k amt) (\<lambda>c.
         bind_res (NewCoins (sdk k) [c]) (\<lambda>fullEmissionCoins.
         if CoinsIsZero (sdk k) fullEmissionCoins then Ok s
         else Ok (s\<lparr>pb_events := pb_events s @
           [CoinMintEvent (ma_address acc) fullEmissionCoins,
            CoinReceivedEvent (ma_address acc) fullEmissionCoins]\<rparr>)))))))))"

section \<open>Burning\<close>

definition burnExtendedCoin :: "'b pb_keeper \<Rightarrow> string \<Rightarrow> int \<Rightarrow> 'b pb_state \<Rightarrow> 'b pb_state res" where
  "burnExtendedCoin k moduleName amt s =
     (let moduleAddr = module_addr (ak k) moduleName;
          prevFractionalBalance = GetFractionalBalance moduleAddr s;
          prevRemainder = GetRemainderAmount s;
          integerBurnAmount = amt sdiv ConversionFactor k;
          fractionalBurnAmount = amt mod ConversionFactor k;
          newFractionalBalance = prevFractionalBalance - fractionalBurnAmount;
          requiresBorrow = newFractionalBalance < 0;
          newRemainder = prevRemainder + fractionalBurnAmount;
          overflowingRemainder = ConversionFactor k \<le> newRemainder;
          newFractionalBalance =
            (if requiresBorrow then newFractionalBalance + ConversionFactor k else newFractionalBalance);
          integerBurnAmount =
            (if requiresBorrow \<and> overflowingRemainder then integerBurnAmount + 1 else integerBurnAmount)
      in
      bind_res
        (if requiresBorrow \<and> \<not> overflowingRemainder
         then bind_res (new_coins k (IntegerCoinDenom k) 1) (\<lambda>cs.
              on_bank (bk_SendCoinsFromModuleToModule (bk k) moduleName pb_ModuleName cs)
                (updateInsufficientFundsError k moduleAddr amt) s)
         else Ok s) (\<lambda>s.
      bind_res
        (if \<not> requiresBorrow \<and> overflowingRemainder
         then bind_res (new_coins k (IntegerCoinDenom k) 1) (\<lambda>cs.
              on_bank (bk_BurnCoins (bk k) pb_ModuleName cs) reraise s)
         else Ok s) (\<lambda>s.
      bind_res
        (if integerBurnAmount \<noteq> 0
         then bind_res (new_coins k (IntegerCoinDenom k) integerBurnAmount) (\<lambda>cs.
              on_bank (bk_BurnCoins (bk k) moduleName cs) (updateInsufficientFundsError k moduleAddr amt) s)
         else Ok s) (\<lambda>s.
      bind_res (SetFractionalBalance k moduleAddr newFractionalBalance s)
        (SetRemainderAmount k
          (if overflowingRemainder then newRemainder - ConversionFactor k else newRemainder))))))"

definition BurnCoins :: "'b pb_keeper \<Rightarrow> string \<Rightarrow> coins \<Rightarrow> 'b pb_state \<Rightarrow> 'b pb_state res" where
  "BurnCoins k moduleName amt s =
     bind_res (must (moduleName \<noteq> pb_ModuleName) ''module account cannot be burned from'') (\<lambda>_.
     case GetModuleAccount (ak k) moduleName of
       None \<Rightarrow> Panic ''module account does not exist''
     | Some acc \<Rightarrow>
         bind_res (must (HasPermission acc ''burner'') ''no permissions to burn tokens'') (\<lambda>_.
         bind_res (require (IsValid (sdk k) amt) ErrInvalidCoins) (\<lambda>_.
         let extendedAmount = AmountOf (sdk k) amt (ExtendedCoinDenom k) in
         bind_res
           (if 0 < extendedAmount
            then bind_res (NewCoin (sdk k) (ExtendedCoinDenom k) extendedAmount) (\<lambda>removeCoin.
                 CoinsSub (sdk k) amt [removeCoin])
            else Ok amt) (\<lambda>passthroughCoins.
         bind_res
           (if passthroughCoins \<noteq> []
            then on_bank (bk_BurnCoins (bk k) moduleName passthroughCoins) reraise s
            else Ok s) (\<lambda>s.
         bind_res
           (if 0 < extendedAmount then burnExtendedCoin k moduleName extendedAmount s else Ok s) (\<lambda>s.
         bind_res (SumExtendedCoin k amt) (\<lambda>c.
         bind_res (NewCoins (sdk k) [c]) (\<lambda>fullEmissionCoins.
         if CoinsIsZero (sdk k) fullEmissionCoins then Ok s
         else Ok (s\<lparr>pb_events := pb_events s @
           [CoinBurnEvent (ma_address acc) fullEmissionCoins,
            CoinSpentEvent (ma_address acc) fullEmissionCoins]\<rparr>)))))))))"

section \<open>Genesis\<close>

text \<open>\<open>None\<close> is the nil amount. \<open>bech\<close> is \<^verbatim>\<open>sdk.AccAddressFromBech32\<close>, \<open>unbech\<close> is \<^verbatim>\<open>AccAddress.String\<close>.\<close>

record FractionalBalance =
  fb_Address :: string
  fb_Amount :: "int option"

record pb_genesis =
  gs_Balances :: "FractionalBalance list"
  gs_Remainder :: "int option"

definition FractionalBalance_Validate ::
  "(string \<Rightarrow> address option) \<Rightarrow> 'b pb_keeper \<Rightarrow> FractionalBalance \<Rightarrow> unit res" where
  "FractionalBalance_Validate bech k fb =
     (case bech (fb_Address fb) of
        None \<Rightarrow> Fail (ErrPlain ''invalid bech32 address'')
      | Some _ \<Rightarrow> ValidateFractionalAmount k (fb_Amount fb))"

fun FractionalBalances_Validate_loop ::
  "(string \<Rightarrow> address option) \<Rightarrow> 'b pb_keeper \<Rightarrow> string list \<Rightarrow> FractionalBalance list \<Rightarrow> unit res" where
  "FractionalBalances_Validate_loop bech k seen [] = Ok ()"
| "FractionalBalances_Validate_loop bech k seen (fb # fbs) =
     bind_res (FractionalBalance_Validate bech k fb) (\<lambda>_.
     let lowerAddr = ToLower (fb_Address fb) in
     if lowerAddr \<in> set seen then Fail (ErrPlain ''duplicate address'')
     else FractionalBalances_Validate_loop bech k (lowerAddr # seen) fbs)"

definition FractionalBalances_Validate ::
  "(string \<Rightarrow> address option) \<Rightarrow> 'b pb_keeper \<Rightarrow> FractionalBalance list \<Rightarrow> unit res" where
  "FractionalBalances_Validate bech k fbs = FractionalBalances_Validate_loop bech k [] fbs"

text \<open>A nil amount cannot be added (Go panics); after validation there is none.\<close>

definition SumAmount :: "FractionalBalance list \<Rightarrow> int res" where
  "SumAmount fbs =
     for_each (\<lambda>fb sum. case fb_Amount fb of None \<Rightarrow> Panic ''nil pointer'' | Some a \<Rightarrow> Ok (sum + a)) fbs 0"

definition pb_Genesis_Validate ::
  "(string \<Rightarrow> address option) \<Rightarrow> 'b pb_keeper \<Rightarrow> pb_genesis \<Rightarrow> unit res" where
  "pb_Genesis_Validate bech k gs =
     bind_res (FractionalBalances_Validate bech k (gs_Balances gs)) (\<lambda>_.
     case gs_Remainder gs of
       None \<Rightarrow> Fail (ErrPlain ''nil remainder amount'')
     | Some r \<Rightarrow>
         bind_res (require (\<not> r < 0) (ErrPlain ''negative remainder amount'')) (\<lambda>_.
         bind_res (require (\<not> ConversionFactor k \<le> r) (ErrPlain ''remainder exceeds max'')) (\<lambda>_.
         bind_res (SumAmount (gs_Balances gs)) (\<lambda>sum.
         require ((sum + r) mod ConversionFactor k = 0)
           (ErrPlain ''sum of fractional balances and remainder is not a multiple of the factor'')))))"

definition TotalAmountWithRemainder :: "pb_genesis \<Rightarrow> int res" where
  "TotalAmountWithRemainder gs =
     bind_res (SumAmount (gs_Balances gs)) (\<lambda>sum.
     case gs_Remainder gs of None \<Rightarrow> Panic ''nil pointer'' | Some r \<Rightarrow> Ok (sum + r))"

definition pb_InitGenesis ::
  "(string \<Rightarrow> address option) \<Rightarrow> 'b pb_keeper \<Rightarrow> pb_genesis \<Rightarrow> 'b pb_state \<Rightarrow> 'b pb_state res" where
  "pb_InitGenesis bech k gs s =
     (case pb_Genesis_Validate bech k gs of
        Fail _ \<Rightarrow> Panic ''failed to validate genesis state''
      | Panic p \<Rightarrow> Panic p
      | Ok _ \<Rightarrow>
     bind_res (must (GetModuleAccount (ak k) pb_ModuleName \<noteq> None) ''module account has not been set'') (\<lambda>_.
     bind_res (TotalAmountWithRemainder gs) (\<lambda>totalAmt.
     bind_res (must (totalAmt = bk_GetBalance (bk k) (bank s) (reserve k) (IntegerCoinDenom k) * ConversionFactor k)
       ''module account balance does not match sum of fractional balances and remainder'') (\<lambda>_.
     bind_res (for_each (\<lambda>fb s.
         case bech (fb_Address fb) of
           None \<Rightarrow> Panic ''invalid bech32 address''
         | Some a \<Rightarrow>
             (case fb_Amount fb of None \<Rightarrow> Panic ''nil pointer'' | Some amt \<Rightarrow> SetFractionalBalance k a amt s))
       (gs_Balances gs) s) (\<lambda>s.
     case gs_Remainder gs of None \<Rightarrow> Panic ''nil pointer'' | Some r \<Rightarrow> SetRemainderAmount k r s)))))"

definition pb_ExportGenesis :: "(address \<Rightarrow> string) \<Rightarrow> 'b pb_state \<Rightarrow> pb_genesis" where
  "pb_ExportGenesis unbech s =
     \<lparr>gs_Balances = IterateFractionalBalances
        (\<lambda>a amount bs. (bs @ [\<lparr>fb_Address = unbech a, fb_Amount = Some amount\<rparr>], False)) s [],
      gs_Remainder = Some (GetRemainderAmount s)\<rparr>"

section \<open>Queries\<close>

definition query_Remainder :: "'b pb_keeper \<Rightarrow> 'b pb_state \<Rightarrow> coin res" where
  "query_Remainder k s = NewCoin (sdk k) (ExtendedCoinDenom k) (GetRemainderAmount s)"

definition query_FractionalBalance ::
  "(string \<Rightarrow> address option) \<Rightarrow> 'b pb_keeper \<Rightarrow> string \<Rightarrow> 'b pb_state \<Rightarrow> coin res" where
  "query_FractionalBalance bech k a s =
     (case bech a of
        None \<Rightarrow> Fail (ErrPlain ''invalid bech32 address'')
      | Some addr \<Rightarrow> NewCoin (sdk k) (ExtendedCoinDenom k) (GetFractionalBalance addr s))"

end
