(* ===== verification/PreciseBankProofs.thy ===== *)
theory PreciseBankProofs
  imports PreciseBank
begin

text \<open>
  What \<^verbatim>\<open>x/precisebank\<close> promises: the reserve exactly backs the fractional balances and the
  remainder, a transfer moves exactly the requested amount, minting and burning change the
  recipient's balance and the total supply by exactly the requested amount. The client lemmas
  are proved once in the locale \<open>precise_bank\<close>, over the laws of the bank keeper, and the locale
  is interpreted on the reference ledger.
\<close>

section \<open>Specification\<close>

definition integer_balance :: "'b pb_keeper \<Rightarrow> address \<Rightarrow> 'b pb_state \<Rightarrow> int" where
  "integer_balance k a s = bk_GetBalance (bk k) (bank s) a (IntegerCoinDenom k)"

definition ext_balance :: "'b pb_keeper \<Rightarrow> address \<Rightarrow> 'b pb_state \<Rightarrow> int" where
  "ext_balance k a s = integer_balance k a s * ConversionFactor k + GetFractionalBalance a s"

definition ext_spendable :: "'b pb_keeper \<Rightarrow> address \<Rightarrow> 'b pb_state \<Rightarrow> int" where
  "ext_spendable k a s =
     bk_SpendableCoin (bk k) (bank s) a (IntegerCoinDenom k) * ConversionFactor k + GetFractionalBalance a s"

definition ext_supply :: "'b pb_keeper \<Rightarrow> 'b pb_state \<Rightarrow> int" where
  "ext_supply k s =
     bk_GetSupply (bk k) (bank s) (IntegerCoinDenom k) * ConversionFactor k - GetRemainderAmount s"

text \<open>The value of a list of coins in extended units.\<close>

definition ext_value :: "'b pb_keeper \<Rightarrow> coins \<Rightarrow> int" where
  "ext_value k cs =
     (if IntegerCoinDenom k = ExtendedCoinDenom k then 0
      else AmountOf (sdk k) cs (IntegerCoinDenom k) * ConversionFactor k)
     + AmountOf (sdk k) cs (ExtendedCoinDenom k)"

definition pb_inv :: "'b pb_keeper \<Rightarrow> 'b pb_state \<Rightarrow> bool" where
  "pb_inv k s \<longleftrightarrow>
     kv_ok (fractional s) \<and>
     list_all (\<lambda>(a, x). a \<noteq> [] \<and> 0 < x \<and> x < ConversionFactor k) (fractional s) \<and>
     remainder s \<noteq> Some 0 \<and> 0 \<le> GetRemainderAmount s \<and> GetRemainderAmount s < ConversionFactor k \<and>
     integer_balance k (reserve k) s * ConversionFactor k = kv_sum (fractional s) + GetRemainderAmount s"

text \<open>An address that may hold extended coins.\<close>

definition holder :: "'b pb_keeper \<Rightarrow> address \<Rightarrow> bool" where
  "holder k a \<longleftrightarrow> a \<noteq> [] \<and> a \<noteq> reserve k"

section \<open>Fractional balances\<close>

lemma GetFractionalBalance_amount: "GetFractionalBalance a s = kv_amount (fractional s) a"
  by (simp add: GetFractionalBalance_def kv_amount_def)

lemma frac_congs [simp]:
  "GetFractionalBalance a (s\<lparr>bank := b\<rparr>) = GetFractionalBalance a s"
  "GetFractionalBalance a (s\<lparr>pb_events := es\<rparr>) = GetFractionalBalance a s"
  "GetFractionalBalance a (s\<lparr>remainder := r\<rparr>) = GetFractionalBalance a s"
  "GetRemainderAmount (s\<lparr>bank := b\<rparr>) = GetRemainderAmount s"
  "GetRemainderAmount (s\<lparr>fractional := f\<rparr>) = GetRemainderAmount s"
  "GetRemainderAmount (s\<lparr>pb_events := es\<rparr>) = GetRemainderAmount s"
  "integer_balance k a (s\<lparr>fractional := f\<rparr>) = integer_balance k a s"
  "integer_balance k a (s\<lparr>remainder := r\<rparr>) = integer_balance k a s"
  "integer_balance k a (s\<lparr>pb_events := es\<rparr>) = integer_balance k a s"
  by (simp_all add: GetFractionalBalance_def GetRemainderAmount_def integer_balance_def)

definition frac_upd :: "address \<Rightarrow> int \<Rightarrow> (address, int) kv \<Rightarrow> (address, int) kv" where
  "frac_upd a x f = (if x = 0 then kv_delete a f else kv_set a x f)"

lemma frac_upd_ok [simp, intro]: "kv_ok f \<Longrightarrow> kv_ok (frac_upd a x f)"
  by (simp add: frac_upd_def)

lemma frac_upd_amount [store_simps]: "kv_amount (frac_upd a x f) b = (if b = a then x else kv_amount f b)"
  by (simp add: frac_upd_def store_simps)

lemma frac_upd_sum [store_simps]: "kv_ok f \<Longrightarrow> kv_sum (frac_upd a x f) = kv_sum f - kv_amount f a + x"
  by (simp add: frac_upd_def kv_sum_set kv_sum_delete)

lemma frac_upd_all:
  assumes "list_all P f" and "x \<noteq> 0 \<Longrightarrow> P (a, x)"
  shows "list_all P (frac_upd a x f)"
  using assms set_kv_set_subset [of a x f]
  by (auto simp: frac_upd_def list_all_iff kv_delete_def)

lemma pb_inv_events [simp]: "pb_inv k (s\<lparr>pb_events := es\<rparr>) = pb_inv k s"
  by (simp add: pb_inv_def)

lemma SetFractionalBalance_Ok:
  "SetFractionalBalance k a x s =
     (if a \<noteq> [] \<and> (x = 0 \<or> 0 < x \<and> x < ConversionFactor k)
      then Ok (s\<lparr>fractional := frac_upd a x (fractional s)\<rparr>)
      else Panic (if a = [] then ''address cannot be empty'' else ''amount is invalid''))"
  by (auto simp: SetFractionalBalance_def ValidateFractionalAmount_def DeleteFractionalBalance_def frac_upd_def)

lemma SetRemainderAmount_Ok:
  "SetRemainderAmount k x s =
     (if x = 0 \<or> 0 < x \<and> x < ConversionFactor k
      then Ok (s\<lparr>remainder := (if x = 0 then None else Some x)\<rparr>)
      else Panic ''remainder amount is invalid'')"
  by (auto simp: SetRemainderAmount_def ValidateFractionalAmount_def DeleteRemainderAmount_def)

lemma pb_inv_range:
  assumes "pb_inv k s"
  shows "0 \<le> GetFractionalBalance a s" and "0 < ConversionFactor k \<Longrightarrow> GetFractionalBalance a s < ConversionFactor k"
proof -
  have "kv_get (fractional s) a = Some x \<Longrightarrow> 0 < x \<and> x < ConversionFactor k" for x
    using assms by (auto simp: pb_inv_def kv_get_in_set list_all_iff)
  then show "0 \<le> GetFractionalBalance a s" "0 < ConversionFactor k \<Longrightarrow> GetFractionalBalance a s < ConversionFactor k"
    by (auto simp: GetFractionalBalance_def split: option.splits)
qed

lemma pb_inv_two_fractions:
  assumes "pb_inv k s" and "a \<noteq> b"
  shows "GetFractionalBalance a s + GetFractionalBalance b s \<le> kv_sum (fractional s)"
  using assms kv_amount_le_sum(3) [of "fractional s" a b]
  by (fastforce simp: pb_inv_def kv_get_in_set list_all_iff GetFractionalBalance_amount)

lemma iterate_sum: "iterate_entries (\<lambda>_ amount sum. (sum + amount, False)) es x = x + kv_sum es"
  by (induction es arbitrary: x) auto

lemma GetTotalSumFractionalBalances_sum: "GetTotalSumFractionalBalances s = kv_sum (fractional s)"
  by (simp add: GetTotalSumFractionalBalances_def IterateFractionalBalances_def iterate_sum)

lemma set_two_fractions:
  assumes "a \<noteq> []" "b \<noteq> []" "a \<noteq> b" "0 \<le> x" "x < ConversionFactor k" "0 \<le> y" "y < ConversionFactor k"
  shows "bind_res (SetFractionalBalance k a x s) (SetFractionalBalance k b y) =
    Ok (s\<lparr>fractional := frac_upd b y (frac_upd a x (fractional s))\<rparr>)"
  using assms by (auto simp: SetFractionalBalance_Ok)

text \<open>How the invariant is re-established after the store and the bank have been updated.\<close>

lemma pb_inv_upd:
  assumes inv: "pb_inv k s"
    and frac: "fractional s' = frac_upd a x (fractional s)" and a: "a \<noteq> []" and x: "0 \<le> x" "x < ConversionFactor k"
    and rem: "remainder s' \<noteq> Some 0" "0 \<le> GetRemainderAmount s'" "GetRemainderAmount s' < ConversionFactor k"
    and res: "integer_balance k (reserve k) s' * ConversionFactor k =
      integer_balance k (reserve k) s * ConversionFactor k
        + (x - GetFractionalBalance a s) + (GetRemainderAmount s' - GetRemainderAmount s)"
  shows "pb_inv k s'"
  using assms
  by (auto simp: pb_inv_def store_simps GetFractionalBalance_amount intro!: frac_upd_all)

lemma pb_inv_upd2:
  assumes inv: "pb_inv k s"
    and frac: "fractional s' = frac_upd b y (frac_upd a x (fractional s))" and ab: "a \<noteq> []" "b \<noteq> []" "a \<noteq> b"
    and x: "0 \<le> x" "x < ConversionFactor k" and y: "0 \<le> y" "y < ConversionFactor k"
    and rem: "remainder s' = remainder s"
    and res: "integer_balance k (reserve k) s' * ConversionFactor k =
      integer_balance k (reserve k) s * ConversionFactor k
        + (x - GetFractionalBalance a s) + (y - GetFractionalBalance b s)"
  shows "pb_inv k s'"
  using assms
  by (auto simp: pb_inv_def store_simps GetFractionalBalance_amount GetRemainderAmount_def intro!: frac_upd_all)

text \<open>The effect of a transfer of extended coins on everything but the reserve.\<close>

definition transferred :: "'b pb_keeper \<Rightarrow> address \<Rightarrow> address \<Rightarrow> int \<Rightarrow> 'b pb_state \<Rightarrow> 'b pb_state \<Rightarrow> bool" where
  "transferred k f t amt s s' \<longleftrightarrow>
     (\<forall>a. a \<noteq> reserve k \<longrightarrow> ext_balance k a s' =
        ext_balance k a s - (if a = f then amt else 0) + (if a = t then amt else 0)) \<and>
     (\<forall>d. bk_GetSupply (bk k) (bank s') d = bk_GetSupply (bk k) (bank s) d) \<and>
     remainder s' = remainder s \<and> pb_events s' = pb_events s \<and>
     (\<forall>a d. d \<noteq> IntegerCoinDenom k \<longrightarrow>
        bk_GetBalance (bk k) (bank s') a d = bk_GetBalance (bk k) (bank s) a d)"

text \<open>The effect of a transfer of a list of coins.\<close>

definition sent_coins :: "'b pb_keeper \<Rightarrow> address \<Rightarrow> address \<Rightarrow> coins \<Rightarrow> 'b pb_state \<Rightarrow> 'b pb_state \<Rightarrow> bool" where
  "sent_coins k f t amt s s' \<longleftrightarrow>
     (\<forall>a. a \<noteq> reserve k \<longrightarrow> ext_balance k a s' = ext_balance k a s
        - (if a = f then ext_value k amt else 0) + (if a = t then ext_value k amt else 0)) \<and>
     (\<forall>a d. d \<noteq> IntegerCoinDenom k \<and> d \<noteq> ExtendedCoinDenom k \<longrightarrow>
        bk_GetBalance (bk k) (bank s') a d = bk_GetBalance (bk k) (bank s) a d
        - (if a = f then AmountOf (sdk k) amt d else 0) + (if a = t then AmountOf (sdk k) amt d else 0)) \<and>
     (\<forall>d. bk_GetSupply (bk k) (bank s') d = bk_GetSupply (bk k) (bank s) d) \<and>
     remainder s' = remainder s"

text \<open>Sending \<open>n\<close> integer coins, if any.\<close>

definition send_int ::
  "'b pb_keeper \<Rightarrow> address \<Rightarrow> address \<Rightarrow> int \<Rightarrow> (err \<Rightarrow> 'b pb_state \<Rightarrow> 'b pb_state res) \<Rightarrow> 'b pb_state \<Rightarrow> 'b pb_state res" where
  "send_int k f t n h s =
     (if 0 < n then bind_res (new_coins k (IntegerCoinDenom k) n) (\<lambda>cs.
        on_bank (bk_SendCoins (bk k) f t cs) h s) else Ok s)"

text \<open>Minting and burning \<open>n\<close> integer coins, if any.\<close>

definition mint_int :: "'b pb_keeper \<Rightarrow> string \<Rightarrow> int \<Rightarrow> 'b pb_state \<Rightarrow> 'b pb_state res" where
  "mint_int k m n s =
     (if 0 < n then bind_res (new_coins k (IntegerCoinDenom k) n) (\<lambda>cs.
        on_bank (bk_MintCoins (bk k) m cs) reraise s) else Ok s)"

definition burn_int ::
  "'b pb_keeper \<Rightarrow> string \<Rightarrow> int \<Rightarrow> (err \<Rightarrow> 'b pb_state \<Rightarrow> 'b pb_state res) \<Rightarrow> 'b pb_state \<Rightarrow> 'b pb_state res" where
  "burn_int k m n h s =
     (if 0 < n then bind_res (new_coins k (IntegerCoinDenom k) n) (\<lambda>cs.
        on_bank (bk_BurnCoins (bk k) m cs) h s) else Ok s)"

text \<open>The effect of minting (or, with a negative amount, burning) extended coins.\<close>

definition reissued :: "'b pb_keeper \<Rightarrow> address \<Rightarrow> int \<Rightarrow> 'b pb_state \<Rightarrow> 'b pb_state \<Rightarrow> bool" where
  "reissued k a amt s s' \<longleftrightarrow>
     (\<forall>x. x \<noteq> reserve k \<longrightarrow> ext_balance k x s' = ext_balance k x s + (if x = a then amt else 0)) \<and>
     ext_supply k s' = ext_supply k s + amt \<and>
     pb_events s' = pb_events s \<and>
     (\<forall>x d. d \<noteq> IntegerCoinDenom k \<longrightarrow>
        bk_GetBalance (bk k) (bank s') x d = bk_GetBalance (bk k) (bank s) x d) \<and>
     (\<forall>d. d \<noteq> IntegerCoinDenom k \<longrightarrow> bk_GetSupply (bk k) (bank s') d = bk_GetSupply (bk k) (bank s) d)"

text \<open>The effect of minting (\<open>z = 1\<close>) or burning (\<open>z = - 1\<close>) a list of coins.\<close>

definition issued_coins :: "'b pb_keeper \<Rightarrow> int \<Rightarrow> address \<Rightarrow> coins \<Rightarrow> 'b pb_state \<Rightarrow> 'b pb_state \<Rightarrow> bool" where
  "issued_coins k z a amt s s' \<longleftrightarrow>
     (\<forall>x. x \<noteq> reserve k \<longrightarrow> ext_balance k x s' = ext_balance k x s + (if x = a then z * ext_value k amt else 0)) \<and>
     ext_supply k s' = ext_supply k s + z * ext_value k amt \<and>
     (\<forall>x d. d \<noteq> IntegerCoinDenom k \<and> d \<noteq> ExtendedCoinDenom k \<longrightarrow>
        bk_GetBalance (bk k) (bank s') x d = bk_GetBalance (bk k) (bank s) x d
          + (if x = a then z * AmountOf (sdk k) amt d else 0) \<and>
        bk_GetSupply (bk k) (bank s') d = bk_GetSupply (bk k) (bank s) d + z * AmountOf (sdk k) amt d)"

text \<open>What adding \<open>n\<close> integer coins to the account \<open>a\<close> (and to the supply) does.\<close>

definition int_issued :: "'b pb_keeper \<Rightarrow> address \<Rightarrow> int \<Rightarrow> 'b pb_state \<Rightarrow> 'b \<Rightarrow> bool" where
  "int_issued k a n s b \<longleftrightarrow>
     (\<forall>x. integer_balance k x (s\<lparr>bank := b\<rparr>) = integer_balance k x s + (if x = a then n else 0)) \<and>
     bk_GetSupply (bk k) b (IntegerCoinDenom k) = bk_GetSupply (bk k) (bank s) (IntegerCoinDenom k) + n \<and>
     (\<forall>x d. d \<noteq> IntegerCoinDenom k \<longrightarrow> bk_GetBalance (bk k) b x d = bk_GetBalance (bk k) (bank s) x d) \<and>
     (\<forall>d. d \<noteq> IntegerCoinDenom k \<longrightarrow> bk_GetSupply (bk k) b d = bk_GetSupply (bk k) (bank s) d)"

section \<open>The client of the bank keeper\<close>

text \<open>
  The hypotheses on the environment: the laws of \<^verbatim>\<open>x/bank\<close>, a coin configuration that
  \<open>setEVMCoinInfo\<close> accepted, and the permissions of the module account of
  \<^verbatim>\<open>gurud/app.go\<close> (minter and burner).
\<close>

locale precise_bank = bank_laws "sdk k" "bk k" "ak k" for k :: "'b pb_keeper" +
  assumes coin_ok: "coin_info_ok (sdk k) (evmCoin k)"
    and reserve_account: "\<exists>acc. GetModuleAccount (ak k) pb_ModuleName = Some acc \<and>
      ''minter'' \<in> set (ma_permissions acc) \<and> ''burner'' \<in> set (ma_permissions acc)"
begin

lemma CF_pos: "0 < ConversionFactor k"
  using coin_ok by (auto simp: ConversionFactor_def intro: EvmConversionFactor_pos)

lemma denoms_valid:
  "ValidateDenom (sdk k) (IntegerCoinDenom k)" "ValidateDenom (sdk k) (ExtendedCoinDenom k)"
  using coin_ok by (auto simp: coin_info_ok_def IntegerCoinDenom_def ExtendedCoinDenom_def)

lemma CF_one_iff: "IntegerCoinDenom k = ExtendedCoinDenom k \<or> Decimals (evmCoin k) \<noteq> EighteenDecimals"
  using coin_ok by (auto simp: coin_info_ok_def IntegerCoinDenom_def ExtendedCoinDenom_def)

lemma reserve_address: "GetModuleAddress (ak k) pb_ModuleName = Some (reserve k)"
  using reserve_account module_account by (fastforce simp: reserve_def module_addr_def)

lemma reserve_nonempty: "reserve k \<noteq> []"
  using reserve_address module_address_nonempty by blast

lemma new_coins_int: "0 < a \<Longrightarrow> new_coins k (IntegerCoinDenom k) a = Ok [(IntegerCoinDenom k, a)]"
  by (simp add: new_coins_def new_coin denoms_valid new_coins_one)

lemma valid_int: "0 < a \<Longrightarrow> IsValid (sdk k) [(IntegerCoinDenom k, a)]"
  by (simp add: is_valid_one denoms_valid)

lemma sdiv_CF: "0 \<le> amt \<Longrightarrow> amt sdiv ConversionFactor k = amt div ConversionFactor k"
  using CF_pos by simp

lemma on_bank_modules:
  "on_bank (bk_SendCoinsFromAccountToModule (bk k) f pb_ModuleName cs) = on_bank (bk_SendCoins (bk k) f (reserve k) cs)"
  "GetModuleAddress (ak k) m = Some a \<Longrightarrow>
     on_bank (bk_SendCoinsFromModuleToModule (bk k) pb_ModuleName m cs) = on_bank (bk_SendCoins (bk k) (reserve k) a cs)"
  "GetModuleAddress (ak k) m = Some a \<Longrightarrow>
     on_bank (bk_SendCoinsFromModuleToModule (bk k) m pb_ModuleName cs) = on_bank (bk_SendCoins (bk k) a (reserve k) cs)"
  by (simp_all add: fun_eq_iff on_bank_def account_to_module [OF reserve_address]
      module_to_module [OF reserve_address] module_to_module [OF _ reserve_address])

text \<open>Sending integer coins, if any, succeeds exactly when they are spendable.\<close>

lemma send_int_cases [consumes 1, case_names sent short]:
  assumes "0 \<le> n"
  obtains (sent) b where "n \<le> bk_SpendableCoin (bk k) (bank s) f (IntegerCoinDenom k)"
      "send_int k f t n h s = Ok (s\<lparr>bank := b\<rparr>)"
      "\<And>a. integer_balance k a (s\<lparr>bank := b\<rparr>) =
         integer_balance k a s - (if a = f then n else 0) + (if a = t then n else 0)"
      "\<And>a d. d \<noteq> IntegerCoinDenom k \<Longrightarrow> bk_GetBalance (bk k) b a d = bk_GetBalance (bk k) (bank s) a d"
      "\<And>d. bk_GetSupply (bk k) b d = bk_GetSupply (bk k) (bank s) d"
      "f \<noteq> t \<Longrightarrow> bk_SpendableCoin (bk k) b f (IntegerCoinDenom k) =
         bk_SpendableCoin (bk k) (bank s) f (IntegerCoinDenom k) - n"
  | (short) x where "bk_SpendableCoin (bk k) (bank s) f (IntegerCoinDenom k) < n"
      "send_int k f t n h s = h (ErrInsufficientFunds x) s"
proof -
  consider "n = 0" | "0 < n" "n \<le> bk_SpendableCoin (bk k) (bank s) f (IntegerCoinDenom k)"
    | "0 < n" "bk_SpendableCoin (bk k) (bank s) f (IntegerCoinDenom k) < n"
    using assms by linarith
  then show ?thesis
  proof cases
    case 1
    then show ?thesis
      by (intro sent [of "bank s"]) (auto simp: send_int_def spendable_nonneg)
  next
    case 2
    note v = valid_int [OF 2(1)]
    from 2 obtain b where b: "bk_SendCoins (bk k) f t [(IntegerCoinDenom k, n)] (bank s) = Ok b"
      using send_Ok_iff [OF v, of f t "bank s"] by (auto simp: covers_one res_simps)
    then show ?thesis
      using 2 send_moves [OF v b] send_spendable [OF v _ b, of "IntegerCoinDenom k"]
      by (intro sent [of b])
        (auto simp: moved_def integer_balance_def amount_one send_int_def on_bank_def new_coins_int)
  next
    case 3
    then show ?thesis
      using send_fails [OF valid_int [OF 3(1)], of "bank s" f t] short
      by (auto simp: covers_one send_int_def on_bank_def new_coins_int)
  qed
qed

lemma insufficient_funds:
  assumes "holder k a" and "0 \<le> amt" and "0 \<le> GetFractionalBalance a s"
  shows "updateInsufficientFundsError k a amt (ErrInsufficientFunds x) s =
    Fail (ErrInsufficientFunds (Some (ext_spendable k a s, amt)))"
proof -
  have "0 \<le> ext_spendable k a s"
    using assms(3) CF_pos spendable_nonneg by (simp add: ext_spendable_def)
  then show ?thesis
    using assms new_coin denoms_valid
    by (simp add: updateInsufficientFundsError_def SpendableCoin_def holder_def ext_spendable_def)
qed

lemma send_finish:
  assumes inv: "pb_inv k s" and h: "holder k f" "holder k t" "f \<noteq> t"
    and r: "0 \<le> r" "r < ConversionFactor k"
    and borrow: "borrow \<longleftrightarrow> GetFractionalBalance f s < r"
    and carry: "carry \<longleftrightarrow> ConversionFactor k \<le> GetFractionalBalance t s + r"
    and ib: "\<And>a. integer_balance k a (s\<lparr>bank := b\<rparr>) = integer_balance k a s
      - (if a = f then i + of_bool borrow else 0) + (if a = t then i + of_bool carry else 0)
      + (if a = reserve k then of_bool borrow - of_bool carry else 0)"
    and other: "\<And>a d. d \<noteq> IntegerCoinDenom k \<Longrightarrow> bk_GetBalance (bk k) b a d = bk_GetBalance (bk k) (bank s) a d"
    and sup: "\<And>d. bk_GetSupply (bk k) b d = bk_GetSupply (bk k) (bank s) d"
  shows "\<exists>s'. bind_res
      (SetFractionalBalance k f (GetFractionalBalance f s - r + (if borrow then ConversionFactor k else 0)) (s\<lparr>bank := b\<rparr>))
      (SetFractionalBalance k t (GetFractionalBalance t s + r - (if carry then ConversionFactor k else 0))) = Ok s' \<and>
      pb_inv k s' \<and> transferred k f t (i * ConversionFactor k + r) s s'"
proof -
  define x where "x = GetFractionalBalance f s - r + (if borrow then ConversionFactor k else 0)"
  define y where "y = GetFractionalBalance t s + r - (if carry then ConversionFactor k else 0)"
  have x: "0 \<le> x" "x < ConversionFactor k" and y: "0 \<le> y" "y < ConversionFactor k"
    using r borrow carry pb_inv_range [OF inv, of f] pb_inv_range [OF inv, of t] CF_pos
    by (auto simp: x_def y_def)
  let ?s = "s\<lparr>bank := b, fractional := frac_upd t y (frac_upd f x (fractional s))\<rparr>"
  have set: "bind_res (SetFractionalBalance k f x (s\<lparr>bank := b\<rparr>)) (SetFractionalBalance k t y) = Ok ?s"
    using h x y by (subst set_two_fractions) (auto simp: holder_def)
  have res: "integer_balance k (reserve k) (s\<lparr>bank := b\<rparr>) =
      integer_balance k (reserve k) s + of_bool borrow - of_bool carry"
    using h by (subst ib) (auto simp: holder_def)
  have "pb_inv k ?s"
    using h x y by (intro pb_inv_upd2 [OF inv, where a = f and b = t and x = x and y = y])
      (auto simp: holder_def res x_def y_def algebra_simps)
  moreover have "transferred k f t (i * ConversionFactor k + r) s ?s"
    using h other sup
    by (auto simp: transferred_def ext_balance_def ib GetFractionalBalance_amount store_simps x_def y_def
        holder_def algebra_simps)
  ultimately show ?thesis
    unfolding x_def [symmetric] y_def [symmetric] using set by blast
qed

lemma spendable_split:
  assumes "pb_inv k s" and "0 \<le> amt"
  shows "amt \<le> ext_spendable k a s \<longleftrightarrow>
    amt div ConversionFactor k + of_bool (GetFractionalBalance a s < amt mod ConversionFactor k)
      \<le> bk_SpendableCoin (bk k) (bank s) a (IntegerCoinDenom k)"
proof -
  let ?C = "ConversionFactor k" and ?f = "GetFractionalBalance a s"
    and ?n = "bk_SpendableCoin (bk k) (bank s) a (IntegerCoinDenom k)"
  have f: "0 \<le> ?f" "?f < ?C" using pb_inv_range [OF assms(1)] CF_pos by auto
  have m: "amt div ?C * ?C + amt mod ?C = amt" "0 \<le> amt mod ?C" "amt mod ?C < ?C"
    using CF_pos by auto
  then have "amt \<le> ext_spendable k a s \<longleftrightarrow> amt div ?C * ?C + (amt mod ?C - ?f) \<le> ?n * ?C"
    unfolding ext_spendable_def by linarith
  also have "\<dots> \<longleftrightarrow> amt div ?C + of_bool (0 < amt mod ?C - ?f) \<le> ?n"
    using f m by (intro mult_add_le_iff) linarith+
  finally show ?thesis by simp
qed

text \<open>The four cases of borrow and carry.\<close>

lemma send_extended_body:
  assumes inv: "pb_inv k s" and ft: "f \<noteq> t" and amt: "0 < amt"
    and i: "i = amt div ConversionFactor k" and r: "r = amt mod ConversionFactor k"
    and borrow: "borrow \<longleftrightarrow> GetFractionalBalance f s < r"
    and carry: "carry \<longleftrightarrow> ConversionFactor k \<le> GetFractionalBalance t s + r"
  shows "sendExtendedCoins k f t amt s =
    bind_res (send_int k f t (i + of_bool (borrow \<and> carry)) (updateInsufficientFundsError k f amt) s) (\<lambda>s1.
    bind_res (send_int k f (reserve k) (of_bool (borrow \<and> \<not> carry)) (updateInsufficientFundsError k f amt) s1) (\<lambda>s2.
    bind_res (send_int k (reserve k) t (of_bool (\<not> borrow \<and> carry))
      (\<lambda>_ _. Panic ''failed to carry fractional coins'') s2) (\<lambda>s3.
    bind_res (SetFractionalBalance k f
        (GetFractionalBalance f s - r + (if borrow then ConversionFactor k else 0)) s3)
      (SetFractionalBalance k t
        (GetFractionalBalance t s + r - (if carry then ConversionFactor k else 0))))))"
proof -
  have "0 \<le> i" "0 \<le> r" "r < ConversionFactor k" "amt sdiv ConversionFactor k = i" "amt mod ConversionFactor k = r"
    using CF_pos amt by (auto simp: i r pos_imp_zdiv_nonneg_iff)
  then show ?thesis
    using ft pb_inv_range [OF inv, of f] pb_inv_range [OF inv, of t] CF_pos
    by (auto simp: sendExtendedCoins_def subFromFractionalBalance_def addToFractionalBalance_def Let_def
        send_int_def borrow carry on_bank_modules intro!: bind_res_cong)
qed

lemma reserve_covers_carry:
  assumes "pb_inv k s" and "f \<noteq> t" and "\<not> GetFractionalBalance f s < r"
    and "ConversionFactor k \<le> GetFractionalBalance t s + r"
  shows "1 \<le> integer_balance k (reserve k) s"
proof -
  have "ConversionFactor k \<le> kv_sum (fractional s) + GetRemainderAmount s"
    using pb_inv_two_fractions [OF assms(1,2)] assms by (auto simp: pb_inv_def)
  then have "1 * ConversionFactor k \<le> integer_balance k (reserve k) s * ConversionFactor k"
    using assms(1) by (simp add: pb_inv_def)
  then show ?thesis using CF_pos by (simp only: mult_le_cancel_right)
qed

lemma send_extended_spec:
  assumes inv: "pb_inv k s" and h: "holder k f" "holder k t" "f \<noteq> t" and amt: "0 < amt"
  shows "if amt \<le> ext_spendable k f s
    then \<exists>s'. sendExtendedCoins k f t amt s = Ok s' \<and> pb_inv k s' \<and> transferred k f t amt s s'
    else \<exists>x. sendExtendedCoins k f t amt s = Fail (ErrInsufficientFunds (Some (x, amt)))"
proof -
  define i where "i = amt div ConversionFactor k"
  define r where "r = amt mod ConversionFactor k"
  let ?I = "IntegerCoinDenom k"
  define borrow where "borrow \<longleftrightarrow> GetFractionalBalance f s < r"
  define carry where "carry \<longleftrightarrow> ConversionFactor k \<le> GetFractionalBalance t s + r"
  have r: "0 \<le> r" "r < ConversionFactor k" "i * ConversionFactor k + r = amt" "0 \<le> i"
    using CF_pos amt by (auto simp: i_def r_def pos_imp_zdiv_nonneg_iff)
  have sp: "amt \<le> ext_spendable k f s \<longleftrightarrow> i + of_bool borrow \<le> bk_SpendableCoin (bk k) (bank s) f ?I"
    using spendable_split [OF inv, of amt f] amt by (simp add: i_def r_def borrow_def)
  have fails: "updateInsufficientFundsError k f amt (ErrInsufficientFunds x) (s\<lparr>bank := b\<rparr>) =
      (Fail (ErrInsufficientFunds (Some (ext_spendable k f (s\<lparr>bank := b\<rparr>), amt))) :: 'b pb_state res)" for x b
    using h amt pb_inv_range(1) [OF inv] by (simp add: insufficient_funds)
  note body = send_extended_body [OF inv h(3) amt i_def r_def borrow_def carry_def]
  have n: "0 \<le> i + of_bool (borrow \<and> carry)" "0 \<le> (of_bool (borrow \<and> \<not> carry) :: int)"
    "0 \<le> (of_bool (\<not> borrow \<and> carry) :: int)" using r by auto
  from n(1) show ?thesis
  proof (cases rule: send_int_cases [where s = s and f = f and t = t and h = "updateInsufficientFundsError k f amt"])
    case (short x)
    then show ?thesis using r(4) sp fails [of x "bank s"] by (auto simp: body of_bool_def split: if_splits)
  next
    case (sent b1)
    note s1 = sent
    from n(2) show ?thesis
    proof (cases rule: send_int_cases [where s = "s\<lparr>bank := b1\<rparr>" and f = f and t = "reserve k"
          and h = "updateInsufficientFundsError k f amt"])
      case (short x)
      then show ?thesis using s1 h sp fails [of x b1] by (auto simp: body of_bool_def split: if_splits)
    next
      case (sent b2)
      note s2 = sent
      from n(3) show ?thesis
      proof (cases rule: send_int_cases [where s = "s\<lparr>bank := b2\<rparr>" and f = "reserve k" and t = t
            and h = "\<lambda>_ _. Panic ''failed to carry fractional coins''"])
        case (short x)
        then have bc: "\<not> borrow" "carry" and lt: "bk_SpendableCoin (bk k) b2 (reserve k) ?I < 1"
          using spendable_nonneg [of b2 "reserve k" ?I] by (auto simp: of_bool_def split: if_splits)
        have "integer_balance k (reserve k) (s\<lparr>bank := b2\<rparr>) = integer_balance k (reserve k) s"
          using s1(3) [of "reserve k"] s2(3) [of "reserve k"] bc h by (auto simp: holder_def)
        then show ?thesis
          using lt reserve_covers_carry [OF inv h(3), of r] bc
          by (auto simp: borrow_def carry_def module_spendable [OF reserve_address] integer_balance_def)
      next
        case (sent b3)
        have "\<exists>s'. sendExtendedCoins k f t amt s = Ok s' \<and> pb_inv k s' \<and> transferred k f t amt s s'"
          using send_finish [OF inv h r(1,2) borrow_def carry_def, of b3 i] s1(2-) s2(2-) sent(2-) h r(3)
          by (auto simp: body holder_def)
        moreover have "amt \<le> ext_spendable k f s"
          using s1(1,6) s2(1) h by (auto simp: sp of_bool_def split: if_splits)
        ultimately show ?thesis by simp
      qed
    qed
  qed
qed

text \<open>The coins handed to \<^verbatim>\<open>x/bank\<close> are everything but the extended coin.\<close>

lemma passthrough:
  assumes "IsValid (sdk k) amt"
  obtains pc where
    "(if 0 < AmountOf (sdk k) amt (ExtendedCoinDenom k)
      then bind_res (NewCoin (sdk k) (ExtendedCoinDenom k) (AmountOf (sdk k) amt (ExtendedCoinDenom k)))
        (\<lambda>c. CoinsSub (sdk k) amt [c]) else Ok amt) = Ok pc"
    "IsValid (sdk k) pc" "IsAllPositive (sdk k) pc \<longleftrightarrow> pc \<noteq> []"
    "\<And>d. AmountOf (sdk k) pc d = (if d = ExtendedCoinDenom k then 0 else AmountOf (sdk k) amt d)"
proof (cases "0 < AmountOf (sdk k) amt (ExtendedCoinDenom k)")
  case True
  then obtain pc where "CoinsSub (sdk k) amt [(ExtendedCoinDenom k, AmountOf (sdk k) amt (ExtendedCoinDenom k))] = Ok pc"
      "IsValid (sdk k) pc" "\<forall>d. AmountOf (sdk k) pc d = (if d = ExtendedCoinDenom k then 0 else AmountOf (sdk k) amt d)"
    using sub_amount [OF assms refl] by blast
  with True show ?thesis
    by (intro that [of pc]) (simp_all add: new_coin denoms_valid all_positive)
next
  case False
  then show ?thesis
    using amount_nonneg [OF assms, of "ExtendedCoinDenom k"] assms
    by (intro that [of amt]) (auto simp: all_positive)
qed

lemma emission:
  assumes "IsValid (sdk k) amt"
  shows "bind_res (SumExtendedCoin k amt) (\<lambda>c. NewCoins (sdk k) [c]) =
    Ok (let v = AmountOf (sdk k) amt (IntegerCoinDenom k) * ConversionFactor k + AmountOf (sdk k) amt (ExtendedCoinDenom k)
        in if v = 0 then [] else [(ExtendedCoinDenom k, v)])"
proof -
  have "0 \<le> AmountOf (sdk k) amt (IntegerCoinDenom k) * ConversionFactor k + AmountOf (sdk k) amt (ExtendedCoinDenom k)"
    using amount_nonneg [OF assms] CF_pos by (simp add: add_nonneg_nonneg)
  then show ?thesis
    by (simp add: SumExtendedCoin_def new_coin new_coins_one denoms_valid Let_def)
qed

lemma is_zero_simps [simp]:
  "CoinsIsZero (sdk k) []" "CoinsIsZero (sdk k) [(d, v)] \<longleftrightarrow> v = 0"
  by (auto simp: is_zero)

text \<open>A transfer of plain bank coins between holders keeps the reserve.\<close>

lemma pb_inv_moved:
  assumes "pb_inv k s" and "holder k f" and "holder k t" and "moved (sdk k) (bk k) f t cs (bank s) b"
  shows "pb_inv k (s\<lparr>bank := b\<rparr>)"
  using assms by (auto simp: pb_inv_def moved_def holder_def integer_balance_def)

lemma send_passthrough:
  assumes "IsValid (sdk k) pc" and "IsAllPositive (sdk k) pc \<longleftrightarrow> pc \<noteq> []"
  shows "(\<exists>b. (if IsAllPositive (sdk k) pc then on_bank (bk_SendCoins (bk k) f t pc) reraise s else Ok s) =
        Ok (s\<lparr>bank := b\<rparr>) \<and> moved (sdk k) (bk k) f t pc (bank s) b) \<or>
    (\<exists>x. (if IsAllPositive (sdk k) pc then on_bank (bk_SendCoins (bk k) f t pc) reraise s else Ok s) =
        Fail (ErrInsufficientFunds x))"
proof (cases "pc = []")
  case True
  then have "moved (sdk k) (bk k) f t pc (bank s) (bank s)" by (auto simp: moved_def amount_nil)
  with True assms(2) show ?thesis by (intro disjI1 exI [of _ "bank s"]) simp
next
  case False
  then show ?thesis
    using assms send_moves [OF assms(1), of f t "bank s"] send_fails [OF assms(1), of "bank s" f t]
      send_succeeds [OF assms(1), of "bank s" f t]
    by (cases "covers (sdk k) (bk k) (bank s) f pc") (auto simp: on_bank_def res_simps reraise_def)
qed

lemma sent_coins_join:
  assumes "moved (sdk k) (bk k) f t pc (bank s) b"
    and "\<And>d. AmountOf (sdk k) pc d = (if d = ExtendedCoinDenom k then 0 else AmountOf (sdk k) amt d)"
    and "transferred k f t (AmountOf (sdk k) amt (ExtendedCoinDenom k)) (s\<lparr>bank := b\<rparr>) s'"
  shows "sent_coins k f t amt s (s'\<lparr>pb_events := es\<rparr>)"
proof -
  have "integer_balance k a (s\<lparr>bank := b\<rparr>) * ConversionFactor k = integer_balance k a s * ConversionFactor k
      - (if a = f then AmountOf (sdk k) pc (IntegerCoinDenom k) * ConversionFactor k else 0)
      + (if a = t then AmountOf (sdk k) pc (IntegerCoinDenom k) * ConversionFactor k else 0)" for a
  proof -
    have "integer_balance k a (s\<lparr>bank := b\<rparr>) = integer_balance k a s
      - (if a = f then AmountOf (sdk k) pc (IntegerCoinDenom k) else 0)
      + (if a = t then AmountOf (sdk k) pc (IntegerCoinDenom k) else 0)"
      using assms(1) by (simp add: moved_def integer_balance_def)
    then show ?thesis by (simp only: left_diff_distrib distrib_right) simp
  qed
  then show ?thesis
    using assms
    by (auto simp: sent_coins_def transferred_def moved_def ext_balance_def ext_value_def)
qed

lemma transferred_none: "transferred k f f amt s s" "transferred k f t 0 s s"
  by (auto simp: transferred_def)

lemma send_coins_spec:
  assumes inv: "pb_inv k s" and h: "holder k f" "holder k t"
  shows "case SendCoins k f t amt s of
      Ok s' \<Rightarrow> pb_inv k s' \<and> sent_coins k f t amt s s'
    | Fail e \<Rightarrow> e = ErrInvalidCoins \<or> (\<exists>x. e = ErrInsufficientFunds x)
    | Panic p \<Rightarrow> False"
proof (cases "IsValid (sdk k) amt")
  case True
  let ?e = "AmountOf (sdk k) amt (ExtendedCoinDenom k)"
  obtain pc where pc: "(if 0 < ?e then bind_res (NewCoin (sdk k) (ExtendedCoinDenom k) ?e)
        (\<lambda>c. CoinsSub (sdk k) amt [c]) else Ok amt) = Ok pc"
      "IsValid (sdk k) pc" "IsAllPositive (sdk k) pc \<longleftrightarrow> pc \<noteq> []"
      "\<And>d. AmountOf (sdk k) pc d = (if d = ExtendedCoinDenom k then 0 else AmountOf (sdk k) amt d)"
    using passthrough [OF True] by blast
  have ext: "case (if 0 < ?e then sendExtendedCoins k f t ?e s1 else Ok s1) of
      Ok s' \<Rightarrow> pb_inv k s' \<and> transferred k f t ?e s1 s'
    | Fail e \<Rightarrow> \<exists>x. e = ErrInsufficientFunds x | Panic p \<Rightarrow> False" if "pb_inv k s1" for s1
    using send_extended_spec [OF that h, of ?e] that amount_nonneg [OF True, of "ExtendedCoinDenom k"]
    by (cases "f = t") (auto simp: sendExtendedCoins_def transferred_none split: if_splits)
  obtain c fec where c: "SumExtendedCoin k amt = Ok c" "NewCoins (sdk k) [c] = Ok fec"
    using emission [OF True] by (auto simp: res_simps)
  let ?pass = "if IsAllPositive (sdk k) pc then on_bank (bk_SendCoins (bk k) f t pc) reraise s else Ok s"
  have body: "SendCoins k f t amt s = bind_res ?pass (\<lambda>s1.
      bind_res (if 0 < ?e then sendExtendedCoins k f t ?e s1 else Ok s1) (\<lambda>s2.
      Ok (s2\<lparr>pb_events := pb_events s2 @ (if CoinsIsZero (sdk k) fec then []
        else [EventTransfer t f fec, CoinSpentEvent f fec, CoinReceivedEvent t fec])\<rparr>)))"
    unfolding SendCoins_def Let_def pc(1) using True c by (auto intro!: bind_res_cong)
  show ?thesis
    using send_passthrough [OF pc(2,3), of f t s]
  proof
    assume "\<exists>b. ?pass = Ok (s\<lparr>bank := b\<rparr>) \<and> moved (sdk k) (bk k) f t pc (bank s) b"
    then obtain b where b: "?pass = Ok (s\<lparr>bank := b\<rparr>)" "moved (sdk k) (bk k) f t pc (bank s) b" by blast
    show ?thesis
      using ext [OF pb_inv_moved [OF inv h b(2)]] sent_coins_join [OF b(2) pc(4)]
      unfolding body b(1)
      by (cases "if 0 < ?e then sendExtendedCoins k f t ?e (s\<lparr>bank := b\<rparr>) else Ok (s\<lparr>bank := b\<rparr>)") auto
  qed (auto simp: body)
qed (simp add: SendCoins_def)

text \<open>A coin of another denomination is sent by the bank itself.\<close>

lemma send_other_coin:
  assumes "d \<noteq> ExtendedCoinDenom k" and "ValidateDenom (sdk k) d" and "0 < n" and "n \<le> bk_SpendableCoin (bk k) (bank s) f d"
  shows "\<exists>b ev. SendCoins k f t [(d, n)] s = Ok (s\<lparr>bank := b, pb_events := ev\<rparr>) \<and> moved (sdk k) (bk k) f t [(d, n)] (bank s) b \<and>
    (f \<noteq> t \<longrightarrow> bk_GetBalance (bk k) b f d = bk_GetBalance (bk k) (bank s) f d - n \<and> bk_GetBalance (bk k) b t d = bk_GetBalance (bk k) (bank s) t d + n)"
proof -
  have v: "IsValid (sdk k) [(d, n)]" using assms(2,3) by (simp add: is_valid_one)
  obtain b where b: "bk_SendCoins (bk k) f t [(d, n)] (bank s) = Ok b"
    using send_succeeds [OF v, of "bank s" f t] assms(4) by (auto simp: covers_one is_ok_iff)
  obtain c fec where c: "SumExtendedCoin k [(d, n)] = Ok c" "NewCoins (sdk k) [c] = Ok fec"
    using emission [OF v] by (auto simp: res_simps)
  have "\<exists>ev. SendCoins k f t [(d, n)] s = Ok (s\<lparr>bank := b, pb_events := ev\<rparr>)"
  proof
    show "SendCoins k f t [(d, n)] s = Ok (s\<lparr>bank := b, pb_events := pb_events s @ (if CoinsIsZero (sdk k) fec then []
      else [EventTransfer t f fec, CoinSpentEvent f fec, CoinReceivedEvent t fec])\<rparr>)"
      using v b c assms(1) all_positive [OF v] by (simp add: SendCoins_def on_bank_def amount_one)
  qed
  moreover note moves = send_moves [OF v b]
  moreover have "f \<noteq> t \<longrightarrow> bk_GetBalance (bk k) b f d = bk_GetBalance (bk k) (bank s) f d - n \<and> bk_GetBalance (bk k) b t d = bk_GetBalance (bk k) (bank s) t d + n"
    using moves by (simp add: moved_def amount_one)
  ultimately show ?thesis by blast
qed

section \<open>Minting and burning\<close>

lemma int_issued_zero: "int_issued k a 0 s (bank s)"
  by (simp add: int_issued_def)

lemma mint_int_Ok:
  assumes "0 \<le> n" and "GetModuleAccount (ak k) m = Some acc" and "HasPermission acc ''minter''"
  shows "\<exists>b. mint_int k m n s = Ok (s\<lparr>bank := b\<rparr>) \<and> int_issued k (ma_address acc) n s b"
proof (cases "n = 0")
  case True
  then show ?thesis by (intro exI [of _ "bank s"]) (simp add: mint_int_def int_issued_zero)
next
  case False
  with assms(1) have n: "0 < n" by simp
  obtain b where b: "bk_MintCoins (bk k) m [(IntegerCoinDenom k, n)] (bank s) = Ok b"
    using mint_succeeds [OF assms(2) _ valid_int [OF n], of "bank s"] assms(3)
    by (auto simp: HasPermission_def res_simps)
  show ?thesis
    using n b mint_issues [OF module_account [OF assms(2)] valid_int [OF n] b]
    by (auto simp: mint_int_def new_coins_int on_bank_def int_issued_def issued_def amount_one integer_balance_def)
qed

lemma burn_int_cases [consumes 3, case_names burned short]:
  assumes "0 \<le> n" and "GetModuleAccount (ak k) m = Some acc" and "HasPermission acc ''burner''"
  obtains b where "n \<le> integer_balance k (ma_address acc) s" "burn_int k m n h s = Ok (s\<lparr>bank := b\<rparr>)"
      "int_issued k (ma_address acc) (- n) s b"
  | x where "integer_balance k (ma_address acc) s < n" "burn_int k m n h s = h (ErrInsufficientFunds x) s"
proof -
  note addr = module_account [OF assms(2)]
  consider "n = 0" | "0 < n" "n \<le> integer_balance k (ma_address acc) s"
    | "0 < n" "\<not> n \<le> integer_balance k (ma_address acc) s"
    using assms(1) by linarith
  then show ?thesis
  proof cases
    case 1
    then show ?thesis
      using int_issued_zero [of "ma_address acc" s] balance_nonneg
      by (intro that(1) [of "bank s"]) (auto simp: burn_int_def integer_balance_def)
  next
    case 2
    obtain b where b: "bk_BurnCoins (bk k) m [(IntegerCoinDenom k, n)] (bank s) = Ok b"
      using burn_succeeds [OF assms(2) _ valid_int [OF 2(1)], of "bank s"] 2 assms(3)
      by (auto simp: HasPermission_def res_simps module_covers_one [OF addr] integer_balance_def)
    show ?thesis
      using 2 b burn_issues [OF addr valid_int [OF 2(1)] b]
      by (intro that(1) [of b])
        (auto simp: burn_int_def new_coins_int on_bank_def int_issued_def issued_def amount_one integer_balance_def)
  next
    case 3
    then show ?thesis
      using burn_fails [OF assms(2) _ valid_int [OF 3(1)], of "bank s"] assms(3) that(2)
      by (auto simp: HasPermission_def module_covers_one [OF addr] integer_balance_def burn_int_def
          new_coins_int on_bank_def)
  qed
qed

text \<open>Writing the account's fraction and the remainder after the bank has been updated.\<close>

lemma reissue_finish:
  assumes inv: "pb_inv k s" and h: "holder k a"
    and x: "0 \<le> x" "x < ConversionFactor k" and y: "0 \<le> y" "y < ConversionFactor k"
    and ib: "\<And>c. integer_balance k c (s\<lparr>bank := b\<rparr>) = integer_balance k c s
      + (if c = a then p else 0) + (if c = reserve k then q else 0)"
    and sup: "bk_GetSupply (bk k) b (IntegerCoinDenom k) = bk_GetSupply (bk k) (bank s) (IntegerCoinDenom k) + p + q"
    and other: "\<And>c d. d \<noteq> IntegerCoinDenom k \<Longrightarrow> bk_GetBalance (bk k) b c d = bk_GetBalance (bk k) (bank s) c d"
      "\<And>d. d \<noteq> IntegerCoinDenom k \<Longrightarrow> bk_GetSupply (bk k) b d = bk_GetSupply (bk k) (bank s) d"
    and amt: "amt = p * ConversionFactor k + x - GetFractionalBalance a s"
    and backed: "q * ConversionFactor k = x - GetFractionalBalance a s + (y - GetRemainderAmount s)"
    and s': "s' = s\<lparr>bank := b, fractional := frac_upd a x (fractional s), remainder := (if y = 0 then None else Some y)\<rparr>"
  shows "pb_inv k s' \<and> reissued k a amt s s'"
proof -
  have rem: "GetRemainderAmount s' = y" "remainder s' \<noteq> Some 0"
    by (auto simp: s' GetRemainderAmount_def)
  have b: "bank s' = b" "fractional s' = frac_upd a x (fractional s)" "pb_events s' = pb_events s"
    by (simp_all add: s')
  have ib': "integer_balance k c s' = integer_balance k c s
      + (if c = a then p else 0) + (if c = reserve k then q else 0)" for c
    using ib [of c] by (simp add: s' integer_balance_def)
  have "pb_inv k s'"
    using h x y backed by (intro pb_inv_upd [OF inv b(2)]) (auto simp: rem ib' holder_def algebra_simps)
  moreover have "reissued k a amt s s'"
    using h amt backed other
    by (auto simp: reissued_def ext_balance_def ext_supply_def ib' b rem sup GetFractionalBalance_amount
        store_simps holder_def algebra_simps)
  ultimately show ?thesis by blast
qed

lemma reserve_account_perms:
  obtains racc where "GetModuleAccount (ak k) pb_ModuleName = Some racc" "HasPermission racc ''minter''"
    "HasPermission racc ''burner''" "ma_address racc = reserve k"
  using reserve_account module_account reserve_address that by (fastforce simp: HasPermission_def)

lemma module_holder:
  assumes "GetModuleAccount (ak k) m = Some acc" and "m \<noteq> pb_ModuleName"
  shows "holder k (ma_address acc)" "module_addr (ak k) m = ma_address acc"
  using module_account [OF assms(1)] module_address_nonempty [OF module_account [OF assms(1)]]
    module_address_inj [OF module_account [OF assms(1)], of pb_ModuleName] assms(2) reserve_address
  by (auto simp: holder_def module_addr_def)

lemma backing_covers:
  assumes "pb_inv k s" and "ConversionFactor k \<le> GetFractionalBalance a s + GetRemainderAmount s"
  shows "1 \<le> integer_balance k (reserve k) s"
proof -
  have "GetFractionalBalance a s \<le> kv_sum (fractional s)"
    using assms(1) kv_amount_le_sum(2) [of "fractional s" a]
    by (fastforce simp: pb_inv_def kv_get_in_set list_all_iff GetFractionalBalance_amount)
  then have "1 * ConversionFactor k \<le> integer_balance k (reserve k) s * ConversionFactor k"
    using assms by (simp add: pb_inv_def)
  then show ?thesis using CF_pos by (simp only: mult_le_cancel_right)
qed

lemma reserve_pays:
  assumes "0 \<le> n" and "n \<le> integer_balance k (reserve k) s"
  shows "\<exists>b. send_int k (reserve k) t n h s = Ok (s\<lparr>bank := b\<rparr>) \<and>
    (\<forall>a. integer_balance k a (s\<lparr>bank := b\<rparr>) =
       integer_balance k a s - (if a = reserve k then n else 0) + (if a = t then n else 0)) \<and>
    (\<forall>a d. d \<noteq> IntegerCoinDenom k \<longrightarrow> bk_GetBalance (bk k) b a d = bk_GetBalance (bk k) (bank s) a d) \<and>
    (\<forall>d. bk_GetSupply (bk k) b d = bk_GetSupply (bk k) (bank s) d)"
  using assms(1)
proof (cases rule: send_int_cases [where s = s and f = "reserve k" and t = t and h = h])
  case (sent b)
  then show ?thesis by blast
next
  case (short x)
  then show ?thesis using assms(2) module_spendable [OF reserve_address] by (simp add: integer_balance_def)
qed

lemma mint_extended_body:
  assumes acc: "GetModuleAccount (ak k) m = Some acc" "m \<noteq> pb_ModuleName" and amt: "0 < amt"
    and i: "i = amt div ConversionFactor k" and r: "r = amt mod ConversionFactor k"
    and carry: "carry \<longleftrightarrow> ConversionFactor k \<le> GetFractionalBalance (ma_address acc) s + r"
    and low: "low \<longleftrightarrow> GetRemainderAmount s < r"
  shows "mintExtendedCoin k m amt s =
    bind_res (send_int k (reserve k) (ma_address acc) (of_bool (carry \<and> \<not> low)) reraise s) (\<lambda>s1.
    bind_res (mint_int k m (i + of_bool (carry \<and> low)) s1) (\<lambda>s2.
    bind_res (SetFractionalBalance k (ma_address acc)
      (GetFractionalBalance (ma_address acc) s + r - (if carry then ConversionFactor k else 0)) s2) (\<lambda>s3.
    bind_res (mint_int k pb_ModuleName (of_bool (low \<and> \<not> carry)) s3)
      (SetRemainderAmount k (GetRemainderAmount s - r + (if low then ConversionFactor k else 0))))))"
proof -
  have "0 \<le> i" "amt sdiv ConversionFactor k = i" "amt mod ConversionFactor k = r"
    using CF_pos amt by (auto simp: i r pos_imp_zdiv_nonneg_iff)
  then show ?thesis
    using module_holder [OF acc] module_account [OF acc(1)]
    by (auto simp: mintExtendedCoin_def Let_def send_int_def mint_int_def carry low on_bank_modules
        intro!: bind_res_cong)
qed

lemma mint_extended_spec:
  assumes inv: "pb_inv k s" and acc: "GetModuleAccount (ak k) m = Some acc" "m \<noteq> pb_ModuleName"
    and perm: "HasPermission acc ''minter''" and amt: "0 < amt"
  shows "\<exists>s'. mintExtendedCoin k m amt s = Ok s' \<and> pb_inv k s' \<and> reissued k (ma_address acc) amt s s'"
proof -
  define i r a carry low where defs: "i = amt div ConversionFactor k" "r = amt mod ConversionFactor k"
    "a = ma_address acc" "carry \<longleftrightarrow> ConversionFactor k \<le> GetFractionalBalance a s + r"
    "low \<longleftrightarrow> GetRemainderAmount s < r"
  have r: "0 \<le> r" "r < ConversionFactor k" "i * ConversionFactor k + r = amt" "0 \<le> i"
    using CF_pos amt by (auto simp: defs(1,2) pos_imp_zdiv_nonneg_iff)
  note h = module_holder(1) [OF acc, folded defs(3)]
  note body = mint_extended_body [OF acc amt defs(1,2) defs(4) [unfolded defs(3)] defs(5), folded defs(3)]
  obtain racc where racc: "GetModuleAccount (ak k) pb_ModuleName = Some racc" "HasPermission racc ''minter''"
    "ma_address racc = reserve k" using reserve_account_perms by blast
  have le: "of_bool (carry \<and> \<not> low) \<le> integer_balance k (reserve k) s" "0 \<le> (of_bool (carry \<and> \<not> low) :: int)"
    using backing_covers [OF inv, of a] balance_nonneg by (auto simp: defs(4,5) integer_balance_def)
  obtain b1 where s1: "send_int k (reserve k) a (of_bool (carry \<and> \<not> low)) reraise s = Ok (s\<lparr>bank := b1\<rparr>)"
      "\<forall>c. integer_balance k c (s\<lparr>bank := b1\<rparr>) = integer_balance k c s
        - (if c = reserve k then of_bool (carry \<and> \<not> low) else 0) + (if c = a then of_bool (carry \<and> \<not> low) else 0)"
      "\<forall>c d. d \<noteq> IntegerCoinDenom k \<longrightarrow> bk_GetBalance (bk k) b1 c d = bk_GetBalance (bk k) (bank s) c d"
      "\<forall>d. bk_GetSupply (bk k) b1 d = bk_GetSupply (bk k) (bank s) d"
    using reserve_pays [OF le(2,1), of a reraise] by blast
  obtain b2 where s2: "mint_int k m (i + of_bool (carry \<and> low)) (s\<lparr>bank := b1\<rparr>) = Ok (s\<lparr>bank := b2\<rparr>)"
      "int_issued k a (i + of_bool (carry \<and> low)) (s\<lparr>bank := b1\<rparr>) b2"
    using mint_int_Ok [OF _ acc(1) perm, of "i + of_bool (carry \<and> low)" "s\<lparr>bank := b1\<rparr>"] r(4)
    by (auto simp: defs(3))
  define x where "x = GetFractionalBalance a s + r - (if carry then ConversionFactor k else 0)"
  define y where "y = GetRemainderAmount s - r + (if low then ConversionFactor k else 0)"
  have xy: "0 \<le> x" "x < ConversionFactor k" "0 \<le> y" "y < ConversionFactor k"
    using r pb_inv_range [OF inv, of a] inv CF_pos by (auto simp: x_def y_def defs(4,5) pb_inv_def)
  let ?s3 = "s\<lparr>bank := b2, fractional := frac_upd a x (fractional s)\<rparr>"
  have s3: "SetFractionalBalance k a x (s\<lparr>bank := b2\<rparr>) = Ok ?s3"
    using h xy by (auto simp: SetFractionalBalance_Ok holder_def)
  obtain b4 where s4: "mint_int k pb_ModuleName (of_bool (low \<and> \<not> carry)) ?s3 = Ok (?s3\<lparr>bank := b4\<rparr>)"
      "int_issued k (reserve k) (of_bool (low \<and> \<not> carry)) ?s3 b4"
    using mint_int_Ok [OF _ racc(1,2), of "of_bool (low \<and> \<not> carry)" ?s3] racc(3) by auto
  let ?s' = "s\<lparr>bank := b4, fractional := frac_upd a x (fractional s), remainder := (if y = 0 then None else Some y)\<rparr>"
  have "mintExtendedCoin k m amt s = Ok ?s'"
    unfolding body using s1(1) s2(1) s3 s4(1) xy by (simp add: SetRemainderAmount_Ok flip: x_def y_def)
  moreover have ib: "integer_balance k c (s\<lparr>bank := b4\<rparr>) = integer_balance k c s
      + (if c = a then i + of_bool carry else 0) + (if c = reserve k then of_bool low - of_bool carry else 0)" for c
    using s1(2) s2(2) s4(2) h
    by (cases carry; cases low) (auto simp: int_issued_def integer_balance_def holder_def)
  have sup: "bk_GetSupply (bk k) b4 (IntegerCoinDenom k) = bk_GetSupply (bk k) (bank s) (IntegerCoinDenom k)
      + (i + of_bool carry) + (of_bool low - of_bool carry)"
    using s1(4) s2(2) s4(2) by (cases carry; cases low) (auto simp: int_issued_def)
  have "pb_inv k ?s' \<and> reissued k a amt s ?s'"
    using s1(3,4) s2(2) s4(2) r(3)
    by (intro reissue_finish [OF inv h xy ib sup])
      (auto simp: int_issued_def x_def y_def algebra_simps)
  ultimately show ?thesis by (auto simp: defs(3))
qed

lemma burn_extended_body:
  assumes acc: "GetModuleAccount (ak k) m = Some acc" "m \<noteq> pb_ModuleName" and amt: "0 < amt"
    and i: "i = amt div ConversionFactor k" and r: "r = amt mod ConversionFactor k"
    and borrow: "borrow \<longleftrightarrow> GetFractionalBalance (ma_address acc) s < r"
    and over: "over \<longleftrightarrow> ConversionFactor k \<le> GetRemainderAmount s + r"
  shows "burnExtendedCoin k m amt s =
    bind_res (send_int k (ma_address acc) (reserve k) (of_bool (borrow \<and> \<not> over))
      (updateInsufficientFundsError k (ma_address acc) amt) s) (\<lambda>s1.
    bind_res (burn_int k pb_ModuleName (of_bool (\<not> borrow \<and> over)) reraise s1) (\<lambda>s2.
    bind_res (burn_int k m (i + of_bool (borrow \<and> over))
      (updateInsufficientFundsError k (ma_address acc) amt) s2) (\<lambda>s3.
    bind_res (SetFractionalBalance k (ma_address acc)
      (GetFractionalBalance (ma_address acc) s - r + (if borrow then ConversionFactor k else 0)) s3)
      (SetRemainderAmount k (GetRemainderAmount s + r - (if over then ConversionFactor k else 0))))))"
proof -
  have "0 \<le> i" "amt sdiv ConversionFactor k = i" "amt mod ConversionFactor k = r"
    using CF_pos amt by (auto simp: i r pos_imp_zdiv_nonneg_iff)
  then show ?thesis
    using module_holder [OF acc] module_account [OF acc(1)]
    by (auto simp: burnExtendedCoin_def Let_def send_int_def burn_int_def borrow over on_bank_modules
        intro!: bind_res_cong)
qed

lemma burn_finish:
  assumes inv: "pb_inv k s" and h: "holder k a" and r: "0 \<le> r" "r < ConversionFactor k"
    and borrow: "borrow \<longleftrightarrow> GetFractionalBalance a s < r"
    and over: "over \<longleftrightarrow> ConversionFactor k \<le> GetRemainderAmount s + r"
    and ib: "\<And>c. integer_balance k c (s\<lparr>bank := b\<rparr>) = integer_balance k c s
      + (if c = a then - (i + of_bool borrow) else 0)
      + (if c = reserve k then of_bool borrow - of_bool over else 0)"
    and sup: "bk_GetSupply (bk k) b (IntegerCoinDenom k) = bk_GetSupply (bk k) (bank s) (IntegerCoinDenom k)
      + - (i + of_bool borrow) + (of_bool borrow - of_bool over)"
    and other: "\<And>c d. d \<noteq> IntegerCoinDenom k \<Longrightarrow> bk_GetBalance (bk k) b c d = bk_GetBalance (bk k) (bank s) c d"
      "\<And>d. d \<noteq> IntegerCoinDenom k \<Longrightarrow> bk_GetSupply (bk k) b d = bk_GetSupply (bk k) (bank s) d"
  shows "\<exists>s'. bind_res (SetFractionalBalance k a
        (GetFractionalBalance a s - r + (if borrow then ConversionFactor k else 0)) (s\<lparr>bank := b\<rparr>))
      (SetRemainderAmount k (GetRemainderAmount s + r - (if over then ConversionFactor k else 0))) = Ok s' \<and>
    pb_inv k s' \<and> reissued k a (- (i * ConversionFactor k + r)) s s'"
proof -
  define x where "x = GetFractionalBalance a s - r + (if borrow then ConversionFactor k else 0)"
  define y where "y = GetRemainderAmount s + r - (if over then ConversionFactor k else 0)"
  have xy: "0 \<le> x" "x < ConversionFactor k" "0 \<le> y" "y < ConversionFactor k"
    using r pb_inv_range [OF inv, of a] inv CF_pos by (auto simp: x_def y_def borrow over pb_inv_def)
  let ?s' = "s\<lparr>bank := b, fractional := frac_upd a x (fractional s), remainder := (if y = 0 then None else Some y)\<rparr>"
  have "bind_res (SetFractionalBalance k a x (s\<lparr>bank := b\<rparr>)) (SetRemainderAmount k y) = Ok ?s'"
    using h xy by (auto simp: SetFractionalBalance_Ok SetRemainderAmount_Ok holder_def)
  moreover have "pb_inv k ?s' \<and> reissued k a (- (i * ConversionFactor k + r)) s ?s'"
    using other by (intro reissue_finish [OF inv h xy ib sup]) (auto simp: x_def y_def algebra_simps)
  ultimately show ?thesis
    unfolding x_def [symmetric] y_def [symmetric] by blast
qed

lemma burn_extended_spec:
  assumes inv: "pb_inv k s" and acc: "GetModuleAccount (ak k) m = Some acc" "m \<noteq> pb_ModuleName"
    and perm: "HasPermission acc ''burner''" and amt: "0 < amt"
  shows "if amt \<le> ext_balance k (ma_address acc) s
    then \<exists>s'. burnExtendedCoin k m amt s = Ok s' \<and> pb_inv k s' \<and> reissued k (ma_address acc) (- amt) s s'
    else \<exists>x. burnExtendedCoin k m amt s = Fail (ErrInsufficientFunds (Some (x, amt)))"
proof -
  define i r a borrow over where defs: "i = amt div ConversionFactor k" "r = amt mod ConversionFactor k"
    "a = ma_address acc" "borrow \<longleftrightarrow> GetFractionalBalance a s < r"
    "over \<longleftrightarrow> ConversionFactor k \<le> GetRemainderAmount s + r"
  let ?h = "updateInsufficientFundsError k a amt"
  have r: "0 \<le> r" "r < ConversionFactor k" "i * ConversionFactor k + r = amt" "0 \<le> i"
    using CF_pos amt by (auto simp: defs(1,2) pos_imp_zdiv_nonneg_iff)
  note h = module_holder(1) [OF acc, folded defs(3)]
  note body = burn_extended_body [OF acc amt defs(1,2) defs(4) [unfolded defs(3)] defs(5), folded defs(3)]
  note sb = module_spendable [OF module_account [OF acc(1)], folded defs(3)]
  have sp: "amt \<le> ext_balance k a s \<longleftrightarrow> i + of_bool borrow \<le> integer_balance k a s"
    using spendable_split [OF inv, of amt a] amt sb
    by (simp add: defs(1,2,4) ext_spendable_def ext_balance_def integer_balance_def)
  have fails: "?h (ErrInsufficientFunds x) (s\<lparr>bank := b\<rparr>) =
      (Fail (ErrInsufficientFunds (Some (ext_spendable k a (s\<lparr>bank := b\<rparr>), amt))) :: 'b pb_state res)" for x b
    using h amt pb_inv_range(1) [OF inv] by (simp add: insufficient_funds)
  obtain racc where racc: "GetModuleAccount (ak k) pb_ModuleName = Some racc" "HasPermission racc ''burner''"
    "ma_address racc = reserve k" using reserve_account_perms by blast
  have n: "0 \<le> (of_bool (borrow \<and> \<not> over) :: int)" "0 \<le> (of_bool (\<not> borrow \<and> over) :: int)"
    "0 \<le> i + of_bool (borrow \<and> over)" using r by auto
  have rb: "of_bool (\<not> borrow \<and> over) \<le> integer_balance k (reserve k) s"
    using backing_covers [OF inv, of a] balance_nonneg by (auto simp: defs(4,5) integer_balance_def)
  from n(1) have "if amt \<le> ext_balance k a s
    then \<exists>s'. burnExtendedCoin k m amt s = Ok s' \<and> pb_inv k s' \<and> reissued k a (- amt) s s'
    else \<exists>x. burnExtendedCoin k m amt s = Fail (ErrInsufficientFunds (Some (x, amt)))"
  proof (cases rule: send_int_cases [where s = s and f = a and t = "reserve k" and h = ?h])
    case (short x)
    then show ?thesis
      using r(4) sp sb fails [of x "bank s"] by (auto simp: body of_bool_def integer_balance_def split: if_splits)
  next
    case (sent b1)
    note s1 = sent
    have res1: "integer_balance k (reserve k) s \<le> integer_balance k (reserve k) (s\<lparr>bank := b1\<rparr>)"
      using s1(3) [of "reserve k"] h by (auto simp: holder_def)
    from n(2) racc(1,2) show ?thesis
    proof (cases rule: burn_int_cases [where s = "s\<lparr>bank := b1\<rparr>" and h = reraise])
      case (short x)
      then show ?thesis using rb res1 racc(3) by simp
    next
      case (burned b2)
      note s2 = burned [unfolded racc(3)]
      have ib2: "integer_balance k c (s\<lparr>bank := b2\<rparr>) = integer_balance k c s
          + (if c = a then - of_bool (borrow \<and> \<not> over) else 0)
          + (if c = reserve k then of_bool (borrow \<and> \<not> over) - of_bool (\<not> borrow \<and> over) else 0)" for c
        using s1(3) [of c] s2(3) h by (auto simp: int_issued_def integer_balance_def holder_def)
      have ba: "integer_balance k a (s\<lparr>bank := b2\<rparr>) = integer_balance k a s - of_bool (borrow \<and> \<not> over)"
        using ib2 [of a] h by (simp add: holder_def)
      from n(3) acc(1) perm show ?thesis
      proof (cases rule: burn_int_cases [where s = "s\<lparr>bank := b2\<rparr>" and h = ?h])
        case (short x)
        note s3 = short [folded defs(3), unfolded ba]
        then have "\<not> amt \<le> ext_balance k a s"
          by (auto simp: sp of_bool_def split: if_splits)
        then show ?thesis using s1(2) s2(2) s3(2) fails [of x b2] by (simp add: body)
      next
        case (burned b3)
        note s3 = burned [folded defs(3), unfolded ba]
        have "amt \<le> ext_balance k a s"
          using s3(1) by (auto simp: sp of_bool_def split: if_splits)
        moreover have ib: "integer_balance k c (s\<lparr>bank := b3\<rparr>) = integer_balance k c s
            + (if c = a then - (i + of_bool borrow) else 0)
            + (if c = reserve k then of_bool borrow - of_bool over else 0)" for c
          using ib2 [of c] s3(3)
          by (cases borrow; cases over) (auto simp: int_issued_def integer_balance_def)
        have sup: "bk_GetSupply (bk k) b3 (IntegerCoinDenom k) = bk_GetSupply (bk k) (bank s) (IntegerCoinDenom k)
            + - (i + of_bool borrow) + (of_bool borrow - of_bool over)"
          using s1(5) s2(3) s3(3) by (cases borrow; cases over) (auto simp: int_issued_def)
        have "\<exists>s'. burnExtendedCoin k m amt s = Ok s' \<and> pb_inv k s' \<and> reissued k a (- amt) s s'"
          using burn_finish [OF inv h r(1,2) defs(4,5) ib sup] s1(2,4,5) s2(2,3) s3(2,3) r(3)
          by (auto simp: body int_issued_def)
        ultimately show ?thesis by simp
      qed
    qed
  qed
  then show ?thesis by (simp only: defs(3))
qed

lemma reissued_none: "reissued k a 0 s s"
  by (auto simp: reissued_def)

lemma pb_inv_issued:
  assumes "pb_inv k s" and "holder k a" and "issued (sdk k) (bk k) z a cs (bank s) b"
  shows "pb_inv k (s\<lparr>bank := b\<rparr>)"
  using assms by (auto simp: pb_inv_def issued_def holder_def integer_balance_def)

lemma issued_coins_join:
  assumes i: "issued (sdk k) (bk k) z a pc (bank s) b"
    and pc: "\<And>d. AmountOf (sdk k) pc d = (if d = ExtendedCoinDenom k then 0 else AmountOf (sdk k) amt d)"
    and r: "reissued k a (z * AmountOf (sdk k) amt (ExtendedCoinDenom k)) (s\<lparr>bank := b\<rparr>) s'"
  shows "issued_coins k z a amt s (s'\<lparr>pb_events := es\<rparr>)"
proof -
  have "integer_balance k x (s\<lparr>bank := b\<rparr>) * ConversionFactor k = integer_balance k x s * ConversionFactor k
      + (if x = a then z * AmountOf (sdk k) pc (IntegerCoinDenom k) * ConversionFactor k else 0)" for x
    using i by (simp add: issued_def integer_balance_def distrib_right)
  moreover have "bk_GetSupply (bk k) b (IntegerCoinDenom k) * ConversionFactor k =
      bk_GetSupply (bk k) (bank s) (IntegerCoinDenom k) * ConversionFactor k
      + z * AmountOf (sdk k) pc (IntegerCoinDenom k) * ConversionFactor k"
    using i by (simp add: issued_def distrib_right)
  ultimately show ?thesis
    using i r by (auto simp: issued_coins_def reissued_def issued_def ext_balance_def ext_supply_def
        ext_value_def pc distrib_left)
qed

text \<open>The common part of \<open>MintCoins\<close> and \<open>BurnCoins\<close>: the plain coins, then the extended ones.\<close>

lemma reissue_coins:
  assumes inv: "pb_inv k s" and h: "holder k a" and v: "IsValid (sdk k) amt"
    and e: "e = AmountOf (sdk k) amt (ExtendedCoinDenom k)"
    and pc: "\<And>d. AmountOf (sdk k) pc d = (if d = ExtendedCoinDenom k then 0 else AmountOf (sdk k) amt d)"
    and plain: "\<And>b. pc \<noteq> [] \<Longrightarrow> op pc (bank s) = Ok b \<Longrightarrow> issued (sdk k) (bk k) z a pc (bank s) b"
      "\<And>x. pc \<noteq> [] \<Longrightarrow> op pc (bank s) = Fail x \<Longrightarrow> P x"
      "\<And>p. pc \<noteq> [] \<Longrightarrow> op pc (bank s) \<noteq> Panic p"
    and ext: "\<And>s1. pb_inv k s1 \<Longrightarrow> 0 < e \<Longrightarrow> case eop e s1 of
      Ok s' \<Rightarrow> pb_inv k s' \<and> reissued k a (z * e) s1 s' | Fail x \<Rightarrow> P x | Panic p \<Rightarrow> False"
  shows "case bind_res (if pc \<noteq> [] then on_bank (op pc) reraise s else Ok s) (\<lambda>s1.
      bind_res (if 0 < e then eop e s1 else Ok s1) (\<lambda>s2. Ok (s2\<lparr>pb_events := es s2\<rparr>))) of
    Ok s' \<Rightarrow> pb_inv k s' \<and> issued_coins k z a amt s s' | Fail x \<Rightarrow> P x | Panic p \<Rightarrow> False"
proof -
  have ext': "case (if 0 < e then eop e s1 else Ok s1) of
      Ok s' \<Rightarrow> pb_inv k s' \<and> reissued k a (z * e) s1 s' | Fail x \<Rightarrow> P x | Panic p \<Rightarrow> False"
    if "pb_inv k s1" for s1
    using ext [OF that] that amount_nonneg [OF v, of "ExtendedCoinDenom k"] reissued_none [of a s1] e
    by (cases "0 < e") (auto simp: not_less)
  have nil: "issued (sdk k) (bk k) z a pc (bank s) (bank s)" if "pc = []"
    using that by (simp add: issued_def amount_nil)
  consider (ok) b where "(if pc \<noteq> [] then on_bank (op pc) reraise s else Ok s) = Ok (s\<lparr>bank := b\<rparr>)"
      "issued (sdk k) (bk k) z a pc (bank s) b"
    | (err) x where "(if pc \<noteq> [] then on_bank (op pc) reraise s else Ok s) = Fail x" "P x"
  proof (cases "pc = []")
    case True
    then show thesis using nil by (intro that(1) [of "bank s"]) auto
  next
    case False
    then show thesis
      using plain that by (cases "op pc (bank s)") (auto simp: on_bank_def reraise_def)
  qed
  then show ?thesis
  proof cases
    case (ok b)
    then show ?thesis
      using ext' [OF pb_inv_issued [OF inv h ok(2)]] issued_coins_join [OF ok(2) pc]
      by (cases "if 0 < e then eop e (s\<lparr>bank := b\<rparr>) else Ok (s\<lparr>bank := b\<rparr>)") (auto simp: e)
  qed simp
qed

lemma mint_coins_spec:
  assumes inv: "pb_inv k s" and acc: "GetModuleAccount (ak k) m = Some acc" "m \<noteq> pb_ModuleName"
    and perm: "HasPermission acc ''minter''" and v: "IsValid (sdk k) amt"
  shows "case MintCoins k m amt s of
      Ok s' \<Rightarrow> pb_inv k s' \<and> issued_coins k 1 (ma_address acc) amt s s' | Fail x \<Rightarrow> False | Panic p \<Rightarrow> False"
proof -
  let ?e = "AmountOf (sdk k) amt (ExtendedCoinDenom k)"
  obtain pc where pc: "(if 0 < ?e then bind_res (NewCoin (sdk k) (ExtendedCoinDenom k) ?e)
        (\<lambda>c. CoinsSub (sdk k) amt [c]) else Ok amt) = Ok pc" "IsValid (sdk k) pc"
      "\<And>d. AmountOf (sdk k) pc d = (if d = ExtendedCoinDenom k then 0 else AmountOf (sdk k) amt d)"
    using passthrough [OF v] by metis
  obtain c fec where c: "SumExtendedCoin k amt = Ok c" "NewCoins (sdk k) [c] = Ok fec"
    using emission [OF v] by (auto simp: res_simps)
  have body: "MintCoins k m amt s =
      bind_res (if pc \<noteq> [] then on_bank (bk_MintCoins (bk k) m pc) reraise s else Ok s) (\<lambda>s1.
      bind_res (if 0 < ?e then mintExtendedCoin k m ?e s1 else Ok s1) (\<lambda>s2.
      Ok (s2\<lparr>pb_events := pb_events s2 @ (if CoinsIsZero (sdk k) fec then []
        else [CoinMintEvent (ma_address acc) fec, CoinReceivedEvent (ma_address acc) fec])\<rparr>)))"
    unfolding MintCoins_def Let_def pc(1) using acc perm v c by (auto intro!: bind_res_cong)
  obtain b where b: "bk_MintCoins (bk k) m pc (bank s) = Ok b"
    using mint_succeeds [OF acc(1) _ pc(2)] perm by (auto simp: HasPermission_def res_simps)
  have ext: "case mintExtendedCoin k m ?e s1 of
      Ok s' \<Rightarrow> pb_inv k s' \<and> reissued k (ma_address acc) (1 * ?e) s1 s' | Fail x \<Rightarrow> False | Panic p \<Rightarrow> False"
    if "pb_inv k s1" "0 < ?e" for s1
    using mint_extended_spec [OF that(1) acc perm that(2)] by auto
  show ?thesis
    unfolding body
    using b mint_issues [OF module_account [OF acc(1)] pc(2) b] ext
    by (intro reissue_coins [OF inv module_holder(1) [OF acc] v refl pc(3), where P = "\<lambda>_. False"]) auto
qed

lemma burn_coins_spec:
  assumes inv: "pb_inv k s" and acc: "GetModuleAccount (ak k) m = Some acc" "m \<noteq> pb_ModuleName"
    and perm: "HasPermission acc ''burner''" and v: "IsValid (sdk k) amt"
  shows "case BurnCoins k m amt s of
      Ok s' \<Rightarrow> pb_inv k s' \<and> issued_coins k (- 1) (ma_address acc) amt s s'
    | Fail x \<Rightarrow> \<exists>y. x = ErrInsufficientFunds y | Panic p \<Rightarrow> False"
proof -
  let ?e = "AmountOf (sdk k) amt (ExtendedCoinDenom k)"
  obtain pc where pc: "(if 0 < ?e then bind_res (NewCoin (sdk k) (ExtendedCoinDenom k) ?e)
        (\<lambda>c. CoinsSub (sdk k) amt [c]) else Ok amt) = Ok pc" "IsValid (sdk k) pc"
      "\<And>d. AmountOf (sdk k) pc d = (if d = ExtendedCoinDenom k then 0 else AmountOf (sdk k) amt d)"
    using passthrough [OF v] by metis
  obtain c fec where c: "SumExtendedCoin k amt = Ok c" "NewCoins (sdk k) [c] = Ok fec"
    using emission [OF v] by (auto simp: res_simps)
  have body: "BurnCoins k m amt s =
      bind_res (if pc \<noteq> [] then on_bank (bk_BurnCoins (bk k) m pc) reraise s else Ok s) (\<lambda>s1.
      bind_res (if 0 < ?e then burnExtendedCoin k m ?e s1 else Ok s1) (\<lambda>s2.
      Ok (s2\<lparr>pb_events := pb_events s2 @ (if CoinsIsZero (sdk k) fec then []
        else [CoinBurnEvent (ma_address acc) fec, CoinSpentEvent (ma_address acc) fec])\<rparr>)))"
    unfolding BurnCoins_def Let_def pc(1) using acc perm v c by (auto intro!: bind_res_cong)
  have ext: "case burnExtendedCoin k m ?e s1 of
      Ok s' \<Rightarrow> pb_inv k s' \<and> reissued k (ma_address acc) (- 1 * ?e) s1 s'
    | Fail x \<Rightarrow> \<exists>y. x = ErrInsufficientFunds y | Panic p \<Rightarrow> False"
    if "pb_inv k s1" "0 < ?e" for s1
    using burn_extended_spec [OF that(1) acc perm that(2)] by (auto split: if_splits)
  have "is_ok (bk_BurnCoins (bk k) m pc (bank s)) \<or> (\<exists>y. bk_BurnCoins (bk k) m pc (bank s) = Fail (ErrInsufficientFunds y))"
    using burn_succeeds [OF acc(1) _ pc(2)] burn_fails [OF acc(1) _ pc(2)] perm
    by (auto simp: HasPermission_def)
  then show ?thesis
    unfolding body
    using burn_issues [OF module_account [OF acc(1)] pc(2)] ext
    by (intro reissue_coins [OF inv module_holder(1) [OF acc] v refl pc(3),
          where P = "\<lambda>x. \<exists>y. x = ErrInsufficientFunds y"]) (auto simp: res_simps)
qed

end

section \<open>Genesis\<close>

text \<open>The entries a validated list of balances stands for.\<close>

definition fb_entry :: "(string \<Rightarrow> address option) \<Rightarrow> FractionalBalance \<Rightarrow> address \<times> int" where
  "fb_entry bech fb = (the (bech (fb_Address fb)), the (fb_Amount fb))"

definition fb_valid :: "(string \<Rightarrow> address option) \<Rightarrow> 'b pb_keeper \<Rightarrow> FractionalBalance \<Rightarrow> bool" where
  "fb_valid bech k fb \<longleftrightarrow> (\<exists>a x. bech (fb_Address fb) = Some a \<and> fb_Amount fb = Some x \<and> 0 < x \<and> x < ConversionFactor k)"

lemma FractionalBalance_Validate_Ok: "FractionalBalance_Validate bech k fb = Ok u \<longleftrightarrow> fb_valid bech k fb"
  by (auto simp: FractionalBalance_Validate_def fb_valid_def ValidateFractionalAmount_def split: option.splits)

lemma validate_loop_Ok:
  "FractionalBalances_Validate_loop bech k seen fbs = Ok u \<longleftrightarrow>
     list_all (fb_valid bech k) fbs \<and> distinct (map (\<lambda>fb. ToLower (fb_Address fb)) fbs) \<and>
     set seen \<inter> set (map (\<lambda>fb. ToLower (fb_Address fb)) fbs) = {}"
  by (induction fbs arbitrary: seen)
    (auto simp: res_simps Let_def FractionalBalance_Validate_Ok image_iff split: if_splits)

lemma SumAmount_Ok:
  "list_all (fb_valid bech k) fbs \<Longrightarrow> SumAmount fbs = Ok (sum_list (map (snd \<circ> fb_entry bech) fbs))"
proof -
  have "list_all (fb_valid bech k) fbs \<Longrightarrow>
    for_each (\<lambda>fb sum. case fb_Amount fb of None \<Rightarrow> Panic ''nil pointer'' | Some a \<Rightarrow> Ok (sum + a)) fbs z =
      Ok (z + sum_list (map (snd \<circ> fb_entry bech) fbs))" for z
    by (induction fbs arbitrary: z) (auto simp: fb_valid_def fb_entry_def)
  then show "list_all (fb_valid bech k) fbs \<Longrightarrow> ?thesis" by (simp add: SumAmount_def)
qed

lemma init_loop:
  assumes "list_all (fb_valid bech k) fbs" and "\<And>x. bech x \<noteq> Some []"
  shows "for_each (\<lambda>fb s.
         case bech (fb_Address fb) of
           None \<Rightarrow> Panic ''invalid bech32 address''
         | Some a \<Rightarrow>
             (case fb_Amount fb of None \<Rightarrow> Panic ''nil pointer'' | Some amt \<Rightarrow> SetFractionalBalance k a amt s)) fbs s =
    Ok (s\<lparr>fractional := kv_build (map (fb_entry bech) fbs) (fractional s)\<rparr>)"
  using assms
proof (induction fbs arbitrary: s)
  case (Cons fb fbs)
  then show ?case
    by (auto simp: fb_valid_def fb_entry_def SetFractionalBalance_Ok frac_upd_def)
qed simp

lemma fb_entry_distinct:
  assumes "bech32_codec bech unbech" and "list_all (fb_valid bech k) fbs"
    and "distinct (map (\<lambda>fb. ToLower (fb_Address fb)) fbs)"
  shows "distinct (map fst (map (fb_entry bech) fbs))"
  using assms(2,3)
proof (induction fbs)
  case (Cons fb fbs)
  then obtain a where a: "bech (fb_Address fb) = Some a" by (auto simp: fb_valid_def)
  have "a \<noteq> the (bech (fb_Address fb'))" if "fb' \<in> set fbs" for fb'
  proof
    assume e: "a = the (bech (fb_Address fb'))"
    have "bech (fb_Address fb') = Some a"
      using Cons.prems(1) that e by (fastforce simp: list_all_iff fb_valid_def)
    then have "ToLower (fb_Address fb') = ToLower (fb_Address fb)"
      using bech32_codec.decode_inj [OF assms(1) _ a] by blast
    with Cons.prems(2) that show False by (auto simp: image_iff)
  qed
  with Cons a show ?case by (auto simp: fb_entry_def)
qed simp

lemma pb_Genesis_Validate_Ok:
  "pb_Genesis_Validate bech k gs = Ok u \<longleftrightarrow>
     list_all (fb_valid bech k) (gs_Balances gs) \<and>
     distinct (map (\<lambda>fb. ToLower (fb_Address fb)) (gs_Balances gs)) \<and>
     (\<exists>r. gs_Remainder gs = Some r \<and> 0 \<le> r \<and> r < ConversionFactor k \<and>
       (sum_list (map (snd \<circ> fb_entry bech) (gs_Balances gs)) + r) mod ConversionFactor k = 0)"
  by (auto simp: pb_Genesis_Validate_def FractionalBalances_Validate_def validate_loop_Ok SumAmount_Ok
      res_simps not_le not_less split: option.splits)

lemma pb_InitGenesis_Ok:
  assumes "\<And>x. bech x \<noteq> Some []"
  shows "pb_InitGenesis bech k gs s = Ok s' \<longleftrightarrow>
    (\<exists>u r. pb_Genesis_Validate bech k gs = Ok u \<and> gs_Remainder gs = Some r \<and>
       GetModuleAccount (ak k) pb_ModuleName \<noteq> None \<and>
       sum_list (map (snd \<circ> fb_entry bech) (gs_Balances gs)) + r = integer_balance k (reserve k) s * ConversionFactor k \<and>
       s' = s\<lparr>fractional := kv_build (map (fb_entry bech) (gs_Balances gs)) (fractional s),
              remainder := (if r = 0 then None else Some r)\<rparr>)"
proof (cases "pb_Genesis_Validate bech k gs")
  case (Ok u)
  then obtain r where r: "gs_Remainder gs = Some r" "0 \<le> r" "r < ConversionFactor k"
      "list_all (fb_valid bech k) (gs_Balances gs)"
    by (auto simp: pb_Genesis_Validate_Ok)
  then show ?thesis
    using SumAmount_Ok [OF r(4)] init_loop [OF r(4) assms, of s]
    by (auto simp: pb_InitGenesis_def Ok TotalAmountWithRemainder_def res_simps integer_balance_def
        SetRemainderAmount_Ok)
qed (simp_all add: pb_InitGenesis_def)

lemma genesis_inv:
  assumes codec: "bech32_codec bech unbech" and init: "pb_InitGenesis bech k gs s = Ok s'"
    and fresh: "fractional s = []"
  shows "pb_inv k s'"
proof -
  have ne: "bech x \<noteq> Some []" for x using codec by (rule bech32_codec.decode_nonempty)
  let ?es = "map (fb_entry bech) (gs_Balances gs)"
  from init [unfolded pb_InitGenesis_Ok [OF ne]] obtain r u where
      v: "pb_Genesis_Validate bech k gs = Ok u" "gs_Remainder gs = Some r"
      "sum_list (map (snd \<circ> fb_entry bech) (gs_Balances gs)) + r = integer_balance k (reserve k) s * ConversionFactor k"
    and s': "s' = s\<lparr>fractional := kv_build ?es [], remainder := (if r = 0 then None else Some r)\<rparr>"
    by (auto simp: fresh)
  from v(1,2) have b: "list_all (fb_valid bech k) (gs_Balances gs)" "0 \<le> r" "r < ConversionFactor k"
    "distinct (map (\<lambda>fb. ToLower (fb_Address fb)) (gs_Balances gs))"
    by (auto simp: pb_Genesis_Validate_Ok)
  have sum: "kv_sum (kv_build ?es []) = sum_list (map (snd \<circ> fb_entry bech) (gs_Balances gs))"
    using kv_sum_build [OF kv_ok_Nil fb_entry_distinct [OF codec b(1,4)]] by simp
  have "list_all (\<lambda>(a, x). a \<noteq> [] \<and> 0 < x \<and> x < ConversionFactor k) ?es"
    unfolding list.pred_map
    by (rule list.pred_mono_strong [OF b(1)]) (use ne in \<open>auto simp: fb_valid_def fb_entry_def\<close>)
  then have "list_all (\<lambda>(a, x). a \<noteq> [] \<and> 0 < x \<and> x < ConversionFactor k) (kv_build ?es [])"
    using set_kv_build [of ?es "[]"] by (elim list_all_subset) simp
  moreover have "GetRemainderAmount s' = r"
    by (simp add: s' GetRemainderAmount_def)
  ultimately show ?thesis
    using b(2,3) v(3) by (auto simp: pb_inv_def s' sum)
qed

lemma iterate_export:
  "iterate_entries (\<lambda>a amount bs. (bs @ [\<lparr>fb_Address = unbech a, fb_Amount = Some amount\<rparr>], False)) es bs =
     bs @ map (\<lambda>(a, x). \<lparr>fb_Address = unbech a, fb_Amount = Some x\<rparr>) es"
  by (induction es arbitrary: bs) auto

lemma export_entries:
  assumes "bech32_codec bech unbech" and "pb_inv k s"
  shows "map (fb_entry bech) (gs_Balances (pb_ExportGenesis unbech s)) = fractional s"
    and "list_all (fb_valid bech k) (gs_Balances (pb_ExportGenesis unbech s))"
    and "distinct (map (\<lambda>fb. ToLower (fb_Address fb)) (gs_Balances (pb_ExportGenesis unbech s)))"
proof -
  have e: "gs_Balances (pb_ExportGenesis unbech s) =
      map (\<lambda>(a, x). \<lparr>fb_Address = unbech a, fb_Amount = Some x\<rparr>) (fractional s)"
    by (simp add: pb_ExportGenesis_def IterateFractionalBalances_def iterate_export)
  have all: "a \<noteq> []" "0 < x" "x < ConversionFactor k" "bech (unbech a) = Some a"
    if "(a, x) \<in> set (fractional s)" for a x
    using assms(2) that bech32_codec.decode_encode [OF assms(1), of a] by (auto simp: pb_inv_def list_all_iff)
  show "map (fb_entry bech) (gs_Balances (pb_ExportGenesis unbech s)) = fractional s"
    using all(4) by (auto simp: e fb_entry_def intro!: map_idI)
  show "list_all (fb_valid bech k) (gs_Balances (pb_ExportGenesis unbech s))"
    using all(2-4) by (auto simp: e list_all_iff fb_valid_def)
  have "map (\<lambda>fb. ToLower (fb_Address fb)) (gs_Balances (pb_ExportGenesis unbech s)) = map unbech (map fst (fractional s))"
    using all(1) bech32_codec.encode_lower [OF assms(1)] by (auto simp: e)
  moreover have "inj_on unbech (set (map fst (fractional s)))"
  proof (rule inj_onI)
    fix a b assume "a \<in> set (map fst (fractional s))" "b \<in> set (map fst (fractional s))" "unbech a = unbech b"
    then show "a = b" using all(4) by (metis (no_types, lifting) imageE list.set_map option.inject prod.collapse)
  qed
  moreover have "distinct (map fst (fractional s))"
    using assms(2) by (intro kv_ok_distinct) (simp add: pb_inv_def)
  ultimately show "distinct (map (\<lambda>fb. ToLower (fb_Address fb)) (gs_Balances (pb_ExportGenesis unbech s)))"
    by (metis distinct_map)
qed

end
