(* ===== verification/PreciseBankProps.thy ===== *)
theory PreciseBankProps
  imports PreciseBankProofs
begin

text \<open>
  The properties of \<^verbatim>\<open>x/precisebank\<close>, stated over the keeper functions themselves, and the
  reachability relation of the module. The reference keeper (a six-decimal coin over the
  reference ledger) interprets the locale \<open>precise_bank\<close> and carries the concrete instances.
\<close>

section \<open>The reference keeper\<close>

definition ref_pb :: "ledger pb_keeper" where
  "ref_pb =
     \<lparr>bk = ref_bank, ak = ref_accounts [''minter'', ''burner''], sdk = ref_coins,
      evmCoin = \<lparr>Denom = ''uatom'', ExtendedDenom = ''aatom'', DisplayDenom = ''atom'', Decimals = 6\<rparr>\<rparr>"

text \<open>Two holders, five and no integer coins; the first owns half a coin in fractions, the
  reserve one coin and the EVM module three.\<close>

definition alice :: address where "alice = [1]"
definition bob :: address where "bob = [2]"

definition ref_ledger :: ledger where
  "ref_ledger =
     \<lparr>lg_balance = (\<lambda>a d. if d \<noteq> ''uatom'' then 0
        else if a = alice then 5 else if a = 255 # StringToBytes ''evm'' then 3
        else if a = 255 # StringToBytes ''precisebank'' then 1 else 0),
      lg_supply = (\<lambda>d. if d = ''uatom'' then 9 else 0)\<rparr>"

definition ref_state :: "ledger pb_state" where
  "ref_state =
     \<lparr>fractional = [(alice, 500000000000)], remainder = Some 500000000000, bank = ref_ledger, pb_events = []\<rparr>"

lemma ref_pb_simps [simp]:
  "bk ref_pb = ref_bank" "ak ref_pb = ref_accounts [''minter'', ''burner'']" "sdk ref_pb = ref_coins"
  "IntegerCoinDenom ref_pb = ''uatom''" "ExtendedCoinDenom ref_pb = ''aatom''"
  "ConversionFactor ref_pb = 1000000000000" "reserve ref_pb = 255 # StringToBytes ''precisebank''"
  by (simp_all add: ref_pb_def IntegerCoinDenom_def ExtendedCoinDenom_def ConversionFactor_def
      EvmConversionFactor_def Decimals_ConversionFactor_def ConversionFactors_def reserve_def
      module_addr_def ref_accounts_def ref_module_addr_def pb_ModuleName_def)

interpretation rp: precise_bank ref_pb
  unfolding precise_bank_def precise_bank_axioms_def ref_pb_simps
  by (intro conjI rb.bank_laws_axioms)
    (auto simp: coin_info_ok_def ref_pb_def ref_coins_def EighteenDecimals_def
      ref_accounts_def ref_module_addr_def pb_ModuleName_def)

lemma ref_state_inv: "pb_inv ref_pb ref_state"
  by (simp add: pb_inv_def ref_state_def GetRemainderAmount_def integer_balance_def ref_bank_def
      ref_ledger_def alice_def StringToBytes_inj)

lemma ref_holders: "holder ref_pb alice" "holder ref_pb bob"
  by (auto simp: holder_def alice_def bob_def)

text \<open>Unfolding the reference keeper on concrete states.\<close>

lemmas pb_eval =
  SendCoins_def sendExtendedCoins_def subFromFractionalBalance_def addToFractionalBalance_def
  MintCoins_def mintExtendedCoin_def BurnCoins_def burnExtendedCoin_def SumExtendedCoin_def
  new_coins_def on_bank_def reraise_def GetFractionalBalance_def GetRemainderAmount_def
  SetFractionalBalance_Ok SetRemainderAmount_Ok frac_upd_def HasPermission_def Let_def
  ref_state_def ref_ledger_def ref_coins_def ref_bank_def lg_send_def lg_mint_def lg_burn_def lg_covers_def
  lg_add_def lg_issue_def ref_add_coin_def ref_valid_def ref_accounts_def ref_module_addr_def
  alice_def bob_def pb_ModuleName_def kv_delete_def kv_amount_def StringToBytes_def is_ok_def module_addr_def

lemma ref_send: "\<exists>s'. SendCoins ref_pb alice bob [(''aatom'', 1600000000000)] ref_state = Ok s'"
  by (simp add: pb_eval)

lemma ref_spendable: "ext_spendable ref_pb alice ref_state = 5500000000000"
  by (simp add: ext_spendable_def pb_eval)

lemma alice_bob: "alice \<noteq> bob"
  by (simp add: alice_def bob_def)

lemma ref_evm_account:
  "GetModuleAccount (ak ref_pb) ''evm'' =
     Some \<lparr>ma_address = 255 # StringToBytes ''evm'', ma_permissions = [''minter'', ''burner'']\<rparr>"
  by (simp add: ref_accounts_def ref_module_addr_def)

lemma ref_evm_module: "''evm'' \<noteq> pb_ModuleName"
  by (simp add: pb_ModuleName_def)

lemma ref_evm_perms:
  "HasPermission \<lparr>ma_address = a, ma_permissions = [''minter'', ''burner'']\<rparr> ''minter''"
  "HasPermission \<lparr>ma_address = a, ma_permissions = [''minter'', ''burner'']\<rparr> ''burner''"
  by (simp_all add: HasPermission_def)

section \<open>Transfers\<close>

text \<open>
  C1. A successful \<open>SendCoins\<close> between two accounts moves exactly the value of the coins, in
  extended units, from the sender to the recipient, changes nobody else's extended balance,
  moves every other denomination by its amount, leaves the supply and the remainder alone, and
  keeps the reserve backing the fractions exactly.
\<close>

theorem SendCoins_exact:
  assumes "precise_bank k" and "pb_inv k s" and "holder k from" and "holder k to"
    and "SendCoins k from to amt s = Ok s'"
  shows "pb_inv k s' \<and> sent_coins k from to amt s s'"
  using precise_bank.send_coins_spec [OF assms(1-4), of amt] assms(5) by simp

theorem SendCoins_exact_witness:
  "\<exists>s'. SendCoins ref_pb alice bob [(''aatom'', 1600000000000)] ref_state = Ok s' \<and>
     pb_inv ref_pb s' \<and> sent_coins ref_pb alice bob [(''aatom'', 1600000000000)] ref_state s'"
  using ref_send SendCoins_exact [OF rp.precise_bank_axioms ref_state_inv ref_holders] by blast

text \<open>
  Sending \<open>amt\<close> extended coins between two different accounts succeeds exactly when the
  sender can spend them, integer and fractional parts together; otherwise the error is
  insufficient funds and names the requested amount. It never panics, so in particular the
  reserve can always pay the carry.
\<close>

lemma sendExtendedCoins_total:
  assumes "precise_bank k" and "pb_inv k s" and "holder k from" and "holder k to" and "from \<noteq> to" and "0 < amt"
  shows "if amt \<le> ext_spendable k from s then is_ok (sendExtendedCoins k from to amt s)
    else \<exists>x. sendExtendedCoins k from to amt s = Fail (ErrInsufficientFunds (Some (x, amt)))"
  using precise_bank.send_extended_spec [OF assms] by (auto simp: is_ok_def split: if_splits)

text \<open>
  \<open>SendCoins\<close> between two accounts never panics, whatever the coins: it succeeds, or reports
  invalid coins or insufficient funds.
\<close>

lemma SendCoins_errors:
  assumes "precise_bank k" and "pb_inv k s" and "holder k from" and "holder k to"
  shows "case SendCoins k from to amt s of Ok _ \<Rightarrow> IsValid (sdk k) amt
    | Fail e \<Rightarrow> e = ErrInvalidCoins \<or> (\<exists>x. e = ErrInsufficientFunds x) | Panic _ \<Rightarrow> False"
  using precise_bank.send_coins_spec [OF assms, of amt]
  by (cases "SendCoins k from to amt s") (auto simp: SendCoins_def res_simps)

section \<open>Minting and burning\<close>

text \<open>
  C15. \<open>MintCoins\<close> to a module account with the minter permission never fails on valid coins; it
  adds exactly their value to that account and to the extended supply (integer supply in
  extended units minus the remainder) and keeps the reserve backing exact.
\<close>

theorem MintCoins_exact:
  assumes "precise_bank k" and "pb_inv k s" and "GetModuleAccount (ak k) m = Some acc"
    and "m \<noteq> pb_ModuleName" and "HasPermission acc ''minter''" and "IsValid (sdk k) amt"
  shows "\<exists>s'. MintCoins k m amt s = Ok s' \<and> pb_inv k s' \<and> issued_coins k 1 (ma_address acc) amt s s'"
  using precise_bank.mint_coins_spec [OF assms] by (cases "MintCoins k m amt s") auto

theorem MintCoins_exact_witness:
  "\<exists>s'. MintCoins ref_pb ''evm'' [(''aatom'', 1600000000000)] ref_state = Ok s' \<and> pb_inv ref_pb s' \<and>
     issued_coins ref_pb 1 (255 # StringToBytes ''evm'') [(''aatom'', 1600000000000)] ref_state s'"
  using MintCoins_exact [OF rp.precise_bank_axioms ref_state_inv ref_evm_account ref_evm_module ref_evm_perms(1),
      of "[(''aatom'', 1600000000000)]"]
  by (simp add: ref_coins_def ref_valid_def)

text \<open>
  C16. \<open>BurnCoins\<close> from a module account with the burner permission either reports insufficient
  funds or removes exactly the value of the coins from that account and from the extended supply,
  keeping the reserve backing exact. It never panics.
\<close>

theorem BurnCoins_exact:
  assumes "precise_bank k" and "pb_inv k s" and "GetModuleAccount (ak k) m = Some acc"
    and "m \<noteq> pb_ModuleName" and "HasPermission acc ''burner''" and "IsValid (sdk k) amt"
  shows "(\<exists>s'. BurnCoins k m amt s = Ok s' \<and> pb_inv k s' \<and> issued_coins k (- 1) (ma_address acc) amt s s') \<or>
    (\<exists>x. BurnCoins k m amt s = Fail (ErrInsufficientFunds x))"
  using precise_bank.burn_coins_spec [OF assms] by (cases "BurnCoins k m amt s") auto

theorem BurnCoins_exact_witness:
  "\<exists>s'. BurnCoins ref_pb ''evm'' [(''aatom'', 7)] ref_state = Ok s' \<and> pb_inv ref_pb s' \<and>
     issued_coins ref_pb (- 1) (255 # StringToBytes ''evm'') [(''aatom'', 7)] ref_state s'"
proof -
  have "is_ok (BurnCoins ref_pb ''evm'' [(''aatom'', 7)] ref_state)"
    by (simp add: pb_eval)
  then show ?thesis
    using BurnCoins_exact [OF rp.precise_bank_axioms ref_state_inv ref_evm_account ref_evm_module ref_evm_perms(2),
        of "[(''aatom'', 7)]"]
    by (auto simp: ref_coins_def ref_valid_def is_ok_def)
qed

text \<open>
  Burning \<open>amt\<close> extended coins succeeds exactly when the module account's extended balance
  covers them.
\<close>

lemma burnExtendedCoin_total:
  assumes "precise_bank k" and "pb_inv k s" and "GetModuleAccount (ak k) m = Some acc"
    and "m \<noteq> pb_ModuleName" and "HasPermission acc ''burner''" and "0 < amt"
  shows "is_ok (burnExtendedCoin k m amt s) \<longleftrightarrow> amt \<le> ext_balance k (ma_address acc) s"
  using precise_bank.burn_extended_spec [OF assms] by (auto simp: is_ok_def split: if_splits)

section \<open>Genesis\<close>

text \<open>
  \<open>InitGenesis\<close> on an empty store leaves a state in which every fraction is in range and the
  reserve backs the fractions and the remainder exactly.
\<close>

lemma InitGenesis_establishes_backing:
  assumes "bech32_codec bech unbech" and "pb_InitGenesis bech k gs s = Ok s'" and "fractional s = []"
  shows "pb_inv k s' \<and> GetTotalSumFractionalBalances s' + GetRemainderAmount s' =
    bk_GetBalance (bk k) (bank s') (reserve k) (IntegerCoinDenom k) * ConversionFactor k"
  using genesis_inv [OF assms] by (simp add: pb_inv_def GetTotalSumFractionalBalances_sum integer_balance_def)

definition ref_genesis :: pb_genesis where
  "ref_genesis = \<lparr>gs_Balances = [\<lparr>fb_Address = ref_unbech alice, fb_Amount = Some 500000000000\<rparr>],
    gs_Remainder = Some 500000000000\<rparr>"

definition ref_empty :: "ledger pb_state" where
  "ref_empty = ref_state\<lparr>fractional := [], remainder := None\<rparr>"

lemma ref_init: "pb_InitGenesis ref_bech ref_pb ref_genesis ref_empty = Ok ref_state"
proof -
  have b: "ref_bech (ref_unbech alice) = Some alice"
    by (rule rbech.decode_encode) (simp add: alice_def)
  have "integer_balance ref_pb (255 # StringToBytes ''precisebank'') ref_empty = 1"
    by (simp add: integer_balance_def ref_empty_def pb_eval)
  then show ?thesis
    using rbech.decode_nonempty
    by (simp add: pb_InitGenesis_Ok pb_Genesis_Validate_Ok ref_genesis_def fb_valid_def b fb_entry_def
        ref_empty_def ref_state_def ref_accounts_def ref_module_addr_def pb_ModuleName_def)
qed

text \<open>
  Exporting the module's genesis and importing it into an empty store over the same bank gives
  back the same fractional balances and remainder; the import never fails.
\<close>

lemma genesis_round_trip:
  assumes "precise_bank k" and "bech32_codec bech unbech" and "pb_inv k s"
  shows "pb_InitGenesis bech k (pb_ExportGenesis unbech s) (s\<lparr>fractional := [], remainder := None\<rparr>) = Ok s"
proof -
  note e = export_entries [OF assms(2,3)]
  let ?gs = "pb_ExportGenesis unbech s"
  have r: "gs_Remainder ?gs = Some (GetRemainderAmount s)" by (simp add: pb_ExportGenesis_def)
  have sum: "sum_list (map (snd \<circ> fb_entry bech) (gs_Balances ?gs)) = kv_sum (fractional s)"
    unfolding kv_sum_def e(1) [symmetric] by simp
  have inv: "0 \<le> GetRemainderAmount s" "GetRemainderAmount s < ConversionFactor k" "kv_ok (fractional s)"
    "kv_sum (fractional s) + GetRemainderAmount s = integer_balance k (reserve k) s * ConversionFactor k"
    "remainder s = (if GetRemainderAmount s = 0 then None else Some (GetRemainderAmount s))"
    using assms(3) by (auto simp: pb_inv_def GetRemainderAmount_def split: option.splits)
  have "GetModuleAccount (ak k) pb_ModuleName \<noteq> None"
    using precise_bank.reserve_account [OF assms(1)] by auto
  moreover have "pb_Genesis_Validate bech k ?gs = Ok ()"
    using e(2,3) inv by (simp add: pb_Genesis_Validate_Ok r sum)
  moreover have "s = s\<lparr>fractional := kv_build (fractional s) [],
      remainder := (if GetRemainderAmount s = 0 then None else Some (GetRemainderAmount s))\<rparr>"
    using inv(5) by (simp add: kv_build_self [OF inv(3)])
  ultimately show ?thesis
    using inv(4) bech32_codec.decode_nonempty [OF assms(2)]
    by (subst pb_InitGenesis_Ok) (auto simp: r sum e(1))
qed

section \<open>Every reachable state\<close>

text \<open>
  The steps of the chain as the module sees them: its own entry points, called for accounts other
  than the reserve, and anything else that happens in \<^verbatim>\<open>x/bank\<close> and leaves the reserve's integer
  balance alone.
\<close>

inductive pb_step :: "(string \<Rightarrow> address option) \<Rightarrow> 'b pb_keeper \<Rightarrow> 'b pb_state \<Rightarrow> 'b pb_state \<Rightarrow> bool"
  for codec :: "string \<Rightarrow> address option" and k :: "'b pb_keeper" where
  send: "holder k f \<Longrightarrow> holder k t \<Longrightarrow> SendCoins k f t amt s = Ok s' \<Longrightarrow> pb_step codec k s s'"
| to_module: "holder k f \<Longrightarrow> SendCoinsFromAccountToModule k f m amt s = Ok s' \<Longrightarrow> pb_step codec k s s'"
| from_module: "holder k t \<Longrightarrow> SendCoinsFromModuleToAccount k m t amt s = Ok s' \<Longrightarrow> pb_step codec k s s'"
| between_modules: "m \<noteq> pb_ModuleName \<Longrightarrow> SendCoinsFromModuleToModule k m n amt s = Ok s' \<Longrightarrow> pb_step codec k s s'"
| msg_send: "(\<And>a. codec (FromAddress msg) = Some a \<Longrightarrow> holder k a) \<Longrightarrow>
    (\<And>a. codec (ToAddress msg) = Some a \<Longrightarrow> holder k a) \<Longrightarrow> pb_Send codec k msg s = Ok s' \<Longrightarrow> pb_step codec k s s'"
| mint: "MintCoins k m amt s = Ok s' \<Longrightarrow> pb_step codec k s s'"
| burn: "BurnCoins k m amt s = Ok s' \<Longrightarrow> pb_step codec k s s'"
| elsewhere: "integer_balance k (reserve k) (s\<lparr>bank := b\<rparr>) = integer_balance k (reserve k) s \<Longrightarrow>
    pb_step codec k s (s\<lparr>bank := b\<rparr>)"

inductive pb_reachable :: "(string \<Rightarrow> address option) \<Rightarrow> 'b pb_keeper \<Rightarrow> 'b pb_state \<Rightarrow> bool"
  for codec :: "string \<Rightarrow> address option" and k :: "'b pb_keeper" where
  genesis: "fractional s = [] \<Longrightarrow> pb_InitGenesis codec k gs s = Ok s' \<Longrightarrow> pb_reachable codec k s'"
| step: "pb_reachable codec k s \<Longrightarrow> pb_step codec k s s' \<Longrightarrow> pb_reachable codec k s'"

lemma mint_guards:
  "MintCoins k m amt s = Ok s' \<Longrightarrow> \<exists>acc. GetModuleAccount (ak k) m = Some acc \<and> m \<noteq> pb_ModuleName \<and>
     HasPermission acc ''minter'' \<and> IsValid (sdk k) amt"
  by (auto simp: MintCoins_def res_simps split: option.splits)

lemma burn_guards:
  "BurnCoins k m amt s = Ok s' \<Longrightarrow> \<exists>acc. GetModuleAccount (ak k) m = Some acc \<and> m \<noteq> pb_ModuleName \<and>
     HasPermission acc ''burner'' \<and> IsValid (sdk k) amt"
  by (auto simp: BurnCoins_def res_simps split: option.splits)

context precise_bank
begin

lemma address_holder: "GetModuleAddress (ak k) m = Some a \<Longrightarrow> m \<noteq> pb_ModuleName \<Longrightarrow> holder k a"
  using module_address_nonempty [of m a] module_address_inj [of m a pb_ModuleName] reserve_address
  by (auto simp: holder_def)

lemma send_inv:
  "pb_inv k s \<Longrightarrow> holder k f \<Longrightarrow> holder k t \<Longrightarrow> SendCoins k f t amt s = Ok s' \<Longrightarrow> pb_inv k s'"
  using send_coins_spec [of s f t amt] by simp

lemma step_inv:
  assumes "pb_step codec k s s'" and inv: "pb_inv k s"
  shows "pb_inv k s'"
  using assms(1)
proof (cases rule: pb_step.cases)
  case (send f t amt)
  then show ?thesis using send_inv [OF inv] by blast
next
  case (to_module f m amt)
  then show ?thesis
    by (auto simp: SendCoinsFromAccountToModule_def res_simps split: option.splits intro: send_inv [OF inv] address_holder module_holder(1))
next
  case (from_module t m amt)
  then show ?thesis
    by (auto simp: SendCoinsFromModuleToAccount_def res_simps split: option.splits intro: send_inv [OF inv] address_holder module_holder(1))
next
  case (between_modules m n amt)
  then show ?thesis
    by (auto simp: SendCoinsFromModuleToModule_def res_simps split: option.splits intro: send_inv [OF inv] address_holder module_holder(1))
next
  case (msg_send msg)
  then show ?thesis
    by (auto simp: pb_Send_def res_simps split: option.splits intro: send_inv [OF inv] address_holder module_holder(1))
next
  case (mint m amt)
  then show ?thesis using mint_guards [OF mint] mint_coins_spec [OF inv] by fastforce
next
  case (burn m amt)
  then show ?thesis using burn_guards [OF burn] burn_coins_spec [OF inv] by fastforce
next
  case (elsewhere b)
  then show ?thesis using inv by (simp add: pb_inv_def)
qed

lemma reachable_inv:
  assumes "bech32_codec codec unbech" and "pb_reachable codec k s"
  shows "pb_inv k s"
  using assms(2) by induction (use assms(1) in \<open>auto intro: genesis_inv step_inv\<close>)

end

text \<open>
  C3. In every state reachable from a genesis by transfers, module transfers, messages, mints,
  burns and unrelated bank activity, every fractional balance and the remainder lie below one
  integer coin and the reserve's integer coins are worth exactly the sum of the fractional
  balances and the remainder.
\<close>

theorem reachable_fully_backed:
  assumes "precise_bank k" and "bech32_codec codec unbech" and "pb_reachable codec k s"
  shows "GetTotalSumFractionalBalances s + GetRemainderAmount s =
      bk_GetBalance (bk k) (bank s) (reserve k) (IntegerCoinDenom k) * ConversionFactor k \<and>
    0 \<le> GetFractionalBalance a s \<and> GetFractionalBalance a s < ConversionFactor k \<and>
    0 \<le> GetRemainderAmount s \<and> GetRemainderAmount s < ConversionFactor k"
proof -
  have inv: "pb_inv k s" using precise_bank.reachable_inv [OF assms] .
  then show ?thesis
    using pb_inv_range [OF inv, of a] precise_bank.CF_pos [OF assms(1)]
    by (auto simp: pb_inv_def GetTotalSumFractionalBalances_sum integer_balance_def)
qed

theorem reachable_fully_backed_witness:
  "\<exists>s'. SendCoins ref_pb alice bob [(''aatom'', 1600000000000)] ref_state = Ok s' \<and>
     GetTotalSumFractionalBalances s' + GetRemainderAmount s' =
       bk_GetBalance ref_bank (bank s') (255 # StringToBytes ''precisebank'') ''uatom'' * 1000000000000"
proof -
  obtain s' where s': "SendCoins ref_pb alice bob [(''aatom'', 1600000000000)] ref_state = Ok s'"
    using ref_send by blast
  have "pb_reachable ref_bech ref_pb ref_state"
    by (rule pb_reachable.genesis [OF _ ref_init]) (simp add: ref_empty_def)
  then have "pb_reachable ref_bech ref_pb s'"
    by (rule pb_reachable.step) (rule pb_step.send [OF ref_holders s'])
  from reachable_fully_backed [OF rp.precise_bank_axioms rbech.bech32_codec_axioms this] s'
  show ?thesis by auto
qed

section \<open>Views, events and gaps\<close>

text \<open>
  The balance the module shows for the extended denomination is the integer balance in
  extended units plus the fraction for every account but the reserve, and zero for the reserve,
  whose coins already back the fractions.
\<close>

lemma GetBalance_extended:
  assumes "precise_bank k" and "pb_inv k s"
  shows "GetBalance k a (ExtendedCoinDenom k) s =
    Ok (ExtendedCoinDenom k, if a = reserve k then 0 else ext_balance k a s)"
proof -
  have laws: "bank_laws (sdk k) (bk k) (ak k)" and coins: "sdk_coins (sdk k)"
    using assms(1) by (simp_all add: precise_bank_def bank_laws_def)
  have "0 \<le> ext_balance k a s"
    using pb_inv_range(1) [OF assms(2), of a] precise_bank.CF_pos [OF assms(1)] bank_laws.balance_nonneg [OF laws]
    by (simp add: ext_balance_def integer_balance_def)
  then show ?thesis
    using precise_bank.denoms_valid(2) [OF assms(1)]
    by (auto simp: GetBalance_def ext_balance_def integer_balance_def sdk_coins.new_coin [OF coins])
qed

text \<open>
  The amount in the transfer, mint and burn events is the value of the coins in extended
  units when the integer and the extended denomination differ. When they are the same, as the
  configuration of an 18 decimal coin requires, the amount is counted twice.
\<close>

lemma SumExtendedCoin_value:
  assumes "precise_bank k" and "IsValid (sdk k) amt"
  shows "SumExtendedCoin k amt =
    Ok (ExtendedCoinDenom k,
        (if IntegerCoinDenom k = ExtendedCoinDenom k
         then ext_value k amt + AmountOf (sdk k) amt (ExtendedCoinDenom k) * ConversionFactor k
         else ext_value k amt))"
proof -
  have coins: "sdk_coins (sdk k)"
    using assms(1) by (simp add: precise_bank_def bank_laws_def)
  have "0 \<le> AmountOf (sdk k) amt (IntegerCoinDenom k) * ConversionFactor k + AmountOf (sdk k) amt (ExtendedCoinDenom k)"
    using sdk_coins.amount_nonneg [OF coins assms(2)] precise_bank.CF_pos [OF assms(1)] by simp
  then show ?thesis
    using precise_bank.denoms_valid(2) [OF assms(1)]
    by (auto simp: SumExtendedCoin_def ext_value_def sdk_coins.new_coin [OF coins])
qed

definition ref_pb18 :: "ledger pb_keeper" where
  "ref_pb18 = ref_pb\<lparr>evmCoin :=
     \<lparr>Denom = ''agxn'', ExtendedDenom = ''agxn'', DisplayDenom = ''gxn'', Decimals = 18\<rparr>\<rparr>"

lemma ref_pb18_simps [simp]:
  "bk ref_pb18 = ref_bank" "ak ref_pb18 = ref_accounts [''minter'', ''burner'']" "sdk ref_pb18 = ref_coins"
  "IntegerCoinDenom ref_pb18 = ''agxn''" "ExtendedCoinDenom ref_pb18 = ''agxn''" "ConversionFactor ref_pb18 = 1"
  by (simp_all add: ref_pb18_def ref_pb_def IntegerCoinDenom_def ExtendedCoinDenom_def ConversionFactor_def
      EvmConversionFactor_def Decimals_ConversionFactor_def ConversionFactors_def)

interpretation rp18: precise_bank ref_pb18
  unfolding precise_bank_def precise_bank_axioms_def ref_pb18_simps
  by (intro conjI rb.bank_laws_axioms)
    (auto simp: coin_info_ok_def ref_pb18_def ref_coins_def EighteenDecimals_def
      ref_accounts_def ref_module_addr_def pb_ModuleName_def)

text \<open>
  C17. \<open>SendCoinsFromModuleToModule\<close> refuses the reserve as recipient but not as sender: from every fully backed state it moves any
  positive number of the integer coins in the reserve to any other module, the fractions and the remainder stay, and so they are no longer backed.
\<close>

theorem SendCoinsFromModuleToModule_drains_reserve:
  assumes "precise_bank k" and "IntegerCoinDenom k \<noteq> ExtendedCoinDenom k" and "pb_inv k s"
    and "GetModuleAccount (ak k) m = Some acc" and "m \<noteq> pb_ModuleName" and "0 < n" and "n \<le> integer_balance k (reserve k) s"
  shows "\<exists>s'. SendCoinsFromModuleToModule k pb_ModuleName m [(IntegerCoinDenom k, n)] s = Ok s' \<and>
    integer_balance k (reserve k) s' = integer_balance k (reserve k) s - n \<and> fractional s' = fractional s \<and> remainder s' = remainder s \<and>
    \<not> pb_inv k s'"
proof -
  have B: "bank_laws (sdk k) (bk k) (ak k)" using assms(1) by (simp add: precise_bank_def)
  note addr = precise_bank.reserve_address [OF assms(1)] bank_laws.module_account [OF B assms(4)]
  have far: "ma_address acc \<noteq> reserve k" using bank_laws.module_address_inj [OF B addr(1), of m] addr(2) assms(5) by auto
  have "n \<le> bk_SpendableCoin (bk k) (bank s) (reserve k) (IntegerCoinDenom k)"
    using assms(7) bank_laws.module_spendable [OF B addr(1)] by (simp add: integer_balance_def)
  then obtain b ev where b: "SendCoins k (reserve k) (ma_address acc) [(IntegerCoinDenom k, n)] s = Ok (s\<lparr>bank := b, pb_events := ev\<rparr>)"
    "bk_GetBalance (bk k) b (reserve k) (IntegerCoinDenom k) = bk_GetBalance (bk k) (bank s) (reserve k) (IntegerCoinDenom k) - n"
    using precise_bank.send_other_coin [OF assms(1,2) precise_bank.denoms_valid(1) [OF assms(1)] assms(6), of s "reserve k" "ma_address acc"] far
    by auto
  let ?s = "s\<lparr>bank := b, pb_events := ev\<rparr>"
  have "SendCoinsFromModuleToModule k pb_ModuleName m [(IntegerCoinDenom k, n)] s = Ok ?s"
    using addr(1) assms(4,5) b(1) by (simp add: SendCoinsFromModuleToModule_def)
  moreover have i: "integer_balance k (reserve k) ?s = integer_balance k (reserve k) s - n" using b(2) by (simp add: integer_balance_def)
  moreover have "n * ConversionFactor k \<noteq> 0" using assms(6) precise_bank.CF_pos [OF assms(1)] by simp
  then have "\<not> pb_inv k ?s" using assms(3) unfolding pb_inv_def i by (auto simp: GetRemainderAmount_def left_diff_distrib)
  ultimately show ?thesis by auto
qed

theorem SendCoinsFromModuleToModule_drains_reserve_witness:
  "\<exists>s'. SendCoinsFromModuleToModule ref_pb pb_ModuleName ''evm'' [(''uatom'', 1)] ref_state = Ok s' \<and> \<not> pb_inv ref_pb s'"
proof -
  obtain acc where "GetModuleAccount (ak ref_pb) ''evm'' = Some acc" by (simp add: ref_accounts_def ref_module_addr_def)
  moreover have "integer_balance ref_pb (reserve ref_pb) ref_state = 1" by (simp add: integer_balance_def pb_eval)
  ultimately show ?thesis
    using SendCoinsFromModuleToModule_drains_reserve [OF rp.precise_bank_axioms _ ref_state_inv, of "''evm''" acc 1] by (auto simp: pb_ModuleName_def)
qed

text \<open>
  When the integer part of a transfer goes through and the borrow of the last integer coin
  then fails, the insufficient-funds error reports the balance left after the first transfer
  (half a coin) instead of the balance the sender had (five and a half).
\<close>

lemma sendExtendedCoins_error_after_partial_transfer:
  "ext_spendable ref_pb alice ref_state = 5500000000000 \<and>
   sendExtendedCoins ref_pb alice bob 5600000000000 ref_state =
     Fail (ErrInsufficientFunds (Some (500000000000, 5600000000000)))"
  using ref_spendable
  by (simp add: pb_eval updateInsufficientFundsError_def SpendableCoin_def)

end
