(* ===== verification/VMKeeper.thy ===== *)
theory VMKeeper
  imports StateDBProps PreciseBankProps
begin

text \<open>
  The keeper of \<^verbatim>\<open>x/vm\<close> as a state backend: \<^verbatim>\<open>keeper/statedb.go\<close>, the account and transient store
  functions of \<^verbatim>\<open>keeper/keeper.go\<close>, the key layout of \<^verbatim>\<open>types/key.go\<close> and the bank wrapper of
  \<^verbatim>\<open>wrappers/bank.go\<close>. The wrapper's bank keeper is the precise bank (as \<^verbatim>\<open>gurud/app.go\<close> wires it);
  the account keeper of \<^verbatim>\<open>x/auth\<close> is a record of operations with the laws \<open>auth_laws\<close>. The last
  section shows that this keeper is a \<open>db_store\<close>: what the journaled state relies on holds of the
  code that implements it. An error carries no context: what a failing call has already written is
  dropped by every caller with the transaction. Logging is left out.
\<close>

section \<open>The account keeper\<close>

record ('s, 'a) auth_keeper =
  au_GetAccount :: "'s \<Rightarrow> address \<Rightarrow> 'a option"
  au_NewAccountWithAddress :: "address \<Rightarrow> 's \<Rightarrow> 'a \<times> 's"
  au_SetAccount :: "'a \<Rightarrow> 's \<Rightarrow> 's"
  au_RemoveAccount :: "'a \<Rightarrow> 's \<Rightarrow> 's"
  acc_GetAddress :: "'a \<Rightarrow> address"
  acc_GetSequence :: "'a \<Rightarrow> uint64"
  acc_SetSequence :: "uint64 \<Rightarrow> 'a \<Rightarrow> 'a res"
  acc_NewBaseAccount :: "address \<Rightarrow> 'a \<Rightarrow> 'a"

text \<open>
  \<open>acc_NewBaseAccount a x\<close> is \<^verbatim>\<open>NewBaseAccount(a, x.GetPubKey(), x.GetAccountNumber(), x.GetSequence())\<close>.
  \<^verbatim>\<open>NewAccountWithAddress\<close> draws an account number, which is state of the account keeper, and does
  not store the account.
\<close>

locale auth_laws =
  fixes A :: "('s, 'a) auth_keeper"
  assumes get_address: "au_GetAccount A s a = Some x \<Longrightarrow> acc_GetAddress A x = a"
    and get_set: "au_GetAccount A (au_SetAccount A x s) = (au_GetAccount A s)(acc_GetAddress A x \<mapsto> x)"
    and get_remove: "au_GetAccount A (au_RemoveAccount A x s) = (au_GetAccount A s)(acc_GetAddress A x := None)"
    and new_account: "au_NewAccountWithAddress A a s = (x, s') \<Longrightarrow>
      acc_GetAddress A x = a \<and> au_GetAccount A s' = au_GetAccount A s"
    and new_sequence: "au_NewAccountWithAddress A a s = (x, s') \<Longrightarrow> acc_GetSequence A x = 0"
    and set_sequence: "acc_SetSequence A n x = Ok y \<Longrightarrow>
      acc_GetAddress A y = acc_GetAddress A x \<and> acc_GetSequence A y = n"
    and set_sequence_total: "acc_SetSequence A n x \<noteq> Panic p"
    and base_address: "acc_GetAddress A (acc_NewBaseAccount A a x) = a"

section \<open>Keys\<close>

definition vm_ModuleName :: string where
  "vm_ModuleName = ''evm''"

definition KeyPrefixCode :: bytes where "KeyPrefixCode = [1]"
definition KeyPrefixStorage :: bytes where "KeyPrefixStorage = [2]"
definition KeyPrefixParams :: bytes where "KeyPrefixParams = [3]"
definition KeyPrefixCodeHash :: bytes where "KeyPrefixCodeHash = [4]"
definition KeyPrefixTransientBloom :: bytes where "KeyPrefixTransientBloom = [1]"
definition KeyPrefixTransientTxIndex :: bytes where "KeyPrefixTransientTxIndex = [2]"
definition KeyPrefixTransientLogSize :: bytes where "KeyPrefixTransientLogSize = [3]"
definition KeyPrefixTransientGasUsed :: bytes where "KeyPrefixTransientGasUsed = [4]"

definition addr_Bytes :: "addr \<Rightarrow> bytes" where
  "addr_Bytes a = be_bytes 20 a"

definition AddressStoragePrefix :: "addr \<Rightarrow> bytes" where
  "AddressStoragePrefix a = KeyPrefixStorage @ addr_Bytes a"

definition StateKey :: "addr \<Rightarrow> bytes \<Rightarrow> bytes" where
  "StateKey a key = AddressStoragePrefix a @ key"

section \<open>The keeper and its context\<close>

record ('s, 'b) vm_ctx =
  auth_state :: 's
  bank_state :: "'b pb_state"
  evm_store :: "(bytes, bytes) kv"
  tstore :: "(bytes, bytes) kv"
  block_height :: int

text \<open>The last four fields are the SDK's multi store and cache, as the state database uses them.\<close>

record ('s, 'a, 'b, 'v) vm_keeper =
  accountKeeper :: "('s, 'a) auth_keeper"
  bankWrapper :: "'b pb_keeper"
  Keccak256 :: "bytes \<Rightarrow> hash"
  storeKeys :: "string list"
  vm_stores :: "('s, 'b) vm_ctx \<Rightarrow> (string \<Rightarrow> 'v) option"
  vm_put_stores :: "(string \<Rightarrow> 'v option) \<Rightarrow> ('s, 'b) vm_ctx \<Rightarrow> ('s, 'b) vm_ctx"
  vm_cache_ops :: "'v cachekv_ops"

text \<open>A prefix store over \<open>s\<close>: \<^verbatim>\<open>prefix.NewStore(s, p).Get(key)\<close>, \<^verbatim>\<open>.Set\<close> and \<^verbatim>\<open>.Delete\<close>.\<close>

definition pget :: "bytes \<Rightarrow> (bytes, bytes) kv \<Rightarrow> bytes \<Rightarrow> bytes option" where
  "pget p s key = kv_get s (p @ key)"

definition pset :: "bytes \<Rightarrow> bytes \<Rightarrow> bytes \<Rightarrow> (bytes, bytes) kv \<Rightarrow> (bytes, bytes) kv" where
  "pset p key v s = kv_set (p @ key) v s"

definition pdel :: "bytes \<Rightarrow> bytes \<Rightarrow> (bytes, bytes) kv \<Rightarrow> (bytes, bytes) kv" where
  "pdel p key s = kv_delete (p @ key) s"

section \<open>The bank wrapper\<close>

definition MintAmountToAccount :: "'b pb_keeper \<Rightarrow> address \<Rightarrow> int \<Rightarrow> 'b pb_state \<Rightarrow> 'b pb_state res" where
  "MintAmountToAccount k recipientAddr amt s =
     bind_res (ConvertEvmCoinDenomToExtendedDenom (evmCoin k) (Denom (evmCoin k), amt)) (\<lambda>convertedCoin.
     let coinsToMint = [convertedCoin] in
     bind_res (MintCoins k vm_ModuleName coinsToMint s)
       (SendCoinsFromModuleToAccount k vm_ModuleName recipientAddr coinsToMint))"

definition BurnAmountFromAccount :: "'b pb_keeper \<Rightarrow> address \<Rightarrow> int \<Rightarrow> 'b pb_state \<Rightarrow> 'b pb_state res" where
  "BurnAmountFromAccount k acc amt s =
     bind_res (ConvertEvmCoinDenomToExtendedDenom (evmCoin k) (Denom (evmCoin k), amt)) (\<lambda>convertedCoin.
     let coinsToBurn = [convertedCoin] in
     bind_res (SendCoinsFromAccountToModule k acc vm_ModuleName coinsToBurn s)
       (BurnCoins k vm_ModuleName coinsToBurn))"

definition bw_GetBalance :: "'b pb_keeper \<Rightarrow> address \<Rightarrow> string \<Rightarrow> 'b pb_state \<Rightarrow> coin res" where
  "bw_GetBalance k a denom s =
     bind_res (must (denom = Denom (evmCoin k)) ''expected evm denom'') (\<lambda>_.
     GetBalance k a (ExtendedDenom (evmCoin k)) s)"

definition bw_SpendableCoin :: "'b pb_keeper \<Rightarrow> address \<Rightarrow> string \<Rightarrow> 'b pb_state \<Rightarrow> coin res" where
  "bw_SpendableCoin k a denom s =
     bind_res (must (denom = Denom (evmCoin k)) ''expected evm denom'') (\<lambda>_.
     SpendableCoin k a (ExtendedDenom (evmCoin k)) s)"

definition bw_SendCoinsFromAccountToModule ::
  "'b pb_keeper \<Rightarrow> address \<Rightarrow> string \<Rightarrow> coins \<Rightarrow> 'b pb_state \<Rightarrow> 'b pb_state res" where
  "bw_SendCoinsFromAccountToModule k senderAddr recipientModule cs s =
     (let convertedCoins = ConvertCoinsDenomToExtendedDenom (sdk k) (evmCoin k) cs in
      if CoinsIsZero (sdk k) convertedCoins then Ok s
      else SendCoinsFromAccountToModule k senderAddr recipientModule convertedCoins s)"

definition bw_SendCoinsFromModuleToAccount ::
  "'b pb_keeper \<Rightarrow> string \<Rightarrow> address \<Rightarrow> coins \<Rightarrow> 'b pb_state \<Rightarrow> 'b pb_state res" where
  "bw_SendCoinsFromModuleToAccount k senderModule recipientAddr cs s =
     (let convertedCoins = ConvertCoinsDenomToExtendedDenom (sdk k) (evmCoin k) cs in
      if CoinsIsZero (sdk k) convertedCoins then Ok s
      else SendCoinsFromModuleToAccount k senderModule recipientAddr convertedCoins s)"

section \<open>Reading accounts and storage\<close>

definition Uint256FromBigInt :: "int \<Rightarrow> uint256 res" where
  "Uint256FromBigInt i =
     (if i < 0 then Fail (ErrPlain ''trying to convert negative'')
      else if 2 ^ 256 \<le> i then Fail (ErrPlain ''overflow'')
      else Ok (word_of_int i))"

definition vm_EmptyCodeHash :: "('s, 'a, 'b, 'v) vm_keeper \<Rightarrow> hash" where
  "vm_EmptyCodeHash k = Keccak256 k []"

definition vm_GetState :: "('s, 'b) vm_ctx \<Rightarrow> addr \<Rightarrow> hash \<Rightarrow> hash" where
  "vm_GetState c a key =
     (case pget (AddressStoragePrefix a) (evm_store c) (hash_Bytes key) of
        None \<Rightarrow> 0
      | Some bs \<Rightarrow> if length bs = 0 then 0 else un_be bs)"

definition GetFastState :: "('s, 'b) vm_ctx \<Rightarrow> addr \<Rightarrow> hash \<Rightarrow> bytes option" where
  "GetFastState c a key = pget (AddressStoragePrefix a) (evm_store c) (hash_Bytes key)"

definition vm_GetCodeHash :: "('s, 'a, 'b, 'v) vm_keeper \<Rightarrow> ('s, 'b) vm_ctx \<Rightarrow> addr \<Rightarrow> hash" where
  "vm_GetCodeHash k c a =
     (case pget KeyPrefixCodeHash (evm_store c) (addr_Bytes a) of
        None \<Rightarrow> vm_EmptyCodeHash k
      | Some bs \<Rightarrow> if length bs = 0 then vm_EmptyCodeHash k else un_be bs)"

fun iterate_contracts :: "(addr \<Rightarrow> hash \<Rightarrow> 'x \<Rightarrow> 'x \<times> bool) \<Rightarrow> (bytes, bytes) kv \<Rightarrow> 'x \<Rightarrow> 'x" where
  "iterate_contracts cb [] x = x"
| "iterate_contracts cb ((key, v) # es) x =
     (case cb (un_be key) (un_be v) x of (y, stop) \<Rightarrow> if stop then y else iterate_contracts cb es y)"

definition IterateContracts :: "(addr \<Rightarrow> hash \<Rightarrow> 'x \<Rightarrow> 'x \<times> bool) \<Rightarrow> ('s, 'b) vm_ctx \<Rightarrow> 'x \<Rightarrow> 'x" where
  "IterateContracts cb c x = iterate_contracts cb (kv_prefix KeyPrefixCodeHash (evm_store c)) x"

definition vm_GetCode :: "('s, 'b) vm_ctx \<Rightarrow> hash \<Rightarrow> bytes option" where
  "vm_GetCode c codeHash = pget KeyPrefixCode (evm_store c) (hash_Bytes codeHash)"

text \<open>The pairs \<^verbatim>\<open>ForEachStorage\<close> offers to its callback, in order.\<close>

definition vm_ForEachStorage :: "('s, 'b) vm_ctx \<Rightarrow> addr \<Rightarrow> (hash \<times> hash) list" where
  "vm_ForEachStorage c a =
     map (\<lambda>(key, v). (un_be key, un_be v)) (kv_prefix (AddressStoragePrefix a) (evm_store c))"

definition GetAccountStorage :: "('s, 'b) vm_ctx \<Rightarrow> addr \<Rightarrow> (hash \<times> hash) list" where
  "GetAccountStorage c a = fold (\<lambda>(key, v) storage. storage @ [(key, v)]) (vm_ForEachStorage c a) []"

definition vm_IsContract :: "('s, 'b) vm_ctx \<Rightarrow> addr \<Rightarrow> bool" where
  "vm_IsContract c a \<longleftrightarrow> pget KeyPrefixCodeHash (evm_store c) (addr_Bytes a) \<noteq> None"

text \<open>The nonce and the code hash of an account that exists.\<close>

definition GetAccountWithoutBalance :: "('s, 'a, 'b, 'v) vm_keeper \<Rightarrow> ('s, 'b) vm_ctx \<Rightarrow> addr \<Rightarrow> (uint64 \<times> hash) option" where
  "GetAccountWithoutBalance k c a =
     (case au_GetAccount (accountKeeper k) (auth_state c) (addr_Bytes a) of
        None \<Rightarrow> None
      | Some acct \<Rightarrow> Some (acc_GetSequence (accountKeeper k) acct, vm_GetCodeHash k c a))"

definition vm_SpendableCoin :: "('s, 'a, 'b, 'v) vm_keeper \<Rightarrow> ('s, 'b) vm_ctx \<Rightarrow> addr \<Rightarrow> uint256 option res" where
  "vm_SpendableCoin k c a =
     bind_res (bw_SpendableCoin (bankWrapper k) (addr_Bytes a) (Denom (evmCoin (bankWrapper k))) (bank_state c)) (\<lambda>coin.
     Ok (case Uint256FromBigInt (snd coin) of Ok w \<Rightarrow> Some w | _ \<Rightarrow> None))"

definition vm_GetBalance :: "('s, 'a, 'b, 'v) vm_keeper \<Rightarrow> ('s, 'b) vm_ctx \<Rightarrow> addr \<Rightarrow> uint256 option res" where
  "vm_GetBalance k c a =
     bind_res (bw_GetBalance (bankWrapper k) (addr_Bytes a) (Denom (evmCoin (bankWrapper k))) (bank_state c)) (\<lambda>coin.
     Ok (case Uint256FromBigInt (snd coin) of Ok w \<Rightarrow> Some w | _ \<Rightarrow> None))"

text \<open>A nil balance is what \<^verbatim>\<open>newObject\<close> replaces by zero, the only reader of the account's balance.\<close>

definition vm_GetAccount :: "('s, 'a, 'b, 'v) vm_keeper \<Rightarrow> ('s, 'b) vm_ctx \<Rightarrow> addr \<Rightarrow> Account option res" where
  "vm_GetAccount k c a =
     (case GetAccountWithoutBalance k c a of
        None \<Rightarrow> Ok None
      | Some (nonce, codeHash) \<Rightarrow>
          bind_res (vm_SpendableCoin k c a) (\<lambda>balance.
          Ok (Some \<lparr>Nonce = nonce, Balance = (case balance of None \<Rightarrow> 0 | Some w \<Rightarrow> w), CodeHash = codeHash\<rparr>)))"

definition GetAccountOrEmpty :: "('s, 'a, 'b, 'v) vm_keeper \<Rightarrow> ('s, 'b) vm_ctx \<Rightarrow> addr \<Rightarrow> Account res" where
  "GetAccountOrEmpty k c a =
     bind_res (vm_GetAccount k c a) (\<lambda>acct. case acct of
        Some x \<Rightarrow> Ok x
      | None \<Rightarrow> Ok \<lparr>Nonce = 0, Balance = 0, CodeHash = vm_EmptyCodeHash k\<rparr>)"

definition vm_GetNonce :: "('s, 'a, 'b, 'v) vm_keeper \<Rightarrow> ('s, 'b) vm_ctx \<Rightarrow> addr \<Rightarrow> uint64" where
  "vm_GetNonce k c a =
     (case au_GetAccount (accountKeeper k) (auth_state c) (addr_Bytes a) of
        None \<Rightarrow> 0 | Some acct \<Rightarrow> acc_GetSequence (accountKeeper k) acct)"

section \<open>Writing accounts and storage\<close>

definition vm_SetState :: "addr \<Rightarrow> hash \<Rightarrow> bytes \<Rightarrow> ('s, 'b) vm_ctx \<Rightarrow> ('s, 'b) vm_ctx" where
  "vm_SetState a key v c = c\<lparr>evm_store := pset (AddressStoragePrefix a) (hash_Bytes key) v (evm_store c)\<rparr>"

definition vm_DeleteState :: "addr \<Rightarrow> hash \<Rightarrow> ('s, 'b) vm_ctx \<Rightarrow> ('s, 'b) vm_ctx" where
  "vm_DeleteState a key c = c\<lparr>evm_store := pdel (AddressStoragePrefix a) (hash_Bytes key) (evm_store c)\<rparr>"

definition SetCodeHash :: "bytes \<Rightarrow> bytes \<Rightarrow> ('s, 'b) vm_ctx \<Rightarrow> ('s, 'b) vm_ctx" where
  "SetCodeHash addrBytes hashBytes c = c\<lparr>evm_store := pset KeyPrefixCodeHash addrBytes hashBytes (evm_store c)\<rparr>"

definition DeleteCodeHash :: "addr \<Rightarrow> ('s, 'b) vm_ctx \<Rightarrow> ('s, 'b) vm_ctx" where
  "DeleteCodeHash a c = c\<lparr>evm_store := pdel KeyPrefixCodeHash (addr_Bytes a) (evm_store c)\<rparr>"

definition vm_SetCode :: "bytes \<Rightarrow> bytes \<Rightarrow> ('s, 'b) vm_ctx \<Rightarrow> ('s, 'b) vm_ctx" where
  "vm_SetCode codeHash bs c = c\<lparr>evm_store := pset KeyPrefixCode codeHash bs (evm_store c)\<rparr>"

definition vm_DeleteCode :: "bytes \<Rightarrow> ('s, 'b) vm_ctx \<Rightarrow> ('s, 'b) vm_ctx" where
  "vm_DeleteCode codeHash c = c\<lparr>evm_store := pdel KeyPrefixCode codeHash (evm_store c)\<rparr>"

text \<open>A nil amount (\<open>None\<close>) changes nothing.\<close>

definition vm_SetBalance ::
  "('s, 'a, 'b, 'v) vm_keeper \<Rightarrow> addr \<Rightarrow> uint256 option \<Rightarrow> ('s, 'b) vm_ctx \<Rightarrow> ('s, 'b) vm_ctx res" where
  "vm_SetBalance k a amt c =
     (case amt of None \<Rightarrow> Ok c
      | Some amount \<Rightarrow>
          let cosmosAddr = addr_Bytes a; B = bankWrapper k in
          bind_res (bw_SpendableCoin B cosmosAddr (Denom (evmCoin B)) (bank_state c)) (\<lambda>coin.
          let delta = uint amount - snd coin in
          if 0 < delta
          then bind_res (MintAmountToAccount B cosmosAddr delta (bank_state c)) (\<lambda>s. Ok (c\<lparr>bank_state := s\<rparr>))
          else if delta < 0
          then bind_res (BurnAmountFromAccount B cosmosAddr (- delta) (bank_state c)) (\<lambda>s. Ok (c\<lparr>bank_state := s\<rparr>))
          else Ok c))"

definition vm_SetAccount ::
  "('s, 'a, 'b, 'v) vm_keeper \<Rightarrow> addr \<Rightarrow> Account \<Rightarrow> ('s, 'b) vm_ctx \<Rightarrow> ('s, 'b) vm_ctx res" where
  "vm_SetAccount k a acc c =
     (let A = accountKeeper k;
          (acct, s) = (case au_GetAccount A (auth_state c) (addr_Bytes a) of
             None \<Rightarrow> au_NewAccountWithAddress A (addr_Bytes a) (auth_state c)
           | Some x \<Rightarrow> (x, auth_state c));
          c = c\<lparr>auth_state := s\<rparr> in
      bind_res (acc_SetSequence A (Nonce acc) acct) (\<lambda>acct.
      let c = (if CodeHash acc = vm_EmptyCodeHash k then DeleteCodeHash a c
               else SetCodeHash (addr_Bytes a) (hash_Bytes (CodeHash acc)) c);
          c = c\<lparr>auth_state := au_SetAccount A acct (auth_state c)\<rparr> in
      vm_SetBalance k a (Some (Balance acc)) c))"

definition vm_DeleteAccount ::
  "('s, 'a, 'b, 'v) vm_keeper \<Rightarrow> addr \<Rightarrow> ('s, 'b) vm_ctx \<Rightarrow> ('s, 'b) vm_ctx res" where
  "vm_DeleteAccount k a c =
     (let A = accountKeeper k; cosmosAddr = addr_Bytes a in
      case au_GetAccount A (auth_state c) cosmosAddr of
        None \<Rightarrow> Ok c
      | Some acct \<Rightarrow>
          bind_res (require (vm_IsContract c a) (ErrPlain ''only smart contracts can be self-destructed'')) (\<lambda>_.
          let c = c\<lparr>auth_state := au_SetAccount A (acc_NewBaseAccount A cosmosAddr acct) (auth_state c)\<rparr> in
          bind_res (vm_SetBalance k a (Some 0) c) (\<lambda>c.
          let keys = map fst (vm_ForEachStorage c a);
              c = fold (vm_DeleteState a) keys c;
              c = DeleteCodeHash a c in
          Ok (c\<lparr>auth_state := au_RemoveAccount A acct (auth_state c)\<rparr>))))"

section \<open>The transient store\<close>

definition be_uint64 :: "bytes option \<Rightarrow> uint64" where
  "be_uint64 v = (case v of None \<Rightarrow> 0 | Some bs \<Rightarrow> if length bs = 0 then 0 else un_be bs)"

definition SetTxIndexTransient :: "uint64 \<Rightarrow> ('s, 'b) vm_ctx \<Rightarrow> ('s, 'b) vm_ctx" where
  "SetTxIndexTransient index c = c\<lparr>tstore := kv_set KeyPrefixTransientTxIndex (be_bytes 8 index) (tstore c)\<rparr>"

definition GetTxIndexTransient :: "('s, 'b) vm_ctx \<Rightarrow> uint64" where
  "GetTxIndexTransient c = be_uint64 (kv_get (tstore c) KeyPrefixTransientTxIndex)"

definition GetLogSizeTransient :: "('s, 'b) vm_ctx \<Rightarrow> uint64" where
  "GetLogSizeTransient c = be_uint64 (kv_get (tstore c) KeyPrefixTransientLogSize)"

definition SetLogSizeTransient :: "uint64 \<Rightarrow> ('s, 'b) vm_ctx \<Rightarrow> ('s, 'b) vm_ctx" where
  "SetLogSizeTransient logSize c = c\<lparr>tstore := kv_set KeyPrefixTransientLogSize (be_bytes 8 logSize) (tstore c)\<rparr>"

definition ResetTransientGasUsed :: "('s, 'b) vm_ctx \<Rightarrow> ('s, 'b) vm_ctx" where
  "ResetTransientGasUsed c = c\<lparr>tstore := kv_delete KeyPrefixTransientGasUsed (tstore c)\<rparr>"

definition GetTransientGasUsed :: "('s, 'b) vm_ctx \<Rightarrow> uint64" where
  "GetTransientGasUsed c = be_uint64 (kv_get (tstore c) KeyPrefixTransientGasUsed)"

definition SetTransientGasUsed :: "uint64 \<Rightarrow> ('s, 'b) vm_ctx \<Rightarrow> ('s, 'b) vm_ctx" where
  "SetTransientGasUsed gasUsed c = c\<lparr>tstore := kv_set KeyPrefixTransientGasUsed (be_bytes 8 gasUsed) (tstore c)\<rparr>"

definition AddTransientGasUsed :: "uint64 \<Rightarrow> ('s, 'b) vm_ctx \<Rightarrow> (uint64 \<times> ('s, 'b) vm_ctx) res" where
  "AddTransientGasUsed gasUsed c =
     (let result = GetTransientGasUsed c + gasUsed in
      if result < gasUsed then Fail ErrGasOverflow
      else Ok (result, SetTransientGasUsed result c))"

text \<open>
  The bloom is a \<^verbatim>\<open>big.Int\<close>, stored without leading zeros under the height as eight bytes.
\<close>

definition GetBlockBloomTransient :: "('s, 'b) vm_ctx \<Rightarrow> nat" where
  "GetBlockBloomTransient c =
     (case pget KeyPrefixTransientBloom (tstore c) (be_bytes 8 (word_of_int (block_height c) :: uint64)) of
        None \<Rightarrow> 0
      | Some bs \<Rightarrow> if length bs = 0 then 0 else big_SetBytes bs)"

definition SetBlockBloomTransient :: "nat \<Rightarrow> ('s, 'b) vm_ctx \<Rightarrow> ('s, 'b) vm_ctx" where
  "SetBlockBloomTransient bloom c =
     c\<lparr>tstore := pset KeyPrefixTransientBloom (be_bytes 8 (word_of_int (block_height c) :: uint64)) (big_Bytes bloom) (tstore c)\<rparr>"

section \<open>The keeper as the backend of the state database\<close>

text \<open>
  A panic of a read or of a write is not a value of the backend's interface; on ordinary accounts there is
  none (\<open>read_account\<close>, \<open>set_account_spec\<close> and \<open>delete_account_spec\<close> of the locale \<open>vm_laws\<close>).
\<close>

definition backend_result :: "'c \<Rightarrow> 'c res \<Rightarrow> 'c \<times> err option" where
  "backend_result c r = (case r of Ok c' \<Rightarrow> (c', None) | Fail e \<Rightarrow> (c, Some e) | Panic p \<Rightarrow> (c, Some (ErrPlain p)))"

definition vm_backend ::
  "('s, 'a, 'b, 'v) vm_keeper \<Rightarrow> (('s, 'b) vm_ctx, 'v, pb_event) db_keeper" where
  "vm_backend k =
     \<lparr>kGetAccount = (\<lambda>c a. case vm_GetAccount k c a of Ok x \<Rightarrow> x | _ \<Rightarrow> None),
      kGetState = vm_GetState,
      kGetCode = vm_GetCode,
      kForEachStorage = vm_ForEachStorage,
      kSetAccount = (\<lambda>a acc c. backend_result c (vm_SetAccount k a acc c)),
      kDeleteState = vm_DeleteState,
      kSetState = vm_SetState,
      kDeleteCode = (\<lambda>h. vm_DeleteCode (hash_Bytes h)),
      kSetCode = (\<lambda>h. vm_SetCode (hash_Bytes h)),
      kDeleteAccount = (\<lambda>a c. backend_result c (vm_DeleteAccount k a c)),
      ctx_events = (\<lambda>c. pb_events (bank_state c)),
      kKVStoreKeys = storeKeys k,
      ctx_stores = vm_stores k,
      ctx_put_stores = vm_put_stores k,
      ctx_with_events = (\<lambda>es c. c\<lparr>bank_state := (bank_state c)\<lparr>pb_events := es\<rparr>\<rparr>),
      cache_ops = vm_cache_ops k,
      keccak = Keccak256 k\<rparr>"

end
