(* ===== verification/VMKeeperProofs.thy ===== *)
theory VMKeeperProofs
  imports VMKeeper
begin

text \<open>
  The keeper of \<^verbatim>\<open>x/vm\<close> implements the store the journaled state is written against: its keys do not
  clash, setting a balance mints or burns exactly the difference through the precise bank, and
  accounts and slots are read back as written (the locale \<open>db_store\<close>).
\<close>

section \<open>Keys\<close>

lemma addr_Bytes_simps [simp]: "length (addr_Bytes a) = 20" "addr_Bytes a = addr_Bytes b \<longleftrightarrow> a = b"
  by (simp_all add: addr_Bytes_def be_bytes_inj)

lemma hash_Bytes_simps [simp]:
  "length (hash_Bytes h) = 32" "hash_Bytes h = hash_Bytes g \<longleftrightarrow> h = g" "un_be (hash_Bytes h) = h" "hash_Bytes h \<noteq> []"
  by (simp_all add: hash_Bytes_def un_be_bytes be_bytes_inj)

lemmas key_defs = AddressStoragePrefix_def KeyPrefixStorage_def KeyPrefixCode_def KeyPrefixCodeHash_def

lemma storage_key_inj [simp]:
  "AddressStoragePrefix a @ hash_Bytes x = AddressStoragePrefix b @ hash_Bytes y \<longleftrightarrow> a = b \<and> x = y"
  by (simp add: key_defs)

lemma un_be_app:
  "(foldl (\<lambda>acc b. push_bit 8 acc + ucast b) w bs :: 'a::len word) = push_bit (8 * length bs) w + un_be bs"
proof (induction bs arbitrary: w)
  case (Cons b bs)
  have "push_bit (8 * length bs) (push_bit 8 w + ucast b) =
      push_bit (8 * length (b # bs)) w + push_bit (8 * length bs) (ucast b :: 'a word)"
    by (simp add: push_bit_add ac_simps)
  then show ?case
    using Cons [of "push_bit 8 w + ucast b"] Cons [of "ucast b"] by (simp add: un_be_def)
qed (simp add: un_be_def)

text \<open>\<^verbatim>\<open>common.BytesToHash\<close> of a full storage key is the slot.\<close>

lemma un_be_key [simp]: "un_be (p @ hash_Bytes x) = x"
proof -
  have "push_bit 256 (un_be p :: hash) = 0" by (rule bit_word_eqI) (simp add: bit_simps)
  then show ?thesis
    using un_be_app [of "un_be p :: hash" "hash_Bytes x"] by (simp add: un_be_def [of "p @ _"] un_be_def [of p, symmetric])
qed

section \<open>Reading after writing\<close>

lemmas pstore_simps = pget_def pset_def pdel_def store_simps

lemma GetState_SetState [simp]:
  "vm_GetState (vm_SetState a key (hash_Bytes x) c) = (vm_GetState c)(a := (vm_GetState c a)(key := x))"
  by (auto simp: vm_GetState_def vm_SetState_def pstore_simps fun_eq_iff)

lemma GetState_DeleteState [simp]:
  "vm_GetState (vm_DeleteState a key c) = (vm_GetState c)(a := (vm_GetState c a)(key := 0))"
  by (auto simp: vm_GetState_def vm_DeleteState_def pstore_simps fun_eq_iff)

lemma GetState_frames [simp]:
  "vm_GetState (SetCodeHash (addr_Bytes a) bs c) = vm_GetState c"
  "vm_GetState (DeleteCodeHash a c) = vm_GetState c"
  "vm_GetState (vm_SetCode bs bs' c) = vm_GetState c"
  "vm_GetState (vm_DeleteCode bs c) = vm_GetState c"
  "vm_GetState (c\<lparr>auth_state := s\<rparr>) = vm_GetState c"
  "vm_GetState (c\<lparr>bank_state := b\<rparr>) = vm_GetState c"
  by (auto simp: vm_GetState_def SetCodeHash_def DeleteCodeHash_def vm_SetCode_def vm_DeleteCode_def
      pstore_simps fun_eq_iff key_defs)

lemma GetCodeHash_simps [simp]:
  "vm_GetCodeHash k (vm_SetState a key bs c) = vm_GetCodeHash k c"
  "vm_GetCodeHash k (vm_DeleteState a key c) = vm_GetCodeHash k c"
  "vm_GetCodeHash k (vm_SetCode bs bs' c) = vm_GetCodeHash k c"
  "vm_GetCodeHash k (vm_DeleteCode bs c) = vm_GetCodeHash k c"
  "vm_GetCodeHash k (c\<lparr>auth_state := s\<rparr>) = vm_GetCodeHash k c"
  "vm_GetCodeHash k (c\<lparr>bank_state := b\<rparr>) = vm_GetCodeHash k c"
  "vm_GetCodeHash k (SetCodeHash (addr_Bytes a) (hash_Bytes h) c) = (vm_GetCodeHash k c)(a := h)"
  "vm_GetCodeHash k (DeleteCodeHash a c) = (vm_GetCodeHash k c)(a := vm_EmptyCodeHash k)"
  by (auto simp: vm_GetCodeHash_def vm_SetState_def vm_DeleteState_def SetCodeHash_def DeleteCodeHash_def
      vm_SetCode_def vm_DeleteCode_def pstore_simps fun_eq_iff key_defs)

lemma field_frames [simp]:
  "auth_state (vm_SetState a key bs c) = auth_state c" "bank_state (vm_SetState a key bs c) = bank_state c"
  "auth_state (vm_DeleteState a key c) = auth_state c" "bank_state (vm_DeleteState a key c) = bank_state c"
  "auth_state (vm_SetCode bs bs' c) = auth_state c" "bank_state (vm_SetCode bs bs' c) = bank_state c"
  "auth_state (vm_DeleteCode bs c) = auth_state c" "bank_state (vm_DeleteCode bs c) = bank_state c"
  "auth_state (SetCodeHash bs bs' c) = auth_state c" "bank_state (SetCodeHash bs bs' c) = bank_state c"
  "auth_state (DeleteCodeHash a c) = auth_state c" "bank_state (DeleteCodeHash a c) = bank_state c"
  by (simp_all add: vm_SetState_def vm_DeleteState_def SetCodeHash_def DeleteCodeHash_def vm_SetCode_def vm_DeleteCode_def)

lemma IsContract_simps [simp]:
  "vm_IsContract (DeleteCodeHash a c) a = False" "vm_IsContract (c\<lparr>auth_state := s\<rparr>) = vm_IsContract c"
  by (auto simp: vm_IsContract_def DeleteCodeHash_def pstore_simps)

text \<open>Deleting every listed slot clears the storage of the account, and only that.\<close>

lemma delete_slots:
  "vm_GetState (fold (vm_DeleteState a) keys c) =
     (vm_GetState c)(a := (\<lambda>key. if key \<in> set keys then 0 else vm_GetState c a key))"
  "vm_GetCodeHash k (fold (vm_DeleteState a) keys c) = vm_GetCodeHash k c"
  "auth_state (fold (vm_DeleteState a) keys c) = auth_state c"
  "bank_state (fold (vm_DeleteState a) keys c) = bank_state c"
  by (induction keys arbitrary: c) (auto simp: fun_eq_iff)

lemma listed_slots:
  assumes "vm_GetState c a key \<noteq> 0"
  shows "key \<in> fst ` set (vm_ForEachStorage c a)"
proof -
  obtain bs where "kv_get (evm_store c) (AddressStoragePrefix a @ hash_Bytes key) = Some bs"
    using assms by (auto simp: vm_GetState_def pget_def split: option.splits)
  then have "(AddressStoragePrefix a @ hash_Bytes key, bs) \<in> set (kv_prefix (AddressStoragePrefix a) (evm_store c))"
    by (auto simp: kv_prefix_set kv_get_def dest: map_of_SomeD)
  then have "(key, un_be bs) \<in> set (vm_ForEachStorage c a)"
    unfolding vm_ForEachStorage_def by (force simp del: set_map simp add: image_iff set_map)
  then show ?thesis by force
qed

lemma clear_storage:
  "vm_GetState (fold (vm_DeleteState a) (map fst (vm_ForEachStorage c a)) c) = (vm_GetState c)(a := (\<lambda>_. 0))"
  using listed_slots [of c a] by (auto simp: delete_slots fun_eq_iff)

section \<open>One extended coin through the precise bank\<close>

context precise_bank
begin

lemma one_ext:
  assumes "0 < amt"
  defines "cs \<equiv> [(ExtendedCoinDenom k, amt)]"
  shows "IsValid (sdk k) cs" "AmountOf (sdk k) cs (ExtendedCoinDenom k) = amt"
    "bind_res (NewCoin (sdk k) (ExtendedCoinDenom k) amt) (\<lambda>c. CoinsSub (sdk k) cs [c]) = Ok []"
    "\<not> IsAllPositive (sdk k) []"
proof -
  show v: "IsValid (sdk k) cs" using assms denoms_valid by (simp add: is_valid_one)
  show "AmountOf (sdk k) cs (ExtendedCoinDenom k) = amt" by (simp add: cs_def amount_one)
  have sub: "CoinsSub (sdk k) cs [(ExtendedCoinDenom k, amt)] = Ok []"
    using assms denoms_valid by (simp add: sub_one)
  then show "bind_res (NewCoin (sdk k) (ExtendedCoinDenom k) amt) (\<lambda>c. CoinsSub (sdk k) cs [c]) = Ok []"
    using assms(1) denoms_valid by (simp add: new_coin)
  have "IsValid (sdk k) []" using sub_amount [OF v, of "ExtendedCoinDenom k" amt] assms(1) sub
    by (auto simp: cs_def amount_one)
  then show "\<not> IsAllPositive (sdk k) []" by (simp add: all_positive)
qed

lemma one_ext_emission:
  assumes "0 < amt"
  obtains c fec where "SumExtendedCoin k [(ExtendedCoinDenom k, amt)] = Ok c" "NewCoins (sdk k) [c] = Ok fec"
  using emission [OF one_ext(1) [OF assms]] that by (auto simp: res_simps)

lemma send_one:
  assumes "0 < amt"
  shows "\<exists>es. SendCoins k f t [(ExtendedCoinDenom k, amt)] s =
    bind_res (sendExtendedCoins k f t amt s) (\<lambda>s. Ok (s\<lparr>pb_events := pb_events s @ es\<rparr>))"
proof -
  obtain c fec where e: "SumExtendedCoin k [(ExtendedCoinDenom k, amt)] = Ok c" "NewCoins (sdk k) [c] = Ok fec"
    using one_ext_emission [OF assms] .
  show ?thesis
    by (rule exI [of _ "if CoinsIsZero (sdk k) fec then []
        else [EventTransfer t f fec, CoinSpentEvent f fec, CoinReceivedEvent t fec]"])
      (use assms e one_ext [OF assms] in \<open>auto simp: SendCoins_def Let_def intro!: bind_res_cong\<close>)
qed

lemma mint_one:
  assumes "0 < amt" "GetModuleAccount (ak k) m = Some acc" "m \<noteq> pb_ModuleName" "HasPermission acc ''minter''"
  shows "\<exists>es. MintCoins k m [(ExtendedCoinDenom k, amt)] s =
    bind_res (mintExtendedCoin k m amt s) (\<lambda>s. Ok (s\<lparr>pb_events := pb_events s @ es\<rparr>))"
proof -
  obtain c fec where e: "SumExtendedCoin k [(ExtendedCoinDenom k, amt)] = Ok c" "NewCoins (sdk k) [c] = Ok fec"
    using one_ext_emission [OF assms(1)] .
  show ?thesis
    by (rule exI [of _ "if CoinsIsZero (sdk k) fec then []
        else [CoinMintEvent (ma_address acc) fec, CoinReceivedEvent (ma_address acc) fec]"])
      (use assms e one_ext [OF assms(1)] in \<open>auto simp: MintCoins_def Let_def intro!: bind_res_cong\<close>)
qed

lemma burn_one:
  assumes "0 < amt" "GetModuleAccount (ak k) m = Some acc" "m \<noteq> pb_ModuleName" "HasPermission acc ''burner''"
  shows "\<exists>es. BurnCoins k m [(ExtendedCoinDenom k, amt)] s =
    bind_res (burnExtendedCoin k m amt s) (\<lambda>s. Ok (s\<lparr>pb_events := pb_events s @ es\<rparr>))"
proof -
  obtain c fec where e: "SumExtendedCoin k [(ExtendedCoinDenom k, amt)] = Ok c" "NewCoins (sdk k) [c] = Ok fec"
    using one_ext_emission [OF assms(1)] .
  show ?thesis
    by (rule exI [of _ "if CoinsIsZero (sdk k) fec then []
        else [CoinBurnEvent (ma_address acc) fec, CoinSpentEvent (ma_address acc) fec]"])
      (use assms e one_ext [OF assms(1)] in \<open>auto simp: BurnCoins_def Let_def intro!: bind_res_cong\<close>)
qed

end

text \<open>Exactly \<open>n\<close> more (or fewer) extended coins at \<open>a\<close> and in the supply, nothing else.\<close>

definition adjusted :: "'b pb_keeper \<Rightarrow> address \<Rightarrow> int \<Rightarrow> 'b pb_state \<Rightarrow> 'b pb_state \<Rightarrow> bool" where
  "adjusted k a n s s' \<longleftrightarrow>
     (\<forall>x. x \<noteq> reserve k \<longrightarrow> ext_balance k x s' = ext_balance k x s + (if x = a then n else 0)) \<and>
     ext_supply k s' = ext_supply k s + n \<and>
     (\<forall>x d. d \<noteq> IntegerCoinDenom k \<longrightarrow> bk_GetBalance (bk k) (bank s') x d = bk_GetBalance (bk k) (bank s) x d)"

lemma adjusted_events [simp]:
  "ext_balance k x (s\<lparr>pb_events := es\<rparr>) = ext_balance k x s"
  "ext_supply k (s\<lparr>pb_events := es\<rparr>) = ext_supply k s"
  "ext_spendable k x (s\<lparr>pb_events := es\<rparr>) = ext_spendable k x s"
  by (simp_all add: ext_balance_def ext_supply_def ext_spendable_def)

section \<open>The keeper over the laws of its environment\<close>

text \<open>
  An ordinary address: neither of the two module accounts that hold coins on the way, and an account
  none of whose coins are locked.
\<close>

definition ordinary :: "('s, 'a, 'b, 'v) vm_keeper \<Rightarrow> addr \<Rightarrow> bool" where
  "ordinary k a \<longleftrightarrow> (let B = bankWrapper k in
     addr_Bytes a \<noteq> reserve B \<and> addr_Bytes a \<noteq> module_addr (ak B) vm_ModuleName \<and>
     (\<forall>b. bk_SpendableCoin (bk B) b (addr_Bytes a) (IntegerCoinDenom B) =
          bk_GetBalance (bk B) b (addr_Bytes a) (IntegerCoinDenom B)))"

locale vm_laws = precise_bank "bankWrapper k" + auth_laws "accountKeeper k" for k :: "('s, 'a, 'b, 'v) vm_keeper" +
  assumes evm_account: "\<exists>acc. GetModuleAccount (ak (bankWrapper k)) vm_ModuleName = Some acc \<and>
      ''minter'' \<in> set (ma_permissions acc) \<and> ''burner'' \<in> set (ma_permissions acc)"
begin

abbreviation B where "B \<equiv> bankWrapper k"

lemma evm_module:
  obtains acc where "GetModuleAccount (ak B) vm_ModuleName = Some acc" "HasPermission acc ''minter''"
    "HasPermission acc ''burner''" "GetModuleAddress (ak B) vm_ModuleName = Some (ma_address acc)"
    "holder B (ma_address acc)" "module_addr (ak B) vm_ModuleName = ma_address acc"
  using evm_account module_holder module_account that
  by (fastforce simp: HasPermission_def vm_ModuleName_def pb_ModuleName_def)

lemma names [simp]: "vm_ModuleName \<noteq> pb_ModuleName"
  by (simp add: vm_ModuleName_def pb_ModuleName_def)

lemma ordinary_holder: "ordinary k a \<Longrightarrow> holder B (addr_Bytes a)"
  by (auto simp: ordinary_def Let_def holder_def dest: arg_cong [where f = length])

lemma ordinary_spendable: "ordinary k a \<Longrightarrow> ext_spendable B (addr_Bytes a) s = ext_balance B (addr_Bytes a) s"
  by (simp add: ordinary_def Let_def ext_spendable_def ext_balance_def integer_balance_def)

lemma read_spendable:
  assumes "pb_inv B s" and "holder B a"
  shows "bw_SpendableCoin B a (Denom (evmCoin B)) s = Ok (ExtendedCoinDenom B, ext_spendable B a s)"
    and "0 \<le> ext_spendable B a s"
proof -
  show "0 \<le> ext_spendable B a s"
    using pb_inv_range(1) [OF assms(1), of a] spendable_nonneg CF_pos by (simp add: ext_spendable_def)
  then show "bw_SpendableCoin B a (Denom (evmCoin B)) s = Ok (ExtendedCoinDenom B, ext_spendable B a s)"
    using assms(2) denoms_valid
    by (simp add: bw_SpendableCoin_def SpendableCoin_def ExtendedCoinDenom_def [symmetric] holder_def
        ext_spendable_def new_coin)
qed

lemma mint_amount:
  assumes inv: "pb_inv B s" and h: "holder B a" "a \<noteq> module_addr (ak B) vm_ModuleName" and amt: "0 < amt"
  shows "if bk_BlockedAddr (bk B) a
    then \<exists>e. MintAmountToAccount B a amt s = Fail (ErrUnauthorized e)
    else \<exists>s'. MintAmountToAccount B a amt s = Ok s' \<and> pb_inv B s' \<and> adjusted B a amt s s'"
proof -
  obtain acc where acc: "GetModuleAccount (ak B) vm_ModuleName = Some acc" "HasPermission acc ''minter''"
    "GetModuleAddress (ak B) vm_ModuleName = Some (ma_address acc)" "holder B (ma_address acc)" "a \<noteq> ma_address acc"
    using evm_module h(2) by metis
  obtain s1 es1 where s1: "MintCoins B vm_ModuleName [(ExtendedCoinDenom B, amt)] s = Ok (s1\<lparr>pb_events := es1\<rparr>)"
    "pb_inv B s1" "reissued B (ma_address acc) amt s s1"
    using mint_one [OF amt acc(1) names acc(2), of s] mint_extended_spec [OF inv acc(1) names acc(2) amt] by auto
  let ?s1 = "s1\<lparr>pb_events := es1\<rparr>"
  have "ext_balance B (ma_address acc) s1 = ext_balance B (ma_address acc) s + amt"
    using s1(3) acc(4) by (simp add: reissued_def holder_def)
  moreover have "0 \<le> ext_balance B (ma_address acc) s"
    using pb_inv_range(1) [OF inv] balance_nonneg CF_pos by (simp add: ext_balance_def integer_balance_def)
  ultimately have "amt \<le> ext_spendable B (ma_address acc) ?s1"
    using module_spendable [OF acc(3)] by (simp add: ext_spendable_def ext_balance_def integer_balance_def)
  then obtain s2 where s2: "sendExtendedCoins B (ma_address acc) a amt ?s1 = Ok s2" "pb_inv B s2"
    "transferred B (ma_address acc) a amt ?s1 s2"
    using send_extended_spec [of ?s1 "ma_address acc" a amt] s1(2) acc h amt by auto
  have adj: "adjusted B a amt s (s2\<lparr>pb_events := es\<rparr>)" for es
    using s1(3) s2(3) acc(5) by (auto simp: adjusted_def reissued_def transferred_def ext_supply_def GetRemainderAmount_def)
  show ?thesis
    using send_one [OF amt, of "ma_address acc" a ?s1] s1(1) s2 adj acc(3)
    by (auto simp: MintAmountToAccount_def ConvertEvmCoinDenomToExtendedDenom_def ExtendedCoinDenom_def [symmetric]
        Let_def SendCoinsFromModuleToAccount_def)
qed

lemma burn_amount:
  assumes inv: "pb_inv B s" and h: "holder B a" "a \<noteq> module_addr (ak B) vm_ModuleName"
    and amt: "0 < amt" "amt \<le> ext_spendable B a s"
  shows "\<exists>s'. BurnAmountFromAccount B a amt s = Ok s' \<and> pb_inv B s' \<and> adjusted B a (- amt) s s'"
proof -
  obtain acc where acc: "GetModuleAccount (ak B) vm_ModuleName = Some acc" "HasPermission acc ''burner''"
    "GetModuleAddress (ak B) vm_ModuleName = Some (ma_address acc)" "holder B (ma_address acc)" "a \<noteq> ma_address acc"
    using evm_module h(2) by metis
  obtain s1 where s1: "sendExtendedCoins B a (ma_address acc) amt s = Ok s1" "pb_inv B s1"
    "transferred B a (ma_address acc) amt s s1"
    using send_extended_spec [OF inv h(1) acc(4,5) amt(1)] amt(2) by auto
  obtain es1 where e1: "SendCoins B a (ma_address acc) [(ExtendedCoinDenom B, amt)] s = Ok (s1\<lparr>pb_events := es1\<rparr>)"
    using send_one [OF amt(1), of a "ma_address acc" s] s1(1) by auto
  let ?s1 = "s1\<lparr>pb_events := es1\<rparr>"
  have "ext_balance B (ma_address acc) s1 = ext_balance B (ma_address acc) s + amt"
    using s1(3) acc(4,5) by (auto simp: transferred_def holder_def)
  moreover have "0 \<le> ext_balance B (ma_address acc) s"
    using pb_inv_range(1) [OF inv] balance_nonneg CF_pos by (simp add: ext_balance_def integer_balance_def)
  ultimately obtain s2 where s2: "burnExtendedCoin B vm_ModuleName amt ?s1 = Ok s2" "pb_inv B s2"
    "reissued B (ma_address acc) (- amt) ?s1 s2"
    using burn_extended_spec [of ?s1, OF _ acc(1) names acc(2) amt(1)] s1(2) by auto
  have adj: "adjusted B a (- amt) s (s2\<lparr>pb_events := es\<rparr>)" for es
    using s1(3) s2(3) acc(5) by (auto simp: adjusted_def reissued_def transferred_def ext_supply_def GetRemainderAmount_def)
  show ?thesis
    using burn_one [OF amt(1) acc(1) names acc(2), of ?s1] e1 s2 adj acc(1)
    by (auto simp: BurnAmountFromAccount_def ConvertEvmCoinDenomToExtendedDenom_def ExtendedCoinDenom_def [symmetric]
        Let_def SendCoinsFromAccountToModule_def)
qed

text \<open>Setting a balance: the whole behaviour.\<close>

lemma set_balance_spec:
  assumes inv: "pb_inv B (bank_state c)" and o: "ordinary k a"
  defines "old \<equiv> ext_balance B (addr_Bytes a) (bank_state c)"
  shows "if bk_BlockedAddr (bk B) (addr_Bytes a) \<and> old < uint w
    then \<exists>e. vm_SetBalance k a (Some w) c = Fail (ErrUnauthorized e)
    else \<exists>s. vm_SetBalance k a (Some w) c = Ok (c\<lparr>bank_state := s\<rparr>) \<and> pb_inv B s \<and>
      adjusted B (addr_Bytes a) (uint w - old) (bank_state c) s"
proof -
  have h: "holder B (addr_Bytes a)" "addr_Bytes a \<noteq> module_addr (ak B) vm_ModuleName"
    and sp: "ext_spendable B (addr_Bytes a) (bank_state c) = old"
    using o ordinary_holder ordinary_spendable by (auto simp: ordinary_def Let_def old_def)
  have body: "vm_SetBalance k a (Some w) c =
      (if old < uint w
       then bind_res (MintAmountToAccount B (addr_Bytes a) (uint w - old) (bank_state c)) (\<lambda>s. Ok (c\<lparr>bank_state := s\<rparr>))
       else if uint w < old
       then bind_res (BurnAmountFromAccount B (addr_Bytes a) (old - uint w) (bank_state c)) (\<lambda>s. Ok (c\<lparr>bank_state := s\<rparr>))
       else Ok c)"
    using read_spendable [OF inv h(1)] sp by (simp add: vm_SetBalance_def Let_def)
  consider (lt) "old < uint w" | (gt) "uint w < old" | (eq) "old = uint w" by linarith
  then show ?thesis
  proof cases
    case lt
    then show ?thesis using mint_amount [OF inv h, of "uint w - old"] by (fastforce simp: body split: if_splits)
  next
    case gt
    then show ?thesis using burn_amount [OF inv h, of "old - uint w"] sp by (fastforce simp: body)
  next
    case eq
    then show ?thesis using inv by (auto simp: body adjusted_def intro!: exI [of _ "bank_state c"])
  qed
qed

text \<open>What the state database reads of an ordinary account.\<close>

lemma read_account:
  assumes "pb_inv B (bank_state c)" and "ordinary k a"
  shows "vm_GetAccount k c a = Ok (map_option (\<lambda>x.
      \<lparr>Nonce = acc_GetSequence (accountKeeper k) x,
       Balance = (if ext_balance B (addr_Bytes a) (bank_state c) < 2 ^ 256
         then word_of_int (ext_balance B (addr_Bytes a) (bank_state c)) else 0),
       CodeHash = vm_GetCodeHash k c a\<rparr>) (au_GetAccount (accountKeeper k) (auth_state c) (addr_Bytes a)))"
  using read_spendable [OF assms(1) ordinary_holder [OF assms(2)]] ordinary_spendable [OF assms(2)]
  by (auto simp: vm_GetAccount_def GetAccountWithoutBalance_def vm_SpendableCoin_def Uint256FromBigInt_def
      split: option.split)

lemma read_account_cong:
  assumes "pb_inv B (bank_state c)" and "pb_inv B (bank_state c')" and "ordinary k a"
    and "ext_balance B (addr_Bytes a) (bank_state c') = ext_balance B (addr_Bytes a) (bank_state c)"
    and "au_GetAccount (accountKeeper k) (auth_state c') (addr_Bytes a) = au_GetAccount (accountKeeper k) (auth_state c) (addr_Bytes a)"
    and "vm_GetCodeHash k c' a = vm_GetCodeHash k c a"
  shows "vm_GetAccount k c' a = vm_GetAccount k c a"
  using assms by (simp add: read_account)

lemma set_account_spec:
  assumes inv: "pb_inv B (bank_state c)" and o: "ordinary k a"
  shows "case vm_SetAccount k a acct c of
      Ok c' \<Rightarrow> pb_inv B (bank_state c') \<and> vm_GetAccount k c' a = Ok (Some acct) \<and>
        (\<forall>b. ordinary k b \<longrightarrow> b \<noteq> a \<longrightarrow> vm_GetAccount k c' b = vm_GetAccount k c b) \<and>
        vm_GetState c' = vm_GetState c \<and>
        adjusted B (addr_Bytes a) (uint (Balance acct) - ext_balance B (addr_Bytes a) (bank_state c)) (bank_state c) (bank_state c')
    | Fail e \<Rightarrow> True | Panic p \<Rightarrow> False"
proof -
  let ?A = "accountKeeper k" and ?a = "addr_Bytes a"
  obtain x s where x: "(case au_GetAccount ?A (auth_state c) ?a of
      None \<Rightarrow> au_NewAccountWithAddress ?A ?a (auth_state c) | Some x \<Rightarrow> (x, auth_state c)) = (x, s)" by fastforce
  then have s: "acc_GetAddress ?A x = ?a" "au_GetAccount ?A s = au_GetAccount ?A (auth_state c)"
    using new_account [of ?a "auth_state c" x s] get_address [of "auth_state c" ?a x] by (auto split: option.splits)
  show ?thesis
  proof (cases "acc_SetSequence ?A (Nonce acct) x")
    case (Ok y)
    note y = set_sequence [OF Ok]
    define c1 where "c1 = (if CodeHash acct = vm_EmptyCodeHash k then DeleteCodeHash a (c\<lparr>auth_state := s\<rparr>)
      else SetCodeHash ?a (hash_Bytes (CodeHash acct)) (c\<lparr>auth_state := s\<rparr>))
      \<lparr>auth_state := au_SetAccount ?A y s\<rparr>"
    have c1: "bank_state c1 = bank_state c" "vm_GetState c1 = vm_GetState c"
      "vm_GetCodeHash k c1 = (vm_GetCodeHash k c)(a := CodeHash acct)"
      "au_GetAccount ?A (auth_state c1) = (au_GetAccount ?A (auth_state c))(?a \<mapsto> y)"
      using s y by (auto simp: c1_def get_set)
    have body: "vm_SetAccount k a acct c = vm_SetBalance k a (Some (Balance acct)) c1"
      using Ok x by (simp add: vm_SetAccount_def Let_def c1_def)
    have u: "uint (Balance acct) < 2 ^ 256" using uint_lt2p [of "Balance acct"] by simp
    show ?thesis
    proof (cases "bk_BlockedAddr (bk B) ?a \<and> ext_balance B ?a (bank_state c) < uint (Balance acct)")
      case True
      then show ?thesis using set_balance_spec [of c1 a "Balance acct"] inv o body c1(1) by auto
    next
      case False
      then obtain t where t: "vm_SetAccount k a acct c = Ok (c1\<lparr>bank_state := t\<rparr>)" "pb_inv B t"
        "adjusted B ?a (uint (Balance acct) - ext_balance B ?a (bank_state c)) (bank_state c) t"
        using set_balance_spec [of c1 a "Balance acct"] inv o body c1(1) by auto
      have e: "ext_balance B ?a t = uint (Balance acct)"
        using t(3) o by (simp add: adjusted_def ordinary_def Let_def)
      have self: "vm_GetAccount k (c1\<lparr>bank_state := t\<rparr>) a = Ok (Some acct)"
        using t(2) o c1 e u y by (simp add: read_account)
      have "vm_GetAccount k (c1\<lparr>bank_state := t\<rparr>) b = vm_GetAccount k c b" if "ordinary k b" "b \<noteq> a" for b
        by (rule read_account_cong) (use inv t that c1 in \<open>auto simp: adjusted_def ordinary_def Let_def\<close>)
      then show ?thesis using t c1 self by simp
    qed
  qed (use x set_sequence_total in \<open>auto simp: vm_SetAccount_def Let_def\<close>)
qed

lemma delete_account_spec:
  assumes inv: "pb_inv B (bank_state c)" and o: "ordinary k a"
  shows "case vm_DeleteAccount k a c of
      Ok c' \<Rightarrow> pb_inv B (bank_state c') \<and> vm_GetAccount k c' a = Ok None \<and>
        (\<forall>b. ordinary k b \<longrightarrow> b \<noteq> a \<longrightarrow> vm_GetAccount k c' b = vm_GetAccount k c b) \<and>
        (\<forall>b. b \<noteq> a \<longrightarrow> vm_GetState c' b = vm_GetState c b) \<and>
        (vm_GetAccount k c a \<noteq> Ok None \<longrightarrow> vm_GetState c' a = (\<lambda>_. 0) \<and> \<not> vm_IsContract c' a \<and>
          adjusted B (addr_Bytes a) (- ext_balance B (addr_Bytes a) (bank_state c)) (bank_state c) (bank_state c'))
    | Fail e \<Rightarrow> vm_GetAccount k c a \<noteq> Ok None \<and> \<not> vm_IsContract c a \<and> e = ErrPlain ''only smart contracts can be self-destructed''
    | Panic p \<Rightarrow> False"
proof -
  let ?A = "accountKeeper k" and ?a = "addr_Bytes a"
  show ?thesis
  proof (cases "au_GetAccount ?A (auth_state c) ?a")
    case None
    then show ?thesis using read_account [OF inv o] inv by (simp add: vm_DeleteAccount_def Let_def)
  next
    case (Some x)
    have ex: "vm_GetAccount k c a \<noteq> Ok None" using Some read_account [OF inv o] by simp
    define c1 where "c1 = c\<lparr>auth_state := au_SetAccount ?A (acc_NewBaseAccount ?A ?a x) (auth_state c)\<rparr>"
    obtain t where t: "vm_SetBalance k a (Some 0) c1 = Ok (c1\<lparr>bank_state := t\<rparr>)" "pb_inv B t"
      "adjusted B ?a (- ext_balance B ?a (bank_state c)) (bank_state c) t"
      using set_balance_spec [of c1 a 0] inv o read_spendable(2) [OF inv ordinary_holder [OF o]] ordinary_spendable [OF o]
      by (auto simp: c1_def not_less)
    define c2 where "c2 = c1\<lparr>bank_state := t\<rparr>"
    define c3 where "c3 = (DeleteCodeHash a (fold (vm_DeleteState a) (map fst (vm_ForEachStorage c2 a)) c2))"
    define c4 where "c4 = c3\<lparr>auth_state := au_RemoveAccount ?A x (auth_state c3)\<rparr>"
    have body: "vm_DeleteAccount k a c = (if vm_IsContract c a then Ok c4
      else Fail (ErrPlain ''only smart contracts can be self-destructed''))"
      using Some t(1) by (simp add: vm_DeleteAccount_def Let_def c1_def [symmetric] c2_def [symmetric]
          c3_def c4_def del: fold_map)
    have c4: "vm_GetState c4 = (vm_GetState c)(a := (\<lambda>_. 0))" "bank_state c4 = t"
      "vm_GetCodeHash k c4 = (vm_GetCodeHash k c)(a := vm_EmptyCodeHash k)" "\<not> vm_IsContract c4 a"
      "au_GetAccount ?A (auth_state c4) = (au_GetAccount ?A (auth_state c))(?a := None)"
      using get_address [OF Some]
      by (simp_all add: c4_def c3_def clear_storage delete_slots(2-) c2_def c1_def get_remove get_set base_address
          del: fold_map)
    have "vm_GetAccount k c4 b = vm_GetAccount k c b" if "ordinary k b" "b \<noteq> a" for b
      by (rule read_account_cong) (use inv t that c4 in \<open>auto simp: adjusted_def ordinary_def Let_def\<close>)
    then show ?thesis using ex body c4 t read_account [of c4 a] o by simp
  qed
qed

end

sublocale vm_laws \<subseteq> vdb: db_store "vm_backend k" "\<lambda>c. pb_inv (bankWrapper k) (bank_state c)" "ordinary k"
proof
  fix c c' a acct
  assume "pb_inv B (bank_state c)" "ordinary k a" and "kSetAccount (vm_backend k) a acct c = (c', None)"
  then show "pb_inv B (bank_state c') \<and> kGetAccount (vm_backend k) c' a = Some acct \<and>
      (\<forall>b. ordinary k b \<longrightarrow> b \<noteq> a \<longrightarrow> kGetAccount (vm_backend k) c' b = kGetAccount (vm_backend k) c b) \<and>
      kGetState (vm_backend k) c' = kGetState (vm_backend k) c"
    using set_account_spec [of c a acct] by (auto simp: vm_backend_def backend_result_def split: res.splits)
next
  fix c c' a
  assume "pb_inv B (bank_state c)" "ordinary k a" and "kDeleteAccount (vm_backend k) a c = (c', None)"
  then show "pb_inv B (bank_state c') \<and> kGetAccount (vm_backend k) c' a = None \<and>
      (\<forall>b. ordinary k b \<longrightarrow> b \<noteq> a \<longrightarrow> kGetAccount (vm_backend k) c' b = kGetAccount (vm_backend k) c b) \<and>
      (\<forall>b. b \<noteq> a \<longrightarrow> kGetState (vm_backend k) c' b = kGetState (vm_backend k) c b)"
    using delete_account_spec [of c a] by (auto simp: vm_backend_def backend_result_def split: res.splits)
qed (auto simp: vm_backend_def vm_GetAccount_def GetAccountWithoutBalance_def vm_SpendableCoin_def fun_eq_iff
    split: option.splits)

context vm_laws
begin

lemma backend_store: "db_store (vm_backend k) (\<lambda>c. pb_inv (bankWrapper k) (bank_state c)) (ordinary k)"
  by (rule vdb.db_store_axioms)

end

end
