(* ===== verification/VMKeeperProps.thy ===== *)
theory VMKeeperProps
  imports VMKeeperProofs
begin

text \<open>
  The properties of the keeper of \<^verbatim>\<open>x/vm\<close> as a state backend, and the reference environment (the
  reference ledger behind the precise bank, an account table) on which they are evaluated.
\<close>

section \<open>A reference environment\<close>

definition ref_auth :: "(address \<Rightarrow> uint64 option, address \<times> uint64) auth_keeper" where
  "ref_auth =
     \<lparr>au_GetAccount = (\<lambda>s a. map_option (Pair a) (s a)),
      au_NewAccountWithAddress = (\<lambda>a s. ((a, 0), s)),
      au_SetAccount = (\<lambda>x s. s(fst x \<mapsto> snd x)),
      au_RemoveAccount = (\<lambda>x s. s(fst x := None)),
      acc_GetAddress = fst,
      acc_GetSequence = snd,
      acc_SetSequence = (\<lambda>n x. Ok (fst x, n)),
      acc_NewBaseAccount = (\<lambda>a x. (a, snd x))\<rparr>"

interpretation ra: auth_laws ref_auth
  by unfold_locales (auto simp: ref_auth_def fun_eq_iff)

definition ref_vm :: "(address \<Rightarrow> uint64 option, address \<times> uint64, ledger, lstore) vm_keeper" where
  "ref_vm =
     \<lparr>accountKeeper = ref_auth, bankWrapper = ref_pb, Keccak256 = (\<lambda>bs. word_of_nat (Suc (length bs))),
      storeKeys = [''evm''], vm_stores = (\<lambda>_. None), vm_put_stores = (\<lambda>_ c. c), vm_cache_ops = ref_cachekv\<rparr>"

interpretation rv: vm_laws ref_vm
proof -
  have "accountKeeper ref_vm = ref_auth" "bankWrapper ref_vm = ref_pb" by (simp_all add: ref_vm_def)
  then show "vm_laws ref_vm"
    using rp.precise_bank_axioms ra.auth_laws_axioms
    by (auto simp: vm_laws_def vm_laws_axioms_def vm_ModuleName_def ref_accounts_def ref_module_addr_def)
qed

text \<open>One account with five integer coins and nonce 5, and no fractions.\<close>

definition ref_vmctx :: "(address \<Rightarrow> uint64 option, ledger) vm_ctx" where
  "ref_vmctx =
     \<lparr>auth_state = [addr_Bytes 1 \<mapsto> 5],
      bank_state = \<lparr>fractional = [], remainder = None,
        bank = \<lparr>lg_balance = (\<lambda>a d. if d = ''uatom'' \<and> a = addr_Bytes 1 then 5 else 0),
                lg_supply = (\<lambda>d. if d = ''uatom'' then 5 else 0)\<rparr>, pb_events = []\<rparr>,
      evm_store = [], tstore = [], block_height = 1\<rparr>"

lemma ref_vmctx_inv: "pb_inv (bankWrapper ref_vm) (bank_state ref_vmctx)"
  by (auto simp: ref_vm_def ref_vmctx_def pb_inv_def GetRemainderAmount_def integer_balance_def ref_bank_def
      StringToBytes_def dest: arg_cong [where f = length])

lemma ref_ordinary: "ordinary ref_vm a"
  by (auto simp: ordinary_def ref_vm_def Let_def ref_bank_def vm_ModuleName_def module_addr_def ref_accounts_def
      ref_module_addr_def StringToBytes_def dest: arg_cong [where f = length])

lemma ref_vm_balance:
  "ext_balance (bankWrapper ref_vm) (addr_Bytes 1) (bank_state ref_vmctx) = 5000000000000"
  "\<not> bk_BlockedAddr (bk (bankWrapper ref_vm)) a"
  by (simp_all add: ref_vm_def ref_vmctx_def ext_balance_def integer_balance_def GetFractionalBalance_def ref_bank_def)

section \<open>Properties\<close>

text \<open>
  C22. \<open>SetBalance\<close> on an ordinary account: it refuses only to raise the balance of a blocked address;
  otherwise it always succeeds, the account's balance in extended units becomes exactly the requested
  amount, the supply changes by exactly the difference, no other account changes, and the fractional
  balances stay fully backed.
\<close>

theorem SetBalance_exact:
  assumes "vm_laws k" and "pb_inv (bankWrapper k) (bank_state c)" and "ordinary k a"
  defines "old \<equiv> ext_balance (bankWrapper k) (addr_Bytes a) (bank_state c)"
  shows "if bk_BlockedAddr (bk (bankWrapper k)) (addr_Bytes a) \<and> old < uint w
    then \<exists>e. vm_SetBalance k a (Some w) c = Fail (ErrUnauthorized e)
    else \<exists>s. vm_SetBalance k a (Some w) c = Ok (c\<lparr>bank_state := s\<rparr>) \<and> pb_inv (bankWrapper k) s \<and>
      adjusted (bankWrapper k) (addr_Bytes a) (uint w - old) (bank_state c) s"
  unfolding old_def using vm_laws.set_balance_spec [OF assms(1-3)] .

theorem SetBalance_exact_witness:
  "\<exists>s. vm_SetBalance ref_vm 1 (Some 7) ref_vmctx = Ok (ref_vmctx\<lparr>bank_state := s\<rparr>) \<and>
     ext_balance ref_pb (addr_Bytes 1) s = 7"
proof -
  obtain s where s: "vm_SetBalance ref_vm 1 (Some 7) ref_vmctx = Ok (ref_vmctx\<lparr>bank_state := s\<rparr>)"
    "adjusted (bankWrapper ref_vm) (addr_Bytes 1) (7 - 5000000000000) (bank_state ref_vmctx) s"
    using SetBalance_exact [OF rv.vm_laws_axioms ref_vmctx_inv ref_ordinary, of 1 7]
    unfolding ref_vm_balance by (simp del: ref_pb_simps) blast
  have "addr_Bytes 1 \<noteq> reserve (bankWrapper ref_vm)" using ref_ordinary [of 1] by (simp add: ordinary_def Let_def)
  then have "ext_balance (bankWrapper ref_vm) (addr_Bytes 1) s = 7"
    using s(2) by (simp add: adjusted_def ref_vm_balance)
  with s(1) show ?thesis by (auto simp: ref_vm_def)
qed

text \<open>
  C23. \<open>DeleteAccount\<close> on an ordinary account, one that is not the reserve or the EVM module and has no locked coins: an account that exists and
  has no code hash stored is refused with the error that only contracts can be destroyed, and in every other case it succeeds. Then an account
  that does not exist leaves everything as it was, and one that does is gone, all of its storage reads zero, its code hash is gone, and exactly its balance
  has been burned; every other ordinary account and all other storage is as before.
\<close>

theorem DeleteAccount_clears:
  assumes "vm_laws k" and "pb_inv (bankWrapper k) (bank_state c)" and "ordinary k a"
  shows "if vm_GetAccount k c a \<noteq> Ok None \<and> \<not> vm_IsContract c a
    then vm_DeleteAccount k a c = Fail (ErrPlain ''only smart contracts can be self-destructed'')
    else \<exists>c'. vm_DeleteAccount k a c = Ok c' \<and> (vm_GetAccount k c a = Ok None \<longrightarrow> c' = c) \<and>
      pb_inv (bankWrapper k) (bank_state c') \<and> vm_GetAccount k c' a = Ok None \<and>
      (\<forall>b. ordinary k b \<longrightarrow> b \<noteq> a \<longrightarrow> vm_GetAccount k c' b = vm_GetAccount k c b) \<and>
      (\<forall>b. b \<noteq> a \<longrightarrow> vm_GetState c' b = vm_GetState c b) \<and>
      (vm_GetAccount k c a \<noteq> Ok None \<longrightarrow> vm_GetState c' a = (\<lambda>_. 0) \<and> \<not> vm_IsContract c' a \<and>
        adjusted (bankWrapper k) (addr_Bytes a) (- ext_balance (bankWrapper k) (addr_Bytes a) (bank_state c))
          (bank_state c) (bank_state c'))"
proof -
  have gone: "vm_DeleteAccount k a c = Ok c" if "vm_GetAccount k c a = Ok None"
    using that vm_laws.read_account [OF assms] by (auto simp: vm_DeleteAccount_def split: option.splits)
  have refused: "vm_DeleteAccount k a c = Fail (ErrPlain ''only smart contracts can be self-destructed'')"
    if "vm_GetAccount k c a \<noteq> Ok None" "\<not> vm_IsContract c a"
    using that vm_laws.read_account [OF assms] by (auto simp: vm_DeleteAccount_def require_def Let_def split: option.splits)
  show ?thesis using vm_laws.delete_account_spec [OF assms] gone refused by (auto split: res.splits)
qed

theorem DeleteAccount_clears_witness:
  "vm_DeleteAccount ref_vm 1 ref_vmctx = Fail (ErrPlain ''only smart contracts can be self-destructed'') \<and>
   (\<exists>c'. vm_DeleteAccount ref_vm 1 (SetCodeHash (addr_Bytes 1) (hash_Bytes 9) ref_vmctx) = Ok c' \<and>
      vm_GetAccount ref_vm c' 1 = Ok None)"
proof
  show "vm_DeleteAccount ref_vm 1 ref_vmctx = Fail (ErrPlain ''only smart contracts can be self-destructed'')"
    by (simp add: vm_DeleteAccount_def ref_vmctx_def ref_vm_def ref_auth_def vm_IsContract_def pget_def Let_def)
  let ?c = "SetCodeHash (addr_Bytes 1) (hash_Bytes 9) ref_vmctx"
  have i: "pb_inv (bankWrapper ref_vm) (bank_state ?c)" using ref_vmctx_inv by simp
  have "vm_IsContract ?c 1" by (simp add: vm_IsContract_def SetCodeHash_def pstore_simps)
  then show "\<exists>c'. vm_DeleteAccount ref_vm 1 ?c = Ok c' \<and> vm_GetAccount ref_vm c' 1 = Ok None"
    using DeleteAccount_clears [OF rv.vm_laws_axioms i ref_ordinary, of 1] by (auto split: res.splits)
qed

text \<open>
  Gas used by the messages of one transaction accumulates without wrapping: \<open>AddTransientGasUsed\<close>
  stores and returns the exact sum when it fits in 64 bits and reports an overflow, leaving the store
  as it was, when it does not. A reset makes the counter zero again.
\<close>

lemma AddTransientGasUsed_no_wrap:
  "(case AddTransientGasUsed g c of
      Ok (r, c') \<Rightarrow> unat r = unat (GetTransientGasUsed c) + unat g \<and> GetTransientGasUsed c' = r
    | Fail e \<Rightarrow> e = ErrGasOverflow \<and> 2 ^ 64 \<le> unat (GetTransientGasUsed c) + unat g
    | Panic p \<Rightarrow> False) \<and> GetTransientGasUsed (ResetTransientGasUsed c) = 0"
proof -
  let ?u = "GetTransientGasUsed c"
  have s: "GetTransientGasUsed (SetTransientGasUsed w c) = w" for w
    by (simp add: GetTransientGasUsed_def SetTransientGasUsed_def be_uint64_def store_simps un_be_bytes)
  have le: "g \<le> g + ?u \<longleftrightarrow> unat ?u + unat g < 2 ^ LENGTH(64)"
    using no_olen_add_nat [of g ?u] by (simp only: add.commute)
  have sum: "unat ?u + unat g < 2 ^ LENGTH(64) \<Longrightarrow> unat (?u + g) = unat ?u + unat g"
    by (rule unat_add_lem [THEN iffD1])
  have "case AddTransientGasUsed g c of
      Ok (r, c') \<Rightarrow> unat r = unat ?u + unat g \<and> GetTransientGasUsed c' = r
    | Fail e \<Rightarrow> e = ErrGasOverflow \<and> 2 ^ LENGTH(64) \<le> unat ?u + unat g
    | Panic p \<Rightarrow> False"
  proof (cases "?u + g < g")
    case True
    then have "\<not> g \<le> g + ?u" by (simp only: not_le add.commute)
    with True le show ?thesis by (simp only: AddTransientGasUsed_def Let_def if_True not_less) simp
  next
    case False
    then have "g \<le> g + ?u" by (simp only: not_less add.commute)
    with False le sum s show ?thesis by (simp only: AddTransientGasUsed_def Let_def if_False) simp
  qed
  moreover have "GetTransientGasUsed (ResetTransientGasUsed c) = 0"
    by (simp add: ResetTransientGasUsed_def GetTransientGasUsed_def be_uint64_def store_simps)
  ultimately show ?thesis by (auto split: res.splits)
qed

end
