(* ===== verification/TxData.thy ===== *)
theory TxData
  imports AccessList Sdk
begin

text \<open>
  Ethereum transactions as the module carries them: \<^verbatim>\<open>x/vm/types/{legacy_tx,access_list_tx,dynamic_fee_tx,
  tx_data,access_list,tx,tx_args,msg}.go\<close>, with the helpers of \<^verbatim>\<open>utils/eth\<close> and \<^verbatim>\<open>types/int.go\<close>.
  A nil \<^verbatim>\<open>*big.Int\<close> or \<^verbatim>\<open>*sdkmath.Int\<close> is \<open>None\<close>, and using one as a number is a panic. The
  go-ethereum transaction is what its getters return (\<open>eth_tx\<close>), its inner data the record
  \<open>eth_data\<close>; the hexadecimal text functions of \<^verbatim>\<open>common\<close> are the record \<open>hex_ops\<close>.
\<close>

section \<open>The interface of go-ethereum\<close>

type_synonym eth_access_list = "(addr \<times> hash list) list"

record eth_tx =
  et_Type :: uint8
  et_Nonce :: uint64
  et_Data :: bytes
  et_Gas :: uint64
  et_To :: "addr option"
  et_Value :: "int option"
  et_GasPrice :: "int option"
  et_GasFeeCap :: "int option"
  et_GasTipCap :: "int option"
  et_AccessList :: "eth_access_list option"
  et_V :: "int option"
  et_R :: "int option"
  et_S :: "int option"
  et_ChainId :: "int option"

text \<open>The fields of \<^verbatim>\<open>ethtypes.LegacyTx\<close>, \<^verbatim>\<open>AccessListTx\<close> and \<^verbatim>\<open>DynamicFeeTx\<close>; those a type lacks are \<open>None\<close>.\<close>

record eth_data =
  ed_Type :: uint8
  ed_ChainID :: "int option"
  ed_Nonce :: uint64
  ed_GasPrice :: "int option"
  ed_GasTipCap :: "int option"
  ed_GasFeeCap :: "int option"
  ed_Gas :: uint64
  ed_To :: "addr option"
  ed_Value :: "int option"
  ed_Data :: bytes
  ed_AccessList :: "eth_access_list option"
  ed_V :: "int option"
  ed_R :: "int option"
  ed_S :: "int option"

record hex_ops =
  HexToAddress :: "string \<Rightarrow> addr"
  addr_Hex :: "addr \<Rightarrow> string"
  HexToHash :: "string \<Rightarrow> hash"
  hash_String :: "hash \<Rightarrow> string"
  IsHexAddress :: "string \<Rightarrow> bool"

locale hex_laws =
  fixes H :: hex_ops
  assumes address_hex: "HexToAddress H (addr_Hex H a) = a"
    and hash_hex: "HexToHash H (hash_String H h) = h"
    and hex_is_address: "IsHexAddress H (addr_Hex H a)"
    and empty_not_address: "\<not> IsHexAddress H []"
begin

lemma addr_Hex_nonempty [simp]: "addr_Hex H a \<noteq> []"
  using hex_is_address [of a] empty_not_address by auto

end

text \<open>A reference encoding: one character per byte.\<close>

definition ref_hex :: hex_ops where
  "ref_hex =
     \<lparr>HexToAddress = (\<lambda>s. un_be (StringToBytes s)),
      addr_Hex = (\<lambda>a. map (char_of \<circ> unat) (be_bytes 20 a)),
      HexToHash = (\<lambda>s. un_be (StringToBytes s)),
      hash_String = (\<lambda>h. map (char_of \<circ> unat) (be_bytes 32 h)),
      IsHexAddress = (\<lambda>s. length s = 20)\<rparr>"

lemma StringToBytes_chars: "StringToBytes (map (char_of \<circ> unat) bs) = bs"
proof -
  have "(of_char (char_of (unat b)) :: byte) = b" for b :: byte
  proof -
    have "unat b < 256" using unsigned_less [of b] by simp
    then have "unat (of_char (char_of (unat b)) :: byte) = unat b"
      by (simp add: unat_of_char_byte)
    then show ?thesis by (rule unsigned_word_eqI)
  qed
  then show ?thesis by (simp add: StringToBytes_def comp_def)
qed

interpretation rh: hex_laws ref_hex
  by unfold_locales (simp_all add: ref_hex_def StringToBytes_chars un_be_bytes)

section \<open>Integers and addresses\<close>

definition IsValidInt256 :: "int option \<Rightarrow> bool" where
  "IsValidInt256 i \<longleftrightarrow> (case i of None \<Rightarrow> True | Some x \<Rightarrow> \<bar>x\<bar> < 2 ^ 256)"

definition SafeNewIntFromBigInt :: "int \<Rightarrow> int res" where
  "SafeNewIntFromBigInt i =
     (if \<not> IsValidInt256 (Some i) then Fail (ErrPlain ''big int out of bound'') else Ok i)"

definition SafeInt64 :: "uint64 \<Rightarrow> int res" where
  "SafeInt64 v = (if 2 ^ 63 - 1 < uint v then Fail (ErrPlain ''uint64 value cannot exceed'') else Ok (sint v))"

definition ValidateAddress :: "hex_ops \<Rightarrow> string \<Rightarrow> unit res" where
  "ValidateAddress H a = require (IsHexAddress H a) (ErrInvalidAddress a)"

definition IsZeroAddress :: "hex_ops \<Rightarrow> string \<Rightarrow> bool" where
  "IsZeroAddress H a \<longleftrightarrow> HexToAddress H a = 0"

definition ValidateNonZeroAddress :: "hex_ops \<Rightarrow> string \<Rightarrow> unit res" where
  "ValidateNonZeroAddress H a =
     (if IsZeroAddress H a then Fail (ErrInvalidAddress a) else ValidateAddress H a)"

definition IsEmptyHash :: "hex_ops \<Rightarrow> string \<Rightarrow> bool" where
  "IsEmptyHash H h \<longleftrightarrow> HexToHash H h = 0"

text \<open>The chain id in the signature value \<open>v\<close> of an EIP-155 transaction.\<close>

definition DeriveChainID :: "int option \<Rightarrow> int option" where
  "DeriveChainID v =
     (case v of None \<Rightarrow> None
      | Some x \<Rightarrow>
          if x < 1 then None
          else if x < 2 ^ 64
          then (let u = word_of_int x :: uint64 in
            if u = 27 \<or> u = 28 then Some 0
            else if u < 35 then None
            else Some (uint ((u - 35) div 2)))
          else Some ((x - 35) div 2))"

definition sig_value :: "bytes \<Rightarrow> int option" where
  "sig_value bs = (if 0 < length bs then Some (int (big_SetBytes bs)) else None)"

definition RawSignatureValues :: "bytes \<Rightarrow> bytes \<Rightarrow> bytes \<Rightarrow> int option \<times> int option \<times> int option" where
  "RawSignatureValues v r s = (sig_value v, sig_value r, sig_value s)"

text \<open>\<^verbatim>\<open>v.Bytes()\<close> when \<open>v\<close> is given, the old bytes otherwise.\<close>

definition sig_bytes :: "int option \<Rightarrow> bytes \<Rightarrow> bytes" where
  "sig_bytes v old = (case v of None \<Rightarrow> old | Some x \<Rightarrow> big_Bytes (nat \<bar>x\<bar>))"

section \<open>Access lists\<close>

record AccessTuple =
  tuple_Address :: string
  tuple_StorageKeys :: "string list"

definition NewAccessList :: "hex_ops \<Rightarrow> eth_access_list option \<Rightarrow> AccessTuple list option" where
  "NewAccessList H eal =
     (case eal of None \<Rightarrow> None
      | Some ts \<Rightarrow> Some (fold (\<lambda>(a, ks) al.
          al @ [\<lparr>tuple_Address = addr_Hex H a, tuple_StorageKeys = map (hash_String H) ks\<rparr>]) ts []))"

text \<open>The result starts as the nil slice, so an empty list gives nil.\<close>

definition ToEthAccessList :: "hex_ops \<Rightarrow> AccessTuple list \<Rightarrow> eth_access_list option" where
  "ToEthAccessList H al = fold (\<lambda>t acc.
     Some ((case acc of None \<Rightarrow> [] | Some xs \<Rightarrow> xs) @
       [(HexToAddress H (tuple_Address t), map (HexToHash H) (tuple_StorageKeys t))])) al None"

section \<open>Fees\<close>

definition fee :: "int option \<Rightarrow> uint64 \<Rightarrow> int res" where
  "fee gasPrice gas = (case gasPrice of None \<Rightarrow> Panic ''nil pointer'' | Some p \<Rightarrow> Ok (p * uint gas))"

definition cost :: "int \<Rightarrow> int option \<Rightarrow> int" where
  "cost f v = (case v of None \<Rightarrow> f | Some x \<Rightarrow> f + x)"

definition EffectiveGasPrice :: "int option \<Rightarrow> int option \<Rightarrow> int option \<Rightarrow> int res" where
  "EffectiveGasPrice baseFee feeCap tipCap =
     (case (baseFee, feeCap, tipCap) of
        (Some b, Some c, Some t) \<Rightarrow> (let calcVal = t + b in if calcVal < c then Ok calcVal else Ok c)
      | _ \<Rightarrow> Panic ''nil pointer'')"

definition negative :: "int option \<Rightarrow> bool" where
  "negative i \<longleftrightarrow> (case i of None \<Rightarrow> False | Some x \<Rightarrow> x < 0)"

definition safe_option :: "int option \<Rightarrow> int option res" where
  "safe_option i = (case i of None \<Rightarrow> Ok None | Some x \<Rightarrow> bind_res (SafeNewIntFromBigInt x) (\<lambda>y. Ok (Some y)))"

section \<open>Legacy transactions\<close>

record LegacyTx =
  leg_Nonce :: uint64
  leg_GasPrice :: "int option"
  leg_GasLimit :: uint64
  leg_To :: string
  leg_Amount :: "int option"
  leg_Data :: bytes
  leg_V :: bytes
  leg_R :: bytes
  leg_S :: bytes

definition leg_SetSignatureValues :: "int option \<Rightarrow> int option \<Rightarrow> int option \<Rightarrow> LegacyTx \<Rightarrow> LegacyTx" where
  "leg_SetSignatureValues v r s tx =
     tx\<lparr>leg_V := sig_bytes v (leg_V tx), leg_R := sig_bytes r (leg_R tx), leg_S := sig_bytes s (leg_S tx)\<rparr>"

definition NewLegacyTx :: "hex_ops \<Rightarrow> eth_tx \<Rightarrow> LegacyTx res" where
  "NewLegacyTx H tx =
     bind_res (safe_option (et_Value tx)) (\<lambda>amt.
     bind_res (safe_option (et_GasPrice tx)) (\<lambda>price.
     Ok (leg_SetSignatureValues (et_V tx) (et_R tx) (et_S tx)
       \<lparr>leg_Nonce = et_Nonce tx, leg_GasPrice = price, leg_GasLimit = et_Gas tx,
          leg_To = (case et_To tx of None \<Rightarrow> [] | Some a \<Rightarrow> addr_Hex H a), leg_Amount = amt, leg_Data = et_Data tx, leg_V = [], leg_R = [], leg_S = []\<rparr>)))"

definition leg_GetRawSignatureValues :: "LegacyTx \<Rightarrow> int option \<times> int option \<times> int option" where
  "leg_GetRawSignatureValues tx = RawSignatureValues (leg_V tx) (leg_R tx) (leg_S tx)"

definition leg_GetChainID :: "LegacyTx \<Rightarrow> int option" where
  "leg_GetChainID tx = DeriveChainID (fst (leg_GetRawSignatureValues tx))"

definition leg_GetTo :: "hex_ops \<Rightarrow> LegacyTx \<Rightarrow> addr option" where
  "leg_GetTo H tx = (if leg_To tx = [] then None else Some (HexToAddress H (leg_To tx)))"

definition leg_AsEthereumData :: "hex_ops \<Rightarrow> LegacyTx \<Rightarrow> eth_data" where
  "leg_AsEthereumData H tx =
     (case leg_GetRawSignatureValues tx of (v, r, s) \<Rightarrow>
       \<lparr>ed_Type = 0, ed_ChainID = None, ed_Nonce = leg_Nonce tx, ed_GasPrice = leg_GasPrice tx,
        ed_GasTipCap = None, ed_GasFeeCap = None, ed_Gas = leg_GasLimit tx, ed_To = leg_GetTo H tx,
        ed_Value = leg_Amount tx, ed_Data = leg_Data tx, ed_AccessList = None, ed_V = v, ed_R = r, ed_S = s\<rparr>)"

definition leg_Fee :: "LegacyTx \<Rightarrow> int res" where
  "leg_Fee tx = fee (leg_GasPrice tx) (leg_GasLimit tx)"

definition leg_Cost :: "LegacyTx \<Rightarrow> int res" where
  "leg_Cost tx = bind_res (leg_Fee tx) (\<lambda>f. Ok (cost f (leg_Amount tx)))"

definition leg_Validate :: "hex_ops \<Rightarrow> LegacyTx \<Rightarrow> unit res" where
  "leg_Validate H tx =
     bind_res (require (leg_GasPrice tx \<noteq> None) ErrInvalidGasPrice) (\<lambda>_.
     bind_res (require (\<not> negative (leg_GasPrice tx)) ErrInvalidGasPrice) (\<lambda>_.
     bind_res (require (IsValidInt256 (leg_GasPrice tx)) ErrInvalidGasPrice) (\<lambda>_.
     bind_res (leg_Fee tx) (\<lambda>f.
     bind_res (require (IsValidInt256 (Some f)) ErrInvalidGasFee) (\<lambda>_.
     bind_res (require (\<not> negative (leg_Amount tx)) ErrInvalidAmount) (\<lambda>_.
     bind_res (require (IsValidInt256 (leg_Amount tx)) ErrInvalidAmount) (\<lambda>_.
     bind_res (if leg_To tx \<noteq> [] then ValidateAddress H (leg_To tx) else Ok ()) (\<lambda>_.
     require (leg_GetChainID tx \<noteq> None) ErrInvalidChainID))))))))"

section \<open>Access list transactions\<close>

record AccessListTx =
  alt_ChainID :: "int option"
  alt_Nonce :: uint64
  alt_GasPrice :: "int option"
  alt_GasLimit :: uint64
  alt_To :: string
  alt_Amount :: "int option"
  alt_Data :: bytes
  alt_Accesses :: "AccessTuple list option"
  alt_V :: bytes
  alt_R :: bytes
  alt_S :: bytes

definition alt_SetSignatureValues :: "int option \<Rightarrow> int option \<Rightarrow> int option \<Rightarrow> int option \<Rightarrow> AccessListTx \<Rightarrow> AccessListTx" where
  "alt_SetSignatureValues chainID v r s tx =
     tx\<lparr>alt_V := sig_bytes v (alt_V tx), alt_R := sig_bytes r (alt_R tx), alt_S := sig_bytes s (alt_S tx),
        alt_ChainID := (case chainID of None \<Rightarrow> alt_ChainID tx | Some c \<Rightarrow> Some c)\<rparr>"

definition newAccessListTx :: "hex_ops \<Rightarrow> eth_tx \<Rightarrow> AccessListTx res" where
  "newAccessListTx H tx =
     bind_res (safe_option (et_Value tx)) (\<lambda>amt.
     bind_res (safe_option (et_GasPrice tx)) (\<lambda>price.
     Ok (alt_SetSignatureValues (et_ChainId tx) (et_V tx) (et_R tx) (et_S tx)
       \<lparr>alt_ChainID = None, alt_Nonce = et_Nonce tx, alt_GasPrice = price, alt_GasLimit = et_Gas tx,
          alt_To = (case et_To tx of None \<Rightarrow> [] | Some a \<Rightarrow> addr_Hex H a), alt_Amount = amt, alt_Data = et_Data tx,
          alt_Accesses = NewAccessList H (et_AccessList tx), alt_V = [], alt_R = [], alt_S = []\<rparr>)))"

definition alt_GetRawSignatureValues :: "AccessListTx \<Rightarrow> int option \<times> int option \<times> int option" where
  "alt_GetRawSignatureValues tx = RawSignatureValues (alt_V tx) (alt_R tx) (alt_S tx)"

definition alt_GetTo :: "hex_ops \<Rightarrow> AccessListTx \<Rightarrow> addr option" where
  "alt_GetTo H tx = (if alt_To tx = [] then None else Some (HexToAddress H (alt_To tx)))"

definition alt_GetAccessList :: "hex_ops \<Rightarrow> AccessListTx \<Rightarrow> eth_access_list option" where
  "alt_GetAccessList H tx =
     (case alt_Accesses tx of None \<Rightarrow> None | Some al \<Rightarrow> ToEthAccessList H al)"

definition alt_AsEthereumData :: "hex_ops \<Rightarrow> AccessListTx \<Rightarrow> eth_data" where
  "alt_AsEthereumData H tx =
     (case alt_GetRawSignatureValues tx of (v, r, s) \<Rightarrow>
       \<lparr>ed_Type = 1, ed_ChainID = alt_ChainID tx, ed_Nonce = alt_Nonce tx, ed_GasPrice = alt_GasPrice tx,
        ed_GasTipCap = None, ed_GasFeeCap = None, ed_Gas = alt_GasLimit tx, ed_To = alt_GetTo H tx,
        ed_Value = alt_Amount tx, ed_Data = alt_Data tx, ed_AccessList = alt_GetAccessList H tx, ed_V = v, ed_R = r, ed_S = s\<rparr>)"

definition alt_Fee :: "AccessListTx \<Rightarrow> int res" where
  "alt_Fee tx = fee (alt_GasPrice tx) (alt_GasLimit tx)"

definition alt_Cost :: "AccessListTx \<Rightarrow> int res" where
  "alt_Cost tx = bind_res (alt_Fee tx) (\<lambda>f. Ok (cost f (alt_Amount tx)))"

definition alt_Validate :: "hex_ops \<Rightarrow> AccessListTx \<Rightarrow> unit res" where
  "alt_Validate H tx =
     bind_res (require (alt_GasPrice tx \<noteq> None) ErrInvalidGasPrice) (\<lambda>_.
     bind_res (require (IsValidInt256 (alt_GasPrice tx)) ErrInvalidGasPrice) (\<lambda>_.
     bind_res (require (\<not> negative (alt_GasPrice tx)) ErrInvalidGasPrice) (\<lambda>_.
     bind_res (require (\<not> negative (alt_Amount tx)) ErrInvalidAmount) (\<lambda>_.
     bind_res (require (IsValidInt256 (alt_Amount tx)) ErrInvalidAmount) (\<lambda>_.
     bind_res (alt_Fee tx) (\<lambda>f.
     bind_res (require (IsValidInt256 (Some f)) ErrInvalidGasFee) (\<lambda>_.
     bind_res (if alt_To tx \<noteq> [] then ValidateAddress H (alt_To tx) else Ok ()) (\<lambda>_.
     require (alt_ChainID tx \<noteq> None) ErrInvalidChainID))))))))"

section \<open>Dynamic fee transactions\<close>

record DynamicFeeTx =
  dyn_ChainID :: "int option"
  dyn_Nonce :: uint64
  dyn_GasTipCap :: "int option"
  dyn_GasFeeCap :: "int option"
  dyn_GasLimit :: uint64
  dyn_To :: string
  dyn_Amount :: "int option"
  dyn_Data :: bytes
  dyn_Accesses :: "AccessTuple list option"
  dyn_V :: bytes
  dyn_R :: bytes
  dyn_S :: bytes

definition dyn_SetSignatureValues :: "int option \<Rightarrow> int option \<Rightarrow> int option \<Rightarrow> int option \<Rightarrow> DynamicFeeTx \<Rightarrow> DynamicFeeTx" where
  "dyn_SetSignatureValues chainID v r s tx =
     tx\<lparr>dyn_V := sig_bytes v (dyn_V tx), dyn_R := sig_bytes r (dyn_R tx), dyn_S := sig_bytes s (dyn_S tx),
        dyn_ChainID := (case chainID of None \<Rightarrow> dyn_ChainID tx | Some c \<Rightarrow> Some c)\<rparr>"

definition NewDynamicFeeTx :: "hex_ops \<Rightarrow> eth_tx \<Rightarrow> DynamicFeeTx res" where
  "NewDynamicFeeTx H tx =
     bind_res (safe_option (et_Value tx)) (\<lambda>amt.
     bind_res (safe_option (et_GasFeeCap tx)) (\<lambda>cap.
     bind_res (safe_option (et_GasTipCap tx)) (\<lambda>tip.
     Ok (dyn_SetSignatureValues (et_ChainId tx) (et_V tx) (et_R tx) (et_S tx)
       \<lparr>dyn_ChainID = None, dyn_Nonce = et_Nonce tx, dyn_GasTipCap = tip, dyn_GasFeeCap = cap,
          dyn_GasLimit = et_Gas tx, dyn_To = (case et_To tx of None \<Rightarrow> [] | Some a \<Rightarrow> addr_Hex H a), dyn_Amount = amt, dyn_Data = et_Data tx,
          dyn_Accesses = NewAccessList H (et_AccessList tx), dyn_V = [], dyn_R = [], dyn_S = []\<rparr>))))"

definition dyn_GetRawSignatureValues :: "DynamicFeeTx \<Rightarrow> int option \<times> int option \<times> int option" where
  "dyn_GetRawSignatureValues tx = RawSignatureValues (dyn_V tx) (dyn_R tx) (dyn_S tx)"

definition dyn_GetTo :: "hex_ops \<Rightarrow> DynamicFeeTx \<Rightarrow> addr option" where
  "dyn_GetTo H tx = (if dyn_To tx = [] then None else Some (HexToAddress H (dyn_To tx)))"

definition dyn_GetAccessList :: "hex_ops \<Rightarrow> DynamicFeeTx \<Rightarrow> eth_access_list option" where
  "dyn_GetAccessList H tx =
     (case dyn_Accesses tx of None \<Rightarrow> None | Some al \<Rightarrow> ToEthAccessList H al)"

definition dyn_AsEthereumData :: "hex_ops \<Rightarrow> DynamicFeeTx \<Rightarrow> eth_data" where
  "dyn_AsEthereumData H tx =
     (case dyn_GetRawSignatureValues tx of (v, r, s) \<Rightarrow>
       \<lparr>ed_Type = 2, ed_ChainID = dyn_ChainID tx, ed_Nonce = dyn_Nonce tx, ed_GasPrice = None,
        ed_GasTipCap = dyn_GasTipCap tx, ed_GasFeeCap = dyn_GasFeeCap tx, ed_Gas = dyn_GasLimit tx, ed_To = dyn_GetTo H tx,
        ed_Value = dyn_Amount tx, ed_Data = dyn_Data tx, ed_AccessList = dyn_GetAccessList H tx, ed_V = v, ed_R = r, ed_S = s\<rparr>)"

definition dyn_Fee :: "DynamicFeeTx \<Rightarrow> int res" where
  "dyn_Fee tx = fee (dyn_GasFeeCap tx) (dyn_GasLimit tx)"

definition dyn_Cost :: "DynamicFeeTx \<Rightarrow> int res" where
  "dyn_Cost tx = bind_res (dyn_Fee tx) (\<lambda>f. Ok (cost f (dyn_Amount tx)))"

definition dyn_EffectiveGasPrice :: "int option \<Rightarrow> DynamicFeeTx \<Rightarrow> int res" where
  "dyn_EffectiveGasPrice baseFee tx = EffectiveGasPrice baseFee (dyn_GasFeeCap tx) (dyn_GasTipCap tx)"

definition dyn_EffectiveFee :: "int option \<Rightarrow> DynamicFeeTx \<Rightarrow> int res" where
  "dyn_EffectiveFee baseFee tx =
     bind_res (dyn_EffectiveGasPrice baseFee tx) (\<lambda>p. fee (Some p) (dyn_GasLimit tx))"

definition dyn_EffectiveCost :: "int option \<Rightarrow> DynamicFeeTx \<Rightarrow> int res" where
  "dyn_EffectiveCost baseFee tx =
     bind_res (dyn_EffectiveFee baseFee tx) (\<lambda>f. Ok (cost f (dyn_Amount tx)))"

definition dyn_Validate :: "hex_ops \<Rightarrow> DynamicFeeTx \<Rightarrow> unit res" where
  "dyn_Validate H tx =
     bind_res (require (dyn_GasTipCap tx \<noteq> None) ErrInvalidGasCap) (\<lambda>_.
     bind_res (require (dyn_GasFeeCap tx \<noteq> None) ErrInvalidGasCap) (\<lambda>_.
     bind_res (require (\<not> negative (dyn_GasTipCap tx)) ErrInvalidGasCap) (\<lambda>_.
     bind_res (require (\<not> negative (dyn_GasFeeCap tx)) ErrInvalidGasCap) (\<lambda>_.
     bind_res (require (IsValidInt256 (dyn_GasTipCap tx)) ErrInvalidGasCap) (\<lambda>_.
     bind_res (require (IsValidInt256 (dyn_GasFeeCap tx)) ErrInvalidGasCap) (\<lambda>_.
     bind_res (require (\<not> the (dyn_GasFeeCap tx) < the (dyn_GasTipCap tx)) ErrInvalidGasCap) (\<lambda>_.
     bind_res (dyn_Fee tx) (\<lambda>f.
     bind_res (require (IsValidInt256 (Some f)) ErrInvalidGasFee) (\<lambda>_.
     bind_res (require (\<not> negative (dyn_Amount tx)) ErrInvalidAmount) (\<lambda>_.
     bind_res (require (IsValidInt256 (dyn_Amount tx)) ErrInvalidAmount) (\<lambda>_.
     bind_res (if dyn_To tx \<noteq> [] then ValidateAddress H (dyn_To tx) else Ok ()) (\<lambda>_.
     require (dyn_ChainID tx \<noteq> None) ErrInvalidChainID))))))))))))"

section \<open>The interface over the three types\<close>

datatype TxData = Legacy LegacyTx | AccessListData AccessListTx | DynamicFee DynamicFeeTx

text \<open>Types 1 and 2 are go-ethereum's access list and dynamic fee transactions.\<close>

definition NewTxDataFromTx :: "hex_ops \<Rightarrow> eth_tx \<Rightarrow> TxData res" where
  "NewTxDataFromTx H tx =
     (if et_Type tx = 2 then bind_res (NewDynamicFeeTx H tx) (\<lambda>t. Ok (DynamicFee t))
      else if et_Type tx = 1 then bind_res (newAccessListTx H tx) (\<lambda>t. Ok (AccessListData t))
      else bind_res (NewLegacyTx H tx) (\<lambda>t. Ok (Legacy t)))"

fun tx_GetGas :: "TxData \<Rightarrow> uint64" where
  "tx_GetGas (Legacy t) = leg_GasLimit t"
| "tx_GetGas (AccessListData t) = alt_GasLimit t"
| "tx_GetGas (DynamicFee t) = dyn_GasLimit t"

fun tx_GetTo :: "hex_ops \<Rightarrow> TxData \<Rightarrow> addr option" where
  "tx_GetTo H (Legacy t) = leg_GetTo H t"
| "tx_GetTo H (AccessListData t) = alt_GetTo H t"
| "tx_GetTo H (DynamicFee t) = dyn_GetTo H t"

fun tx_GetData :: "TxData \<Rightarrow> bytes" where
  "tx_GetData (Legacy t) = leg_Data t"
| "tx_GetData (AccessListData t) = alt_Data t"
| "tx_GetData (DynamicFee t) = dyn_Data t"

fun tx_GetValue :: "TxData \<Rightarrow> int option" where
  "tx_GetValue (Legacy t) = leg_Amount t"
| "tx_GetValue (AccessListData t) = alt_Amount t"
| "tx_GetValue (DynamicFee t) = dyn_Amount t"

fun tx_GetAccessList :: "hex_ops \<Rightarrow> TxData \<Rightarrow> eth_access_list option" where
  "tx_GetAccessList H (Legacy t) = None"
| "tx_GetAccessList H (AccessListData t) = alt_GetAccessList H t"
| "tx_GetAccessList H (DynamicFee t) = dyn_GetAccessList H t"

fun tx_GetGasFeeCap :: "TxData \<Rightarrow> int option" where
  "tx_GetGasFeeCap (Legacy t) = leg_GasPrice t"
| "tx_GetGasFeeCap (AccessListData t) = alt_GasPrice t"
| "tx_GetGasFeeCap (DynamicFee t) = dyn_GasFeeCap t"

fun tx_GetGasTipCap :: "TxData \<Rightarrow> int option" where
  "tx_GetGasTipCap (Legacy t) = leg_GasPrice t"
| "tx_GetGasTipCap (AccessListData t) = alt_GasPrice t"
| "tx_GetGasTipCap (DynamicFee t) = dyn_GasTipCap t"

fun tx_GetChainID :: "TxData \<Rightarrow> int option" where
  "tx_GetChainID (Legacy t) = leg_GetChainID t"
| "tx_GetChainID (AccessListData t) = alt_ChainID t"
| "tx_GetChainID (DynamicFee t) = dyn_ChainID t"

fun tx_AsEthereumData :: "hex_ops \<Rightarrow> TxData \<Rightarrow> eth_data" where
  "tx_AsEthereumData H (Legacy t) = leg_AsEthereumData H t"
| "tx_AsEthereumData H (AccessListData t) = alt_AsEthereumData H t"
| "tx_AsEthereumData H (DynamicFee t) = dyn_AsEthereumData H t"

fun tx_Validate :: "hex_ops \<Rightarrow> TxData \<Rightarrow> unit res" where
  "tx_Validate H (Legacy t) = leg_Validate H t"
| "tx_Validate H (AccessListData t) = alt_Validate H t"
| "tx_Validate H (DynamicFee t) = dyn_Validate H t"

fun tx_Fee :: "TxData \<Rightarrow> int res" where
  "tx_Fee (Legacy t) = leg_Fee t"
| "tx_Fee (AccessListData t) = alt_Fee t"
| "tx_Fee (DynamicFee t) = dyn_Fee t"

fun tx_Cost :: "TxData \<Rightarrow> int res" where
  "tx_Cost (Legacy t) = leg_Cost t"
| "tx_Cost (AccessListData t) = alt_Cost t"
| "tx_Cost (DynamicFee t) = dyn_Cost t"

text \<open>For the two older types the effective values are the plain ones; a nil price is then returned as such.\<close>

fun tx_EffectiveGasPrice :: "int option \<Rightarrow> TxData \<Rightarrow> int option res" where
  "tx_EffectiveGasPrice b (Legacy t) = Ok (leg_GasPrice t)"
| "tx_EffectiveGasPrice b (AccessListData t) = Ok (alt_GasPrice t)"
| "tx_EffectiveGasPrice b (DynamicFee t) = bind_res (dyn_EffectiveGasPrice b t) (\<lambda>p. Ok (Some p))"

fun tx_EffectiveFee :: "int option \<Rightarrow> TxData \<Rightarrow> int res" where
  "tx_EffectiveFee b (Legacy t) = leg_Fee t"
| "tx_EffectiveFee b (AccessListData t) = alt_Fee t"
| "tx_EffectiveFee b (DynamicFee t) = dyn_EffectiveFee b t"

fun tx_EffectiveCost :: "int option \<Rightarrow> TxData \<Rightarrow> int res" where
  "tx_EffectiveCost b (Legacy t) = leg_Cost t"
| "tx_EffectiveCost b (AccessListData t) = alt_Cost t"
| "tx_EffectiveCost b (DynamicFee t) = dyn_EffectiveCost b t"

text \<open>
  The mempool priority; \<open>reduction\<close> is the SDK's \<^verbatim>\<open>DefaultPowerReduction\<close>. A nil price would be a
  panic in the division.
\<close>

definition GetTxPriority :: "int \<Rightarrow> TxData \<Rightarrow> int option \<Rightarrow> int res" where
  "GetTxPriority reduction txData baseFee =
     bind_res (tx_EffectiveGasPrice baseFee txData) (\<lambda>p. case p of None \<Rightarrow> Panic ''nil pointer''
     | Some price \<Rightarrow>
         let tipPrice = (case baseFee of None \<Rightarrow> price | Some b \<Rightarrow> price - b);
             priorityBig = tipPrice sdiv reduction in
         Ok (if - (2 ^ 63) \<le> priorityBig \<and> priorityBig < 2 ^ 63 then priorityBig else 2 ^ 63 - 1))"

section \<open>The message\<close>

record MsgEthereumTx =
  msg_Data :: "TxData option"
  msg_Size :: int
  msg_Hash :: string
  msg_From :: string

text \<open>
  \<open>tx_hash\<close> stands for \<^verbatim>\<open>NewTx(data).Hash().Hex()\<close>; data that cannot be unpacked is \<open>None\<close>.
\<close>

definition ValidateBasic :: "hex_ops \<Rightarrow> (eth_data \<Rightarrow> string) \<Rightarrow> MsgEthereumTx \<Rightarrow> unit res" where
  "ValidateBasic H tx_hash msg =
     bind_res (if msg_From msg \<noteq> [] then ValidateAddress H (msg_From msg) else Ok ()) (\<lambda>_.
     bind_res (require (msg_Size msg = 0) (ErrInvalidRequest ''tx size is deprecated'')) (\<lambda>_.
     case msg_Data msg of None \<Rightarrow> Fail (ErrPlain ''failed to unpack tx data'')
     | Some txData \<Rightarrow>
         let gas = tx_GetGas txData in
         bind_res (require (gas \<noteq> 0) ErrInvalidGasLimit) (\<lambda>_.
         bind_res (require (uint gas < 2 ^ 63) ErrGasOverflow) (\<lambda>_.
         bind_res (tx_Validate H txData) (\<lambda>_.
         require (msg_Hash msg = tx_hash (tx_AsEthereumData H txData)) (ErrInvalidRequest ''invalid tx hash''))))))"

definition FromEthereumTx :: "hex_ops \<Rightarrow> (eth_tx \<Rightarrow> string) \<Rightarrow> eth_tx \<Rightarrow> MsgEthereumTx \<Rightarrow> MsgEthereumTx res" where
  "FromEthereumTx H hash_of tx msg =
     bind_res (NewTxDataFromTx H tx) (\<lambda>txData.
     Ok (msg\<lparr>msg_Data := Some txData, msg_Hash := hash_of tx\<rparr>))"

definition msg_GetGas :: "MsgEthereumTx \<Rightarrow> uint64" where
  "msg_GetGas msg = (case msg_Data msg of None \<Rightarrow> 0 | Some t \<Rightarrow> tx_GetGas t)"

definition msg_GetFee :: "MsgEthereumTx \<Rightarrow> int option res" where
  "msg_GetFee msg = (case msg_Data msg of None \<Rightarrow> Ok None | Some t \<Rightarrow> bind_res (tx_Fee t) (\<lambda>f. Ok (Some f)))"

definition msg_GetEffectiveFee :: "int option \<Rightarrow> MsgEthereumTx \<Rightarrow> int option res" where
  "msg_GetEffectiveFee baseFee msg =
     (case msg_Data msg of None \<Rightarrow> Ok None | Some t \<Rightarrow> bind_res (tx_EffectiveFee baseFee t) (\<lambda>f. Ok (Some f)))"

record EvmTxArgs =
  arg_Nonce :: uint64
  arg_GasLimit :: uint64
  arg_Input :: bytes
  arg_GasFeeCap :: "int option"
  arg_GasPrice :: "int option"
  arg_ChainID :: "int option"
  arg_Amount :: "int option"
  arg_GasTipCap :: "int option"
  arg_To :: "addr option"
  arg_Accesses :: "eth_access_list option"

text \<open>The transaction data \<^verbatim>\<open>newMsgEthereumTx\<close> packs; a fee cap without a tip cap is a nil pointer.\<close>

definition newMsgEthereumTx :: "hex_ops \<Rightarrow> (eth_data \<Rightarrow> string) \<Rightarrow> EvmTxArgs \<Rightarrow> MsgEthereumTx res" where
  "newMsgEthereumTx H tx_hash tx =
     (let toAddr = (case arg_To tx of None \<Rightarrow> [] | Some a \<Rightarrow> addr_Hex H a) in
      bind_res
        (case arg_GasFeeCap tx of
           Some gfc \<Rightarrow>
             (case arg_GasTipCap tx of None \<Rightarrow> Panic ''nil pointer''
              | Some gtc \<Rightarrow> Ok (DynamicFee \<lparr>dyn_ChainID = arg_ChainID tx, dyn_Nonce = arg_Nonce tx, dyn_GasTipCap = Some gtc,
                  dyn_GasFeeCap = Some gfc, dyn_GasLimit = arg_GasLimit tx, dyn_To = toAddr, dyn_Amount = arg_Amount tx,
                  dyn_Data = arg_Input tx, dyn_Accesses = NewAccessList H (arg_Accesses tx), dyn_V = [], dyn_R = [], dyn_S = []\<rparr>))
         | None \<Rightarrow>
             if arg_Accesses tx \<noteq> None
             then Ok (AccessListData \<lparr>alt_ChainID = arg_ChainID tx, alt_Nonce = arg_Nonce tx, alt_GasPrice = arg_GasPrice tx,
                  alt_GasLimit = arg_GasLimit tx, alt_To = toAddr, alt_Amount = arg_Amount tx, alt_Data = arg_Input tx,
                  alt_Accesses = NewAccessList H (arg_Accesses tx), alt_V = [], alt_R = [], alt_S = []\<rparr>)
             else Ok (Legacy \<lparr>leg_Nonce = arg_Nonce tx, leg_GasPrice = arg_GasPrice tx, leg_GasLimit = arg_GasLimit tx,
                  leg_To = toAddr, leg_Amount = arg_Amount tx, leg_Data = arg_Input tx, leg_V = [], leg_R = [], leg_S = []\<rparr>))
        (\<lambda>txData. Ok \<lparr>msg_Data = Some txData, msg_Size = 0, msg_Hash = tx_hash (tx_AsEthereumData H txData), msg_From = []\<rparr>))"

section \<open>Call arguments\<close>

record TransactionArgs =
  ta_From :: "addr option"
  ta_To :: "addr option"
  ta_Gas :: "uint64 option"
  ta_GasPrice :: "int option"
  ta_MaxFeePerGas :: "int option"
  ta_MaxPriorityFeePerGas :: "int option"
  ta_Value :: "int option"
  ta_Nonce :: "uint64 option"
  ta_Data :: "bytes option"
  ta_Input :: "bytes option"
  ta_AccessList :: "eth_access_list option"

text \<open>\<^verbatim>\<open>core.Message\<close>, without the blob fields and the set-code authorizations.\<close>

record Message =
  m_From :: addr
  m_To :: "addr option"
  m_Nonce :: uint64
  m_Value :: int
  m_GasLimit :: uint64
  m_GasPrice :: int
  m_GasFeeCap :: int
  m_GasTipCap :: int
  m_Data :: bytes
  m_AccessList :: eth_access_list

definition ta_GetFrom :: "TransactionArgs \<Rightarrow> addr" where
  "ta_GetFrom args = (case ta_From args of None \<Rightarrow> 0 | Some a \<Rightarrow> a)"

definition ta_GetData :: "TransactionArgs \<Rightarrow> bytes" where
  "ta_GetData args =
     (case ta_Input args of Some d \<Rightarrow> d | None \<Rightarrow> (case ta_Data args of Some d \<Rightarrow> d | None \<Rightarrow> []))"

abbreviation (input) or_zero :: "int option \<Rightarrow> int" where
  "or_zero x \<equiv> (case x of None \<Rightarrow> 0 | Some v \<Rightarrow> v)"

definition ToMessage :: "uint64 \<Rightarrow> int option \<Rightarrow> TransactionArgs \<Rightarrow> Message res" where
  "ToMessage globalGasCap baseFee args =
     (if ta_GasPrice args \<noteq> None \<and> (ta_MaxFeePerGas args \<noteq> None \<or> ta_MaxPriorityFeePerGas args \<noteq> None)
      then Fail (ErrPlain ''both gasPrice and (maxFeePerGas or maxPriorityFeePerGas) specified'')
      else
        let addr = ta_GetFrom args;
            gas = (if globalGasCap = 0 then 9223372036854775807 else globalGasCap);
            gas = (case ta_Gas args of None \<Rightarrow> gas | Some g \<Rightarrow> g);
            gas = (if globalGasCap \<noteq> 0 \<and> globalGasCap < gas then globalGasCap else gas);
            (gasPrice, gasFeeCap, gasTipCap) =
              (case baseFee of
                 None \<Rightarrow> let p = or_zero (ta_GasPrice args) in (p, p, p)
               | Some b \<Rightarrow>
                   (case ta_GasPrice args of
                      Some p \<Rightarrow> (p, p, p)
                    | None \<Rightarrow>
                        let cap = or_zero (ta_MaxFeePerGas args); tip = or_zero (ta_MaxPriorityFeePerGas args);
                            p = (if cap \<noteq> 0 \<or> tip \<noteq> 0 then (if tip + b > cap then cap else tip + b) else 0)
                        in (p, cap, tip)))
        in Ok \<lparr>m_From = addr, m_To = ta_To args, m_Nonce = (case ta_Nonce args of None \<Rightarrow> 0 | Some n \<Rightarrow> n),
               m_Value = or_zero (ta_Value args), m_GasLimit = gas, m_GasPrice = gasPrice, m_GasFeeCap = gasFeeCap,
               m_GasTipCap = gasTipCap, m_Data = ta_GetData args,
               m_AccessList = (case ta_AccessList args of None \<Rightarrow> [] | Some al \<Rightarrow> al)\<rparr>)"

section \<open>Binary search for a gas limit\<close>

text \<open>
  \<^verbatim>\<open>BinSearch\<close> with its 64-bit arithmetic; \<open>executable gas\<close> is whether the call failed. Not returning
  is the value \<open>None\<close>.
\<close>

partial_function (option) BinSearch :: "uint64 \<Rightarrow> uint64 \<Rightarrow> (uint64 \<Rightarrow> bool res) \<Rightarrow> uint64 res option" where
  "BinSearch lo hi executable =
     (if lo + 1 < hi
      then let mid = (hi + lo) div 2 in
        (case executable mid of
           Fail e \<Rightarrow> Some (Fail e)
         | Panic p \<Rightarrow> Some (Panic p)
         | Ok failed \<Rightarrow> if failed then BinSearch mid hi executable else BinSearch lo mid executable)
      else Some (Ok hi))"

section \<open>Fees charged before execution\<close>

definition CheckSenderBalance :: "int \<Rightarrow> TxData \<Rightarrow> unit res" where
  "CheckSenderBalance balance txData =
     bind_res (tx_Cost txData) (\<lambda>c.
     bind_res (require (\<not> c < 0) ErrInvalidCoins) (\<lambda>_.
     require (\<not> (balance < 0 \<or> balance < c)) (ErrInsufficientFunds (Some (balance, c)))))"

text \<open>
  \<open>intrinsic\<close> is \<^verbatim>\<open>core.IntrinsicGas\<close> on the call data, the access list, the set-code authorizations of
  the transaction, the creation flag and the three hard forks.
\<close>

definition VerifyFee ::
  "hex_ops \<Rightarrow> (bytes \<Rightarrow> eth_access_list \<Rightarrow> eth_data \<Rightarrow> bool \<Rightarrow> bool \<Rightarrow> bool \<Rightarrow> bool \<Rightarrow> uint64 res) \<Rightarrow>
     TxData \<Rightarrow> string \<Rightarrow> int option \<Rightarrow> bool \<Rightarrow> bool \<Rightarrow> bool \<Rightarrow> bool \<Rightarrow> coins res" where
  "VerifyFee H intrinsic txData denom baseFee homestead istanbul shanghai isCheckTx =
     (let isContractCreation = (tx_GetTo H txData = None);
          gasLimit = tx_GetGas txData;
          accessList = (case tx_GetAccessList H txData of None \<Rightarrow> [] | Some al \<Rightarrow> al) in
      bind_res (intrinsic (tx_GetData txData) accessList (tx_AsEthereumData H txData)
        isContractCreation homestead istanbul shanghai) (\<lambda>intrinsicGas.
      bind_res (require (\<not> (isCheckTx \<and> gasLimit < intrinsicGas)) ErrOutOfGas) (\<lambda>_.
      bind_res (case baseFee of None \<Rightarrow> Ok ()
        | Some b \<Rightarrow> (case tx_GetGasFeeCap txData of None \<Rightarrow> Panic ''nil pointer''
            | Some cap \<Rightarrow> require (\<not> cap < b) ErrInsufficientFee)) (\<lambda>_.
      bind_res (tx_EffectiveFee baseFee txData) (\<lambda>feeAmt.
      if feeAmt = 0 then Ok [] else Ok [(denom, feeAmt)])))))"

end
