(* ===== verification/TxDataProps.thy ===== *)
theory TxDataProps
  imports TxData
begin

text \<open>
  The properties of the transaction types: what conversion from and to go-ethereum keeps, what
  validation guarantees, what the sender is charged, and when the gas search ends.
\<close>

section \<open>Conversion\<close>

lemma NewAccessList_map:
  "NewAccessList H (Some ts) = Some (map (\<lambda>(a, ks). \<lparr>tuple_Address = addr_Hex H a, tuple_StorageKeys = map (hash_String H) ks\<rparr>) ts)"
proof -
  have "fold (\<lambda>(a, ks) al. al @ [f a ks]) ts acc = acc @ map (\<lambda>(a, ks). f a ks) ts"
    for f :: "addr \<Rightarrow> hash list \<Rightarrow> AccessTuple" and acc
    by (induction ts arbitrary: acc) auto
  then show ?thesis by (simp add: NewAccessList_def)
qed

lemma ToEthAccessList_map:
  "ToEthAccessList H al = (if al = [] then None else
     Some (map (\<lambda>t. (HexToAddress H (tuple_Address t), map (HexToHash H) (tuple_StorageKeys t))) al))"
proof -
  have "fold (\<lambda>t acc. Some ((case acc of None \<Rightarrow> [] | Some xs \<Rightarrow> xs) @ [f t])) ts (Some ys) = Some (ys @ map f ts)"
    for f :: "AccessTuple \<Rightarrow> addr \<times> hash list" and ys ts
    by (induction ts arbitrary: ys) auto
  then show ?thesis by (cases al) (simp_all add: ToEthAccessList_def)
qed

text \<open>The empty list comes back as nil, and so does a zero signature value.\<close>

definition access_norm :: "eth_access_list option \<Rightarrow> eth_access_list option" where
  "access_norm al = (if al = Some [] then None else al)"

definition sig_norm :: "int option \<Rightarrow> int option" where
  "sig_norm v = (case v of None \<Rightarrow> None | Some x \<Rightarrow> if x = 0 then None else Some \<bar>x\<bar>)"

lemma sig_value_bytes: "sig_value (sig_bytes v []) = sig_norm v"
  by (auto simp: sig_value_def sig_bytes_def sig_norm_def split: option.split)

context hex_laws
begin

lemma access_round_trip:
  "(case NewAccessList H al of None \<Rightarrow> None | Some ts \<Rightarrow> ToEthAccessList H ts) = access_norm al"
proof (cases al)
  case (Some ts)
  have "map (\<lambda>t. (HexToAddress H (tuple_Address t), map (HexToHash H) (tuple_StorageKeys t)))
      (map (\<lambda>(a, ks). \<lparr>tuple_Address = addr_Hex H a, tuple_StorageKeys = map (hash_String H) ks\<rparr>) ts) = ts"
    by (induction ts) (auto simp: address_hex hash_hex comp_def)
  then show ?thesis by (simp add: Some NewAccessList_map ToEthAccessList_map access_norm_def)
qed (simp add: NewAccessList_def access_norm_def)

end

lemma safe_option_Ok: "safe_option i = Ok j \<longleftrightarrow> j = i \<and> IsValidInt256 i"
  by (auto simp: safe_option_def SafeNewIntFromBigInt_def IsValidInt256_def split: option.splits)

lemmas tx_conversion = NewTxDataFromTx_def NewDynamicFeeTx_def newAccessListTx_def NewLegacyTx_def
  dyn_AsEthereumData_def alt_AsEthereumData_def leg_AsEthereumData_def
  dyn_SetSignatureValues_def alt_SetSignatureValues_def leg_SetSignatureValues_def
  dyn_GetRawSignatureValues_def alt_GetRawSignatureValues_def leg_GetRawSignatureValues_def RawSignatureValues_def
  dyn_GetTo_def alt_GetTo_def leg_GetTo_def dyn_GetAccessList_def alt_GetAccessList_def

text \<open>
  C25. Converting a go-ethereum transaction and back keeps every field of its type: nonce, gas, recipient,
  value, data, prices, chain id, access list and signature, up to a zero signature value and an empty
  access list coming back as nil. The conversion fails when a price or the value does not fit in 256 bits.
\<close>

theorem NewTxDataFromTx_round_trip:
  assumes "hex_laws H" and "NewTxDataFromTx H tx = Ok t"
  defines "d \<equiv> tx_AsEthereumData H t"
  shows "ed_Nonce d = et_Nonce tx \<and> ed_Gas d = et_Gas tx \<and> ed_To d = et_To tx \<and> ed_Value d = et_Value tx \<and>
    ed_Data d = et_Data tx \<and> ed_V d = sig_norm (et_V tx) \<and> ed_R d = sig_norm (et_R tx) \<and> ed_S d = sig_norm (et_S tx) \<and>
    IsValidInt256 (et_Value tx) \<and>
    (if et_Type tx = 2
     then ed_Type d = 2 \<and> ed_GasFeeCap d = et_GasFeeCap tx \<and> ed_GasTipCap d = et_GasTipCap tx \<and>
       ed_ChainID d = et_ChainId tx \<and> ed_AccessList d = access_norm (et_AccessList tx)
     else ed_GasPrice d = et_GasPrice tx \<and>
       (if et_Type tx = 1
        then ed_Type d = 1 \<and> ed_ChainID d = et_ChainId tx \<and> ed_AccessList d = access_norm (et_AccessList tx)
        else ed_Type d = 0))"
  unfolding d_def
  using assms(2) hex_laws.addr_Hex_nonempty [OF assms(1)] hex_laws.address_hex [OF assms(1)]
    hex_laws.access_round_trip [OF assms(1), of "et_AccessList tx"]
  by (auto simp: tx_conversion res_simps safe_option_Ok sig_value_bytes split: if_splits option.splits)

definition ref_dyn_tx :: eth_tx where
  "ref_dyn_tx =
     \<lparr>et_Type = 2, et_Nonce = 7, et_Data = [1, 2], et_Gas = 21000, et_To = Some 5, et_Value = Some 30, et_GasPrice = Some 9,
      et_GasFeeCap = Some 9, et_GasTipCap = Some 2, et_AccessList = Some [(3, [4])], et_V = Some 0, et_R = Some 300,
      et_S = Some 5, et_ChainId = Some 631\<rparr>"

theorem NewTxDataFromTx_round_trip_witness:
  "\<exists>t. NewTxDataFromTx ref_hex ref_dyn_tx = Ok t \<and> ed_To (tx_AsEthereumData ref_hex t) = Some 5 \<and>
     ed_R (tx_AsEthereumData ref_hex t) = Some 300 \<and> ed_V (tx_AsEthereumData ref_hex t) = None"
proof -
  obtain t where t: "NewTxDataFromTx ref_hex ref_dyn_tx = Ok t"
    by (simp add: NewTxDataFromTx_def ref_dyn_tx_def NewDynamicFeeTx_def safe_option_def SafeNewIntFromBigInt_def IsValidInt256_def)
  from NewTxDataFromTx_round_trip [OF rh.hex_laws_axioms t] t show ?thesis
    by (simp add: ref_dyn_tx_def sig_norm_def)
qed

section \<open>Validation and fees\<close>

lemma uint_gas: "0 \<le> uint (g :: uint64)" "uint g < 2 ^ 64"
  using uint_lt2p [of g] by simp_all

lemma validate_facts:
  assumes "tx_Validate H t = Ok u"
  obtains cap tip where "tx_GetGasFeeCap t = Some cap" "tx_GetGasTipCap t = Some tip" "0 \<le> tip" "tip \<le> cap" "cap < 2 ^ 256"
    "tx_Fee t = Ok (cap * uint (tx_GetGas t))" "cap * uint (tx_GetGas t) < 2 ^ 256"
    "tx_Cost t = Ok (cost (cap * uint (tx_GetGas t)) (tx_GetValue t))"
    "\<not> negative (tx_GetValue t)" "IsValidInt256 (tx_GetValue t)" "tx_GetChainID t \<noteq> None"
proof (cases t)
  case (Legacy l)
  then obtain p where "leg_GasPrice l = Some p" using assms by (auto simp: leg_Validate_def res_simps)
  with Legacy assms show ?thesis
    by (intro that [of p p]) (auto simp: leg_Validate_def res_simps negative_def IsValidInt256_def leg_Fee_def fee_def
        leg_Cost_def)
next
  case (AccessListData l)
  then obtain p where "alt_GasPrice l = Some p" using assms by (auto simp: alt_Validate_def res_simps)
  with AccessListData assms show ?thesis
    by (intro that [of p p]) (auto simp: alt_Validate_def res_simps negative_def IsValidInt256_def alt_Fee_def fee_def
        alt_Cost_def)
next
  case (DynamicFee l)
  then obtain c p where "dyn_GasFeeCap l = Some c" "dyn_GasTipCap l = Some p" using assms by (auto simp: dyn_Validate_def res_simps)
  with DynamicFee assms show ?thesis
    by (intro that [of c p]) (auto simp: dyn_Validate_def res_simps negative_def IsValidInt256_def dyn_Fee_def fee_def
        dyn_Cost_def)
qed

text \<open>
  C26. A transaction that validates, of any of the three types, has a tip cap and a fee cap with
  \<open>0 \<le> tip \<le> cap < 2^256\<close>, a fee that is the cap times the gas limit and fits in 256 bits, a value
  that is absent or a 256-bit amount, a chain id, and a cost that is at least the fee; none of the
  functions that compute them panics.
\<close>

theorem Validate_bounds:
  assumes "tx_Validate H t = Ok u"
  shows "\<exists>cap tip c. tx_GetGasFeeCap t = Some cap \<and> tx_GetGasTipCap t = Some tip \<and> 0 \<le> tip \<and> tip \<le> cap \<and> cap < 2 ^ 256 \<and>
    tx_Fee t = Ok (cap * uint (tx_GetGas t)) \<and> cap * uint (tx_GetGas t) < 2 ^ 256 \<and>
    (case tx_GetValue t of None \<Rightarrow> True | Some x \<Rightarrow> 0 \<le> x \<and> x < 2 ^ 256) \<and>
    tx_Cost t = Ok c \<and> cap * uint (tx_GetGas t) \<le> c \<and> tx_GetChainID t \<noteq> None"
proof -
  from assms obtain cap tip where "tx_GetGasFeeCap t = Some cap" "tx_GetGasTipCap t = Some tip" "0 \<le> tip" "tip \<le> cap" "cap < 2 ^ 256"
    "tx_Fee t = Ok (cap * uint (tx_GetGas t))" "cap * uint (tx_GetGas t) < 2 ^ 256"
    "tx_Cost t = Ok (cost (cap * uint (tx_GetGas t)) (tx_GetValue t))"
    "\<not> negative (tx_GetValue t)" "IsValidInt256 (tx_GetValue t)" "tx_GetChainID t \<noteq> None"
    by (rule validate_facts)
  then show ?thesis
    by (intro exI [of _ cap] exI [of _ tip] exI [of _ "cost (cap * uint (tx_GetGas t)) (tx_GetValue t)"])
      (auto simp: negative_def IsValidInt256_def cost_def split: option.splits)
qed

definition ref_dyn :: TxData where
  "ref_dyn = DynamicFee \<lparr>dyn_ChainID = Some 631, dyn_Nonce = 7, dyn_GasTipCap = Some 2, dyn_GasFeeCap = Some 9,
     dyn_GasLimit = 21000, dyn_To = [], dyn_Amount = Some 30, dyn_Data = [1, 2], dyn_Accesses = None,
     dyn_V = [], dyn_R = [1, 44], dyn_S = [5]\<rparr>"

lemma ref_dyn_valid: "tx_Validate ref_hex ref_dyn = Ok ()"
  by (simp add: ref_dyn_def dyn_Validate_def negative_def IsValidInt256_def dyn_Fee_def fee_def)

theorem Validate_bounds_witness: "\<exists>c. tx_Cost ref_dyn = Ok c \<and> 9 * 21000 \<le> c"
  using Validate_bounds [OF ref_dyn_valid] by (auto simp: ref_dyn_def)

text \<open>
  C27. What the ante handler charges: for a validated transaction that \<open>VerifyFee\<close> accepts under a base
  fee, the price charged is at least the base fee and at most the fee cap, it is the smaller of base
  fee plus tip and cap, the fee is that price times the gas limit, and a sender who passed
  \<open>CheckSenderBalance\<close> owns the fee and the value together.
\<close>

theorem VerifyFee_charge:
  assumes "tx_Validate H t = Ok u" and "VerifyFee H intrinsic t denom (Some b) hs ist shg chk = Ok cs" and "0 \<le> b"
    and "CheckSenderBalance balance t = Ok v"
  shows "\<exists>p cap tip. tx_EffectiveGasPrice (Some b) t = Ok (Some p) \<and> tx_GetGasFeeCap t = Some cap \<and>
    tx_GetGasTipCap t = Some tip \<and> b \<le> p \<and> p = min cap (b + tip) \<and>
    cs = (if p * uint (tx_GetGas t) = 0 then [] else [(denom, p * uint (tx_GetGas t))]) \<and>
    cost (p * uint (tx_GetGas t)) (tx_GetValue t) \<le> balance"
proof -
  from assms(1) obtain cap tip where f: "tx_GetGasFeeCap t = Some cap" "tx_GetGasTipCap t = Some tip" "0 \<le> tip" "tip \<le> cap"
    "tx_Fee t = Ok (cap * uint (tx_GetGas t))" "tx_Cost t = Ok (cost (cap * uint (tx_GetGas t)) (tx_GetValue t))"
    by (rule validate_facts)
  have b: "b \<le> cap" and fee: "\<exists>f. tx_EffectiveFee (Some b) t = Ok f \<and> cs = (if f = 0 then [] else [(denom, f)])"
    using assms(2) f(1) by (auto simp: VerifyFee_def Let_def res_simps split: if_splits)
  have eff: "tx_EffectiveGasPrice (Some b) t = Ok (Some (min cap (b + tip))) \<and>
      tx_EffectiveFee (Some b) t = Ok (min cap (b + tip) * uint (tx_GetGas t))"
    using f(1,2,5) assms(3)
    by (cases t) (auto simp: dyn_EffectiveFee_def dyn_EffectiveGasPrice_def EffectiveGasPrice_def fee_def min_def add.commute)
  have "min cap (b + tip) * uint (tx_GetGas t) \<le> cap * uint (tx_GetGas t)"
    by (rule mult_right_mono) (auto simp: uint_gas)
  then have "cost (min cap (b + tip) * uint (tx_GetGas t)) (tx_GetValue t) \<le> balance"
    using assms(4) f(6) by (auto simp: CheckSenderBalance_def res_simps cost_def split: option.splits)
  moreover have "b \<le> min cap (b + tip)" using b f(3) by simp
  ultimately show ?thesis using eff fee f(1,2) by auto
qed

theorem VerifyFee_charge_witness:
  "\<exists>p. tx_EffectiveGasPrice (Some 4) ref_dyn = Ok (Some p) \<and> p = 6 \<and> cost (p * 21000) (Some 30) \<le> 200000"
proof -
  have "VerifyFee ref_hex (\<lambda>_ _ _ _ _ _ _. Ok 21000) ref_dyn ''agxn'' (Some 4) True True True True = Ok [(''agxn'', 126000)]"
    by (simp add: VerifyFee_def ref_dyn_def dyn_EffectiveFee_def dyn_EffectiveGasPrice_def EffectiveGasPrice_def fee_def)
  moreover have "CheckSenderBalance 200000 ref_dyn = Ok ()"
    by (simp add: CheckSenderBalance_def ref_dyn_def dyn_Cost_def dyn_Fee_def fee_def cost_def)
  ultimately show ?thesis
    using VerifyFee_charge [OF ref_dyn_valid, of _ "''agxn''" 4 True True True True "[(''agxn'', 126000)]" 200000 "()"]
    by (fastforce simp: ref_dyn_def)
qed

section \<open>The gas search\<close>

text \<open>Where a search between \<open>lo\<close> and \<open>hi\<close> may end.\<close>

definition search_result :: "uint64 \<Rightarrow> uint64 \<Rightarrow> (uint64 \<Rightarrow> bool res) \<Rightarrow> uint64 res \<Rightarrow> bool" where
  "search_result lo hi ex r \<longleftrightarrow>
     (case r of
        Ok h \<Rightarrow> lo < h \<and> h \<le> hi \<and> (h = hi \<or> ex h = Ok False) \<and> (h = lo + 1 \<or> ex (h - 1) = Ok True)
      | Fail e \<Rightarrow> \<exists>g. lo < g \<and> g < hi \<and> ex g = Fail e
      | Panic p \<Rightarrow> \<exists>g. lo < g \<and> g < hi \<and> ex g = Panic p)"

lemma search_result_up:
  assumes "search_result mid hi ex r" and "lo < mid" and "ex mid = Ok True"
  shows "search_result lo hi ex r"
  using assms by (cases r) (force simp: search_result_def dest: less_trans)+

lemma search_result_down:
  assumes "search_result lo mid ex r" and "mid < hi" and "ex mid = Ok False"
  shows "search_result lo hi ex r"
  using assms by (cases r) (force simp: search_result_def dest: less_trans)+

lemma uint64_succ:
  fixes l :: uint64
  assumes "unat l < 2 ^ 63"
  shows "unat (l + 1) = unat l + 1"
proof -
  have "unat l + unat (1 :: uint64) < 2 ^ LENGTH(64)" using assms by simp
  then show ?thesis using unat_add_lem [of l 1] by simp
qed

lemma uint64_mid:
  fixes lo hi :: uint64
  assumes "unat lo + 1 < unat hi" and "unat hi \<le> 2 ^ 63"
  shows "unat ((hi + lo) div 2) = (unat hi + unat lo) div 2"
proof -
  have "unat (hi + lo) = unat hi + unat lo"
    by (rule unat_add_lem [THEN iffD1]) (use assms in simp)
  then show ?thesis by (simp add: unat_div)
qed

lemma BinSearch_ends:
  assumes "unat lo < unat hi" and "unat hi \<le> 2 ^ 63"
  shows "\<exists>r. BinSearch lo hi ex = Some r \<and> search_result lo hi ex r"
  using assms
proof (induction "unat hi - unat lo" arbitrary: lo hi rule: less_induct)
  case less
  have lo1: "unat (lo + 1) = unat lo + 1"
    by (rule uint64_succ) (use less.prems in simp)
  show ?case
  proof (cases "lo + 1 < hi")
    case False
    then have "hi = lo + 1" using less.prems lo1 by (simp add: word_less_nat_alt word_unat_eq_iff)
    with False less.prems lo1 show ?thesis
      by (subst BinSearch.simps) (simp add: search_result_def word_less_nat_alt)
  next
    case True
    define mid where "mid = (hi + lo) div 2"
    have m: "unat lo < unat mid" "unat mid < unat hi"
      using True less.prems(2) lo1 uint64_mid [of lo hi] by (auto simp: mid_def word_less_nat_alt)
    then have dec: "unat hi - unat mid < unat hi - unat lo" "unat mid - unat lo < unat hi - unat lo" "unat mid \<le> 2 ^ 63"
      using less.prems by linarith+
    have body: "BinSearch lo hi ex = (case ex mid of Fail e \<Rightarrow> Some (Fail e) | Panic p \<Rightarrow> Some (Panic p)
        | Ok failed \<Rightarrow> if failed then BinSearch mid hi ex else BinSearch lo mid ex)"
      using True by (subst BinSearch.simps) (simp add: mid_def Let_def split: res.split)
    show ?thesis
    proof (cases "ex mid")
      case (Ok failed)
      show ?thesis
      proof (cases failed)
        case True
        then obtain r where "BinSearch mid hi ex = Some r" "search_result mid hi ex r"
          using less.hyps [OF dec(1) m(2) less.prems(2)] by auto
        then show ?thesis
          using Ok True m(1) body search_result_up [of mid hi ex r lo] by (auto simp: word_less_nat_alt)
      next
        case False
        then obtain r where "BinSearch lo mid ex = Some r" "search_result lo mid ex r"
          using less.hyps [OF dec(2) m(1) dec(3)] by auto
        then show ?thesis
          using Ok False m(2) body search_result_down [of lo mid ex r hi] by (auto simp: word_less_nat_alt)
      qed
    qed (use m body in \<open>auto simp: search_result_def word_less_nat_alt\<close>)
  qed
qed

text \<open>
  C28. The binary search for a gas limit ends whenever its upper bound is at most \<open>2^63\<close>: it returns a limit
  between the bounds at which the call succeeds (or the upper bound itself) and below which it fails (or
  the first limit above the lower bound), or the first error of an execution it tried.
\<close>

theorem BinSearch_terminates:
  assumes "lo < hi" and "hi \<le> 2 ^ 63"
  shows "\<exists>r. BinSearch lo hi ex = Some r \<and> search_result lo hi ex r"
proof -
  have "unat (2 ^ 63 :: uint64) = 2 ^ 63" by simp
  then show ?thesis
    using BinSearch_ends [of lo hi ex] assms by (simp add: word_less_nat_alt word_le_nat_alt)
qed

theorem BinSearch_terminates_witness:
  "\<exists>h. BinSearch 20999 50000 (\<lambda>g. Ok (g < 30000)) = Some (Ok h) \<and> h = 30000"
proof -
  obtain r where r: "BinSearch 20999 50000 (\<lambda>g. Ok (g < 30000)) = Some r" "search_result 20999 50000 (\<lambda>g. Ok (g < 30000)) r"
    using BinSearch_terminates [of 20999 50000 "\<lambda>g. Ok (g < 30000)"] by auto
  then obtain h where h: "r = Ok h" "h = 50000 \<or> \<not> h < 30000" "h = 21000 \<or> h - 1 < 30000" "20999 < h" "h \<le> 50000"
    by (auto simp: search_result_def split: res.splits)
  then have "h = 30000" by (auto simp: word_less_nat_alt word_le_nat_alt word_unat_eq_iff unat_sub_if_size)
  with r h show ?thesis by blast
qed

text \<open>
  With the largest 64-bit upper bound and an execution that fails at every gas limit the search never
  ends: the sum of the bounds wraps, the lower bound falls back below \<open>2^63\<close>, and the bounds never meet.
\<close>

lemma BinSearch_diverges:
  assumes "lo < 2 ^ 63"
  shows "BinSearch lo 18446744073709551615 (\<lambda>_. Ok True) = None"
proof -
  let ?bad = "\<lambda>l h ex. unat l < 2 ^ 63 \<and> h = 18446744073709551615 \<and> ex = (\<lambda>_. Ok True)"
  have step: "\<not> ?bad l h ex"
    if ih: "\<And>l h ex r. f l h ex = Some r \<Longrightarrow> \<not> ?bad l h ex"
      and r: "(if l + 1 < h then let mid = (h + l) div 2 in
        (case ex mid of Fail e \<Rightarrow> Some (Fail e) | Panic p \<Rightarrow> Some (Panic p)
         | Ok failed \<Rightarrow> if failed then f mid h ex else f l mid ex) else Some (Ok h)) = Some r"
    for f :: "uint64 \<Rightarrow> uint64 \<Rightarrow> (uint64 \<Rightarrow> bool res) \<Rightarrow> uint64 res option" and l h ex r
  proof
    assume *: "?bad l h ex"
    then have "l + 1 < h" using uint64_succ [of l] by (simp add: word_less_nat_alt)
    then have "f ((h + l) div 2) h ex = Some r" using r * by (simp add: Let_def)
    from ih [OF this] have "\<not> unat ((h + l) div 2) < 2 ^ 63" using * by simp
    moreover have "unat (h + l) < 2 ^ 64" using unsigned_less [of "h + l"] by simp
    ultimately show False by (simp add: unat_div)
  qed
  have "\<not> ?bad l h ex" if "BinSearch l h ex = Some r" for l h ex r
    by (rule BinSearch.raw_induct [where P = "\<lambda>l h ex r. \<not> ?bad l h ex", OF _ that]) (rule step, assumption+)
  then show ?thesis
    using assms by (cases "BinSearch lo 18446744073709551615 (\<lambda>_. Ok True)") (auto simp: word_less_nat_alt)
qed

end
