(* ===== verification/FeeMarket.thy ===== *)
theory FeeMarket
  imports EvmCoin
begin

text \<open>
  \<^verbatim>\<open>x/feemarket\<close>: the parameters, the EIP-1559 base fee (\<^verbatim>\<open>keeper/eip1559.go\<close>), the end-of-block update
  (\<^verbatim>\<open>keeper/abci.go\<close>), the oracle hook that moves the minimum gas price (\<^verbatim>\<open>keeper/hooks.go\<close>), genesis,
  and the wrapper through which \<^verbatim>\<open>x/vm\<close> reads it (\<^verbatim>\<open>x/vm/wrappers/feemarket.go\<close>). A nil decimal is
  \<open>None\<close>; using one as a number is a panic. Storing parameters turns a nil decimal into zero, which is
  what \<^verbatim>\<open>LegacyDec.Marshal\<close> writes. Telemetry and logging are left out.
\<close>

section \<open>Parameters and state\<close>

record fm_Params =
  NoBaseFee :: bool
  BaseFeeChangeDenominator :: uint32
  ElasticityMultiplier :: uint32
  EnableHeight :: int
  BaseFee :: "dec option"
  MinGasPrice :: "dec option"
  MinGasMultiplier :: "dec option"
  GasPriceAdjustmentFactor :: "dec option"
  MaxChangeRate :: "dec option"

datatype fm_event =
    FeeMarketEvent dec int
  | BlockGasEvent int uint64
  | ChangeMinGasPrice int

record fm_state =
  fm_params :: "fm_Params option"
  blockGasWanted :: uint64
  transientGasWanted :: uint64
  fm_events :: "fm_event list"

text \<open>What the keeper reads of the block: its height, the block gas meter and the gas limit of the consensus parameters.\<close>

record fm_block =
  fm_height :: int
  fm_gas_meter :: "uint64 option"
  fm_max_gas :: "int option"

definition fm_NewParams ::
  "bool \<Rightarrow> uint32 \<Rightarrow> uint32 \<Rightarrow> dec option \<Rightarrow> int \<Rightarrow> dec option \<Rightarrow> dec option \<Rightarrow> dec option \<Rightarrow> dec option \<Rightarrow> fm_Params" where
  "fm_NewParams noBaseFee baseFeeChangeDenom elasticityMultiplier baseFee enableHeight minGasPrice
     minGasPriceMultiplier gasPriceAdjustmentFactor maxChangeRate =
     \<lparr>NoBaseFee = noBaseFee, BaseFeeChangeDenominator = baseFeeChangeDenom, ElasticityMultiplier = elasticityMultiplier,
      EnableHeight = enableHeight, BaseFee = baseFee, MinGasPrice = minGasPrice, MinGasMultiplier = minGasPriceMultiplier,
      GasPriceAdjustmentFactor = gasPriceAdjustmentFactor, MaxChangeRate = maxChangeRate\<rparr>"

text \<open>The two integers of the default parameters are go-ethereum's.\<close>

definition fm_DefaultParams :: "uint32 \<Rightarrow> uint32 \<Rightarrow> fm_Params" where
  "fm_DefaultParams denominator elasticity =
     \<lparr>NoBaseFee = False, BaseFeeChangeDenominator = denominator, ElasticityMultiplier = elasticity, EnableHeight = 0,
      BaseFee = Some (1000000000 * dec_one), MinGasPrice = Some 0, MinGasMultiplier = Some (dec_one div 2),
      GasPriceAdjustmentFactor = Some dec_one, MaxChangeRate = Some dec_one\<rparr>"

section \<open>Validation\<close>

definition validateMinGasPrice :: "dec option \<Rightarrow> unit res" where
  "validateMinGasPrice p =
     (case p of None \<Rightarrow> Fail (ErrPlain ''invalid parameter: nil'')
      | Some x \<Rightarrow> require (\<not> x < 0) (ErrPlain ''value cannot be negative''))"

definition validateMinGasMultiplier :: "dec option \<Rightarrow> unit res" where
  "validateMinGasMultiplier m =
     (case m of None \<Rightarrow> Fail (ErrPlain ''invalid parameter: nil'')
      | Some x \<Rightarrow> bind_res (require (\<not> x < 0) (ErrPlain ''value cannot be negative'')) (\<lambda>_.
          require (\<not> dec_one < x) (ErrPlain ''value cannot be greater than 1'')))"

definition validateGasPriceAdjustmentFactor :: "dec option \<Rightarrow> unit res" where
  "validateGasPriceAdjustmentFactor r =
     (case r of None \<Rightarrow> Fail (ErrPlain ''invalid parameter: nil'')
      | Some x \<Rightarrow> require (\<not> x < 0) (ErrPlain ''value cannot be negative''))"

definition fm_Validate :: "fm_Params \<Rightarrow> unit res" where
  "fm_Validate p =
     bind_res (require (BaseFeeChangeDenominator p \<noteq> 0) (ErrPlain ''base fee change denominator cannot be 0'')) (\<lambda>_.
     bind_res (dec_val (BaseFee p)) (\<lambda>b.
     bind_res (require (\<not> b < 0) (ErrPlain ''initial base fee cannot be negative'')) (\<lambda>_.
     bind_res (require (\<not> EnableHeight p < 0) (ErrPlain ''enable height cannot be negative'')) (\<lambda>_.
     bind_res (require (ElasticityMultiplier p \<noteq> 0) (ErrPlain ''elasticity multiplier cannot be zero'')) (\<lambda>_.
     bind_res (validateMinGasMultiplier (MinGasMultiplier p)) (\<lambda>_.
     bind_res (validateMinGasPrice (MinGasPrice p)) (\<lambda>_.
     validateGasPriceAdjustmentFactor (GasPriceAdjustmentFactor p))))))))"

definition IsBaseFeeEnabled :: "int \<Rightarrow> fm_Params \<Rightarrow> bool" where
  "IsBaseFeeEnabled height p \<longleftrightarrow> \<not> NoBaseFee p \<and> EnableHeight p \<le> height"

section \<open>The store\<close>

definition fm_GetParams :: "fm_state \<Rightarrow> fm_Params" where
  "fm_GetParams s = (case fm_params s of
     None \<Rightarrow> \<lparr>NoBaseFee = False, BaseFeeChangeDenominator = 0, ElasticityMultiplier = 0, EnableHeight = 0, BaseFee = None,
              MinGasPrice = None, MinGasMultiplier = None, GasPriceAdjustmentFactor = None, MaxChangeRate = None\<rparr>
   | Some p \<Rightarrow> p)"

definition fm_SetParams :: "fm_Params \<Rightarrow> fm_state \<Rightarrow> fm_state" where
  "fm_SetParams p s = s\<lparr>fm_params := Some (p\<lparr>BaseFee := marshal_dec (BaseFee p), MinGasPrice := marshal_dec (MinGasPrice p),
     MinGasMultiplier := marshal_dec (MinGasMultiplier p),
     GasPriceAdjustmentFactor := marshal_dec (GasPriceAdjustmentFactor p), MaxChangeRate := marshal_dec (MaxChangeRate p)\<rparr>)\<rparr>"

definition GetBaseFeeEnabled :: "int \<Rightarrow> fm_state \<Rightarrow> bool" where
  "GetBaseFeeEnabled height s \<longleftrightarrow> \<not> NoBaseFee (fm_GetParams s) \<and> EnableHeight (fm_GetParams s) \<le> height"

definition fm_GetBaseFee :: "fm_state \<Rightarrow> dec option" where
  "fm_GetBaseFee s = (if NoBaseFee (fm_GetParams s) then None else BaseFee (fm_GetParams s))"

definition fm_SetBaseFee :: "dec option \<Rightarrow> fm_state \<Rightarrow> fm_state" where
  "fm_SetBaseFee baseFee s = fm_SetParams ((fm_GetParams s)\<lparr>BaseFee := baseFee\<rparr>) s"

definition SetBlockGasWanted :: "uint64 \<Rightarrow> fm_state \<Rightarrow> fm_state" where
  "SetBlockGasWanted gas s = s\<lparr>blockGasWanted := gas\<rparr>"

definition GetBlockGasWanted :: "fm_state \<Rightarrow> uint64" where
  "GetBlockGasWanted s = blockGasWanted s"

definition GetTransientGasWanted :: "fm_state \<Rightarrow> uint64" where
  "GetTransientGasWanted s = transientGasWanted s"

definition SetTransientBlockGasWanted :: "uint64 \<Rightarrow> fm_state \<Rightarrow> fm_state" where
  "SetTransientBlockGasWanted gasWanted s = s\<lparr>transientGasWanted := gasWanted\<rparr>"

definition AddTransientGasWanted :: "uint64 \<Rightarrow> fm_state \<Rightarrow> uint64 \<times> fm_state" where
  "AddTransientGasWanted gasWanted s =
     (let result = GetTransientGasWanted s + gasWanted in (result, SetTransientBlockGasWanted result s))"

definition fm_UpdateParams :: "string \<Rightarrow> string \<Rightarrow> fm_Params \<Rightarrow> fm_state \<Rightarrow> fm_state res" where
  "fm_UpdateParams authority req_authority p s =
     bind_res (require (authority = req_authority) ErrInvalidSigner) (\<lambda>_. Ok (fm_SetParams p s))"

definition fm_MsgUpdateParams_ValidateBasic :: "(string \<Rightarrow> address option) \<Rightarrow> string \<Rightarrow> fm_Params \<Rightarrow> unit res" where
  "fm_MsgUpdateParams_ValidateBasic bech authority p =
     bind_res (require (bech authority \<noteq> None) (ErrInvalidAddress authority)) (\<lambda>_. fm_Validate p)"

definition fm_BlockGas :: "fm_state \<Rightarrow> int res" where
  "fm_BlockGas s =
     (let gas = uint (GetBlockGasWanted s) in
      bind_res (require (gas < 2 ^ 63) ErrIntOverflowCoin) (\<lambda>_. Ok gas))"

section \<open>The base fee\<close>

definition dec_quo_int_panic :: "legacy_dec_ops \<Rightarrow> dec \<Rightarrow> int \<Rightarrow> dec res" where
  "dec_quo_int_panic D x n = (if n = 0 then Panic ''division by zero'' else Ok (DecQuoInt D x n))"

definition CalculateBaseFee :: "legacy_dec_ops \<Rightarrow> fm_block \<Rightarrow> fm_state \<Rightarrow> dec option res" where
  "CalculateBaseFee D b s =
     (let params = fm_GetParams s in
      if \<not> IsBaseFeeEnabled (fm_height b) params then Ok None
      else if fm_height b = EnableHeight params then Ok (BaseFee params)
      else case BaseFee params of
        None \<Rightarrow> Ok None
      | Some parentBaseFee \<Rightarrow>
          let parentGasUsed = GetBlockGasWanted s;
              gasLimit = (case fm_max_gas b of None \<Rightarrow> 2 ^ 64 - 1 | Some g \<Rightarrow> if -1 < g then g else 2 ^ 64 - 1) in
          bind_res (must (ElasticityMultiplier params \<noteq> 0) ''division by zero'') (\<lambda>_.
          let parentGasTargetInt = gasLimit sdiv uint (ElasticityMultiplier params) in
          if \<not> (0 \<le> parentGasTargetInt \<and> parentGasTargetInt < 2 ^ 64) then Ok None
          else
            let parentGasTarget = (word_of_int parentGasTargetInt :: uint64);
                baseFeeChangeDenominator = uint (BaseFeeChangeDenominator params) in
            if parentGasUsed = parentGasTarget then Ok (Some parentBaseFee)
            else if parentGasTargetInt = 0 then Ok (Some 0)
            else if parentGasTarget < parentGasUsed
            then
              let gasUsedDelta = uint (parentGasUsed - parentGasTarget);
                  x = DecMulInt D parentBaseFee gasUsedDelta in
              bind_res (dec_quo_int_panic D x parentGasTargetInt) (\<lambda>y.
              bind_res (dec_quo_int_panic D y baseFeeChangeDenominator) (\<lambda>z.
              let baseFeeDelta = LegacyMaxDec z dec_one in
              Ok (Some (DecAdd D parentBaseFee baseFeeDelta))))
            else
              let gasUsedDelta = uint (parentGasTarget - parentGasUsed);
                  x = DecMulInt D parentBaseFee gasUsedDelta in
              bind_res (dec_quo_int_panic D x parentGasTargetInt) (\<lambda>y.
              bind_res (dec_quo_int_panic D y baseFeeChangeDenominator) (\<lambda>baseFeeDelta.
              bind_res (dec_val (MinGasPrice params)) (\<lambda>minGasPrice.
              Ok (Some (LegacyMaxDec (DecSub D parentBaseFee baseFeeDelta) minGasPrice)))))))"

text \<open>\<^verbatim>\<open>Int.Uint64\<close> panics outside the range.\<close>

definition int_Uint64 :: "int \<Rightarrow> uint64 res" where
  "int_Uint64 i = (if 0 \<le> i \<and> i < 2 ^ 64 then Ok (word_of_int i) else Panic ''Uint64() out of bounds'')"

definition fm_EndBlock :: "legacy_dec_ops \<Rightarrow> fm_block \<Rightarrow> fm_state \<Rightarrow> fm_state res" where
  "fm_EndBlock D b s =
     (case fm_gas_meter b of
        None \<Rightarrow> Fail (ErrPlain ''block gas meter is nil when setting block gas wanted'')
      | Some consumed \<Rightarrow>
          let gasWanted = uint (GetTransientGasWanted s); gasUsed = uint consumed in
          bind_res (require (gasWanted < 2 ^ 63) (ErrPlain ''integer overflow: gas wanted'')) (\<lambda>_.
          bind_res (require (gasUsed < 2 ^ 63) (ErrPlain ''integer overflow: gas used'')) (\<lambda>_.
          bind_res (dec_val (MinGasMultiplier (fm_GetParams s))) (\<lambda>minGasMultiplier.
          let limitedGasWanted = DecMul D (LegacyNewDec D gasWanted) minGasMultiplier in
          bind_res (int_Uint64 (DecTruncateInt D (LegacyMaxDec limitedGasWanted (LegacyNewDec D gasUsed)))) (\<lambda>updatedGasWanted.
          let s = SetBlockGasWanted updatedGasWanted s in
          bind_res (CalculateBaseFee D b s) (\<lambda>nextBaseFee.
          let s = (case nextBaseFee of None \<Rightarrow> s
                   | Some f \<Rightarrow> (fm_SetBaseFee (Some f) s)\<lparr>fm_events := fm_events s @ [FeeMarketEvent f (fm_height b)]\<rparr>) in
          Ok (s\<lparr>fm_events := fm_events s @ [BlockGasEvent (fm_height b) updatedGasWanted]\<rparr>)))))))"

section \<open>The oracle hook\<close>

definition fm_AfterOracleEnd :: "legacy_dec_ops \<Rightarrow> string \<Rightarrow> fm_state \<Rightarrow> fm_state res" where
  "fm_AfterOracleEnd D rawData s =
     (let params = fm_GetParams s in
      bind_res (dec_val (GasPriceAdjustmentFactor params)) (\<lambda>gasPriceAdjustmentFactor.
      if gasPriceAdjustmentFactor = 0 then Ok s
      else case LegacyNewDecFromStr D rawData of
        None \<Rightarrow> Ok s
      | Some rawDataDec \<Rightarrow>
          if rawDataDec = 0 then Ok s
          else
            let newMinGasPrice = DecTruncateInt D (DecQuo D gasPriceAdjustmentFactor rawDataDec) in
            bind_res (dec_val (MaxChangeRate params)) (\<lambda>maxChangeRate.
            bind_res (if maxChangeRate = 0 then Ok newMinGasPrice
              else bind_res (dec_val (MinGasPrice params)) (\<lambda>currentMinGasPrice.
                if currentMinGasPrice = 0 then Ok newMinGasPrice
                else
                  let maxChange = DecMul D currentMinGasPrice maxChangeRate;
                      upperBound = DecAdd D currentMinGasPrice maxChange;
                      lowerBound = DecSub D currentMinGasPrice maxChange;
                      newMinGasPriceDec = LegacyNewDec D newMinGasPrice in
                  Ok (if upperBound < newMinGasPriceDec then DecTruncateInt D upperBound
                      else if newMinGasPriceDec < lowerBound then DecTruncateInt D lowerBound
                      else newMinGasPrice))) (\<lambda>newMinGasPrice.
            let s = fm_SetParams (params\<lparr>MinGasPrice := Some (LegacyNewDec D newMinGasPrice)\<rparr>) s in
            Ok (s\<lparr>fm_events := fm_events s @ [ChangeMinGasPrice newMinGasPrice]\<rparr>)))))"

section \<open>Genesis\<close>

record fm_GenesisState =
  fmg_Params :: fm_Params
  fmg_BlockGas :: uint64

definition fm_InitGenesis :: "fm_GenesisState \<Rightarrow> fm_state \<Rightarrow> fm_state" where
  "fm_InitGenesis data s = SetBlockGasWanted (fmg_BlockGas data) (fm_SetParams (fmg_Params data) s)"

definition fm_ExportGenesis :: "fm_state \<Rightarrow> fm_GenesisState" where
  "fm_ExportGenesis s = \<lparr>fmg_Params = fm_GetParams s, fmg_BlockGas = GetBlockGasWanted s\<rparr>"

definition fm_Genesis_Validate :: "fm_GenesisState \<Rightarrow> unit res" where
  "fm_Genesis_Validate gs = fm_Validate (fmg_Params gs)"

definition fm_NewGenesisState :: "fm_Params \<Rightarrow> uint64 \<Rightarrow> fm_GenesisState" where
  "fm_NewGenesisState params blockGas = \<lparr>fmg_Params = params, fmg_BlockGas = blockGas\<rparr>"

definition fm_DefaultGenesisState :: "uint32 \<Rightarrow> uint32 \<Rightarrow> fm_GenesisState" where
  "fm_DefaultGenesisState denominator elasticity =
     \<lparr>fmg_Params = fm_DefaultParams denominator elasticity, fmg_BlockGas = 0\<rparr>"

section \<open>The wrapper of the EVM\<close>

definition fw_GetBaseFee :: "legacy_dec_ops \<Rightarrow> EvmCoinInfo \<Rightarrow> fm_state \<Rightarrow> int option" where
  "fw_GetBaseFee D i s =
     (case fm_GetBaseFee s of None \<Rightarrow> None
      | Some baseFee \<Rightarrow> Some (DecTruncateInt D (ConvertAmountTo18DecimalsLegacy D i baseFee)))"

definition fw_CalculateBaseFee :: "legacy_dec_ops \<Rightarrow> EvmCoinInfo \<Rightarrow> fm_block \<Rightarrow> fm_state \<Rightarrow> int option res" where
  "fw_CalculateBaseFee D i b s =
     bind_res (CalculateBaseFee D b s) (\<lambda>f. Ok (case f of None \<Rightarrow> None
       | Some baseFee \<Rightarrow> Some (DecTruncateInt D (ConvertAmountTo18DecimalsLegacy D i baseFee))))"

definition fw_GetParams :: "legacy_dec_ops \<Rightarrow> EvmCoinInfo \<Rightarrow> fm_state \<Rightarrow> fm_Params res" where
  "fw_GetParams D i s =
     (let params = fm_GetParams s;
          params = (case BaseFee params of None \<Rightarrow> params
            | Some f \<Rightarrow> params\<lparr>BaseFee := Some (ConvertAmountTo18DecimalsLegacy D i f)\<rparr>) in
      bind_res (dec_val (MinGasPrice params)) (\<lambda>p.
      Ok (params\<lparr>MinGasPrice := Some (ConvertAmountTo18DecimalsLegacy D i p)\<rparr>)))"

definition vm_GetBaseFee :: "legacy_dec_ops \<Rightarrow> EvmCoinInfo \<Rightarrow> bool \<Rightarrow> fm_state \<Rightarrow> int option" where
  "vm_GetBaseFee D i isLondon s =
     (if \<not> isLondon then None
      else case fw_GetBaseFee D i s of None \<Rightarrow> Some 0 | Some f \<Rightarrow> Some f)"

definition GetMinGasMultiplier :: "legacy_dec_ops \<Rightarrow> EvmCoinInfo \<Rightarrow> fm_state \<Rightarrow> dec option res" where
  "GetMinGasMultiplier D i s = bind_res (fw_GetParams D i s) (\<lambda>p. Ok (MinGasMultiplier p))"

definition GetMinGasPrice :: "legacy_dec_ops \<Rightarrow> EvmCoinInfo \<Rightarrow> fm_state \<Rightarrow> dec option res" where
  "GetMinGasPrice D i s = bind_res (fw_GetParams D i s) (\<lambda>p. Ok (MinGasPrice p))"

end
