(* ===== verification/FeePolicy.thy ===== *)
theory FeePolicy
  imports EvmCoin
begin

text \<open>
  \<^verbatim>\<open>x/feepolicy\<close>: the moderator, the registered fee discounts of accounts, their messages, genesis, and the
  decorator of \<^verbatim>\<open>gurud/ante/cosmos_fees.go\<close> that charges the fee of a Cosmos transaction under a discount.

  The discounts are kept under the bytes of the account's address text. A slice of a Go struct that is
  ranged over is copied element by element, but the copies share the backing arrays: where the source
  relies on this it is written out (\<open>shift_out\<close>). The bank, fee grants, accounts and the conversion of an
  address to text are SDK code and are the fields of \<open>fee_env\<close>.
\<close>

section \<open>Data\<close>

record fp_Discount =
  DiscountType :: string
  MsgType :: string
  Amount :: "dec option"

record fp_ModuleDiscount =
  Module :: string
  Discounts :: "fp_Discount list"

record fp_AccountDiscount =
  Address :: string
  Modules :: "fp_ModuleDiscount list"

definition no_discount :: fp_Discount where
  "no_discount = \<lparr>DiscountType = '''', MsgType = '''', Amount = None\<rparr>"

datatype fp_attribute =
    AttrModerator string
  | AttrAddress string
  | AttrModule string
  | AttrMsgType string
  | AttrDiscountType string
  | AttrAmount "dec option"

datatype fp_event =
    ChangeModeratorEvent "fp_attribute list"
  | RegisterDiscountsEvent "fp_attribute list"
  | RemoveDiscountsEvent "fp_attribute list"

record fp_state =
  fp_moderator :: "string option"
  fp_discounts :: "(bytes, fp_AccountDiscount) kv"
  fp_events :: "fp_event list"

section \<open>Validation\<close>

definition FeeDiscountTypePercent :: string where "FeeDiscountTypePercent = ''percent''"
definition FeeDiscountTypeFixed :: string where "FeeDiscountTypeFixed = ''fixed''"

definition ValidateFeeDiscount :: "fp_Discount \<Rightarrow> unit res" where
  "ValidateFeeDiscount d =
     bind_res (require (\<not> (DiscountType d \<noteq> FeeDiscountTypePercent \<and> DiscountType d \<noteq> FeeDiscountTypeFixed))
       (ErrInvalidRequest ''invalid discount type'')) (\<lambda>_.
     bind_res (require (MsgType d \<noteq> '''') (ErrInvalidRequest ''msg type is required'')) (\<lambda>_.
     bind_res (dec_val (Amount d)) (\<lambda>a.
     require (\<not> (a < 0 \<or> a = 0)) (ErrInvalidRequest ''discount value must be greater than 0''))))"

definition ValidateAccountDiscount :: "(string \<Rightarrow> address option) \<Rightarrow> fp_AccountDiscount \<Rightarrow> unit res" where
  "ValidateAccountDiscount bech discount =
     bind_res (require (bech (Address discount) \<noteq> None) (ErrInvalidAddress (Address discount))) (\<lambda>_.
     for_each (\<lambda>moduleDiscount (_::unit).
       bind_res (require (Module moduleDiscount \<noteq> '''') (ErrInvalidRequest ''module is required'')) (\<lambda>_.
       for_each (\<lambda>d (_::unit). ValidateFeeDiscount d) (Discounts moduleDiscount) ())) (Modules discount) ())"

section \<open>The store\<close>

definition GetModeratorAddress :: "fp_state \<Rightarrow> string res" where
  "GetModeratorAddress s = (case fp_moderator s of
     None \<Rightarrow> Fail (ErrInvalidRequest ''moderator address not found'') | Some m \<Rightarrow> Ok m)"

definition SetModeratorAddress :: "string \<Rightarrow> fp_state \<Rightarrow> fp_state" where
  "SetModeratorAddress m s = s\<lparr>fp_moderator := Some m\<rparr>"

definition GetAccountDiscounts :: "fp_state \<Rightarrow> string \<Rightarrow> fp_AccountDiscount option" where
  "GetAccountDiscounts s accStr = kv_get (fp_discounts s) (StringToBytes accStr)"

fun find_module :: "string \<Rightarrow> fp_ModuleDiscount list \<Rightarrow> fp_Discount list option" where
  "find_module module [] = None"
| "find_module module (m # ms) = (if Module m = module then Some (Discounts m) else find_module module ms)"

definition GetModuleDiscounts :: "fp_state \<Rightarrow> string \<Rightarrow> string \<Rightarrow> fp_Discount list option" where
  "GetModuleDiscounts s accStr module = (case kv_get (fp_discounts s) (StringToBytes accStr) of
     None \<Rightarrow> None | Some accDiscount \<Rightarrow> find_module module (Modules accDiscount))"

definition marshal_account :: "fp_AccountDiscount \<Rightarrow> fp_AccountDiscount" where
  "marshal_account a = a\<lparr>Modules := map (\<lambda>m. m\<lparr>Discounts := map (\<lambda>d. d\<lparr>Amount := marshal_dec (Amount d)\<rparr>) (Discounts m)\<rparr>)
     (Modules a)\<rparr>"

definition SetAccountDiscounts :: "fp_AccountDiscount \<Rightarrow> fp_state \<Rightarrow> fp_state" where
  "SetAccountDiscounts discount s =
     s\<lparr>fp_discounts := kv_set (StringToBytes (Address discount)) (marshal_account discount) (fp_discounts s)\<rparr>"

definition DeleteAccountDiscounts :: "string \<Rightarrow> fp_state \<Rightarrow> fp_state" where
  "DeleteAccountDiscounts accStr s = s\<lparr>fp_discounts := kv_delete (StringToBytes accStr) (fp_discounts s)\<rparr>"

fun remove_module :: "string \<Rightarrow> fp_ModuleDiscount list \<Rightarrow> fp_ModuleDiscount list" where
  "remove_module module [] = []"
| "remove_module module (m # ms) = (if Module m = module then ms else m # remove_module module ms)"

definition DeleteModuleDiscounts :: "string \<Rightarrow> string \<Rightarrow> fp_state \<Rightarrow> fp_state" where
  "DeleteModuleDiscounts accStr module s = (case GetAccountDiscounts s accStr of
     None \<Rightarrow> s
   | Some discounts \<Rightarrow> SetAccountDiscounts (discounts\<lparr>Modules := remove_module module (Modules discounts)\<rparr>) s)"

text \<open>
  \<open>shift_out j xs\<close> is what a slice \<open>xs\<close> reads like after \<^verbatim>\<open>append(xs[:j], xs[j+1:]...)\<close> was assigned to a copy of it:
  the elements after position \<open>j\<close> have moved down in the shared array, and the length is the old one.
\<close>

definition shift_out :: "nat \<Rightarrow> 'a list \<Rightarrow> 'a list" where
  "shift_out j xs = take j xs @ drop (Suc j) xs @ (if j < length xs then [last xs] else [])"

fun index_of :: "('a \<Rightarrow> bool) \<Rightarrow> 'a list \<Rightarrow> nat option" where
  "index_of p [] = None"
| "index_of p (x # xs) = (if p x then Some 0 else map_option Suc (index_of p xs))"

definition DeleteMsgTypeDiscounts :: "string \<Rightarrow> string \<Rightarrow> fp_state \<Rightarrow> fp_state" where
  "DeleteMsgTypeDiscounts accStr msgType s = (case GetAccountDiscounts s accStr of
     None \<Rightarrow> s
   | Some discounts \<Rightarrow> SetAccountDiscounts (discounts\<lparr>Modules := map (\<lambda>moduleDiscount.
       case index_of (\<lambda>d. MsgType d = msgType) (Discounts moduleDiscount) of
         None \<Rightarrow> moduleDiscount
       | Some j \<Rightarrow> moduleDiscount\<lparr>Discounts := shift_out j (Discounts moduleDiscount)\<rparr>) (Modules discounts)\<rparr>) s)"

text \<open>
  The discount of a fee payer for a list of messages, given by their type URLs: for each message, in each module
  the first discount of its type replaces what was found before; the module may have a checker.
\<close>

definition match_module :: "string \<Rightarrow> fp_ModuleDiscount \<Rightarrow> fp_Discount \<times> string \<Rightarrow> fp_Discount \<times> string" where
  "match_module t moduleDiscount found = (case find (\<lambda>d. MsgType d = t) (Discounts moduleDiscount) of
     None \<Rightarrow> found | Some d \<Rightarrow> (d, Module moduleDiscount))"

definition GetDiscount ::
  "(string \<Rightarrow> (fp_Discount \<Rightarrow> 'm list \<Rightarrow> bool) option) \<Rightarrow> ('m \<Rightarrow> string) \<Rightarrow> fp_state \<Rightarrow> string \<Rightarrow> 'm list \<Rightarrow> fp_Discount" where
  "GetDiscount moduleKeepers MsgTypeURL s feePayerAddr msgs =
     (case GetAccountDiscounts s feePayerAddr of
        None \<Rightarrow> no_discount
      | Some accDiscount \<Rightarrow>
          let (discount, module) = fold (\<lambda>m found. fold (match_module (MsgTypeURL m)) (Modules accDiscount) found)
                msgs (no_discount, '''') in
          (case moduleKeepers module of
             None \<Rightarrow> discount
           | Some checkDiscount \<Rightarrow> if checkDiscount discount msgs then discount else no_discount))"

section \<open>Messages\<close>

definition check_moderator :: "string \<Rightarrow> fp_state \<Rightarrow> unit res" where
  "check_moderator sender s =
     bind_res (GetModeratorAddress s) (\<lambda>moderator. require (sender = moderator) ErrWrongModerator)"

definition ChangeModerator :: "(string \<Rightarrow> address option) \<Rightarrow> string \<Rightarrow> string \<Rightarrow> fp_state \<Rightarrow> fp_state res" where
  "ChangeModerator bech moderator newModerator s =
     bind_res (check_moderator moderator s) (\<lambda>_.
     bind_res (require (bech newModerator \<noteq> None) (ErrInvalidAddress newModerator)) (\<lambda>_.
     let s = SetModeratorAddress newModerator s in
     Ok (s\<lparr>fp_events := fp_events s @ [ChangeModeratorEvent [AttrModerator moderator, AttrAddress newModerator]]\<rparr>)))"

definition account_attributes :: "fp_AccountDiscount \<Rightarrow> fp_attribute list" where
  "account_attributes accDiscount = AttrAddress (Address accDiscount) #
     concat (map (\<lambda>m. AttrModule (Module m) #
       concat (map (\<lambda>d. [AttrMsgType (MsgType d), AttrDiscountType (DiscountType d), AttrAmount (Amount d)]) (Discounts m)))
       (Modules accDiscount))"

definition RegisterDiscounts ::
  "(string \<Rightarrow> address option) \<Rightarrow> string \<Rightarrow> fp_AccountDiscount list \<Rightarrow> fp_state \<Rightarrow> fp_state res" where
  "RegisterDiscounts bech moderator discounts s =
     bind_res (check_moderator moderator s) (\<lambda>_.
     bind_res (for_each (\<lambda>discount s. bind_res (ValidateAccountDiscount bech discount) (\<lambda>_. Ok (SetAccountDiscounts discount s)))
       discounts s) (\<lambda>s.
     Ok (s\<lparr>fp_events := fp_events s @
       [RegisterDiscountsEvent (AttrModerator moderator # concat (map account_attributes discounts))]\<rparr>)))"

definition RemoveDiscounts :: "string \<Rightarrow> string \<Rightarrow> string \<Rightarrow> string \<Rightarrow> fp_state \<Rightarrow> fp_state res" where
  "RemoveDiscounts moderator address module msgType s =
     bind_res (check_moderator moderator s) (\<lambda>_.
     let s = (if module = '''' then DeleteAccountDiscounts address s
              else if msgType = '''' then DeleteModuleDiscounts address module s
              else DeleteMsgTypeDiscounts address msgType s) in
     Ok (s\<lparr>fp_events := fp_events s @
       [RemoveDiscountsEvent [AttrModerator moderator, AttrAddress address, AttrModule module, AttrMsgType msgType]]\<rparr>))"

definition MsgChangeModerator_ValidateBasic :: "(string \<Rightarrow> address option) \<Rightarrow> string \<Rightarrow> string \<Rightarrow> unit res" where
  "MsgChangeModerator_ValidateBasic bech moderator newModerator =
     bind_res (require (bech moderator \<noteq> None) (ErrInvalidAddress moderator)) (\<lambda>_.
     require (bech newModerator \<noteq> None) (ErrInvalidAddress newModerator))"

definition MsgRegisterDiscounts_ValidateBasic ::
  "(string \<Rightarrow> address option) \<Rightarrow> string \<Rightarrow> fp_AccountDiscount list \<Rightarrow> unit res" where
  "MsgRegisterDiscounts_ValidateBasic bech moderator discounts =
     bind_res (require (bech moderator \<noteq> None) (ErrInvalidAddress moderator)) (\<lambda>_.
     bind_res (require (length discounts \<noteq> 0) (ErrInvalidRequest ''no discounts provided'')) (\<lambda>_.
     for_each (\<lambda>d (_::unit). ValidateAccountDiscount bech d) discounts ()))"

definition MsgRemoveDiscounts_ValidateBasic :: "(string \<Rightarrow> address option) \<Rightarrow> string \<Rightarrow> string \<Rightarrow> unit res" where
  "MsgRemoveDiscounts_ValidateBasic bech moderator address =
     bind_res (require (bech moderator \<noteq> None) (ErrInvalidAddress moderator)) (\<lambda>_.
     require (bech address \<noteq> None) (ErrInvalidAddress address))"

section \<open>Genesis and queries\<close>

record fp_GenesisState =
  fpg_ModeratorAddress :: string
  fpg_Discounts :: "fp_AccountDiscount list"

definition fp_Genesis_Validate :: "(string \<Rightarrow> address option) \<Rightarrow> fp_GenesisState \<Rightarrow> unit res" where
  "fp_Genesis_Validate bech gs =
     bind_res (require (bech (fpg_ModeratorAddress gs) \<noteq> None) (ErrInvalidAddress (fpg_ModeratorAddress gs))) (\<lambda>_.
     for_each (\<lambda>d (_::unit). ValidateAccountDiscount bech d) (fpg_Discounts gs) ())"

definition fp_InitGenesis :: "(string \<Rightarrow> address option) \<Rightarrow> string \<Rightarrow> fp_GenesisState \<Rightarrow> fp_state \<Rightarrow> fp_state res" where
  "fp_InitGenesis bech authority data s =
     (let moderator = (if fpg_ModeratorAddress data = '''' then authority else fpg_ModeratorAddress data) in
      bind_res (must (bech moderator \<noteq> None) ''invalid moderator address'') (\<lambda>_.
      Ok (fold SetAccountDiscounts (fpg_Discounts data) (SetModeratorAddress moderator s))))"

text \<open>The paginator of the SDK gives the requested page of a store; the export asks for all of it.\<close>

definition GetPaginatedDiscounts ::
  "((bytes, fp_AccountDiscount) kv \<Rightarrow> (bytes, fp_AccountDiscount) kv res) \<Rightarrow> fp_state \<Rightarrow> fp_AccountDiscount list res" where
  "GetPaginatedDiscounts paginate s = bind_res (paginate (fp_discounts s)) (\<lambda>page. Ok (map snd page))"

definition fp_ExportGenesis ::
  "((bytes, fp_AccountDiscount) kv \<Rightarrow> (bytes, fp_AccountDiscount) kv res) \<Rightarrow> fp_state \<Rightarrow> fp_GenesisState res" where
  "fp_ExportGenesis paginate s =
     (case GetModeratorAddress s of
        Ok moderator \<Rightarrow>
          (case GetPaginatedDiscounts paginate s of
             Ok discounts \<Rightarrow> Ok \<lparr>fpg_ModeratorAddress = moderator, fpg_Discounts = discounts\<rparr>
           | Fail _ \<Rightarrow> Panic ''unable to fetch discounts'' | Panic p \<Rightarrow> Panic p)
      | Fail _ \<Rightarrow> Panic ''moderator address not found'' | Panic p \<Rightarrow> Panic p)"

definition fp_DefaultGenesisState :: fp_GenesisState where
  "fp_DefaultGenesisState = \<lparr>fpg_ModeratorAddress = '''', fpg_Discounts = []\<rparr>"

definition Query_Discount :: "fp_state \<Rightarrow> string \<Rightarrow> fp_AccountDiscount" where
  "Query_Discount s address = (case GetAccountDiscounts s address of
     None \<Rightarrow> \<lparr>Address = '''', Modules = []\<rparr> | Some d \<Rightarrow> d)"

end
