(* ===== verification/CosmosAnte.thy ===== *)
theory CosmosAnte
  imports FeeMarket FeePolicy
begin

text \<open>
  The checks a Cosmos transaction passes before it runs: \<^verbatim>\<open>ante/cosmos\<close> (rejected messages, nested
  authorizations, the global minimum gas price), the fee checkers of \<^verbatim>\<open>ante/evm/fee_checker.go\<close> and
  \<^verbatim>\<open>gurud/ante/validator_tx_fee.go\<close>, the fee deduction with discounts of \<^verbatim>\<open>gurud/ante/cosmos_fees.go\<close>, and
  the gas counter of \<^verbatim>\<open>ante/evm/10_gas_wanted.go\<close>. A decorator is its check, followed by the call of the
  next one, which is a function argument. Accounts, fee grants, the bank and the event manager are SDK code
  and are the fields of \<open>fee_env\<close>.
\<close>

section \<open>Messages\<close>

text \<open>
  Messages as the authorization limiter sees them: an authz execution of messages (\<open>MsgExecBad\<close> when they
  cannot be unpacked), an authz grant for a type (\<open>None\<close> when it cannot be unpacked), or any other message, given
  by its type URL.
\<close>

datatype amsg =
    MsgExec "amsg list"
  | MsgExecBad
  | MsgGrant "string option"
  | OtherMsg string

definition maxNestedMsgs :: nat where "maxNestedMsgs = 7"

definition isDisabledMsg :: "string list \<Rightarrow> string \<Rightarrow> bool" where
  "isDisabledMsg disabledMsgTypes url \<longleftrightarrow> list_ex (\<lambda>t. url = t) disabledMsgTypes"

text \<open>\<open>check_loop\<close> is the loop over the messages, whose level counter is bumped by every execution it meets.\<close>

fun check_loop :: "string list \<Rightarrow> amsg list \<Rightarrow> bool \<Rightarrow> nat \<Rightarrow> unit res" where
  "check_loop dis [] inner lvl = Ok ()"
| "check_loop dis (MsgExec innerMsgs # msgs) inner lvl =
     bind_res (if maxNestedMsgs \<le> Suc lvl then Fail (ErrPlain ''found more nested msgs than permitted'')
               else check_loop dis innerMsgs True (Suc lvl)) (\<lambda>_.
     check_loop dis msgs inner (Suc lvl))"
| "check_loop dis (MsgExecBad # msgs) inner lvl = Fail (ErrPlain ''cannot unpack messages'')"
| "check_loop dis (MsgGrant authorization # msgs) inner lvl =
     (case authorization of
        None \<Rightarrow> Fail (ErrPlain ''cannot unpack authorization'')
      | Some url \<Rightarrow> if isDisabledMsg dis url then Fail (ErrPlain ''found disabled msg type'')
                    else check_loop dis msgs inner lvl)"
| "check_loop dis (OtherMsg url # msgs) inner lvl =
     (if inner \<and> isDisabledMsg dis url then Fail (ErrPlain ''found disabled msg type'')
      else check_loop dis msgs inner lvl)"

definition checkDisabledMsgs :: "string list \<Rightarrow> amsg list \<Rightarrow> bool \<Rightarrow> nat \<Rightarrow> unit res" where
  "checkDisabledMsgs dis msgs inner nestedLvl =
     (if maxNestedMsgs \<le> nestedLvl then Fail (ErrPlain ''found more nested msgs than permitted'')
      else check_loop dis msgs inner nestedLvl)"

definition AuthzLimiter_AnteHandle :: "string list \<Rightarrow> amsg list \<Rightarrow> ('c \<Rightarrow> 'c res) \<Rightarrow> 'c \<Rightarrow> 'c res" where
  "AuthzLimiter_AnteHandle dis msgs next_handler c =
     (case checkDisabledMsgs dis msgs False 1 of
        Ok _ \<Rightarrow> next_handler c | Fail _ \<Rightarrow> Fail (ErrUnauthorized ''disabled message'') | Panic p \<Rightarrow> Panic p)"

definition MsgEthereumTx_URL :: string where "MsgEthereumTx_URL = ''/cosmos.evm.vm.v1.MsgEthereumTx''"

definition RejectMessages_AnteHandle :: "amsg list \<Rightarrow> ('c \<Rightarrow> 'c res) \<Rightarrow> 'c \<Rightarrow> 'c res" where
  "RejectMessages_AnteHandle msgs next_handler c =
     bind_res (require (\<not> list_ex (\<lambda>m. m = OtherMsg MsgEthereumTx_URL) msgs) ErrInvalidType) (\<lambda>_. next_handler c)"

section \<open>The environment\<close>

text \<open>
  A fee transaction; an absent fee (nil) is the empty list, an extension option is \<open>Some p\<close> for a dynamic fee
  option with priority price \<open>p\<close> and \<open>None\<close> for any other.
\<close>

record fee_tx =
  GetGas :: uint64
  GetFee :: coins
  FeePayer :: address
  FeeGranter :: "address option"
  GetMsgs :: "amsg list"
  ExtensionOptions :: "dec option option list"

record ('c, 'acc) fee_env =
  fe_dec :: legacy_dec_ops
  fe_sdk :: sdk_coins_ops
  fe_coin :: EvmCoinInfo
  fe_height :: "'c \<Rightarrow> int"
  IsCheckTx :: "'c \<Rightarrow> bool"
  MinGasPrices :: "'c \<Rightarrow> (string \<times> dec) list"
  BlockGasMeterLimit :: "'c \<Rightarrow> uint64 option"
  ConsensusMaxGas :: "'c \<Rightarrow> int option"
  fe_policy :: "'c \<Rightarrow> fp_state"
  fe_market :: "'c \<Rightarrow> fm_state"
  fe_put_market :: "fm_state \<Rightarrow> 'c \<Rightarrow> 'c"
  IsLondon :: "int \<Rightarrow> bool"
  MsgTypeURL :: "amsg \<Rightarrow> string"
  moduleKeepers :: "string \<Rightarrow> (fp_Discount \<Rightarrow> amsg list \<Rightarrow> bool) option"
  BytesToString :: "address \<Rightarrow> string res"
  FeeCollectorAddress :: "address option"
  UseGrantedFees :: "(address \<Rightarrow> address \<Rightarrow> coins \<Rightarrow> amsg list \<Rightarrow> 'c \<Rightarrow> 'c res) option"
  fe_GetAccount :: "'c \<Rightarrow> address \<Rightarrow> 'acc option"
  DeductFees :: "'acc \<Rightarrow> coins \<Rightarrow> 'c \<Rightarrow> 'c res"
  EmitTxEvent :: "coins \<Rightarrow> address \<Rightarrow> 'c \<Rightarrow> 'c"
  DefaultPriorityReduction :: int

definition MaxInt64 :: int where "MaxInt64 = 2 ^ 63 - 1"

definition IsInt64 :: "int \<Rightarrow> bool" where "IsInt64 i \<longleftrightarrow> - (2 ^ 63) \<le> i \<and> i < 2 ^ 63"

definition DecCoins_IsZero :: "(string \<times> dec) list \<Rightarrow> bool" where
  "DecCoins_IsZero = list_all (\<lambda>c. snd c = 0)"

section \<open>The global minimum gas price\<close>

definition DefaultBondDenom :: string where "DefaultBondDenom = ''stake''"

definition MinGasPrice_AnteHandle ::
  "('c, 'acc) fee_env \<Rightarrow> fee_tx option \<Rightarrow> bool \<Rightarrow> ('c \<Rightarrow> 'c res) \<Rightarrow> 'c \<Rightarrow> 'c res" where
  "MinGasPrice_AnteHandle E tx simulate next_handler c =
     (case tx of None \<Rightarrow> Fail ErrInvalidType
      | Some feeTx \<Rightarrow>
          let feeCoins = GetFee feeTx; evmDenom = Denom (fe_coin E);
              validFees = (length feeCoins = 0 \<or> (length feeCoins = 1 \<and> fst (hd feeCoins) \<in> {evmDenom, DefaultBondDenom})) in
          bind_res (require (\<not> (\<not> validFees \<and> \<not> simulate)) (ErrPlain ''expected only native token for fee'')) (\<lambda>_.
          bind_res (dec_val (MinGasPrice (fm_GetParams (fe_market E c)))) (\<lambda>minGasPrice.
          if minGasPrice = 0 \<or> simulate then next_handler c
          else
            let gasLimit = LegacyNewDec (fe_dec E) (uint (GetGas feeTx));
                fee = DecRoundInt (fe_dec E) (DecCeil (fe_dec E) (DecMul (fe_dec E) minGasPrice gasLimit));
                requiredFees = (if 0 < fee then CoinsAdd (fe_sdk E) [] [(evmDenom, fee)] else []) in
            bind_res (require (feeCoins \<noteq> []) ErrInsufficientFee) (\<lambda>_.
            bind_res (require (IsAnyGTE (fe_sdk E) feeCoins requiredFees) ErrInsufficientFee) (\<lambda>_.
            next_handler c)))))"

section \<open>The fee checkers\<close>

definition priority_fold :: "(int \<Rightarrow> int) \<Rightarrow> coins \<Rightarrow> int" where
  "priority_fold price fees = fold (\<lambda>fee priority.
     let amt = price (snd fee); p = (if IsInt64 amt then amt else MaxInt64) in
     if priority = 0 \<or> p < priority then p else priority) fees 0"

text \<open>Dividing by a gas limit of zero is a panic, which needs a coin to divide.\<close>

definition getTxPriority :: "int \<Rightarrow> coins \<Rightarrow> int \<Rightarrow> int res" where
  "getTxPriority reduction fees gas =
     bind_res (must (fees = [] \<or> gas \<noteq> 0) ''division by zero'') (\<lambda>_.
     Ok (priority_fold (\<lambda>amount. (amount sdiv gas) sdiv reduction) fees))"

definition validator_getTxPriority :: "coins \<Rightarrow> int \<Rightarrow> int res" where
  "validator_getTxPriority fee gas =
     bind_res (must (fee = [] \<or> gas \<noteq> 0) ''division by zero'') (\<lambda>_.
     Ok (priority_fold (\<lambda>amount. amount sdiv gas) fee))"

fun required_fees :: "('c, 'acc) fee_env \<Rightarrow> dec \<Rightarrow> (string \<times> dec) list \<Rightarrow> coins res" where
  "required_fees E glDec [] = Ok []"
| "required_fees E glDec (gp # gps) =
     bind_res (NewCoin (fe_sdk E) (fst gp)
       (DecRoundInt (fe_dec E) (DecCeil (fe_dec E) (DecMul (fe_dec E) (snd gp) glDec)))) (\<lambda>c.
     bind_res (required_fees E glDec gps) (\<lambda>cs. Ok (c # cs)))"

definition check_min_fee :: "('c, 'acc) fee_env \<Rightarrow> coins \<Rightarrow> int \<Rightarrow> 'c \<Rightarrow> unit res" where
  "check_min_fee E feeCoins gas c =
     (if IsCheckTx E c \<and> \<not> DecCoins_IsZero (MinGasPrices E c)
      then bind_res (required_fees E (LegacyNewDec (fe_dec E) gas) (MinGasPrices E c)) (\<lambda>requiredFees.
           require (IsAnyGTE (fe_sdk E) feeCoins requiredFees) ErrInsufficientFee)
      else Ok ())"

definition checkTxFeeWithValidatorMinGasPrices ::
  "('c, 'acc) fee_env \<Rightarrow> 'c \<Rightarrow> fee_tx \<Rightarrow> (coins \<times> coins \<times> int) res" where
  "checkTxFeeWithValidatorMinGasPrices E c tx =
     (let feeCoins = GetFee tx; gas = sint (GetGas tx) in
      bind_res (check_min_fee E feeCoins gas c) (\<lambda>_.
      bind_res (getTxPriority (DefaultPriorityReduction E) feeCoins gas) (\<lambda>priority.
      Ok (feeCoins, [], priority))))"

definition validator_checkTxFee :: "('c, 'acc) fee_env \<Rightarrow> 'c \<Rightarrow> fee_tx option \<Rightarrow> (coins \<times> coins \<times> int) res" where
  "validator_checkTxFee E c tx =
     (case tx of None \<Rightarrow> Fail ErrTxDecode
      | Some feeTx \<Rightarrow>
          let feeCoins = GetFee feeTx; gas = sint (GetGas feeTx) in
          bind_res (check_min_fee E feeCoins gas c) (\<lambda>_.
          bind_res (validator_getTxPriority feeCoins gas) (\<lambda>priority.
          Ok (feeCoins, [], priority))))"

definition effectiveGasPriceLegacyDec :: "legacy_dec_ops \<Rightarrow> dec \<Rightarrow> dec \<Rightarrow> dec \<Rightarrow> dec" where
  "effectiveGasPriceLegacyDec D baseFee feeCap tipCap = min (DecAdd D tipCap baseFee) feeCap"

fun first_priority_price :: "dec option option list \<Rightarrow> dec \<Rightarrow> dec" where
  "first_priority_price [] p = p"
| "first_priority_price (None # opts) p = first_priority_price opts p"
| "first_priority_price (Some extOpt # opts) p = (case extOpt of None \<Rightarrow> 0 | Some q \<Rightarrow> q)"

definition FeeChecker :: "('c, 'acc) fee_env \<Rightarrow> 'c \<Rightarrow> fee_tx \<Rightarrow> (coins \<times> coins \<times> int) res" where
  "FeeChecker E c feeTx =
     (let D = fe_dec E; denom = Denom (fe_coin E) in
      if \<not> IsLondon E (fe_height E c) then checkTxFeeWithValidatorMinGasPrices E c feeTx
      else
        let baseFee = (case fm_GetBaseFee (fe_market E c) of None \<Rightarrow> 0 | Some f \<Rightarrow> f);
            maxPriorityPrice = first_priority_price (ExtensionOptions feeTx) (LegacyNewDec D MaxInt64) in
        bind_res (require (\<not> maxPriorityPrice < 0) ErrInsufficientFee) (\<lambda>_.
        let gas = uint (GetGas feeTx) in
        bind_res (require (gas \<noteq> 0) (ErrInvalidRequest ''gas cannot be zero'')) (\<lambda>_.
        let feeAmtDec = LegacyNewDec D (AmountOf (fe_sdk E) (GetFee feeTx) denom);
            feeCap = DecQuoInt D feeAmtDec gas in
        bind_res (require (\<not> feeCap < baseFee) ErrInsufficientFee) (\<lambda>_.
        let effectivePrice = effectiveGasPriceLegacyDec D baseFee feeCap maxPriorityPrice;
            effectiveFeeAmt = DecRoundInt D (DecCeil D (DecMulInt D effectivePrice gas));
            totalTipAmt = DecRoundInt D (DecCeil D (DecMulInt D (DecSub D effectivePrice baseFee) gas));
            totalTipAmt = (if totalTipAmt = effectiveFeeAmt then 0 else totalTipAmt);
            priorityInt = DecTruncateInt D (DecQuoInt D (DecSub D effectivePrice baseFee) (DefaultPriorityReduction E));
            priority = (if IsInt64 priorityInt then priorityInt else MaxInt64) in
        Ok ([(denom, effectiveFeeAmt)], [(denom, totalTipAmt)], priority)))))"

definition DynamicFeeChecker :: "('c, 'acc) fee_env \<Rightarrow> 'c \<Rightarrow> fee_tx option \<Rightarrow> (coins \<times> coins \<times> int) res" where
  "DynamicFeeChecker E c tx =
     (case tx of None \<Rightarrow> Fail ErrTxDecode
      | Some feeTx \<Rightarrow> if fe_height E c = 0 then checkTxFeeWithValidatorMinGasPrices E c feeTx else FeeChecker E c feeTx)"

section \<open>Deducting the fee\<close>

text \<open>The loops over the coins of the base fee, for each kind of discount.\<close>

definition discountMultiplier :: "legacy_dec_ops \<Rightarrow> dec \<Rightarrow> dec" where
  "discountMultiplier D amount = DecQuo D (DecSub D (LegacyNewDec D 100) amount) (LegacyNewDec D 100)"

definition percent_loop :: "('c, 'acc) fee_env \<Rightarrow> dec \<Rightarrow> coins \<Rightarrow> coins res" where
  "percent_loop E amount baseFee = for_each (\<lambda>f deductedFee.
     let finalAmt = DecTruncateInt (fe_dec E)
       (DecMul (fe_dec E) (LegacyNewDec (fe_dec E) (snd f)) (discountMultiplier (fe_dec E) amount)) in
     bind_res (NewCoin (fe_sdk E) (fst f) finalAmt) (\<lambda>coin. Ok (CoinsAdd (fe_sdk E) deductedFee [coin]))) baseFee []"

definition fixed_loop :: "('c, 'acc) fee_env \<Rightarrow> dec \<Rightarrow> coins \<Rightarrow> coins res" where
  "fixed_loop E amount baseFee = for_each (\<lambda>f deductedFee.
     bind_res (NewCoin (fe_sdk E) (fst f) (DecTruncateInt (fe_dec E) amount)) (\<lambda>coin.
     Ok (CoinsAdd (fe_sdk E) deductedFee [coin]))) baseFee []"

definition discounted_fee :: "('c, 'acc) fee_env \<Rightarrow> fp_Discount \<Rightarrow> coins \<Rightarrow> coins res" where
  "discounted_fee E discount baseFee =
     (if DiscountType discount = FeeDiscountTypePercent
      then if baseFee = [] then Ok [] else bind_res (dec_val (Amount discount)) (\<lambda>amount. percent_loop E amount baseFee)
      else if DiscountType discount = FeeDiscountTypeFixed
      then if baseFee = [] then Ok [] else bind_res (dec_val (Amount discount)) (\<lambda>amount. fixed_loop E amount baseFee)
      else Ok baseFee)"

definition checkDeductFee :: "('c, 'acc) fee_env \<Rightarrow> fee_tx \<Rightarrow> coins \<Rightarrow> 'c \<Rightarrow> 'c res" where
  "checkDeductFee E feeTx fee c =
     bind_res (require (FeeCollectorAddress E \<noteq> None) (ErrPlain ''fee collector module account has not been set'')) (\<lambda>_.
     bind_res (case FeeGranter feeTx of
         None \<Rightarrow> Ok (FeePayer feeTx, c)
       | Some feeGranterAddr \<Rightarrow>
           (case UseGrantedFees E of
              None \<Rightarrow> Fail (ErrInvalidRequest ''fee grants are not enabled'')
            | Some use \<Rightarrow>
                if feeGranterAddr \<noteq> FeePayer feeTx
                then bind_res (use feeGranterAddr (FeePayer feeTx) fee (GetMsgs feeTx) c) (\<lambda>c. Ok (feeGranterAddr, c))
                else Ok (feeGranterAddr, c))) (\<lambda>(deductFeesFrom, c).
     (case fe_GetAccount E c deductFeesFrom of
        None \<Rightarrow> Fail (ErrUnknownAddress ''fee payer address does not exist'')
      | Some deductFeesFromAcc \<Rightarrow>
          bind_res (if \<not> CoinsIsZero (fe_sdk E) fee then DeductFees E deductFeesFromAcc fee c else Ok c) (\<lambda>c.
          Ok (EmitTxEvent E fee deductFeesFrom c)))))"

definition DeductFee_AnteHandle ::
  "('c, 'acc) fee_env \<Rightarrow> ('c \<Rightarrow> fee_tx option \<Rightarrow> (coins \<times> coins \<times> int) res) \<Rightarrow> fee_tx option \<Rightarrow> bool \<Rightarrow>
     (int \<Rightarrow> 'c \<Rightarrow> 'c res) \<Rightarrow> 'c \<Rightarrow> 'c res" where
  "DeductFee_AnteHandle E txFeeChecker tx simulate next_handler c =
     (case tx of None \<Rightarrow> Fail ErrTxDecode
      | Some feeTx \<Rightarrow>
          bind_res (require (\<not> (\<not> simulate \<and> 0 < fe_height E c \<and> GetGas feeTx = 0)) ErrInvalidGasLimit) (\<lambda>_.
          bind_res (if \<not> simulate then txFeeChecker c tx else Ok (GetFee feeTx, [], 0)) (\<lambda>(fee, tips, priority).
          bind_res (BytesToString E (FeePayer feeTx)) (\<lambda>feePayer.
          bind_res (case FeeGranter feeTx of None \<Rightarrow> Ok feePayer | Some g \<Rightarrow> BytesToString E g) (\<lambda>feeGranter.
          let discount = GetDiscount (moduleKeepers E) (MsgTypeURL E) (fe_policy E c) feeGranter (GetMsgs feeTx) in
          bind_res (CoinsSub (fe_sdk E) fee tips) (\<lambda>baseFee.
          bind_res (discounted_fee E discount baseFee) (\<lambda>deductedFee.
          let deductedFee = CoinsAdd (fe_sdk E) deductedFee tips in
          bind_res (checkDeductFee E feeTx deductedFee c) (\<lambda>c.
          next_handler priority c))))))))"

section \<open>The gas wanted by a block\<close>

text \<open>The limit of the block gas meter, if there is a meter, and the gas limit of the consensus parameters, if they are set.\<close>

definition BlockGasLimit :: "uint64 option \<Rightarrow> int option \<Rightarrow> uint64" where
  "BlockGasLimit blockGasMeter max_gas =
     (case blockGasMeter of
        Some limit \<Rightarrow> if limit \<noteq> 0 then limit else
          (case max_gas of None \<Rightarrow> 0 | Some maxGas \<Rightarrow>
             if maxGas = -1 then - 1 else if 0 < maxGas then word_of_int maxGas else 0)
      | None \<Rightarrow>
          (case max_gas of None \<Rightarrow> 0 | Some maxGas \<Rightarrow>
             if maxGas = -1 then - 1 else if 0 < maxGas then word_of_int maxGas else 0))"

text \<open>\<open>fee_gas\<close> is the gas of a fee transaction, and \<open>None\<close> for a transaction that is not one.\<close>

definition CheckGasWanted :: "int \<Rightarrow> uint64 \<Rightarrow> uint64 option \<Rightarrow> bool \<Rightarrow> fm_state \<Rightarrow> fm_state res" where
  "CheckGasWanted height blockGasLimit fee_gas isLondon s =
     (if \<not> isLondon then Ok s
      else case fee_gas of None \<Rightarrow> Ok s
      | Some gasWanted \<Rightarrow>
          bind_res (require (\<not> blockGasLimit < gasWanted) ErrOutOfGas) (\<lambda>_.
          if \<not> GetBaseFeeEnabled height s then Ok s else Ok (snd (AddTransientGasWanted gasWanted s))))"

definition GasWanted_AnteHandle :: "('c, 'acc) fee_env \<Rightarrow> fee_tx option \<Rightarrow> ('c \<Rightarrow> 'c res) \<Rightarrow> 'c \<Rightarrow> 'c res" where
  "GasWanted_AnteHandle E tx next_handler c =
     bind_res (CheckGasWanted (fe_height E c) (BlockGasLimit (BlockGasMeterLimit E c) (ConsensusMaxGas E c))
       (map_option GetGas tx) (IsLondon E (fe_height E c)) (fe_market E c)) (\<lambda>s. next_handler (fe_put_market E s c))"

end
