(* ===== verification/FeeMarketProps.thy ===== *)
theory FeeMarketProps
  imports FeeMarket
begin

text \<open>
  The bounds on the base fee and on the minimum gas price, and what the end of a block does to the
  stored parameters.
\<close>

section \<open>Stored parameters\<close>

text \<open>Parameters that passed \<^verbatim>\<open>Validate\<close> and were stored; \<^verbatim>\<open>MaxChangeRate\<close> is not checked by it.\<close>

definition fm_ok :: "fm_state \<Rightarrow> bool" where
  "fm_ok s \<longleftrightarrow> is_ok (fm_Validate (fm_GetParams s)) \<and> MaxChangeRate (fm_GetParams s) \<noteq> None"

lemma fm_Validate_iff:
  "is_ok (fm_Validate p) \<longleftrightarrow> BaseFeeChangeDenominator p \<noteq> 0 \<and> ElasticityMultiplier p \<noteq> 0 \<and> 0 \<le> EnableHeight p \<and>
     (\<exists>b m q f. BaseFee p = Some b \<and> 0 \<le> b \<and> MinGasMultiplier p = Some m \<and> 0 \<le> m \<and> m \<le> dec_one \<and>
        MinGasPrice p = Some q \<and> 0 \<le> q \<and> GasPriceAdjustmentFactor p = Some f \<and> 0 \<le> f)"
  by (auto simp: fm_Validate_def validateMinGasMultiplier_def validateMinGasPrice_def validateGasPriceAdjustmentFactor_def
      dec_val_def require_def not_less is_ok_def split: option.splits)

lemma fm_GetParams_Set [simp]:
  "fm_GetParams (fm_SetParams p s) = p\<lparr>BaseFee := marshal_dec (BaseFee p), MinGasPrice := marshal_dec (MinGasPrice p),
     MinGasMultiplier := marshal_dec (MinGasMultiplier p),
     GasPriceAdjustmentFactor := marshal_dec (GasPriceAdjustmentFactor p), MaxChangeRate := marshal_dec (MaxChangeRate p)\<rparr>"
  by (simp add: fm_GetParams_def fm_SetParams_def)

lemma fm_GetParams_frame [simp]:
  "fm_GetParams (s\<lparr>fm_events := e\<rparr>) = fm_GetParams s"
  "fm_GetParams (SetBlockGasWanted g s) = fm_GetParams s"
  by (simp_all add: fm_GetParams_def SetBlockGasWanted_def)

lemma GetBlockGasWanted_Set [simp]: "GetBlockGasWanted (SetBlockGasWanted g s) = g"
  by (simp add: GetBlockGasWanted_def SetBlockGasWanted_def)

section \<open>The base fee\<close>

text \<open>The gas target of a block.\<close>

definition gas_target :: "fm_block \<Rightarrow> fm_Params \<Rightarrow> int" where
  "gas_target b p = (case fm_max_gas b of None \<Rightarrow> 2 ^ 64 - 1 | Some g \<Rightarrow> if -1 < g then g else 2 ^ 64 - 1)
     div uint (ElasticityMultiplier p)"

text \<open>Consensus parameters hold a signed 64-bit gas limit.\<close>

definition max_gas_int64 :: "fm_block \<Rightarrow> bool" where
  "max_gas_int64 b \<longleftrightarrow> (\<forall>g. fm_max_gas b = Some g \<longrightarrow> g < 2 ^ 63)"

lemma div_le_dividend_int:
  assumes "0 \<le> (a::int)" and "0 \<le> b"
  shows "a div b \<le> a"
proof (cases "b = 0")
  case False
  then have "a div b \<le> a div 1" using assms by (intro zdiv_mono2) auto
  then show ?thesis by simp
qed (use assms in simp)

lemma gas_target_range:
  assumes "max_gas_int64 b"
  shows "0 \<le> gas_target b p" and "gas_target b p < 2 ^ 64"
proof -
  let ?l = "case fm_max_gas b of None \<Rightarrow> 2 ^ 64 - 1 | Some g \<Rightarrow> if -1 < g then g else (2 ^ 64 - 1 :: int)"
  have l: "0 \<le> ?l" "?l < 2 ^ 64" using assms by (auto simp: max_gas_int64_def split: option.splits)
  show "0 \<le> gas_target b p" using l by (simp add: gas_target_def pos_imp_zdiv_nonneg_iff div_int_pos_iff)
  have "?l div uint (ElasticityMultiplier p) \<le> ?l"
    using l(1) div_le_dividend_int by simp
  with l show "gas_target b p < 2 ^ 64" by (simp add: gas_target_def)
qed

lemma scaled_change:
  assumes "0 \<le> (f::int)" and "0 \<le> v" and "0 < t" and "0 < d"
  shows "0 \<le> f * v div t div d"
    and "v \<le> t \<Longrightarrow> f * v div t div d \<le> f div d"
    and "f * v div t div d * (t * d) \<le> f * v"
proof -
  show "0 \<le> f * v div t div d" using assms by (simp add: pos_imp_zdiv_nonneg_iff)
  show "f * v div t div d * (t * d) \<le> f * v"
    using assms div_mult_le_int [of "t * d" "f * v"] by (simp add: zdiv_zmult2_eq)
  assume "v \<le> t"
  then have "f * v \<le> f * t" using assms by (intro mult_left_mono) auto
  then have "f * v div t \<le> f * t div t" using assms by (intro zdiv_mono1) auto
  then show "f * v div t div d \<le> f div d" using assms by (intro zdiv_mono1) auto
qed

context legacy_dec
begin

lemma CalculateBaseFee_cases:
  assumes ok: "is_ok (fm_Validate (fm_GetParams s))" and g: "max_gas_int64 b"
    and on: "IsBaseFeeEnabled (fm_height b) (fm_GetParams s)" "fm_height b \<noteq> EnableHeight (fm_GetParams s)"
    and p: "BaseFee (fm_GetParams s) = Some f" "MinGasPrice (fm_GetParams s) = Some q"
    and ab: "t = gas_target b (fm_GetParams s)" "u = uint (GetBlockGasWanted s)"
      "d = uint (BaseFeeChangeDenominator (fm_GetParams s))"
  shows "CalculateBaseFee D b s =
    Ok (Some (if u = t then f else if t = 0 then 0
              else if t < u then f + max (f * (u - t) div t div d) dec_one
              else max (f - f * (t - u) div t div d) q))"
proof -
  let ?p = "fm_GetParams s"
  let ?l = "case fm_max_gas b of None \<Rightarrow> 2 ^ 64 - 1 | Some g \<Rightarrow> if -1 < g then g else (2 ^ 64 - 1 :: int)"
  have v: "BaseFeeChangeDenominator ?p \<noteq> 0" "ElasticityMultiplier ?p \<noteq> 0" "0 \<le> f"
    using ok p by (auto simp: fm_Validate_iff)
  have t: "0 \<le> t" "t < 2 ^ 64" using gas_target_range [OF g] ab by auto
  have l: "?l sdiv uint (ElasticityMultiplier ?p) = t"
    using g by (simp add: ab gas_target_def max_gas_int64_def split: option.splits)
  have d: "0 < d" using v(1) ab(3) by (simp add: uint_0_iff order_less_le)
  have ut: "uint (word_of_int t :: uint64) = t" using t by (simp add: take_bit_int_eq_self uint_word_of_int_eq)
  have eq: "GetBlockGasWanted s = word_of_int t \<longleftrightarrow> u = t" using ut ab(2) by (metis word_of_int_uint)
  have lt: "word_of_int t < GetBlockGasWanted s \<longleftrightarrow> t < u" by (simp add: word_less_def ut flip: ab(2))
  have m1: "t < u \<Longrightarrow> uint (GetBlockGasWanted s - word_of_int t) = u - t"
    using lt ut ab(2) by (simp add: uint_sub_lem [THEN iffD1] order_less_imp_le word_less_def)
  have m2: "u < t \<Longrightarrow> uint (word_of_int t - GetBlockGasWanted s) = t - u"
    using ut ab(2) by (simp add: uint_sub_lem [THEN iffD1])
  have u0: "0 \<le> u" using ab by simp
  have div: "v \<ge> 0 \<Longrightarrow> t \<noteq> 0 \<Longrightarrow> dec_quo_int_panic D (DecMulInt D f v) t = Ok (f * v div t)"
    "v \<ge> 0 \<Longrightarrow> t \<noteq> 0 \<Longrightarrow> dec_quo_int_panic D (f * v div t) d = Ok (f * v div t div d)" for v
    using t(1) d v(3) by (simp_all add: dec_quo_int_panic_def dec_quo_int dec_mul_int pos_imp_zdiv_nonneg_iff)
  show ?thesis
    using on p v t l eq lt m1 m2 u0 d
    by (simp add: CalculateBaseFee_def Let_def must_def div dec_val_def dec_add dec_sub flip: ab(3))
qed


lemma AfterOracleEnd_sets:
  assumes p: "GasPriceAdjustmentFactor (fm_GetParams s) = Some a" "MaxChangeRate (fm_GetParams s) = Some r"
      "MinGasPrice (fm_GetParams s) = Some q"
    and x: "a \<noteq> 0" "LegacyNewDecFromStr D raw = Some x" "x \<noteq> 0"
    and m: "m = DecMul D q r" "c = DecTruncateInt D (DecQuo D a x)"
    and n: "n = (if r = 0 \<or> q = 0 then c else if q + m < c * dec_one then DecTruncateInt D (q + m)
                 else if c * dec_one < q - m then DecTruncateInt D (q - m) else c)"
  shows "fm_AfterOracleEnd D raw s = Ok ((fm_SetParams ((fm_GetParams s)\<lparr>MinGasPrice := Some (n * dec_one)\<rparr>) s)
           \<lparr>fm_events := fm_events s @ [ChangeMinGasPrice n]\<rparr>)"
  using p x by (auto simp: fm_AfterOracleEnd_def Let_def dec_val_def dec_add dec_sub dec_new n m fm_SetParams_def)

lemma truncate_near:
  "x - dec_one < DecTruncateInt D x * dec_one" "DecTruncateInt D x * dec_one < x + dec_one"
  "0 \<le> x \<Longrightarrow> DecTruncateInt D x * dec_one \<le> x" "x \<le> 0 \<Longrightarrow> DecTruncateInt D x \<le> 0"
  "x \<le> 0 \<Longrightarrow> x \<le> DecTruncateInt D x * dec_one"
proof -
  have neg: "DecTruncateInt D x = - ((- x) div dec_one)" if "x \<le> 0"
    using that by (cases "x = 0") (auto simp: dec_truncate signed_divide_int_def)
  show "x - dec_one < DecTruncateInt D x * dec_one" "DecTruncateInt D x * dec_one < x + dec_one"
    "0 \<le> x \<Longrightarrow> DecTruncateInt D x * dec_one \<le> x" "x \<le> 0 \<Longrightarrow> DecTruncateInt D x \<le> 0"
    "x \<le> 0 \<Longrightarrow> x \<le> DecTruncateInt D x * dec_one"
    using neg by (cases "0 \<le> x"; simp add: dec_truncate; linarith)+
qed

lemma dec_mul_rate_le:
  assumes "0 \<le> q" and "r \<le> dec_one"
  shows "DecMul D q r \<le> q"
proof -
  have "q * r \<le> q * dec_one" using assms by (intro mult_left_mono)
  then show ?thesis using dec_mul_bounds(2) [of q r] by linarith
qed

lemma AfterOracleEnd_within:
  assumes ok: "fm_ok s" and p: "GasPriceAdjustmentFactor (fm_GetParams s) = Some a"
      "MaxChangeRate (fm_GetParams s) = Some r" "MinGasPrice (fm_GetParams s) = Some q"
    and x: "a \<noteq> 0" "LegacyNewDecFromStr D raw = Some x" "x \<noteq> 0" and pos: "0 < q" "0 < r"
  shows "\<exists>s' p. fm_AfterOracleEnd D raw s = Ok s' \<and> fm_GetParams s' = (fm_GetParams s)\<lparr>MinGasPrice := Some p\<rparr> \<and>
    p \<le> q + DecMul D q r \<and> q - DecMul D q r - dec_one < p \<and> (r \<le> dec_one \<longrightarrow> fm_ok s')"
proof -
  let ?m = "DecMul D q r" and ?c = "DecTruncateInt D (DecQuo D a x)"
  define n where "n = (if r = 0 \<or> q = 0 then ?c else if q + ?m < ?c * dec_one then DecTruncateInt D (q + ?m)
    else if ?c * dec_one < q - ?m then DecTruncateInt D (q - ?m) else ?c)"
  have m: "0 \<le> ?m" using pos dec_mul_nonneg [of q r] by simp
  have lo: "DecTruncateInt D (q - ?m) * dec_one \<le> q + ?m"
    using pos m truncate_near(3,4) [of "q - ?m"] by (cases "?m \<le> q") linarith+
  consider "n = DecTruncateInt D (q + ?m)" | "n = DecTruncateInt D (q - ?m)"
    | "n = ?c" "\<not> q + ?m < ?c * dec_one" "\<not> ?c * dec_one < q - ?m"
    using pos n_def by (metis less_irrefl)
  then have n_le: "n * dec_one \<le> q + ?m" and n_gt: "q - ?m - dec_one < n * dec_one"
    by (cases; use pos m lo truncate_near(1,3) [of "q + ?m"] truncate_near(1) [of "q - ?m"] in linarith)+
  have n0: "0 \<le> n" if "r \<le> dec_one"
    using pos m n_gt dec_mul_rate_le [OF _ that, of q] truncate_near(1) [of "q - ?m"] by linarith
  let ?p = "(fm_GetParams s)\<lparr>MinGasPrice := Some (n * dec_one)\<rparr>"
  let ?s = "(fm_SetParams ?p s)\<lparr>fm_events := fm_events s @ [ChangeMinGasPrice n]\<rparr>"
  have g: "fm_GetParams ?s = ?p" using ok p by (auto simp: fm_ok_def fm_Validate_iff)
  have "r \<le> dec_one \<longrightarrow> fm_ok ?s" using ok p n0 unfolding fm_ok_def fm_Validate_iff g by auto
  with AfterOracleEnd_sets [OF p x refl refl n_def] g n_le n_gt show ?thesis by blast
qed

lemma dec_quo_negative:
  assumes "x < 0" and "2 * - x \<le> a"
  shows "DecTruncateInt D (DecQuo D a x) < 0"
proof -
  let ?q = "DecQuo D a x"
  have "\<bar>?q * x - a * dec_one\<bar> \<le> - x" using dec_quo_near [of x a] assms by simp
  then have "a * dec_one + x \<le> ?q * x" by linarith
  then have "(2 * dec_one - 1) * - x \<le> - ?q * - x" using assms(2) by (simp add: algebra_simps)
  then have "2 * dec_one - 1 \<le> - ?q" using assms(1) by (subst (asm) mult_le_cancel_right) auto
  then show ?thesis using truncate_near(2) [of ?q] by linarith
qed

end

section \<open>The end of a block\<close>

lemma fm_ok_new_base:
  assumes "fm_ok s" and "0 \<le> f"
  shows "fm_ok (fm_SetBaseFee (Some f) s)"
    and "fm_GetParams (fm_SetBaseFee (Some f) s) = (fm_GetParams s)\<lparr>BaseFee := Some f\<rparr>"
  using assms by (auto simp: fm_ok_def fm_Validate_iff fm_SetBaseFee_def)

lemma fm_ok_frame [simp]:
  "fm_ok (s\<lparr>fm_events := e\<rparr>) = fm_ok s" "fm_ok (SetBlockGasWanted g s) = fm_ok s"
  by (simp_all add: fm_ok_def)

lemma new_gas:
  "GetBlockGasWanted ((SetBlockGasWanted w s)\<lparr>fm_events := ev\<rparr>) = w"
  "GetBlockGasWanted ((fm_SetBaseFee f (SetBlockGasWanted w s))\<lparr>fm_events := ev\<rparr>) = w"
  by (simp_all add: GetBlockGasWanted_def SetBlockGasWanted_def fm_SetBaseFee_def fm_SetParams_def)

context legacy_dec
begin

lemma CalculateBaseFee_total:
  assumes "fm_ok s" and "max_gas_int64 b"
  obtains "CalculateBaseFee D b s = Ok None" | f where "CalculateBaseFee D b s = Ok (Some f)" and "0 \<le> f"
proof -
  obtain f q where p: "BaseFee (fm_GetParams s) = Some f" "0 \<le> f" "MinGasPrice (fm_GetParams s) = Some q" "0 \<le> q"
    using assms by (auto simp: fm_ok_def fm_Validate_iff)
  consider "\<not> IsBaseFeeEnabled (fm_height b) (fm_GetParams s)"
    | "IsBaseFeeEnabled (fm_height b) (fm_GetParams s)" "fm_height b = EnableHeight (fm_GetParams s)"
    | "IsBaseFeeEnabled (fm_height b) (fm_GetParams s)" "fm_height b \<noteq> EnableHeight (fm_GetParams s)" by blast
  then show thesis
  proof cases
    case 3
    then show thesis
      using CalculateBaseFee_cases [OF _ assms(2) 3 p(1,3) refl refl refl] assms(1) p(2,4) that(2)
      by (auto simp: fm_ok_def max_def split: if_splits)
  next
    case 2
    then show thesis using p that(2) by (simp add: CalculateBaseFee_def Let_def)
  qed (use that(1) in \<open>simp add: CalculateBaseFee_def\<close>)
qed

lemma EndBlock_valid:
  assumes ok: "fm_ok s" and g: "max_gas_int64 b" and c: "fm_gas_meter b = Some c" "uint c < 2 ^ 63"
    and w: "uint (GetTransientGasWanted s) < 2 ^ 63" and m: "MinGasMultiplier (fm_GetParams s) = Some m"
  shows "\<exists>s' f. fm_EndBlock D b s = Ok s' \<and> fm_ok s' \<and> fm_GetParams s' = (fm_GetParams s)\<lparr>BaseFee := f\<rparr> \<and>
    uint (GetBlockGasWanted s') = max (uint (GetTransientGasWanted s) * m div dec_one) (uint c)"
proof -
  let ?w = "uint (GetTransientGasWanted s)" and ?c = "uint c"
  let ?g = "max (?w * m div dec_one) ?c"
  have mr: "0 \<le> m" "m \<le> dec_one" using ok m by (auto simp: fm_ok_def fm_Validate_iff)
  have t: "DecTruncateInt D (max (DecMul D (LegacyNewDec D ?w) m) (LegacyNewDec D ?c)) = ?g"
    using mr dec_mul_int_le(2) [of ?w m] by (simp add: dec_new dec_truncate max_def) linarith
  have "?w * m \<le> ?w * dec_one" using mr by (intro mult_left_mono) auto
  then have g64: "0 \<le> ?g" "?g < 2 ^ 64" using c w by (simp_all add: le_max_iff_disj)
  then have u: "uint (word_of_int ?g :: uint64) = ?g" by (simp add: take_bit_int_eq_self uint_word_of_int_eq)
  let ?s = "SetBlockGasWanted (word_of_int ?g) s"
  have e: "fm_EndBlock D b s = bind_res (CalculateBaseFee D b ?s) (\<lambda>nextBaseFee.
      let s = (case nextBaseFee of None \<Rightarrow> ?s
               | Some f \<Rightarrow> (fm_SetBaseFee (Some f) ?s)\<lparr>fm_events := fm_events ?s @ [FeeMarketEvent f (fm_height b)]\<rparr>) in
      Ok (s\<lparr>fm_events := fm_events s @ [BlockGasEvent (fm_height b) (word_of_int ?g)]\<rparr>))"
    using c w m t g64 by (simp add: fm_EndBlock_def Let_def require_def dec_val_def int_Uint64_def)
  show ?thesis
  proof (rule CalculateBaseFee_total [OF _ g, of ?s])
    show "fm_ok ?s" using ok by simp
  next
    assume n: "CalculateBaseFee D b ?s = Ok None"
    let ?s' = "?s\<lparr>fm_events := fm_events ?s @ [BlockGasEvent (fm_height b) (word_of_int ?g)]\<rparr>"
    have "fm_EndBlock D b s = Ok ?s'" using e n by (simp add: Let_def)
    moreover have "fm_ok ?s'" using ok by simp
    moreover have "fm_GetParams ?s' = (fm_GetParams s)\<lparr>BaseFee := BaseFee (fm_GetParams s)\<rparr>" by simp
    moreover have "uint (GetBlockGasWanted ?s') = ?g" using u by (simp only: new_gas)
    ultimately show ?thesis by blast
  next
    fix f assume f: "CalculateBaseFee D b ?s = Ok (Some f)" "0 \<le> f"
    let ?b = "fm_SetBaseFee (Some f) ?s"
    let ?s' = "?b\<lparr>fm_events := fm_events ?s @ [FeeMarketEvent f (fm_height b), BlockGasEvent (fm_height b) (word_of_int ?g)]\<rparr>"
    note nb = fm_ok_new_base [OF _ f(2), of ?s]
    have "fm_EndBlock D b s = Ok ?s'" using e f by (simp add: Let_def)
    moreover have "fm_ok ?s'" using ok nb(1) by simp
    moreover have "fm_GetParams ?s' = (fm_GetParams s)\<lparr>BaseFee := Some f\<rparr>" using ok nb(2) by simp
    moreover have "uint (GetBlockGasWanted ?s') = ?g" using u by (simp only: new_gas)
    ultimately show ?thesis by blast
  qed
qed

end

section \<open>A reference state\<close>

text \<open>The default parameters with a minimum gas price, an adjustment factor of 4 and a change rate of one tenth, in a block that used 20 of 30 gas.\<close>

definition ref_fm :: "dec \<Rightarrow> fm_state" where
  "ref_fm price =
     \<lparr>fm_params = Some ((fm_DefaultParams 8 2)\<lparr>MinGasPrice := Some price, GasPriceAdjustmentFactor := Some (4 * dec_one),
        MaxChangeRate := Some (dec_one div 10)\<rparr>),
      blockGasWanted = 20, transientGasWanted = 25, fm_events = []\<rparr>"

definition ref_fm_block :: fm_block where
  "ref_fm_block = \<lparr>fm_height = 7, fm_gas_meter = Some 20, fm_max_gas = Some 30\<rparr>"

lemma ref_fm_params [simp]:
  "fm_GetParams (ref_fm price) =
     \<lparr>NoBaseFee = False, BaseFeeChangeDenominator = 8, ElasticityMultiplier = 2, EnableHeight = 0,
      BaseFee = Some (1000000000 * dec_one), MinGasPrice = Some price, MinGasMultiplier = Some (dec_one div 2),
      GasPriceAdjustmentFactor = Some (4 * dec_one), MaxChangeRate = Some (dec_one div 10)\<rparr>"
  "GetBlockGasWanted (ref_fm price) = 20" "GetTransientGasWanted (ref_fm price) = 25"
  by (simp_all add: GetBlockGasWanted_def GetTransientGasWanted_def ref_fm_def fm_GetParams_def fm_DefaultParams_def)

lemma ref_fm_ok: "0 \<le> price \<Longrightarrow> fm_ok (ref_fm price)"
  by (simp add: fm_ok_def fm_Validate_iff)

lemma ref_fm_block_ok:
  "max_gas_int64 ref_fm_block" "gas_target ref_fm_block (fm_GetParams (ref_fm price)) = 15"
  by (simp_all add: ref_fm_block_def max_gas_int64_def gas_target_def)

section \<open>Properties\<close>

text \<open>
  C29. Under parameters that validate, the next base fee exists and moves as EIP-1559 says: it stays when the
  block used its gas target, rises by at least one unit of the coin and otherwise by no more than the
  share \<open>(used - target) / (target * denominator)\<close> of itself when the block used more, and falls by at
  most the share \<open>1 / denominator\<close>, never below the minimum gas price, when it used less.
\<close>

theorem CalculateBaseFee_bounds:
  assumes "legacy_dec D" and "is_ok (fm_Validate (fm_GetParams s))" and "max_gas_int64 b"
    and "IsBaseFeeEnabled (fm_height b) (fm_GetParams s)" and "fm_height b \<noteq> EnableHeight (fm_GetParams s)"
    and "BaseFee (fm_GetParams s) = Some f" and "MinGasPrice (fm_GetParams s) = Some q"
    and "t = gas_target b (fm_GetParams s)" and "0 < t" and "u = uint (GetBlockGasWanted s)"
    and "d = uint (BaseFeeChangeDenominator (fm_GetParams s))"
  shows "\<exists>f'. CalculateBaseFee D b s = Ok (Some f') \<and>
    (u = t \<longrightarrow> f' = f) \<and>
    (t < u \<longrightarrow> f + dec_one \<le> f' \<and> (f' = f + dec_one \<or> (f' - f) * (t * d) \<le> f * (u - t))) \<and>
    (u < t \<longrightarrow> q \<le> f' \<and> f - f div d \<le> f' \<and> f' \<le> max f q)"
proof -
  have f: "0 \<le> f" and d: "0 < d" using assms by (auto simp: fm_Validate_iff uint_0_iff order_less_le)
  have u: "0 \<le> u" using assms(10) by simp
  note e = legacy_dec.CalculateBaseFee_cases [OF assms(1-8,10,11)]
  consider "u = t" | "t < u" | "u < t" by linarith
  then show ?thesis
  proof cases
    case 2
    then show ?thesis
      using e scaled_change [OF f _ \<open>0 < t\<close> d, of "u - t"] \<open>0 < t\<close> by (auto simp: max_def)
  next
    case 3
    then show ?thesis
      using e scaled_change [OF f _ \<open>0 < t\<close> d, of "t - u"] u by (auto simp: max_def)
  qed (use e in simp)
qed

theorem CalculateBaseFee_bounds_witness:
  "\<exists>f'. CalculateBaseFee ref_dec ref_fm_block (ref_fm 0) = Ok (Some f') \<and> 1000000001 * dec_one \<le> f'"
proof -
  have 1: "is_ok (fm_Validate (fm_GetParams (ref_fm 0)))" using ref_fm_ok [of 0] by (simp only: fm_ok_def)
  have 2: "IsBaseFeeEnabled (fm_height ref_fm_block) (fm_GetParams (ref_fm 0))"
    "fm_height ref_fm_block \<noteq> EnableHeight (fm_GetParams (ref_fm 0))"
    by (simp_all add: IsBaseFeeEnabled_def ref_fm_block_def)
  have 3: "BaseFee (fm_GetParams (ref_fm 0)) = Some (1000000000 * dec_one)" "MinGasPrice (fm_GetParams (ref_fm 0)) = Some 0"
    "(20::int) = uint (GetBlockGasWanted (ref_fm 0))" "(8::int) = uint (BaseFeeChangeDenominator (fm_GetParams (ref_fm 0)))"
    by simp_all
  obtain f' where "CalculateBaseFee ref_dec ref_fm_block (ref_fm 0) = Ok (Some f')"
    "1000000000 * dec_one + dec_one \<le> f'"
    using CalculateBaseFee_bounds [OF rd.legacy_dec_axioms 1 ref_fm_block_ok(1) 2 3(1,2) ref_fm_block_ok(2) [symmetric] _ 3(3,4)]
    by auto
  then show ?thesis by auto
qed

text \<open>
  C31. What a report of the oracle does to the minimum gas price, on valid parameters with a maximum change rate that is not negative (which
  the validation does not check): the hook never fails. It changes nothing when the
  adjustment factor is zero or the report is zero or no number. Otherwise, while the price and the maximum change rate are both positive,
  the new price lies within the rate of the old one (rounded to whole units), and with a rate of at most one the parameters stay valid;
  while one of them is zero, the new price is the adjustment factor over the report, cut to whole units, with no bound.
\<close>

theorem AfterOracleEnd_bounded:
  assumes "legacy_dec D" and "fm_ok s" and "GasPriceAdjustmentFactor (fm_GetParams s) = Some a"
    and "MinGasPrice (fm_GetParams s) = Some q" and "MaxChangeRate (fm_GetParams s) = Some r" and "0 \<le> r"
  shows "\<exists>s'. fm_AfterOracleEnd D raw s = Ok s' \<and>
    (case LegacyNewDecFromStr D raw of
       None \<Rightarrow> s' = s
     | Some x \<Rightarrow>
         if a = 0 \<or> x = 0 then s' = s
         else \<exists>p. fm_GetParams s' = (fm_GetParams s)\<lparr>MinGasPrice := Some p\<rparr> \<and>
           (if q = 0 \<or> r = 0 then p = DecTruncateInt D (DecQuo D a x) * dec_one
            else 0 < q \<and> 0 < r \<and> p \<le> q + DecMul D q r \<and> q - DecMul D q r - dec_one < p \<and> (r \<le> dec_one \<longrightarrow> fm_ok s')))"
proof (cases "\<exists>x. LegacyNewDecFromStr D raw = Some x \<and> a \<noteq> 0 \<and> x \<noteq> 0")
  case False
  then have "fm_AfterOracleEnd D raw s = Ok s"
    using assms(3) by (auto simp: fm_AfterOracleEnd_def dec_val_def Let_def split: option.split)
  then show ?thesis using False by (auto split: option.split)
next
  case True
  then obtain x where x: "LegacyNewDecFromStr D raw = Some x" "a \<noteq> 0" "x \<noteq> 0" by blast
  have pos: "0 \<le> q" using assms(2,4) by (auto simp: fm_ok_def fm_Validate_iff)
  show ?thesis
  proof (cases "q = 0 \<or> r = 0")
    case False
    then show ?thesis using legacy_dec.AfterOracleEnd_within [OF assms(1-3,5,4) x(2,1,3)] pos assms(6) x by auto
  next
    case True
    let ?n = "DecTruncateInt D (DecQuo D a x)"
    let ?p = "(fm_GetParams s)\<lparr>MinGasPrice := Some (?n * dec_one)\<rparr>"
    let ?s = "(fm_SetParams ?p s)\<lparr>fm_events := fm_events s @ [ChangeMinGasPrice ?n]\<rparr>"
    have "fm_AfterOracleEnd D raw s = Ok ?s"
      by (rule legacy_dec.AfterOracleEnd_sets [OF assms(1,3,5,4) x(2,1,3) refl refl]) (use True in auto)
    moreover have "fm_GetParams ?s = ?p" using assms(2-5) by (auto simp: fm_ok_def fm_Validate_iff)
    ultimately show ?thesis using True x by auto
  qed
qed

theorem AfterOracleEnd_bounded_witness:
  "(\<exists>s' p. fm_AfterOracleEnd ref_dec ''2'' (ref_fm (10 * dec_one)) = Ok s' \<and> MinGasPrice (fm_GetParams s') = Some p \<and>
     p \<le> 11 * dec_one \<and> 8 * dec_one < p \<and> fm_ok s') \<and>
   (\<exists>s'. fm_AfterOracleEnd ref_dec ''2'' (ref_fm 0) = Ok s' \<and> MinGasPrice (fm_GetParams s') = Some (2 * dec_one))"
proof -
  have x: "LegacyNewDecFromStr ref_dec ''2'' = Some (2 * dec_one)"
    by (simp add: ref_dec_def ref_dec_of_string_def)
  have m: "DecMul ref_dec (10 * dec_one) (dec_one div 10) = dec_one" "DecTruncateInt ref_dec (DecQuo ref_dec (4 * dec_one) (2 * dec_one)) = 2"
    by (simp_all add: ref_dec_def round_half_even_def Let_def)
  note bounded = AfterOracleEnd_bounded [OF rd.legacy_dec_axioms ref_fm_ok, where a = "4 * dec_one" and r = "dec_one div 10" and raw = "''2''"]
  show ?thesis
    using bounded [of "10 * dec_one" "10 * dec_one"] bounded [of 0 0] x m by auto
qed

text \<open>
  Nothing bounds the oracle while the minimum gas price is zero, its default: a negative report
  of at most half the adjustment factor in size stores a negative minimum gas price, which \<^verbatim>\<open>Validate\<close> rejects.
\<close>

lemma AfterOracleEnd_negative_price:
  assumes "legacy_dec D" and "fm_ok s" and "GasPriceAdjustmentFactor (fm_GetParams s) = Some a"
    and "MinGasPrice (fm_GetParams s) = Some 0"
    and "LegacyNewDecFromStr D raw = Some x" and "x < 0" and "2 * - x \<le> a"
  shows "\<exists>s' p. fm_AfterOracleEnd D raw s = Ok s' \<and> MinGasPrice (fm_GetParams s') = Some p \<and> p < 0 \<and>
    \<not> is_ok (fm_Validate (fm_GetParams s'))"
proof -
  obtain r where r: "MaxChangeRate (fm_GetParams s) = Some r" using assms(2) by (auto simp: fm_ok_def)
  have n: "DecTruncateInt D (DecQuo D a x) < 0" using legacy_dec.dec_quo_negative assms by blast
  show ?thesis
    using legacy_dec.AfterOracleEnd_sets [OF assms(1,3) r assms(4) _ assms(5) _ refl refl refl] assms n
    by (auto simp: fm_Validate_iff)
qed

text \<open>
  C30. The end of a block keeps the parameters valid and never fails: with a block gas meter and gas amounts in the
  signed 64-bit range it stores, as the gas of the block, the larger of the gas used and the wanted gas times the
  minimum gas multiplier, and changes no parameter but the base fee.
\<close>

theorem EndBlock_keeps_valid:
  assumes "legacy_dec D" and "fm_ok s" and "max_gas_int64 b" and "fm_gas_meter b = Some c"
    and "uint c < 2 ^ 63" and "uint (GetTransientGasWanted s) < 2 ^ 63" and "MinGasMultiplier (fm_GetParams s) = Some m"
  shows "\<exists>s' f. fm_EndBlock D b s = Ok s' \<and> fm_ok s' \<and> fm_GetParams s' = (fm_GetParams s)\<lparr>BaseFee := f\<rparr> \<and>
    uint (GetBlockGasWanted s') = max (uint (GetTransientGasWanted s) * m div dec_one) (uint c)"
  using assms legacy_dec.EndBlock_valid by blast

theorem EndBlock_keeps_valid_witness:
  "\<exists>s'. fm_EndBlock ref_dec ref_fm_block (ref_fm 0) = Ok s' \<and> fm_ok s' \<and> uint (GetBlockGasWanted s') = 20"
  using EndBlock_keeps_valid [OF rd.legacy_dec_axioms ref_fm_ok [of 0] ref_fm_block_ok(1), of 20 "dec_one div 2"]
  by (auto simp: ref_fm_block_def)

end
