(* ===== verification/CosmosAnteProps.thy ===== *)
theory CosmosAnteProps
  imports CosmosAnte FeeMarketProps
begin

text \<open>
  The properties of fee discounts and of the checks on Cosmos transactions.
\<close>

section \<open>Nested authorizations\<close>

text \<open>\<open>blocked dis inner m\<close>: the message holds a disabled type at a place where it is not allowed, at any depth.\<close>

fun blocked :: "string list \<Rightarrow> bool \<Rightarrow> amsg \<Rightarrow> bool" where
  "blocked dis inner (MsgExec ms) = list_ex (blocked dis True) ms"
| "blocked dis inner MsgExecBad = True"
| "blocked dis inner (MsgGrant a) = (case a of None \<Rightarrow> True | Some url \<Rightarrow> url \<in> set dis)"
| "blocked dis inner (OtherMsg url) = (inner \<and> url \<in> set dis)"

fun exec_depth :: "amsg \<Rightarrow> nat" where
  "exec_depth (MsgExec ms) = Suc (fold max (map exec_depth ms) 0)"
| "exec_depth m = 0"

lemma fold_max_le: "fold max xs (a::nat) \<le> b \<longleftrightarrow> a \<le> b \<and> (\<forall>x \<in> set xs. x \<le> b)"
  by (induction xs arbitrary: a) auto

lemma check_loop_sound:
  "check_loop dis msgs inner lvl = Ok () \<Longrightarrow> lvl < maxNestedMsgs \<Longrightarrow>
     (\<forall>m \<in> set msgs. \<not> blocked dis inner m \<and> lvl + exec_depth m < maxNestedMsgs)"
proof (induction dis msgs inner lvl rule: check_loop.induct)
  case (2 dis innerMsgs msgs inner lvl)
  then have lt: "Suc lvl < maxNestedMsgs" and i: "check_loop dis innerMsgs True (Suc lvl) = Ok ()"
    and r: "check_loop dis msgs inner (Suc lvl) = Ok ()"
    by (auto simp: res_simps split: if_splits)
  have "\<forall>m \<in> set innerMsgs. \<not> blocked dis True m \<and> Suc lvl + exec_depth m < maxNestedMsgs"
    using "2.IH"(1) i lt by simp
  moreover have "\<forall>m \<in> set msgs. \<not> blocked dis inner m \<and> Suc lvl + exec_depth m < maxNestedMsgs"
    using "2.IH"(2) r lt i by simp
  moreover have "fold max (map exec_depth innerMsgs) 0 \<le> maxNestedMsgs - Suc (Suc lvl)"
    using calculation(1) lt by (auto simp: fold_max_le)
  ultimately show ?case using lt by (auto simp: list_ex_iff)
qed (auto simp: isDisabledMsg_def list_ex_iff split: if_splits option.splits)

section \<open>Discounts\<close>

lemma index_of_None [simp]: "index_of p xs = None \<longleftrightarrow> (\<forall>x \<in> set xs. \<not> p x)"
  by (induction xs) auto

section \<open>The fee of a Cosmos transaction\<close>

text \<open>The SDK's coins and decimals, with a fee denomination they accept.\<close>

locale fee_laws = fsc: sdk_coins "fe_sdk E" + fld: legacy_dec "fe_dec E"
  for E :: "('c, 'acc) fee_env" +
  assumes fee_denom: "ValidateDenom (fe_sdk E) (Denom (fe_coin E))"
begin

abbreviation "D \<equiv> fe_dec E"
abbreviation "S \<equiv> fe_sdk E"
abbreviation "denom \<equiv> Denom (fe_coin E)"

lemma ceil_round:
  "x \<le> DecRoundInt D (DecCeil D x) * dec_one" "DecRoundInt D (DecCeil D x) * dec_one < x + dec_one"
  "x \<le> n * dec_one \<Longrightarrow> DecRoundInt D (DecCeil D x) \<le> n"
proof -
  have e: "DecRoundInt D (DecCeil D x) = - (- x div dec_one)" by (simp only: fld.dec_ceil fld.dec_round)
  show "x \<le> DecRoundInt D (DecCeil D x) * dec_one" "DecRoundInt D (DecCeil D x) * dec_one < x + dec_one"
    "x \<le> n * dec_one \<Longrightarrow> DecRoundInt D (DecCeil D x) \<le> n"
    unfolding e by linarith+
qed

lemma ceil_round_mono: "x \<le> y \<Longrightarrow> DecRoundInt D (DecCeil D x) \<le> DecRoundInt D (DecCeil D y)"
  by (meson ceil_round order_trans)

lemma discountMultiplier_near: "\<bar>100 * discountMultiplier D p - (100 * dec_one - p)\<bar> \<le> 50"
proof -
  let ?m = "discountMultiplier D p"
  have "2 * dec_one * \<bar>?m * (100 * dec_one) - (100 * dec_one - p) * dec_one\<bar> \<le> (dec_one + 2) * \<bar>100 * dec_one\<bar>"
    using fld.dec_quo_near [of "100 * dec_one" "100 * dec_one - p"]
    by (simp add: discountMultiplier_def fld.dec_sub fld.dec_new)
  moreover have "?m * (100 * dec_one) - (100 * dec_one - p) * dec_one = dec_one * (100 * ?m - (100 * dec_one - p))"
    by (simp add: algebra_simps)
  ultimately show ?thesis by (simp add: abs_mult)
qed

lemma discountMultiplier_range:
  assumes "0 < p" and "p \<le> 100 * dec_one"
  shows "0 \<le> discountMultiplier D p" and "discountMultiplier D p \<le> dec_one"
  using assms discountMultiplier_near [of p] by linarith+

lemma discounted_one:
  assumes "0 \<le> a" and "0 \<le> m" and "m = discountMultiplier D p"
  shows "\<exists>cs. percent_loop E p [(denom, a)] = Ok cs \<and> IsValid S cs \<and>
    (\<forall>d. AmountOf S cs d = (if d = denom then a * m div dec_one else 0))"
proof -
  have t: "DecTruncateInt D (DecMul D (LegacyNewDec D a) m) = a * m div dec_one"
    using assms fld.dec_mul_exact [of "a * dec_one" m "a * m"] by (simp add: fld.dec_new fld.dec_truncate)
  have nn: "0 \<le> a * m div dec_one" using assms by (simp add: pos_imp_zdiv_nonneg_iff)
  let ?c = "a * m div dec_one"
  have l: "percent_loop E p [(denom, a)] = Ok (CoinsAdd S [] [(denom, ?c)])"
    using t nn fsc.new_coin [OF fee_denom nn] by (simp add: percent_loop_def assms(3))
  show ?thesis
  proof (cases "?c = 0")
    case True
    with l show ?thesis using fsc.add_zero [OF fsc.valid_nil] fsc.valid_nil by (simp add: fsc.amount_nil)
  next
    case False
    with nn have "IsValid S [(denom, ?c)]" using fsc.is_valid_one [OF fee_denom] by simp
    with l show ?thesis using fsc.add_amount [OF fsc.valid_nil] by (simp add: fsc.amount_nil fsc.amount_one)
  qed
qed

lemma FeeChecker_shape:
  assumes ok: "FeeChecker E c tx = Ok (fee, tips, priority)" and london: "IsLondon E (fe_height E c)"
    and base: "\<And>f. fm_GetBaseFee (fe_market E c) = Some f \<Longrightarrow> 0 \<le> f" and pos: "0 \<le> AmountOf S (GetFee tx) denom"
  obtains F T where "fee = [(denom, F)]" and "tips = [(denom, T)]" and "0 \<le> T" and "T \<le> F"
    and "F \<le> AmountOf S (GetFee tx) denom"
proof -
  define b where "b = (case fm_GetBaseFee (fe_market E c) of None \<Rightarrow> 0 | Some f \<Rightarrow> f)"
  define g where "g = uint (GetGas tx)"
  define cap where "cap = DecQuoInt D (LegacyNewDec D (AmountOf S (GetFee tx) denom)) g"
  define tip where "tip = first_priority_price (ExtensionOptions tx) (LegacyNewDec D MaxInt64)"
  define e where "e = effectiveGasPriceLegacyDec D b cap tip"
  define F where "F = DecRoundInt D (DecCeil D (e * g))"
  define T0 where "T0 = DecRoundInt D (DecCeil D ((e - b) * g))"
  have b0: "0 \<le> b" using base by (auto simp: b_def split: option.splits)
  have g: "0 < g" and bc: "b \<le> cap" and t0: "0 \<le> tip"
    and fee: "fee = [(denom, F)]" and tips: "tips = [(denom, if T0 = F then 0 else T0)]"
    using ok london unfolding FeeChecker_def Let_def
    by (auto simp: res_simps fld.dec_mul_int fld.dec_sub b_def g_def cap_def tip_def e_def F_def T0_def uint_0_iff
        order_less_le split: if_splits)
  have eb: "b \<le> e" "e \<le> cap" using bc t0 by (auto simp: e_def effectiveGasPriceLegacyDec_def fld.dec_add min_def)
  have cg: "cap * g \<le> AmountOf S (GetFee tx) denom * dec_one"
    using g pos div_mult_le_int [OF g] by (simp add: cap_def fld.dec_quo_int fld.dec_new)
  have "e * g \<le> cap * g" using eb g by (intro mult_right_mono) auto
  then have F_le: "F \<le> AmountOf S (GetFee tx) denom" unfolding F_def using cg by (intro ceil_round(3)) linarith
  have "(e - b) * g \<le> e * g" using b0 g by (intro mult_right_mono) auto
  then have TF: "T0 \<le> F" unfolding F_def T0_def by (rule ceil_round_mono)
  have "0 \<le> (e - b) * g" using eb g by simp
  then have T0: "0 \<le> T0" using ceil_round(1) [of "(e - b) * g"] unfolding T0_def by linarith
  show ?thesis
    using T0 TF F_le by (intro that [OF fee tips]) (auto split: if_splits)
qed


lemma DeductFee_dynamic:
  assumes ok: "DynamicFeeChecker E c (Some tx) = Ok ([(denom, F)], [(denom, T)], priority)"
    and T: "0 \<le> T" "T \<le> F" and h: "0 < fe_height E c" "GetGas tx \<noteq> 0"
    and who: "BytesToString E (FeePayer tx) = Ok payer" "FeeGranter tx = None"
    and disc: "GetDiscount (moduleKeepers E) (MsgTypeURL E) (fe_policy E c) payer (GetMsgs tx) = discount"
      "DiscountType discount = FeeDiscountTypePercent" "Amount discount = Some p"
  shows "DeductFee_AnteHandle E (DynamicFeeChecker E) (Some tx) False next_handler c =
    bind_res (if F = T then Ok [] else percent_loop E p [(denom, F - T)]) (\<lambda>deducted.
    bind_res (checkDeductFee E tx (CoinsAdd S deducted [(denom, T)]) c) (next_handler priority))"
proof -
  have "CoinsSub S [(denom, F)] [(denom, T)] = Ok (if F = T then [] else [(denom, F - T)])"
    by (rule fsc.sub_one [OF fee_denom T])
  then show ?thesis
    using ok h who disc
    by (auto simp: DeductFee_AnteHandle_def require_def discounted_fee_def dec_val_def Let_def)
qed

lemma add_tip:
  assumes "IsValid S cs" and "0 \<le> T"
  shows "AmountOf S (CoinsAdd S cs [(denom, T)]) d = AmountOf S cs d + (if d = denom then T else 0)"
proof (cases "T = 0")
  case False
  with assms have "IsValid S [(denom, T)]" using fsc.is_valid_one [OF fee_denom] by simp
  with assms show ?thesis using fsc.add_amount by (simp add: fsc.amount_one)
qed (use assms fsc.add_zero in simp)

lemma percent_charge:
  assumes ok: "DynamicFeeChecker E c (Some tx) = Ok ([(denom, F)], [(denom, T)], priority)"
    and T: "0 \<le> T" "T \<le> F" and h: "0 < fe_height E c" "GetGas tx \<noteq> 0"
    and who: "BytesToString E (FeePayer tx) = Ok payer" "FeeGranter tx = None"
    and disc: "GetDiscount (moduleKeepers E) (MsgTypeURL E) (fe_policy E c) payer (GetMsgs tx) = discount"
      "DiscountType discount = FeeDiscountTypePercent" "Amount discount = Some p" and p: "0 < p" "p \<le> 100 * dec_one"
  shows "\<exists>charged. DeductFee_AnteHandle E (DynamicFeeChecker E) (Some tx) False next_handler c =
      bind_res (checkDeductFee E tx charged c) (next_handler priority) \<and>
    (\<forall>d. AmountOf S charged d = (if d = denom then (F - T) * discountMultiplier D p div dec_one + T else 0))"
proof (cases "F = T")
  case True
  with T have "AmountOf S (CoinsAdd S [] [(denom, T)]) d = (if d = denom then T else 0)" for d
    using add_tip [OF fsc.valid_nil] by (simp add: fsc.amount_nil)
  with DeductFee_dynamic [OF ok T h who disc] True show ?thesis by auto
next
  case False
  obtain cs where cs: "percent_loop E p [(denom, F - T)] = Ok cs" "IsValid S cs"
    "\<forall>d. AmountOf S cs d = (if d = denom then (F - T) * discountMultiplier D p div dec_one else 0)"
    using discounted_one [of "F - T" _ p] T discountMultiplier_range(1) [OF p] by auto
  have "AmountOf S (CoinsAdd S cs [(denom, T)]) d =
      (if d = denom then (F - T) * discountMultiplier D p div dec_one + T else 0)" for d
    using add_tip [OF cs(2) T(1)] cs(3) by simp
  with DeductFee_dynamic [OF ok T h who disc] False cs(1) show ?thesis by auto
qed

lemma percent_loop_negative:
  assumes "200 * dec_one \<le> p" and "0 < a"
  shows "\<exists>e. percent_loop E p [(denom, a)] = Panic e"
proof -
  let ?m = "discountMultiplier D p"
  have "?m \<le> - dec_one" using assms(1) discountMultiplier_near [of p] by linarith
  with assms(2) have "a * ?m \<le> a * - dec_one" by (intro mult_left_mono) auto
  then have "DecTruncateInt D (DecMul D (LegacyNewDec D a) ?m) * dec_one < - a * dec_one + dec_one"
    using fld.dec_mul_exact [of "a * dec_one" ?m "a * ?m"] fld.truncate_near(2) [of "a * ?m"] by (simp add: fld.dec_new)
  with assms(2) have "DecTruncateInt D (DecMul D (LegacyNewDec D a) ?m) < 0" by linarith
  from fsc.new_coin_neg [OF this, of denom] show ?thesis by (auto simp: percent_loop_def)
qed

lemma negative_price_rejects:
  assumes "MinGasPrice (fm_GetParams (fe_market E c)) = Some q" and "q < 0"
  shows "\<exists>e. MinGasPrice_AnteHandle E (Some tx) False next_handler c = Fail e"
proof -
  let ?g = "uint (GetGas tx)"
  have "DecMul D q (LegacyNewDec D ?g) = q * ?g" using fld.dec_mul_exact [of q "?g * dec_one" "q * ?g"] by (simp add: fld.dec_new)
  moreover have "q * ?g \<le> 0 * dec_one" using assms(2) by (simp add: mult_nonpos_nonneg)
  ultimately have "DecRoundInt D (DecCeil D (DecMul D q (LegacyNewDec D ?g))) \<le> 0" using ceil_round(3) by metis
  moreover have "\<not> IsAnyGTE S cs []" for cs using fsc.any_gte [OF fsc.valid_nil] by auto
  ultimately show ?thesis
    using assms by (auto simp: MinGasPrice_AnteHandle_def Let_def dec_val_def require_def)
qed

end

section \<open>Removing a discount\<close>

lemma index_of_snoc:
  "\<forall>x \<in> set xs. \<not> p x \<Longrightarrow> index_of p (xs @ [y]) = (if p y then Some (length xs) else None)"
  by (induction xs) auto

lemma shift_out_only_last:
  assumes "\<forall>x \<in> set (butlast xs). \<not> p x" and "index_of p xs = Some j"
  shows "shift_out j xs = xs"
proof (cases xs rule: rev_cases)
  case (snoc ys y)
  with assms have "j = length ys" by (auto simp: index_of_snoc split: if_splits)
  with snoc show ?thesis by (simp add: shift_out_def)
qed (use assms in simp)

text \<open>What every stored discount is: under its own address, with no nil amount left.\<close>

definition fp_stored :: "fp_state \<Rightarrow> bool" where
  "fp_stored s \<longleftrightarrow> (\<forall>a d. GetAccountDiscounts s a = Some d \<longrightarrow> Address d = a \<and> marshal_account d = d)"

lemma DeleteMsgType_only_last:
  assumes "fp_stored s" and "GetAccountDiscounts s a = Some acc"
    and "\<forall>m \<in> set (Modules acc). \<forall>d \<in> set (butlast (Discounts m)). MsgType d \<noteq> t"
  shows "GetAccountDiscounts (DeleteMsgTypeDiscounts a t s) = GetAccountDiscounts s"
proof -
  have "(case index_of (\<lambda>d. MsgType d = t) (Discounts m) of None \<Rightarrow> m
         | Some j \<Rightarrow> m\<lparr>Discounts := shift_out j (Discounts m)\<rparr>) = m" if "m \<in> set (Modules acc)" for m
    using that assms(3) shift_out_only_last [of "Discounts m" "\<lambda>d. MsgType d = t"] by (auto split: option.split)
  then have "acc\<lparr>Modules := map (\<lambda>m. case index_of (\<lambda>d. MsgType d = t) (Discounts m) of None \<Rightarrow> m
         | Some j \<Rightarrow> m\<lparr>Discounts := shift_out j (Discounts m)\<rparr>) (Modules acc)\<rparr> = acc"
    by (simp add: map_idI)
  then have "DeleteMsgTypeDiscounts a t s = SetAccountDiscounts acc s"
    using assms(2) by (simp add: DeleteMsgTypeDiscounts_def)
  moreover have "Address acc = a" "marshal_account acc = acc" using assms(1,2) by (auto simp: fp_stored_def)
  ultimately show ?thesis
    using assms(2) by (auto simp: fun_eq_iff SetAccountDiscounts_def GetAccountDiscounts_def store_simps)
qed

section \<open>Reachable discounts\<close>

text \<open>The states of \<^verbatim>\<open>x/feepolicy\<close> from a validated genesis through any accepted messages.\<close>

inductive fp_reachable :: "(string \<Rightarrow> address option) \<Rightarrow> string \<Rightarrow> fp_state \<Rightarrow> bool" for bech authority where
  fp_init: "is_ok (fp_Genesis_Validate bech gs) \<Longrightarrow>
    fp_InitGenesis bech authority gs \<lparr>fp_moderator = None, fp_discounts = [], fp_events = []\<rparr> = Ok s \<Longrightarrow>
    fp_reachable bech authority s"
| fp_change: "fp_reachable bech authority s \<Longrightarrow> ChangeModerator bech m m' s = Ok s' \<Longrightarrow> fp_reachable bech authority s'"
| fp_register: "fp_reachable bech authority s \<Longrightarrow> RegisterDiscounts bech m ds s = Ok s' \<Longrightarrow> fp_reachable bech authority s'"
| fp_remove: "fp_reachable bech authority s \<Longrightarrow> RemoveDiscounts m a md t s = Ok s' \<Longrightarrow> fp_reachable bech authority s'"

definition discount_ok :: "fp_Discount \<Rightarrow> bool" where
  "discount_ok d \<longleftrightarrow> DiscountType d \<in> {FeeDiscountTypePercent, FeeDiscountTypeFixed} \<and> MsgType d \<noteq> '''' \<and>
     (\<exists>a > 0. Amount d = Some a)"

definition account_ok :: "(string \<Rightarrow> address option) \<Rightarrow> fp_AccountDiscount \<Rightarrow> bool" where
  "account_ok bech acc \<longleftrightarrow> bech (Address acc) \<noteq> None \<and>
     (\<forall>m \<in> set (Modules acc). Module m \<noteq> '''' \<and> (\<forall>d \<in> set (Discounts m). discount_ok d))"

definition fp_ok :: "(string \<Rightarrow> address option) \<Rightarrow> fp_state \<Rightarrow> bool" where
  "fp_ok bech s \<longleftrightarrow> (\<exists>m. fp_moderator s = Some m \<and> bech m \<noteq> None) \<and>
     (\<forall>k d. kv_get (fp_discounts s) k = Some d \<longrightarrow> k = StringToBytes (Address d) \<and> account_ok bech d)"

lemma for_each_unit_ok: "is_ok (for_each (\<lambda>x (_::unit). f x) xs ()) \<longleftrightarrow> (\<forall>x \<in> set xs. is_ok (f x))"
  by (induction xs) (auto simp: res_simps)

lemma ValidateFeeDiscount_iff: "is_ok (ValidateFeeDiscount d) \<longleftrightarrow> discount_ok d"
  by (auto simp: ValidateFeeDiscount_def discount_ok_def dec_val_def require_def is_ok_def split: option.splits)

lemma ValidateAccountDiscount_iff: "is_ok (ValidateAccountDiscount bech acc) \<longleftrightarrow> account_ok bech acc"
proof -
  have "is_ok (bind_res (require b e) r) \<longleftrightarrow> b \<and> is_ok (r ())" for b e and r :: "unit \<Rightarrow> unit res"
    by (simp add: require_def is_ok_def)
  then show ?thesis
    by (auto simp: ValidateAccountDiscount_def account_ok_def for_each_unit_ok ValidateFeeDiscount_iff)
qed

lemma marshal_account_ok: "account_ok bech acc \<Longrightarrow> marshal_account acc = acc"
proof -
  assume ok: "account_ok bech acc"
  have "d\<lparr>Amount := marshal_dec (Amount d)\<rparr> = d" if "discount_ok d" for d
    using that by (auto simp: discount_ok_def)
  then have "m\<lparr>Discounts := map (\<lambda>d. d\<lparr>Amount := marshal_dec (Amount d)\<rparr>) (Discounts m)\<rparr> = m" if "m \<in> set (Modules acc)" for m
    using that ok by (simp add: account_ok_def map_idI)
  then show ?thesis by (simp add: marshal_account_def map_idI)
qed

lemma SetAccountDiscounts_ok:
  assumes "fp_ok bech s" and "account_ok bech acc"
  shows "fp_ok bech (SetAccountDiscounts acc s)"
  using assms by (auto simp: fp_ok_def SetAccountDiscounts_def store_simps marshal_account_ok)

lemma shift_out_in: "x \<in> set (shift_out j xs) \<Longrightarrow> x \<in> set xs"
  by (cases "xs = []") (auto simp: shift_out_def dest: in_set_takeD in_set_dropD split: if_splits)

lemma remove_module_in: "m \<in> set (remove_module md ms) \<Longrightarrow> m \<in> set ms"
  by (induction ms) (auto split: if_splits)

lemma GetAccountDiscounts_ok: "fp_ok bech s \<Longrightarrow> GetAccountDiscounts s a = Some acc \<Longrightarrow> account_ok bech acc"
  by (auto simp: fp_ok_def GetAccountDiscounts_def)

lemma DeleteModuleDiscounts_ok:
  assumes "fp_ok bech s"
  shows "fp_ok bech (DeleteModuleDiscounts a md s)"
proof (cases "GetAccountDiscounts s a")
  case (Some acc)
  then have "account_ok bech (acc\<lparr>Modules := remove_module md (Modules acc)\<rparr>)"
    using GetAccountDiscounts_ok [OF assms Some] remove_module_in [of _ md "Modules acc"] by (auto simp: account_ok_def)
  with Some assms show ?thesis by (simp add: DeleteModuleDiscounts_def SetAccountDiscounts_ok)
qed (use assms in \<open>simp add: DeleteModuleDiscounts_def\<close>)

lemma account_ok_modules:
  assumes "account_ok bech acc"
    and "\<And>m. m \<in> set (Modules acc) \<Longrightarrow> Module (f m) = Module m \<and> set (Discounts (f m)) \<subseteq> set (Discounts m)"
  shows "account_ok bech (acc\<lparr>Modules := map f (Modules acc)\<rparr>)"
  using assms unfolding account_ok_def by fastforce

lemma DeleteMsgTypeDiscounts_ok:
  assumes "fp_ok bech s"
  shows "fp_ok bech (DeleteMsgTypeDiscounts a t s)"
proof (cases "GetAccountDiscounts s a")
  case (Some acc)
  then show ?thesis
    using assms GetAccountDiscounts_ok [OF assms Some]
    by (auto simp: DeleteMsgTypeDiscounts_def intro!: SetAccountDiscounts_ok account_ok_modules dest: shift_out_in
        split: option.splits)
qed (use assms in \<open>simp add: DeleteMsgTypeDiscounts_def\<close>)

lemma fp_ok_events [simp]: "fp_ok bech (s\<lparr>fp_events := e\<rparr>) = fp_ok bech s"
  by (simp add: fp_ok_def)

lemma DeleteAccountDiscounts_ok: "fp_ok bech s \<Longrightarrow> fp_ok bech (DeleteAccountDiscounts a s)"
  by (auto simp: fp_ok_def DeleteAccountDiscounts_def store_simps split: if_splits)

lemma RemoveDiscounts_ok: "fp_ok bech s \<Longrightarrow> RemoveDiscounts m a md t s = Ok s' \<Longrightarrow> fp_ok bech s'"
  by (auto simp: RemoveDiscounts_def Let_def res_simps DeleteAccountDiscounts_ok DeleteModuleDiscounts_ok
      DeleteMsgTypeDiscounts_ok split: if_splits)

lemma RegisterDiscounts_ok:
  assumes "fp_ok bech s" and "RegisterDiscounts bech m ds s = Ok s'"
  shows "fp_ok bech s'"
proof -
  obtain s1 where s1: "for_each (\<lambda>d s. bind_res (ValidateAccountDiscount bech d) (\<lambda>_. Ok (SetAccountDiscounts d s))) ds s = Ok s1"
    and s': "fp_ok bech s' = fp_ok bech s1"
    using assms(2) by (auto simp: RegisterDiscounts_def res_simps)
  have "fp_ok bech s1"
    by (rule for_each_inv [OF s1, where P = "fp_ok bech"])
      (use assms(1) ValidateAccountDiscount_iff in \<open>auto simp: res_simps intro!: SetAccountDiscounts_ok\<close>)
  with s' show ?thesis by simp
qed

lemma fp_InitGenesis_ok:
  assumes "is_ok (fp_Genesis_Validate bech gs)"
    and "fp_InitGenesis bech authority gs \<lparr>fp_moderator = None, fp_discounts = [], fp_events = []\<rparr> = Ok s"
  shows "fp_ok bech s"
proof -
  have v: "\<forall>d \<in> set (fpg_Discounts gs). account_ok bech d"
    using assms(1) by (auto simp: fp_Genesis_Validate_def require_def for_each_unit_ok ValidateAccountDiscount_iff is_ok_def
        [of "Fail _"] split: if_splits)
  have f: "fp_ok bech (fold SetAccountDiscounts ds s0)" if "\<forall>d \<in> set ds. account_ok bech d" "fp_ok bech s0" for ds s0
    using that by (induction ds arbitrary: s0) (auto intro: SetAccountDiscounts_ok)
  obtain m where "bech m \<noteq> None" "s = fold SetAccountDiscounts (fpg_Discounts gs)
      (SetModeratorAddress m \<lparr>fp_moderator = None, fp_discounts = [], fp_events = []\<rparr>)"
    using assms(2) by (auto simp: fp_InitGenesis_def Let_def res_simps)
  moreover have "fp_ok bech (SetModeratorAddress m \<lparr>fp_moderator = None, fp_discounts = [], fp_events = []\<rparr>)"
    using calculation(1) by (simp add: fp_ok_def SetModeratorAddress_def)
  ultimately show ?thesis using f [OF v] by simp
qed

section \<open>A reference environment\<close>

definition ref_fee_discount :: "dec \<Rightarrow> fp_AccountDiscount" where
  "ref_fee_discount p = \<lparr>Address = ''a'', Modules = [\<lparr>Module = ''bank'',
     Discounts = [\<lparr>DiscountType = ''percent'', MsgType = ''/send'', Amount = Some p\<rparr>]\<rparr>]\<rparr>"

definition ref_policy :: "dec \<Rightarrow> fp_state" where
  "ref_policy p = \<lparr>fp_moderator = Some ''m'', fp_discounts = [(StringToBytes ''a'', ref_fee_discount p)], fp_events = []\<rparr>"

text \<open>The state of the reference environment is the pair of the two modules' states and the fees collected.\<close>

definition ref_fee :: "(fp_state \<times> fm_state \<times> coins, unit) fee_env" where
  "ref_fee =
     \<lparr>fe_dec = ref_dec, fe_sdk = ref_coins, fe_coin = ref_coin6, fe_height = (\<lambda>_. 7), IsCheckTx = (\<lambda>_. False),
      MinGasPrices = (\<lambda>_. []), BlockGasMeterLimit = (\<lambda>_. None), ConsensusMaxGas = (\<lambda>_. Some 30),
      fe_policy = fst, fe_market = (\<lambda>c. fst (snd c)), fe_put_market = (\<lambda>m c. (fst c, m, snd (snd c))),
      IsLondon = (\<lambda>_. True), MsgTypeURL = (\<lambda>m. case m of OtherMsg url \<Rightarrow> url | _ \<Rightarrow> []), moduleKeepers = (\<lambda>_. None),
      BytesToString = (\<lambda>a. Ok (map (\<lambda>b. char_of (unat b)) a)), FeeCollectorAddress = Some [1], UseGrantedFees = None,
      fe_GetAccount = (\<lambda>_ _. Some ()), DeductFees = (\<lambda>_ fee c. Ok (fst c, fst (snd c), fee)),
      EmitTxEvent = (\<lambda>_ _ c. c), DefaultPriorityReduction = 1000000\<rparr>"

interpretation rf: fee_laws ref_fee
  by (auto simp: fee_laws_def fee_laws_axioms_def ref_fee_def ref_coin6_def rc.sdk_coins_axioms
      rd.legacy_dec_axioms ref_coins_def [THEN arg_cong [where f = ValidateDenom]])

lemma ref_fee_policy:
  "GetDiscount (moduleKeepers ref_fee) (MsgTypeURL ref_fee) (fe_policy ref_fee (ref_policy p, c)) ''a'' [OtherMsg ''/send''] =
     \<lparr>DiscountType = ''percent'', MsgType = ''/send'', Amount = Some p\<rparr>"
  by (simp add: ref_fee_def ref_policy_def ref_fee_discount_def GetDiscount_def GetAccountDiscounts_def match_module_def)

definition ref_fee_tx :: fee_tx where
  "ref_fee_tx = \<lparr>GetGas = 2, GetFee = [(''uatom'', 4000000000)], FeePayer = [97], FeeGranter = None,
     GetMsgs = [OtherMsg ''/send''], ExtensionOptions = [Some (Some (500000000 * dec_one))]\<rparr>"

lemma ref_fee_payer: "BytesToString ref_fee (FeePayer ref_fee_tx) = Ok ''a''" "FeeGranter ref_fee_tx = None"
proof -
  have "char_of (97::nat) = CHR ''a''" by code_simp
  then show "BytesToString ref_fee (FeePayer ref_fee_tx) = Ok ''a''" by (simp add: ref_fee_def ref_fee_tx_def)
qed (simp add: ref_fee_tx_def)

lemma ref_fee_checker:
  "DynamicFeeChecker ref_fee (ref_policy p, ref_fm 0, []) (Some ref_fee_tx) =
     Ok ([(Denom (fe_coin ref_fee), 3000000000)], [(Denom (fe_coin ref_fee), 1000000000)], 500)"
  by (simp add: DynamicFeeChecker_def FeeChecker_def ref_fee_def ref_fee_tx_def ref_coin6_def ref_coins_def ref_dec_def
      fm_GetBaseFee_def effectiveGasPriceLegacyDec_def round_half_even_def MaxInt64_def IsInt64_def Let_def)

section \<open>Properties\<close>

text \<open>
  C34. A transaction that passes the authorization limiter holds no disabled message inside an execution, at any depth,
  grants no disabled type, and nests fewer executions than the cap.
\<close>

theorem checkDisabledMsgs_sound:
  assumes "checkDisabledMsgs dis msgs inner lvl = Ok ()" and "m \<in> set msgs"
  shows "\<not> blocked dis inner m \<and> lvl + exec_depth m < maxNestedMsgs"
  using assms check_loop_sound by (auto simp: checkDisabledMsgs_def split: if_splits)

theorem checkDisabledMsgs_sound_witness:
  "\<not> blocked [''/eth''] False (MsgExec [MsgExec [OtherMsg ''/send''], MsgGrant (Some ''/send'')])"
  using checkDisabledMsgs_sound [of "[''/eth'']" "[MsgExec [MsgExec [OtherMsg ''/send''], MsgGrant (Some ''/send'')]]" False 1]
  by (simp add: checkDisabledMsgs_def maxNestedMsgs_def isDisabledMsg_def)

text \<open>
  C32. A percentage discount \<open>p\<close> of at most 100 is applied to the base part of the fee only: the fee checked never exceeds the
  fee offered, and what is deducted, in the one fee denomination, is the whole tip plus the rounded-down share \<open>100 - p\<close> percent of the
  rest. The share is a decimal \<open>m\<close> within half a unit of its last place, so it is exact when \<open>p\<close> has at most 16 decimals.
\<close>

theorem DeductFee_percent:
  assumes "fee_laws E" and "IsLondon E (fe_height E c)" and "0 < fe_height E c" and "GetGas tx \<noteq> 0"
    and "\<And>f. fm_GetBaseFee (fe_market E c) = Some f \<Longrightarrow> 0 \<le> f"
    and "0 \<le> AmountOf (fe_sdk E) (GetFee tx) (Denom (fe_coin E))"
    and "DynamicFeeChecker E c (Some tx) = Ok (fee, tips, priority)"
    and "BytesToString E (FeePayer tx) = Ok payer" and "FeeGranter tx = None"
    and "GetDiscount (moduleKeepers E) (MsgTypeURL E) (fe_policy E c) payer (GetMsgs tx) = discount"
    and "DiscountType discount = FeeDiscountTypePercent" and "Amount discount = Some p" and "0 < p" and "p \<le> 100 * dec_one"
  shows "\<exists>F T m charged. fee = [(Denom (fe_coin E), F)] \<and> tips = [(Denom (fe_coin E), T)] \<and> 0 \<le> T \<and> T \<le> F \<and>
    F \<le> AmountOf (fe_sdk E) (GetFee tx) (Denom (fe_coin E)) \<and>
    DeductFee_AnteHandle E (DynamicFeeChecker E) (Some tx) False next_handler c =
      bind_res (checkDeductFee E tx charged c) (next_handler priority) \<and>
    (\<forall>d. AmountOf (fe_sdk E) charged d = (if d = Denom (fe_coin E) then (F - T) * m div dec_one + T else 0)) \<and>
    2 * \<bar>100 * m - (100 * dec_one - p)\<bar> \<le> 100 \<and> (100 dvd p \<longrightarrow> 100 * m = 100 * dec_one - p) \<and>
    AmountOf (fe_sdk E) charged (Denom (fe_coin E)) \<le> F"
proof -
  have fc: "FeeChecker E c tx = Ok (fee, tips, priority)" using assms(3,7) by (simp add: DynamicFeeChecker_def)
  obtain F T where s: "fee = [(Denom (fe_coin E), F)]" "tips = [(Denom (fe_coin E), T)]" "0 \<le> T" "T \<le> F"
    "F \<le> AmountOf (fe_sdk E) (GetFee tx) (Denom (fe_coin E))"
    using fee_laws.FeeChecker_shape [OF assms(1) fc assms(2,5,6)] by blast
  note ok = assms(7) [unfolded s(1,2)]
  let ?m = "discountMultiplier (fe_dec E) p"
  have "(F - T) * ?m \<le> (F - T) * dec_one"
    using s(4) fee_laws.discountMultiplier_range(2) [OF assms(1,13,14)] by (intro mult_left_mono) auto
  from zdiv_mono1 [OF this, of dec_one] have "(F - T) * ?m div dec_one + T \<le> F" by simp
  moreover have "2 * \<bar>100 * ?m - (100 * dec_one - p)\<bar> \<le> 100" using fee_laws.discountMultiplier_near [OF assms(1), of p] by simp
  moreover have "100 * ?m = 100 * dec_one - p" if "100 dvd p"
  proof -
    from that obtain j where "p = 100 * j" by (rule dvdE)
    define z where "z = ?m - (dec_one - j)"
    have "100 * ?m - (100 * dec_one - p) = 100 * z" using \<open>p = 100 * j\<close> by (simp add: z_def algebra_simps)
    then have "\<bar>100 * z\<bar> \<le> 50" using fee_laws.discountMultiplier_near [OF assms(1), of p] by simp
    then have "z = 0" by presburger
    then show ?thesis using \<open>p = 100 * j\<close> by (simp add: z_def algebra_simps)
  qed
  ultimately show ?thesis
    using fee_laws.percent_charge [OF assms(1) ok s(3,4) assms(3,4,8-14)] s
    by (intro exI [of _ F] exI [of _ T] exI [of _ ?m]) fastforce
qed

theorem DeductFee_percent_witness:
  "\<exists>charged. DeductFee_AnteHandle ref_fee (DynamicFeeChecker ref_fee) (Some ref_fee_tx) False (\<lambda>_. Ok)
      (ref_policy (25 * dec_one), ref_fm 0, []) =
     bind_res (checkDeductFee ref_fee ref_fee_tx charged (ref_policy (25 * dec_one), ref_fm 0, [])) Ok \<and>
     AmountOf ref_coins charged ''uatom'' = 2500000000"
proof -
  let ?c = "(ref_policy (25 * dec_one), ref_fm 0, [])"
  have env: "fe_sdk ref_fee = ref_coins" "Denom (fe_coin ref_fee) = ''uatom''" "fe_dec ref_fee = ref_dec"
    by (simp_all add: ref_fee_def ref_coin6_def)
  have h: "IsLondon ref_fee (fe_height ref_fee ?c)" "0 < fe_height ref_fee ?c" "GetGas ref_fee_tx \<noteq> 0"
    by (simp_all add: ref_fee_def ref_fee_tx_def)
  have b: "0 \<le> f" if "fm_GetBaseFee (fe_market ref_fee ?c) = Some f" for f
    using that by (simp add: ref_fee_def fm_GetBaseFee_def)
  have a: "0 \<le> AmountOf (fe_sdk ref_fee) (GetFee ref_fee_tx) (Denom (fe_coin ref_fee))"
    by (simp add: env ref_fee_tx_def rc.amount_one)
  have d: "GetDiscount (moduleKeepers ref_fee) (MsgTypeURL ref_fee) (fe_policy ref_fee ?c) ''a'' (GetMsgs ref_fee_tx) =
      \<lparr>DiscountType = ''percent'', MsgType = ''/send'', Amount = Some (25 * dec_one)\<rparr>"
    using ref_fee_policy by (simp add: ref_fee_tx_def)
  have q: "DiscountType \<lparr>DiscountType = ''percent'', MsgType = ''/send'', Amount = Some (25 * dec_one)\<rparr> = FeeDiscountTypePercent"
    "Amount \<lparr>DiscountType = ''percent'', MsgType = ''/send'', Amount = Some (25 * dec_one)\<rparr> = Some (25 * dec_one)"
    "0 < 25 * dec_one" "25 * dec_one \<le> 100 * dec_one"
    by (simp_all add: FeeDiscountTypePercent_def)
  obtain F T m charged where
    FT: "[(Denom (fe_coin ref_fee), 3000000000)] = [(Denom (fe_coin ref_fee), F)]"
      "[(Denom (fe_coin ref_fee), 1000000000)] = [(Denom (fe_coin ref_fee), T)]"
    and run: "DeductFee_AnteHandle ref_fee (DynamicFeeChecker ref_fee) (Some ref_fee_tx) False (\<lambda>_. Ok) ?c =
      bind_res (checkDeductFee ref_fee ref_fee_tx charged ?c) Ok"
    and amt: "\<forall>d. AmountOf (fe_sdk ref_fee) charged d = (if d = Denom (fe_coin ref_fee)
      then (F - T) * m div dec_one + T else 0)"
    and m: "100 * m = 100 * dec_one - 25 * dec_one"
    using DeductFee_percent [OF rf.fee_laws_axioms h b a ref_fee_checker ref_fee_payer d q, where next_handler = "\<lambda>_. Ok"]
    by auto
  have "AmountOf ref_coins charged ''uatom'' = 2500000000"
    using amt FT m unfolding env by simp
  with run show ?thesis by blast
qed

text \<open>
  A percentage of 200 or more is accepted by the validation of discounts, and then every transaction of the account
  with a positive base fee panics in the fee deduction instead of being charged.
\<close>

lemma DeductFee_percent_panics:
  assumes "fee_laws E" and "DynamicFeeChecker E c (Some tx) = Ok ([(Denom (fe_coin E), F)], [(Denom (fe_coin E), T)], priority)"
    and "0 \<le> T" and "T < F" and "0 < fe_height E c" and "GetGas tx \<noteq> 0"
    and "BytesToString E (FeePayer tx) = Ok payer" and "FeeGranter tx = None"
    and "GetDiscount (moduleKeepers E) (MsgTypeURL E) (fe_policy E c) payer (GetMsgs tx) = discount"
    and "discount = \<lparr>DiscountType = FeeDiscountTypePercent, MsgType = t, Amount = Some p\<rparr>" and "t \<noteq> ''''"
    and "200 * dec_one \<le> p"
  shows "ValidateFeeDiscount discount = Ok () \<and>
    (\<exists>e. DeductFee_AnteHandle E (DynamicFeeChecker E) (Some tx) False next_handler c = Panic e)"
proof -
  have v: "ValidateFeeDiscount discount = Ok ()"
    using assms(10-12) by (simp add: ValidateFeeDiscount_def dec_val_def)
  have t: "DiscountType discount = FeeDiscountTypePercent" "Amount discount = Some p" using assms(10) by simp_all
  obtain e where "percent_loop E p [(Denom (fe_coin E), F - T)] = Panic e"
    using fee_laws.percent_loop_negative [OF assms(1,12), of "F - T"] assms(4) by auto
  with v show ?thesis
    using fee_laws.DeductFee_dynamic [OF assms(1,2,3) _ assms(5-9) t] assms(4) by simp
qed

text \<open>
  Removing the discount of a message type leaves it in place when it is the last discount of its module: the message
  succeeds, and every account still has the discounts it had.
\<close>

lemma RemoveDiscounts_keeps_last:
  assumes "fp_stored s" and "GetAccountDiscounts s a = Some acc" and "fp_moderator s = Some m"
    and "md \<noteq> ''''" and "t \<noteq> ''''"
    and "\<forall>x \<in> set (Modules acc). \<forall>d \<in> set (butlast (Discounts x)). MsgType d \<noteq> t"
  shows "\<exists>s'. RemoveDiscounts m a md t s = Ok s' \<and> GetAccountDiscounts s' = GetAccountDiscounts s"
proof -
  let ?s = "DeleteMsgTypeDiscounts a t s"
  have "GetAccountDiscounts (?s\<lparr>fp_events := e\<rparr>) = GetAccountDiscounts ?s" for e
    by (simp add: fun_eq_iff GetAccountDiscounts_def)
  with DeleteMsgType_only_last [OF assms(1,2,6)] assms(3-5) show ?thesis
    by (simp add: RemoveDiscounts_def check_moderator_def GetModeratorAddress_def Let_def)
qed

text \<open>
  C33. In every state of the fee policy reached from a validated genesis by accepted messages there is a moderator with a
  valid address, and every stored discount lies under its own address, is of a known type, names a message and
  has a positive amount.
\<close>

theorem fp_reachable_ok:
  assumes "fp_reachable bech authority s"
  shows "fp_ok bech s"
  using assms
proof induction
  case (fp_change s m m' s')
  then show ?case by (auto simp: ChangeModerator_def res_simps SetModeratorAddress_def fp_ok_def)
qed (auto intro: fp_InitGenesis_ok RegisterDiscounts_ok RemoveDiscounts_ok)

theorem fp_reachable_ok_witness:
  "fp_ok (\<lambda>x. Some (StringToBytes x)) (ref_policy dec_one)"
proof -
  let ?bech = "\<lambda>x. Some (StringToBytes x)"
  let ?gs = "\<lparr>fpg_ModeratorAddress = ''m'', fpg_Discounts = [ref_fee_discount dec_one]\<rparr>"
  have "is_ok (fp_Genesis_Validate ?bech ?gs)"
    by (simp add: fp_Genesis_Validate_def ValidateAccountDiscount_def ref_fee_discount_def ValidateFeeDiscount_def
        FeeDiscountTypePercent_def dec_val_def is_ok_def)
  moreover have "fp_InitGenesis ?bech ''m'' ?gs \<lparr>fp_moderator = None, fp_discounts = [], fp_events = []\<rparr> =
      Ok (ref_policy dec_one)"
    by (simp add: fp_InitGenesis_def SetAccountDiscounts_def SetModeratorAddress_def ref_policy_def ref_fee_discount_def
        marshal_account_def)
  ultimately have "fp_reachable ?bech ''m'' (ref_policy dec_one)" by (rule fp_init)
  then show ?thesis by (rule fp_reachable_ok)
qed

end
