(* ===== verification/EvmParams.thy ===== *)
theory EvmParams
  imports VMKeeper TxData "HOL-Library.Char_ord"
begin

text \<open>
  The parameters of \<^verbatim>\<open>x/vm\<close> (\<^verbatim>\<open>types/params.go\<close>, \<^verbatim>\<open>keeper/params.go\<close>), the access control that runs before every
  creation and call (\<^verbatim>\<open>types/permissions.go\<close>, \<^verbatim>\<open>types/opcodes_hooks.go\<close>), and the choice of the precompiled
  contract of a call (\<^verbatim>\<open>keeper/precompiles.go\<close>, \<^verbatim>\<open>keeper/static_precompiles.go\<close>). The names of the addresses are
  those of \<open>hex_ops\<close>; the extra instruction sets go-ethereum knows, its own precompiles, the IBC check of a channel
  name and the ERC-20 precompiles are arguments. Parameters are kept decoded.
\<close>

section \<open>Parameters\<close>

type_synonym access_type = int

definition AccessTypePermissionless :: access_type where "AccessTypePermissionless = 0"
definition AccessTypeRestricted :: access_type where "AccessTypeRestricted = 1"
definition AccessTypePermissioned :: access_type where "AccessTypePermissioned = 2"

record AccessControlType =
  AccessType :: access_type
  AccessControlList :: "string list"

record AccessControl =
  Create :: AccessControlType
  Call :: AccessControlType

record vm_Params =
  EvmDenom :: string
  ExtraEIPs :: "int list"
  AllowUnprotectedTxs :: bool
  EVMChannels :: "string list"
  vp_AccessControl :: AccessControl
  ActiveStaticPrecompiles :: "string list"

definition DefaultAccessControl :: AccessControl where
  "DefaultAccessControl =
     \<lparr>Create = \<lparr>AccessType = AccessTypePermissionless, AccessControlList = []\<rparr>,
      Call = \<lparr>AccessType = AccessTypePermissionless, AccessControlList = []\<rparr>\<rparr>"

definition vm_NewParams :: "bool \<Rightarrow> int list \<Rightarrow> string list \<Rightarrow> string list \<Rightarrow> AccessControl \<Rightarrow> vm_Params" where
  "vm_NewParams allowUnprotectedTxs extraEIPs activeStaticPrecompiles evmChannels accessControl =
     \<lparr>EvmDenom = '''', ExtraEIPs = extraEIPs, AllowUnprotectedTxs = allowUnprotectedTxs, EVMChannels = evmChannels,
      vp_AccessControl = accessControl, ActiveStaticPrecompiles = activeStaticPrecompiles\<rparr>"

definition vm_DefaultParams :: vm_Params where
  "vm_DefaultParams = \<lparr>EvmDenom = ''agxn'', ExtraEIPs = [], AllowUnprotectedTxs = False, EVMChannels = [],
     vp_AccessControl = DefaultAccessControl, ActiveStaticPrecompiles = []\<rparr>"

text \<open>What the checks need of other code: the activateable instruction sets and the form of a channel name.\<close>

record params_env =
  pe_hex :: hex_ops
  ValidEip :: "int \<Rightarrow> bool"
  ChannelIdentifierValidator :: "string \<Rightarrow> bool"

definition validateAccessType :: "access_type \<Rightarrow> unit res" where
  "validateAccessType accessType =
     require (accessType = AccessTypePermissionless \<or> accessType = AccessTypeRestricted \<or> accessType = AccessTypePermissioned)
       (ErrPlain ''invalid access type'')"

definition validateAllowlistAddresses :: "hex_ops \<Rightarrow> string list \<Rightarrow> unit res" where
  "validateAllowlistAddresses H addrs =
     for_each (\<lambda>address (_::unit). case ValidateAddress H address of
       Fail _ \<Rightarrow> Fail (ErrPlain ''invalid whitelist address'') | r \<Rightarrow> r) addrs ()"

definition AccessControlType_Validate :: "hex_ops \<Rightarrow> AccessControlType \<Rightarrow> unit res" where
  "AccessControlType_Validate H act =
     bind_res (validateAccessType (AccessType act)) (\<lambda>_. validateAllowlistAddresses H (AccessControlList act))"

definition AccessControl_Validate :: "hex_ops \<Rightarrow> AccessControl \<Rightarrow> unit res" where
  "AccessControl_Validate H ac =
     bind_res (AccessControlType_Validate H (Create ac)) (\<lambda>_. AccessControlType_Validate H (Call ac))"

fun validate_eips :: "(int \<Rightarrow> bool) \<Rightarrow> int list \<Rightarrow> int list \<Rightarrow> unit res" where
  "validate_eips valid [] uniqueEIPs = Ok ()"
| "validate_eips valid (eip # eips) uniqueEIPs =
     bind_res (require (valid eip) (ErrPlain ''EIP is not activateable'')) (\<lambda>_.
     bind_res (require (eip \<notin> set uniqueEIPs) (ErrPlain ''found duplicate EIP'')) (\<lambda>_.
     validate_eips valid eips (eip # uniqueEIPs)))"

definition validateEIPs :: "params_env \<Rightarrow> int list \<Rightarrow> unit res" where
  "validateEIPs E eips = validate_eips (ValidEip E) eips []"

fun precompile_loop :: "hex_ops \<Rightarrow> string list \<Rightarrow> string list \<Rightarrow> unit res" where
  "precompile_loop H [] seenPrecompiles = Ok ()"
| "precompile_loop H (precompile # precompiles) seenPrecompiles =
     bind_res (require (precompile \<notin> set seenPrecompiles) (ErrPlain ''duplicate precompile'')) (\<lambda>_.
     bind_res (case ValidateAddress H precompile of Fail _ \<Rightarrow> Fail (ErrPlain ''invalid precompile'') | r \<Rightarrow> r) (\<lambda>_.
     precompile_loop H precompiles (precompile # seenPrecompiles)))"

definition ValidatePrecompiles :: "hex_ops \<Rightarrow> string list \<Rightarrow> unit res" where
  "ValidatePrecompiles H precompiles =
     bind_res (precompile_loop H precompiles []) (\<lambda>_.
     require (sorted precompiles) (ErrPlain ''precompiles need to be sorted''))"

definition validateChannels :: "params_env \<Rightarrow> string list \<Rightarrow> unit res" where
  "validateChannels E channels =
     for_each (\<lambda>channel (_::unit). require (ChannelIdentifierValidator E channel) (ErrPlain ''invalid channel identifier'')) channels ()"

definition vm_Params_Validate :: "params_env \<Rightarrow> vm_Params \<Rightarrow> unit res" where
  "vm_Params_Validate E p =
     bind_res (validateEIPs E (ExtraEIPs p)) (\<lambda>_.
     bind_res (ValidatePrecompiles (pe_hex E) (ActiveStaticPrecompiles p)) (\<lambda>_.
     bind_res (AccessControl_Validate (pe_hex E) (vp_AccessControl p)) (\<lambda>_.
     validateChannels E (EVMChannels p))))"

definition GetActiveStaticPrecompilesAddrs :: "hex_ops \<Rightarrow> vm_Params \<Rightarrow> addr list" where
  "GetActiveStaticPrecompilesAddrs H p = map (HexToAddress H) (ActiveStaticPrecompiles p)"

definition IsEVMChannel :: "vm_Params \<Rightarrow> string \<Rightarrow> bool" where
  "IsEVMChannel p channel \<longleftrightarrow> channel \<in> set (EVMChannels p)"

section \<open>The stored parameters\<close>

definition vm_GetParams :: "vm_Params option \<Rightarrow> vm_Params" where
  "vm_GetParams s = (case s of
     None \<Rightarrow> \<lparr>EvmDenom = '''', ExtraEIPs = [], AllowUnprotectedTxs = False, EVMChannels = [],
        vp_AccessControl = \<lparr>Create = \<lparr>AccessType = 0, AccessControlList = []\<rparr>, Call = \<lparr>AccessType = 0, AccessControlList = []\<rparr>\<rparr>,
        ActiveStaticPrecompiles = []\<rparr>
   | Some p \<Rightarrow> p)"

definition vm_SetParams :: "params_env \<Rightarrow> vm_Params \<Rightarrow> vm_Params option \<Rightarrow> vm_Params option res" where
  "vm_SetParams E p s =
     (let params = p\<lparr>ActiveStaticPrecompiles := sort (ActiveStaticPrecompiles p)\<rparr> in
      bind_res (vm_Params_Validate E params) (\<lambda>_. Ok (Some params)))"

definition vm_UpdateParams :: "params_env \<Rightarrow> string \<Rightarrow> string \<Rightarrow> vm_Params \<Rightarrow> vm_Params option \<Rightarrow> vm_Params option res" where
  "vm_UpdateParams E authority req_authority p s =
     bind_res (require (authority = req_authority) ErrInvalidSigner) (\<lambda>_. vm_SetParams E p s)"

definition appendPrecompiles :: "hex_ops \<Rightarrow> string list \<Rightarrow> addr list \<Rightarrow> string list res" where
  "appendPrecompiles H existingPrecompiles addrs =
     bind_res (for_each (\<lambda>a (_::unit). require (addr_Hex H a \<notin> set existingPrecompiles)
       (ErrPlain ''precompile already registered'')) addrs ()) (\<lambda>_.
     Ok (sort (existingPrecompiles @ map (addr_Hex H) addrs)))"

definition EnableStaticPrecompiles :: "params_env \<Rightarrow> addr list \<Rightarrow> vm_Params option \<Rightarrow> vm_Params option res" where
  "EnableStaticPrecompiles E addrs s =
     (let params = vm_GetParams s in
      bind_res (appendPrecompiles (pe_hex E) (ActiveStaticPrecompiles params) addrs) (\<lambda>updatedPrecompiles.
      vm_SetParams E (params\<lparr>ActiveStaticPrecompiles := updatedPrecompiles\<rparr>) s))"

definition EnableEIPs :: "params_env \<Rightarrow> int list \<Rightarrow> vm_Params option \<Rightarrow> vm_Params option res" where
  "EnableEIPs E eips s =
     (let evmParams = vm_GetParams s in
      vm_SetParams E (evmParams\<lparr>ExtraEIPs := sort (ExtraEIPs evmParams @ eips)\<rparr>) s)"

section \<open>Access control\<close>

definition permissionlessCheckFn :: "hex_ops \<Rightarrow> string list \<Rightarrow> addr \<Rightarrow> addr \<Rightarrow> bool" where
  "permissionlessCheckFn H addrs signer caller =
     (let isSignerBlocked = (addr_Hex H signer \<notin> set addrs) in isSignerBlocked \<and> addr_Hex H caller \<notin> set addrs)"

definition permissionedCheckFn :: "hex_ops \<Rightarrow> string list \<Rightarrow> addr \<Rightarrow> addr \<Rightarrow> bool" where
  "permissionedCheckFn H addrs signer caller =
     (let isSignerAllowed = (addr_Hex H signer \<in> set addrs) in isSignerAllowed \<or> addr_Hex H caller \<in> set addrs)"

definition caller_fn :: "hex_ops \<Rightarrow> AccessControlType \<Rightarrow> addr \<Rightarrow> addr \<Rightarrow> bool" where
  "caller_fn H act signer caller =
     (if AccessType act = AccessTypePermissionless then permissionlessCheckFn H (AccessControlList act) signer caller
      else if AccessType act = AccessTypeRestricted then False
      else if AccessType act = AccessTypePermissioned then permissionedCheckFn H (AccessControlList act) signer caller
      else False)"

definition getCanCreateFn :: "hex_ops \<Rightarrow> AccessControl \<Rightarrow> addr \<Rightarrow> addr \<Rightarrow> bool" where
  "getCanCreateFn H accessControl signer = caller_fn H (Create accessControl) signer"

definition getCanCallFn :: "hex_ops \<Rightarrow> AccessControl \<Rightarrow> addr \<Rightarrow> addr \<Rightarrow> bool" where
  "getCanCallFn H accessControl signer = caller_fn H (Call accessControl) signer"

record RestrictedPermissionPolicy =
  rp_accessControl :: AccessControl
  canCreate :: "addr \<Rightarrow> bool"
  canCall :: "addr \<Rightarrow> bool"

definition NewRestrictedPermissionPolicy :: "hex_ops \<Rightarrow> AccessControl \<Rightarrow> addr \<Rightarrow> RestrictedPermissionPolicy" where
  "NewRestrictedPermissionPolicy H accessControl signer =
     \<lparr>rp_accessControl = accessControl, canCreate = getCanCreateFn H accessControl signer, canCall = getCanCallFn H accessControl signer\<rparr>"

definition CanCreate :: "RestrictedPermissionPolicy \<Rightarrow> addr \<Rightarrow> addr \<Rightarrow> bool" where
  "CanCreate p signer caller = canCreate p caller"

definition CanCall :: "RestrictedPermissionPolicy \<Rightarrow> addr \<Rightarrow> addr \<Rightarrow> addr \<Rightarrow> bool" where
  "CanCall p signer caller recipient = canCall p caller"

text \<open>A hook gets the EVM, which it may change, and returns an error to refuse the operation.\<close>

type_synonym 'e CreateHook = "'e \<Rightarrow> addr \<Rightarrow> 'e res"
type_synonym 'e CallHook = "'e \<Rightarrow> addr \<Rightarrow> addr \<Rightarrow> 'e res"

definition GetCallHook :: "RestrictedPermissionPolicy \<Rightarrow> addr \<Rightarrow> 'e CallHook" where
  "GetCallHook p signer evm caller recipient =
     (if CanCall p signer caller recipient then Ok evm else Fail (ErrPlain ''caller does not have permission to perform a call''))"

definition GetCreateHook :: "RestrictedPermissionPolicy \<Rightarrow> addr \<Rightarrow> 'e CreateHook" where
  "GetCreateHook p signer evm caller =
     (if CanCreate p signer caller then Ok evm else Fail (ErrPlain ''caller does not have permission to deploy contracts''))"

record 'e DefaultOpCodesHooks =
  callHooks :: "'e CallHook list"
  createHooks :: "'e CreateHook list"

definition NewDefaultOpCodesHooks :: "'e DefaultOpCodesHooks" where
  "NewDefaultOpCodesHooks = \<lparr>callHooks = [], createHooks = []\<rparr>"

definition AddCallHooks :: "'e CallHook list \<Rightarrow> 'e DefaultOpCodesHooks \<Rightarrow> 'e DefaultOpCodesHooks" where
  "AddCallHooks hooks h = h\<lparr>callHooks := callHooks h @ hooks\<rparr>"

definition AddCreateHooks :: "'e CreateHook list \<Rightarrow> 'e DefaultOpCodesHooks \<Rightarrow> 'e DefaultOpCodesHooks" where
  "AddCreateHooks hooks h = h\<lparr>createHooks := createHooks h @ hooks\<rparr>"

definition run_CreateHook :: "'e DefaultOpCodesHooks \<Rightarrow> 'e CreateHook" where
  "run_CreateHook h evm caller = for_each (\<lambda>hook evm. hook evm caller) (createHooks h) evm"

definition run_CallHook :: "'e DefaultOpCodesHooks \<Rightarrow> 'e CallHook" where
  "run_CallHook h evm caller recipient = for_each (\<lambda>hook evm. hook evm caller recipient) (callHooks h) evm"

section \<open>Precompiled contracts\<close>

text \<open>
  \<open>pc_precompiles\<close> is the map of the keeper, nil until it is set; \<open>PrecompiledAddressesPrague\<close> are the addresses of go-ethereum's own
  precompiles, which the code takes to be part of that map.
\<close>

record ('c, 'p) precompile_env =
  pc_hex :: hex_ops
  pc_precompiles :: "(addr \<Rightarrow> 'p option) option"
  PrecompiledAddressesPrague :: "addr list"
  pc_Address :: "'p \<Rightarrow> addr"
  GetERC20PrecompileInstance :: "'c \<Rightarrow> addr \<Rightarrow> 'p option res"

definition WithStaticPrecompiles ::
  "(addr \<times> 'p) list \<Rightarrow> ('c, 'p) precompile_env \<Rightarrow> ('c, 'p) precompile_env res" where
  "WithStaticPrecompiles precompiles E =
     bind_res (must (pc_precompiles E = None) ''available precompiles map already set'') (\<lambda>_.
     bind_res (must (length precompiles \<noteq> 0) ''empty precompiled contract map'') (\<lambda>_.
     Ok (E\<lparr>pc_precompiles := Some (map_of precompiles)\<rparr>)))"

definition IsAvailableStaticPrecompile :: "('c, 'p) precompile_env \<Rightarrow> vm_Params \<Rightarrow> addr \<Rightarrow> bool" where
  "IsAvailableStaticPrecompile E params address \<longleftrightarrow>
     addr_Hex (pc_hex E) address \<in> set (ActiveStaticPrecompiles params) \<or> address \<in> set (PrecompiledAddressesPrague E)"

definition GetStaticPrecompileInstance :: "('c, 'p) precompile_env \<Rightarrow> vm_Params \<Rightarrow> addr \<Rightarrow> 'p option res" where
  "GetStaticPrecompileInstance E params address =
     (if IsAvailableStaticPrecompile E params address
      then case pc_precompiles E of
        Some m \<Rightarrow> (case m address of Some p \<Rightarrow> Ok (Some p) | None \<Rightarrow> Panic ''precompiled contract not stored in memory'')
      | None \<Rightarrow> Panic ''precompiled contract not stored in memory''
      else Ok None)"

record 'p Precompiles =
  pc_Map :: "addr \<Rightarrow> 'p option"
  pc_Addresses :: "addr list"

definition GetPrecompileInstance ::
  "('c, 'p) precompile_env \<Rightarrow> vm_Params option \<Rightarrow> 'c \<Rightarrow> addr \<Rightarrow> 'p Precompiles option res" where
  "GetPrecompileInstance E s c address =
     bind_res (GetStaticPrecompileInstance E (vm_GetParams s) address) (\<lambda>static. case static of
       Some precompile \<Rightarrow> Ok (Some \<lparr>pc_Map = [address \<mapsto> precompile], pc_Addresses = [pc_Address E precompile]\<rparr>)
     | None \<Rightarrow>
         bind_res (GetERC20PrecompileInstance E c address) (\<lambda>dynamic. case dynamic of
           Some precompile \<Rightarrow> Ok (Some \<lparr>pc_Map = [address \<mapsto> precompile], pc_Addresses = [pc_Address E precompile]\<rparr>)
         | None \<Rightarrow> Ok None))"

text \<open>The part of the EVM the hooks change: its precompiles and its state database.\<close>

record ('c, 'v, 'e, 'p) evm_state =
  es_precompiles :: "addr \<Rightarrow> 'p option"
  es_db :: "('c, 'v, 'e) statedb"

definition GetPrecompilesCallHook ::
  "('c, 'p) precompile_env \<Rightarrow> vm_Params option \<Rightarrow> 'c \<Rightarrow> ('c, 'v, 'e, 'p) evm_state CallHook" where
  "GetPrecompilesCallHook E s c evm caller recipient =
     bind_res (GetPrecompileInstance E s c recipient) (\<lambda>precompiles. case precompiles of
       None \<Rightarrow> Ok evm
     | Some p \<Rightarrow> Ok (evm\<lparr>es_precompiles := pc_Map p, es_db := AddAddressToAccessList recipient (es_db evm)\<rparr>))"

text \<open>The hooks \<^verbatim>\<open>NewEVM\<close> gives to the interpreter.\<close>

definition evm_hooks ::
  "('c, 'p) precompile_env \<Rightarrow> vm_Params option \<Rightarrow> AccessControl \<Rightarrow> 'c \<Rightarrow> addr \<Rightarrow> ('c, 'v, 'e, 'p) evm_state DefaultOpCodesHooks" where
  "evm_hooks E s control c signer =
     (let accessControl = NewRestrictedPermissionPolicy (pc_hex E) control signer in
      AddCallHooks [GetCallHook accessControl signer, GetPrecompilesCallHook E s c]
        (AddCreateHooks [GetCreateHook accessControl signer] NewDefaultOpCodesHooks))"

end
