(* ===== verification/EvmParamsProps.thy ===== *)
theory EvmParamsProps
  imports EvmParams
begin

text \<open>
  What the parameters of \<^verbatim>\<open>x/vm\<close> guarantee: every stored set of parameters is well formed, and the access control that runs before
  each creation and call is the policy on sets of addresses that the parameters describe.
\<close>

section \<open>Well-formed parameters\<close>

definition access_ok :: "hex_ops \<Rightarrow> AccessControlType \<Rightarrow> bool" where
  "access_ok H act \<longleftrightarrow> AccessType act \<in> {0, 1, 2} \<and> list_all (IsHexAddress H) (AccessControlList act)"

definition vm_params_ok :: "params_env \<Rightarrow> vm_Params \<Rightarrow> bool" where
  "vm_params_ok E p \<longleftrightarrow>
     distinct (ExtraEIPs p) \<and> list_all (ValidEip E) (ExtraEIPs p) \<and>
     sorted (ActiveStaticPrecompiles p) \<and> distinct (ActiveStaticPrecompiles p) \<and> list_all (IsHexAddress (pe_hex E)) (ActiveStaticPrecompiles p) \<and>
     access_ok (pe_hex E) (Create (vp_AccessControl p)) \<and> access_ok (pe_hex E) (Call (vp_AccessControl p)) \<and>
     list_all (ChannelIdentifierValidator E) (EVMChannels p)"

lemma is_ok_require: "is_ok (Ok x)" "is_ok (require P e) \<longleftrightarrow> P" "is_ok (bind_res (require P e) f) \<longleftrightarrow> P \<and> is_ok (f ())"
  by (simp_all add: require_def is_ok_def)

lemma is_ok_bind_unit: "is_ok (bind_res r f) \<longleftrightarrow> is_ok r \<and> is_ok (f ())" for r :: "unit res"
  by (cases r) (simp_all add: is_ok_def)

lemma is_ok_named: "is_ok (case r of Ok x \<Rightarrow> Ok x | Fail _ \<Rightarrow> Fail e | Panic p \<Rightarrow> Panic p) \<longleftrightarrow> is_ok r"
  by (cases r) (simp_all add: is_ok_def)

lemma validate_eips_iff: "is_ok (validate_eips v es seen) \<longleftrightarrow> list_all v es \<and> distinct es \<and> set es \<inter> set seen = {}"
  by (induction es arbitrary: seen) (auto simp: is_ok_require)

lemma precompile_loop_iff:
  "is_ok (precompile_loop H ps seen) \<longleftrightarrow> list_all (IsHexAddress H) ps \<and> distinct ps \<and> set ps \<inter> set seen = {}"
  by (induction ps arbitrary: seen) (auto simp: is_ok_require is_ok_bind_unit is_ok_named ValidateAddress_def)

lemma for_each_unit: "is_ok (for_each (\<lambda>x (_::unit). f x) xs ()) \<longleftrightarrow> list_all (\<lambda>x. is_ok (f x)) xs"
  by (induction xs) (auto simp: is_ok_require is_ok_bind_unit)

lemma AccessControlType_Validate_iff: "is_ok (AccessControlType_Validate H act) \<longleftrightarrow> access_ok H act"
  by (auto simp: AccessControlType_Validate_def validateAccessType_def validateAllowlistAddresses_def access_ok_def is_ok_require is_ok_named
      for_each_unit ValidateAddress_def AccessTypePermissionless_def AccessTypeRestricted_def AccessTypePermissioned_def)

lemma vm_Params_Validate_iff: "is_ok (vm_Params_Validate E p) \<longleftrightarrow> vm_params_ok E p"
  by (simp add: vm_Params_Validate_def validateEIPs_def ValidatePrecompiles_def AccessControl_Validate_def validateChannels_def vm_params_ok_def
      is_ok_require is_ok_bind_unit validate_eips_iff precompile_loop_iff AccessControlType_Validate_iff for_each_unit conj_ac)

text \<open>The stored parameters: none before genesis, then whatever the three operations that write them leave.\<close>

inductive params_reach :: "params_env \<Rightarrow> vm_Params option \<Rightarrow> bool" for E where
  unset: "params_reach E None"
| set: "params_reach E s \<Longrightarrow> vm_SetParams E p s = Ok s' \<Longrightarrow> params_reach E s'"
| update: "params_reach E s \<Longrightarrow> vm_UpdateParams E authority req_authority p s = Ok s' \<Longrightarrow> params_reach E s'"
| precompiles: "params_reach E s \<Longrightarrow> EnableStaticPrecompiles E addrs s = Ok s' \<Longrightarrow> params_reach E s'"
| eips: "params_reach E s \<Longrightarrow> EnableEIPs E es s = Ok s' \<Longrightarrow> params_reach E s'"

lemma set_params_ok:
  assumes "vm_SetParams E p s = Ok s'"
  shows "s' = Some (p\<lparr>ActiveStaticPrecompiles := sort (ActiveStaticPrecompiles p)\<rparr>)" and "vm_params_ok E (vm_GetParams s')"
proof -
  define q where "q = p\<lparr>ActiveStaticPrecompiles := sort (ActiveStaticPrecompiles p)\<rparr>"
  have "bind_res (vm_Params_Validate E q) (\<lambda>_. Ok (Some q)) = Ok s'"
    using assms unfolding vm_SetParams_def Let_def q_def .
  then have "is_ok (vm_Params_Validate E q)" and s': "s' = Some q"
    by (cases "vm_Params_Validate E q"; simp add: is_ok_def)+
  then show "vm_params_ok E (vm_GetParams s')" by (simp add: vm_Params_Validate_iff vm_GetParams_def)
  show "s' = Some (p\<lparr>ActiveStaticPrecompiles := sort (ActiveStaticPrecompiles p)\<rparr>)" using s' by (simp add: q_def)
qed

lemma stored_ok:
  assumes "params_reach E s"
  shows "vm_params_ok E (vm_GetParams s)"
  using assms
proof (induction rule: params_reach.induct)
  case unset
  then show ?case by (simp add: vm_GetParams_def vm_params_ok_def access_ok_def)
next
  case (set s p s')
  then show ?case using set_params_ok(2) by blast
next
  case (update s a b p s')
  then have "vm_SetParams E p s = Ok s'" by (auto simp: vm_UpdateParams_def res_simps)
  then show ?case by (rule set_params_ok(2))
next
  case (precompiles s addrs s')
  then obtain q where "vm_SetParams E q s = Ok s'" by (auto simp: EnableStaticPrecompiles_def Let_def bind_res_Ok_iff)
  then show ?case by (rule set_params_ok(2))
next
  case (eips s es s')
  then show ?case unfolding EnableEIPs_def Let_def using set_params_ok(2) by blast
qed

section \<open>Policies on addresses\<close>

datatype policy = All_but "addr set" | Only "addr set" | Nobody

fun allows :: "policy \<Rightarrow> addr \<Rightarrow> addr \<Rightarrow> bool" where
  "allows (All_but blocked) signer caller \<longleftrightarrow> signer \<notin> blocked \<and> caller \<notin> blocked"
| "allows (Only listed) signer caller \<longleftrightarrow> signer \<in> listed \<or> caller \<in> listed"
| "allows Nobody signer caller \<longleftrightarrow> False"

definition policy_of :: "hex_ops \<Rightarrow> AccessControlType \<Rightarrow> policy" where
  "policy_of H act =
     (let S = HexToAddress H ` set (AccessControlList act) in
      if AccessType act = AccessTypePermissionless then All_but S else if AccessType act = AccessTypePermissioned then Only S else Nobody)"

definition checksummed :: "hex_ops \<Rightarrow> AccessControlType \<Rightarrow> bool" where
  "checksummed H act \<longleftrightarrow> list_all (\<lambda>x. addr_Hex H (HexToAddress H x) = x) (AccessControlList act)"

lemma caller_fn_policy:
  assumes "hex_laws H" and "checksummed H act"
  shows "caller_fn H act signer caller \<longleftrightarrow> allows (policy_of H act) signer caller"
proof -
  have "addr_Hex H a \<in> set (AccessControlList act) \<longleftrightarrow> a \<in> HexToAddress H ` set (AccessControlList act)" for a
  proof
    assume "addr_Hex H a \<in> set (AccessControlList act)"
    then show "a \<in> HexToAddress H ` set (AccessControlList act)"
      using hex_laws.address_hex [OF assms(1), of a] by (metis imageI)
  next
    assume "a \<in> HexToAddress H ` set (AccessControlList act)"
    then show "addr_Hex H a \<in> set (AccessControlList act)" using assms(2) by (auto simp: checksummed_def list_all_iff)
  qed
  then show ?thesis
    by (simp add: caller_fn_def policy_of_def permissionlessCheckFn_def permissionedCheckFn_def AccessTypePermissionless_def AccessTypeRestricted_def
      AccessTypePermissioned_def Let_def)
qed

lemma for_each_nil: "for_each f [] = Ok"
  by (rule ext) simp

lemma hooks_eval:
  "run_CreateHook (evm_hooks E s control c signer) evm caller = (if caller_fn (pc_hex E) (Create control) signer caller then Ok evm
     else Fail (ErrPlain ''caller does not have permission to deploy contracts''))"
  "is_ok (run_CallHook (evm_hooks E s control c signer) evm caller recipient) \<longleftrightarrow>
     caller_fn (pc_hex E) (Call control) signer caller \<and> is_ok (GetPrecompileInstance E s c recipient)"
proof -
  have p: "is_ok (bind_res (GetPrecompilesCallHook E s c evm caller recipient) Ok) \<longleftrightarrow> is_ok (GetPrecompileInstance E s c recipient)"
    by (cases "GetPrecompileInstance E s c recipient") (auto simp: GetPrecompilesCallHook_def is_ok_def split: option.split)
  show "run_CreateHook (evm_hooks E s control c signer) evm caller = (if caller_fn (pc_hex E) (Create control) signer caller then Ok evm
     else Fail (ErrPlain ''caller does not have permission to deploy contracts''))"
    by (simp add: evm_hooks_def run_CreateHook_def AddCallHooks_def AddCreateHooks_def NewDefaultOpCodesHooks_def GetCreateHook_def
        CanCreate_def NewRestrictedPermissionPolicy_def getCanCreateFn_def Let_def)
  show "is_ok (run_CallHook (evm_hooks E s control c signer) evm caller recipient) \<longleftrightarrow>
     caller_fn (pc_hex E) (Call control) signer caller \<and> is_ok (GetPrecompileInstance E s c recipient)"
    unfolding p [symmetric]
    by (simp add: for_each_nil evm_hooks_def run_CallHook_def AddCallHooks_def AddCreateHooks_def NewDefaultOpCodesHooks_def GetCallHook_def
        CanCall_def NewRestrictedPermissionPolicy_def getCanCallFn_def Let_def is_ok_def)
qed

section \<open>A reference chain\<close>

text \<open>A chain that knows every instruction set, accepts every channel name and has no precompiles.\<close>

definition ref_params_env :: params_env where
  "ref_params_env = \<lparr>pe_hex = ref_hex, ValidEip = (\<lambda>_. True), ChannelIdentifierValidator = (\<lambda>_. True)\<rparr>"

definition ref_precompiles :: "(unit, unit) precompile_env" where
  "ref_precompiles = \<lparr>pc_hex = ref_hex, pc_precompiles = None, PrecompiledAddressesPrague = [], pc_Address = (\<lambda>_. 0),
     GetERC20PrecompileInstance = (\<lambda>_ _. Ok None)\<rparr>"

definition ref_control :: AccessControl where
  "ref_control = \<lparr>Create = \<lparr>AccessType = 2, AccessControlList = [addr_Hex ref_hex 7]\<rparr>, Call = \<lparr>AccessType = 0, AccessControlList = [addr_Hex ref_hex 8]\<rparr>\<rparr>"

section \<open>Properties\<close>

text \<open>
  C12. The stored parameters of the EVM module are well formed after any sequence of writes: the extra instruction sets are known and
  distinct, the active precompiles are distinct addresses in order, the access types are among the three of the protocol, and lists and channels hold valid names.
\<close>

theorem stored_params_well_formed:
  assumes "params_reach E s"
  shows "vm_params_ok E (vm_GetParams s)"
  using stored_ok [OF assms] .

theorem stored_params_well_formed_witness:
  "\<exists>s. vm_SetParams ref_params_env (vm_DefaultParams\<lparr>ExtraEIPs := [3855, 1344], ActiveStaticPrecompiles := [addr_Hex ref_hex 9]\<rparr>) None = Ok s \<and>
     vm_params_ok ref_params_env (vm_GetParams s)"
proof -
  let ?p = "vm_DefaultParams\<lparr>ExtraEIPs := [3855, 1344], ActiveStaticPrecompiles := [addr_Hex ref_hex 9]\<rparr>"
  have s: "vm_SetParams ref_params_env ?p None = Ok (Some ?p)"
    using rh.hex_is_address [of 9]
    by (simp add: vm_SetParams_def vm_Params_Validate_def validateEIPs_def ValidatePrecompiles_def ValidateAddress_def AccessControl_Validate_def
        AccessControlType_Validate_def validateAccessType_def validateAllowlistAddresses_def validateChannels_def ref_params_env_def vm_DefaultParams_def
        DefaultAccessControl_def AccessTypePermissionless_def)
  then show ?thesis using stored_params_well_formed [OF params_reach.set [OF params_reach.unset s]] by blast
qed

text \<open>
  C10. The hooks the interpreter runs before a creation and before a call accept exactly what the policy on the sets of listed addresses
  accepts, when the entries of the lists are written in the checksummed form: a creation is refused with an error and changes
  nothing, and a call also needs the precompile of its recipient, if any, to load.
\<close>

theorem access_control_equivalence:
  assumes "hex_laws (pc_hex E)" and "checksummed (pc_hex E) (Create control)" and "checksummed (pc_hex E) (Call control)"
  shows "run_CreateHook (evm_hooks E s control c signer) evm caller =
      (if allows (policy_of (pc_hex E) (Create control)) signer caller then Ok evm
       else Fail (ErrPlain ''caller does not have permission to deploy contracts'')) \<and>
    (is_ok (run_CallHook (evm_hooks E s control c signer) evm caller recipient) \<longleftrightarrow>
      allows (policy_of (pc_hex E) (Call control)) signer caller \<and> is_ok (GetPrecompileInstance E s c recipient))"
  using hooks_eval [of E s control c signer evm caller] caller_fn_policy [OF assms(1,2)] caller_fn_policy [OF assms(1,3)] by simp

theorem access_control_equivalence_witness:
  "(\<forall>evm :: (unit, unit, unit, unit) evm_state. run_CreateHook (evm_hooks ref_precompiles None ref_control () 5) evm 7 = Ok evm \<and>
     \<not> is_ok (run_CreateHook (evm_hooks ref_precompiles None ref_control () 5) evm 6) \<and>
     is_ok (run_CallHook (evm_hooks ref_precompiles None ref_control () 5) evm 6 3) \<and>
     \<not> is_ok (run_CallHook (evm_hooks ref_precompiles None ref_control () 8) evm 6 3))"
proof
  fix evm :: "(unit, unit, unit, unit) evm_state"
  have c: "hex_laws (pc_hex ref_precompiles)" "checksummed (pc_hex ref_precompiles) (Create ref_control)" "checksummed (pc_hex ref_precompiles) (Call ref_control)"
    using rh.hex_laws_axioms by (simp_all add: ref_precompiles_def ref_control_def checksummed_def rh.address_hex)
  have p: "policy_of (pc_hex ref_precompiles) (Create ref_control) = Only {7}" "policy_of (pc_hex ref_precompiles) (Call ref_control) = All_but {8}"
    by (simp_all add: policy_of_def ref_precompiles_def ref_control_def AccessTypePermissionless_def AccessTypePermissioned_def rh.address_hex)
  have l: "is_ok (GetPrecompileInstance ref_precompiles None () 3)"
    by (simp add: GetPrecompileInstance_def GetStaticPrecompileInstance_def IsAvailableStaticPrecompile_def ref_precompiles_def vm_GetParams_def is_ok_def)
  note w = access_control_equivalence [OF c, of None "()" _ evm, unfolded p]
  show "run_CreateHook (evm_hooks ref_precompiles None ref_control () 5) evm 7 = Ok evm \<and>
     \<not> is_ok (run_CreateHook (evm_hooks ref_precompiles None ref_control () 5) evm 6) \<and>
     is_ok (run_CallHook (evm_hooks ref_precompiles None ref_control () 5) evm 6 3) \<and>
     \<not> is_ok (run_CallHook (evm_hooks ref_precompiles None ref_control () 8) evm 6 3)"
    using w [of 5 7 3] w [of 5 6 3] w [of 8 6 3] l by (simp add: is_ok_def)
qed

end
