(* ===== verification/EvmLogs.thy ===== *)
theory EvmLogs
  imports TxData StateDB
begin

text \<open>
  The logs of a transaction in the form the module stores and returns (\<^verbatim>\<open>x/vm/types/logs.go\<close>), their conversion to and from
  those of go-ethereum, and their validation.
\<close>

record Log =
  lg_Address :: string
  lg_Topics :: "string list"
  lg_Data :: bytes
  lg_BlockNumber :: uint64
  lg_TxHash :: string
  lg_TxIndex :: uint64
  lg_BlockHash :: string
  lg_Index :: uint64
  lg_Removed :: bool

definition NewLogFromEth :: "hex_ops \<Rightarrow> eth_log \<Rightarrow> Log" where
  "NewLogFromEth H log =
     \<lparr>lg_Address = addr_Hex H (log_Address log), lg_Topics = map (hash_String H) (log_Topics log), lg_Data = log_Data log,
      lg_BlockNumber = log_BlockNumber log, lg_TxHash = hash_String H (log_TxHash log), lg_TxIndex = log_TxIndex log,
      lg_BlockHash = hash_String H (log_BlockHash log), lg_Index = log_Index log, lg_Removed = log_Removed log\<rparr>"

definition ToEthereum :: "hex_ops \<Rightarrow> Log \<Rightarrow> eth_log" where
  "ToEthereum H log =
     \<lparr>log_Address = HexToAddress H (lg_Address log), log_Topics = map (HexToHash H) (lg_Topics log), log_Data = lg_Data log,
      log_BlockNumber = lg_BlockNumber log, log_TxHash = HexToHash H (lg_TxHash log), log_BlockHash = HexToHash H (lg_BlockHash log),
      log_TxIndex = lg_TxIndex log, log_Index = lg_Index log, log_Removed = lg_Removed log\<rparr>"

definition NewLogsFromEth :: "hex_ops \<Rightarrow> eth_log list \<Rightarrow> Log list" where
  "NewLogsFromEth H ethlogs = map (NewLogFromEth H) ethlogs"

definition LogsToEthereum :: "hex_ops \<Rightarrow> Log list \<Rightarrow> eth_log list" where
  "LogsToEthereum H ls = map (ToEthereum H) ls"

definition Log_Validate :: "hex_ops \<Rightarrow> Log \<Rightarrow> unit res" where
  "Log_Validate H log =
     bind_res (case ValidateAddress H (lg_Address log) of Fail _ \<Rightarrow> Fail (ErrPlain ''invalid log address'') | r \<Rightarrow> r) (\<lambda>_.
     bind_res (require (\<not> IsEmptyHash H (lg_BlockHash log)) (ErrPlain ''block hash cannot be the empty'')) (\<lambda>_.
     bind_res (require (lg_BlockNumber log \<noteq> 0) (ErrPlain ''block number cannot be zero'')) (\<lambda>_.
     require (\<not> IsEmptyHash H (lg_TxHash log)) (ErrPlain ''tx hash cannot be the empty''))))"

record TransactionLogs =
  tl_Hash :: string
  tl_Logs :: "Log option list"

definition NewTransactionLogsFromEth :: "hex_ops \<Rightarrow> hash \<Rightarrow> eth_log list \<Rightarrow> TransactionLogs" where
  "NewTransactionLogsFromEth H hash ethlogs = \<lparr>tl_Hash = hash_String H hash, tl_Logs = map Some (NewLogsFromEth H ethlogs)\<rparr>"

definition TransactionLogs_Validate :: "hex_ops \<Rightarrow> TransactionLogs \<Rightarrow> unit res" where
  "TransactionLogs_Validate H tx =
     bind_res (require (\<not> IsEmptyHash H (tl_Hash tx)) (ErrPlain ''hash cannot be the empty'')) (\<lambda>_.
     for_each (\<lambda>log (_::unit). case log of None \<Rightarrow> Fail (ErrPlain ''log cannot be nil'')
       | Some l \<Rightarrow>
           bind_res (case Log_Validate H l of Fail _ \<Rightarrow> Fail (ErrPlain ''invalid log'') | r \<Rightarrow> r) (\<lambda>_.
           require (lg_TxHash l = tl_Hash tx) (ErrPlain ''log tx hash mismatch''))) (tl_Logs tx) ())"

context hex_laws
begin

lemma log_round_trip: "ToEthereum H (NewLogFromEth H l) = l"
  by (rule eth_log.equality) (simp_all add: ToEthereum_def NewLogFromEth_def address_hex hash_hex comp_def)

lemma logs_round_trip: "LogsToEthereum H (NewLogsFromEth H ls) = ls"
  by (simp add: LogsToEthereum_def NewLogsFromEth_def comp_def log_round_trip)

end

end
