(* ===== verification/EvmAnte.thy ===== *)
theory EvmAnte
  imports EvmParams EvmLogs CosmosAnte
begin

text \<open>
  The checks an Ethereum transaction passes before it runs: \<^verbatim>\<open>ante/evm/01_setup_ctx.go\<close> to \<^verbatim>\<open>11_emit_event.go\<close> and the
  decorator that runs them all (\<^verbatim>\<open>mono_decorator.go\<close>), the fee deduction of \<^verbatim>\<open>x/vm/keeper/fees.go\<close>, and the gas meter of
  \<^verbatim>\<open>types/gasmeter.go\<close>. The chain configuration, signers, the message of a transaction, the intrinsic gas and the
  transfer check of go-ethereum, and the account lookup and fee deduction of the SDK's ante package are fields of \<open>evm_env\<close>.
  A failing check drops what it wrote, so an error carries no context. Logging and telemetry are left out.
\<close>

section \<open>The gas meter\<close>

record infiniteGasMeterWithLimit =
  gm_consumed :: uint64
  gm_limit :: uint64

definition NewInfiniteGasMeterWithLimit :: "uint64 \<Rightarrow> infiniteGasMeterWithLimit" where
  "NewInfiniteGasMeterWithLimit limit = \<lparr>gm_consumed = 0, gm_limit = limit\<rparr>"

definition addUint64Overflow :: "uint64 \<Rightarrow> uint64 \<Rightarrow> uint64 \<times> bool" where
  "addUint64Overflow a b = (if - 1 - a < b then (0, True) else (a + b, False))"

text \<open>On overflow the meter has already been set to zero when the panic is raised, and is lost with it.\<close>

definition ConsumeGas :: "uint64 \<Rightarrow> infiniteGasMeterWithLimit \<Rightarrow> infiniteGasMeterWithLimit res" where
  "ConsumeGas amount g =
     (let (consumed, overflow) = addUint64Overflow (gm_consumed g) amount in
      if overflow then Panic ''ErrorGasOverflow'' else Ok (g\<lparr>gm_consumed := consumed\<rparr>))"

definition gm_RefundGas :: "uint64 \<Rightarrow> infiniteGasMeterWithLimit \<Rightarrow> infiniteGasMeterWithLimit res" where
  "gm_RefundGas amount g =
     (if gm_consumed g < amount then Panic ''ErrorNegativeGasConsumed'' else Ok (g\<lparr>gm_consumed := gm_consumed g - amount\<rparr>))"

definition GasRemaining :: "infiniteGasMeterWithLimit \<Rightarrow> uint64" where
  "GasRemaining g = (if gm_limit g < gm_consumed g then 0 else gm_limit g - gm_consumed g)"

definition GasConsumedToLimit :: "infiniteGasMeterWithLimit \<Rightarrow> uint64" where
  "GasConsumedToLimit g = gm_consumed g"

definition IsOutOfGas :: "infiniteGasMeterWithLimit \<Rightarrow> bool" where
  "IsOutOfGas g = False"

section \<open>Context, environment and transactions\<close>

text \<open>
  The result of an Ethereum message names the amount, the hash, the index, the gas used, the hash of the Cosmos transaction, the
  recipient and the error.
\<close>

datatype evm_event =
    FeeEvent coins
  | EthereumTxEvent string uint64
  | EthereumTxResult int string uint64 uint64 "string option" "string option" "string option"
  | TxLogEvent "Log list"
  | MessageEvent string uint8
  | BlockBloomEvent nat
  | FeeMarketEvent int

text \<open>The meter is \<open>None\<close> while it is the SDK's infinite one.\<close>

record ('s, 'b) evm_ctx =
  ec_vm :: "('s, 'b) vm_ctx"
  ec_market :: fm_state
  ec_params :: "vm_Params option"
  ec_events :: "evm_event list"
  ec_meter :: "infiniteGasMeterWithLimit option"
  ec_priority :: int

record eth_rules =
  er_IsHomestead :: bool
  er_IsIstanbul :: bool
  er_IsShanghai :: bool
  er_IsLondon :: bool

record ('s, 'a, 'b, 'v) evm_env =
  ee_keeper :: "('s, 'a, 'b, 'v) vm_keeper"
  ee_dec :: legacy_dec_ops
  ee_hex :: hex_ops
  ee_rules :: eth_rules
  ee_ChainID :: int
  ee_Protected :: "eth_data \<Rightarrow> bool"
  ee_TxChainId :: "eth_data \<Rightarrow> int"
  ee_Sender :: "eth_data \<Rightarrow> addr option"
  TransactionToMessage :: "eth_data \<Rightarrow> int option \<Rightarrow> Message res"
  IntrinsicGas :: "bytes \<Rightarrow> eth_access_list \<Rightarrow> eth_data \<Rightarrow> bool \<Rightarrow> bool \<Rightarrow> bool \<Rightarrow> bool \<Rightarrow> uint64 res"
  core_CanTransfer :: "(addr \<Rightarrow> uint256) \<Rightarrow> addr \<Rightarrow> uint256 \<Rightarrow> bool"
  GetSignerAcc :: "(address \<Rightarrow> 'a option) \<Rightarrow> address \<Rightarrow> 'a res"
  sdk_DeductFees :: "(address \<Rightarrow> string \<Rightarrow> coins \<Rightarrow> 'b pb_state \<Rightarrow> 'b pb_state res) \<Rightarrow> address \<Rightarrow> coins \<Rightarrow> 'b pb_state \<Rightarrow> 'b pb_state res"
  MinGasPricesOf :: "string \<Rightarrow> dec"
  ee_PriorityReduction :: int
  ee_IsCheckTx :: bool
  ee_IsReCheckTx :: bool
  ee_BlockGasMeter :: "uint64 option"
  ee_MaxGas :: "int option"
  ee_HeaderHash :: hash

abbreviation ee_bank :: "('s, 'a, 'b, 'v) evm_env \<Rightarrow> 'b pb_keeper" where
  "ee_bank E \<equiv> bankWrapper (ee_keeper E)"

abbreviation ee_coin :: "('s, 'a, 'b, 'v) evm_env \<Rightarrow> EvmCoinInfo" where
  "ee_coin E \<equiv> evmCoin (bankWrapper (ee_keeper E))"

text \<open>A transaction as the ante handler sees it: the outcome of the SDK's basic validation, its protobuf form if it has one, and its messages, which may be nil.\<close>

datatype tx_basic = NoValidateBasic | BasicOk | BasicNoSignatures | BasicFailed err

record tx_fee =
  tf_Amount :: coins
  tf_GasLimit :: uint64
  tf_Payer :: string
  tf_Granter :: string

record proto_tx =
  pt_Memo :: string
  pt_TimeoutHeight :: uint64
  pt_NonCriticalExtensionOptions :: nat
  pt_ExtensionOptions :: nat
  pt_SignerInfos :: nat
  pt_Fee :: "tx_fee option"
  pt_Signatures :: nat

datatype sdk_msg = EthMsg MsgEthereumTx | OtherSdkMsg

record eth_sdk_tx =
  st_basic :: tx_basic
  st_proto :: "proto_tx option"
  st_GasTx :: bool
  st_fee_gas :: "uint64 option"
  st_msgs :: "sdk_msg list option"

section \<open>Setting up\<close>

definition SetupContextAndResetTransientGas ::
  "eth_sdk_tx \<Rightarrow> ('s, 'b) evm_ctx \<Rightarrow> ('s, 'b) evm_ctx res" where
  "SetupContextAndResetTransientGas tx c =
     bind_res (require (st_GasTx tx) ErrInvalidType) (\<lambda>_.
     Ok (c\<lparr>ec_meter := None, ec_vm := ResetTransientGasUsed (ec_vm c)\<rparr>))"

record DecoratorUtils =
  du_EvmParams :: vm_Params
  du_BaseFee :: "int option"
  du_MempoolMinGasPrice :: dec
  du_GlobalMinGasPrice :: "dec option"
  du_BlockTxIndex :: uint64
  du_TxGasLimit :: uint64
  du_GasWanted :: uint64
  du_MinPriority :: int
  du_TxFee :: int

definition NewMonoDecoratorUtils :: "('s, 'a, 'b, 'v) evm_env \<Rightarrow> ('s, 'b) evm_ctx \<Rightarrow> DecoratorUtils res" where
  "NewMonoDecoratorUtils E c =
     (let baseFee = vm_GetBaseFee (ee_dec E) (ee_coin E) (er_IsLondon (ee_rules E)) (ec_market c) in
      bind_res (require (\<not> (er_IsLondon (ee_rules E) \<and> baseFee = None)) ErrInvalidBaseFee) (\<lambda>_.
      bind_res (GetMinGasPrice (ee_dec E) (ee_coin E) (ec_market c)) (\<lambda>globalMinGasPrice.
      Ok \<lparr>du_EvmParams = vm_GetParams (ec_params c), du_BaseFee = baseFee,
          du_MempoolMinGasPrice = ConvertAmountTo18DecimalsLegacy (ee_dec E) (ee_coin E) (MinGasPricesOf E (Denom (ee_coin E))),
          du_GlobalMinGasPrice = globalMinGasPrice, du_BlockTxIndex = GetTxIndexTransient (ec_vm c),
          du_TxGasLimit = 0, du_GasWanted = 0, du_MinPriority = MaxInt64, du_TxFee = 0\<rparr>)))"

section \<open>The checks\<close>

definition CheckMempoolFee :: "legacy_dec_ops \<Rightarrow> dec \<Rightarrow> dec \<Rightarrow> dec \<Rightarrow> bool \<Rightarrow> unit res" where
  "CheckMempoolFee D txfee mempoolMinGasPrice gasLimit isLondon =
     (if isLondon then Ok ()
      else require (\<not> txfee < DecMul D mempoolMinGasPrice gasLimit) ErrInsufficientFee)"

definition CheckGlobalFee :: "legacy_dec_ops \<Rightarrow> dec \<Rightarrow> dec option \<Rightarrow> dec \<Rightarrow> unit res" where
  "CheckGlobalFee D txfee globalMinGasPrice gasLimit =
     bind_res (dec_val globalMinGasPrice) (\<lambda>price.
     if price = 0 then Ok ()
     else require (\<not> txfee < DecMul D price gasLimit) ErrInsufficientFee)"

definition checkDisabledCreateCall :: "hex_ops \<Rightarrow> TxData \<Rightarrow> AccessControl \<Rightarrow> unit res" where
  "checkDisabledCreateCall H txData permissions =
     (let to_addr = tx_GetTo H txData;
          blockCreate = (AccessType (Create permissions) = AccessTypeRestricted);
          blockCall = (AccessType (Call permissions) = AccessTypeRestricted) in
      if blockCreate \<and> to_addr = None then Fail ErrCreateDisabled
      else if blockCall \<and> to_addr \<noteq> None then Fail ErrCallDisabled
      else Ok ())"

text \<open>The sender of a message is nil while its text is empty.\<close>

definition GetFrom :: "hex_ops \<Rightarrow> MsgEthereumTx \<Rightarrow> addr option" where
  "GetFrom H msg = (if msg_From msg = '''' then None else Some (HexToAddress H (msg_From msg)))"

definition ValidateMsg :: "hex_ops \<Rightarrow> vm_Params \<Rightarrow> TxData \<Rightarrow> addr option \<Rightarrow> unit res" where
  "ValidateMsg H evmParams txData from_addr =
     bind_res (require (from_addr = None) (ErrInvalidRequest ''invalid from address; expected nil'')) (\<lambda>_.
     checkDisabledCreateCall H txData (vp_AccessControl evmParams))"

definition ValidateTx :: "eth_sdk_tx \<Rightarrow> tx_fee res" where
  "ValidateTx tx =
     bind_res (case st_basic tx of BasicFailed e \<Rightarrow> Fail e | _ \<Rightarrow> Ok ()) (\<lambda>_.
     case st_proto tx of None \<Rightarrow> Fail ErrUnknownRequest
     | Some protoTx \<Rightarrow>
         bind_res (require (\<not> (pt_Memo protoTx \<noteq> '''' \<or> pt_TimeoutHeight protoTx \<noteq> 0 \<or> 0 < pt_NonCriticalExtensionOptions protoTx))
           (ErrInvalidRequest ''for eth tx body Memo TimeoutHeight NonCriticalExtensionOptions should be empty'')) (\<lambda>_.
         bind_res (require (pt_ExtensionOptions protoTx = 1)
           (ErrInvalidRequest ''for eth tx length of ExtensionOptions should be 1'')) (\<lambda>_.
         bind_res (require (\<not> 0 < pt_SignerInfos protoTx)
           (ErrInvalidRequest ''for eth tx AuthInfo SignerInfos should be empty'')) (\<lambda>_.
         case pt_Fee protoTx of None \<Rightarrow> Panic ''nil pointer''
         | Some feeInfo \<Rightarrow>
             bind_res (require (\<not> (tf_Payer feeInfo \<noteq> '''' \<or> tf_Granter feeInfo \<noteq> ''''))
               (ErrInvalidRequest ''for eth tx AuthInfo Fee payer and granter should be empty'')) (\<lambda>_.
             bind_res (require (\<not> 0 < pt_Signatures protoTx) (ErrInvalidRequest ''for eth tx Signatures should be empty'')) (\<lambda>_.
             Ok feeInfo))))))"

definition CheckTxFee :: "sdk_coins_ops \<Rightarrow> EvmCoinInfo \<Rightarrow> tx_fee option \<Rightarrow> int \<Rightarrow> uint64 \<Rightarrow> unit res" where
  "CheckTxFee S coin txFeeInfo txFee txGasLimit =
     (case txFeeInfo of None \<Rightarrow> Ok ()
      | Some info \<Rightarrow>
          bind_res (require (AmountOf S (tf_Amount info) (ExtendedDenom coin) = txFee)
            (ErrInvalidRequest ''invalid AuthInfo Fee Amount'')) (\<lambda>_.
          require (tf_GasLimit info = txGasLimit) (ErrInvalidRequest ''invalid AuthInfo Fee GasLimit'')))"

definition AsTransaction :: "hex_ops \<Rightarrow> MsgEthereumTx \<Rightarrow> eth_data option" where
  "AsTransaction H msg = map_option (tx_AsEthereumData H) (msg_Data msg)"

text \<open>The two chain ids are compared in their low 64 bits.\<close>

definition SignatureVerification :: "('s, 'a, 'b, 'v) evm_env \<Rightarrow> bool \<Rightarrow> MsgEthereumTx \<Rightarrow> MsgEthereumTx res" where
  "SignatureVerification E allowUnprotectedTxs msg =
     (case AsTransaction (ee_hex E) msg of None \<Rightarrow> Panic ''nil pointer''
      | Some ethTx \<Rightarrow>
          bind_res (if allowUnprotectedTxs then Ok ()
            else bind_res (require (ee_Protected E ethTx) ErrNotSupported) (\<lambda>_.
              require ((word_of_int (ee_TxChainId E ethTx) :: uint64) = word_of_int (ee_ChainID E)) ErrInvalidChainID)) (\<lambda>_.
          case ee_Sender E ethTx of None \<Rightarrow> Fail ErrInvalidSigner
          | Some sender \<Rightarrow> Ok (msg\<lparr>msg_From := addr_Hex (ee_hex E) sender\<rparr>)))"

definition VerifyAccountBalance ::
  "('s, 'a, 'b, 'v) evm_env \<Rightarrow> Account option \<Rightarrow> addr \<Rightarrow> TxData \<Rightarrow> ('s, 'b) evm_ctx \<Rightarrow> ('s, 'b) evm_ctx res" where
  "VerifyAccountBalance E found from_addr txData c =
     (let k = ee_keeper E; A = accountKeeper k in
      bind_res (require (\<not> (case found of None \<Rightarrow> False | Some acct \<Rightarrow> IsContract (vm_backend k) acct)) ErrInvalidType) (\<lambda>_.
      let (balance, c) = (case found of
            Some acct \<Rightarrow> (Balance acct, c)
          | None \<Rightarrow> let (acc, s) = au_NewAccountWithAddress A (addr_Bytes from_addr) (auth_state (ec_vm c)) in
              (0, c\<lparr>ec_vm := (ec_vm c)\<lparr>auth_state := au_SetAccount A acc s\<rparr>\<rparr>)) in
      bind_res (CheckSenderBalance (uint balance) txData) (\<lambda>_. Ok c)))"

definition NewEmptyTxConfig :: "hash \<Rightarrow> TxConfig" where
  "NewEmptyTxConfig bhash = \<lparr>BlockHash = bhash, TxHash = 0, TxIndex = 0, LogIndex = 0\<rparr>"

definition CanTransfer :: "('s, 'a, 'b, 'v) evm_env \<Rightarrow> Message \<Rightarrow> int option \<Rightarrow> bool \<Rightarrow> ('s, 'b) evm_ctx \<Rightarrow> unit res" where
  "CanTransfer E msg baseFee isLondon c =
     bind_res (if \<not> isLondon then Ok ()
       else case baseFee of None \<Rightarrow> Panic ''nil pointer'' | Some b \<Rightarrow> require (\<not> m_GasFeeCap msg < b) ErrInsufficientFee) (\<lambda>_.
     let stateDB = New (ec_vm c) (NewEmptyTxConfig (ee_HeaderHash E)); balance = (\<lambda>a. fst (db_GetBalance (vm_backend (ee_keeper E)) a stateDB)) in
     bind_res (Uint256FromBigInt (m_Value msg)) (\<lambda>convertedValue.
     require (\<not> (0 < m_Value msg \<and> \<not> core_CanTransfer E balance (m_From msg) convertedValue)) (ErrInsufficientFunds None)))"

section \<open>Charging for the gas\<close>

definition UpdateCumulativeGasWanted :: "bool \<Rightarrow> uint64 \<Rightarrow> uint64 \<Rightarrow> uint64 \<Rightarrow> uint64" where
  "UpdateCumulativeGasWanted isCheckTx msgGasWanted maxTxGasWanted cumulativeGasWanted =
     (if isCheckTx \<and> maxTxGasWanted \<noteq> 0
      then (if maxTxGasWanted < msgGasWanted then cumulativeGasWanted + maxTxGasWanted else cumulativeGasWanted + msgGasWanted)
      else cumulativeGasWanted + msgGasWanted)"

text \<open>The SDK's module account that holds the fees.\<close>

definition FeeCollectorName :: string where
  "FeeCollectorName = ''fee_collector''"

definition DeductTxCostsFromUserBalance ::
  "('s, 'a, 'b, 'v) evm_env \<Rightarrow> coins \<Rightarrow> addr \<Rightarrow> ('s, 'b) evm_ctx \<Rightarrow> ('s, 'b) evm_ctx res" where
  "DeductTxCostsFromUserBalance E fees from_addr c =
     (let k = ee_keeper E; A = accountKeeper k in
      bind_res (GetSignerAcc E (au_GetAccount A (auth_state (ec_vm c))) (addr_Bytes from_addr)) (\<lambda>signerAcc.
      bind_res (sdk_DeductFees E (bw_SendCoinsFromAccountToModule (bankWrapper k)) (acc_GetAddress A signerAcc) fees
        (bank_state (ec_vm c))) (\<lambda>s.
      Ok (c\<lparr>ec_vm := (ec_vm c)\<lparr>bank_state := s\<rparr>\<rparr>))))"

definition deductFees :: "('s, 'a, 'b, 'v) evm_env \<Rightarrow> coins \<Rightarrow> addr \<Rightarrow> ('s, 'b) evm_ctx \<Rightarrow> ('s, 'b) evm_ctx res" where
  "deductFees E fees feePayer c =
     (if CoinsIsZero (sdk (ee_bank E)) fees then Ok c else DeductTxCostsFromUserBalance E fees feePayer c)"

definition ConsumeFeesAndEmitEvent :: "('s, 'a, 'b, 'v) evm_env \<Rightarrow> coins \<Rightarrow> addr \<Rightarrow> ('s, 'b) evm_ctx \<Rightarrow> ('s, 'b) evm_ctx res" where
  "ConsumeFeesAndEmitEvent E fees from_addr c =
     bind_res (deductFees E fees from_addr c) (\<lambda>c. Ok (c\<lparr>ec_events := ec_events c @ [FeeEvent fees]\<rparr>))"

definition GetMsgPriority :: "int \<Rightarrow> TxData \<Rightarrow> int \<Rightarrow> int option \<Rightarrow> int res" where
  "GetMsgPriority reduction txData minPriority baseFee =
     bind_res (GetTxPriority reduction txData baseFee) (\<lambda>priority. Ok (if priority < minPriority then priority else minPriority))"

definition CheckBlockGasLimit :: "uint64 \<Rightarrow> uint64 \<Rightarrow> int \<Rightarrow> ('s, 'b) evm_ctx \<Rightarrow> ('s, 'b) evm_ctx res" where
  "CheckBlockGasLimit blockGasLimit gasWanted minPriority c =
     bind_res (require (\<not> blockGasLimit < gasWanted) ErrOutOfGas) (\<lambda>_.
     Ok (c\<lparr>ec_meter := Some (NewInfiniteGasMeterWithLimit gasWanted), ec_priority := minPriority\<rparr>))"

definition IncrementNonce :: "('s, 'a, 'b, 'v) evm_env \<Rightarrow> 'a \<Rightarrow> uint64 \<Rightarrow> ('s, 'b) evm_ctx \<Rightarrow> ('s, 'b) evm_ctx res" where
  "IncrementNonce E acc txNonce c =
     (let A = accountKeeper (ee_keeper E); nonce = acc_GetSequence A acc in
      bind_res (require (\<not> txNonce \<noteq> nonce) ErrInvalidSequence) (\<lambda>_.
      bind_res (acc_SetSequence A (nonce + 1) acc) (\<lambda>acc.
      Ok (c\<lparr>ec_vm := (ec_vm c)\<lparr>auth_state := au_SetAccount A acc (auth_state (ec_vm c))\<rparr>\<rparr>))))"

definition EmitTxHashEvent :: "MsgEthereumTx \<Rightarrow> uint64 \<Rightarrow> uint64 \<Rightarrow> ('s, 'b) evm_ctx \<Rightarrow> ('s, 'b) evm_ctx" where
  "EmitTxHashEvent msg blockTxIndex msgIndex c = c\<lparr>ec_events := ec_events c @ [EthereumTxEvent (msg_Hash msg) (blockTxIndex + msgIndex)]\<rparr>"

section \<open>The decorator\<close>

definition UnpackEthMsg :: "sdk_msg \<Rightarrow> (MsgEthereumTx \<times> TxData) res" where
  "UnpackEthMsg msg =
     (case msg of OtherSdkMsg \<Rightarrow> Fail ErrUnknownRequest
      | EthMsg m \<Rightarrow> (case msg_Data m of None \<Rightarrow> Fail (ErrPlain ''failed to unpack tx data any for tx'') | Some txData \<Rightarrow> Ok (m, txData)))"

fun IsDynamicFeeTx :: "TxData \<Rightarrow> bool" where
  "IsDynamicFeeTx (DynamicFee t) = True"
| "IsDynamicFeeTx _ = False"

fun tx_GetNonce :: "TxData \<Rightarrow> uint64" where
  "tx_GetNonce (Legacy t) = leg_Nonce t"
| "tx_GetNonce (AccessListData t) = alt_Nonce t"
| "tx_GetNonce (DynamicFee t) = dyn_Nonce t"

text \<open>The fee of a transaction against the prices of the mempool and of the chain (steps 2 and 3).\<close>

definition check_fees :: "('s, 'a, 'b, 'v) evm_env \<Rightarrow> bool \<Rightarrow> DecoratorUtils \<Rightarrow> TxData \<Rightarrow> unit res" where
  "check_fees E simulate du txData =
     (let D = ee_dec E; gasLimit = LegacyNewDec D (uint (tx_GetGas txData)) in
      bind_res (tx_Fee txData) (\<lambda>feeAmt.
      bind_res (if ee_IsCheckTx E \<and> \<not> simulate
        then CheckMempoolFee D (LegacyNewDec D feeAmt) (du_MempoolMinGasPrice du) gasLimit (er_IsLondon (ee_rules E)) else Ok ()) (\<lambda>_.
      bind_res (if IsDynamicFeeTx txData \<and> du_BaseFee du \<noteq> None then tx_EffectiveFee (du_BaseFee du) txData else Ok feeAmt) (\<lambda>feeAmt.
      CheckGlobalFee D (LegacyNewDec D feeAmt) (du_GlobalMinGasPrice du) gasLimit))))"

text \<open>One round of the loop over the messages; the message comes back with its sender filled in.\<close>

definition mono_step ::
  "('s, 'a, 'b, 'v) evm_env \<Rightarrow> uint64 \<Rightarrow> eth_sdk_tx \<Rightarrow> bool \<Rightarrow> nat \<times> sdk_msg \<Rightarrow> DecoratorUtils \<times> sdk_msg list \<times> ('s, 'b) evm_ctx \<Rightarrow>
     (DecoratorUtils \<times> sdk_msg list \<times> ('s, 'b) evm_ctx) res" where
  "mono_step E maxGasWanted tx simulate im st =
     (case (im, st) of ((i, msg), (du, seen, c)) \<Rightarrow>
      let H = ee_hex E; k = ee_keeper E; R = ee_rules E in
      bind_res (UnpackEthMsg msg) (\<lambda>(ethMsg, txData).
      bind_res (check_fees E simulate du txData) (\<lambda>_.
      bind_res (ValidateMsg H (du_EvmParams du) txData (GetFrom H ethMsg)) (\<lambda>_.
      bind_res (SignatureVerification E (AllowUnprotectedTxs (du_EvmParams du)) ethMsg) (\<lambda>ethMsg.
      let fromAddr = (case GetFrom H ethMsg of None \<Rightarrow> 0 | Some a \<Rightarrow> a) in
      bind_res (vm_GetAccount k (ec_vm c) fromAddr) (\<lambda>found.
      bind_res (VerifyAccountBalance E found fromAddr txData c) (\<lambda>c.
      bind_res (case AsTransaction H ethMsg of None \<Rightarrow> Panic ''nil pointer'' | Some t \<Rightarrow> TransactionToMessage E t (du_BaseFee du)) (\<lambda>coreMsg.
      bind_res (CanTransfer E coreMsg (du_BaseFee du) (er_IsLondon R) c) (\<lambda>_.
      bind_res (VerifyFee H (IntrinsicGas E) txData (Denom (ee_coin E)) (du_BaseFee du) (er_IsHomestead R) (er_IsIstanbul R)
        (er_IsShanghai R) (ee_IsCheckTx E)) (\<lambda>msgFees.
      bind_res (ConsumeFeesAndEmitEvent E msgFees fromAddr c) (\<lambda>c.
      bind_res (GetMsgPriority (ee_PriorityReduction E) txData (du_MinPriority du) (du_BaseFee du)) (\<lambda>minPriority.
      bind_res (tx_Fee txData) (\<lambda>msgFee.
      let gas = tx_GetGas txData;
          du = du\<lparr>du_GasWanted := UpdateCumulativeGasWanted (ee_IsCheckTx E) gas maxGasWanted (du_GasWanted du),
                  du_MinPriority := minPriority, du_TxFee := du_TxFee du + msgFee, du_TxGasLimit := du_TxGasLimit du + gas\<rparr> in
      (case au_GetAccount (accountKeeper k) (auth_state (ec_vm c)) (addr_Bytes fromAddr) of
         None \<Rightarrow> Fail (ErrUnknownAddress ''account does not exist'')
       | Some acc \<Rightarrow>
           bind_res (IncrementNonce E acc (tx_GetNonce txData) c) (\<lambda>c.
           bind_res (CheckGasWanted (block_height (ec_vm c)) (BlockGasLimit (ee_BlockGasMeter E) (ee_MaxGas E)) (st_fee_gas tx)
             (er_IsLondon R) (ec_market c)) (\<lambda>m.
           Ok (du, seen @ [EthMsg ethMsg], EmitTxHashEvent ethMsg (du_BlockTxIndex du) (of_nat i) (c\<lparr>ec_market := m\<rparr>))))))))))))))))))"

definition Mono_AnteHandle ::
  "('s, 'a, 'b, 'v) evm_env \<Rightarrow> uint64 \<Rightarrow> eth_sdk_tx \<Rightarrow> bool \<Rightarrow> (eth_sdk_tx \<Rightarrow> ('s, 'b) evm_ctx \<Rightarrow> ('s, 'b) evm_ctx res) \<Rightarrow>
     ('s, 'b) evm_ctx \<Rightarrow> ('s, 'b) evm_ctx res" where
  "Mono_AnteHandle E maxGasWanted tx simulate next_handler c =
     bind_res (if ee_IsReCheckTx E then Ok None else bind_res (ValidateTx tx) (\<lambda>f. Ok (Some f))) (\<lambda>txFeeInfo.
     bind_res (SetupContextAndResetTransientGas tx c) (\<lambda>c.
     bind_res (NewMonoDecoratorUtils E c) (\<lambda>decUtils.
     bind_res (for_each (mono_step E maxGasWanted tx simulate) (enumerate 0 (case st_msgs tx of None \<Rightarrow> [] | Some ms \<Rightarrow> ms)) (decUtils, [], c)) (\<lambda>(du, msgs, c).
     bind_res (CheckTxFee (sdk (ee_bank E)) (ee_coin E) txFeeInfo (du_TxFee du) (du_TxGasLimit du)) (\<lambda>_.
     bind_res (CheckBlockGasLimit (BlockGasLimit (ee_BlockGasMeter E) (ee_MaxGas E)) (du_GasWanted du) (du_MinPriority du) c) (\<lambda>c.
     next_handler (tx\<lparr>st_msgs := map_option (\<lambda>_. msgs) (st_msgs tx)\<rparr>) c))))))"

text \<open>The signature check, the gas reset and the events as decorators of their own.\<close>

fun verify_sigs :: "('s, 'a, 'b, 'v) evm_env \<Rightarrow> bool \<Rightarrow> sdk_msg list \<Rightarrow> sdk_msg list res" where
  "verify_sigs E allow [] = Ok []"
| "verify_sigs E allow (OtherSdkMsg # msgs) = Fail ErrUnknownRequest"
| "verify_sigs E allow (EthMsg m # msgs) =
     bind_res (SignatureVerification E allow m) (\<lambda>m. bind_res (verify_sigs E allow msgs) (\<lambda>ms. Ok (EthMsg m # ms)))"

definition EthSigVerification_AnteHandle ::
  "('s, 'a, 'b, 'v) evm_env \<Rightarrow> eth_sdk_tx \<Rightarrow> (eth_sdk_tx \<Rightarrow> ('s, 'b) evm_ctx \<Rightarrow> ('s, 'b) evm_ctx res) \<Rightarrow> ('s, 'b) evm_ctx \<Rightarrow> ('s, 'b) evm_ctx res" where
  "EthSigVerification_AnteHandle E tx next_handler c =
     (case st_msgs tx of None \<Rightarrow> Fail ErrUnknownRequest
      | Some msgs \<Rightarrow>
          bind_res (verify_sigs E (AllowUnprotectedTxs (vm_GetParams (ec_params c))) msgs) (\<lambda>msgs.
          next_handler (tx\<lparr>st_msgs := Some msgs\<rparr>) c))"

definition EthSetupContext_AnteHandle ::
  "eth_sdk_tx \<Rightarrow> (('s, 'b) evm_ctx \<Rightarrow> ('s, 'b) evm_ctx res) \<Rightarrow> ('s, 'b) evm_ctx \<Rightarrow> ('s, 'b) evm_ctx res" where
  "EthSetupContext_AnteHandle tx next_handler c = bind_res (SetupContextAndResetTransientGas tx c) next_handler"

definition EthEmitEvent_AnteHandle ::
  "eth_sdk_tx \<Rightarrow> (('s, 'b) evm_ctx \<Rightarrow> ('s, 'b) evm_ctx res) \<Rightarrow> ('s, 'b) evm_ctx \<Rightarrow> ('s, 'b) evm_ctx res" where
  "EthEmitEvent_AnteHandle tx next_handler c =
     (case st_msgs tx of None \<Rightarrow> Fail ErrUnknownRequest
      | Some msgs \<Rightarrow>
          bind_res (for_each (\<lambda>(i, msg) c'. case msg of OtherSdkMsg \<Rightarrow> Fail ErrUnknownRequest
            | EthMsg m \<Rightarrow> Ok (EmitTxHashEvent m (GetTxIndexTransient (ec_vm c)) (of_nat i) c')) (enumerate 0 msgs) c) next_handler)"

end
