(* ===== verification/StateTransition.thy ===== *)
theory StateTransition
  imports EvmAnte
begin

text \<open>
  Running an Ethereum transaction: \<^verbatim>\<open>x/vm/keeper/state_transition.go\<close>, \<^verbatim>\<open>gas.go\<close>, \<^verbatim>\<open>config.go\<close>, \<^verbatim>\<open>hooks.go\<close>, \<^verbatim>\<open>abci.go\<close>, \<^verbatim>\<open>call_evm.go\<close>,
  and the message server. The interpreter of go-ethereum (\<^verbatim>\<open>evm.Create\<close> and \<^verbatim>\<open>evm.Call\<close>) is a field of
  \<open>exec_env\<close> and gets the EVM that \<^verbatim>\<open>NewEVM\<close> builds, with its hooks, and the state database; so are the staking keeper, the
  consensus parameters and the hooks that run after a transaction. Tracers, telemetry and logging are left out. An error discards
  the context; in the code the gas meter of the failed transaction then stands at its limit.
\<close>

unbundle bit_operations_syntax

section \<open>The environment of an execution\<close>

record EVMConfig =
  cfg_Params :: vm_Params
  cfg_CoinBase :: addr
  cfg_BaseFee :: "int option"

record BlockContext =
  bc_GetHash :: "uint64 \<Rightarrow> hash"
  bc_Coinbase :: addr
  bc_GasLimit :: uint64
  bc_BlockNumber :: int
  bc_Time :: uint64
  bc_Difficulty :: int
  bc_BaseFee :: "int option"
  bc_Random :: hash

record vm_Config =
  vc_NoBaseFee :: bool
  vc_ExtraEips :: "int list"

record ('s, 'b, 'v, 'p) EVM =
  evm_Hooks :: "(('s, 'b) vm_ctx, 'v, pb_event, 'p) evm_state DefaultOpCodesHooks"
  evm_Context :: BlockContext
  evm_Origin :: addr
  evm_GasPrice :: int
  evm_Config :: vm_Config

type_synonym ('s, 'b, 'v) vm_db = "(('s, 'b) vm_ctx, 'v, pb_event) statedb"

record MsgEthereumTxResponse =
  res_Hash :: string
  res_Logs :: "Log list"
  res_Ret :: bytes
  res_VmError :: string
  res_GasUsed :: uint64

definition Failed :: "MsgEthereumTxResponse \<Rightarrow> bool" where
  "Failed m \<longleftrightarrow> 0 < length (res_VmError m)"

definition res_Return :: "MsgEthereumTxResponse \<Rightarrow> bytes option" where
  "res_Return m = (if Failed m then None else Some (res_Ret m))"

record Receipt =
  rc_Type :: uint8
  rc_CumulativeGasUsed :: uint64
  rc_Bloom :: nat
  rc_Logs :: "eth_log list"
  rc_TxHash :: hash
  rc_ContractAddress :: addr
  rc_GasUsed :: uint64
  rc_BlockHash :: hash
  rc_BlockNumber :: int
  rc_TransactionIndex :: uint64

type_synonym ('s, 'b) EvmHook = "('s, 'b) evm_ctx \<Rightarrow> addr \<Rightarrow> Message \<Rightarrow> Receipt \<Rightarrow> (('s, 'b) evm_ctx \<times> Receipt) res"

text \<open>
  \<open>CreateResult\<close> and \<open>CallResult\<close> give the returned bytes, the gas that is left, the error of the EVM, if any, and the state database;
  \<open>ReturnData\<close> is the return data of the interpreter after a revert. \<open>HistoricalHeader h\<close> is the hash of the header the staking
  keeper holds for the height \<open>h\<close>; \<open>BlockHeaderHash\<close> is the hash computed from the header in the context.
\<close>

type_synonym ('s, 'b, 'v) evm_result = "(bytes \<times> uint64 \<times> string option \<times> ('s, 'b, 'v) vm_db) res"

record ('s, 'a, 'b, 'v, 'p) exec_env =
  xe :: "('s, 'a, 'b, 'v) evm_env"
  xe_precompiles :: "(('s, 'b) vm_ctx, 'p) precompile_env"
  xe_rules :: rules
  evm_Create :: "('s, 'b, 'v, 'p) EVM \<Rightarrow> addr \<Rightarrow> bytes \<Rightarrow> uint64 \<Rightarrow> uint256 \<Rightarrow> ('s, 'b, 'v) vm_db \<Rightarrow> ('s, 'b, 'v) evm_result"
  evm_Call :: "('s, 'b, 'v, 'p) EVM \<Rightarrow> addr \<Rightarrow> addr \<Rightarrow> bytes \<Rightarrow> uint64 \<Rightarrow> uint256 \<Rightarrow> ('s, 'b, 'v) vm_db \<Rightarrow> ('s, 'b, 'v) evm_result"
  ReturnData :: "('s, 'b, 'v, 'p) EVM \<Rightarrow> ('s, 'b, 'v) vm_db \<Rightarrow> bytes"
  MessageIntrinsicGas :: "Message \<Rightarrow> bool \<Rightarrow> bool \<Rightarrow> bool \<Rightarrow> bool \<Rightarrow> uint64 res"
  ActivePrecompiles :: "('s, 'b, 'v, 'p) EVM \<Rightarrow> addr list"
  tx_Hash :: "eth_data \<Rightarrow> hash"
  CreateAddress :: "addr \<Rightarrow> uint64 \<Rightarrow> addr"
  CreateBloom :: "eth_log list \<Rightarrow> nat"
  xe_hooks :: "('s, 'b) EvmHook list option"
  GetValidatorByConsAddr :: "bytes \<Rightarrow> string option"
  ProposerAddress :: bytes
  HeaderHash :: "hash option"
  BlockHeaderHash :: "hash option"
  HistoricalHeader :: "int \<Rightarrow> hash option"
  ConsensusKeeperMaxGas :: "int option option"
  xe_BlockTime :: uint64
  TxBytesHash :: "string option"

section \<open>Configuration\<close>

definition GetProposerAddress :: "bytes \<Rightarrow> bytes \<Rightarrow> bytes" where
  "GetProposerAddress header_proposer proposerAddress = (if length proposerAddress = 0 then header_proposer else proposerAddress)"

definition GetCoinbaseAddress :: "('s, 'a, 'b, 'v, 'p) exec_env \<Rightarrow> bytes \<Rightarrow> addr res" where
  "GetCoinbaseAddress X proposerAddress =
     (case GetValidatorByConsAddr X (GetProposerAddress (ProposerAddress X) proposerAddress) of
        None \<Rightarrow> Fail (ErrPlain ''failed to retrieve validator from block proposer address'')
      | Some operator \<Rightarrow> Ok (un_be (StringToBytes operator)))"

definition load_EVMConfig :: "('s, 'a, 'b, 'v, 'p) exec_env \<Rightarrow> bytes \<Rightarrow> ('s, 'b) evm_ctx \<Rightarrow> EVMConfig res" where
  "load_EVMConfig X proposerAddress c =
     bind_res (GetCoinbaseAddress X proposerAddress) (\<lambda>coinbase.
     Ok \<lparr>cfg_Params = vm_GetParams (ec_params c), cfg_CoinBase = coinbase,
         cfg_BaseFee = vm_GetBaseFee (ee_dec (xe X)) (ee_coin (xe X)) (er_IsLondon (ee_rules (xe X))) (ec_market c)\<rparr>)"

definition load_TxConfig :: "('s, 'a, 'b, 'v, 'p) exec_env \<Rightarrow> hash \<Rightarrow> ('s, 'b) evm_ctx \<Rightarrow> TxConfig" where
  "load_TxConfig X txHash c =
     \<lparr>BlockHash = ee_HeaderHash (xe X), TxHash = txHash, TxIndex = GetTxIndexTransient (ec_vm c), LogIndex = GetLogSizeTransient (ec_vm c)\<rparr>"

definition VMConfig :: "('s, 'a, 'b, 'v, 'p) exec_env \<Rightarrow> EVMConfig \<Rightarrow> ('s, 'b) evm_ctx \<Rightarrow> vm_Config res" where
  "VMConfig X cfg c =
     bind_res (if er_IsLondon (ee_rules (xe X))
       then bind_res (fw_GetParams (ee_dec (xe X)) (ee_coin (xe X)) (ec_market c)) (\<lambda>p. Ok (NoBaseFee p)) else Ok True) (\<lambda>noBaseFee.
     Ok \<lparr>vc_NoBaseFee = noBaseFee, vc_ExtraEips = ExtraEIPs (cfg_Params cfg)\<rparr>)"

text \<open>The consensus parameters of the context, or those of the consensus keeper when the context has none.\<close>

definition SetConsensusParamsInCtx :: "('s, 'a, 'b, 'v, 'p) exec_env \<Rightarrow> int option" where
  "SetConsensusParamsInCtx X =
     (case ee_MaxGas (xe X) of Some g \<Rightarrow> Some g
      | None \<Rightarrow> (case ConsensusKeeperMaxGas X of None \<Rightarrow> None | Some g \<Rightarrow> g))"

definition GetHashFn :: "('s, 'a, 'b, 'v, 'p) exec_env \<Rightarrow> ('s, 'b) evm_ctx \<Rightarrow> uint64 \<Rightarrow> hash" where
  "GetHashFn X c height =
     (case SafeInt64 height of
        Ok h \<Rightarrow>
          if block_height (ec_vm c) = h
          then (case HeaderHash X of Some x \<Rightarrow> x | None \<Rightarrow> (case BlockHeaderHash X of None \<Rightarrow> 0 | Some x \<Rightarrow> x))
          else if h < block_height (ec_vm c) then (case HistoricalHeader X h of None \<Rightarrow> 0 | Some x \<Rightarrow> x)
          else 0
      | _ \<Rightarrow> 0)"

definition NewEVM :: "('s, 'a, 'b, 'v, 'p) exec_env \<Rightarrow> Message \<Rightarrow> EVMConfig \<Rightarrow> ('s, 'b) evm_ctx \<Rightarrow> ('s, 'b, 'v, 'p) EVM res" where
  "NewEVM X msg cfg c =
     bind_res (VMConfig X cfg c) (\<lambda>vmConfig.
     Ok \<lparr>evm_Hooks = evm_hooks (xe_precompiles X) (ec_params c) (vp_AccessControl (cfg_Params cfg)) (ec_vm c) (m_From msg),
         evm_Context = \<lparr>bc_GetHash = GetHashFn X c, bc_Coinbase = cfg_CoinBase cfg,
           bc_GasLimit = BlockGasLimit (ee_BlockGasMeter (xe X)) (SetConsensusParamsInCtx X), bc_BlockNumber = block_height (ec_vm c),
           bc_Time = xe_BlockTime X, bc_Difficulty = 0, bc_BaseFee = cfg_BaseFee cfg, bc_Random = - 1\<rparr>,
         evm_Origin = m_From msg, evm_GasPrice = m_GasPrice msg, evm_Config = vmConfig\<rparr>)"

section \<open>Gas\<close>

definition GetEthIntrinsicGas :: "('s, 'a, 'b, 'v, 'p) exec_env \<Rightarrow> Message \<Rightarrow> bool \<Rightarrow> uint64 res" where
  "GetEthIntrinsicGas X msg isContractCreation =
     (let R = ee_rules (xe X) in MessageIntrinsicGas X msg isContractCreation (er_IsHomestead R) (er_IsIstanbul R) (er_IsShanghai R))"

definition GasToRefund :: "uint64 \<Rightarrow> uint64 \<Rightarrow> uint64 \<Rightarrow> uint64" where
  "GasToRefund availableRefund gasConsumed refundQuotient =
     (let r = gasConsumed div refundQuotient in if availableRefund < r then availableRefund else r)"

definition RefundGas :: "('s, 'a, 'b, 'v) evm_env \<Rightarrow> Message \<Rightarrow> uint64 \<Rightarrow> string \<Rightarrow> ('s, 'b) evm_ctx \<Rightarrow> ('s, 'b) evm_ctx res" where
  "RefundGas E msg leftoverGas denom c =
     (let remaining = uint leftoverGas * m_GasPrice msg in
      if remaining < 0 then Fail ErrInvalidRefund
      else if 0 < remaining then
        bind_res (NewCoin (sdk (ee_bank E)) denom remaining) (\<lambda>coin.
        case bw_SendCoinsFromModuleToAccount (ee_bank E) FeeCollectorName (addr_Bytes (m_From msg)) [coin] (bank_state (ec_vm c)) of
          Ok s \<Rightarrow> Ok (c\<lparr>ec_vm := (ec_vm c)\<lparr>bank_state := s\<rparr>\<rparr>)
        | Fail _ \<Rightarrow> Fail (ErrInsufficientFunds None)
        | Panic p \<Rightarrow> Panic p)
      else Ok c)"

definition ResetGasMeterAndConsumeGas :: "uint64 \<Rightarrow> infiniteGasMeterWithLimit \<Rightarrow> infiniteGasMeterWithLimit res" where
  "ResetGasMeterAndConsumeGas gasUsed meter =
     bind_res (gm_RefundGas (gm_consumed meter) meter) (ConsumeGas gasUsed)"

text \<open>The meter of the context, which is not ours outside of an Ethereum transaction.\<close>

definition on_meter ::
  "(infiniteGasMeterWithLimit \<Rightarrow> infiniteGasMeterWithLimit res) \<Rightarrow> ('s, 'b) evm_ctx \<Rightarrow> ('s, 'b) evm_ctx res" where
  "on_meter f c = (case ec_meter c of None \<Rightarrow> Ok c | Some m \<Rightarrow> bind_res (f m) (\<lambda>m. Ok (c\<lparr>ec_meter := Some m\<rparr>)))"

definition calculateCumulativeGasFromEthResponse :: "infiniteGasMeterWithLimit option \<Rightarrow> MsgEthereumTxResponse \<Rightarrow> uint64" where
  "calculateCumulativeGasFromEthResponse meter res =
     (let cumulativeGasUsed = res_GasUsed res in
      case meter of None \<Rightarrow> cumulativeGasUsed
      | Some m \<Rightarrow>
          let cumulativeGasUsed = cumulativeGasUsed + gm_consumed m in
          if gm_limit m < cumulativeGasUsed then gm_limit m else cumulativeGasUsed)"

section \<open>Applying a message\<close>

definition is_uint64 :: "int \<Rightarrow> bool" where
  "is_uint64 i \<longleftrightarrow> 0 \<le> i \<and> i < 2 ^ 64"

text \<open>The creation or the call; a creation manages the nonce of the sender around the interpreter.\<close>

definition run_message ::
  "('s, 'a, 'b, 'v, 'p) exec_env \<Rightarrow> ('s, 'b, 'v, 'p) EVM \<Rightarrow> Message \<Rightarrow> uint64 \<Rightarrow> uint256 \<Rightarrow> ('s, 'b, 'v) vm_db \<Rightarrow> ('s, 'b, 'v) evm_result" where
  "run_message X evm msg gas convertedValue db =
     (case m_To msg of
        None \<Rightarrow>
          let K = vm_backend (ee_keeper (xe X)) in
          bind_res (evm_Create X evm (m_From msg) (m_Data msg) gas convertedValue (SetNonce K (m_From msg) (m_Nonce msg) db)) (\<lambda>(ret, leftoverGas, vmErr, db).
          Ok (ret, leftoverGas, vmErr, SetNonce K (m_From msg) (m_Nonce msg + 1) db))
      | Some dst \<Rightarrow> evm_Call X evm (m_From msg) dst (m_Data msg) gas convertedValue db)"

text \<open>
  What a message is charged: the gas the EVM used less the refund, and, but for calls of other modules, at least the share of the limit
  that the fee market asks for. The result is the gas used.
\<close>

definition charge_gas :: "('s, 'a, 'b, 'v, 'p) exec_env \<Rightarrow> uint64 \<Rightarrow> uint64 \<Rightarrow> bool \<Rightarrow> uint64 \<Rightarrow> ('s, 'b) evm_ctx \<Rightarrow> uint64 res" where
  "charge_gas X gasLimit leftoverGas internal temporaryGasUsed c =
     (let D = ee_dec (xe X) in
      bind_res (GetMinGasMultiplier D (ee_coin (xe X)) (ec_market c)) (\<lambda>m.
      bind_res (dec_val m) (\<lambda>minGasMultiplier.
      let minimumGasUsed = DecMul D (LegacyNewDec D (uint gasLimit)) minGasMultiplier in
      bind_res (require (is_uint64 (DecTruncateInt D minimumGasUsed)) ErrGasOverflow) (\<lambda>_.
      bind_res (require (\<not> gasLimit < leftoverGas) ErrGasOverflow) (\<lambda>_.
      let gasUsed = LegacyNewDec D (sint temporaryGasUsed);
          gasUsed = (if internal then gasUsed else max gasUsed minimumGasUsed) in
      bind_res (must (is_uint64 (DecTruncateInt D gasUsed)) ''Uint64() out of bounds'') (\<lambda>_.
      Ok (word_of_int (DecTruncateInt D gasUsed))))))))"

definition ApplyMessageWithConfig ::
  "('s, 'a, 'b, 'v, 'p) exec_env \<Rightarrow> Message \<Rightarrow> bool \<Rightarrow> EVMConfig \<Rightarrow> TxConfig \<Rightarrow> bool \<Rightarrow> ('s, 'b) evm_ctx \<Rightarrow>
     (MsgEthereumTxResponse \<times> ('s, 'b) evm_ctx) res" where
  "ApplyMessageWithConfig X msg commit cfg txc internal c =
     (let E = xe X; K = vm_backend (ee_keeper E); contractCreation = (m_To msg = None) in
      bind_res (NewEVM X msg cfg c) (\<lambda>evm.
      bind_res (GetEthIntrinsicGas X msg contractCreation) (\<lambda>intrinsicGas.
      bind_res (require (\<not> m_GasLimit msg < intrinsicGas) ErrIntrinsicGas) (\<lambda>_.
      bind_res (Prepare (xe_rules X) (m_From msg) 0 (m_To msg) (ActivePrecompiles X evm) (m_AccessList msg) (New (ec_vm c) txc)) (\<lambda>db.
      bind_res (Uint256FromBigInt (m_Value msg)) (\<lambda>convertedValue.
      bind_res (run_message X evm msg (m_GasLimit msg - intrinsicGas) convertedValue db) (\<lambda>(ret, leftoverGas, vmErr, db).
      let refundQuotient = (if internal then 1 else if er_IsLondon (ee_rules E) then 5 else 2) in
      bind_res (require (\<not> m_GasLimit msg < leftoverGas) ErrGasOverflow) (\<lambda>_.
      let temporaryGasUsed = m_GasLimit msg - leftoverGas;
          r = GasToRefund (refund db) temporaryGasUsed refundQuotient;
          leftoverGas = leftoverGas + r;
          temporaryGasUsed = temporaryGasUsed - r;
          vmError = (case vmErr of None \<Rightarrow> '''' | Some e \<Rightarrow> e) in
      bind_res (if commit then bind_res (Commit K db) (\<lambda>(db, e). case e of None \<Rightarrow> Ok (db, c\<lparr>ec_vm := ctx db\<rparr>) | Some e \<Rightarrow> Fail e)
                else Ok (db, c)) (\<lambda>(db, c).
      bind_res (charge_gas X (m_GasLimit msg) leftoverGas internal temporaryGasUsed c) (\<lambda>gasUsed.
      Ok (\<lparr>res_Hash = hash_String (ee_hex E) (TxHash txc), res_Logs = NewLogsFromEth (ee_hex E) (logs db),
           res_Ret = (if vmError = ''execution reverted'' then ReturnData X evm db else ret), res_VmError = vmError,
           res_GasUsed = gasUsed\<rparr>, c)))))))))))"

definition ApplyMessage ::
  "('s, 'a, 'b, 'v, 'p) exec_env \<Rightarrow> Message \<Rightarrow> bool \<Rightarrow> bool \<Rightarrow> ('s, 'b) evm_ctx \<Rightarrow> (MsgEthereumTxResponse \<times> ('s, 'b) evm_ctx) res" where
  "ApplyMessage X msg commit internal c =
     bind_res (load_EVMConfig X (ProposerAddress X) c) (\<lambda>cfg.
     ApplyMessageWithConfig X msg commit cfg (NewEmptyTxConfig (ee_HeaderHash (xe X))) internal c)"

section \<open>Applying a transaction\<close>

definition initializeBloomFromLogs :: "('s, 'a, 'b, 'v, 'p) exec_env \<Rightarrow> eth_log list \<Rightarrow> ('s, 'b) evm_ctx \<Rightarrow> nat option \<times> nat" where
  "initializeBloomFromLogs X ethLogs c =
     (if 0 < length ethLogs
      then let bloom = GetBlockBloomTransient (ec_vm c) OR CreateBloom X ethLogs in (Some bloom, bloom)
      else (None, 0))"

definition MultiEvmHooks_PostTxProcessing :: "('s, 'b) EvmHook list \<Rightarrow> ('s, 'b) EvmHook" where
  "MultiEvmHooks_PostTxProcessing mh c sender msg receipt = for_each (\<lambda>h (c, r). h c sender msg r) mh (c, receipt)"

definition vm_SetHooks :: "('s, 'b) EvmHook list \<Rightarrow> ('s, 'a, 'b, 'v, 'p) exec_env \<Rightarrow> ('s, 'a, 'b, 'v, 'p) exec_env res" where
  "vm_SetHooks eh X = bind_res (must (xe_hooks X = None) ''cannot set evm hooks twice'') (\<lambda>_. Ok (X\<lparr>xe_hooks := Some eh\<rparr>))"

definition PostTxProcessing :: "('s, 'a, 'b, 'v, 'p) exec_env \<Rightarrow> ('s, 'b) EvmHook" where
  "PostTxProcessing X c sender msg receipt =
     (case xe_hooks X of None \<Rightarrow> Ok (c, receipt) | Some mh \<Rightarrow> MultiEvmHooks_PostTxProcessing mh c sender msg receipt)"

text \<open>The events the hooks added to the cache context are emitted once by writing it and once more after that.\<close>

definition reemit :: "('s, 'b) evm_ctx \<Rightarrow> ('s, 'b) evm_ctx \<Rightarrow> ('s, 'b) evm_ctx" where
  "reemit before c =
     c\<lparr>ec_events := ec_events c @ drop (length (ec_events before)) (ec_events c),
       ec_vm := (ec_vm c)\<lparr>bank_state := (bank_state (ec_vm c))\<lparr>pb_events := pb_events (bank_state (ec_vm c)) @
         drop (length (pb_events (bank_state (ec_vm before)))) (pb_events (bank_state (ec_vm c)))\<rparr>\<rparr>\<rparr>"

text \<open>
  The part of \<^verbatim>\<open>ApplyTransaction\<close> after the message: only a transaction that neither failed nor is refused by a hook is written, and
  its response then carries the logs the hooks left in the receipt.
\<close>

definition post_process ::
  "('s, 'a, 'b, 'v, 'p) exec_env \<Rightarrow> eth_data \<Rightarrow> Message \<Rightarrow> TxConfig \<Rightarrow> nat \<Rightarrow> MsgEthereumTxResponse \<Rightarrow> ('s, 'b) evm_ctx \<Rightarrow> ('s, 'b) evm_ctx \<Rightarrow>
     (MsgEthereumTxResponse \<times> ('s, 'b) evm_ctx) res" where
  "post_process X tx msg txc bloomReceipt res tmpCtx c =
     (if Failed res then Ok (res, c)
      else
        let receipt = \<lparr>rc_Type = ed_Type tx, rc_CumulativeGasUsed = calculateCumulativeGasFromEthResponse (ec_meter c) res,
              rc_Bloom = bloomReceipt, rc_Logs = LogsToEthereum (ee_hex (xe X)) (res_Logs res), rc_TxHash = TxHash txc,
              rc_ContractAddress = (if m_To msg = None then CreateAddress X (m_From msg) (m_Nonce msg) else 0),
              rc_GasUsed = res_GasUsed res, rc_BlockHash = BlockHash txc, rc_BlockNumber = block_height (ec_vm c),
              rc_TransactionIndex = TxIndex txc\<rparr> in
        (case ee_Sender (xe X) tx of
           None \<Rightarrow> Fail (ErrPlain ''failed to extract sender address from ethereum transaction'')
         | Some signerAddr \<Rightarrow>
             (case PostTxProcessing X tmpCtx signerAddr msg receipt of
                Panic p \<Rightarrow> Panic p
              | Fail _ \<Rightarrow> Ok (res\<lparr>res_VmError := ''failed to execute post transaction processing'', res_Logs := []\<rparr>, c)
              | Ok (hookCtx, receipt) \<Rightarrow>
                  Ok (res\<lparr>res_Logs := NewLogsFromEth (ee_hex (xe X)) (rc_Logs receipt)\<rparr>, reemit tmpCtx hookCtx))))"

text \<open>The end of \<^verbatim>\<open>ApplyTransaction\<close>: the bloom, the log index and the transaction index of the block, the gas used so far and the gas meter.\<close>

definition finish_transaction ::
  "TxConfig \<Rightarrow> eth_log list \<Rightarrow> nat option \<Rightarrow> MsgEthereumTxResponse \<Rightarrow> ('s, 'b) evm_ctx \<Rightarrow> (MsgEthereumTxResponse \<times> ('s, 'b) evm_ctx) res" where
  "finish_transaction txc ethLogs bloom res c =
     (let v = ec_vm c;
          v = (if 0 < length ethLogs
               then SetLogSizeTransient (LogIndex txc + of_nat (length ethLogs))
                 (SetBlockBloomTransient (case bloom of None \<Rightarrow> 0 | Some b \<Rightarrow> b) v) else v);
          v = SetTxIndexTransient (TxIndex txc + 1) v in
      bind_res (AddTransientGasUsed (res_GasUsed res) v) (\<lambda>(totalGasUsed, v).
      bind_res (on_meter (ResetGasMeterAndConsumeGas totalGasUsed) (c\<lparr>ec_vm := v\<rparr>)) (\<lambda>c.
      Ok (res, c))))"

definition ApplyTransaction ::
  "('s, 'a, 'b, 'v, 'p) exec_env \<Rightarrow> eth_data \<Rightarrow> ('s, 'b) evm_ctx \<Rightarrow> (MsgEthereumTxResponse \<times> ('s, 'b) evm_ctx) res" where
  "ApplyTransaction X tx c =
     (let E = xe X in
      bind_res (load_EVMConfig X (ProposerAddress X) c) (\<lambda>cfg.
      let txc = load_TxConfig X (tx_Hash X tx) c in
      bind_res (TransactionToMessage E tx (cfg_BaseFee cfg)) (\<lambda>msg.
      bind_res (ApplyMessageWithConfig X msg True cfg txc False c) (\<lambda>(res, tmpCtx).
      let bloomReceipt = snd (initializeBloomFromLogs X (LogsToEthereum (ee_hex E) (res_Logs res)) c) in
      bind_res (post_process X tx msg txc bloomReceipt res tmpCtx c) (\<lambda>(res, c).
      let ethLogs = LogsToEthereum (ee_hex E) (res_Logs res);
          bloom = fst (initializeBloomFromLogs X ethLogs c);
          remainingGas = (if res_GasUsed res < m_GasLimit msg then m_GasLimit msg - res_GasUsed res else 0) in
      bind_res (RefundGas E msg remainingGas (Denom (ee_coin E)) c) (\<lambda>c.
      finish_transaction txc ethLogs bloom res c))))))"

text \<open>The message server: the transaction runs, and its result, its logs and its sender are emitted.\<close>

definition EthereumTx ::
  "('s, 'a, 'b, 'v, 'p) exec_env \<Rightarrow> MsgEthereumTx \<Rightarrow> ('s, 'b) evm_ctx \<Rightarrow> (MsgEthereumTxResponse \<times> ('s, 'b) evm_ctx) res" where
  "EthereumTx X msg c =
     (case AsTransaction (ee_hex (xe X)) msg of None \<Rightarrow> Panic ''nil pointer''
      | Some tx \<Rightarrow>
          let txIndex = GetTxIndexTransient (ec_vm c) in
          bind_res (ApplyTransaction X tx c) (\<lambda>(response, c).
          Ok (response, c\<lparr>ec_events := ec_events c @
            [EthereumTxResult (case ed_Value tx of None \<Rightarrow> 0 | Some v \<Rightarrow> v) (res_Hash response) txIndex (res_GasUsed response) (TxBytesHash X)
               (map_option (addr_Hex (ee_hex (xe X))) (ed_To tx)) (if Failed response then Some (res_VmError response) else None),
             TxLogEvent (res_Logs response), MessageEvent (msg_From msg) (ed_Type tx)]\<rparr>)))"

section \<open>Calls of other modules\<close>

definition DefaultGasCap :: uint64 where
  "DefaultGasCap = 25000000"

text \<open>
  A module may go on after a call that failed, so these two return the context they leave next to their result. An error of
  \<open>ApplyMessage\<close> leaves the context it was given.
\<close>

definition CallEVMWithData ::
  "('s, 'a, 'b, 'v, 'p) exec_env \<Rightarrow> addr \<Rightarrow> addr option \<Rightarrow> bytes \<Rightarrow> bool \<Rightarrow> ('s, 'b) evm_ctx \<Rightarrow> MsgEthereumTxResponse res \<times> ('s, 'b) evm_ctx" where
  "CallEVMWithData X from_addr contract data commit c =
     (let A = accountKeeper (ee_keeper (xe X)) in
      case au_GetAccount A (auth_state (ec_vm c)) (addr_Bytes from_addr) of
        None \<Rightarrow> (Fail (ErrUnknownAddress ''account does not exist''), c)
      | Some acc \<Rightarrow>
          let msg = \<lparr>m_From = from_addr, m_To = contract, m_Nonce = acc_GetSequence A acc, m_Value = 0, m_GasLimit = DefaultGasCap, m_GasPrice = 0,
                m_GasFeeCap = 0, m_GasTipCap = 0, m_Data = data, m_AccessList = []\<rparr> in
          (case ApplyMessage X msg commit True c of
             Fail e \<Rightarrow> (Fail e, c)
           | Panic p \<Rightarrow> (Panic p, c)
           | Ok (res, c) \<Rightarrow>
               if Failed res then
                 (case on_meter (\<lambda>m. ResetGasMeterAndConsumeGas (gm_limit m) m) c of
                    Ok c \<Rightarrow> (Fail (ErrPlain ''evm transaction execution failed''), c)
                  | Fail e \<Rightarrow> (Fail e, c)
                  | Panic p \<Rightarrow> (Panic p, c))
               else
                 (case on_meter (ConsumeGas (res_GasUsed res)) c of
                    Ok c \<Rightarrow> (Ok res, c)
                  | Fail e \<Rightarrow> (Fail e, c)
                  | Panic p \<Rightarrow> (Panic p, c))))"

text \<open>\<open>packed\<close> is the outcome of packing the arguments with the ABI.\<close>

definition CallEVM ::
  "('s, 'a, 'b, 'v, 'p) exec_env \<Rightarrow> bytes res \<Rightarrow> addr \<Rightarrow> addr \<Rightarrow> bool \<Rightarrow> ('s, 'b) evm_ctx \<Rightarrow> MsgEthereumTxResponse res \<times> ('s, 'b) evm_ctx" where
  "CallEVM X packed from_addr contract commit c =
     (case packed of
        Ok data \<Rightarrow> CallEVMWithData X from_addr (Some contract) data commit c
      | Fail _ \<Rightarrow> (Fail (ErrPlain ''contract ABI pack failed''), c)
      | Panic p \<Rightarrow> (Panic p, c))"

section \<open>Begin and end of a block\<close>

definition vm_BaseFee :: "('s, 'a, 'b, 'v) evm_env \<Rightarrow> ('s, 'b) evm_ctx \<Rightarrow> int option" where
  "vm_BaseFee E c = vm_GetBaseFee (ee_dec E) (ee_coin E) (er_IsLondon (ee_rules E)) (ec_market c)"

definition vm_BeginBlock :: "('s, 'a, 'b, 'v) evm_env \<Rightarrow> ('s, 'b) evm_ctx \<Rightarrow> ('s, 'b) evm_ctx" where
  "vm_BeginBlock E c = (case vm_BaseFee E c of None \<Rightarrow> c | Some b \<Rightarrow> c\<lparr>ec_events := ec_events c @ [FeeMarketEvent b]\<rparr>)"

definition EmitBlockBloomEvent :: "nat \<Rightarrow> ('s, 'b) evm_ctx \<Rightarrow> ('s, 'b) evm_ctx" where
  "EmitBlockBloomEvent bloom c = c\<lparr>ec_events := ec_events c @ [BlockBloomEvent bloom]\<rparr>"

definition vm_EndBlock :: "('s, 'b) evm_ctx \<Rightarrow> ('s, 'b) evm_ctx" where
  "vm_EndBlock c = EmitBlockBloomEvent (GetBlockBloomTransient (ec_vm c)) c"

end
