(* ===== verification/Erc20Registry.thy ===== *)
theory Erc20Registry
  imports StateTransition
begin

text \<open>
  The store of \<^verbatim>\<open>x/erc20\<close>: token pairs with their two indices (\<^verbatim>\<open>keeper/token_pairs.go\<close>), the allowances of the precompiled token
  contracts (\<^verbatim>\<open>keeper/allowance.go\<close>), the enabled precompiles (\<^verbatim>\<open>keeper/precompiles.go\<close>), the parameters and the checks of genesis
  (\<^verbatim>\<open>types/genesis.go\<close>). Each key prefix is a store of its own; texts stand for their bytes as keys. \<open>T\<close> is the hash \<^verbatim>\<open>tmhash.Sum\<close>.
\<close>

section \<open>Token pairs\<close>

type_synonym owner_type = int

definition OWNER_MODULE :: owner_type where "OWNER_MODULE = 1"
definition OWNER_EXTERNAL :: owner_type where "OWNER_EXTERNAL = 2"

record TokenPair =
  Erc20Address :: string
  tp_Denom :: string
  tp_Enabled :: bool
  ContractOwner :: owner_type

record Allowance =
  al_Erc20Address :: string
  al_Owner :: string
  al_Spender :: string
  al_Value :: int

record erc20_Params =
  EnableErc20 :: bool
  PermissionlessRegistration :: bool

record erc20_store =
  er_tokenPairs :: "(bytes, TokenPair) kv"
  er_byERC20 :: "(bytes, bytes) kv"
  er_byDenom :: "(string, bytes) kv"
  er_allowances :: "(bytes, Allowance) kv"
  er_native :: "(string, bytes) kv"
  er_dynamic :: "(string, bytes) kv"
  er_params :: "(string, bytes) kv"

type_synonym hash_fn = "bytes \<Rightarrow> bytes"

definition NewTokenPair :: "hex_ops \<Rightarrow> addr \<Rightarrow> string \<Rightarrow> owner_type \<Rightarrow> TokenPair" where
  "NewTokenPair H erc20Address denom contractOwner =
     \<lparr>Erc20Address = addr_Hex H erc20Address, tp_Denom = denom, tp_Enabled = True, ContractOwner = contractOwner\<rparr>"

definition GetID :: "hash_fn \<Rightarrow> TokenPair \<Rightarrow> bytes" where
  "GetID T tp = T (StringToBytes (Erc20Address tp @ ''|'' @ tp_Denom tp))"

definition GetERC20Contract :: "hex_ops \<Rightarrow> TokenPair \<Rightarrow> addr" where
  "GetERC20Contract H tp = HexToAddress H (Erc20Address tp)"

definition TokenPair_Validate :: "sdk_coins_ops \<Rightarrow> hex_ops \<Rightarrow> TokenPair \<Rightarrow> unit res" where
  "TokenPair_Validate S H tp =
     bind_res (require (ValidateDenom S (tp_Denom tp)) (ErrPlain ''invalid denom'')) (\<lambda>_. ValidateAddress H (Erc20Address tp))"

definition IsNativeCoin :: "TokenPair \<Rightarrow> bool" where
  "IsNativeCoin tp \<longleftrightarrow> ContractOwner tp = OWNER_MODULE"

definition IsNativeERC20 :: "TokenPair \<Rightarrow> bool" where
  "IsNativeERC20 tp \<longleftrightarrow> ContractOwner tp = OWNER_EXTERNAL"

text \<open>A callback that gathers a result and says when to stop.\<close>

fun iterate_values :: "('v \<Rightarrow> 'x \<Rightarrow> 'x \<times> bool) \<Rightarrow> ('k, 'v) kv \<Rightarrow> 'x \<Rightarrow> 'x" where
  "iterate_values cb [] x = x"
| "iterate_values cb ((k, v) # s) x = (let (x, stop) = cb v x in if stop then x else iterate_values cb s x)"

definition IterateTokenPairs :: "(TokenPair \<Rightarrow> 'x \<Rightarrow> 'x \<times> bool) \<Rightarrow> erc20_store \<Rightarrow> 'x \<Rightarrow> 'x" where
  "IterateTokenPairs cb s = iterate_values cb (er_tokenPairs s)"

definition GetTokenPairs :: "erc20_store \<Rightarrow> TokenPair list" where
  "GetTokenPairs s = IterateTokenPairs (\<lambda>tokenPair tokenPairs. (tokenPairs @ [tokenPair], False)) s []"

definition GetERC20Map :: "erc20_store \<Rightarrow> addr \<Rightarrow> bytes option" where
  "GetERC20Map s erc20 = kv_get (er_byERC20 s) (addr_Bytes erc20)"

definition GetDenomMap :: "erc20_store \<Rightarrow> string \<Rightarrow> bytes option" where
  "GetDenomMap s denom = kv_get (er_byDenom s) denom"

definition SetERC20Map :: "addr \<Rightarrow> bytes \<Rightarrow> erc20_store \<Rightarrow> erc20_store" where
  "SetERC20Map erc20 i s = s\<lparr>er_byERC20 := kv_set (addr_Bytes erc20) i (er_byERC20 s)\<rparr>"

definition SetDenomMap :: "string \<Rightarrow> bytes \<Rightarrow> erc20_store \<Rightarrow> erc20_store" where
  "SetDenomMap denom i s = s\<lparr>er_byDenom := kv_set denom i (er_byDenom s)\<rparr>"

definition deleteERC20Map :: "addr \<Rightarrow> erc20_store \<Rightarrow> erc20_store" where
  "deleteERC20Map erc20 s = s\<lparr>er_byERC20 := kv_delete (addr_Bytes erc20) (er_byERC20 s)\<rparr>"

definition deleteDenomMap :: "string \<Rightarrow> erc20_store \<Rightarrow> erc20_store" where
  "deleteDenomMap denom s = s\<lparr>er_byDenom := kv_delete denom (er_byDenom s)\<rparr>"

definition GetTokenPairID :: "hex_ops \<Rightarrow> erc20_store \<Rightarrow> string \<Rightarrow> bytes option" where
  "GetTokenPairID H s token = (if IsHexAddress H token then GetERC20Map s (HexToAddress H token) else GetDenomMap s token)"

definition GetTokenPair :: "erc20_store \<Rightarrow> bytes option \<Rightarrow> TokenPair option" where
  "GetTokenPair s i = (case i of None \<Rightarrow> None | Some i \<Rightarrow> kv_get (er_tokenPairs s) i)"

definition SetTokenPair :: "hash_fn \<Rightarrow> TokenPair \<Rightarrow> erc20_store \<Rightarrow> erc20_store" where
  "SetTokenPair T tokenPair s = s\<lparr>er_tokenPairs := kv_set (GetID T tokenPair) tokenPair (er_tokenPairs s)\<rparr>"

definition deleteTokenPair :: "bytes \<Rightarrow> erc20_store \<Rightarrow> erc20_store" where
  "deleteTokenPair i s = s\<lparr>er_tokenPairs := kv_delete i (er_tokenPairs s)\<rparr>"

definition IsTokenPairRegistered :: "erc20_store \<Rightarrow> bytes \<Rightarrow> bool" where
  "IsTokenPairRegistered s i \<longleftrightarrow> kv_get (er_tokenPairs s) i \<noteq> None"

definition IsERC20Registered :: "erc20_store \<Rightarrow> addr \<Rightarrow> bool" where
  "IsERC20Registered s erc20 \<longleftrightarrow> kv_get (er_byERC20 s) (addr_Bytes erc20) \<noteq> None"

definition IsDenomRegistered :: "erc20_store \<Rightarrow> string \<Rightarrow> bool" where
  "IsDenomRegistered s denom \<longleftrightarrow> kv_get (er_byDenom s) denom \<noteq> None"

definition SetToken :: "hash_fn \<Rightarrow> hex_ops \<Rightarrow> TokenPair \<Rightarrow> erc20_store \<Rightarrow> erc20_store res" where
  "SetToken T H pair s =
     (if IsDenomRegistered s (tp_Denom pair) then Fail (ErrPlain ''token already exists for denom'')
      else if IsERC20Registered s (GetERC20Contract H pair) then Fail (ErrPlain ''token already exists for token'')
      else Ok (SetERC20Map (GetERC20Contract H pair) (GetID T pair) (SetDenomMap (tp_Denom pair) (GetID T pair) (SetTokenPair T pair s))))"

section \<open>Allowances\<close>

definition AllowanceKey :: "addr \<Rightarrow> addr \<Rightarrow> addr \<Rightarrow> bytes" where
  "AllowanceKey erc20 owner spender = addr_Bytes erc20 @ addr_Bytes owner @ addr_Bytes spender"

definition NewAllowance :: "hex_ops \<Rightarrow> addr \<Rightarrow> addr \<Rightarrow> addr \<Rightarrow> int \<Rightarrow> Allowance" where
  "NewAllowance H erc20 owner spender amount =
     \<lparr>al_Erc20Address = addr_Hex H erc20, al_Owner = addr_Hex H owner, al_Spender = addr_Hex H spender, al_Value = amount\<rparr>"

definition GetAllowance :: "erc20_store \<Rightarrow> addr \<Rightarrow> addr \<Rightarrow> addr \<Rightarrow> int" where
  "GetAllowance s erc20 owner spender =
     (case kv_get (er_allowances s) (AllowanceKey erc20 owner spender) of None \<Rightarrow> 0 | Some a \<Rightarrow> al_Value a)"

definition setAllowance :: "hex_ops \<Rightarrow> addr \<Rightarrow> addr \<Rightarrow> addr \<Rightarrow> int option \<Rightarrow> bool \<Rightarrow> erc20_store \<Rightarrow> erc20_store res" where
  "setAllowance H erc20 owner spender amount allowDisabledTokenPair s =
     (case GetTokenPair s (GetERC20Map s erc20) of None \<Rightarrow> Fail (ErrPlain ''token pair for address not registered'')
      | Some tokenPair \<Rightarrow>
          bind_res (require (allowDisabledTokenPair \<or> tp_Enabled tokenPair) (ErrPlain ''token pair for address is disabled'')) (\<lambda>_.
          bind_res (require (owner \<noteq> 0) (ErrInvalidAddress ''owner address is empty'')) (\<lambda>_.
          bind_res (require (spender \<noteq> 0) (ErrInvalidAddress ''spender address is empty'')) (\<lambda>_.
          case amount of None \<Rightarrow> Fail (ErrPlain ''value is nil'')
          | Some n \<Rightarrow>
              bind_res (require (\<not> n < 0) (ErrPlain ''value is less than zero'')) (\<lambda>_.
              bind_res (require (\<not> 2 ^ 256 \<le> n) (ErrPlain ''value is greater than max value of uint256'')) (\<lambda>_.
              if n = 0 then Ok (s\<lparr>er_allowances := kv_delete (AllowanceKey erc20 owner spender) (er_allowances s)\<rparr>)
              else Ok (s\<lparr>er_allowances := kv_set (AllowanceKey erc20 owner spender) (NewAllowance H erc20 owner spender n) (er_allowances s)\<rparr>)))))))"

definition SetAllowance :: "hex_ops \<Rightarrow> addr \<Rightarrow> addr \<Rightarrow> addr \<Rightarrow> int option \<Rightarrow> erc20_store \<Rightarrow> erc20_store res" where
  "SetAllowance H erc20 owner spender amount = setAllowance H erc20 owner spender amount False"

definition DeleteAllowance :: "hex_ops \<Rightarrow> addr \<Rightarrow> addr \<Rightarrow> addr \<Rightarrow> erc20_store \<Rightarrow> erc20_store res" where
  "DeleteAllowance H erc20 owner spender = setAllowance H erc20 owner spender (Some 0) False"

definition UnsafeSetAllowance :: "hex_ops \<Rightarrow> addr \<Rightarrow> addr \<Rightarrow> addr \<Rightarrow> int option \<Rightarrow> erc20_store \<Rightarrow> erc20_store res" where
  "UnsafeSetAllowance H erc20 owner spender amount = setAllowance H erc20 owner spender amount True"

definition IterateAllowances :: "(Allowance \<Rightarrow> 'x \<Rightarrow> 'x \<times> bool) \<Rightarrow> erc20_store \<Rightarrow> 'x \<Rightarrow> 'x" where
  "IterateAllowances cb s = iterate_values cb (er_allowances s)"

definition GetAllowances :: "erc20_store \<Rightarrow> Allowance list" where
  "GetAllowances s = IterateAllowances (\<lambda>allowance allowances. (allowances @ [allowance], False)) s []"

definition deleteAllowances :: "addr \<Rightarrow> erc20_store \<Rightarrow> erc20_store" where
  "deleteAllowances erc20 s =
     (let keys = map fst (kv_prefix (addr_Bytes erc20) (er_allowances s)) in s\<lparr>er_allowances := fold kv_delete keys (er_allowances s)\<rparr>)"

definition DeleteTokenPair :: "hash_fn \<Rightarrow> hex_ops \<Rightarrow> TokenPair \<Rightarrow> erc20_store \<Rightarrow> erc20_store" where
  "DeleteTokenPair T H tokenPair s =
     deleteAllowances (GetERC20Contract H tokenPair) (deleteDenomMap (tp_Denom tokenPair)
       (deleteERC20Map (GetERC20Contract H tokenPair) (deleteTokenPair (GetID T tokenPair) s)))"

section \<open>Precompiles and parameters\<close>

definition isTrue :: bytes where
  "isTrue = StringToBytes ''0x01''"

definition IsNativePrecompileAvailable :: "hex_ops \<Rightarrow> erc20_store \<Rightarrow> addr \<Rightarrow> bool" where
  "IsNativePrecompileAvailable H s precompile \<longleftrightarrow> kv_get (er_native s) (addr_Hex H precompile) \<noteq> None"

definition SetNativePrecompile :: "hex_ops \<Rightarrow> addr \<Rightarrow> erc20_store \<Rightarrow> erc20_store" where
  "SetNativePrecompile H precompile s = s\<lparr>er_native := kv_set (addr_Hex H precompile) isTrue (er_native s)\<rparr>"

definition DeleteNativePrecompile :: "hex_ops \<Rightarrow> addr \<Rightarrow> erc20_store \<Rightarrow> erc20_store" where
  "DeleteNativePrecompile H precompile s = s\<lparr>er_native := kv_delete (addr_Hex H precompile) (er_native s)\<rparr>"

definition GetNativePrecompiles :: "erc20_store \<Rightarrow> string list" where
  "GetNativePrecompiles s = sort (map fst (er_native s))"

definition IsDynamicPrecompileAvailable :: "hex_ops \<Rightarrow> erc20_store \<Rightarrow> addr \<Rightarrow> bool" where
  "IsDynamicPrecompileAvailable H s precompile \<longleftrightarrow> kv_get (er_dynamic s) (addr_Hex H precompile) \<noteq> None"

definition SetDynamicPrecompile :: "hex_ops \<Rightarrow> addr \<Rightarrow> erc20_store \<Rightarrow> erc20_store" where
  "SetDynamicPrecompile H precompile s = s\<lparr>er_dynamic := kv_set (addr_Hex H precompile) isTrue (er_dynamic s)\<rparr>"

definition DeleteDynamicPrecompile :: "hex_ops \<Rightarrow> addr \<Rightarrow> erc20_store \<Rightarrow> erc20_store" where
  "DeleteDynamicPrecompile H precompile s = s\<lparr>er_dynamic := kv_delete (addr_Hex H precompile) (er_dynamic s)\<rparr>"

definition GetDynamicPrecompiles :: "erc20_store \<Rightarrow> string list" where
  "GetDynamicPrecompiles s = sort (map fst (er_dynamic s))"

definition IsERC20Enabled :: "erc20_store \<Rightarrow> bool" where
  "IsERC20Enabled s \<longleftrightarrow> kv_get (er_params s) ''EnableErc20'' \<noteq> None"

definition setERC20Enabled :: "bool \<Rightarrow> erc20_store \<Rightarrow> erc20_store" where
  "setERC20Enabled enable s =
     s\<lparr>er_params := if enable then kv_set ''EnableErc20'' isTrue (er_params s) else kv_delete ''EnableErc20'' (er_params s)\<rparr>"

definition isPermissionlessRegistration :: "erc20_store \<Rightarrow> bool" where
  "isPermissionlessRegistration s \<longleftrightarrow> kv_get (er_params s) ''PermissionlessRegistration'' \<noteq> None"

definition SetPermissionlessRegistration :: "bool \<Rightarrow> erc20_store \<Rightarrow> erc20_store" where
  "SetPermissionlessRegistration permissionlessRegistration s =
     s\<lparr>er_params := if permissionlessRegistration then kv_set ''PermissionlessRegistration'' isTrue (er_params s)
       else kv_delete ''PermissionlessRegistration'' (er_params s)\<rparr>"

definition erc20_GetParams :: "erc20_store \<Rightarrow> erc20_Params" where
  "erc20_GetParams s = \<lparr>EnableErc20 = IsERC20Enabled s, PermissionlessRegistration = isPermissionlessRegistration s\<rparr>"

definition erc20_SetParams :: "erc20_Params \<Rightarrow> erc20_store \<Rightarrow> erc20_store" where
  "erc20_SetParams newParams s =
     SetPermissionlessRegistration (PermissionlessRegistration newParams) (setERC20Enabled (EnableErc20 newParams) s)"

section \<open>Genesis\<close>

record erc20_genesis =
  g_Params :: erc20_Params
  g_TokenPairs :: "TokenPair list"
  g_Allowances :: "Allowance list"
  g_NativePrecompiles :: "string list"
  g_DynamicPrecompiles :: "string list"

definition erc20_DefaultGenesisState :: erc20_genesis where
  "erc20_DefaultGenesisState = \<lparr>g_Params = \<lparr>EnableErc20 = True, PermissionlessRegistration = True\<rparr>, g_TokenPairs = [], g_Allowances = [],
     g_NativePrecompiles = [], g_DynamicPrecompiles = []\<rparr>"

definition Allowance_Validate :: "hex_ops \<Rightarrow> Allowance \<Rightarrow> unit res" where
  "Allowance_Validate H a =
     bind_res (require (IsHexAddress H (al_Erc20Address a)) (ErrInvalidAddress (al_Erc20Address a))) (\<lambda>_.
     bind_res (require (IsHexAddress H (al_Owner a)) (ErrInvalidAddress (al_Owner a))) (\<lambda>_.
     bind_res (require (IsHexAddress H (al_Spender a)) (ErrInvalidAddress (al_Spender a))) (\<lambda>_.
     require (0 < al_Value a) (ErrPlain ''invalid allowance value''))))"

definition hasActiveTokenPair :: "TokenPair list \<Rightarrow> string \<Rightarrow> bool" where
  "hasActiveTokenPair pairs address \<longleftrightarrow> list_ex (\<lambda>p. Erc20Address p = address \<and> tp_Enabled p) pairs"

definition validatePrecompiles :: "TokenPair list \<Rightarrow> string list \<Rightarrow> unit res" where
  "validatePrecompiles tokenPairs precompiles =
     for_each (\<lambda>precompile (_::unit). require (hasActiveTokenPair tokenPairs precompile) (ErrPlain ''precompile address not found in token pairs'')) precompiles ()"

fun genesis_pairs :: "sdk_coins_ops \<Rightarrow> hex_ops \<Rightarrow> TokenPair list \<Rightarrow> string list \<Rightarrow> string list \<Rightarrow> string list res" where
  "genesis_pairs S H [] seenErc20 seenDenom = Ok seenErc20"
| "genesis_pairs S H (b # bs) seenErc20 seenDenom =
     bind_res (require (Erc20Address b \<notin> set seenErc20) (ErrPlain ''token ERC20 contract duplicated on genesis'')) (\<lambda>_.
     bind_res (require (tp_Denom b \<notin> set seenDenom) (ErrPlain ''coin denomination duplicated on genesis'')) (\<lambda>_.
     bind_res (TokenPair_Validate S H b) (\<lambda>_.
     genesis_pairs S H bs (Erc20Address b # seenErc20) (tp_Denom b # seenDenom))))"

fun genesis_allowances :: "hex_ops \<Rightarrow> string list \<Rightarrow> Allowance list \<Rightarrow> string list \<Rightarrow> unit res" where
  "genesis_allowances H seenErc20 [] seenAllowance = Ok ()"
| "genesis_allowances H seenErc20 (a # as) seenAllowance =
     (let key = al_Erc20Address a @ al_Owner a @ al_Spender a in
      bind_res (require (key \<notin> set seenAllowance) (ErrPlain ''duplicated allowance on genesis'')) (\<lambda>_.
      bind_res (require (al_Erc20Address a \<in> set seenErc20) (ErrPlain ''allowance has no corresponding token pair on genesis'')) (\<lambda>_.
      bind_res (Allowance_Validate H a) (\<lambda>_.
      genesis_allowances H seenErc20 as (key # seenAllowance)))))"

definition erc20_Genesis_Validate :: "sdk_coins_ops \<Rightarrow> hex_ops \<Rightarrow> erc20_genesis \<Rightarrow> unit res" where
  "erc20_Genesis_Validate S H gs =
     bind_res (genesis_pairs S H (g_TokenPairs gs) [] []) (\<lambda>seenErc20.
     bind_res (validatePrecompiles (g_TokenPairs gs) (g_DynamicPrecompiles gs)) (\<lambda>_.
     bind_res (validatePrecompiles (g_TokenPairs gs) (g_NativePrecompiles gs)) (\<lambda>_.
     genesis_allowances H seenErc20 (g_Allowances gs) [])))"

definition erc20_ExportGenesis :: "erc20_store \<Rightarrow> erc20_genesis" where
  "erc20_ExportGenesis s = \<lparr>g_Params = erc20_GetParams s, g_TokenPairs = GetTokenPairs s, g_Allowances = GetAllowances s,
     g_NativePrecompiles = GetNativePrecompiles s, g_DynamicPrecompiles = GetDynamicPrecompiles s\<rparr>"

end
