(* ===== verification/Erc20.thy ===== *)
theory Erc20
  imports Erc20Registry
begin

text \<open>
  The keeper of \<^verbatim>\<open>x/erc20\<close> on top of its store: registration of contracts and IBC coins, conversion between coins and tokens
  (\<^verbatim>\<open>keeper/msg_server.go\<close>, \<^verbatim>\<open>mint.go\<close>, \<^verbatim>\<open>proposals.go\<close>, \<^verbatim>\<open>evm.go\<close>, \<^verbatim>\<open>dynamic_precompiles.go\<close>), the callbacks of IBC transfers
  (\<^verbatim>\<open>keeper/ibc_callbacks.go\<close>) and genesis. Token contracts run in the interpreter through \<open>CallEVM\<close>; their ABI is an argument. A call gives
  a result and the context it leaves, also when it fails, since a packet callback goes on after a failed conversion. A failed bank
  operation leaves the bank as it was.
\<close>

section \<open>Calls that leave a state\<close>

type_synonym ('c, 'r) run = "'c \<Rightarrow> 'r res \<times> 'c"

definition run_bind :: "('c, 'r) run \<Rightarrow> ('r \<Rightarrow> ('c, 't) run) \<Rightarrow> ('c, 't) run" where
  "run_bind m f c = (case m c of (Ok x, c) \<Rightarrow> f x c | (Fail e, c) \<Rightarrow> (Fail e, c) | (Panic p, c) \<Rightarrow> (Panic p, c))"

definition run_ret :: "'r \<Rightarrow> ('c, 'r) run" where
  "run_ret x c = (Ok x, c)"

definition run_fail :: "err \<Rightarrow> ('c, 'r) run" where
  "run_fail e c = (Fail e, c)"

definition run_check :: "bool \<Rightarrow> err \<Rightarrow> ('c, unit) run" where
  "run_check b e = (if b then run_ret () else run_fail e)"

definition run_get :: "('c \<Rightarrow> 'r) \<Rightarrow> ('c, 'r) run" where
  "run_get f c = (Ok (f c), c)"

definition run_ask :: "('c \<Rightarrow> 'r res) \<Rightarrow> ('c, 'r) run" where
  "run_ask f c = (f c, c)"

definition run_try :: "('c \<Rightarrow> 'c res) \<Rightarrow> ('c, unit) run" where
  "run_try f c = (case f c of Ok c' \<Rightarrow> (Ok (), c') | Fail e \<Rightarrow> (Fail e, c) | Panic p \<Rightarrow> (Panic p, c))"

fun run_each :: "('x \<Rightarrow> ('c, unit) run) \<Rightarrow> 'x list \<Rightarrow> ('c, unit) run" where
  "run_each f [] = run_ret ()"
| "run_each f (x # xs) = run_bind (f x) (\<lambda>_. run_each f xs)"

section \<open>State and environment\<close>

record DenomUnit =
  du_Denom :: string
  du_Exponent :: nat

record Metadata =
  md_Description :: string
  md_Base :: string
  md_DenomUnits :: "DenomUnit list"
  md_Name :: string
  md_Symbol :: string
  md_Display :: string

datatype erc20_event =
    ConvertERC20Event string string int string string
  | RegisterERC20Event string string
  | ToggleTokenConversionEvent string string
  | RegisterERC20ExtensionEvent string string string
  | CallbackFailureEvent string address
  | FailedConvertERC20Event string string

text \<open>\<open>ex_metadata\<close> is the denom metadata of the bank.\<close>

record ('s, 'b) erc20_ctx =
  ex_evm :: "('s, 'b) evm_ctx"
  ex_store :: erc20_store
  ex_metadata :: "string \<Rightarrow> Metadata option"
  ex_events :: "erc20_event list"

datatype abi_arg = ArgAddress addr | ArgUint256 int | ArgString string | ArgUint8 uint8

record ibc_denom =
  Trace :: "(string \<times> string) list"
  Base :: string

text \<open>
  The ABI of the token contract packs a call and unpacks a result, \<open>None\<close> being an error; \<open>GetFromBech32\<close> decodes a text with the given prefix. The
  signatures of the two events and the code of a precompiled token with its hash are constants of the code.
\<close>

record ('s, 'a, 'b, 'v, 'p) erc20_env =
  ex :: "('s, 'a, 'b, 'v, 'p) exec_env"
  tmhash :: hash_fn
  abi_Pack :: "string \<Rightarrow> abi_arg list \<Rightarrow> bytes res"
  abi_UnpackBool :: "bytes \<Rightarrow> bool option"
  abi_UnpackString :: "string \<Rightarrow> bytes \<Rightarrow> string option"
  abi_UnpackUint8 :: "bytes \<Rightarrow> uint8 option"
  abi_UnpackInt :: "bytes \<Rightarrow> int option"
  ERC20Bin :: bytes
  AccAddressFromBech32 :: "string \<Rightarrow> address option"
  GetFromBech32 :: "string \<Rightarrow> string \<Rightarrow> address option"
  VerifyAddressFormat :: "address \<Rightarrow> bool"
  authority :: string
  ModuleAddress :: addr
  ParseHexHash :: "string \<Rightarrow> bytes option"
  Metadata_Validate :: "Metadata \<Rightarrow> unit res"
  logTransferSigHash :: hash
  Erc20Bytecode :: bytes
  Erc20CodeHash :: hash
  ModuleAccountAt :: "'s \<Rightarrow> address \<Rightarrow> bool"
  BondDenom :: "string res"
  NewIntFromString :: "string \<Rightarrow> int option"
  ExtractDenomFromPath :: "string \<Rightarrow> ibc_denom"
  Denom_HasPrefix :: "ibc_denom \<Rightarrow> string \<Rightarrow> string \<Rightarrow> bool"
  IBCDenom :: "ibc_denom \<Rightarrow> string"

abbreviation "er_hex E \<equiv> ee_hex (xe (ex E))"
abbreviation "er_bank E \<equiv> ee_bank (xe (ex E))"
abbreviation "er_keeper E \<equiv> ee_keeper (xe (ex E))"

definition erc20_ModuleName :: string where
  "erc20_ModuleName = ''erc20''"

definition on_pb :: "('b pb_state \<Rightarrow> 'b pb_state res) \<Rightarrow> (('s, 'b) erc20_ctx, unit) run" where
  "on_pb f = run_try (\<lambda>c. bind_res (f (bank_state (ec_vm (ex_evm c)))) (\<lambda>s.
     Ok (c\<lparr>ex_evm := (ex_evm c)\<lparr>ec_vm := (ec_vm (ex_evm c))\<lparr>bank_state := s\<rparr>\<rparr>\<rparr>)))"

definition on_store :: "(erc20_store \<Rightarrow> erc20_store res) \<Rightarrow> (('s, 'b) erc20_ctx, unit) run" where
  "on_store f = run_try (\<lambda>c. bind_res (f (ex_store c)) (\<lambda>s. Ok (c\<lparr>ex_store := s\<rparr>)))"

definition on_vm :: "(('s, 'b) vm_ctx \<Rightarrow> ('s, 'b) vm_ctx res) \<Rightarrow> (('s, 'b) erc20_ctx, unit) run" where
  "on_vm f = run_try (\<lambda>c. bind_res (f (ec_vm (ex_evm c))) (\<lambda>v. Ok (c\<lparr>ex_evm := (ex_evm c)\<lparr>ec_vm := v\<rparr>\<rparr>)))"

definition ex_emit :: "erc20_event \<Rightarrow> (('s, 'b) erc20_ctx, unit) run" where
  "ex_emit ev c = (Ok (), c\<lparr>ex_events := ex_events c @ [ev]\<rparr>)"

definition ex_balance :: "('s, 'a, 'b, 'v, 'p) erc20_env \<Rightarrow> address \<Rightarrow> string \<Rightarrow> (('s, 'b) erc20_ctx, int) run" where
  "ex_balance E a denom = run_ask (\<lambda>c. bind_res (GetBalance (er_bank E) a denom (bank_state (ec_vm (ex_evm c)))) (\<lambda>coin. Ok (snd coin)))"

section \<open>Calls of token contracts\<close>

definition ex_CallEVM ::
  "('s, 'a, 'b, 'v, 'p) erc20_env \<Rightarrow> addr \<Rightarrow> addr \<Rightarrow> bool \<Rightarrow> string \<Rightarrow> abi_arg list \<Rightarrow> (('s, 'b) erc20_ctx, MsgEthereumTxResponse) run" where
  "ex_CallEVM E from_addr contract commit method args c =
     (let (r, v) = CallEVM (ex E) (abi_Pack E method args) from_addr contract commit (ex_evm c) in (r, c\<lparr>ex_evm := v\<rparr>))"

definition ex_CallEVMWithData ::
  "('s, 'a, 'b, 'v, 'p) erc20_env \<Rightarrow> addr \<Rightarrow> addr option \<Rightarrow> bytes \<Rightarrow> bool \<Rightarrow> (('s, 'b) erc20_ctx, MsgEthereumTxResponse) run" where
  "ex_CallEVMWithData E from_addr contract data commit c =
     (let (r, v) = CallEVMWithData (ex E) from_addr contract data commit (ex_evm c) in (r, c\<lparr>ex_evm := v\<rparr>))"

text \<open>A balance that cannot be read is \<open>None\<close>.\<close>

definition BalanceOf :: "('s, 'a, 'b, 'v, 'p) erc20_env \<Rightarrow> addr \<Rightarrow> addr \<Rightarrow> (('s, 'b) erc20_ctx, int option) run" where
  "BalanceOf E contract a c =
     (case ex_CallEVM E (ModuleAddress E) contract False ''balanceOf'' [ArgAddress a] c of
        (Ok res, c) \<Rightarrow> (Ok (abi_UnpackInt E (res_Ret res)), c)
      | (Fail _, c) \<Rightarrow> (Ok None, c)
      | (Panic p, c) \<Rightarrow> (Panic p, c))"

definition Bytes32ToString :: "bytes \<Rightarrow> string" where
  "Bytes32ToString data = map (\<lambda>b. char_of (unat b)) (takeWhile (\<lambda>b. b \<noteq> 0) data)"

definition queryERC20String :: "('s, 'a, 'b, 'v, 'p) erc20_env \<Rightarrow> addr \<Rightarrow> string \<Rightarrow> (('s, 'b) erc20_ctx, string) run" where
  "queryERC20String E contract method =
     run_bind (ex_CallEVM E (ModuleAddress E) contract False method []) (\<lambda>res.
     case abi_UnpackString E method (res_Ret res) of
       Some t \<Rightarrow> run_ret t
     | None \<Rightarrow> if length (res_Ret res) = 32 then run_ret (Bytes32ToString (res_Ret res))
               else run_fail (ErrPlain ''failed to unpack as both string and raw bytes32''))"

record ERC20Data =
  d_Name :: string
  d_Symbol :: string
  d_Decimals :: uint8

definition QueryERC20 :: "('s, 'a, 'b, 'v, 'p) erc20_env \<Rightarrow> addr \<Rightarrow> (('s, 'b) erc20_ctx, ERC20Data) run" where
  "QueryERC20 E contract =
     run_bind (queryERC20String E contract ''name'') (\<lambda>name.
     run_bind (queryERC20String E contract ''symbol'') (\<lambda>symbol.
     run_bind (ex_CallEVM E (ModuleAddress E) contract False ''decimals'' []) (\<lambda>res.
     case abi_UnpackUint8 E (res_Ret res) of
       None \<Rightarrow> run_fail (ErrPlain ''failed to unpack decimals'')
     | Some d \<Rightarrow> run_ret \<lparr>d_Name = name, d_Symbol = symbol, d_Decimals = d\<rparr>)))"

definition DeployERC20Contract :: "('s, 'a, 'b, 'v, 'p) erc20_env \<Rightarrow> Metadata \<Rightarrow> (('s, 'b) erc20_ctx, addr) run" where
  "DeployERC20Contract E coinMetadata =
     (let decimals = (if md_DenomUnits coinMetadata = [] then 0 else of_nat (du_Exponent (last (md_DenomUnits coinMetadata)))) in
      case abi_Pack E [] [ArgString (md_Name coinMetadata), ArgString (md_Symbol coinMetadata), ArgUint8 decimals] of
        Fail _ \<Rightarrow> run_fail (ErrPlain ''coin metadata is invalid'')
      | Panic p \<Rightarrow> (\<lambda>c. (Panic p, c))
      | Ok ctorArgs \<Rightarrow>
          let A = accountKeeper (er_keeper E) in
          run_bind (run_get (\<lambda>c. au_GetAccount A (auth_state (ec_vm (ex_evm c))) (addr_Bytes (ModuleAddress E)))) (\<lambda>acc.
          case acc of None \<Rightarrow> run_fail (ErrUnknownAddress ''account does not exist'')
          | Some acc \<Rightarrow>
              let contractAddr = CreateAddress (ex E) (ModuleAddress E) (acc_GetSequence A acc) in
              run_bind (ex_CallEVMWithData E (ModuleAddress E) None (ERC20Bin E @ ctorArgs) True) (\<lambda>_. run_ret contractAddr)))"

text \<open>The first topic of a log that has none is an index out of range.\<close>

fun transfer_event :: "('s, 'a, 'b, 'v, 'p) erc20_env \<Rightarrow> addr \<Rightarrow> Log list \<Rightarrow> bool \<Rightarrow> unit res" where
  "transfer_event E tokenAddress [] found = require found (ErrPlain ''expected Transfer event'')"
| "transfer_event E tokenAddress (l # ls) found =
     (case lg_Topics l of [] \<Rightarrow> Panic ''index out of range''
      | t # _ \<Rightarrow>
          if t = hash_String (er_hex E) (logTransferSigHash E) then
            if lg_Address l \<noteq> addr_Hex (er_hex E) tokenAddress then Fail (ErrPlain ''Transfer event from unexpected address'')
            else if found then Fail (ErrPlain ''duplicate Transfer event'')
            else transfer_event E tokenAddress ls True
          else transfer_event E tokenAddress ls found)"

definition validateTransferEventExists :: "('s, 'a, 'b, 'v, 'p) erc20_env \<Rightarrow> Log list \<Rightarrow> addr \<Rightarrow> unit res" where
  "validateTransferEventExists E ls tokenAddress =
     (if length ls = 0 then Fail (ErrPlain ''expected Transfer event'') else transfer_event E tokenAddress ls False)"

text \<open>The check of the result of a transfer that both conversions make.\<close>

definition check_transfer :: "('s, 'a, 'b, 'v, 'p) erc20_env \<Rightarrow> addr \<Rightarrow> MsgEthereumTxResponse \<Rightarrow> unit res" where
  "check_transfer E contract res =
     (if length (res_Ret res) = 0 then validateTransferEventExists E (res_Logs res) contract
      else case abi_UnpackBool E (res_Ret res) of
        None \<Rightarrow> Fail (ErrPlain ''abi: cannot unmarshal'')
      | Some b \<Rightarrow> require b (ErrPlain ''failed to execute transfer''))"

section \<open>Conversion\<close>

record MsgConvertERC20 =
  ce_ContractAddress :: string
  ce_Amount :: int
  ce_Receiver :: string
  ce_Sender :: string

record MsgConvertCoin =
  cc_Denom :: string
  cc_Amount :: int
  cc_Receiver :: string
  cc_Sender :: string

definition MsgConvertERC20_ValidateBasic :: "('s, 'a, 'b, 'v, 'p) erc20_env \<Rightarrow> MsgConvertERC20 \<Rightarrow> unit res" where
  "MsgConvertERC20_ValidateBasic E msg =
     bind_res (require (IsHexAddress (er_hex E) (ce_ContractAddress msg)) (ErrInvalidAddress (ce_ContractAddress msg))) (\<lambda>_.
     bind_res (require (0 < ce_Amount msg) ErrInvalidCoins) (\<lambda>_.
     bind_res (require (AccAddressFromBech32 E (ce_Receiver msg) \<noteq> None) (ErrPlain ''invalid receiver address'')) (\<lambda>_.
     require (IsHexAddress (er_hex E) (ce_Sender msg)) (ErrInvalidAddress (ce_Sender msg)))))"

definition MsgConvertCoin_ValidateBasic :: "('s, 'a, 'b, 'v, 'p) erc20_env \<Rightarrow> MsgConvertCoin \<Rightarrow> unit res" where
  "MsgConvertCoin_ValidateBasic E msg =
     bind_res (require (length (cc_Denom msg) \<noteq> 0) ErrInvalidCoins) (\<lambda>_.
     bind_res (require (0 < cc_Amount msg) ErrInvalidCoins) (\<lambda>_.
     bind_res (require (AccAddressFromBech32 E (cc_Sender msg) \<noteq> None) (ErrPlain ''invalid sender address'')) (\<lambda>_.
     require (IsHexAddress (er_hex E) (cc_Receiver msg)) (ErrInvalidAddress (cc_Receiver msg)))))"

text \<open>The coin whose sending is checked has a nil amount, which the bank only reads for the extended denomination.\<close>

definition MintingEnabled :: "('s, 'a, 'b, 'v, 'p) erc20_env \<Rightarrow> address \<Rightarrow> address \<Rightarrow> string \<Rightarrow> (('s, 'b) erc20_ctx, TokenPair) run" where
  "MintingEnabled E sender receiver token = run_ask (\<lambda>c.
     let s = ex_store c; i = GetTokenPairID (er_hex E) s token in
     bind_res (require (IsERC20Enabled s) (ErrPlain ''module is currently disabled by governance'')) (\<lambda>_.
     bind_res (require (\<not> (i = None \<or> i = Some [])) (ErrPlain ''token not registered by id'')) (\<lambda>_.
     case GetTokenPair s i of None \<Rightarrow> Fail (ErrPlain ''token not registered'')
     | Some pair \<Rightarrow>
         bind_res (require (tp_Enabled pair) (ErrPlain ''minting token is not enabled by governance'')) (\<lambda>_.
         bind_res (require (\<not> bk_BlockedAddr (bk (er_bank E)) receiver) (ErrUnauthorized ''not allowed to receive transactions'')) (\<lambda>_.
         bind_res (if sender = receiver then Ok True
           else if tp_Denom pair = ExtendedCoinDenom (er_bank E) then Panic ''nil pointer''
           else IsSendEnabledCoin (er_bank E) (tp_Denom pair, 0) (bank_state (ec_vm (ex_evm c)))) (\<lambda>enabled.
         bind_res (require enabled ErrSendDisabled) (\<lambda>_.
         Ok pair)))))))"

text \<open>The account of a contract, without its balance, is missing or has no code.\<close>

definition selfdestructed :: "('s, 'a, 'b, 'v, 'p) erc20_env \<Rightarrow> addr \<Rightarrow> ('s, 'b) erc20_ctx \<Rightarrow> bool" where
  "selfdestructed E contract c =
     (case GetAccountWithoutBalance (er_keeper E) (ec_vm (ex_evm c)) contract of
        None \<Rightarrow> True | Some (nonce, codeHash) \<Rightarrow> IsEmptyCodeHash (vm_backend (er_keeper E)) codeHash)"

definition convertERC20IntoCoinsForNativeToken ::
  "('s, 'a, 'b, 'v, 'p) erc20_env \<Rightarrow> TokenPair \<Rightarrow> MsgConvertERC20 \<Rightarrow> address \<Rightarrow> addr \<Rightarrow> (('s, 'b) erc20_ctx, unit) run" where
  "convertERC20IntoCoinsForNativeToken E pair msg receiver sender =
     (let contract = GetERC20Contract (er_hex E) pair; coins = [(tp_Denom pair, ce_Amount msg)] in
      run_bind (ex_balance E receiver (tp_Denom pair)) (\<lambda>balanceCoin.
      run_bind (BalanceOf E contract (ModuleAddress E)) (\<lambda>before. case before of None \<Rightarrow> run_fail (ErrPlain ''failed to retrieve balance'')
      | Some balanceToken \<Rightarrow>
          run_bind (run_ask (\<lambda>_. abi_Pack E ''transfer'' [ArgAddress (ModuleAddress E), ArgUint256 (ce_Amount msg)])) (\<lambda>transferData.
          run_bind (ex_CallEVMWithData E sender (Some contract) transferData True) (\<lambda>res.
          run_bind (run_ask (\<lambda>_. check_transfer E contract res)) (\<lambda>_.
          run_bind (BalanceOf E contract (ModuleAddress E)) (\<lambda>after. case after of None \<Rightarrow> run_fail (ErrPlain ''failed to retrieve balance'')
          | Some balanceTokenAfter \<Rightarrow>
              run_bind (run_check (balanceTokenAfter = balanceToken + ce_Amount msg) (ErrPlain ''invalid token balance'')) (\<lambda>_.
              run_bind (on_pb (MintCoins (er_bank E) erc20_ModuleName coins)) (\<lambda>_.
              run_bind (on_pb (SendCoinsFromModuleToAccount (er_bank E) erc20_ModuleName receiver coins)) (\<lambda>_.
              run_bind (ex_balance E receiver (tp_Denom pair)) (\<lambda>balanceCoinAfter.
              run_bind (run_check (balanceCoinAfter = balanceCoin + ce_Amount msg) (ErrPlain ''invalid coin balance'')) (\<lambda>_.
              ex_emit (ConvertERC20Event (ce_Sender msg) (ce_Receiver msg) (ce_Amount msg) (tp_Denom pair) (ce_ContractAddress msg))))))))))))))"

definition ConvertERC20 :: "('s, 'a, 'b, 'v, 'p) erc20_env \<Rightarrow> MsgConvertERC20 \<Rightarrow> (('s, 'b) erc20_ctx, unit) run" where
  "ConvertERC20 E msg =
     (case AccAddressFromBech32 E (ce_Receiver msg) of None \<Rightarrow> (\<lambda>c. (Panic ''invalid bech32 address'', c))
      | Some receiver \<Rightarrow>
          let sender = HexToAddress (er_hex E) (ce_Sender msg) in
          run_bind (MintingEnabled E (addr_Bytes sender) receiver (ce_ContractAddress msg)) (\<lambda>pair.
          if IsNativeERC20 pair then
            run_bind (run_get (selfdestructed E (GetERC20Contract (er_hex E) pair))) (\<lambda>gone.
            if gone then on_store (\<lambda>s. Ok (DeleteTokenPair (tmhash E) (er_hex E) pair s))
            else convertERC20IntoCoinsForNativeToken E pair msg receiver sender)
          else if IsNativeCoin pair then run_fail (ErrPlain ''native coins manual conversion is disabled'')
          else run_fail (ErrPlain ''undefined owner of contract pair'')))"

definition ConvertCoinNativeERC20 ::
  "('s, 'a, 'b, 'v, 'p) erc20_env \<Rightarrow> TokenPair \<Rightarrow> int \<Rightarrow> addr \<Rightarrow> address \<Rightarrow> (('s, 'b) erc20_ctx, unit) run" where
  "ConvertCoinNativeERC20 E pair amount receiver sender =
     (let contract = GetERC20Contract (er_hex E) pair; coins = [(tp_Denom pair, amount)] in
      run_bind (run_check (0 < amount) (ErrPlain ''converted coin amount must be positive'')) (\<lambda>_.
      run_bind (BalanceOf E contract receiver) (\<lambda>before. case before of None \<Rightarrow> run_fail (ErrPlain ''failed to retrieve balance'')
      | Some balanceToken \<Rightarrow>
          run_bind (on_pb (SendCoinsFromAccountToModule (er_bank E) sender erc20_ModuleName coins)) (\<lambda>_.
          run_bind (ex_CallEVM E (ModuleAddress E) contract True ''transfer'' [ArgAddress receiver, ArgUint256 amount]) (\<lambda>res.
          run_bind (run_ask (\<lambda>_. check_transfer E contract res)) (\<lambda>_.
          run_bind (BalanceOf E contract receiver) (\<lambda>after. case after of None \<Rightarrow> run_fail (ErrPlain ''failed to retrieve balance'')
          | Some balanceTokenAfter \<Rightarrow>
              run_bind (run_check (balanceTokenAfter = balanceToken + amount) (ErrPlain ''invalid token balance'')) (\<lambda>_.
              on_pb (BurnCoins (er_bank E) erc20_ModuleName coins)))))))))"

definition ConvertCoin :: "('s, 'a, 'b, 'v, 'p) erc20_env \<Rightarrow> MsgConvertCoin \<Rightarrow> (('s, 'b) erc20_ctx, unit) run" where
  "ConvertCoin E msg =
     (case AccAddressFromBech32 E (cc_Sender msg) of None \<Rightarrow> (\<lambda>c. (Panic ''invalid bech32 address'', c))
      | Some sender \<Rightarrow>
          let receiver = HexToAddress (er_hex E) (cc_Receiver msg) in
          run_bind (MintingEnabled E sender (addr_Bytes receiver) (cc_Denom msg)) (\<lambda>pair.
          if IsNativeERC20 pair then
            run_bind (run_get (selfdestructed E (GetERC20Contract (er_hex E) pair))) (\<lambda>gone.
            if gone then on_store (\<lambda>s. Ok (DeleteTokenPair (tmhash E) (er_hex E) pair s))
            else ConvertCoinNativeERC20 E pair (cc_Amount msg) receiver sender)
          else if IsNativeCoin pair then run_fail (ErrPlain ''native coins manual conversion is disabled'')
          else run_fail (ErrPlain ''undefined owner of contract pair'')))"

section \<open>Registration\<close>

definition validateAuthority :: "('s, 'a, 'b, 'v, 'p) erc20_env \<Rightarrow> string \<Rightarrow> unit res" where
  "validateAuthority E a =
     bind_res (require (AccAddressFromBech32 E a \<noteq> None) (ErrInvalidAddress a)) (\<lambda>_. require (authority E = a) ErrInvalidSigner)"

definition erc20_UpdateParams :: "('s, 'a, 'b, 'v, 'p) erc20_env \<Rightarrow> string \<Rightarrow> erc20_Params \<Rightarrow> (('s, 'b) erc20_ctx, unit) run" where
  "erc20_UpdateParams E req_authority params =
     run_bind (run_check (authority E = req_authority) ErrInvalidSigner) (\<lambda>_. on_store (\<lambda>s. Ok (erc20_SetParams params s)))"

definition Erc20NativeCoinDenomPrefix :: string where
  "Erc20NativeCoinDenomPrefix = ''erc20:''"

definition CreateDenom :: "string \<Rightarrow> string" where
  "CreateDenom address = Erc20NativeCoinDenomPrefix @ address"

definition CreateDenomDescription :: "string \<Rightarrow> string" where
  "CreateDenomDescription address = ''Cosmos coin token representation of '' @ address"

text \<open>
  The two regular expressions: digits at the start of a line; a first character that is no letter, and any character that is neither a letter, a digit nor one of
  \<^verbatim>\<open>/:-\<close>.
\<close>

definition is_digit :: "char \<Rightarrow> bool" where
  "is_digit ch \<longleftrightarrow> CHR ''0'' \<le> ch \<and> ch \<le> CHR ''9''"

definition is_letter :: "char \<Rightarrow> bool" where
  "is_letter ch \<longleftrightarrow> (CHR ''A'' \<le> ch \<and> ch \<le> CHR ''Z'') \<or> (CHR ''a'' \<le> ch \<and> ch \<le> CHR ''z'')"

fun strip_digits :: "bool \<Rightarrow> string \<Rightarrow> string" where
  "strip_digits line_start [] = []"
| "strip_digits line_start (ch # t) =
     (if line_start \<and> is_digit ch then strip_digits True t else ch # strip_digits (ch = CHR 0x0A) t)"

definition removeLeadingNumbers :: "string \<Rightarrow> string" where
  "removeLeadingNumbers str = strip_digits True str"

definition removeSpecialChars :: "string \<Rightarrow> string" where
  "removeSpecialChars str =
     (case str of [] \<Rightarrow> []
      | ch # t \<Rightarrow> (if is_letter ch then [ch] else []) @ filter (\<lambda>ch. is_letter ch \<or> is_digit ch \<or> ch \<in> set ''/:-'') t)"

function removeInvalidPrefixes :: "string \<Rightarrow> string" where
  "removeInvalidPrefixes str =
     (if take 4 str = ''ibc/'' then removeInvalidPrefixes (drop 4 str)
      else if take 6 str = ''erc20/'' then removeInvalidPrefixes (drop 6 str)
      else if take 6 str = ''erc20:'' then removeInvalidPrefixes (drop 6 str)
      else str)"
  by pat_completeness auto
termination
  by (relation "measure length") (auto dest: arg_cong [where f = length])

definition SanitizeERC20Name :: "string \<Rightarrow> string" where
  "SanitizeERC20Name name =
     (let name = removeSpecialChars (removeLeadingNumbers name);
          name = (if 128 < length name then take 128 name else name) in
      removeInvalidPrefixes name)"

definition CreateCoinMetadata :: "('s, 'a, 'b, 'v, 'p) erc20_env \<Rightarrow> addr \<Rightarrow> (('s, 'b) erc20_ctx, Metadata) run" where
  "CreateCoinMetadata E contract =
     (let strContract = addr_Hex (er_hex E) contract; base = CreateDenom strContract in
      run_bind (QueryERC20 E contract) (\<lambda>erc20Data.
      run_bind (run_get (\<lambda>c. ex_metadata c base \<noteq> None)) (\<lambda>found.
      run_bind (run_check (\<not> found) (ErrPlain ''denom metadata already registered'')) (\<lambda>_.
      run_bind (run_get (\<lambda>c. IsDenomRegistered (ex_store c) base)) (\<lambda>registered.
      run_bind (run_check (\<not> registered) (ErrPlain ''coin denomination already registered'')) (\<lambda>_.
      let metadata = \<lparr>md_Description = CreateDenomDescription strContract, md_Base = base, md_DenomUnits = [\<lparr>du_Denom = base, du_Exponent = 0\<rparr>],
            md_Name = base, md_Symbol = d_Symbol erc20Data, md_Display = base\<rparr>;
          metadata = (if 0 < d_Decimals erc20Data
            then let nameSanitized = SanitizeERC20Name (d_Name erc20Data) in
              metadata\<lparr>md_DenomUnits := md_DenomUnits metadata @ [\<lparr>du_Denom = nameSanitized, du_Exponent = unat (d_Decimals erc20Data)\<rparr>],
                md_Display := nameSanitized\<rparr>
            else metadata) in
      run_bind (run_ask (\<lambda>_. Metadata_Validate E metadata)) (\<lambda>_.
      run_bind (run_try (\<lambda>c. Ok (c\<lparr>ex_metadata := (ex_metadata c)(md_Base metadata \<mapsto> metadata)\<rparr>))) (\<lambda>_.
      run_ret metadata))))))))"

definition registerERC20 :: "('s, 'a, 'b, 'v, 'p) erc20_env \<Rightarrow> addr \<Rightarrow> (('s, 'b) erc20_ctx, TokenPair) run" where
  "registerERC20 E contract =
     run_bind (run_get (\<lambda>c. IsERC20Registered (ex_store c) contract)) (\<lambda>registered.
     run_bind (run_check (\<not> registered) (ErrPlain ''token ERC20 contract already registered'')) (\<lambda>_.
     run_bind (CreateCoinMetadata E contract) (\<lambda>metadata.
     let pair = NewTokenPair (er_hex E) contract (md_Name metadata) OWNER_EXTERNAL in
     run_bind (on_store (SetToken (tmhash E) (er_hex E) pair)) (\<lambda>_.
     run_ret pair))))"

definition RegisterERC20 :: "('s, 'a, 'b, 'v, 'p) erc20_env \<Rightarrow> string \<Rightarrow> string list \<Rightarrow> (('s, 'b) erc20_ctx, unit) run" where
  "RegisterERC20 E signer erc20Addresses =
     run_bind (run_get (\<lambda>c. erc20_GetParams (ex_store c))) (\<lambda>params.
     run_bind (run_ask (\<lambda>_. if PermissionlessRegistration params then Ok () else validateAuthority E signer)) (\<lambda>_.
     run_bind (run_get (\<lambda>c. IsERC20Enabled (ex_store c))) (\<lambda>enabled.
     run_bind (run_check enabled (ErrPlain ''registration is currently disabled by governance'')) (\<lambda>_.
     run_each (\<lambda>a.
       run_bind (run_check (IsHexAddress (er_hex E) a) (ErrInvalidAddress a)) (\<lambda>_.
       run_bind (registerERC20 E (HexToAddress (er_hex E) a)) (\<lambda>pair.
       ex_emit (RegisterERC20Event (tp_Denom pair) (Erc20Address pair))))) erc20Addresses))))"

definition toggleConversion :: "('s, 'a, 'b, 'v, 'p) erc20_env \<Rightarrow> string \<Rightarrow> (('s, 'b) erc20_ctx, TokenPair) run" where
  "toggleConversion E token =
     run_bind (run_get (\<lambda>c. GetTokenPairID (er_hex E) (ex_store c) token)) (\<lambda>i.
     run_bind (run_check (\<not> (i = None \<or> i = Some [])) (ErrPlain ''token not registered by id'')) (\<lambda>_.
     run_bind (run_get (\<lambda>c. GetTokenPair (ex_store c) i)) (\<lambda>found. case found of None \<Rightarrow> run_fail (ErrPlain ''token not registered'')
     | Some pair \<Rightarrow>
         let pair = pair\<lparr>tp_Enabled := \<not> tp_Enabled pair\<rparr> in
         run_bind (on_store (\<lambda>s. Ok (SetTokenPair (tmhash E) pair s))) (\<lambda>_.
         run_ret pair))))"

definition ToggleConversion :: "('s, 'a, 'b, 'v, 'p) erc20_env \<Rightarrow> string \<Rightarrow> string \<Rightarrow> (('s, 'b) erc20_ctx, unit) run" where
  "ToggleConversion E req_authority token =
     run_bind (run_get (\<lambda>c. IsERC20Enabled (ex_store c))) (\<lambda>enabled.
     run_bind (run_check enabled (ErrPlain ''toggle conversion is currently disabled by governance'')) (\<lambda>_.
     run_bind (run_ask (\<lambda>_. validateAuthority E req_authority)) (\<lambda>_.
     run_bind (toggleConversion E token) (\<lambda>pair.
     ex_emit (ToggleTokenConversionEvent (tp_Denom pair) (Erc20Address pair))))))"

section \<open>Precompiles of IBC coins\<close>

definition is_space :: "char \<Rightarrow> bool" where
  "is_space ch \<longleftrightarrow> of_char ch \<in> {9, 10, 11, 12, 13, 32 :: nat}"

definition GetIBCDenomAddress :: "('s, 'a, 'b, 'v, 'p) erc20_env \<Rightarrow> string \<Rightarrow> addr res" where
  "GetIBCDenomAddress E denom =
     (if take 4 denom \<noteq> ''ibc/'' then Fail (ErrPlain ''invalid denomination for cross-chain transfer'')
      else if length denom < 5 \<or> list_all is_space (drop 4 denom) then Fail (ErrPlain ''invalid denomination for cross-chain transfer'')
      else case ParseHexHash E (drop 4 denom) of
        None \<Rightarrow> Fail (ErrPlain ''invalid denomination for cross-chain transfer'')
      | Some bz \<Rightarrow> Ok (un_be bz))"

definition NewTokenPairSTRv2 :: "('s, 'a, 'b, 'v, 'p) erc20_env \<Rightarrow> string \<Rightarrow> TokenPair res" where
  "NewTokenPairSTRv2 E denom =
     bind_res (GetIBCDenomAddress E denom) (\<lambda>address.
     Ok \<lparr>Erc20Address = addr_Hex (er_hex E) address, tp_Denom = denom, tp_Enabled = True, ContractOwner = OWNER_MODULE\<rparr>)"

definition CreateNewTokenPair :: "('s, 'a, 'b, 'v, 'p) erc20_env \<Rightarrow> string \<Rightarrow> (('s, 'b) erc20_ctx, TokenPair) run" where
  "CreateNewTokenPair E denom =
     run_bind (run_ask (\<lambda>_. NewTokenPairSTRv2 E denom)) (\<lambda>pair.
     run_bind (run_ask (\<lambda>c. vm_GetAccount (er_keeper E) (ec_vm (ex_evm c)) (GetERC20Contract (er_hex E) pair))) (\<lambda>acct.
     run_bind (run_check (\<not> (case acct of None \<Rightarrow> False | Some x \<Rightarrow> IsContract (vm_backend (er_keeper E)) x))
       (ErrPlain ''token already exists for token'')) (\<lambda>_.
     run_bind (on_store (SetToken (tmhash E) (er_hex E) pair)) (\<lambda>_.
     run_ret pair))))"

text \<open>The account keeps its nonce and balance and gets the given code hash.\<close>

definition set_code_hash :: "('s, 'a, 'b, 'v, 'p) erc20_env \<Rightarrow> hash \<Rightarrow> addr \<Rightarrow> (('s, 'b) erc20_ctx, unit) run" where
  "set_code_hash E codeHash erc20Addr =
     run_bind (run_ask (\<lambda>c. vm_GetAccount (er_keeper E) (ec_vm (ex_evm c)) erc20Addr)) (\<lambda>acct.
     let (nonce, balance) = (case acct of None \<Rightarrow> (0, 0) | Some x \<Rightarrow> (Nonce x, Balance x)) in
     on_vm (vm_SetAccount (er_keeper E) erc20Addr \<lparr>Nonce = nonce, Balance = balance, CodeHash = codeHash\<rparr>))"

definition RegisterERC20CodeHash :: "('s, 'a, 'b, 'v, 'p) erc20_env \<Rightarrow> addr \<Rightarrow> (('s, 'b) erc20_ctx, unit) run" where
  "RegisterERC20CodeHash E erc20Addr =
     run_bind (on_vm (\<lambda>v. let bs = vm_GetCode v (Erc20CodeHash E) in
       Ok (if bs = None \<or> bs = Some [] then vm_SetCode (hash_Bytes (Erc20CodeHash E)) (Erc20Bytecode E) v else v))) (\<lambda>_.
     set_code_hash E (Erc20CodeHash E) erc20Addr)"

definition UnRegisterERC20CodeHash :: "('s, 'a, 'b, 'v, 'p) erc20_env \<Rightarrow> addr \<Rightarrow> (('s, 'b) erc20_ctx, unit) run" where
  "UnRegisterERC20CodeHash E erc20Addr = set_code_hash E (vm_EmptyCodeHash (er_keeper E)) erc20Addr"

datatype PrecompileType = PrecompileTypeNative | PrecompileTypeDynamic

definition RegisterCodeHash :: "('s, 'a, 'b, 'v, 'p) erc20_env \<Rightarrow> addr \<Rightarrow> PrecompileType \<Rightarrow> (('s, 'b) erc20_ctx, unit) run" where
  "RegisterCodeHash E address pType =
     run_bind (run_get (\<lambda>c. case pType of
       PrecompileTypeNative \<Rightarrow> \<not> IsNativePrecompileAvailable (er_hex E) (ex_store c) address
     | PrecompileTypeDynamic \<Rightarrow> \<not> IsDynamicPrecompileAvailable (er_hex E) (ex_store c) address)) (\<lambda>shouldRegister.
     if shouldRegister then RegisterERC20CodeHash E address else run_ret ())"

definition EnableNativePrecompile :: "('s, 'a, 'b, 'v, 'p) erc20_env \<Rightarrow> addr \<Rightarrow> (('s, 'b) erc20_ctx, unit) run" where
  "EnableNativePrecompile E address =
     run_bind (RegisterCodeHash E address PrecompileTypeNative) (\<lambda>_. on_store (\<lambda>s. Ok (SetNativePrecompile (er_hex E) address s)))"

definition EnableDynamicPrecompile :: "('s, 'a, 'b, 'v, 'p) erc20_env \<Rightarrow> addr \<Rightarrow> (('s, 'b) erc20_ctx, unit) run" where
  "EnableDynamicPrecompile E address =
     run_bind (RegisterCodeHash E address PrecompileTypeDynamic) (\<lambda>_. on_store (\<lambda>s. Ok (SetDynamicPrecompile (er_hex E) address s)))"

definition RegisterERC20Extension :: "('s, 'a, 'b, 'v, 'p) erc20_env \<Rightarrow> string \<Rightarrow> (('s, 'b) erc20_ctx, TokenPair) run" where
  "RegisterERC20Extension E denom =
     run_bind (CreateNewTokenPair E denom) (\<lambda>pair.
     run_bind (EnableDynamicPrecompile E (GetERC20Contract (er_hex E) pair)) (\<lambda>_.
     run_ret pair))"

text \<open>The two kinds of precompiled token contracts, with the pair they are made for.\<close>

datatype erc20_precompile = Erc20Precompile TokenPair | Werc20Precompile TokenPair

definition InstantiateERC20Precompile :: "hex_ops \<Rightarrow> erc20_store \<Rightarrow> addr \<Rightarrow> bool \<Rightarrow> erc20_precompile res" where
  "InstantiateERC20Precompile H s contractAddr hasWrappedMethods =
     (let i = GetTokenPairID H s (addr_Hex H contractAddr) in
      bind_res (require (\<not> (i = None \<or> i = Some [])) (ErrPlain ''precompile id not found'')) (\<lambda>_.
      case GetTokenPair s i of None \<Rightarrow> Fail (ErrPlain ''token pair not found'')
      | Some pair \<Rightarrow> Ok (if hasWrappedMethods then Werc20Precompile pair else Erc20Precompile pair)))"

definition erc20_PrecompileInstance :: "hex_ops \<Rightarrow> erc20_store \<Rightarrow> addr \<Rightarrow> erc20_precompile option res" where
  "erc20_PrecompileInstance H s address =
     (let isNative = IsNativePrecompileAvailable H s address; isDynamic = IsDynamicPrecompileAvailable H s address in
      if \<not> (isNative \<or> isDynamic) then Ok None
      else bind_res (InstantiateERC20Precompile H s address isNative) (\<lambda>precompile. Ok (Some precompile)))"

definition GetCoinAddress :: "('s, 'a, 'b, 'v, 'p) erc20_env \<Rightarrow> erc20_store \<Rightarrow> string \<Rightarrow> addr res" where
  "GetCoinAddress E s denom =
     (let i = GetDenomMap s denom in
      if i = None \<or> i = Some [] then GetIBCDenomAddress E denom
      else case GetTokenPair s i of None \<Rightarrow> Fail (ErrPlain ''coin not registered'') | Some tokenPair \<Rightarrow> Ok (GetERC20Contract (er_hex E) tokenPair))"

definition GetTokenDenom :: "erc20_store \<Rightarrow> addr \<Rightarrow> string res" where
  "GetTokenDenom s tokenAddress =
     (let i = GetERC20Map s tokenAddress in
      bind_res (require (\<not> (i = None \<or> i = Some [])) (ErrPlain ''token not registered'')) (\<lambda>_.
      case GetTokenPair s i of None \<Rightarrow> Fail (ErrPlain ''token not registered'') | Some tokenPair \<Rightarrow> Ok (tp_Denom tokenPair)))"

section \<open>Packets\<close>

record FungibleTokenPacketData =
  pd_Denom :: string
  pd_Amount :: string
  pd_Sender :: string
  pd_Receiver :: string

record Packet =
  SourcePort :: string
  SourceChannel :: string
  DestinationPort :: string
  DestinationChannel :: string
  packet_data :: "FungibleTokenPacketData option"

text \<open>An acknowledgement is a success with the bytes of the transfer module, or an error.\<close>

datatype ack = SuccessAck bytes | ErrorAck

definition GetAccAddressFromBech32 :: "('s, 'a, 'b, 'v, 'p) erc20_env \<Rightarrow> string \<Rightarrow> address res" where
  "GetAccAddressFromBech32 E address =
     (let bech32Prefix = takeWhile (\<lambda>ch. ch \<noteq> CHR ''1'') address in
      bind_res (require (bech32Prefix \<noteq> address) (ErrInvalidAddress address)) (\<lambda>_.
      case GetFromBech32 E address bech32Prefix of None \<Rightarrow> Fail (ErrInvalidAddress address)
      | Some addressBz \<Rightarrow> bind_res (require (VerifyAddressFormat E addressBz) (ErrPlain ''incorrect address length'')) (\<lambda>_. Ok addressBz)))"

definition GetTransferSenderRecipient :: "('s, 'a, 'b, 'v, 'p) erc20_env \<Rightarrow> FungibleTokenPacketData \<Rightarrow> (address \<times> address) res" where
  "GetTransferSenderRecipient E data =
     bind_res (GetAccAddressFromBech32 E (pd_Sender data)) (\<lambda>sender.
     bind_res (GetAccAddressFromBech32 E (pd_Receiver data)) (\<lambda>recipient.
     Ok (sender, recipient)))"

text \<open>An amount that does not parse is the nil integer, \<open>None\<close>.\<close>

definition GetReceivedCoin :: "('s, 'a, 'b, 'v, 'p) erc20_env \<Rightarrow> Packet \<Rightarrow> ibc_denom \<Rightarrow> string \<Rightarrow> string \<times> int option" where
  "GetReceivedCoin E packet denom amount =
     (let amountInt = NewIntFromString E amount in
      if Denom_HasPrefix E denom (SourcePort packet) (SourceChannel packet)
      then (IBCDenom E (denom\<lparr>Trace := tl (Trace denom)\<rparr>), amountInt)
      else (IBCDenom E (denom\<lparr>Trace := (DestinationPort packet, DestinationChannel packet) # Trace denom\<rparr>), amountInt))"

definition GetSentCoin :: "('s, 'a, 'b, 'v, 'p) erc20_env \<Rightarrow> string \<Rightarrow> string \<Rightarrow> string \<times> int option" where
  "GetSentCoin E rawDenom rawAmt = (IBCDenom E (ExtractDenomFromPath E rawDenom), NewIntFromString E rawAmt)"

text \<open>The conversion of a coin that has a nil amount fails on the comparison of that amount.\<close>

definition convert_received ::
  "('s, 'a, 'b, 'v, 'p) erc20_env \<Rightarrow> TokenPair \<Rightarrow> int option \<Rightarrow> addr \<Rightarrow> address \<Rightarrow> (('s, 'b) erc20_ctx, unit) run" where
  "convert_received E pair amount receiver sender =
     (case amount of None \<Rightarrow> (\<lambda>c. (Panic ''nil pointer'', c)) | Some n \<Rightarrow> ConvertCoinNativeERC20 E pair n receiver sender)"

definition ack_of :: "ack \<Rightarrow> (('s, 'b) erc20_ctx, unit) run \<Rightarrow> (('s, 'b) erc20_ctx, ack) run" where
  "ack_of a m c = (case m c of (Ok _, c) \<Rightarrow> (Ok a, c) | (Fail _, c) \<Rightarrow> (Ok ErrorAck, c) | (Panic p, c) \<Rightarrow> (Panic p, c))"

definition OnRecvPacket :: "('s, 'a, 'b, 'v, 'p) erc20_env \<Rightarrow> Packet \<Rightarrow> ack \<Rightarrow> (('s, 'b) erc20_ctx, ack) run" where
  "OnRecvPacket E packet a c =
     (if \<not> IsERC20Enabled (ex_store c) then (Ok a, c)
      else case packet_data packet of None \<Rightarrow> (Ok ErrorAck, c)
      | Some data \<Rightarrow>
          (case GetTransferSenderRecipient E data of
             Fail _ \<Rightarrow> (Ok ErrorAck, c) | Panic p \<Rightarrow> (Panic p, c)
           | Ok (sender, recipient) \<Rightarrow>
               if ModuleAccountAt E (auth_state (ec_vm (ex_evm c))) recipient then (Ok a, c)
               else
                 let (denom, amount) = GetReceivedCoin E packet (ExtractDenomFromPath E (pd_Denom data)) (pd_Amount data) in
                 if take 8 (pd_Denom data) = ''factory/'' then (Ok a, c)
                 else
                   (case BondDenom E of
                      Fail _ \<Rightarrow> (Ok ErrorAck, c) | Panic p \<Rightarrow> (Panic p, c)
                    | Ok bondDenom \<Rightarrow>
                        if denom = bondDenom then (Ok a, c)
                        else
                          (case GetTokenPair (ex_store c) (GetTokenPairID (er_hex E) (ex_store c) denom) of
                             None \<Rightarrow>
                               if take 4 denom = ''ibc/'' then
                                 ack_of a (run_bind (RegisterERC20Extension E denom) (\<lambda>tokenPair.
                                   ex_emit (RegisterERC20ExtensionEvent (SourceChannel packet) (Erc20Address tokenPair) (tp_Denom tokenPair)))) c
                               else (Ok a, c)
                           | Some pair \<Rightarrow>
                               if \<not> IsNativeERC20 pair then (Ok a, c)
                               else if \<not> tp_Enabled pair then (Ok a, c)
                               else
                                 (case MintingEnabled E sender recipient denom c of
                                    (Ok pair, c) \<Rightarrow> ack_of a (convert_received E pair amount (un_be recipient) recipient) c
                                  | (Fail _, c) \<Rightarrow> ack_of ErrorAck (ex_emit (CallbackFailureEvent denom recipient)) c
                                  | (Panic p, c) \<Rightarrow> (Panic p, c))))))"

definition ConvertCoinToERC20FromPacket :: "('s, 'a, 'b, 'v, 'p) erc20_env \<Rightarrow> FungibleTokenPacketData \<Rightarrow> (('s, 'b) erc20_ctx, unit) run" where
  "ConvertCoinToERC20FromPacket E data c =
     (case AccAddressFromBech32 E (pd_Sender data) of None \<Rightarrow> (Fail (ErrInvalidAddress (pd_Sender data)), c)
      | Some sender \<Rightarrow>
          (case GetTokenPair (ex_store c) (GetTokenPairID (er_hex E) (ex_store c) (pd_Denom data)) of None \<Rightarrow> (Ok (), c)
           | Some pair \<Rightarrow>
               let (denom, amount) = GetSentCoin E (pd_Denom data) (pd_Amount data) in
               if IsNativeCoin pair then (Ok (), c)
               else if IsNativeERC20 pair then
                 if \<not> EnableErc20 (erc20_GetParams (ex_store c)) \<or> \<not> IsDenomRegistered (ex_store c) denom then (Ok (), c)
                 else if ModuleAccountAt E (auth_state (ec_vm (ex_evm c))) sender then (Ok (), c)
                 else
                   (case convert_received E pair amount (un_be sender) sender c of
                      (Ok _, c) \<Rightarrow> (Ok (), c)
                    | (Fail _, c) \<Rightarrow> ex_emit (FailedConvertERC20Event (tp_Denom pair) (Erc20Address pair)) c
                    | (Panic p, c) \<Rightarrow> (Panic p, c))
               else (Ok (), c)))"

definition OnAcknowledgementPacket :: "('s, 'a, 'b, 'v, 'p) erc20_env \<Rightarrow> FungibleTokenPacketData \<Rightarrow> ack \<Rightarrow> (('s, 'b) erc20_ctx, unit) run" where
  "OnAcknowledgementPacket E data a = (case a of ErrorAck \<Rightarrow> ConvertCoinToERC20FromPacket E data | SuccessAck _ \<Rightarrow> run_ret ())"

definition OnTimeoutPacket :: "('s, 'a, 'b, 'v, 'p) erc20_env \<Rightarrow> FungibleTokenPacketData \<Rightarrow> (('s, 'b) erc20_ctx, unit) run" where
  "OnTimeoutPacket E data = ConvertCoinToERC20FromPacket E data"

section \<open>Middleware\<close>

text \<open>
  The transfer application below the middleware is an argument; data and acknowledgements that do not decode are \<open>None\<close>. The second version
  of the protocol has a result with a status, and its packets are translated to those of the first.
\<close>

definition IBCMiddleware_OnRecvPacket ::
  "('s, 'a, 'b, 'v, 'p) erc20_env \<Rightarrow> (('s, 'b) erc20_ctx, ack) run \<Rightarrow> Packet \<Rightarrow> (('s, 'b) erc20_ctx, ack) run" where
  "IBCMiddleware_OnRecvPacket E app packet =
     run_bind app (\<lambda>a. case a of ErrorAck \<Rightarrow> run_ret a | SuccessAck _ \<Rightarrow> OnRecvPacket E packet a)"

definition IBCMiddleware_OnAcknowledgementPacket ::
  "('s, 'a, 'b, 'v, 'p) erc20_env \<Rightarrow> (('s, 'b) erc20_ctx, unit) run \<Rightarrow> Packet \<Rightarrow> ack option \<Rightarrow> (('s, 'b) erc20_ctx, unit) run" where
  "IBCMiddleware_OnAcknowledgementPacket E app packet acknowledgement =
     (case acknowledgement of None \<Rightarrow> run_fail ErrUnknownRequest
      | Some a \<Rightarrow> (case packet_data packet of None \<Rightarrow> run_fail ErrUnknownRequest
      | Some data \<Rightarrow> run_bind app (\<lambda>_. OnAcknowledgementPacket E data a)))"

definition IBCMiddleware_OnTimeoutPacket ::
  "('s, 'a, 'b, 'v, 'p) erc20_env \<Rightarrow> (('s, 'b) erc20_ctx, unit) run \<Rightarrow> Packet \<Rightarrow> (('s, 'b) erc20_ctx, unit) run" where
  "IBCMiddleware_OnTimeoutPacket E app packet =
     (case packet_data packet of None \<Rightarrow> run_fail ErrUnknownRequest
      | Some data \<Rightarrow> run_bind app (\<lambda>_. OnTimeoutPacket E data))"

datatype recv_result = RecvSuccess "ack option" | RecvFailure

definition OnRecvPacket_v2 ::
  "('s, 'a, 'b, 'v, 'p) erc20_env \<Rightarrow> (('s, 'b) erc20_ctx, recv_result) run \<Rightarrow> Packet option \<Rightarrow> (('s, 'b) erc20_ctx, recv_result) run" where
  "OnRecvPacket_v2 E app packet =
     run_bind app (\<lambda>recvResult. case recvResult of RecvFailure \<Rightarrow> run_ret recvResult
     | RecvSuccess acknowledgement \<Rightarrow> (case packet of None \<Rightarrow> run_ret RecvFailure
     | Some packet \<Rightarrow> (case acknowledgement of None \<Rightarrow> run_ret RecvFailure
     | Some a \<Rightarrow> run_bind (OnRecvPacket E packet a) (\<lambda>_. run_ret recvResult))))"

text \<open>\<open>acknowledgement\<close> is what the bytes decode to; the fixed bytes of an error are \<open>Some ErrorAck\<close>.\<close>

definition OnAcknowledgementPacket_v2 ::
  "('s, 'a, 'b, 'v, 'p) erc20_env \<Rightarrow> (('s, 'b) erc20_ctx, unit) run \<Rightarrow> Packet option \<Rightarrow> ack option \<Rightarrow> (('s, 'b) erc20_ctx, unit) run" where
  "OnAcknowledgementPacket_v2 E app packet acknowledgement =
     run_bind app (\<lambda>_.
     case packet of None \<Rightarrow> run_fail ErrUnknownRequest
     | Some packet \<Rightarrow> (case packet_data packet of None \<Rightarrow> run_fail ErrUnknownRequest
     | Some data \<Rightarrow> (case acknowledgement of None \<Rightarrow> run_fail ErrUnknownRequest
     | Some a \<Rightarrow> OnAcknowledgementPacket E data a)))"

definition OnTimeoutPacket_v2 ::
  "('s, 'a, 'b, 'v, 'p) erc20_env \<Rightarrow> (('s, 'b) erc20_ctx, unit) run \<Rightarrow> Packet option \<Rightarrow> (('s, 'b) erc20_ctx, unit) run" where
  "OnTimeoutPacket_v2 E app packet =
     (case packet of None \<Rightarrow> run_fail ErrUnknownRequest
      | Some packet \<Rightarrow> (case packet_data packet of None \<Rightarrow> run_fail ErrUnknownRequest
      | Some data \<Rightarrow> run_bind app (\<lambda>_. OnTimeoutPacket E data)))"

section \<open>Genesis\<close>

text \<open>A pair that cannot be stored ends the import without an error; \<open>True\<close> is the normal end of the loop.\<close>

fun genesis_tokens :: "('s, 'a, 'b, 'v, 'p) erc20_env \<Rightarrow> TokenPair list \<Rightarrow> (('s, 'b) erc20_ctx, bool) run" where
  "genesis_tokens E [] c = (Ok True, c)"
| "genesis_tokens E (pair # pairs) c =
     (case on_store (SetToken (tmhash E) (er_hex E) pair) c of
        (Ok _, c) \<Rightarrow> genesis_tokens E pairs c
      | (Fail _, c) \<Rightarrow> (Ok False, c)
      | (Panic p, c) \<Rightarrow> (Panic p, c))"

definition or_panic :: "string \<Rightarrow> ('c, 'r) run \<Rightarrow> ('c, 'r) run" where
  "or_panic p m c = (case m c of (Fail _, c) \<Rightarrow> (Panic p, c) | x \<Rightarrow> x)"

definition erc20_InitGenesis :: "('s, 'a, 'b, 'v, 'p) erc20_env \<Rightarrow> erc20_genesis \<Rightarrow> (('s, 'b) erc20_ctx, unit) run" where
  "erc20_InitGenesis E data =
     run_bind (on_store (\<lambda>s. Ok (erc20_SetParams (g_Params data) s))) (\<lambda>_.
     run_bind (run_ask (\<lambda>c. must (GetModuleAccount (ak (er_bank E)) erc20_ModuleName \<noteq> None) ''the erc20 module account has not been set'')) (\<lambda>_.
     run_bind (genesis_tokens E (g_TokenPairs data)) (\<lambda>finished.
     if \<not> finished then run_ret ()
     else
       run_bind (run_each (\<lambda>p. or_panic ''error registering native precompiles'' (EnableNativePrecompile E (HexToAddress (er_hex E) p))) (g_NativePrecompiles data)) (\<lambda>_.
       run_bind (run_each (\<lambda>p. or_panic ''error registering dynamic precompiles'' (EnableDynamicPrecompile E (HexToAddress (er_hex E) p))) (g_DynamicPrecompiles data)) (\<lambda>_.
       run_each (\<lambda>a. or_panic ''error setting allowance'' (on_store (UnsafeSetAllowance (er_hex E) (HexToAddress (er_hex E) (al_Erc20Address a))
         (HexToAddress (er_hex E) (al_Owner a)) (HexToAddress (er_hex E) (al_Spender a)) (Some (al_Value a))))) (g_Allowances data))))))"

end
