(* ===== verification/EvmAnteProps.thy ===== *)
theory EvmAnteProps
  imports EvmAnte VMKeeperProps FeeMarketProps
begin

text \<open>
  What an Ethereum transaction has to satisfy before it runs, and what it has paid by then: the nonces it uses, the
  fees that move to the fee collector, and the limits of gas, over any number of messages.
\<close>

section \<open>The laws of the environment\<close>

text \<open>The caps and the price of a go-ethereum transaction, whose older types have a gas price only.\<close>

definition eth_fee_cap :: "eth_data \<Rightarrow> int" where
  "eth_fee_cap d = (case ed_GasFeeCap d of Some f \<Rightarrow> f | None \<Rightarrow> (case ed_GasPrice d of Some p \<Rightarrow> p | None \<Rightarrow> 0))"

definition eth_tip_cap :: "eth_data \<Rightarrow> int" where
  "eth_tip_cap d = (case ed_GasTipCap d of Some f \<Rightarrow> f | None \<Rightarrow> (case ed_GasPrice d of Some p \<Rightarrow> p | None \<Rightarrow> 0))"

definition eth_price :: "int option \<Rightarrow> eth_data \<Rightarrow> int" where
  "eth_price b d = (case b of None \<Rightarrow> eth_fee_cap d | Some b \<Rightarrow> min (eth_tip_cap d + b) (eth_fee_cap d))"

lemma effective_price:
  assumes "\<And>x. b = Some x \<Longrightarrow> 0 \<le> x" and "tx_EffectiveFee b t = Ok f"
  shows "f = eth_price b (tx_AsEthereumData H t) * uint (tx_GetGas t)"
  using assms
  by (cases t) (auto simp: eth_price_def eth_tip_cap_def eth_fee_cap_def leg_AsEthereumData_def alt_AsEthereumData_def dyn_AsEthereumData_def
      leg_Fee_def alt_Fee_def dyn_EffectiveFee_def dyn_EffectiveGasPrice_def EffectiveGasPrice_def fee_def res_simps Let_def min_def
      split: option.splits prod.splits if_splits)

text \<open>
  The message of a transaction has its sender, its gas and its effective price.
  \<^verbatim>\<open>GetSignerAcc\<close> returns the account of the address, and \<^verbatim>\<open>DeductFees\<close> sends the fees to the fee collector or fails.
\<close>

locale evm_laws = vm_laws "ee_keeper E" + hex_laws "ee_hex E" for E :: "('s, 'a, 'b, 'v) evm_env" +
  assumes signer_acc: "GetSignerAcc E get a = Ok x \<Longrightarrow> get a = Some x"
    and message: "TransactionToMessage E d b = Ok m \<Longrightarrow>
      ee_Sender E d = Some (m_From m) \<and> m_GasLimit m = ed_Gas d \<and> m_GasPrice m = eth_price b d"
    and deduct_fees: "sdk_DeductFees E send a fees s = Ok s' \<Longrightarrow> send a FeeCollectorName fees s = Ok s'"

section \<open>One message\<close>

lemma gas_wanted_params: "CheckGasWanted h l g lon s = Ok s' \<Longrightarrow> fm_params s' = fm_params s"
  by (auto simp: CheckGasWanted_def AddTransientGasWanted_def SetTransientBlockGasWanted_def Let_def res_simps split: if_splits option.splits)

definition acct_seq :: "('s, 'a, 'b, 'v) evm_env \<Rightarrow> ('s, 'b) evm_ctx \<Rightarrow> addr \<Rightarrow> uint64" where
  "acct_seq E c a = (case au_GetAccount (accountKeeper (ee_keeper E)) (auth_state (ec_vm c)) (addr_Bytes a) of
     None \<Rightarrow> 0 | Some x \<Rightarrow> acc_GetSequence (accountKeeper (ee_keeper E)) x)"

fun msg_signer :: "('s, 'a, 'b, 'v) evm_env \<Rightarrow> sdk_msg \<Rightarrow> addr option" where
  "msg_signer E OtherSdkMsg = None"
| "msg_signer E (EthMsg m) =
     (case msg_Data m of None \<Rightarrow> None | Some t \<Rightarrow> ee_Sender E (tx_AsEthereumData (ee_hex E) t))"

fun msg_nonce :: "sdk_msg \<Rightarrow> uint64" where
  "msg_nonce OtherSdkMsg = 0"
| "msg_nonce (EthMsg m) = (case msg_Data m of None \<Rightarrow> 0 | Some t \<Rightarrow> tx_GetNonce t)"

fun msg_charge :: "int option \<Rightarrow> sdk_msg \<Rightarrow> int" where
  "msg_charge b OtherSdkMsg = 0"
| "msg_charge b (EthMsg m) =
     (case msg_Data m of None \<Rightarrow> 0 | Some t \<Rightarrow> (case tx_EffectiveFee b t of Ok f \<Rightarrow> f | _ \<Rightarrow> 0))"

fun msg_gas :: "sdk_msg \<Rightarrow> uint64" where
  "msg_gas OtherSdkMsg = 0"
| "msg_gas (EthMsg m) = msg_GetGas m"

fun msg_max_fee :: "sdk_msg \<Rightarrow> int" where
  "msg_max_fee OtherSdkMsg = 0"
| "msg_max_fee (EthMsg m) = (case msg_GetFee m of Ok (Some f) \<Rightarrow> f | _ \<Rightarrow> 0)"

abbreviation tx_msgs :: "eth_sdk_tx \<Rightarrow> sdk_msg list" where
  "tx_msgs tx \<equiv> (case st_msgs tx of None \<Rightarrow> [] | Some ms \<Rightarrow> ms)"

text \<open>How many of the messages \<open>a\<close> has signed, and what the messages of the account \<open>x\<close> are charged.\<close>

definition signed_count :: "('s, 'a, 'b, 'v) evm_env \<Rightarrow> addr \<Rightarrow> sdk_msg list \<Rightarrow> nat" where
  "signed_count E a ms = length (filter (\<lambda>m. msg_signer E m = Some a) ms)"

definition charged :: "('s, 'a, 'b, 'v) evm_env \<Rightarrow> int option \<Rightarrow> address \<Rightarrow> sdk_msg list \<Rightarrow> int" where
  "charged E b x ms = (\<Sum>m\<leftarrow>ms. if map_option addr_Bytes (msg_signer E m) = Some x then msg_charge b m else 0)"

context evm_laws
begin

abbreviation A where "A \<equiv> accountKeeper (ee_keeper E)"

lemma signature_ok:
  assumes "SignatureVerification E allow m = Ok m'"
  obtains t a where "msg_Data m = Some t" "ee_Sender E (tx_AsEthereumData (ee_hex E) t) = Some a"
    "m' = m\<lparr>msg_From := addr_Hex (ee_hex E) a\<rparr>" "GetFrom (ee_hex E) m' = Some a"
  using assms address_hex
  by (auto simp: SignatureVerification_def AsTransaction_def GetFrom_def res_simps split: option.splits)

lemma balance_ok:
  assumes "VerifyAccountBalance E found a t c = Ok c'"
  shows "bank_state (ec_vm c') = bank_state (ec_vm c)" and "ec_market c' = ec_market c" and "evm_store (ec_vm c') = evm_store (ec_vm c)"
    and "found \<noteq> None \<Longrightarrow> c' = c" and "case found of Some x \<Rightarrow> \<not> IsContract (vm_backend (ee_keeper E)) x | None \<Rightarrow> True"
    and "CheckSenderBalance (case found of Some x \<Rightarrow> uint (Balance x) | None \<Rightarrow> 0) t = Ok ()"
  using assms by (auto simp: VerifyAccountBalance_def Let_def res_simps split: prod.splits option.splits)

lemma balance_seq:
  assumes "VerifyAccountBalance E found a t c = Ok c'" and "vm_GetAccount (ee_keeper E) (ec_vm c) a = Ok found"
  shows "acct_seq E c' = acct_seq E c"
proof (cases found)
  case None
  then have none: "au_GetAccount A (auth_state (ec_vm c)) (addr_Bytes a) = None"
    using assms(2) by (auto simp: vm_GetAccount_def GetAccountWithoutBalance_def res_simps split: option.splits)
  obtain x s where x: "au_NewAccountWithAddress A (addr_Bytes a) (auth_state (ec_vm c)) = (x, s)"
    by (rule prod.exhaust)
  then have "auth_state (ec_vm c') = au_SetAccount A x s"
    using assms(1) None by (auto simp: VerifyAccountBalance_def res_simps)
  then show ?thesis using none new_account [OF x] new_sequence [OF x] by (auto simp: acct_seq_def get_set fun_eq_iff)
qed (use balance_ok(4) [OF assms(1)] in simp)

lemma charge_ok:
  assumes "ConsumeFeesAndEmitEvent E fees a c = Ok c'"
  shows "auth_state (ec_vm c') = auth_state (ec_vm c)" and "ec_market c' = ec_market c" and "evm_store (ec_vm c') = evm_store (ec_vm c)"
    and "bw_SendCoinsFromAccountToModule B (addr_Bytes a) FeeCollectorName fees (bank_state (ec_vm c)) = Ok (bank_state (ec_vm c')) \<or>
      CoinsIsZero (sdk B) fees \<and> bank_state (ec_vm c') = bank_state (ec_vm c)"
  using assms signer_acc deduct_fees get_address
  by (auto simp: ConsumeFeesAndEmitEvent_def deductFees_def DeductTxCostsFromUserBalance_def Let_def res_simps split: if_splits)

lemma nonce_ok:
  assumes "IncrementNonce E x n c = Ok c'" and "au_GetAccount A (auth_state (ec_vm c)) (addr_Bytes a) = Some x"
  shows "n = acct_seq E c a" and "acct_seq E c' = (acct_seq E c)(a := acct_seq E c a + 1)"
    and "bank_state (ec_vm c') = bank_state (ec_vm c)" and "ec_market c' = ec_market c" and "evm_store (ec_vm c') = evm_store (ec_vm c)"
  using assms set_sequence get_set get_address
  by (auto simp: IncrementNonce_def Let_def res_simps acct_seq_def fun_eq_iff)

lemma step_ok:
  assumes "mono_step E mx tx sim (i, msg) (du, seen, c) = Ok (du', seen', c')"
  obtains m t a fees where "msg = EthMsg m" "msg_Data m = Some t" "ee_Sender E (tx_AsEthereumData (ee_hex E) t) = Some a"
    "seen' = seen @ [EthMsg (m\<lparr>msg_From := addr_Hex (ee_hex E) a\<rparr>)]"
    "VerifyFee (ee_hex E) (IntrinsicGas E) t (Denom (ee_coin E)) (du_BaseFee du) (er_IsHomestead (ee_rules E)) (er_IsIstanbul (ee_rules E))
        (er_IsShanghai (ee_rules E)) (ee_IsCheckTx E) = Ok fees"
    "bw_SendCoinsFromAccountToModule B (addr_Bytes a) FeeCollectorName fees (bank_state (ec_vm c)) = Ok (bank_state (ec_vm c')) \<or>
      CoinsIsZero (sdk B) fees \<and> bank_state (ec_vm c') = bank_state (ec_vm c)"
    "tx_GetNonce t = acct_seq E c a" "acct_seq E c' = (acct_seq E c)(a := acct_seq E c a + 1)"
    "du_BaseFee du' = du_BaseFee du" "du_EvmParams du' = du_EvmParams du" "du_TxGasLimit du' = du_TxGasLimit du + tx_GetGas t"
    "tx_Fee t = Ok (du_TxFee du' - du_TxFee du)"
    "du_GasWanted du' = UpdateCumulativeGasWanted (ee_IsCheckTx E) (tx_GetGas t) mx (du_GasWanted du)"
    "fm_params (ec_market c') = fm_params (ec_market c)" "evm_store (ec_vm c') = evm_store (ec_vm c)"
proof -
  from assms obtain m t where m: "UnpackEthMsg msg = Ok (m, t)" by (auto simp: mono_step_def Let_def res_simps)
  then have msg: "msg = EthMsg m" "msg_Data m = Some t"
    by (auto simp: UnpackEthMsg_def split: sdk_msg.splits option.splits)
  from assms m obtain m' where s: "SignatureVerification E (AllowUnprotectedTxs (du_EvmParams du)) m = Ok m'"
    by (auto simp: mono_step_def Let_def res_simps)
  then obtain t' a where a: "msg_Data m = Some t'" "ee_Sender E (tx_AsEthereumData (ee_hex E) t') = Some a"
    "m' = m\<lparr>msg_From := addr_Hex (ee_hex E) a\<rparr>" "GetFrom (ee_hex E) m' = Some a"
    by (rule signature_ok)
  with msg have [simp]: "t' = t" by simp
  from assms m s a(4) obtain found c1 c2 fees x c3 f where
    1: "vm_GetAccount (ee_keeper E) (ec_vm c) a = Ok found" "VerifyAccountBalance E found a t c = Ok c1" and
    2: "VerifyFee (ee_hex E) (IntrinsicGas E) t (Denom (ee_coin E)) (du_BaseFee du) (er_IsHomestead (ee_rules E)) (er_IsIstanbul (ee_rules E))
        (er_IsShanghai (ee_rules E)) (ee_IsCheckTx E) = Ok fees" "ConsumeFeesAndEmitEvent E fees a c1 = Ok c2" and
    3: "au_GetAccount A (auth_state (ec_vm c2)) (addr_Bytes a) = Some x" "IncrementNonce E x (tx_GetNonce t) c2 = Ok c3" and
    4: "ec_vm c' = ec_vm c3" "seen' = seen @ [EthMsg m']" "tx_Fee t = Ok f" "du_TxFee du' = du_TxFee du + f"
      "du_BaseFee du' = du_BaseFee du" "du_EvmParams du' = du_EvmParams du" "du_TxGasLimit du' = du_TxGasLimit du + tx_GetGas t"
      "du_GasWanted du' = UpdateCumulativeGasWanted (ee_IsCheckTx E) (tx_GetGas t) mx (du_GasWanted du)"
      "fm_params (ec_market c') = fm_params (ec_market c3)"
    by (auto simp: mono_step_def Let_def res_simps EmitTxHashEvent_def gas_wanted_params split: option.splits)
  note c1 = balance_ok(1) [OF 1(2)] balance_seq [OF 1(2,1)] balance_ok(2,3) [OF 1(2)]
  note c2 = charge_ok [OF 2(2)]
  note c3 = nonce_ok [OF 3(2,1)]
  have seq: "acct_seq E c2 = acct_seq E c" using c1(2) c2(1) by (simp add: acct_seq_def fun_eq_iff)
  have seq': "acct_seq E c' = acct_seq E c3" using 4(1) by (simp add: acct_seq_def fun_eq_iff)
  show ?thesis
    by (rule that [OF msg, of a fees]) (use a 2(1) 4 c1 c2 c3 seq seq' in auto)
qed

lemma fees_moved:
  assumes v: "VerifyFee H intrinsic t (Denom (ee_coin E)) b hs ist shg chk = Ok fees"
    and sent: "bw_SendCoinsFromAccountToModule B x FeeCollectorName fees s = Ok s' \<or> CoinsIsZero (sdk B) fees \<and> s' = s"
    and inv: "pb_inv B s" and h: "holder B x"
  shows "pb_inv B s'" and "y \<noteq> reserve B \<Longrightarrow> ext_balance B y s' = ext_balance B y s -
      (if y = x then (case tx_EffectiveFee b t of Ok f \<Rightarrow> f | _ \<Rightarrow> 0) else 0) +
      (if y = module_addr (ak B) FeeCollectorName then (case tx_EffectiveFee b t of Ok f \<Rightarrow> f | _ \<Rightarrow> 0) else 0)"
proof -
  from v obtain f where f: "tx_EffectiveFee b t = Ok f" "fees = (if f = 0 then [] else [(Denom (ee_coin E), f)])"
    by (auto simp: VerifyFee_def Let_def res_simps split: if_splits)
  have "pb_inv B s' \<and> (y \<noteq> reserve B \<longrightarrow> ext_balance B y s' = ext_balance B y s - (if y = x then f else 0) +
      (if y = module_addr (ak B) FeeCollectorName then f else 0))" for y
  proof (cases "s' = s \<and> f = 0")
    case True
    then show ?thesis using inv by simp
  next
    case False
    have sort: "CoinsSort (sdk B) [z] = [z]" "CoinsSort (sdk B) [] = []" for z
      using sort_mset [of "[z]"] sort_mset [of "[]"] by auto
    have ne: "f \<noteq> 0" using False sent f(2) by (auto simp: bw_SendCoinsFromAccountToModule_def is_zero ConvertCoinsDenomToExtendedDenom_def sort)
    then have send: "SendCoinsFromAccountToModule B x FeeCollectorName [(ExtendedCoinDenom B, f)] s = Ok s'"
      using sent f(2) by (auto simp: bw_SendCoinsFromAccountToModule_def is_zero ConvertCoinsDenomToExtendedDenom_def sort
          ConvertEvmCoinDenomToExtendedDenom_def ExtendedCoinDenom_def)
    then obtain acc where acc: "GetModuleAccount (ak B) FeeCollectorName = Some acc"
      and s': "SendCoins B x (ma_address acc) [(ExtendedCoinDenom B, f)] s = Ok s'"
      by (auto simp: SendCoinsFromAccountToModule_def res_simps split: option.splits)
    have to: "module_addr (ak B) FeeCollectorName = ma_address acc" "holder B (ma_address acc)"
      using acc module_account module_holder by (auto simp: module_addr_def FeeCollectorName_def pb_ModuleName_def)
    have "0 < f" using s' valid_coin by (fastforce simp: SendCoins_def res_simps)
    then have "ext_value B [(ExtendedCoinDenom B, f)] = f"
      using denoms_valid by (auto simp: ext_value_def amount_one)
    then show ?thesis
      using send_coins_spec [OF inv h to(2), of "[(ExtendedCoinDenom B, f)]"] s' by (auto simp: sent_coins_def to)
  qed
  then show "pb_inv B s'" and "y \<noteq> reserve B \<Longrightarrow> ext_balance B y s' = ext_balance B y s -
      (if y = x then (case tx_EffectiveFee b t of Ok f \<Rightarrow> f | _ \<Rightarrow> 0) else 0) +
      (if y = module_addr (ak B) FeeCollectorName then (case tx_EffectiveFee b t of Ok f \<Rightarrow> f | _ \<Rightarrow> 0) else 0)"
    using f(1) by auto
qed

section \<open>All messages\<close>

lemma steps_nonces:
  assumes "for_each (mono_step E mx tx sim) (enumerate n ms) (du, seen, c) = Ok (du', seen', c')"
  shows "i < length ms \<Longrightarrow> \<exists>a. msg_signer E (ms ! i) = Some a \<and> msg_nonce (ms ! i) = acct_seq E c a + of_nat (signed_count E a (take i ms))"
    and "acct_seq E c' a = acct_seq E c a + of_nat (signed_count E a ms)"
  using assms
proof (induction ms arbitrary: n i a du seen c)
  case Nil
  { case 1 then show ?case by simp next case 2 then show ?case by (simp add: signed_count_def) }
next
  case (Cons x xs)
  have split: "\<exists>b du1 seen1 c1. msg_signer E x = Some b \<and> msg_nonce x = acct_seq E c b \<and>
      acct_seq E c1 = (acct_seq E c)(b := acct_seq E c b + 1) \<and>
      for_each (mono_step E mx tx sim) (enumerate (Suc n) xs) (du1, seen1, c1) = Ok (du', seen', c')"
    if run: "for_each (mono_step E mx tx sim) (enumerate n (x # xs)) (du, seen, c) = Ok (du', seen', c')" for n du seen c
  proof -
    from run obtain du1 seen1 c1 where 1: "mono_step E mx tx sim (n, x) (du, seen, c) = Ok (du1, seen1, c1)"
      and rest: "for_each (mono_step E mx tx sim) (enumerate (Suc n) xs) (du1, seen1, c1) = Ok (du', seen', c')"
      by (auto simp: res_simps)
    show ?thesis by (rule step_ok [OF 1]) (use rest in auto)
  qed
  { case 1
    then obtain b du1 seen1 c1 where b: "msg_signer E x = Some b" "msg_nonce x = acct_seq E c b"
      "acct_seq E c1 = (acct_seq E c)(b := acct_seq E c b + 1)"
      "for_each (mono_step E mx tx sim) (enumerate (Suc n) xs) (du1, seen1, c1) = Ok (du', seen', c')"
      using split by blast
    show ?case
    proof (cases i)
      case (Suc j)
      then obtain a where "msg_signer E (xs ! j) = Some a \<and> msg_nonce (xs ! j) = acct_seq E c1 a + of_nat (signed_count E a (take j xs))"
        using Cons.IH(1) [OF _ b(4), of j] 1 by auto
      then show ?thesis using b Suc by (auto simp: signed_count_def)
    qed (use b in \<open>simp add: signed_count_def\<close>)
  next case 2
    then obtain b du1 seen1 c1 where b: "msg_signer E x = Some b" "acct_seq E c1 = (acct_seq E c)(b := acct_seq E c b + 1)"
      "for_each (mono_step E mx tx sim) (enumerate (Suc n) xs) (du1, seen1, c1) = Ok (du', seen', c')"
      using split by blast
    show ?case using Cons.IH(2) [OF b(3), of a] b by (auto simp: signed_count_def) }
qed

lemma steps_fees:
  assumes "for_each (mono_step E mx tx sim) (enumerate n ms) (du, seen, c) = Ok (du', seen', c')"
    and "pb_inv B (bank_state (ec_vm c))" and "\<forall>m \<in> set ms. \<forall>a. msg_signer E m = Some a \<longrightarrow> holder B (addr_Bytes a)"
  shows "pb_inv B (bank_state (ec_vm c')) \<and> (\<forall>y. y \<noteq> reserve B \<longrightarrow>
    ext_balance B y (bank_state (ec_vm c')) = ext_balance B y (bank_state (ec_vm c)) - charged E (du_BaseFee du) y ms +
      (if y = module_addr (ak B) FeeCollectorName then sum_list (map (msg_charge (du_BaseFee du)) ms) else 0))"
  using assms
proof (induction ms arbitrary: n du seen c)
  case (Cons x xs)
  from Cons.prems(1) obtain du1 seen1 c1 where 1: "mono_step E mx tx sim (n, x) (du, seen, c) = Ok (du1, seen1, c1)"
    and rest: "for_each (mono_step E mx tx sim) (enumerate (Suc n) xs) (du1, seen1, c1) = Ok (du', seen', c')"
    by (auto simp: res_simps)
  from 1 show ?case
  proof (rule step_ok)
    fix m t a fees
    assume x: "x = EthMsg m" "msg_Data m = Some t" "ee_Sender E (tx_AsEthereumData (ee_hex E) t) = Some a"
      and b: "du_BaseFee du1 = du_BaseFee du"
      and v: "VerifyFee (ee_hex E) (IntrinsicGas E) t (Denom (ee_coin E)) (du_BaseFee du) (er_IsHomestead (ee_rules E))
        (er_IsIstanbul (ee_rules E)) (er_IsShanghai (ee_rules E)) (ee_IsCheckTx E) = Ok fees"
      and sent: "bw_SendCoinsFromAccountToModule B (addr_Bytes a) FeeCollectorName fees (bank_state (ec_vm c)) = Ok (bank_state (ec_vm c1)) \<or>
        CoinsIsZero (sdk B) fees \<and> bank_state (ec_vm c1) = bank_state (ec_vm c)"
    have h: "holder B (addr_Bytes a)" using Cons.prems(3) x by auto
    note moved = fees_moved [OF v sent Cons.prems(2) h]
    have one: "msg_charge (du_BaseFee du) x = (case tx_EffectiveFee (du_BaseFee du) t of Ok f \<Rightarrow> f | _ \<Rightarrow> 0)" "msg_signer E x = Some a"
      using x by simp_all
    have IH: "pb_inv B (bank_state (ec_vm c')) \<and> (\<forall>y. y \<noteq> reserve B \<longrightarrow>
      ext_balance B y (bank_state (ec_vm c')) = ext_balance B y (bank_state (ec_vm c1)) - charged E (du_BaseFee du) y xs +
      (if y = module_addr (ak B) FeeCollectorName then sum_list (map (msg_charge (du_BaseFee du)) xs) else 0))"
      using Cons.IH [OF rest moved(1)] Cons.prems(3) b by simp
    then show ?case using moved(2) unfolding one(1) [symmetric] by (auto simp: charged_def one(2))
  qed
qed (simp add: charged_def)

lemma steps_totals:
  assumes "for_each (mono_step E mx tx sim) (enumerate n ms) (du, seen, c) = Ok (du', seen', c')"
  shows "du_TxGasLimit du' = du_TxGasLimit du + sum_list (map msg_gas ms) \<and>
    du_TxFee du' = du_TxFee du + sum_list (map msg_max_fee ms) \<and>
    (\<not> ee_IsCheckTx E \<longrightarrow> du_GasWanted du' = du_GasWanted du + sum_list (map msg_gas ms))"
  using assms
proof (induction ms arbitrary: n du seen c)
  case (Cons x xs)
  from Cons.prems obtain du1 seen1 c1 where 1: "mono_step E mx tx sim (n, x) (du, seen, c) = Ok (du1, seen1, c1)"
    and rest: "for_each (mono_step E mx tx sim) (enumerate (Suc n) xs) (du1, seen1, c1) = Ok (du', seen', c')"
    by (auto simp: res_simps)
  from 1 show ?case
    by (rule step_ok) (use Cons.IH [OF rest] in
      \<open>auto simp: msg_GetGas_def msg_GetFee_def UpdateCumulativeGasWanted_def add.assoc\<close>)
qed simp

lemma handler_ok:
  assumes "Mono_AnteHandle E mx tx sim (\<lambda>_. Ok) c = Ok c'"
  obtains info du c0 du' seen c1 where "for_each (mono_step E mx tx sim) (enumerate 0 (tx_msgs tx)) (du, [], c0) = Ok (du', seen, c1)"
    "acct_seq E c0 = acct_seq E c" "bank_state (ec_vm c0) = bank_state (ec_vm c)" "ec_vm c' = ec_vm c1"
    "du_BaseFee du = vm_GetBaseFee (ee_dec E) (ee_coin E) (er_IsLondon (ee_rules E)) (ec_market c)"
    "du_TxGasLimit du = 0" "du_TxFee du = 0" "du_GasWanted du = 0"
    "ee_IsReCheckTx E \<or> info \<noteq> None \<and> (\<exists>p. st_proto tx = Some p \<and> pt_Fee p = info)"
    "CheckTxFee (sdk B) (ee_coin E) info (du_TxFee du') (du_TxGasLimit du') = Ok ()"
    "ec_meter c' = Some (NewInfiniteGasMeterWithLimit (du_GasWanted du'))"
    "du_GasWanted du' \<le> BlockGasLimit (ee_BlockGasMeter E) (ee_MaxGas E)"
    "ec_market c' = ec_market c1" "ec_market c0 = ec_market c"
proof -
  from assms obtain info c0 du du' seen c1 where
    i: "(if ee_IsReCheckTx E then Ok None else bind_res (ValidateTx tx) (\<lambda>f. Ok (Some f))) = Ok info" and
    c0: "SetupContextAndResetTransientGas tx c = Ok c0" and du: "NewMonoDecoratorUtils E c0 = Ok du" and
    run: "for_each (mono_step E mx tx sim) (enumerate 0 (tx_msgs tx)) (du, [], c0) = Ok (du', seen, c1)" and
    fee: "CheckTxFee (sdk B) (ee_coin E) info (du_TxFee du') (du_TxGasLimit du') = Ok ()" and
    lim: "CheckBlockGasLimit (BlockGasLimit (ee_BlockGasMeter E) (ee_MaxGas E)) (du_GasWanted du') (du_MinPriority du') c1 = Ok c'"
    by (auto simp: Mono_AnteHandle_def res_simps)
  have p: "ee_IsReCheckTx E \<or> info \<noteq> None \<and> (\<exists>p. st_proto tx = Some p \<and> pt_Fee p = info)"
    using i by (auto simp: ValidateTx_def res_simps split: if_splits option.splits) metis
  show ?thesis
    by (rule that [OF run _ _ _ _ _ _ _ p fee])
      (use c0 du lim in \<open>auto simp: SetupContextAndResetTransientGas_def NewMonoDecoratorUtils_def CheckBlockGasLimit_def Let_def
        res_simps acct_seq_def fun_eq_iff ResetTransientGasUsed_def\<close>)
qed

lemma handler_market:
  assumes "Mono_AnteHandle E mx tx sim (\<lambda>_. Ok) c = Ok c'"
  shows "fm_params (ec_market c') = fm_params (ec_market c)"
  using assms
proof (rule handler_ok)
  fix du c0 du' seen c1
  assume run: "for_each (mono_step E mx tx sim) (enumerate 0 (tx_msgs tx)) (du, [], c0) = Ok (du', seen, c1)"
    and "ec_market c' = ec_market c1" "ec_market c0 = ec_market c"
  moreover from run have "fm_params (ec_market (snd (snd (du', seen, c1)))) = fm_params (ec_market c0)"
    by (rule for_each_inv) (auto elim!: step_ok)
  ultimately show ?thesis by simp
qed

lemma handler_fees:
  assumes "Mono_AnteHandle E mx tx sim (\<lambda>_. Ok) c = Ok c'" and "pb_inv B (bank_state (ec_vm c))"
    and "\<forall>m \<in> set (tx_msgs tx). \<forall>a. msg_signer E m = Some a \<longrightarrow> holder B (addr_Bytes a)"
  shows "pb_inv B (bank_state (ec_vm c')) \<and> (\<forall>y. y \<noteq> reserve B \<longrightarrow>
    ext_balance B y (bank_state (ec_vm c')) = ext_balance B y (bank_state (ec_vm c)) -
      charged E (vm_GetBaseFee (ee_dec E) (ee_coin E) (er_IsLondon (ee_rules E)) (ec_market c)) y (tx_msgs tx) +
      (if y = module_addr (ak B) FeeCollectorName
       then sum_list (map (msg_charge (vm_GetBaseFee (ee_dec E) (ee_coin E) (er_IsLondon (ee_rules E)) (ec_market c))) (tx_msgs tx)) else 0))"
  using assms(1)
proof (rule handler_ok)
  fix du c0 du' seen c1
  assume run: "for_each (mono_step E mx tx sim) (enumerate 0 (tx_msgs tx)) (du, [], c0) = Ok (du', seen, c1)"
    and "bank_state (ec_vm c0) = bank_state (ec_vm c)" and "ec_vm c' = ec_vm c1"
    and "du_BaseFee du = vm_GetBaseFee (ee_dec E) (ee_coin E) (er_IsLondon (ee_rules E)) (ec_market c)"
  then show ?thesis using steps_fees [OF run _ assms(3)] assms(2) by simp
qed

lemma handler_nonces:
  assumes "Mono_AnteHandle E mx tx sim (\<lambda>_. Ok) c = Ok c'"
  shows "i < length (tx_msgs tx) \<Longrightarrow> \<exists>a. msg_signer E (tx_msgs tx ! i) = Some a \<and>
      msg_nonce (tx_msgs tx ! i) = acct_seq E c a + of_nat (signed_count E a (take i (tx_msgs tx)))"
    and "acct_seq E c' a = acct_seq E c a + of_nat (signed_count E a (tx_msgs tx))"
  using assms
proof (atomize (full), elim handler_ok)
  fix du c0 du' seen c1
  assume run: "for_each (mono_step E mx tx sim) (enumerate 0 (tx_msgs tx)) (du, [], c0) = Ok (du', seen, c1)"
    and "acct_seq E c0 = acct_seq E c" and "ec_vm c' = ec_vm c1"
  moreover from this have "acct_seq E c' = acct_seq E c1" by (simp add: acct_seq_def fun_eq_iff)
  ultimately show "(i < length (tx_msgs tx) \<longrightarrow> (\<exists>a. msg_signer E (tx_msgs tx ! i) = Some a \<and>
      msg_nonce (tx_msgs tx ! i) = acct_seq E c a + of_nat (signed_count E a (take i (tx_msgs tx))))) \<and>
    acct_seq E c' a = acct_seq E c a + of_nat (signed_count E a (tx_msgs tx))"
    using steps_nonces [OF run] by auto
qed

lemma sum_gas:
  assumes "sum_list (map (\<lambda>m. uint (msg_gas m)) ms) < 2 ^ 64"
  shows "uint (sum_list (map msg_gas ms)) = sum_list (map (\<lambda>m. uint (msg_gas m)) ms)"
  using assms
proof (induction ms)
  case (Cons m ms)
  have "0 \<le> sum_list (map (\<lambda>m. uint (msg_gas m)) ms)" by (rule sum_list_nonneg) auto
  then have "uint (msg_gas m) + sum_list (map (\<lambda>m. uint (msg_gas m)) ms) = (uint (msg_gas m) + sum_list (map (\<lambda>m. uint (msg_gas m)) ms)) mod 2 ^ 64"
    using Cons.prems by (intro mod_pos_pos_trivial [symmetric]) auto
  moreover have "uint (sum_list (map msg_gas ms)) = sum_list (map (\<lambda>m. uint (msg_gas m)) ms)"
  proof (rule Cons.IH)
    show "sum_list (map (\<lambda>m. uint (msg_gas m)) ms) < 2 ^ 64"
      using Cons.prems unfolding list.map sum_list.Cons using uint_ge_0 [of "msg_gas m"] by linarith
  qed
  ultimately show ?case by (simp add: uint_word_ariths)
qed simp

end

section \<open>A reference chain\<close>

text \<open>
  The reference keeper with one signer, a chain without a base fee and a block of a million gas, and transactions of dynamic-fee
  messages that call the account 2.
\<close>

definition ref_evm :: "(address \<Rightarrow> uint64 option, address \<times> uint64, ledger, lstore) evm_env" where
  "ref_evm = \<lparr>ee_keeper = ref_vm, ee_dec = ref_dec, ee_hex = ref_hex,
     ee_rules = \<lparr>er_IsHomestead = True, er_IsIstanbul = True, er_IsShanghai = True, er_IsLondon = True\<rparr>, ee_ChainID = 631,
     ee_Protected = (\<lambda>_. True), ee_TxChainId = (\<lambda>d. case ed_ChainID d of None \<Rightarrow> 0 | Some i \<Rightarrow> i), ee_Sender = (\<lambda>_. Some 1),
     TransactionToMessage = (\<lambda>d b. Ok \<lparr>m_From = 1, m_To = ed_To d, m_Nonce = ed_Nonce d, m_Value = (case ed_Value d of None \<Rightarrow> 0 | Some v \<Rightarrow> v),
       m_GasLimit = ed_Gas d, m_GasPrice = eth_price b d, m_GasFeeCap = (case ed_GasFeeCap d of None \<Rightarrow> 0 | Some f \<Rightarrow> f), m_GasTipCap = 0, m_Data = ed_Data d,
       m_AccessList = []\<rparr>),
     IntrinsicGas = (\<lambda>_ _ _ _ _ _ _. Ok 21000), core_CanTransfer = (\<lambda>balance a v. v \<le> balance a),
     GetSignerAcc = (\<lambda>get a. case get a of None \<Rightarrow> Fail (ErrUnknownAddress ''signer'') | Some x \<Rightarrow> Ok x),
     sdk_DeductFees = (\<lambda>send a fees b. send a FeeCollectorName fees b), MinGasPricesOf = (\<lambda>_. 0), ee_PriorityReduction = 1000000,
     ee_IsCheckTx = False, ee_IsReCheckTx = False, ee_BlockGasMeter = None, ee_MaxGas = Some 1000000, ee_HeaderHash = 0\<rparr>"

lemma ref_evm_simps [simp]:
  "ee_keeper ref_evm = ref_vm" "ee_dec ref_evm = ref_dec" "ee_hex ref_evm = ref_hex"
  "bankWrapper ref_vm = ref_pb" "accountKeeper ref_vm = ref_auth"
  by (simp_all add: ref_evm_def ref_vm_def)

interpretation rev: evm_laws ref_evm
proof -
  have "evm_laws_axioms ref_evm"
    by unfold_locales (auto simp: ref_evm_def split: option.splits)
  then show "evm_laws ref_evm"
    using rv.vm_laws_axioms rh.hex_laws_axioms by (simp add: evm_laws_def)
qed

definition ref_eth_msg :: "uint64 \<Rightarrow> uint64 \<Rightarrow> int \<Rightarrow> sdk_msg" where
  "ref_eth_msg n gas price = EthMsg \<lparr>msg_Data = Some (DynamicFee \<lparr>dyn_ChainID = Some 631, dyn_Nonce = n, dyn_GasTipCap = Some price,
     dyn_GasFeeCap = Some price, dyn_GasLimit = gas, dyn_To = addr_Hex ref_hex 2, dyn_Amount = Some 0, dyn_Data = [], dyn_Accesses = None,
     dyn_V = [], dyn_R = [1], dyn_S = [1]\<rparr>), msg_Size = 0, msg_Hash = ''h'', msg_From = ''''\<rparr>"

definition ref_market :: fm_state where
  "ref_market = \<lparr>fm_params = Some ((fm_DefaultParams 8 2)\<lparr>NoBaseFee := True\<rparr>), blockGasWanted = 0, transientGasWanted = 0, fm_events = []\<rparr>"

definition ref_ectx :: "(address \<Rightarrow> uint64 option, ledger) evm_ctx" where
  "ref_ectx = \<lparr>ec_vm = ref_vmctx, ec_market = ref_market, ec_params = Some vm_DefaultParams, ec_events = [], ec_meter = None, ec_priority = 0\<rparr>"

definition ref_eth_tx :: "int \<Rightarrow> uint64 \<Rightarrow> sdk_msg list \<Rightarrow> eth_sdk_tx" where
  "ref_eth_tx amount gas ms = \<lparr>st_basic = BasicOk,
     st_proto = Some \<lparr>pt_Memo = '''', pt_TimeoutHeight = 0, pt_NonCriticalExtensionOptions = 0, pt_ExtensionOptions = 1, pt_SignerInfos = 0,
       pt_Fee = Some \<lparr>tf_Amount = [(''aatom'', amount)], tf_GasLimit = gas, tf_Payer = '''', tf_Granter = ''''\<rparr>, pt_Signatures = 0\<rparr>,
     st_GasTx = True, st_fee_gas = Some gas, st_msgs = Some ms\<rparr>"

abbreviation ref_data :: "uint64 \<Rightarrow> uint64 \<Rightarrow> int \<Rightarrow> TxData" where
  "ref_data n gas price \<equiv> DynamicFee \<lparr>dyn_ChainID = Some 631, dyn_Nonce = n, dyn_GasTipCap = Some price,
     dyn_GasFeeCap = Some price, dyn_GasLimit = gas, dyn_To = addr_Hex ref_hex 2, dyn_Amount = Some 0, dyn_Data = [], dyn_Accesses = None,
     dyn_V = [], dyn_R = [1], dyn_S = [1]\<rparr>"

abbreviation ref_msg :: "uint64 \<Rightarrow> uint64 \<Rightarrow> int \<Rightarrow> string \<Rightarrow> MsgEthereumTx" where
  "ref_msg n gas price from_text \<equiv> \<lparr>msg_Data = Some (ref_data n gas price), msg_Size = 0, msg_Hash = ''h'', msg_From = from_text\<rparr>"

lemmas ref_dyn_eval = dyn_Fee_def fee_def dyn_EffectiveFee_def dyn_EffectiveGasPrice_def EffectiveGasPrice_def dyn_Cost_def cost_def
  dyn_AsEthereumData_def dyn_GetRawSignatureValues_def RawSignatureValues_def

lemma ref_account:
  assumes "bank_state c = bank_state ref_vmctx" "auth_state c = [addr_Bytes 1 \<mapsto> n]" "evm_store c = []"
  shows "\<exists>x. vm_GetAccount ref_vm c 1 = Ok (Some x) \<and> \<not> IsContract (vm_backend ref_vm) x \<and> uint (Balance x) = 5000000000000"
  using rv.read_account [of c 1] ref_vmctx_inv ref_vm_balance(1) ref_ordinary assms
  by (simp add: ref_auth_def IsContract_def IsEmptyCodeHash_def EmptyCodeHash_def vm_backend_def vm_GetCodeHash_def pget_def vm_EmptyCodeHash_def)

lemma ref_checks:
  assumes "0 \<le> price" "du_BaseFee du = Some 0" "du_GlobalMinGasPrice du = Some 0"
  shows "check_fees ref_evm False du (ref_data n gas price) = Ok ()"
    and "ValidateMsg ref_hex vm_DefaultParams (ref_data n gas price) (GetFrom ref_hex (ref_msg n gas price [])) = Ok ()"
    and "SignatureVerification ref_evm False (ref_msg n gas price []) = Ok (ref_msg n gas price (addr_Hex ref_hex 1))"
    and "GetFrom ref_hex (ref_msg n gas price (addr_Hex ref_hex 1)) = Some 1"
    and "VerifyFee ref_hex (IntrinsicGas ref_evm) (ref_data n gas price) denom (Some 0) hs ist shg False =
      Ok (if price * uint gas = 0 then [] else [(denom, price * uint gas)])"
    and "\<exists>msg. TransactionToMessage ref_evm d b = Ok msg \<and> (ed_GasFeeCap d = Some price \<longrightarrow> ed_Value d = Some 0 \<longrightarrow> CanTransfer ref_evm msg (Some 0) True c = Ok ())"
    and "\<exists>p. GetTxPriority 1000000 (ref_data n gas price) (Some 0) = Ok p"
  using assms
  by (simp_all add: check_fees_def ref_dyn_eval ref_evm_def [THEN arg_cong [where f = ee_IsCheckTx]] CheckGlobalFee_def dec_val_def
      ValidateMsg_def GetFrom_def checkDisabledCreateCall_def vm_DefaultParams_def DefaultAccessControl_def AccessTypePermissionless_def
      AccessTypeRestricted_def SignatureVerification_def AsTransaction_def ref_evm_def rh.address_hex rh.addr_Hex_nonempty
      VerifyFee_def CanTransfer_def Uint256FromBigInt_def GetTxPriority_def Let_def)


lemma ref_step:
  assumes c: "bank_state (ec_vm c) = bank_state ref_vmctx" "auth_state (ec_vm c) = [addr_Bytes 1 \<mapsto> n]" "evm_store (ec_vm c) = []"
    "ec_market c = ref_market" and du: "du_BaseFee du = Some 0" "du_GlobalMinGasPrice du = Some 0" "du_EvmParams du = vm_DefaultParams"
    and bound: "0 \<le> price" "price * uint gas \<le> 5000000000000" "fee_gas \<le> 1000000"
    and paid: "ConsumeFeesAndEmitEvent ref_evm (if price * uint gas = 0 then [] else [(Denom (evmCoin ref_pb), price * uint gas)]) 1 c = Ok c1"
    "auth_state (ec_vm c1) = auth_state (ec_vm c)" "ec_market c1 = ec_market c"
  shows "\<exists>du' m c'. mono_step ref_evm 0 (ref_eth_tx amount fee_gas ms) False (i, ref_eth_msg n gas price) (du, seen, c) = Ok (du', seen @ [m], c') \<and>
    bank_state (ec_vm c') = bank_state (ec_vm c1) \<and> auth_state (ec_vm c') = [addr_Bytes 1 \<mapsto> n + 1] \<and> evm_store (ec_vm c') = evm_store (ec_vm c1) \<and>
    tstore (ec_vm c') = tstore (ec_vm c1) \<and> ec_market c' = ref_market \<and> du_BaseFee du' = Some 0 \<and> du_GlobalMinGasPrice du' = Some 0 \<and> du_EvmParams du' = vm_DefaultParams \<and>
    du_GasWanted du' = du_GasWanted du + gas \<and> du_TxGasLimit du' = du_TxGasLimit du + gas \<and> du_TxFee du' = du_TxFee du + price * uint gas"
proof -
  obtain x where x: "vm_GetAccount ref_vm (ec_vm c) 1 = Ok (Some x)" "\<not> IsContract (vm_backend ref_vm) x" "uint (Balance x) = 5000000000000"
    using ref_account [OF c(1-3)] by blast
  have "\<not> price * uint gas < 0" using bound(1) by (simp add: not_less)
  then have bal: "VerifyAccountBalance ref_evm (Some x) 1 (ref_data n gas price) c = Ok c"
    using x bound by (simp add: VerifyAccountBalance_def CheckSenderBalance_def ref_dyn_eval Let_def)
  obtain msg where msg: "TransactionToMessage ref_evm (tx_AsEthereumData ref_hex (ref_data n gas price)) (Some 0) = Ok msg"
    "CanTransfer ref_evm msg (Some 0) True c = Ok ()"
    using ref_checks(6) [OF bound(1) du(1,2), of "tx_AsEthereumData ref_hex (ref_data n gas price)" "Some 0" c]
    by (auto simp: ref_dyn_eval)
  obtain p where p: "GetTxPriority 1000000 (ref_data n gas price) (Some 0) = Ok p" using ref_checks(7) [OF bound(1) du(1,2)] by blast
  have rules: "ee_rules ref_evm = \<lparr>er_IsHomestead = True, er_IsIstanbul = True, er_IsShanghai = True, er_IsLondon = True\<rparr>"
    "\<not> ee_IsCheckTx ref_evm" "ee_PriorityReduction ref_evm = 1000000" "BlockGasLimit (ee_BlockGasMeter ref_evm) (ee_MaxGas ref_evm) = 1000000"
    by (simp_all add: ref_evm_def BlockGasLimit_def)
  have fee: "tx_Fee (ref_data n gas price) = Ok (price * uint gas)" using bound(1) by (simp add: ref_dyn_eval)
  have want: "CheckGasWanted h 1000000 (st_fee_gas (ref_eth_tx amount fee_gas ms)) True ref_market = Ok ref_market" for h
    using bound(3) by (simp add: not_less CheckGasWanted_def ref_eth_tx_def GetBaseFeeEnabled_def ref_market_def fm_GetParams_def fm_DefaultParams_def)
  have proj: "tx_GetNonce (ref_data n gas price) = n" "tx_GetGas (ref_data n gas price) = gas" "\<not> AllowUnprotectedTxs vm_DefaultParams"
    by (simp_all add: vm_DefaultParams_def)
  define t where "t = ref_data n gas price"
  define fees where "fees = (if price * uint gas = 0 then [] else [(Denom (evmCoin ref_pb), price * uint gas)])"
  note checks = ref_checks(1-5) [OF bound(1) du(1,2), of n gas, folded t_def] fee [folded t_def] p [folded t_def] msg [folded t_def]
    bal [folded t_def] proj [folded t_def]
  have vf: "VerifyFee ref_hex (IntrinsicGas ref_evm) t (Denom (evmCoin ref_pb)) (Some 0) hs ist shg False = Ok fees" for hs ist shg
    unfolding checks(5) fees_def ..
  show ?thesis
    unfolding mono_step_def ref_eth_msg_def prod.case Let_def t_def [symmetric]
    using c du paid [folded fees_def]
    by (simp add: UnpackEthMsg_def checks(1-4,6-) vf x AsTransaction_def rules GetMsgPriority_def ref_auth_def IncrementNonce_def want
        EmitTxHashEvent_def UpdateCumulativeGasWanted_def Let_def)
qed

lemma ref_pay:
  assumes "bank_state (ec_vm c) = bank_state ref_vmctx" "auth_state (ec_vm c) = [addr_Bytes 1 \<mapsto> n]"
  shows "\<exists>c1. ConsumeFeesAndEmitEvent ref_evm [(Denom (evmCoin ref_pb), 21000)] 1 c = Ok c1 \<and> auth_state (ec_vm c1) = auth_state (ec_vm c) \<and>
    ec_market c1 = ec_market c \<and> tstore (ec_vm c1) = tstore (ec_vm c)"
proof -
  have "\<exists>s. SendCoins ref_pb (addr_Bytes 1) (255 # StringToBytes ''fee_collector'') [(''aatom'', 21000)] (bank_state ref_vmctx) = Ok s"
    using addr_Bytes_simps(1) [of 1] by (auto simp: pb_eval ref_vmctx_def dest: arg_cong [where f = length])
  then show ?thesis using assms
    by (auto simp: ConsumeFeesAndEmitEvent_def deductFees_def DeductTxCostsFromUserBalance_def ref_coins_def ref_auth_def ref_evm_def
      bw_SendCoinsFromAccountToModule_def ConvertCoinsDenomToExtendedDenom_def ConvertEvmCoinDenomToExtendedDenom_def
      SendCoinsFromAccountToModule_def FeeCollectorName_def pb_ModuleName_def ref_accounts_def ref_module_addr_def ref_pb_def)
qed

definition ref_setup :: "(address \<Rightarrow> uint64 option, ledger) evm_ctx" where
  "ref_setup = ref_ectx\<lparr>ec_meter := None, ec_vm := ResetTransientGasUsed ref_vmctx\<rparr>"

definition ref_utils :: DecoratorUtils where
  "ref_utils = \<lparr>du_EvmParams = vm_DefaultParams, du_BaseFee = Some 0, du_MempoolMinGasPrice = 0, du_GlobalMinGasPrice = Some 0,
     du_BlockTxIndex = 0, du_TxGasLimit = 0, du_GasWanted = 0, du_MinPriority = MaxInt64, du_TxFee = 0\<rparr>"

lemma ref_handler:
  assumes "for_each (mono_step ref_evm 0 (ref_eth_tx amount gas ms) False) (enumerate 0 ms) (ref_utils, [], ref_setup) = Ok (du, seen, c)"
    and "du_TxFee du = amount" "du_TxGasLimit du = gas" "du_GasWanted du \<le> 1000000"
  shows "\<exists>c'. Mono_AnteHandle ref_evm 0 (ref_eth_tx amount gas ms) False (\<lambda>_. Ok) ref_ectx = Ok c' \<and> ec_vm c' = ec_vm c \<and> ec_market c' = ec_market c \<and>
    ec_meter c' = Some (NewInfiniteGasMeterWithLimit (du_GasWanted du))"
proof -
  have 1: "ValidateTx (ref_eth_tx amount gas ms) = Ok \<lparr>tf_Amount = [(''aatom'', amount)], tf_GasLimit = gas, tf_Payer = '''', tf_Granter = ''''\<rparr>"
    "SetupContextAndResetTransientGas (ref_eth_tx amount gas ms) ref_ectx = Ok ref_setup" "st_msgs (ref_eth_tx amount gas ms) = Some ms"
    by (simp_all add: ValidateTx_def ref_eth_tx_def SetupContextAndResetTransientGas_def ref_setup_def ref_ectx_def)
  have 2: "NewMonoDecoratorUtils ref_evm ref_setup = Ok ref_utils"
    by (simp add: NewMonoDecoratorUtils_def ref_setup_def ref_ectx_def ref_market_def ref_utils_def vm_GetBaseFee_def fw_GetBaseFee_def
        fm_GetBaseFee_def fm_GetParams_def GetMinGasPrice_def fw_GetParams_def fm_DefaultParams_def dec_val_def vm_GetParams_def
        ConvertAmountTo18DecimalsLegacy_def ref_dec_def ref_evm_def GetTxIndexTransient_def ResetTransientGasUsed_def Let_def ref_vmctx_def kv_delete_def be_uint64_def)
  have 3: "CheckTxFee (sdk ref_pb) (ee_coin ref_evm) (Some \<lparr>tf_Amount = [(''aatom'', amount)], tf_GasLimit = gas, tf_Payer = '''', tf_Granter = ''''\<rparr>)
      amount gas = Ok ()"
    by (simp add: CheckTxFee_def ref_coins_def ref_pb_def)
  have 4: "BlockGasLimit (ee_BlockGasMeter ref_evm) (ee_MaxGas ref_evm) = 1000000" "\<not> ee_IsReCheckTx ref_evm"
    by (simp_all add: ref_evm_def BlockGasLimit_def)
  show ?thesis using assms 3 by (simp add: Mono_AnteHandle_def 1 2 4 CheckBlockGasLimit_def not_less)
qed

lemma ref_setup_simps:
  "bank_state (ec_vm ref_setup) = bank_state ref_vmctx" "auth_state (ec_vm ref_setup) = [addr_Bytes 1 \<mapsto> 5]" "evm_store (ec_vm ref_setup) = []"
  "ec_market ref_setup = ref_market" "du_BaseFee ref_utils = Some 0" "du_GlobalMinGasPrice ref_utils = Some 0" "du_EvmParams ref_utils = vm_DefaultParams"
  "du_GasWanted ref_utils = 0" "du_TxGasLimit ref_utils = 0" "du_TxFee ref_utils = 0"
  by (simp_all add: ref_setup_def ref_ectx_def ref_vmctx_def ResetTransientGasUsed_def ref_utils_def)

text \<open>A transfer of 21000 gas at price one.\<close>

abbreviation ref_paying_tx :: eth_sdk_tx where
  "ref_paying_tx \<equiv> ref_eth_tx 21000 21000 [ref_eth_msg 5 21000 1]"

lemma ref_run: "\<exists>c'. Mono_AnteHandle ref_evm 0 ref_paying_tx False (\<lambda>_. Ok) ref_ectx = Ok c' \<and> ec_market c' = ref_market \<and>
  GetTransientGasUsed (ec_vm c') = 0 \<and> ec_meter c' = Some (NewInfiniteGasMeterWithLimit 21000)"
proof -
  obtain c1 where c1: "ConsumeFeesAndEmitEvent ref_evm [(Denom (evmCoin ref_pb), 21000)] 1 ref_setup = Ok c1"
    "auth_state (ec_vm c1) = auth_state (ec_vm ref_setup)" "ec_market c1 = ec_market ref_setup" "tstore (ec_vm c1) = tstore (ec_vm ref_setup)"
    using ref_pay [OF ref_setup_simps(1,2)] by blast
  obtain du m c where 1: "mono_step ref_evm 0 ref_paying_tx False (0, ref_eth_msg 5 21000 1) (ref_utils, [], ref_setup) = Ok (du, [m], c)"
    "du_GasWanted du = 21000" "du_TxGasLimit du = 21000" "du_TxFee du = 21000" "ec_market c = ref_market" "tstore (ec_vm c) = tstore (ec_vm c1)"
    using ref_step [OF ref_setup_simps(1-7), of 1 21000 21000 c1 21000 "[ref_eth_msg 5 21000 1]" 0 "[]"] c1 by (auto simp: ref_setup_simps)
  have "\<exists>c'. Mono_AnteHandle ref_evm 0 ref_paying_tx False (\<lambda>_. Ok) ref_ectx = Ok c' \<and> ec_vm c' = ec_vm c \<and> ec_market c' = ec_market c \<and>
      ec_meter c' = Some (NewInfiniteGasMeterWithLimit (du_GasWanted du))"
    by (rule ref_handler [of _ _ _ _ "[m]"]) (simp_all add: 1)
  moreover have "GetTransientGasUsed (ec_vm c) = 0"
    using 1(6) c1(4) by (simp add: GetTransientGasUsed_def ref_setup_def ResetTransientGasUsed_def ref_vmctx_def kv_delete_def be_uint64_def)
  ultimately show ?thesis using 1 by metis
qed

lemma ref_accepted: "\<exists>c'. Mono_AnteHandle ref_evm 0 ref_paying_tx False (\<lambda>_. Ok) ref_ectx = Ok c'"
  using ref_run by blast

lemma ref_tx_msgs: "st_msgs (ref_eth_tx amount gas ms) = Some ms"
  by (simp add: ref_eth_tx_def)

lemma ref_signer: "msg_signer ref_evm (ref_eth_msg n gas price) = Some 1"
  by (simp add: ref_eth_msg_def ref_evm_def)

lemma ref_gas: "msg_gas (ref_eth_msg n gas price) = gas"
  by (simp add: ref_eth_msg_def msg_GetGas_def)

lemma ref_charge: "0 \<le> price \<Longrightarrow> msg_charge (Some 0) (ref_eth_msg n gas price) = price * uint gas"
  by (simp add: ref_eth_msg_def ref_dyn_eval)

lemma ref_sender: "holder ref_pb (addr_Bytes 1)" "addr_Bytes 1 \<noteq> module_addr (ak ref_pb) FeeCollectorName"
  using rv.ordinary_holder [OF ref_ordinary, of 1]
  by (auto simp: module_addr_def ref_accounts_def ref_module_addr_def FeeCollectorName_def StringToBytes_def dest: arg_cong [where f = length])

lemma ref_ectx_seq: "acct_seq ref_evm ref_ectx 1 = 5"
  by (simp add: acct_seq_def ref_ectx_def ref_vmctx_def ref_auth_def)

section \<open>Properties\<close>

text \<open>
  C6. In an accepted transaction the messages of every sender carry that sender's consecutive sequence numbers, starting at the
  stored one, in the order of the messages, every message has a sender, and the stored sequence ends up after the last of them.
\<close>

theorem accepted_nonces_consecutive:
  assumes "evm_laws E" and "Mono_AnteHandle E mx tx sim (\<lambda>_. Ok) c = Ok c'"
  shows "(\<forall>i < length (tx_msgs tx). \<exists>a. msg_signer E (tx_msgs tx ! i) = Some a \<and>
      msg_nonce (tx_msgs tx ! i) = acct_seq E c a + of_nat (signed_count E a (take i (tx_msgs tx)))) \<and>
    (\<forall>a. acct_seq E c' a = acct_seq E c a + of_nat (signed_count E a (tx_msgs tx)))"
  using evm_laws.handler_nonces [OF assms] by blast

theorem accepted_nonces_consecutive_witness:
  "\<exists>c'. Mono_AnteHandle ref_evm 0 ref_paying_tx False (\<lambda>_. Ok) ref_ectx = Ok c' \<and> acct_seq ref_evm c' 1 = 6"
proof -
  obtain c' where c': "Mono_AnteHandle ref_evm 0 ref_paying_tx False (\<lambda>_. Ok) ref_ectx = Ok c'" using ref_accepted by blast
  from accepted_nonces_consecutive [OF rev.evm_laws_axioms c'] c' show ?thesis
    by (simp add: ref_tx_msgs ref_signer signed_count_def ref_ectx_seq)
qed

text \<open>
  C8. A transaction that was accepted once is never accepted again, in whatever state, as long as the sequence of the
  sender of its first message has stayed where the first acceptance put it.
\<close>

theorem replay_rejected:
  assumes "evm_laws E" and "Mono_AnteHandle E mx tx sim (\<lambda>_. Ok) c = Ok c'" and "0 < length (tx_msgs tx)" and "length (tx_msgs tx) < 2 ^ 64"
    and "\<forall>a. msg_signer E (hd (tx_msgs tx)) = Some a \<longrightarrow> acct_seq E d a = acct_seq E c' a"
  shows "\<not> is_ok (Mono_AnteHandle E mx' tx sim' (\<lambda>_. Ok) d)"
proof
  let ?ms = "tx_msgs tx"
  assume "is_ok (Mono_AnteHandle E mx' tx sim' (\<lambda>_. Ok) d)"
  then obtain d' where d': "Mono_AnteHandle E mx' tx sim' (\<lambda>_. Ok) d = Ok d'" by (auto simp: is_ok_iff)
  obtain a where a: "msg_signer E (hd ?ms) = Some a" "msg_nonce (hd ?ms) = acct_seq E c a"
    using evm_laws.handler_nonces(1) [OF assms(1,2,3)] assms(3) by (auto simp: signed_count_def hd_conv_nth)
  have "msg_nonce (hd ?ms) = acct_seq E d a"
    using evm_laws.handler_nonces(1) [OF assms(1) d' assms(3)] assms(3) a(1) by (auto simp: signed_count_def hd_conv_nth)
  then have "(of_nat (signed_count E a ?ms) :: uint64) = 0"
    using a assms(5) evm_laws.handler_nonces(2) [OF assms(1,2), of a] by simp
  moreover have "hd ?ms \<in> set (filter (\<lambda>m. msg_signer E m = Some a) ?ms)" using a(1) assms(3) by (cases "st_msgs tx") auto
  then have "0 < signed_count E a ?ms" unfolding signed_count_def by (rule length_pos_if_in_set)
  moreover have "signed_count E a ?ms < 2 ^ 64" using assms(4) le_less_trans [OF length_filter_le] by (simp add: signed_count_def)
  ultimately show False by (auto simp: word_of_nat_eq_0_iff dest: dvd_imp_le)
qed

theorem replay_rejected_witness:
  "\<exists>c'. Mono_AnteHandle ref_evm 0 ref_paying_tx False (\<lambda>_. Ok) ref_ectx = Ok c' \<and>
     \<not> is_ok (Mono_AnteHandle ref_evm 7 ref_paying_tx True (\<lambda>_. Ok) c')"
proof -
  obtain c' where c': "Mono_AnteHandle ref_evm 0 ref_paying_tx False (\<lambda>_. Ok) ref_ectx = Ok c'" using ref_accepted by blast
  from replay_rejected [OF rev.evm_laws_axioms c', of c' 7 True] c' show ?thesis by (simp add: ref_tx_msgs)
qed

text \<open>
  C7. What an accepted transaction has paid: the fee collector holds exactly the effective fees of the messages more, every
  other account exactly the effective fees of its own messages less, and the fractional balances stay backed.
\<close>

theorem accepted_fees_exact:
  assumes "evm_laws E" and "Mono_AnteHandle E mx tx sim (\<lambda>_. Ok) c = Ok c'" and "pb_inv (ee_bank E) (bank_state (ec_vm c))"
    and "\<forall>m \<in> set (tx_msgs tx). \<forall>a. msg_signer E m = Some a \<longrightarrow> holder (ee_bank E) (addr_Bytes a)"
  defines "b \<equiv> vm_GetBaseFee (ee_dec E) (ee_coin E) (er_IsLondon (ee_rules E)) (ec_market c)"
  shows "pb_inv (ee_bank E) (bank_state (ec_vm c')) \<and> (\<forall>y. y \<noteq> reserve (ee_bank E) \<longrightarrow>
    ext_balance (ee_bank E) y (bank_state (ec_vm c')) = ext_balance (ee_bank E) y (bank_state (ec_vm c)) - charged E b y (tx_msgs tx) +
      (if y = module_addr (ak (ee_bank E)) FeeCollectorName then sum_list (map (msg_charge b) (tx_msgs tx)) else 0))"
  unfolding b_def by (rule evm_laws.handler_fees [OF assms(1-4)])

theorem accepted_fees_exact_witness:
  "\<exists>c'. Mono_AnteHandle ref_evm 0 ref_paying_tx False (\<lambda>_. Ok) ref_ectx = Ok c' \<and>
     ext_balance ref_pb (addr_Bytes 1) (bank_state (ec_vm c')) = 4999999979000"
proof -
  obtain c' where c': "Mono_AnteHandle ref_evm 0 ref_paying_tx False (\<lambda>_. Ok) ref_ectx = Ok c'" using ref_accepted by blast
  have bank: "ec_vm ref_ectx = ref_vmctx" "er_IsLondon (ee_rules ref_evm)" "fw_GetBaseFee D i (ec_market ref_ectx) = None" for D i
    by (simp_all add: ref_ectx_def ref_evm_def fw_GetBaseFee_def fm_GetBaseFee_def fm_GetParams_def ref_market_def)
  note h = ref_sender
  from accepted_fees_exact [OF rev.evm_laws_axioms c'] c' show ?thesis
    using h ref_vmctx_inv ref_vm_balance(1)
    by (auto simp: ref_tx_msgs ref_signer bank vm_GetBaseFee_def charged_def holder_def ref_charge)
qed

text \<open>
  C11. Outside the mempool, an accepted transaction whose gas limits add up without wrapping stays within the gas of the block,
  runs with a meter of exactly that gas, and announced exactly that gas and the sum of the largest fees to the Cosmos stack.
\<close>

theorem accepted_gas_within_block:
  assumes "evm_laws E" and "Mono_AnteHandle E mx tx sim (\<lambda>_. Ok) c = Ok c'" and "\<not> ee_IsCheckTx E" and "\<not> ee_IsReCheckTx E"
    and "sum_list (map (\<lambda>m. uint (msg_gas m)) (tx_msgs tx)) < 2 ^ 64"
  shows "\<exists>g p info. uint g = sum_list (map (\<lambda>m. uint (msg_gas m)) (tx_msgs tx)) \<and> g \<le> BlockGasLimit (ee_BlockGasMeter E) (ee_MaxGas E) \<and>
    ec_meter c' = Some (NewInfiniteGasMeterWithLimit g) \<and> st_proto tx = Some p \<and> pt_Fee p = Some info \<and> tf_GasLimit info = g \<and>
    AmountOf (sdk (ee_bank E)) (tf_Amount info) (ExtendedDenom (ee_coin E)) = sum_list (map msg_max_fee (tx_msgs tx))"
  using assms(2)
proof (rule evm_laws.handler_ok [OF assms(1)])
  fix info du c0 du' seen c1
  assume run: "for_each (mono_step E mx tx sim) (enumerate 0 (tx_msgs tx)) (du, [], c0) = Ok (du', seen, c1)"
    and "du_TxGasLimit du = 0" "du_TxFee du = 0" "du_GasWanted du = 0"
    and "ee_IsReCheckTx E \<or> info \<noteq> None \<and> (\<exists>p. st_proto tx = Some p \<and> pt_Fee p = info)"
    and "CheckTxFee (sdk (ee_bank E)) (ee_coin E) info (du_TxFee du') (du_TxGasLimit du') = Ok ()"
    and "ec_meter c' = Some (NewInfiniteGasMeterWithLimit (du_GasWanted du'))"
    and "du_GasWanted du' \<le> BlockGasLimit (ee_BlockGasMeter E) (ee_MaxGas E)"
  then show ?thesis
    using evm_laws.steps_totals [OF assms(1) run] assms(3,4) evm_laws.sum_gas [OF assms(1,5)]
    by (auto simp: CheckTxFee_def res_simps)
qed

theorem accepted_gas_within_block_witness:
  "\<exists>c'. Mono_AnteHandle ref_evm 0 ref_paying_tx False (\<lambda>_. Ok) ref_ectx = Ok c' \<and>
     ec_meter c' = Some (NewInfiniteGasMeterWithLimit 21000)"
proof -
  obtain c' where c': "Mono_AnteHandle ref_evm 0 ref_paying_tx False (\<lambda>_. Ok) ref_ectx = Ok c'" using ref_accepted by blast
  have "\<not> ee_IsCheckTx ref_evm" "\<not> ee_IsReCheckTx ref_evm" by (simp_all add: ref_evm_def)
  moreover have "g = 21000" if "uint g = 21000" for g :: uint64 using that by (metis word_of_int_uint of_int_numeral)
  ultimately show ?thesis
    using accepted_gas_within_block [OF rev.evm_laws_axioms c'] c' by (auto simp: ref_tx_msgs ref_gas)
qed

end
