(* ===== verification/StateTransitionProps.thy ===== *)
theory StateTransitionProps
  imports StateTransition EvmAnteProps
begin

text \<open>
  What running an Ethereum transaction guarantees: the bounds of the gas it is charged, what a failed transaction may
  change, and what its sender finally pays.
\<close>

section \<open>The laws of the interpreter\<close>

locale exec_laws = evm_laws "xe X" + legacy_dec "ee_dec (xe X)" for X :: "('s, 'a, 'b, 'v, 'p) exec_env" +
  assumes call_gas: "evm_Call X evm a t bs gas v db = Ok (ret, leftover, e, db') \<Longrightarrow> leftover \<le> gas"
    and create_gas: "evm_Create X evm a bs gas v db = Ok (ret, leftover, e, db') \<Longrightarrow> leftover \<le> gas"

section \<open>Refunds\<close>

context evm_laws
begin

lemma refund_exact:
  assumes r: "RefundGas E msg left (Denom (ee_coin E)) c = Ok c'" and inv: "pb_inv B (bank_state (ec_vm c))"
    and h: "holder B (addr_Bytes (m_From msg))"
  defines "n \<equiv> uint left * m_GasPrice msg"
  shows "pb_inv B (bank_state (ec_vm c'))" and "y \<noteq> reserve B \<Longrightarrow> ext_balance B y (bank_state (ec_vm c')) =
      ext_balance B y (bank_state (ec_vm c)) + (if y = addr_Bytes (m_From msg) then n else 0) -
      (if y = module_addr (ak B) FeeCollectorName then n else 0)"
    and "\<exists>s. c' = c\<lparr>ec_vm := (ec_vm c)\<lparr>bank_state := s\<rparr>\<rparr>" and "0 \<le> n"
proof -
  let ?a = "addr_Bytes (m_From msg)" and ?m = "module_addr (ak B) FeeCollectorName"
  have all: "pb_inv B (bank_state (ec_vm c')) \<and> 0 \<le> n \<and> (\<exists>s. c' = c\<lparr>ec_vm := (ec_vm c)\<lparr>bank_state := s\<rparr>\<rparr>) \<and> (y \<noteq> reserve B \<longrightarrow>
      ext_balance B y (bank_state (ec_vm c')) = ext_balance B y (bank_state (ec_vm c)) + (if y = ?a then n else 0) - (if y = ?m then n else 0))" for y
  proof (cases "n = 0")
    case True
    then have "c' = c" using r by (simp add: RefundGas_def n_def [symmetric])
    then show ?thesis using True inv by (auto intro!: exI [of _ "bank_state (ec_vm c)"])
  next
    case False
    then have pos: "0 < n" using r by (auto simp: RefundGas_def n_def [symmetric] split: if_splits)
    have sort: "CoinsSort (sdk B) [z] = [z]" for z using sort_mset [of "[z]"] by auto
    have "ValidateDenom (sdk B) (Denom (ee_coin E))" using denoms_valid(1) by (simp add: IntegerCoinDenom_def)
    then obtain s where s: "bw_SendCoinsFromModuleToAccount B FeeCollectorName ?a [(Denom (ee_coin E), n)] (bank_state (ec_vm c)) = Ok s"
      and c': "c' = c\<lparr>ec_vm := (ec_vm c)\<lparr>bank_state := s\<rparr>\<rparr>"
      using r pos by (auto simp: RefundGas_def n_def [symmetric] new_coin split: res.splits)
    then have "SendCoinsFromModuleToAccount B FeeCollectorName ?a [(ExtendedCoinDenom B, n)] (bank_state (ec_vm c)) = Ok s"
      using pos by (auto simp: bw_SendCoinsFromModuleToAccount_def is_zero ConvertCoinsDenomToExtendedDenom_def sort
          ConvertEvmCoinDenomToExtendedDenom_def ExtendedCoinDenom_def)
    then obtain m where m: "GetModuleAddress (ak B) FeeCollectorName = Some m" "SendCoins B m ?a [(ExtendedCoinDenom B, n)] (bank_state (ec_vm c)) = Ok s"
      by (auto simp: SendCoinsFromModuleToAccount_def res_simps split: option.splits)
    have hm: "?m = m" "holder B m" using m(1) address_holder [OF m(1)] by (auto simp: module_addr_def FeeCollectorName_def pb_ModuleName_def)
    have "ext_value B [(ExtendedCoinDenom B, n)] = n" using denoms_valid by (auto simp: ext_value_def amount_one)
    then show ?thesis
      using send_coins_spec [OF inv hm(2) h, of "[(ExtendedCoinDenom B, n)]"] m(2) c' pos by (auto simp: sent_coins_def hm)
  qed
  then show "pb_inv B (bank_state (ec_vm c'))" and "y \<noteq> reserve B \<Longrightarrow> ext_balance B y (bank_state (ec_vm c')) =
      ext_balance B y (bank_state (ec_vm c)) + (if y = ?a then n else 0) - (if y = ?m then n else 0)"
    and "\<exists>s. c' = c\<lparr>ec_vm := (ec_vm c)\<lparr>bank_state := s\<rparr>\<rparr>" and "0 \<le> n"
    by blast+
qed

end

section \<open>Gas\<close>

lemma div_max:
  fixes u x d :: int
  assumes "0 < d"
  shows "max (u * d) x div d = max u (x div d)"
proof (cases "u * d \<le> x")
  case True
  then show ?thesis using zdiv_mono1 [OF True assms] assms by (simp add: max_def)
next
  case False
  then show ?thesis using zdiv_mono1 [of x "u * d" d] assms by (auto simp: max_def)
qed

context exec_laws
begin

lemma run_gas: "run_message X evm msg gas v db = Ok (ret, leftover, e, db') \<Longrightarrow> leftover \<le> gas"
  by (auto simp: run_message_def Let_def res_simps split: option.splits dest: call_gas create_gas)

lemma charge_value:
  assumes c: "charge_gas X limit leftover False used c = Ok g" and m: "MinGasMultiplier (fm_GetParams (ec_market c)) = Some m" "0 \<le> m"
    and u: "uint used < 2 ^ 63"
  shows "uint g = max (uint used) (uint limit * m div dec_one)"
proof -
  let ?D = "ee_dec (xe X)"
  have mm: "GetMinGasMultiplier ?D i (ec_market c) = Ok x \<Longrightarrow> x = Some m" for i x
    using m(1) by (auto simp: GetMinGasMultiplier_def fw_GetParams_def Let_def res_simps split: option.splits)
  have mul: "DecMul ?D (LegacyNewDec ?D (uint limit)) m = uint limit * m" by (rule dec_mul_exact) (simp add: dec_new)
  have s: "sint used = uint used"
    using u order_trans [of "- (2 ^ 63)" 0 "uint used"] by (simp add: sint_uint signed_take_bit_int_eq_self)
  define t where "t = max (uint used * dec_one) (uint limit * m)"
  have t: "0 \<le> t" by (simp add: t_def le_max_iff_disj)
  have trunc: "DecTruncateInt ?D t = t div dec_one" using t by (simp add: dec_truncate)
  from c obtain x where x: "GetMinGasMultiplier ?D (ee_coin (xe X)) (ec_market c) = Ok x"
    by (auto simp: charge_gas_def Let_def res_simps)
  note x = x [unfolded mm [OF x]]
  from c have g: "g = word_of_int (DecTruncateInt ?D t)" "is_uint64 (DecTruncateInt ?D t)"
    unfolding charge_gas_def Let_def x bind_res.simps dec_val_def option.case mul s dec_new [of "uint used"] if_False t_def [symmetric]
    by (simp_all add: bind_res_Ok_iff must_iff)
  have "t div dec_one = max (uint used) (uint limit * m div dec_one)"
    unfolding t_def by (rule div_max) simp
  with g trunc show ?thesis unfolding is_uint64_def by (simp add: uint_word_of_int_eq take_bit_int_eq_self del: max.bounded_iff)
qed

lemma message_gas:
  assumes a: "ApplyMessageWithConfig X msg commit cfg txc False c = Ok (res, c')" and l: "uint (m_GasLimit msg) < 2 ^ 63"
    and m: "MinGasMultiplier (fm_GetParams (ec_market c)) = Some m" "0 \<le> m" "m \<le> dec_one"
  shows "uint (m_GasLimit msg) * m div dec_one \<le> uint (res_GasUsed res)" and "res_GasUsed res \<le> m_GasLimit msg"
proof -
  from a obtain left used c1 where u: "charge_gas X (m_GasLimit msg) left False used c1 = Ok (res_GasUsed res)" "used \<le> m_GasLimit msg"
    "ec_market c1 = ec_market c"
  proof -
    from a obtain evm gas db val ret left e db' c1 db'' g where
      left: "\<not> m_GasLimit msg < left" and
      c1: "(if commit then bind_res (Commit (vm_backend (ee_keeper (xe X))) db') (\<lambda>(db, e). case e of None \<Rightarrow> Ok (db, c\<lparr>ec_vm := ctx db\<rparr>) | Some e \<Rightarrow> Fail e)
          else Ok (db', c)) = Ok (db'', c1)" and
      g: "charge_gas X (m_GasLimit msg) (left + GasToRefund (refund db') (m_GasLimit msg - left) (if er_IsLondon (ee_rules (xe X)) then 5 else 2)) False
        (m_GasLimit msg - left - GasToRefund (refund db') (m_GasLimit msg - left) (if er_IsLondon (ee_rules (xe X)) then 5 else 2)) c1 = Ok g"
      and "res_GasUsed res = g"
      unfolding ApplyMessageWithConfig_def Let_def if_False by (auto simp: bind_res_Ok_iff require_iff)
    let ?t = "m_GasLimit msg - left" and ?q = "if er_IsLondon (ee_rules (xe X)) then 5 else 2 :: uint64"
    have "GasToRefund (refund db') ?t ?q \<le> ?t div ?q" by (auto simp: GasToRefund_def Let_def not_less)
    also have "\<dots> \<le> ?t" by (simp add: word_le_nat_alt unat_div)
    finally have "?t - GasToRefund (refund db') ?t ?q \<le> ?t" by (rule word_sub_le)
    also have "?t \<le> m_GasLimit msg" using left by (intro word_sub_le) (simp add: not_less)
    finally show ?thesis
      using g \<open>res_GasUsed res = g\<close> c1 by (intro that [OF g [folded \<open>res_GasUsed res = g\<close>]]) (auto simp: bind_res_Ok_iff split: if_splits option.splits)
  qed
  have used: "uint used \<le> uint (m_GasLimit msg)" using u(2) by (simp add: word_le_def)
  have v: "uint (res_GasUsed res) = max (uint used) (uint (m_GasLimit msg) * m div dec_one)"
    using charge_value [OF u(1)] m u(3) used l by simp
  then show "uint (m_GasLimit msg) * m div dec_one \<le> uint (res_GasUsed res)" by simp
  have "uint (m_GasLimit msg) * m \<le> uint (m_GasLimit msg) * dec_one" by (rule mult_left_mono) (use m in auto)
  then have "uint (m_GasLimit msg) * m div dec_one \<le> uint (m_GasLimit msg)"
    using zdiv_mono1 [of "uint (m_GasLimit msg) * m" "uint (m_GasLimit msg) * dec_one" dec_one] by simp
  then show "res_GasUsed res \<le> m_GasLimit msg" using v used by (simp add: word_le_def)
qed

section \<open>Failed transactions\<close>

lemma data_gas: "ed_Gas (tx_AsEthereumData H t) = tx_GetGas t"
  by (cases t) (simp_all add: leg_AsEthereumData_def alt_AsEthereumData_def dyn_AsEthereumData_def split: prod.split)

lemma post_process_failed:
  assumes "post_process X tx msg txc bl res tmp c = Ok (res', c')" and "Failed res'"
  shows "c' = c" and "res_GasUsed res' = res_GasUsed res"
  using assms by (auto simp: post_process_def Failed_def Let_def split: if_splits option.splits res.splits prod.splits)

lemma finish_frames:
  assumes "finish_transaction txc ls bl res c = Ok (res', c')"
  shows "res = res'" "auth_state (ec_vm c') = auth_state (ec_vm c)" "evm_store (ec_vm c') = evm_store (ec_vm c)"
    "bank_state (ec_vm c') = bank_state (ec_vm c)" "ec_market c' = ec_market c" "ec_params c' = ec_params c"
  using assms
  by (auto simp: finish_transaction_def Let_def bind_res_Ok_iff AddTransientGasUsed_def SetTransientGasUsed_def SetTxIndexTransient_def
      SetLogSizeTransient_def SetBlockBloomTransient_def on_meter_def split: if_splits option.splits)

lemma failed_ok:
  assumes "ApplyTransaction X tx c = Ok (res, c')" and "Failed res"
  obtains msg cfg txc res1 tmp c1 left where
    "TransactionToMessage (xe X) tx (vm_BaseFee (xe X) c) = Ok msg" "ApplyMessageWithConfig X msg True cfg txc False c = Ok (res1, tmp)"
    "res_GasUsed res1 = res_GasUsed res" "RefundGas (xe X) msg left (Denom (ee_coin (xe X))) c = Ok c1"
    "left = (if res_GasUsed res < m_GasLimit msg then m_GasLimit msg - res_GasUsed res else 0)"
    "auth_state (ec_vm c') = auth_state (ec_vm c1)" "evm_store (ec_vm c') = evm_store (ec_vm c1)" "bank_state (ec_vm c') = bank_state (ec_vm c1)"
    "ec_market c' = ec_market c1" "ec_params c' = ec_params c1"
proof -
  from assms(1) obtain cfg msg res1 tmp res2 c0 c1 ls bl where
    cfg: "load_EVMConfig X (ProposerAddress X) c = Ok cfg" and msg: "TransactionToMessage (xe X) tx (cfg_BaseFee cfg) = Ok msg" and
    run: "ApplyMessageWithConfig X msg True cfg (load_TxConfig X (tx_Hash X tx) c) False c = Ok (res1, tmp)" and
    post: "post_process X tx msg (load_TxConfig X (tx_Hash X tx) c) (snd (initializeBloomFromLogs X (LogsToEthereum (ee_hex (xe X)) (res_Logs res1)) c))
      res1 tmp c = Ok (res2, c0)" and
    refund: "RefundGas (xe X) msg (if res_GasUsed res2 < m_GasLimit msg then m_GasLimit msg - res_GasUsed res2 else 0) (Denom (ee_coin (xe X))) c0 = Ok c1" and
    fin: "finish_transaction (load_TxConfig X (tx_Hash X tx) c) ls bl res2 c1 = Ok (res, c')"
    unfolding ApplyTransaction_def Let_def by (auto simp only: bind_res_Ok_iff split_paired_Ex prod.case)
  note f = finish_frames [OF fin]
  have base: "cfg_BaseFee cfg = vm_BaseFee (xe X) c" using cfg by (auto simp: load_EVMConfig_def vm_BaseFee_def bind_res_Ok_iff)
  note p = post_process_failed [OF post [unfolded f(1)] assms(2)]
  show ?thesis
    by (rule that [OF msg [unfolded base] run p(2) [symmetric] refund [unfolded p(1) f(1)] refl f(2-6)])
qed

lemma failed_pays:
  assumes "ApplyTransaction X tx c = Ok (res, c')" and "Failed res" and "pb_inv B (bank_state (ec_vm c))"
    and "TransactionToMessage (xe X) tx (vm_BaseFee (xe X) c) = Ok msg" and "holder B (addr_Bytes (m_From msg))"
    and "uint (m_GasLimit msg) < 2 ^ 63" and "fm_ok (ec_market c)"
  defines "n \<equiv> (uint (m_GasLimit msg) - uint (res_GasUsed res)) * m_GasPrice msg"
  shows "auth_state (ec_vm c') = auth_state (ec_vm c) \<and> evm_store (ec_vm c') = evm_store (ec_vm c) \<and> pb_inv B (bank_state (ec_vm c')) \<and>
    (\<forall>y. y \<noteq> reserve B \<longrightarrow> ext_balance B y (bank_state (ec_vm c')) = ext_balance B y (bank_state (ec_vm c)) +
      (if y = addr_Bytes (m_From msg) then n else 0) - (if y = module_addr (ak B) FeeCollectorName then n else 0))"
  using assms(1,2)
proof (rule failed_ok)
  fix msg' cfg txc res1 tmp c1 left
  assume m: "TransactionToMessage (xe X) tx (vm_BaseFee (xe X) c) = Ok msg'" "ApplyMessageWithConfig X msg' True cfg txc False c = Ok (res1, tmp)"
    "res_GasUsed res1 = res_GasUsed res" and r: "RefundGas (xe X) msg' left (Denom (ee_coin (xe X))) c = Ok c1"
    and l: "left = (if res_GasUsed res < m_GasLimit msg' then m_GasLimit msg' - res_GasUsed res else 0)"
    and f: "auth_state (ec_vm c') = auth_state (ec_vm c1)" "evm_store (ec_vm c') = evm_store (ec_vm c1)" "bank_state (ec_vm c') = bank_state (ec_vm c1)"
  have eq: "msg' = msg" using m(1) assms(4) by simp
  have "res_GasUsed res \<le> m_GasLimit msg"
    using message_gas(2) [OF m(2) [unfolded eq] assms(6)] assms(7) m(3) by (auto simp: fm_ok_def fm_Validate_iff)
  then have "uint left = uint (m_GasLimit msg) - uint (res_GasUsed res)" using l eq by (auto simp: uint_sub_if' word_le_def word_less_def)
  then have n: "uint left * m_GasPrice msg = n" by (simp add: n_def)
  note R = refund_exact [OF r [unfolded eq] assms(3,5), unfolded n]
  obtain s where "c1 = c\<lparr>ec_vm := (ec_vm c)\<lparr>bank_state := s\<rparr>\<rparr>" using R(3) by blast
  then show ?thesis
    using R(1,2) f by simp
qed

lemma base_fee_nonneg:
  assumes "fm_ok s" and "vm_GetBaseFee (ee_dec (xe X)) (ee_coin (xe X)) lon s = Some b"
  shows "0 \<le> b"
  using assms EvmConversionFactor_pos [OF coin_ok]
  by (auto simp: vm_GetBaseFee_def fw_GetBaseFee_def fm_GetBaseFee_def fm_ok_def fm_Validate_iff ConvertAmountTo18DecimalsLegacy_def
      dec_mul_int dec_truncate pos_imp_zdiv_nonneg_iff split: if_splits option.splits)

section \<open>From the ante handler to the refund\<close>

lemma market_congs:
  assumes "fm_params s' = fm_params s"
  shows "fm_ok s' = fm_ok s" and "vm_GetBaseFee D i lon s' = vm_GetBaseFee D i lon s"
  using assms by (simp_all add: fm_ok_def fm_GetParams_def vm_GetBaseFee_def fw_GetBaseFee_def fm_GetBaseFee_def)

lemma single_priced:
  assumes "Mono_AnteHandle (xe X) mx tx sim (\<lambda>_. Ok) c = Ok c1" and "st_msgs tx = Some [EthMsg m]" and "msg_Data m = Some t"
  shows "\<exists>f. tx_EffectiveFee (vm_BaseFee (xe X) c) t = Ok f"
  using assms(1)
proof (rule handler_ok)
  fix du c0 du' seen c2
  assume "for_each (mono_step (xe X) mx tx sim) (enumerate 0 (tx_msgs tx)) (du, [], c0) = Ok (du', seen, c2)"
    and b: "du_BaseFee du = vm_GetBaseFee (ee_dec (xe X)) (ee_coin (xe X)) (er_IsLondon (ee_rules (xe X))) (ec_market c)"
  then have "mono_step (xe X) mx tx sim (0, EthMsg m) (du, [], c0) = Ok (du', seen, c2)" using assms(2) by (simp add: res_simps)
  then show ?thesis
    by (rule step_ok) (use b assms(3) in \<open>auto simp: vm_BaseFee_def VerifyFee_def Let_def res_simps\<close>)
qed

lemma reverted_cost:
  assumes ante: "Mono_AnteHandle (xe X) mx tx sim (\<lambda>_. Ok) c = Ok c1" and tx: "st_msgs tx = Some [EthMsg m]" "msg_Data m = Some t"
    and run: "ApplyTransaction X (tx_AsEthereumData (ee_hex (xe X)) t) c1 = Ok (res, c2)" "Failed res"
    and inv: "pb_inv B (bank_state (ec_vm c))" and fm: "fm_ok (ec_market c)" and gas: "uint (tx_GetGas t) < 2 ^ 63"
    and a: "msg_signer (xe X) (EthMsg m) = Some a" and h: "holder B (addr_Bytes a)"
  defines "paid \<equiv> eth_price (vm_BaseFee (xe X) c) (tx_AsEthereumData (ee_hex (xe X)) t) * uint (res_GasUsed res)"
  shows "acct_seq (xe X) c2 = (acct_seq (xe X) c)(a := acct_seq (xe X) c a + 1)" and "pb_inv B (bank_state (ec_vm c2))"
    and "y \<noteq> reserve B \<Longrightarrow> ext_balance B y (bank_state (ec_vm c2)) = ext_balance B y (bank_state (ec_vm c)) -
      (if y = addr_Bytes a then paid else 0) + (if y = module_addr (ak B) FeeCollectorName then paid else 0)"
proof -
  let ?d = "tx_AsEthereumData (ee_hex (xe X)) t"
  have base: "vm_BaseFee (xe X) c1 = vm_BaseFee (xe X) c" and fm1: "fm_ok (ec_market c1)"
    using market_congs [OF handler_market [OF ante]] fm by (simp_all add: vm_BaseFee_def)
  obtain f where f: "tx_EffectiveFee (vm_BaseFee (xe X) c) t = Ok f" using single_priced [OF ante tx] by blast
  then have f': "f = eth_price (vm_BaseFee (xe X) c) ?d * uint (tx_GetGas t)"
    by (rule effective_price [rotated]) (use fm in \<open>auto simp: vm_BaseFee_def intro: base_fee_nonneg\<close>)
  have inv1: "pb_inv B (bank_state (ec_vm c1))" and bal: "y \<noteq> reserve B \<Longrightarrow> ext_balance B y (bank_state (ec_vm c1)) =
      ext_balance B y (bank_state (ec_vm c)) - (if y = addr_Bytes a then f else 0) + (if y = module_addr (ak B) FeeCollectorName then f else 0)" for y
    using handler_fees [OF ante inv] a h f tx unfolding vm_BaseFee_def by (auto simp: charged_def)
  obtain msg where msg: "TransactionToMessage (xe X) ?d (vm_BaseFee (xe X) c1) = Ok msg" using failed_ok [OF run] by blast
  then have m: "m_From msg = a" "m_GasLimit msg = tx_GetGas t" "m_GasPrice msg = eth_price (vm_BaseFee (xe X) c) ?d"
    using message [OF msg] a tx(2) base data_gas [of "ee_hex (xe X)" t] by simp_all
  note pays = failed_pays [OF run inv1 msg _ _ fm1, unfolded m, OF h gas]
  have "acct_seq (xe X) c2 = acct_seq (xe X) c1" using pays by (simp add: acct_seq_def fun_eq_iff)
  moreover have "acct_seq (xe X) c1 b = acct_seq (xe X) c b + (if b = a then 1 else 0)" for b
    using handler_nonces(2) [OF ante, of b] tx a by (simp add: signed_count_def)
  ultimately show "acct_seq (xe X) c2 = (acct_seq (xe X) c)(a := acct_seq (xe X) c a + 1)" by (simp add: fun_eq_iff)
  show "pb_inv B (bank_state (ec_vm c2))" using pays by blast
  show "ext_balance B y (bank_state (ec_vm c2)) = ext_balance B y (bank_state (ec_vm c)) -
      (if y = addr_Bytes a then paid else 0) + (if y = module_addr (ak B) FeeCollectorName then paid else 0)" if "y \<noteq> reserve B"
  proof -
    have n: "(uint (tx_GetGas t) - uint (res_GasUsed res)) * eth_price (vm_BaseFee (xe X) c) ?d = f - paid"
      by (simp add: f' paid_def algebra_simps)
    have "ext_balance B y (bank_state (ec_vm c2)) = ext_balance B y (bank_state (ec_vm c1)) +
        (if y = addr_Bytes a then f - paid else 0) - (if y = module_addr (ak B) FeeCollectorName then f - paid else 0)"
      using pays that unfolding n by blast
    then show ?thesis using bal [OF that] by simp
  qed
qed

end

section \<open>A reference environment\<close>

text \<open>An interpreter that reverts every call and hands back the gas it was given, on the reference chain of the ante handler.\<close>

definition ref_exec :: "(address \<Rightarrow> uint64 option, address \<times> uint64, ledger, lstore, unit) exec_env" where
  "ref_exec = \<lparr>xe = ref_evm, xe_precompiles = \<lparr>pc_hex = ref_hex, pc_precompiles = None, PrecompiledAddressesPrague = [],
       pc_Address = (\<lambda>_. 0), GetERC20PrecompileInstance = (\<lambda>_ _. Ok None)\<rparr>,
     xe_rules = \<lparr>IsEIP2929 = True, IsEIP4762 = False, IsShanghai = True\<rparr>,
     evm_Create = (\<lambda>_ _ _ gas _ db. Ok ([], gas, Some ''execution reverted'', db)),
     evm_Call = (\<lambda>_ _ _ _ gas _ db. Ok ([], gas, Some ''execution reverted'', db)),
     ReturnData = (\<lambda>_ _. []), MessageIntrinsicGas = (\<lambda>_ _ _ _ _. Ok 5000), ActivePrecompiles = (\<lambda>_. []), tx_Hash = (\<lambda>_. 0),
     CreateAddress = (\<lambda>_ _. 0), CreateBloom = (\<lambda>_. 0), xe_hooks = None, GetValidatorByConsAddr = (\<lambda>_. Some ''validator''),
     ProposerAddress = [], HeaderHash = None, BlockHeaderHash = None, HistoricalHeader = (\<lambda>_. None), ConsensusKeeperMaxGas = None,
     xe_BlockTime = 0, TxBytesHash = None\<rparr>"

lemma ref_exec_xe [simp]: "xe ref_exec = ref_evm"
  by (simp add: ref_exec_def)

interpretation rx: exec_laws ref_exec
proof -
  have "exec_laws_axioms ref_exec" by unfold_locales (auto simp: ref_exec_def)
  then show "exec_laws ref_exec"
    using rev.evm_laws_axioms rd.legacy_dec_axioms by (simp add: exec_laws_def)
qed

lemma ref_market_ok: "fm_ok ref_market"
  by (simp add: fm_ok_def fm_Validate_iff ref_market_def fm_GetParams_def fm_DefaultParams_def)

abbreviation ref_tx :: eth_data where
  "ref_tx \<equiv> tx_AsEthereumData ref_hex (ref_data 5 21000 1)"

abbreviation ref_message :: Message where
  "ref_message \<equiv> \<lparr>m_From = 1, m_To = Some 2, m_Nonce = 5, m_Value = 0, m_GasLimit = 21000, m_GasPrice = 1, m_GasFeeCap = 1, m_GasTipCap = 0,
     m_Data = [], m_AccessList = []\<rparr>"

lemma ref_base_fee: "ec_market c = ref_market \<Longrightarrow> vm_BaseFee ref_evm c = Some 0"
  by (simp add: vm_BaseFee_def vm_GetBaseFee_def fw_GetBaseFee_def fm_GetBaseFee_def fm_GetParams_def ref_market_def ref_evm_def)

lemma ref_to_message: "TransactionToMessage ref_evm ref_tx (Some 0) = Ok ref_message"
  by (simp add: ref_evm_def ref_dyn_eval dyn_GetTo_def rh.address_hex rh.addr_Hex_nonempty eth_price_def eth_tip_cap_def eth_fee_cap_def)

lemma ref_apply_message:
  assumes "ec_market c = ref_market"
  shows "\<exists>res tmp. ApplyMessageWithConfig ref_exec ref_message True cfg txc False c = Ok (res, tmp) \<and> res_GasUsed res = 10500 \<and> Failed res \<and> res_Logs res = []"
proof -
  have evm: "\<exists>evm. NewEVM ref_exec ref_message cfg c = Ok evm"
    using assms by (simp add: NewEVM_def VMConfig_def fw_GetParams_def ref_market_def fm_GetParams_def fm_DefaultParams_def dec_val_def Let_def)
  then obtain evm where evm: "NewEVM ref_exec ref_message cfg c = Ok evm" by blast
  have mul: "DecMul ref_dec 21000000000000000000000 500000000000000000 = 10500000000000000000000"
    by (rule rd.dec_mul_exact) simp
  have charge: "charge_gas ref_exec 21000 16000 False 5000 c = Ok 10500"
    using assms by (simp add: charge_gas_def GetMinGasMultiplier_def fw_GetParams_def ref_market_def fm_GetParams_def fm_DefaultParams_def
        dec_val_def mul rd.dec_new rd.dec_truncate is_uint64_def Let_def)
  show ?thesis
    by (simp add: ApplyMessageWithConfig_def evm [unfolded ref_exec_def] GetEthIntrinsicGas_def ref_exec_def run_message_def Prepare_def warm_list_def AddAddress_def
      newAccessList_def add_addresses_def New_def newTransientStorage_def Uint256FromBigInt_def GasToRefund_def Commit_def commitWithCtx_def
      sortedDirties_def Let_def charge [unfolded ref_exec_def] Failed_def NewLogsFromEth_def)
qed

lemma ref_refund:
  assumes "pb_inv ref_pb (bank_state (ec_vm c))" and "ext_balance ref_pb (module_addr (ak ref_pb) FeeCollectorName) (bank_state (ec_vm c)) = 21000"
  shows "\<exists>s. RefundGas ref_evm ref_message 10500 (Denom (ee_coin ref_evm)) c = Ok (c\<lparr>ec_vm := (ec_vm c)\<lparr>bank_state := s\<rparr>\<rparr>)"
proof -
  let ?f = "255 # StringToBytes ''fee_collector''" and ?t = "addr_Bytes 1"
  have m: "GetModuleAddress (ak ref_pb) FeeCollectorName = Some ?f" "FeeCollectorName \<noteq> pb_ModuleName"
    by (simp_all add: ref_accounts_def ref_module_addr_def FeeCollectorName_def pb_ModuleName_def ref_pb_def)
  have h: "holder ref_pb ?f" "holder ref_pb ?t" "?f \<noteq> ?t"
    using rp.address_holder [OF m(1)] m(2) rv.ordinary_holder [OF ref_ordinary, of 1] addr_Bytes_simps(1) [of 1]
    by (auto simp: StringToBytes_def dest: arg_cong [where f = length])
  have "\<exists>s. sendExtendedCoins ref_pb ?f ?t 10500 (bank_state (ec_vm c)) = Ok s"
  proof -
    have "bk_SpendableCoin ref_bank = bk_GetBalance ref_bank" by (simp add: ref_bank_def)
    then have "ext_spendable ref_pb ?f (bank_state (ec_vm c)) = 21000"
      using assms(2) by (simp add: module_addr_def m(1) [simplified] ext_balance_def integer_balance_def ext_spendable_def)
    then show ?thesis using rp.send_extended_spec [OF assms(1) h, of 10500] by auto
  qed
  then have "\<exists>s. SendCoins ref_pb ?f ?t [(''aatom'', 10500)] (bank_state (ec_vm c)) = Ok s"
    by (auto simp: SendCoins_def SumExtendedCoin_def new_coins_def on_bank_def reraise_def ref_coins_def ref_add_coin_def ref_valid_def
        kv_amount_def kv_delete_def Let_def)
  then show ?thesis using m
    by (auto simp: RefundGas_def ref_coins_def ref_evm_def bw_SendCoinsFromModuleToAccount_def ConvertCoinsDenomToExtendedDenom_def
      ConvertEvmCoinDenomToExtendedDenom_def SendCoinsFromModuleToAccount_def ref_bank_def ref_pb_def [THEN arg_cong [where f = evmCoin]])
qed

lemma ref_transaction:
  assumes "ec_market c = ref_market" and "GetTransientGasUsed (ec_vm c) = 0" and "ec_meter c = Some (NewInfiniteGasMeterWithLimit 21000)"
    and "pb_inv ref_pb (bank_state (ec_vm c))" and "ext_balance ref_pb (module_addr (ak ref_pb) FeeCollectorName) (bank_state (ec_vm c)) = 21000"
  shows "\<exists>res c'. ApplyTransaction ref_exec ref_tx c = Ok (res, c') \<and> Failed res \<and> res_GasUsed res = 10500"
proof -
  define d where "d = ref_tx"
  have to_message: "TransactionToMessage ref_evm d (Some 0) = Ok ref_message" unfolding d_def by (rule ref_to_message)
  define txc where "txc = load_TxConfig ref_exec (tx_Hash ref_exec d) c"
  obtain cfg where cfg: "load_EVMConfig ref_exec (ProposerAddress ref_exec) c = Ok cfg" "cfg_BaseFee cfg = Some 0"
    using ref_base_fee [OF assms(1)] by (auto simp: load_EVMConfig_def GetCoinbaseAddress_def ref_exec_def vm_BaseFee_def)
  obtain res tmp where run: "ApplyMessageWithConfig ref_exec ref_message True cfg txc False c = Ok (res, tmp)"
    and res: "res_GasUsed res = 10500" "Failed res" "res_Logs res = []"
    using ref_apply_message [OF assms(1)] by blast
  have post: "post_process ref_exec d ref_message txc b res tmp c = Ok (res, c)" for b using res(2) by (simp add: post_process_def)
  obtain s where s: "RefundGas ref_evm ref_message 10500 (Denom (ee_coin ref_evm)) c = Ok (c\<lparr>ec_vm := (ec_vm c)\<lparr>bank_state := s\<rparr>\<rparr>)"
    using ref_refund [OF assms(4,5)] by blast
  have "\<exists>c'. finish_transaction txc [] b res (c\<lparr>ec_vm := (ec_vm c)\<lparr>bank_state := s\<rparr>\<rparr>) = Ok (res, c')" for b
    using assms(2,3) res(1)
    by (simp add: finish_transaction_def AddTransientGasUsed_def GetTransientGasUsed_def SetTxIndexTransient_def SetTransientGasUsed_def on_meter_def
      ResetGasMeterAndConsumeGas_def gm_RefundGas_def ConsumeGas_def NewInfiniteGasMeterWithLimit_def addUint64Overflow_def Let_def kv_get_set KeyPrefixTransientTxIndex_def KeyPrefixTransientGasUsed_def)
  then obtain c' where "finish_transaction txc [] (fst (initializeBloomFromLogs ref_exec [] c)) res (c\<lparr>ec_vm := (ec_vm c)\<lparr>bank_state := s\<rparr>\<rparr>) = Ok (res, c')"
    by blast
  then have "ApplyTransaction ref_exec d c = Ok (res, c')"
    using res s by (simp add: ApplyTransaction_def cfg to_message run txc_def [symmetric] post LogsToEthereum_def Let_def)
  then show ?thesis using res unfolding d_def by blast
qed

text \<open>The state after the ante handler has taken the fee of the reference transaction.\<close>

lemma ref_paid:
  "\<exists>c. Mono_AnteHandle ref_evm 0 ref_paying_tx False (\<lambda>_. Ok) ref_ectx = Ok c \<and> ec_market c = ref_market \<and> pb_inv ref_pb (bank_state (ec_vm c)) \<and>
     (\<exists>res c'. ApplyTransaction ref_exec ref_tx c = Ok (res, c') \<and> Failed res \<and> res_GasUsed res = 10500)"
proof -
  obtain c where c: "Mono_AnteHandle ref_evm 0 ref_paying_tx False (\<lambda>_. Ok) ref_ectx = Ok c" "ec_market c = ref_market"
    "GetTransientGasUsed (ec_vm c) = 0" "ec_meter c = Some (NewInfiniteGasMeterWithLimit 21000)"
    using ref_run by blast
  have bank: "ec_vm ref_ectx = ref_vmctx" "vm_GetBaseFee (ee_dec ref_evm) (ee_coin ref_evm) (er_IsLondon (ee_rules ref_evm)) (ec_market ref_ectx) = Some 0"
    using ref_base_fee [of ref_ectx] by (simp_all add: ref_ectx_def vm_BaseFee_def)
  have h: "module_addr (ak ref_pb) FeeCollectorName \<noteq> reserve ref_pb"
    "ext_balance ref_pb (module_addr (ak ref_pb) FeeCollectorName) (bank_state ref_vmctx) = 0"
    using rv.ordinary_holder [OF ref_ordinary, of 1] addr_Bytes_simps(1) [of 1]
    by (auto simp: module_addr_def ref_accounts_def ref_module_addr_def FeeCollectorName_def StringToBytes_def reserve_def pb_ModuleName_def
      ext_balance_def integer_balance_def ref_vmctx_def ref_bank_def GetFractionalBalance_def dest: arg_cong [where f = length])
  have "pb_inv ref_pb (bank_state (ec_vm c)) \<and> ext_balance ref_pb (module_addr (ak ref_pb) FeeCollectorName) (bank_state (ec_vm c)) = 21000"
    using rev.handler_fees [OF c(1)] ref_sender h ref_vmctx_inv by (auto simp: ref_tx_msgs ref_signer bank [simplified] charged_def ref_charge)
  with c show ?thesis using ref_transaction [of c] by blast
qed

section \<open>Properties\<close>

text \<open>
  C9. The gas an Ethereum message is charged for lies between the share of its limit that the fee market asks for and the limit itself,
  for every limit that fits 63 bits.
\<close>

theorem gas_used_bounds:
  assumes "exec_laws X" and "ApplyMessageWithConfig X msg commit cfg txc False c = Ok (res, c')" and "uint (m_GasLimit msg) < 2 ^ 63"
    and "fm_ok (ec_market c)"
  shows "\<exists>m. MinGasMultiplier (fm_GetParams (ec_market c)) = Some m \<and> uint (m_GasLimit msg) * m div dec_one \<le> uint (res_GasUsed res) \<and>
    res_GasUsed res \<le> m_GasLimit msg"
  using exec_laws.message_gas [OF assms(1-3)] assms(4) by (auto simp: fm_ok_def fm_Validate_iff)

theorem gas_used_bounds_witness:
  "\<exists>res tmp. ApplyMessageWithConfig ref_exec ref_message True \<lparr>cfg_Params = vm_DefaultParams, cfg_CoinBase = 9, cfg_BaseFee = Some 0\<rparr> ref_cfg False
       ref_ectx = Ok (res, tmp) \<and> res_GasUsed res \<le> 21000"
proof -
  have m: "ec_market ref_ectx = ref_market" by (simp add: ref_ectx_def)
  obtain res tmp where r: "ApplyMessageWithConfig ref_exec ref_message True \<lparr>cfg_Params = vm_DefaultParams, cfg_CoinBase = 9, cfg_BaseFee = Some 0\<rparr>
      ref_cfg False ref_ectx = Ok (res, tmp)"
    using ref_apply_message [OF m] by blast
  from gas_used_bounds [OF rx.exec_laws_axioms r] r show ?thesis by (auto simp: m ref_market_ok)
qed

text \<open>
  C5. A transaction that fails, in the interpreter or in a hook, changes no account, no code and no storage, and no
  balance but for the refund of the unused gas, at the price of the message, from the fee collector to the sender; the fractional balances stay backed.
\<close>

theorem failed_transaction_pays_only_gas:
  assumes "exec_laws X" and "ApplyTransaction X tx c = Ok (res, c')" and "Failed res" and "pb_inv (ee_bank (xe X)) (bank_state (ec_vm c))"
    and "TransactionToMessage (xe X) tx (vm_BaseFee (xe X) c) = Ok msg" and "holder (ee_bank (xe X)) (addr_Bytes (m_From msg))"
    and "uint (m_GasLimit msg) < 2 ^ 63" and "fm_ok (ec_market c)"
  defines "n \<equiv> (uint (m_GasLimit msg) - uint (res_GasUsed res)) * m_GasPrice msg"
  shows "auth_state (ec_vm c') = auth_state (ec_vm c) \<and> evm_store (ec_vm c') = evm_store (ec_vm c) \<and>
    pb_inv (ee_bank (xe X)) (bank_state (ec_vm c')) \<and> (\<forall>y. y \<noteq> reserve (ee_bank (xe X)) \<longrightarrow>
      ext_balance (ee_bank (xe X)) y (bank_state (ec_vm c')) = ext_balance (ee_bank (xe X)) y (bank_state (ec_vm c)) +
        (if y = addr_Bytes (m_From msg) then n else 0) - (if y = module_addr (ak (ee_bank (xe X))) FeeCollectorName then n else 0))"
  unfolding n_def using exec_laws.failed_pays [OF assms(1-8)] by blast

theorem failed_transaction_pays_only_gas_witness:
  "\<exists>c res c'. ApplyTransaction ref_exec ref_tx c = Ok (res, c') \<and> Failed res \<and>
     ext_balance ref_pb (addr_Bytes 1) (bank_state (ec_vm c')) = ext_balance ref_pb (addr_Bytes 1) (bank_state (ec_vm c)) + 10500"
proof -
  obtain c res c' where c: "ec_market c = ref_market" "pb_inv ref_pb (bank_state (ec_vm c))" "ApplyTransaction ref_exec ref_tx c = Ok (res, c')" "Failed res"
    "res_GasUsed res = 10500"
    using ref_paid by blast
  note h = ref_sender
  have p: "pb_inv (ee_bank (xe ref_exec)) (bank_state (ec_vm c))" "holder (ee_bank (xe ref_exec)) (addr_Bytes (m_From ref_message))"
    "uint (m_GasLimit ref_message) < 2 ^ 63" "fm_ok (ec_market c)"
    using c(1,2) h(1) by (simp_all add: ref_market_ok)
  have m: "TransactionToMessage (xe ref_exec) ref_tx (vm_BaseFee (xe ref_exec) c) = Ok ref_message"
    unfolding ref_exec_xe ref_base_fee [OF c(1)] by (rule ref_to_message)
  have "ext_balance ref_pb (addr_Bytes 1) (bank_state (ec_vm c')) = ext_balance ref_pb (addr_Bytes 1) (bank_state (ec_vm c)) + 10500"
    using failed_transaction_pays_only_gas [OF rx.exec_laws_axioms c(3,4) p(1) m p(2-)] h c(5) by (auto simp: holder_def)
  with c(3,4) show ?thesis by blast
qed

text \<open>
  C4. What a reverted transaction costs, from the ante handler to the refund: the sequence of its sender moves on by one, the sender
  has paid the effective price for the gas used and nothing more, the fee collector holds exactly that, and no other account has changed its balance.
\<close>

theorem reverted_transaction_costs:
  assumes "exec_laws X" and "Mono_AnteHandle (xe X) mx tx sim (\<lambda>_. Ok) c = Ok c1" and "st_msgs tx = Some [EthMsg m]" and "msg_Data m = Some t"
    and "ApplyTransaction X (tx_AsEthereumData (ee_hex (xe X)) t) c1 = Ok (res, c2)" and "Failed res"
    and "pb_inv (ee_bank (xe X)) (bank_state (ec_vm c))" and "fm_ok (ec_market c)" and "uint (tx_GetGas t) < 2 ^ 63"
    and "\<forall>a. msg_signer (xe X) (EthMsg m) = Some a \<longrightarrow> holder (ee_bank (xe X)) (addr_Bytes a)"
  shows "\<exists>a. msg_signer (xe X) (EthMsg m) = Some a \<and> acct_seq (xe X) c2 = (acct_seq (xe X) c)(a := acct_seq (xe X) c a + 1) \<and>
    pb_inv (ee_bank (xe X)) (bank_state (ec_vm c2)) \<and> (\<forall>y. y \<noteq> reserve (ee_bank (xe X)) \<longrightarrow>
      (let paid = eth_price (vm_BaseFee (xe X) c) (tx_AsEthereumData (ee_hex (xe X)) t) * uint (res_GasUsed res) in
       ext_balance (ee_bank (xe X)) y (bank_state (ec_vm c2)) = ext_balance (ee_bank (xe X)) y (bank_state (ec_vm c)) -
        (if y = addr_Bytes a then paid else 0) + (if y = module_addr (ak (ee_bank (xe X))) FeeCollectorName then paid else 0)))"
proof -
  obtain a where a: "msg_signer (xe X) (EthMsg m) = Some a"
    using evm_laws.handler_nonces(1) [OF _ assms(2), of 0] assms(1,3) by (auto simp: exec_laws_def)
  have h: "holder (ee_bank (xe X)) (addr_Bytes a)" using assms(10) a by blast
  note cost = exec_laws.reverted_cost [OF assms(1-9) a h]
  show ?thesis unfolding Let_def by (intro exI [of _ a] conjI allI impI a cost)
qed

theorem reverted_transaction_costs_witness:
  "\<exists>c1 res c2. Mono_AnteHandle ref_evm 0 ref_paying_tx False (\<lambda>_. Ok) ref_ectx = Ok c1 \<and> ApplyTransaction ref_exec ref_tx c1 = Ok (res, c2) \<and>
     ext_balance ref_pb (addr_Bytes 1) (bank_state (ec_vm c2)) = 4999999989500 \<and> acct_seq ref_evm c2 1 = 6"
proof -
  obtain c1 res c2 where c: "Mono_AnteHandle ref_evm 0 ref_paying_tx False (\<lambda>_. Ok) ref_ectx = Ok c1" "ApplyTransaction ref_exec ref_tx c1 = Ok (res, c2)"
    "Failed res" "res_GasUsed res = 10500"
    using ref_paid by blast
  note h = ref_sender
  have e: "ec_market ref_ectx = ref_market" "ec_vm ref_ectx = ref_vmctx" "st_msgs ref_paying_tx = Some [EthMsg (ref_msg 5 21000 1 [])]"
    "msg_signer ref_evm (EthMsg (ref_msg 5 21000 1 [])) = Some 1" "eth_price (Some 0) ref_tx = 1"
    using ref_signer [of 5 21000 1] by (simp_all add: ref_ectx_def ref_tx_msgs ref_eth_msg_def eth_price_def eth_tip_cap_def eth_fee_cap_def ref_dyn_eval)
  have p: "Mono_AnteHandle (xe ref_exec) 0 ref_paying_tx False (\<lambda>_. Ok) ref_ectx = Ok c1" "msg_Data (ref_msg 5 21000 1 []) = Some (ref_data 5 21000 1)"
    "ApplyTransaction ref_exec (tx_AsEthereumData (ee_hex (xe ref_exec)) (ref_data 5 21000 1)) c1 = Ok (res, c2)"
    "pb_inv (ee_bank (xe ref_exec)) (bank_state (ec_vm ref_ectx))" "fm_ok (ec_market ref_ectx)" "uint (tx_GetGas (ref_data 5 21000 1)) < 2 ^ 63"
    using c(1,2) ref_vmctx_inv by (simp_all add: e ref_market_ok)
  have s: "\<forall>a. msg_signer (xe ref_exec) (EthMsg (ref_msg 5 21000 1 [])) = Some a \<longrightarrow> holder (ee_bank (xe ref_exec)) (addr_Bytes a)"
    unfolding ref_exec_xe e(4) using h(1) by simp
  note w = reverted_transaction_costs [OF rx.exec_laws_axioms p(1) e(3) p(2,3) c(3) p(4-6) s, unfolded ref_exec_xe e(4) ref_base_fee [OF e(1)] e(5) e(2)
    ref_evm_simps Let_def]
  have "ext_balance ref_pb (addr_Bytes 1) (bank_state (ec_vm c2)) = 4999999989500 \<and> acct_seq ref_evm c2 1 = 6"
    using w h c(4) ref_vm_balance(1) ref_ectx_seq by (auto simp: holder_def e(5) [simplified])
  with c(1,2) show ?thesis by blast
qed

end
