(* ===== verification/Erc20Props.thy ===== *)
theory Erc20Props
  imports Erc20 StateTransitionProps
begin

text \<open>
  What \<^verbatim>\<open>x/erc20\<close> guarantees: the token pairs, their two indices and the allowances agree in every reachable state, a conversion
  escrows exactly what it mints, and what a failed conversion leaves behind when a packet callback swallows its error.
\<close>

section \<open>The registry\<close>

text \<open>The hash has no collisions, and the text of an address has no bar, which separates the two parts of an identifier.\<close>

locale registry_laws = hex_laws H for H :: hex_ops +
  fixes T :: hash_fn
  assumes hash_inj: "T a = T b \<Longrightarrow> a = b"
    and no_bar: "IsHexAddress H x \<Longrightarrow> CHR ''|'' \<notin> set x"

definition pair_ok :: "hash_fn \<Rightarrow> hex_ops \<Rightarrow> erc20_store \<Rightarrow> bytes \<Rightarrow> TokenPair \<Rightarrow> bool" where
  "pair_ok T H s i p \<longleftrightarrow> i = GetID T p \<and> IsHexAddress H (Erc20Address p) \<and> GetERC20Map s (GetERC20Contract H p) = Some i \<and>
     GetDenomMap s (tp_Denom p) = Some i"

definition allowance_ok :: "hex_ops \<Rightarrow> erc20_store \<Rightarrow> bytes \<Rightarrow> Allowance \<Rightarrow> bool" where
  "allowance_ok H s key a \<longleftrightarrow> (\<exists>erc20 owner spender. key = AllowanceKey erc20 owner spender \<and> a = NewAllowance H erc20 owner spender (al_Value a) \<and>
     owner \<noteq> 0 \<and> spender \<noteq> 0 \<and> 0 < al_Value a \<and> al_Value a < 2 ^ 256 \<and> IsERC20Registered s erc20)"

definition registry_ok :: "hash_fn \<Rightarrow> hex_ops \<Rightarrow> erc20_store \<Rightarrow> bool" where
  "registry_ok T H s \<longleftrightarrow>
     (\<forall>i p. kv_get (er_tokenPairs s) i = Some p \<longrightarrow> pair_ok T H s i p) \<and>
     (\<forall>x i. kv_get (er_byERC20 s) x = Some i \<longrightarrow> (\<exists>p. kv_get (er_tokenPairs s) i = Some p \<and> x = addr_Bytes (GetERC20Contract H p))) \<and>
     (\<forall>d i. kv_get (er_byDenom s) d = Some i \<longrightarrow> (\<exists>p. kv_get (er_tokenPairs s) i = Some p \<and> d = tp_Denom p)) \<and>
     (\<forall>key a. kv_get (er_allowances s) key = Some a \<longrightarrow> allowance_ok H s key a)"

lemmas registry_reads = GetERC20Map_def GetDenomMap_def IsERC20Registered_def IsDenomRegistered_def

context registry_laws
begin

lemma id_inj:
  assumes "GetID T p = GetID T q" and "IsHexAddress H (Erc20Address p)" and "IsHexAddress H (Erc20Address q)"
  shows "Erc20Address p = Erc20Address q" and "tp_Denom p = tp_Denom q"
proof -
  have "StringToBytes (Erc20Address p @ ''|'' @ tp_Denom p) = StringToBytes (Erc20Address q @ ''|'' @ tp_Denom q)"
    using assms(1) hash_inj unfolding GetID_def by blast
  then have e: "Erc20Address p @ CHR ''|'' # tp_Denom p = Erc20Address q @ CHR ''|'' # tp_Denom q"
    by (simp add: StringToBytes_inj)
  have "takeWhile (\<lambda>ch. ch \<noteq> CHR ''|'') (x @ CHR ''|'' # y) = x" if "CHR ''|'' \<notin> set x" for x y :: string
    using that by (induction x) auto
  then show "Erc20Address p = Erc20Address q" using e no_bar assms(2,3) by metis
  then show "tp_Denom p = tp_Denom q" using e by simp
qed

lemma registry_pair: "registry_ok T H s \<Longrightarrow> kv_get (er_tokenPairs s) i = Some p \<Longrightarrow> pair_ok T H s i p"
  by (simp add: registry_ok_def)

lemma registry_erc20:
  "registry_ok T H s \<Longrightarrow> kv_get (er_byERC20 s) x = Some i \<Longrightarrow> \<exists>p. kv_get (er_tokenPairs s) i = Some p \<and> x = addr_Bytes (GetERC20Contract H p)"
  by (simp add: registry_ok_def)

lemma registry_denom:
  "registry_ok T H s \<Longrightarrow> kv_get (er_byDenom s) d = Some i \<Longrightarrow> \<exists>p. kv_get (er_tokenPairs s) i = Some p \<and> d = tp_Denom p"
  by (simp add: registry_ok_def)

lemma registry_allowance: "registry_ok T H s \<Longrightarrow> kv_get (er_allowances s) key = Some a \<Longrightarrow> allowance_ok H s key a"
  by (simp add: registry_ok_def)

lemma registry_okI:
  assumes "\<And>i p. kv_get (er_tokenPairs s) i = Some p \<Longrightarrow> pair_ok T H s i p"
    and "\<And>x i. kv_get (er_byERC20 s) x = Some i \<Longrightarrow> \<exists>p. kv_get (er_tokenPairs s) i = Some p \<and> x = addr_Bytes (GetERC20Contract H p)"
    and "\<And>d i. kv_get (er_byDenom s) d = Some i \<Longrightarrow> \<exists>p. kv_get (er_tokenPairs s) i = Some p \<and> d = tp_Denom p"
    and "\<And>key a. kv_get (er_allowances s) key = Some a \<Longrightarrow> allowance_ok H s key a"
  shows "registry_ok T H s"
  using assms by (auto simp: registry_ok_def)

lemma allowance_moves:
  assumes "allowance_ok H s key a" and "\<And>erc20 owner spender. key = AllowanceKey erc20 owner spender \<Longrightarrow> IsERC20Registered s erc20 \<Longrightarrow> IsERC20Registered s' erc20"
  shows "allowance_ok H s' key a"
  using assms unfolding allowance_ok_def by blast

lemma set_token_ok:
  assumes "SetToken T H p s = Ok s'" and ok: "registry_ok T H s" and hex: "IsHexAddress H (Erc20Address p)"
  shows "registry_ok T H s'"
proof -
  let ?i = "GetID T p" and ?x = "addr_Bytes (GetERC20Contract H p)"
  have fresh: "kv_get (er_byDenom s) (tp_Denom p) = None" "kv_get (er_byERC20 s) ?x = None"
    and s': "kv_get (er_tokenPairs s') = (kv_get (er_tokenPairs s))(?i \<mapsto> p)" "kv_get (er_byDenom s') = (kv_get (er_byDenom s))(tp_Denom p \<mapsto> ?i)"
      "kv_get (er_byERC20 s') = (kv_get (er_byERC20 s))(?x \<mapsto> ?i)" "er_allowances s' = er_allowances s"
    using assms(1) by (auto simp: SetToken_def registry_reads SetERC20Map_def SetDenomMap_def SetTokenPair_def kv_get_set split: if_splits)
  have new: "kv_get (er_tokenPairs s) ?i = None"
  proof (rule ccontr)
    assume "kv_get (er_tokenPairs s) ?i \<noteq> None"
    then obtain q where q: "kv_get (er_tokenPairs s) ?i = Some q" by blast
    note r = registry_pair [OF ok q, unfolded pair_ok_def]
    then have "tp_Denom p = tp_Denom q" using id_inj(2) [of p q] hex by blast
    then show False using r fresh(1) by (simp add: registry_reads)
  qed
  show ?thesis
  proof (rule registry_okI)
    fix j q assume "kv_get (er_tokenPairs s') j = Some q"
    then consider "j = ?i" "q = p" | "j \<noteq> ?i" "kv_get (er_tokenPairs s) j = Some q" by (auto simp: s' split: if_splits)
    then show "pair_ok T H s' j q"
    proof cases
      case 2
      then show ?thesis using registry_pair [OF ok 2(2)] fresh by (auto simp: pair_ok_def registry_reads s')
    qed (use hex in \<open>simp add: pair_ok_def registry_reads s'\<close>)
  next
    fix x j assume "kv_get (er_byERC20 s') x = Some j"
    then show "\<exists>q. kv_get (er_tokenPairs s') j = Some q \<and> x = addr_Bytes (GetERC20Contract H q)"
      using registry_erc20 [OF ok, of x j] new by (auto simp: s' split: if_splits)
  next
    fix d j assume "kv_get (er_byDenom s') d = Some j"
    then show "\<exists>q. kv_get (er_tokenPairs s') j = Some q \<and> d = tp_Denom q"
      using registry_denom [OF ok, of d j] new by (auto simp: s' split: if_splits)
  next
    fix key a assume "kv_get (er_allowances s') key = Some a"
    then show "allowance_ok H s' key a"
      using registry_allowance [OF ok, of key a] by (auto intro: allowance_moves simp: registry_reads s')
  qed
qed

lemma toggle_ok:
  assumes ok: "registry_ok T H s" and p: "kv_get (er_tokenPairs s) i = Some p"
  shows "registry_ok T H (SetTokenPair T (p\<lparr>tp_Enabled := b\<rparr>) s)"
proof -
  have i: "GetID T (p\<lparr>tp_Enabled := b\<rparr>) = i" using registry_pair [OF ok p] by (simp add: pair_ok_def GetID_def)
  show ?thesis
  proof (rule registry_okI)
    fix j q assume "kv_get (er_tokenPairs (SetTokenPair T (p\<lparr>tp_Enabled := b\<rparr>) s)) j = Some q"
    then show "pair_ok T H (SetTokenPair T (p\<lparr>tp_Enabled := b\<rparr>) s) j q"
      using registry_pair [OF ok p] registry_pair [OF ok, of j q]
      by (auto simp: SetTokenPair_def i kv_get_set pair_ok_def registry_reads GetID_def GetERC20Contract_def split: if_splits)
  next
    fix x j assume "kv_get (er_byERC20 (SetTokenPair T (p\<lparr>tp_Enabled := b\<rparr>) s)) x = Some j"
    then show "\<exists>q. kv_get (er_tokenPairs (SetTokenPair T (p\<lparr>tp_Enabled := b\<rparr>) s)) j = Some q \<and> x = addr_Bytes (GetERC20Contract H q)"
      using registry_erc20 [OF ok, of x j] p by (auto simp: SetTokenPair_def i kv_get_set GetERC20Contract_def)
  next
    fix d j assume "kv_get (er_byDenom (SetTokenPair T (p\<lparr>tp_Enabled := b\<rparr>) s)) d = Some j"
    then show "\<exists>q. kv_get (er_tokenPairs (SetTokenPair T (p\<lparr>tp_Enabled := b\<rparr>) s)) j = Some q \<and> d = tp_Denom q"
      using registry_denom [OF ok, of d j] p by (auto simp: SetTokenPair_def i kv_get_set)
  next
    fix key a assume "kv_get (er_allowances (SetTokenPair T (p\<lparr>tp_Enabled := b\<rparr>) s)) key = Some a"
    then show "allowance_ok H (SetTokenPair T (p\<lparr>tp_Enabled := b\<rparr>) s) key a"
      using registry_allowance [OF ok, of key a] by (auto simp: allowance_ok_def registry_reads SetTokenPair_def)
  qed
qed

lemma fold_delete: "kv_get (fold kv_delete ks m) k = (if k \<in> set ks then None else kv_get m k)"
  by (induction ks arbitrary: m) (auto simp: kv_get_delete)

lemma delete_allowances:
  "kv_get (er_allowances (deleteAllowances x s)) key = (if has_prefix (addr_Bytes x) key then None else kv_get (er_allowances s) key)"
proof -
  have "kv_get m key = None" if "has_prefix p key" "key \<notin> fst ` set (kv_prefix p m)" for p m
    using that by (force simp: kv_prefix_def kv_get_def map_of_eq_None_iff)
  then show ?thesis by (auto simp: deleteAllowances_def Let_def fold_delete kv_prefix_def)
qed

lemma key_prefix: "has_prefix (addr_Bytes x) (AllowanceKey erc20 owner spender) \<longleftrightarrow> erc20 = x"
  by (auto simp: has_prefix_def AllowanceKey_def)

lemma delete_ok:
  assumes ok: "registry_ok T H s" and p: "kv_get (er_tokenPairs s) i = Some p"
  shows "registry_ok T H (DeleteTokenPair T H p s)"
proof -
  let ?s = "DeleteTokenPair T H p s" and ?x = "GetERC20Contract H p"
  have pi: "GetID T p = i" "kv_get (er_byERC20 s) (addr_Bytes ?x) = Some i" "kv_get (er_byDenom s) (tp_Denom p) = Some i"
    using registry_pair [OF ok p] by (auto simp: pair_ok_def registry_reads)
  have s': "kv_get (er_tokenPairs ?s) = (kv_get (er_tokenPairs s))(i := None)" "kv_get (er_byDenom ?s) = (kv_get (er_byDenom s))(tp_Denom p := None)"
      "kv_get (er_byERC20 ?s) = (kv_get (er_byERC20 s))(addr_Bytes ?x := None)"
      "kv_get (er_allowances ?s) key = (if has_prefix (addr_Bytes ?x) key then None else kv_get (er_allowances s) key)" for key
    using delete_allowances [of ?x] pi(1)
    by (simp_all add: DeleteTokenPair_def deleteAllowances_def deleteDenomMap_def deleteERC20Map_def deleteTokenPair_def kv_get_delete Let_def)
  show ?thesis
  proof (rule registry_okI)
    fix j q assume q: "kv_get (er_tokenPairs ?s) j = Some q"
    then have j: "j \<noteq> i" "kv_get (er_tokenPairs s) j = Some q" by (auto simp: s' split: if_splits)
    then show "pair_ok T H ?s j q"
      using registry_pair [OF ok j(2)] pi by (auto simp: pair_ok_def registry_reads s')
  next
    fix x j assume "kv_get (er_byERC20 ?s) x = Some j"
    then show "\<exists>q. kv_get (er_tokenPairs ?s) j = Some q \<and> x = addr_Bytes (GetERC20Contract H q)"
      using registry_erc20 [OF ok, of x j] p by (auto simp: s' split: if_splits)
  next
    fix d j assume "kv_get (er_byDenom ?s) d = Some j"
    then show "\<exists>q. kv_get (er_tokenPairs ?s) j = Some q \<and> d = tp_Denom q"
      using registry_denom [OF ok, of d j] p by (auto simp: s' split: if_splits)
  next
    fix key a assume "kv_get (er_allowances ?s) key = Some a"
    then have k: "kv_get (er_allowances s) key = Some a" "\<not> has_prefix (addr_Bytes ?x) key" by (auto simp: s' split: if_splits)
    then show "allowance_ok H ?s key a"
      by (intro allowance_moves [OF registry_allowance [OF ok k(1)]]) (auto simp: registry_reads s' key_prefix)
  qed
qed

lemma set_allowance_ok:
  assumes r: "setAllowance H erc20 owner spender v d s = Ok s'" and ok: "registry_ok T H s"
  shows "registry_ok T H s'"
proof -
  let ?k = "AllowanceKey erc20 owner spender"
  obtain n where v: "v = Some n" "0 \<le> n" "n < 2 ^ 256" "owner \<noteq> 0" "spender \<noteq> 0" "IsERC20Registered s erc20"
    using r by (auto simp: setAllowance_def GetTokenPair_def registry_reads res_simps not_le not_less split: option.splits)
  then have s': "s' = s\<lparr>er_allowances := if n = 0 then kv_delete ?k (er_allowances s) else kv_set ?k (NewAllowance H erc20 owner spender n) (er_allowances s)\<rparr>"
    using r by (auto simp: setAllowance_def res_simps split: option.splits)
  have new: "allowance_ok H s ?k (NewAllowance H erc20 owner spender n)" if "n \<noteq> 0"
    unfolding allowance_ok_def using v that by (intro exI [of _ erc20] exI [of _ owner] exI [of _ spender]) (auto simp: NewAllowance_def)
  have same: "allowance_ok H s' = allowance_ok H s" by (simp add: s' allowance_ok_def registry_reads fun_eq_iff)
  have "allowance_ok H s' key a" if "kv_get (er_allowances s') key = Some a" for key a
    using that registry_allowance [OF ok, of key a] new unfolding same by (auto simp: s' kv_get_set kv_get_delete split: if_splits)
  then show ?thesis using ok by (auto simp: registry_ok_def s' pair_ok_def registry_reads)
qed

lemma other_fields:
  "registry_ok T H (s\<lparr>er_native := n\<rparr>) = registry_ok T H s" "registry_ok T H (s\<lparr>er_dynamic := n\<rparr>) = registry_ok T H s"
  "registry_ok T H (s\<lparr>er_params := q\<rparr>) = registry_ok T H s"
  by (simp_all add: registry_ok_def pair_ok_def allowance_ok_def registry_reads)

end

section \<open>Runs that keep a property of the store\<close>

named_theorems keeps_intros \<open>structural rules for runs that keep a property of the store\<close>

definition keeps :: "(erc20_store \<Rightarrow> bool) \<Rightarrow> (('s, 'b) erc20_ctx, 'r) run \<Rightarrow> bool" where
  "keeps P m \<longleftrightarrow> (\<forall>c. P (ex_store c) \<longrightarrow> P (ex_store (snd (m c))))"

lemma keepsD: "keeps P m \<Longrightarrow> P (ex_store c) \<Longrightarrow> P (ex_store (snd (m c)))"
  by (simp add: keeps_def)

lemma keeps_bind [keeps_intros]: "keeps P m \<Longrightarrow> (\<And>x. keeps P (f x)) \<Longrightarrow> keeps P (run_bind m f)"
  unfolding keeps_def run_bind_def by (auto split: prod.split res.split)

lemma keeps_pure [keeps_intros]:
  "keeps P (run_ret x)" "keeps P (run_fail e)" "keeps P (run_check b e)" "keeps P (run_get g)" "keeps P (run_ask h)" "keeps P (\<lambda>c. (r, c))"
  by (auto simp: keeps_def run_ret_def run_fail_def run_check_def run_get_def run_ask_def)

lemma keeps_store [keeps_intros]: "(\<And>s s'. P s \<Longrightarrow> f s = Ok s' \<Longrightarrow> P s') \<Longrightarrow> keeps P (on_store f)"
  by (auto simp: keeps_def on_store_def run_try_def split: res.split dest: bind_res_Ok_iff [THEN iffD1])

lemma keeps_outside [keeps_intros]: "keeps P (on_pb g)" "keeps P (on_vm h)" "keeps P (ex_emit ev)"
  by (auto simp: keeps_def on_pb_def on_vm_def ex_emit_def run_try_def split: res.split dest: bind_res_Ok_iff [THEN iffD1])

lemma keeps_calls [keeps_intros]:
  "keeps P (ex_CallEVM E a b commit method args)" "keeps P (ex_CallEVMWithData E a t data commit)" "keeps P (BalanceOf E a b)" "keeps P (ex_balance E x d)"
  by (auto simp: keeps_def ex_CallEVM_def ex_CallEVMWithData_def BalanceOf_def ex_balance_def run_ask_def split: prod.splits res.splits)

lemma keeps_cases [keeps_intros]:
  "(b \<Longrightarrow> keeps P m) \<Longrightarrow> (\<not> b \<Longrightarrow> keeps P n) \<Longrightarrow> keeps P (if b then m else n)"
  "keeps P m \<Longrightarrow> (\<And>y. keeps P (g y)) \<Longrightarrow> keeps P (case z of None \<Rightarrow> m | Some y \<Rightarrow> g y)"
  by (auto split: option.split)

lemma keeps_each [keeps_intros]: "(\<And>x. x \<in> set xs \<Longrightarrow> keeps P (f x)) \<Longrightarrow> keeps P (run_each f xs)"
  by (induction xs) (auto intro: keeps_intros)

lemma keeps_conversions [keeps_intros]:
  "keeps P (convertERC20IntoCoinsForNativeToken E pair msg receiver sender)" "keeps P (ConvertCoinNativeERC20 E pair amount t a)"
  "keeps P (convert_received E pair amount' t a)"
  unfolding convertERC20IntoCoinsForNativeToken_def ConvertCoinNativeERC20_def convert_received_def Let_def by (intro keeps_intros)+

lemma keeps_metadata [keeps_intros]: "keeps P (CreateCoinMetadata E contract)"
proof -
  have "keeps P (run_try (\<lambda>c. Ok (c\<lparr>ex_metadata := g c\<rparr>)))" for g by (simp add: keeps_def run_try_def)
  then show ?thesis unfolding CreateCoinMetadata_def QueryERC20_def queryERC20String_def Let_def by (intro keeps_intros)
qed

lemma keeps_code_hash [keeps_intros]: "keeps P (RegisterCodeHash E a t)"
  unfolding RegisterCodeHash_def RegisterERC20CodeHash_def set_code_hash_def Let_def by (intro keeps_intros) (auto intro: keeps_intros split: prod.split)

text \<open>The same for a result that is computed by cases.\<close>

definition leaves :: "(erc20_store \<Rightarrow> bool) \<Rightarrow> 'r res \<times> ('s, 'b) erc20_ctx \<Rightarrow> bool" where
  "leaves P r \<longleftrightarrow> P (ex_store (snd r))"

lemma keepsI: "(\<And>c. P (ex_store c) \<Longrightarrow> leaves P (m c)) \<Longrightarrow> keeps P m"
  by (simp add: keeps_def leaves_def)

named_theorems leaves_intros \<open>case rules for results that keep a property of the store\<close>

lemma leaves_result [leaves_intros]: "P (ex_store c) \<Longrightarrow> leaves P (r, c)"
  by (simp add: leaves_def)

lemma leaves_cases [leaves_intros]:
  "(b \<Longrightarrow> leaves P m) \<Longrightarrow> (\<not> b \<Longrightarrow> leaves P n) \<Longrightarrow> leaves P (if b then m else n)"
  "leaves P m \<Longrightarrow> (\<And>y. leaves P (g y)) \<Longrightarrow> leaves P (case z of None \<Rightarrow> m | Some y \<Rightarrow> g y)"
  "(\<And>y. leaves P (f y)) \<Longrightarrow> (\<And>e. leaves P (h e)) \<Longrightarrow> (\<And>p. leaves P (k p)) \<Longrightarrow>
   leaves P (case r of Ok y \<Rightarrow> f y | Fail e \<Rightarrow> h e | Panic p \<Rightarrow> k p)"
  by (auto split: option.split res.split)

lemma leaves_values [leaves_intros]:
  fixes sides :: "address \<times> address" and coin :: "string \<times> int option"
  shows "(\<And>x y. leaves P (f x y)) \<Longrightarrow> leaves P (case sides of (x, y) \<Rightarrow> f x y)" "(\<And>x y. leaves P (h x y)) \<Longrightarrow> leaves P (case coin of (x, y) \<Rightarrow> h x y)"
  by (auto split: prod.split)

lemma leaves_run: "keeps P m \<Longrightarrow> P (ex_store c) \<Longrightarrow> leaves P (m c)"
  by (simp add: keeps_def leaves_def)

lemma leaves_bind [leaves_intros]:
  "leaves P (m c) \<Longrightarrow> (\<And>r d. P (ex_store d) \<Longrightarrow> leaves P (f r d)) \<Longrightarrow> leaves P (case m c of (r, d) \<Rightarrow> f r d)"
  by (auto simp: leaves_def split: prod.split)

lemma keeps_ack [keeps_intros]: "keeps P m \<Longrightarrow> keeps P (ack_of a m)"
  unfolding keeps_def ack_of_def by (auto split: prod.split res.split)

lemma keeps_answers [keeps_intros]:
  "(\<And>x. keeps P (f x)) \<Longrightarrow> keeps P m \<Longrightarrow> keeps P (case a of SuccessAck x \<Rightarrow> f x | ErrorAck \<Rightarrow> m)"
  "(\<And>y. keeps P (g y)) \<Longrightarrow> keeps P n \<Longrightarrow> keeps P (case r of RecvSuccess y \<Rightarrow> g y | RecvFailure \<Rightarrow> n)"
  by (auto split: ack.split recv_result.split)

lemma keeps_or_panic [keeps_intros]: "keeps P m \<Longrightarrow> keeps P (or_panic p m)"
  unfolding keeps_def or_panic_def by (auto split: prod.split res.split)

lemma genesis_addresses: "genesis_pairs S H pairs seen seenDenom = Ok r \<Longrightarrow> p \<in> set pairs \<Longrightarrow> IsHexAddress H (Erc20Address p)"
  by (induction pairs arbitrary: seen seenDenom)
    (auto simp: bind_res_Ok_iff require_def TokenPair_Validate_def ValidateAddress_def split: if_splits)

text \<open>
  The states the module can reach: an import of a valid genesis into an empty store, then messages, packets through either middleware over an
  application that leaves the store alone, approvals through a precompiled token, and anything outside the module. A step keeps what an
  operation has written even when it fails.
\<close>

definition erc20_empty :: erc20_store where
  "erc20_empty = \<lparr>er_tokenPairs = [], er_byERC20 = [], er_byDenom = [], er_allowances = [], er_native = [], er_dynamic = [], er_params = []\<rparr>"

definition separate :: "(('s, 'b) erc20_ctx, 'r) run \<Rightarrow> bool" where
  "separate app \<longleftrightarrow> (\<forall>c. ex_store (snd (app c)) = ex_store c)"

lemma keeps_separate: "separate app \<Longrightarrow> keeps P app"
  by (simp add: separate_def keeps_def)

inductive erc20_step :: "('s, 'a, 'b, 'v, 'p) erc20_env \<Rightarrow> ('s, 'b) erc20_ctx \<Rightarrow> ('s, 'b) erc20_ctx \<Rightarrow> bool" for E where
  other: "ex_store c' = ex_store c \<Longrightarrow> erc20_step E c c'"
| convert_erc20: "erc20_step E c (snd (ConvertERC20 E msg c))"
| convert_coin: "erc20_step E c (snd (ConvertCoin E msg' c))"
| register: "erc20_step E c (snd (RegisterERC20 E signer addrs c))"
| toggle: "erc20_step E c (snd (ToggleConversion E auth token c))"
| update_params: "erc20_step E c (snd (erc20_UpdateParams E auth params c))"
| approve: "SetAllowance (er_hex E) contract x y v (ex_store c) = Ok s \<Longrightarrow> erc20_step E c (c\<lparr>ex_store := s\<rparr>)"
| revoke: "DeleteAllowance (er_hex E) contract x y (ex_store c) = Ok s \<Longrightarrow> erc20_step E c (c\<lparr>ex_store := s\<rparr>)"
| receive: "separate app \<Longrightarrow> erc20_step E c (snd (IBCMiddleware_OnRecvPacket E app packet c))"
| acknowledge: "separate app' \<Longrightarrow> erc20_step E c (snd (IBCMiddleware_OnAcknowledgementPacket E app' packet ackn c))"
| timeout: "separate app' \<Longrightarrow> erc20_step E c (snd (IBCMiddleware_OnTimeoutPacket E app' packet c))"
| receive_v2: "separate app2 \<Longrightarrow> erc20_step E c (snd (OnRecvPacket_v2 E app2 packet2 c))"
| acknowledge_v2: "separate app' \<Longrightarrow> erc20_step E c (snd (OnAcknowledgementPacket_v2 E app' packet2 ackn c))"
| timeout_v2: "separate app' \<Longrightarrow> erc20_step E c (snd (OnTimeoutPacket_v2 E app' packet2 c))"

inductive erc20_reachable :: "('s, 'a, 'b, 'v, 'p) erc20_env \<Rightarrow> ('s, 'b) erc20_ctx \<Rightarrow> bool" for E where
  start: "ex_store c = erc20_empty \<Longrightarrow> erc20_Genesis_Validate S (er_hex E) gs = Ok () \<Longrightarrow>
    erc20_reachable E (snd (erc20_InitGenesis E gs c))"
| move: "erc20_reachable E c \<Longrightarrow> erc20_step E c c' \<Longrightarrow> erc20_reachable E c'"

section \<open>The invariant\<close>

locale erc20_laws = registry_laws "er_hex E" "tmhash E" for E :: "('s, 'a, 'b, 'v, 'p) erc20_env"
begin

abbreviation "ok \<equiv> registry_ok (tmhash E) (er_hex E)"

lemma keeps_register: "keeps ok (registerERC20 E contract)"
  unfolding registerERC20_def Let_def
  by (intro keeps_intros) (rule set_token_ok, auto simp: NewTokenPair_def hex_is_address)

lemma keeps_precompile: "keeps ok (EnableNativePrecompile E a)" "keeps ok (EnableDynamicPrecompile E a)"
  unfolding EnableNativePrecompile_def EnableDynamicPrecompile_def
  by (intro keeps_intros; auto simp: SetNativePrecompile_def SetDynamicPrecompile_def other_fields)+

lemma keeps_extension: "keeps ok (RegisterERC20Extension E denom)"
proof -
  have "keeps ok (run_bind (run_ask (\<lambda>_. NewTokenPairSTRv2 E denom)) f)"
    if "\<And>p. IsHexAddress (er_hex E) (Erc20Address p) \<Longrightarrow> keeps ok (f p)" for f :: "TokenPair \<Rightarrow> (('s, 'b) erc20_ctx, TokenPair) run"
    using that by (cases "NewTokenPairSTRv2 E denom")
      (auto simp: keeps_def run_bind_def run_ask_def NewTokenPairSTRv2_def hex_is_address res_simps)
  note fresh = this
  have "keeps ok (CreateNewTokenPair E denom)"
    unfolding CreateNewTokenPair_def by (rule fresh) (intro keeps_intros, erule set_token_ok)
  then show ?thesis unfolding RegisterERC20Extension_def by (intro keeps_intros keeps_precompile)
qed

lemma minting_same: "snd (MintingEnabled E a b token c) = c"
  by (simp add: MintingEnabled_def run_ask_def)

lemma minting_pair: "fst (MintingEnabled E a b token c) = Ok pair \<Longrightarrow> \<exists>i. kv_get (er_tokenPairs (ex_store c)) i = Some pair"
  by (auto simp: MintingEnabled_def run_ask_def Let_def res_simps GetTokenPair_def split: option.splits)

lemma keeps_minting:
  assumes "\<And>pair c. ok (ex_store c) \<Longrightarrow> \<exists>i. kv_get (er_tokenPairs (ex_store c)) i = Some pair \<Longrightarrow> ok (ex_store (snd (f pair c)))"
  shows "keeps ok (run_bind (MintingEnabled E a b token) f)"
proof -
  have "ok (ex_store (snd (run_bind (MintingEnabled E a b token) f c)))" if "ok (ex_store c)" for c
    using minting_same [of a b token c] minting_pair [of a b token c] that assms [of c]
    by (auto simp: run_bind_def split: prod.split res.split)
  then show ?thesis by (simp add: keeps_def)
qed

lemma keeps_minting_only: "keeps ok (MintingEnabled E a b token)"
  by (simp add: keeps_def minting_same)

lemma conversion_step:
  assumes "ok (ex_store c)" and "\<exists>i. kv_get (er_tokenPairs (ex_store c)) i = Some pair" and "keeps ok m" and "keeps ok n"
  shows "ok (ex_store (snd ((if IsNativeERC20 pair then run_bind (run_get g) (\<lambda>gone.
    if gone then on_store (\<lambda>s. Ok (DeleteTokenPair (tmhash E) (er_hex E) pair s)) else m) else n) c)))"
  using assms delete_ok [of "ex_store c" _ pair] keepsD [of ok m c] keepsD [of ok n c]
  by (auto simp: run_bind_def run_get_def on_store_def run_try_def)

lemma keeps_convert: "keeps ok (ConvertERC20 E msg)" "keeps ok (ConvertCoin E msg')"
  unfolding ConvertERC20_def ConvertCoin_def Let_def
  by (intro keeps_intros keeps_minting conversion_step; assumption?)+

lemma keeps_toggle: "keeps ok (toggleConversion E token)"
proof -
  have "ok (ex_store (snd (toggleConversion E token c)))" if "ok (ex_store c)" for c
    using that toggle_ok [OF that]
    by (auto simp: toggleConversion_def run_bind_def run_get_def run_check_def run_ret_def run_fail_def on_store_def run_try_def GetTokenPair_def Let_def
        split: option.split)
  then show ?thesis by (simp add: keeps_def)
qed

lemma keeps_messages:
  "keeps ok (RegisterERC20 E signer addrs)" "keeps ok (ToggleConversion E auth token)" "keeps ok (erc20_UpdateParams E auth params)"
  unfolding RegisterERC20_def ToggleConversion_def erc20_UpdateParams_def
  by (intro keeps_intros keeps_register keeps_toggle; auto simp: erc20_SetParams_def SetPermissionlessRegistration_def setERC20Enabled_def other_fields)+

lemma keeps_packets: "keeps ok (OnRecvPacket E packet a)" "keeps ok (ConvertCoinToERC20FromPacket E data)"
  subgoal
    unfolding OnRecvPacket_def Let_def
    by (rule keepsI) (intro leaves_intros leaves_run [of _ "ack_of _ _"] leaves_run [of _ "MintingEnabled _ _ _ _"] keeps_minting_only keeps_intros keeps_extension)
  subgoal
    unfolding ConvertCoinToERC20FromPacket_def Let_def
    by (rule keepsI) (intro leaves_intros leaves_run [of _ "convert_received _ _ _ _ _"] leaves_run [of _ "ex_emit _"] keeps_intros)
  done

lemma keeps_middleware:
  "separate app \<Longrightarrow> keeps ok (IBCMiddleware_OnRecvPacket E app packet)"
  "separate app' \<Longrightarrow> keeps ok (IBCMiddleware_OnAcknowledgementPacket E app' packet ackn)"
  "separate app' \<Longrightarrow> keeps ok (IBCMiddleware_OnTimeoutPacket E app' packet)"
  "separate app2 \<Longrightarrow> keeps ok (OnRecvPacket_v2 E app2 packet2)"
  "separate app' \<Longrightarrow> keeps ok (OnAcknowledgementPacket_v2 E app' packet2 ackn)"
  "separate app' \<Longrightarrow> keeps ok (OnTimeoutPacket_v2 E app' packet2)"
  unfolding IBCMiddleware_OnRecvPacket_def IBCMiddleware_OnAcknowledgementPacket_def IBCMiddleware_OnTimeoutPacket_def
    OnRecvPacket_v2_def OnAcknowledgementPacket_v2_def OnTimeoutPacket_v2_def OnAcknowledgementPacket_def OnTimeoutPacket_def
  by (drule keeps_separate, intro keeps_intros keeps_packets, assumption?)+

lemma keeps_genesis_tokens:
  "(\<And>p. p \<in> set pairs \<Longrightarrow> IsHexAddress (er_hex E) (Erc20Address p)) \<Longrightarrow> keeps ok (genesis_tokens E pairs)"
proof (induction pairs)
  case (Cons p pairs)
  have "keeps ok (on_store (SetToken (tmhash E) (er_hex E) p))" using Cons.prems by (intro keeps_intros) (auto intro: set_token_ok)
  moreover have "keeps ok (genesis_tokens E pairs)" using Cons by simp
  ultimately show ?case by (intro keepsI) (simp, intro leaves_intros leaves_run; assumption)
qed (simp add: keeps_def)

lemma keeps_genesis:
  assumes "erc20_Genesis_Validate S (er_hex E) gs = Ok ()"
  shows "keeps ok (erc20_InitGenesis E gs)"
proof -
  have "IsHexAddress (er_hex E) (Erc20Address p)" if "p \<in> set (g_TokenPairs gs)" for p
    using assms that genesis_addresses by (fastforce simp: erc20_Genesis_Validate_def bind_res_Ok_iff)
  then show ?thesis unfolding erc20_InitGenesis_def
    by (intro keeps_intros keeps_genesis_tokens keeps_precompile)
      (auto simp: UnsafeSetAllowance_def erc20_SetParams_def SetPermissionlessRegistration_def setERC20Enabled_def other_fields intro: set_allowance_ok)
qed

lemma registry_step: "erc20_step E c c' \<Longrightarrow> ok (ex_store c) \<Longrightarrow> ok (ex_store c')"
  by (induction rule: erc20_step.induct)
    (auto intro: keepsD keeps_convert keeps_messages keeps_middleware set_allowance_ok simp: SetAllowance_def DeleteAllowance_def)

lemma reachable_ok: "erc20_reachable E c \<Longrightarrow> ok (ex_store c)"
proof (induction rule: erc20_reachable.induct)
  case (start c S gs)
  have "ok erc20_empty" by (simp add: registry_ok_def erc20_empty_def kv_get_def)
  then show ?case using start keepsD [OF keeps_genesis] by metis
qed (rule registry_step)

end

section \<open>A reference chain\<close>

text \<open>
  Addresses as the text of their bits, a hash that is the text itself, and a token contract that answers \<^verbatim>\<open>balanceOf\<close> with zero and reverts
  every other call. The account 5, the escrow of a transfer channel, holds seven coins of the registered pair.
\<close>

definition ref_bits :: hex_ops where
  "ref_bits =
     \<lparr>HexToAddress = (\<lambda>s. horner_sum of_bool 2 (map (\<lambda>ch. ch = CHR ''1'') s)),
      addr_Hex = (\<lambda>a. map (\<lambda>i. if bit a i then CHR ''1'' else CHR ''0'') [0..<160]),
      HexToHash = (\<lambda>s. horner_sum of_bool 2 (map (\<lambda>ch. ch = CHR ''1'') s)),
      hash_String = (\<lambda>h. map (\<lambda>i. if bit h i then CHR ''1'' else CHR ''0'') [0..<256]),
      IsHexAddress = (\<lambda>s. length s = 160 \<and> set s \<subseteq> {CHR ''0'', CHR ''1''})\<rparr>"

interpretation rbits: registry_laws ref_bits "\<lambda>bs. bs"
  by unfold_locales
    (auto simp: ref_bits_def comp_def horner_sum_bit_eq_take_bit [unfolded comp_def] take_bit_word_eq_self)

definition ref_erc20 :: "(address \<Rightarrow> uint64 option, address \<times> uint64, ledger, lstore, unit) erc20_env" where
  "ref_erc20 =
     \<lparr>ex = ref_exec\<lparr>xe := ref_evm\<lparr>ee_hex := ref_bits\<rparr>,
        evm_Call := (\<lambda>_ _ _ data gas _ db. Ok ([], gas, if data = [1] then None else Some ''execution reverted'', db))\<rparr>,
      tmhash = (\<lambda>bs. bs), abi_Pack = (\<lambda>method _. Ok (if method = ''balanceOf'' then [1] else [2])), abi_UnpackBool = (\<lambda>_. None),
      abi_UnpackString = (\<lambda>_ _. None), abi_UnpackUint8 = (\<lambda>_. None), abi_UnpackInt = (\<lambda>_. Some 0), ERC20Bin = [],
      AccAddressFromBech32 = (\<lambda>t. if t = ''sender'' then Some (addr_Bytes 1) else None), GetFromBech32 = (\<lambda>_ _. None), VerifyAddressFormat = (\<lambda>_. True),
      authority = ''gov'', ModuleAddress = 3, ParseHexHash = (\<lambda>_. None), Metadata_Validate = (\<lambda>_. Ok ()), logTransferSigHash = 0,
      Erc20Bytecode = [], Erc20CodeHash = 0, ModuleAccountAt = (\<lambda>_ _. False), BondDenom = Ok ''agxn'',
      NewIntFromString = (\<lambda>t. if t = ''7'' then Some 7 else None), ExtractDenomFromPath = (\<lambda>t. \<lparr>Trace = [], Base = t\<rparr>),
      Denom_HasPrefix = (\<lambda>_ _ _. False), IBCDenom = Base\<rparr>"

lemma ref_erc20_parts [simp]: "er_hex ref_erc20 = ref_bits" "tmhash ref_erc20 = (\<lambda>bs. bs)" "er_bank ref_erc20 = ref_pb"
  by (simp_all add: ref_erc20_def)

interpretation re: erc20_laws ref_erc20
  using rbits.registry_laws_axioms by (simp add: erc20_laws_def)

definition ref_pair :: TokenPair where
  "ref_pair = \<lparr>Erc20Address = addr_Hex ref_bits 2, tp_Denom = ''token'', tp_Enabled = True, ContractOwner = OWNER_EXTERNAL\<rparr>"

definition ref_tokens :: erc20_genesis where
  "ref_tokens = erc20_DefaultGenesisState\<lparr>g_TokenPairs := [ref_pair], g_Allowances := [NewAllowance ref_bits 2 1 4 9]\<rparr>"

definition ref_chain :: "(address \<Rightarrow> uint64 option, ledger) erc20_ctx" where
  "ref_chain = \<lparr>ex_evm = ref_ectx\<lparr>ec_vm := ref_vmctx\<lparr>auth_state := [addr_Bytes 3 \<mapsto> 0],
       bank_state := (bank_state ref_vmctx)\<lparr>bank := \<lparr>lg_balance = (\<lambda>a d. if d = ''token'' \<and> a = addr_Bytes 5 then 7 else 0),
         lg_supply = (\<lambda>d. if d = ''token'' then 7 else 0)\<rparr>\<rparr>\<rparr>\<rparr>,
     ex_store = erc20_empty, ex_metadata = (\<lambda>_. None), ex_events = []\<rparr>"

lemma ref_genesis_valid: "erc20_Genesis_Validate ref_coins ref_bits ref_tokens = Ok ()"
  using rbits.hex_is_address
  by (simp add: erc20_Genesis_Validate_def ref_tokens_def erc20_DefaultGenesisState_def ref_pair_def TokenPair_Validate_def ValidateAddress_def
      ref_coins_def validatePrecompiles_def Allowance_Validate_def NewAllowance_def require_def)

lemma ref_start: "erc20_reachable ref_erc20 (snd (erc20_InitGenesis ref_erc20 ref_tokens ref_chain))"
  by (rule erc20_reachable.start [where S = ref_coins]) (simp_all add: ref_chain_def ref_genesis_valid)

lemma kv_get_nil: "kv_get [] k = None"
  by (simp add: kv_get_def)

lemmas run_simps = run_bind_def run_ask_def run_try_def run_ret_def run_get_def run_check_def on_store_def on_pb_def or_panic_def ex_emit_def

lemmas registry_simps = SetToken_def registry_reads GetTokenPair_def SetERC20Map_def SetDenomMap_def SetTokenPair_def
  UnsafeSetAllowance_def setAllowance_def erc20_SetParams_def SetPermissionlessRegistration_def setERC20Enabled_def IsERC20Enabled_def

lemma ref_genesis:
  "\<exists>s. erc20_InitGenesis ref_erc20 ref_tokens ref_chain = (Ok (), ref_chain\<lparr>ex_store := s\<rparr>) \<and> IsERC20Enabled s \<and>
     GetTokenPair s (GetDenomMap s ''token'') = Some ref_pair \<and> GetTokenPair s (GetERC20Map s 2) = Some ref_pair"
proof -
  have "GetERC20Contract ref_bits ref_pair = 2" "tp_Denom ref_pair = ''token''" using rbits.address_hex by (simp_all add: GetERC20Contract_def ref_pair_def)
  then show ?thesis using rbits.address_hex [of 1] rbits.address_hex [of 2] rbits.address_hex [of 4]
    by (simp add: erc20_InitGenesis_def run_simps registry_simps ref_tokens_def erc20_DefaultGenesisState_def ref_accounts_def
      ref_module_addr_def erc20_ModuleName_def ref_chain_def erc20_empty_def NewAllowance_def kv_get_set kv_get_delete res_simps kv_get_nil)
qed

lemma ref_erc20_exec:
  "xe (ex ref_erc20) = ref_evm\<lparr>ee_hex := ref_bits\<rparr>" "xe_rules (ex ref_erc20) = \<lparr>IsEIP2929 = True, IsEIP4762 = False, IsShanghai = True\<rparr>"
  "evm_Call (ex ref_erc20) = (\<lambda>_ _ _ data gas _ db. Ok ([], gas, if data = [1] then None else Some ''execution reverted'', db))"
  "ReturnData (ex ref_erc20) = (\<lambda>_ _. [])" "MessageIntrinsicGas (ex ref_erc20) = (\<lambda>_ _ _ _ _. Ok 5000)" "ActivePrecompiles (ex ref_erc20) = (\<lambda>_. [])"
  by (simp_all add: ref_erc20_def ref_exec_def)

lemma ref_apply:
  assumes "ec_market v = ref_market" and "m_GasLimit msg = DefaultGasCap" "m_Value msg = 0" "m_To msg = Some t" "m_AccessList msg = []"
  shows "\<exists>res v'. ApplyMessage (ex ref_erc20) msg commit True v = Ok (res, v') \<and> Failed res = (m_Data msg \<noteq> [1]) \<and>
    v' = (if commit then v\<lparr>ec_vm := ec_vm v'\<rparr> else v) \<and> bank_state (ec_vm v') = bank_state (ec_vm v)"
proof -
  let ?X = "ex ref_erc20"
  obtain cfg where cfg: "load_EVMConfig ?X (ProposerAddress ?X) v = Ok cfg" by (simp add: load_EVMConfig_def GetCoinbaseAddress_def ref_erc20_def ref_exec_def)
  have "\<exists>evm. NewEVM ?X msg cfg v = Ok evm"
    using assms by (simp add: NewEVM_def VMConfig_def fw_GetParams_def ref_market_def fm_GetParams_def fm_DefaultParams_def dec_val_def Let_def ref_erc20_def)
  then obtain evm where evm: "NewEVM ?X msg cfg v = Ok evm" by blast
  have mul: "DecMul ref_dec 25000000000000000000000000 500000000000000000 = 12500000000000000000000000"
    by (rule rd.dec_mul_exact) simp
  have charge: "ec_market w = ref_market \<Longrightarrow> charge_gas ?X 25000000 24995000 True 5000 w = Ok 5000" for w
    by (simp add: charge_gas_def GetMinGasMultiplier_def fw_GetParams_def ref_market_def fm_GetParams_def fm_DefaultParams_def
        dec_val_def mul rd.dec_new rd.dec_truncate is_uint64_def Let_def ref_erc20_def)
  show ?thesis
    using assms
    by (simp add: ApplyMessage_def cfg ApplyMessageWithConfig_def evm GetEthIntrinsicGas_def run_message_def Prepare_def warm_list_def AddAddress_def
      newAccessList_def add_addresses_def New_def newTransientStorage_def Uint256FromBigInt_def GasToRefund_def Commit_def commitWithCtx_def
      sortedDirties_def Let_def charge Failed_def DefaultGasCap_def ref_erc20_exec)
qed

lemma ref_call:
  assumes "ec_market v = ref_market" and "auth_state (ec_vm v) = [addr_Bytes 3 \<mapsto> 0]" and "ec_meter v = None"
  shows "\<exists>res. CallEVM (ex ref_erc20) (Ok [1]) 3 t False v = (Ok res, v)"
    and "\<exists>e w. CallEVM (ex ref_erc20) (Ok [2]) 3 t True v = (Fail e, w) \<and> bank_state (ec_vm w) = bank_state (ec_vm v)"
proof -
  let ?msg = "\<lambda>d. \<lparr>m_From = 3, m_To = Some t, m_Nonce = 0, m_Value = 0, m_GasLimit = DefaultGasCap, m_GasPrice = 0,
    m_GasFeeCap = 0, m_GasTipCap = 0, m_Data = d, m_AccessList = []\<rparr>"
  have account: "au_GetAccount ref_auth (auth_state (ec_vm v)) (addr_Bytes 3) = Some (addr_Bytes 3, 0)" "acc_GetSequence ref_auth (addr_Bytes 3, 0) = 0"
    using assms by (simp_all add: ref_auth_def)
  note eval = CallEVM_def CallEVMWithData_def account ref_erc20_exec Let_def
  obtain res where "ApplyMessage (ex ref_erc20) (?msg [1]) False True v = Ok (res, v)" "\<not> Failed res"
    using ref_apply [OF assms(1), of "?msg [1]" t False] by auto
  then show "\<exists>res. CallEVM (ex ref_erc20) (Ok [1]) 3 t False v = (Ok res, v)"
    using assms(3) by (simp add: eval on_meter_def)
  obtain res w where "ApplyMessage (ex ref_erc20) (?msg [2]) True True v = Ok (res, w)" "Failed res" "w = v\<lparr>ec_vm := ec_vm w\<rparr>"
    "bank_state (ec_vm w) = bank_state (ec_vm v)"
    using ref_apply [OF assms(1), of "?msg [2]" t True] by auto
  moreover from this(3) have "ec_meter w = None" using assms(3) by (metis evm_ctx.select_convs(5) evm_ctx.surjective evm_ctx.update_convs(1))
  ultimately show "\<exists>e w. CallEVM (ex ref_erc20) (Ok [2]) 3 t True v = (Fail e, w) \<and> bank_state (ec_vm w) = bank_state (ec_vm v)"
    by (simp add: eval on_meter_def)
qed

definition ref_return :: FungibleTokenPacketData where
  "ref_return = \<lparr>pd_Denom = ''token'', pd_Amount = ''7'', pd_Sender = ''sender'', pd_Receiver = ''receiver''\<rparr>"

text \<open>The refund of the transfer application: the coins go from the escrow of the channel back to the sender.\<close>

definition ref_refund :: "((address \<Rightarrow> uint64 option, ledger) erc20_ctx, unit) run" where
  "ref_refund = on_pb (SendCoins ref_pb (addr_Bytes 5) (addr_Bytes 1) [(''token'', 7)])"

lemma ref_refunded:
  "\<exists>b. SendCoins ref_pb (addr_Bytes 5) (addr_Bytes 1) [(''token'', 7)] (bank_state (ec_vm (ex_evm ref_chain))) = Ok b \<and>
     lg_balance (bank b) (addr_Bytes 1) ''token'' = 7 \<and> lg_balance (bank b) (module_addr (ak ref_pb) erc20_ModuleName) ''token'' = 0"
proof -
  have sum: "SumExtendedCoin ref_pb [(''token'', 7)] = Ok (''aatom'', 0)"
    by (simp add: SumExtendedCoin_def ref_coins_def)
  have "255 # StringToBytes ''erc20'' \<noteq> addr_Bytes 1" "255 # StringToBytes ''erc20'' \<noteq> addr_Bytes 5" "addr_Bytes 5 \<noteq> addr_Bytes 1"
    by (auto simp: StringToBytes_def dest: arg_cong [where f = length] arg_cong [where f = un_be])
  then show ?thesis
    by (simp add: ref_accounts_def ref_module_addr_def erc20_ModuleName_def pb_ModuleName_def SendCoins_def ref_chain_def
      require_def ref_coins_def ref_valid_def ref_bank_def lg_send_def lg_covers_def lg_add_def on_bank_def module_addr_def sum Let_def ref_add_coin_def
      kv_delete_def kv_ok_def)
qed

section \<open>Calls that change nothing\<close>

text \<open>A failing call of the contract leaves the journal of the EVM as it was, as a revert does when the call has reached no precompile.\<close>

definition fails_cleanly :: "('s, 'a, 'b, 'v, 'p) exec_env \<Rightarrow> addr \<Rightarrow> addr \<Rightarrow> bytes \<Rightarrow> bool" where
  "fails_cleanly X from_addr contract data \<longleftrightarrow> (\<forall>evm gas v db ret gas' err db'.
     evm_Call X evm from_addr contract data gas v db = Ok (ret, gas', Some err, db') \<longrightarrow>
     ctx db' = ctx db \<and> dirties db' = dirties db \<and> writeCache db' = writeCache db)"

lemma prepared:
  assumes "Prepare rs sender coinbase dst pcs al (New c txc) = Ok db"
  shows "ctx db = c" "dirties db = []" "writeCache db = None"
  using assms by (auto simp: Prepare_def New_def Let_def res_simps split: if_splits)

lemma apply_reads:
  assumes "ApplyMessage X msg False internal c = Ok (res, c')"
  shows "c' = c"
  using assms by (auto simp: ApplyMessage_def ApplyMessageWithConfig_def Let_def res_simps split: prod.splits)

lemma apply_fails:
  assumes "ApplyMessage X msg True internal c = Ok (res, c')" and "Failed res" and "m_To msg = Some t"
    and "fails_cleanly X (m_From msg) t (m_Data msg)"
  shows "ec_vm c' = ec_vm c"
proof -
  let ?K = "vm_backend (ee_keeper (xe X))"
  obtain evm txc db gas v ret left vmErr db1 db2 where
    p: "Prepare (xe_rules X) (m_From msg) 0 (Some t) (ActivePrecompiles X evm) (m_AccessList msg) (New (ec_vm c) txc) = Ok db"
    and r: "evm_Call X evm (m_From msg) t (m_Data msg) gas v db = Ok (ret, left, vmErr, db1)"
    and e: "vmErr = None \<longrightarrow> res_VmError res = ''''" and k: "Commit ?K db1 = Ok (db2, None)" "c' = c\<lparr>ec_vm := ctx db2\<rparr>"
    using assms(1,3) by (fastforce simp: ApplyMessage_def ApplyMessageWithConfig_def run_message_def Let_def res_simps split: option.splits)
  obtain err where "vmErr = Some err" using assms(2) e by (cases vmErr) (auto simp: Failed_def)
  then have "ctx db1 = ec_vm c" "dirties db1 = []" "writeCache db1 = None"
    using assms(4) r prepared [OF p] unfolding fails_cleanly_def by metis+
  then show ?thesis using k by (auto simp: Commit_def commitWithCtx_def sortedDirties_def)
qed

lemma metered: "on_meter f c = Ok c' \<Longrightarrow> ec_vm c' = ec_vm c"
  by (auto simp: on_meter_def res_simps split: option.splits)

lemma consume_total: "on_meter (ConsumeGas g) c = Fail e \<Longrightarrow> False"
  by (auto simp: on_meter_def ConsumeGas_def Let_def res_simps split: option.splits prod.splits if_splits)

lemma call_cases:
  assumes "CallEVM X packed from_addr contract commit c = (r, c')"
  obtains "c' = c" | data msg res d where "packed = Ok data" "m_From msg = from_addr" "m_To msg = Some contract" "m_Data msg = data"
    "ApplyMessage X msg commit True c = Ok (res, d)" "ec_vm c' = ec_vm d" "(\<exists>e. r = Fail e) \<longrightarrow> Failed res"
proof (cases packed)
  case (Ok data)
  let ?A = "accountKeeper (ee_keeper (xe X))"
  show thesis
  proof (cases "au_GetAccount ?A (auth_state (ec_vm c)) (addr_Bytes from_addr)")
    case None
    then show thesis using assms Ok that(1) by (simp add: CallEVM_def CallEVMWithData_def Let_def)
  next
    case (Some acc)
    let ?msg = "\<lparr>m_From = from_addr, m_To = Some contract, m_Nonce = acc_GetSequence ?A acc, m_Value = 0, m_GasLimit = DefaultGasCap, m_GasPrice = 0,
      m_GasFeeCap = 0, m_GasTipCap = 0, m_Data = data, m_AccessList = []\<rparr>"
    show thesis
    proof (cases "ApplyMessage X ?msg commit True c")
      case a: (Ok x)
      obtain res d where x: "x = (res, d)" by fastforce
      have "ec_vm c' = ec_vm d \<and> ((\<exists>e. r = Fail e) \<longrightarrow> Failed res)"
        using assms Ok Some a x by (auto simp: CallEVM_def CallEVMWithData_def Let_def dest: metered consume_total split: res.splits if_splits)
      then show thesis using that(2) [of data ?msg res d] Ok a x by simp
    qed (use assms Ok Some that(1) in \<open>simp_all add: CallEVM_def CallEVMWithData_def Let_def\<close>)
  qed
qed (use assms that(1) in \<open>simp_all add: CallEVM_def\<close>)

lemma call_reads:
  assumes "CallEVM X packed from_addr contract False c = (r, c')"
  shows "ec_vm c' = ec_vm c"
  using assms by (rule call_cases) (auto dest: apply_reads)

lemma call_fails:
  assumes "CallEVM X (Ok data) from_addr contract True c = (Fail e, c')" and "fails_cleanly X from_addr contract data"
  shows "ec_vm c' = ec_vm c"
  using assms(1)
proof (rule call_cases)
  fix bs msg res d
  assume "Ok data = Ok bs" "m_From msg = from_addr" "m_To msg = Some contract" "m_Data msg = bs"
    "ApplyMessage X msg True True c = Ok (res, d)" "ec_vm c' = ec_vm d" "(\<exists>e'. (Fail e :: MsgEthereumTxResponse res) = Fail e') \<longrightarrow> Failed res"
  then show ?thesis using apply_fails [of X msg True c res d contract] assms(2) by auto
qed simp

section \<open>Properties\<close>

text \<open>
  C13. In every reachable state of the token registry each stored pair is found under its identifier, its contract and its denomination, the
  two indices name no other identifiers, every allowance is between 1 and 2^256 - 1, of non-zero parties and of a registered contract, and two
  pairs with the same contract or the same denomination are the same pair. Failed messages and packets are steps too.
\<close>

theorem registry_invariant:
  assumes "erc20_laws E" and "erc20_reachable E c"
  defines "s \<equiv> ex_store c" and "H \<equiv> er_hex E"
  shows "registry_ok (tmhash E) H s \<and>
    (\<forall>p q i j. kv_get (er_tokenPairs s) i = Some p \<longrightarrow> kv_get (er_tokenPairs s) j = Some q \<longrightarrow>
       GetERC20Contract H p = GetERC20Contract H q \<or> tp_Denom p = tp_Denom q \<longrightarrow> i = j \<and> p = q)"
proof -
  have ok: "registry_ok (tmhash E) H s" using erc20_laws.reachable_ok [OF assms(1,2)] by (simp add: s_def H_def)
  have "i = j" if "kv_get (er_tokenPairs s) i = Some p" "kv_get (er_tokenPairs s) j = Some q"
    "GetERC20Contract H p = GetERC20Contract H q \<or> tp_Denom p = tp_Denom q" for i j p q
  proof -
    have "pair_ok (tmhash E) H s i p" "pair_ok (tmhash E) H s j q" using ok that(1,2) by (simp_all add: registry_ok_def)
    then show ?thesis using that(3) by (auto simp: pair_ok_def)
  qed
  then show ?thesis using ok by (metis option.inject)
qed

theorem registry_invariant_witness:
  "registry_ok (tmhash ref_erc20) (er_hex ref_erc20) (ex_store (snd (ToggleConversion ref_erc20 ''gov'' ''token'' (snd (erc20_InitGenesis ref_erc20 ref_tokens ref_chain)))))"
proof -
  have "erc20_reachable ref_erc20 (snd (ToggleConversion ref_erc20 ''gov'' ''token'' (snd (erc20_InitGenesis ref_erc20 ref_tokens ref_chain))))"
    by (rule erc20_reachable.move [OF ref_start erc20_step.toggle])
  from registry_invariant [OF re.erc20_laws_axioms this] show ?thesis by blast
qed

text \<open>
  C24. An approval is read back: after it the allowance of that contract, owner and spender is the amount approved and every other allowance is
  as before. Deleting the pair of a contract takes back the allowances of that contract and leaves the others.
\<close>

theorem allowance_round_trip:
  assumes "setAllowance H erc20 owner spender (Some n) b s = Ok s'"
  shows "GetAllowance s' x y z = (if x = erc20 \<and> y = owner \<and> z = spender then n else GetAllowance s x y z) \<and>
    GetAllowance (DeleteTokenPair T H p s') x y z = (if x = GetERC20Contract H p then 0 else GetAllowance s' x y z)"
proof -
  have inj: "AllowanceKey x y z = AllowanceKey x' y' z' \<longleftrightarrow> x = x' \<and> y = y' \<and> z = z'" for x y z x' y' z' by (auto simp: AllowanceKey_def)
  have "s' = s\<lparr>er_allowances := if n = 0 then kv_delete (AllowanceKey erc20 owner spender) (er_allowances s)
      else kv_set (AllowanceKey erc20 owner spender) (NewAllowance H erc20 owner spender n) (er_allowances s)\<rparr>"
    using assms by (auto simp: setAllowance_def res_simps split: option.splits if_splits)
  then show ?thesis
    by (auto simp: GetAllowance_def inj kv_get_set kv_get_delete NewAllowance_def DeleteTokenPair_def deleteDenomMap_def deleteERC20Map_def
        deleteTokenPair_def rbits.delete_allowances rbits.key_prefix)
qed

theorem allowance_round_trip_witness:
  "\<exists>s'. setAllowance ref_bits 2 1 4 (Some 5) False (ex_store (snd (erc20_InitGenesis ref_erc20 ref_tokens ref_chain))) = Ok s' \<and> GetAllowance s' 2 1 4 = 5"
proof -
  obtain s where s: "erc20_InitGenesis ref_erc20 ref_tokens ref_chain = (Ok (), ref_chain\<lparr>ex_store := s\<rparr>)" "GetTokenPair s (GetERC20Map s 2) = Some ref_pair"
    using ref_genesis by blast
  then obtain s' where "setAllowance ref_bits 2 1 4 (Some 5) False s = Ok s'" by (simp add: setAllowance_def require_def ref_pair_def)
  from allowance_round_trip [OF this, of 2 1 4] this s(1) show ?thesis by simp
qed

lemma escrow:
  assumes "precise_bank B" and "d \<noteq> ExtendedCoinDenom B" and "ValidateDenom (sdk B) d" and "0 < n" and "n \<le> bk_SpendableCoin (bk B) (bank s) sender d"
    and "GetModuleAccount (ak B) erc20_ModuleName = Some acc" and "sender \<noteq> ma_address acc"
  shows "\<exists>s'. SendCoinsFromAccountToModule B sender erc20_ModuleName [(d, n)] s = Ok s' \<and>
    bk_GetBalance (bk B) (bank s') sender d = bk_GetBalance (bk B) (bank s) sender d - n \<and>
    bk_GetBalance (bk B) (bank s') (ma_address acc) d = bk_GetBalance (bk B) (bank s) (ma_address acc) d + n"
  using precise_bank.send_other_coin [OF assms(1-5), of "ma_address acc"] assms(6,7)
  by (fastforce simp: SendCoinsFromAccountToModule_def erc20_ModuleName_def pb_ModuleName_def require_def)

lemma balance_reads:
  assumes "BalanceOf E contract a c = (r, c')"
  shows "\<exists>v. c' = c\<lparr>ex_evm := v\<rparr> \<and> ec_vm v = ec_vm (ex_evm c)"
  using assms call_reads [of "ex E"] by (auto simp: BalanceOf_def ex_CallEVM_def Let_def split: res.splits prod.splits)

text \<open>
  C14. What a timed-out packet can leave behind. Let the transfer application have refunded the sender, which gives \<open>c0\<close>, and let the
  refunded coins belong to a registered native token whose contract answers \<^verbatim>\<open>balanceOf\<close> but rejects the transfer, leaving the journal
  as it was. Then the callback succeeds all the same, with the coins in the escrow of the module: the sender has lost them,
  the module account holds them, and nothing else of the EVM's state, and so no token balance, has changed.
\<close>

theorem timeout_strands_coins:
  fixes E :: "('s, 'a, 'b, 'v, 'p) erc20_env"
  defines "B \<equiv> er_bank E"
  assumes "packet_data packet = Some data" and "app c = (Ok (), c0)" and "AccAddressFromBech32 E (pd_Sender data) = Some sender"
    and "GetTokenPair (ex_store c0) (GetTokenPairID (er_hex E) (ex_store c0) (pd_Denom data)) = Some pair" and "IsNativeERC20 pair"
    and "GetSentCoin E (pd_Denom data) (pd_Amount data) = (d, Some n)" and "EnableErc20 (erc20_GetParams (ex_store c0))" and "IsDenomRegistered (ex_store c0) d"
    and "\<not> ModuleAccountAt E (auth_state (ec_vm (ex_evm c0))) sender"
    and "precise_bank B" and "tp_Denom pair \<noteq> ExtendedCoinDenom B" and "ValidateDenom (sdk B) (tp_Denom pair)" and "0 < n"
    and "n \<le> bk_SpendableCoin (bk B) (bank (bank_state (ec_vm (ex_evm c0)))) sender (tp_Denom pair)"
    and "GetModuleAccount (ak B) erc20_ModuleName = Some acc" and "sender \<noteq> ma_address acc"
    and "BalanceOf E (GetERC20Contract (er_hex E) pair) (un_be sender) c0 = (Ok (Some b), c1)"
    and "abi_Pack E ''transfer'' [ArgAddress (un_be sender), ArgUint256 n] = Ok bs"
    and "fails_cleanly (ex E) (ModuleAddress E) (GetERC20Contract (er_hex E) pair) bs"
    and "\<And>s. SendCoinsFromAccountToModule B sender erc20_ModuleName [(tp_Denom pair, n)] (bank_state (ec_vm (ex_evm c1))) = Ok s \<Longrightarrow>
      \<exists>e v. CallEVM (ex E) (Ok bs) (ModuleAddress E) (GetERC20Contract (er_hex E) pair) True
      ((ex_evm c1)\<lparr>ec_vm := (ec_vm (ex_evm c1))\<lparr>bank_state := s\<rparr>\<rparr>) = (Fail e, v)"
  shows "\<exists>c' s. IBCMiddleware_OnTimeoutPacket E app packet c = (Ok (), c') \<and>
    ec_vm (ex_evm c') = (ec_vm (ex_evm c0))\<lparr>bank_state := s\<rparr> \<and> ex_store c' = ex_store c0 \<and>
    bk_GetBalance (bk B) (bank s) sender (tp_Denom pair) = bk_GetBalance (bk B) (bank (bank_state (ec_vm (ex_evm c0)))) sender (tp_Denom pair) - n \<and>
    bk_GetBalance (bk B) (bank s) (ma_address acc) (tp_Denom pair) =
      bk_GetBalance (bk B) (bank (bank_state (ec_vm (ex_evm c0)))) (ma_address acc) (tp_Denom pair) + n"
proof -
  let ?contract = "GetERC20Contract (er_hex E) pair" and ?vm = "ec_vm (ex_evm c0)"
  obtain w where w: "c1 = c0\<lparr>ex_evm := w\<rparr>" "ec_vm w = ?vm" using balance_reads [OF assms(18)] by blast
  obtain s where s: "SendCoinsFromAccountToModule B sender erc20_ModuleName [(tp_Denom pair, n)] (bank_state ?vm) = Ok s"
    "bk_GetBalance (bk B) (bank s) sender (tp_Denom pair) = bk_GetBalance (bk B) (bank (bank_state ?vm)) sender (tp_Denom pair) - n"
    "bk_GetBalance (bk B) (bank s) (ma_address acc) (tp_Denom pair) = bk_GetBalance (bk B) (bank (bank_state ?vm)) (ma_address acc) (tp_Denom pair) + n"
    using escrow [OF assms(11-17)] by blast
  let ?w = "w\<lparr>ec_vm := ?vm\<lparr>bank_state := s\<rparr>\<rparr>"
  obtain e v where v: "CallEVM (ex E) (Ok bs) (ModuleAddress E) ?contract True ?w = (Fail e, v)" using assms(21) [of s] s(1) w by auto
  have vm: "ec_vm v = ?vm\<lparr>bank_state := s\<rparr>" using call_fails [OF v assms(20)] by simp
  have "ConvertCoinNativeERC20 E pair n (un_be sender) sender c0 = (Fail e, c0\<lparr>ex_evm := v\<rparr>)"
    using s(1) v w assms(14,18,19) by (simp add: ConvertCoinNativeERC20_def run_simps ex_CallEVM_def Let_def B_def)
  moreover have "\<not> IsNativeCoin pair" using assms(6) by (auto simp: IsNativeERC20_def IsNativeCoin_def OWNER_EXTERNAL_def OWNER_MODULE_def)
  ultimately have "OnTimeoutPacket E data c0 = ex_emit (FailedConvertERC20Event (tp_Denom pair) (Erc20Address pair)) (c0\<lparr>ex_evm := v\<rparr>)"
    using assms(4-10) by (simp add: OnTimeoutPacket_def ConvertCoinToERC20FromPacket_def convert_received_def)
  then show ?thesis using assms(2,3) s(2,3) vm by (auto simp: IBCMiddleware_OnTimeoutPacket_def run_simps intro!: exI [of _ s])
qed

lemma ref_clean: "fails_cleanly (ex ref_erc20) a t bs"
  by (simp add: fails_cleanly_def ref_erc20_exec)

lemma ref_pair_parts: "GetERC20Contract ref_bits ref_pair = 2" "tp_Denom ref_pair = ''token''" "IsNativeERC20 ref_pair"
  using rbits.address_hex by (simp_all add: GetERC20Contract_def ref_pair_def IsNativeERC20_def OWNER_EXTERNAL_def)

lemma ref_env:
  "abi_Pack ref_erc20 m args = Ok (if m = ''balanceOf'' then [1] else [2])" "ModuleAddress ref_erc20 = 3" "abi_UnpackInt ref_erc20 bs = Some 0"
  "AccAddressFromBech32 ref_erc20 ''sender'' = Some (addr_Bytes 1)" "GetSentCoin ref_erc20 ''token'' ''7'' = (''token'', Some 7)"
  "\<not> ModuleAccountAt ref_erc20 a x"
  by (simp_all add: ref_erc20_def GetSentCoin_def)

theorem timeout_strands_coins_witness:
  "\<exists>c c0 c' s. erc20_reachable ref_erc20 c \<and> ref_refund c = (Ok (), c0) \<and>
     lg_balance (bank (bank_state (ec_vm (ex_evm c0)))) (addr_Bytes 1) ''token'' = 7 \<and>
     IBCMiddleware_OnTimeoutPacket ref_erc20 ref_refund \<lparr>SourcePort = ''transfer'', SourceChannel = ''channel-0'', DestinationPort = ''transfer'',
       DestinationChannel = ''channel-1'', packet_data = Some ref_return\<rparr> c = (Ok (), c') \<and>
     ec_vm (ex_evm c') = (ec_vm (ex_evm c0))\<lparr>bank_state := s\<rparr> \<and> lg_balance (bank s) (addr_Bytes 1) ''token'' = 0 \<and>
     lg_balance (bank s) (module_addr (ak ref_pb) erc20_ModuleName) ''token'' = 7"
proof -
  obtain s where s: "erc20_InitGenesis ref_erc20 ref_tokens ref_chain = (Ok (), ref_chain\<lparr>ex_store := s\<rparr>)" "IsERC20Enabled s"
    "GetTokenPair s (GetDenomMap s ''token'') = Some ref_pair"
    using ref_genesis by blast
  let ?c = "ref_chain\<lparr>ex_store := s\<rparr>" and ?v = "ex_evm ref_chain"
  obtain b where b: "SendCoins ref_pb (addr_Bytes 5) (addr_Bytes 1) [(''token'', 7)] (bank_state (ec_vm ?v)) = Ok b"
    "lg_balance (bank b) (addr_Bytes 1) ''token'' = 7" "lg_balance (bank b) (module_addr (ak ref_pb) erc20_ModuleName) ''token'' = 0"
    using ref_refunded by blast
  let ?w = "?v\<lparr>ec_vm := (ec_vm ?v)\<lparr>bank_state := b\<rparr>\<rparr>"
  let ?refunded = "?c\<lparr>ex_evm := ?w\<rparr>"
  have w: "ec_market ?w = ref_market" "auth_state (ec_vm ?w) = [addr_Bytes 3 \<mapsto> 0]" "ec_meter ?w = None" by (simp_all add: ref_chain_def ref_ectx_def)
  have id: "GetTokenPairID ref_bits s ''token'' = GetDenomMap s ''token''" by (simp add: GetTokenPairID_def ref_bits_def)
  have registered: "IsDenomRegistered s ''token''" using s(3) by (auto simp: IsDenomRegistered_def GetDenomMap_def GetTokenPair_def split: option.splits)
  obtain res where "CallEVM (ex ref_erc20) (Ok [1]) 3 2 False ?w = (Ok res, ?w)" using ref_call(1) [OF w] by blast
  then have read: "BalanceOf ref_erc20 (GetERC20Contract (er_hex ref_erc20) ref_pair) (un_be (addr_Bytes 1)) ?refunded = (Ok (Some 0), ?refunded)"
    by (simp add: BalanceOf_def ex_CallEVM_def ref_env ref_pair_parts)
  have reject: "\<exists>e u. CallEVM (ex ref_erc20) (Ok [2]) (ModuleAddress ref_erc20) (GetERC20Contract (er_hex ref_erc20) ref_pair) True
      ((ex_evm ?refunded)\<lparr>ec_vm := (ec_vm (ex_evm ?refunded))\<lparr>bank_state := s'\<rparr>\<rparr>) = (Fail e, u)" for s'
    using ref_call(2) [of "?w\<lparr>ec_vm := (ec_vm ?w)\<lparr>bank_state := s'\<rparr>\<rparr>" 2] w by (auto simp: ref_env ref_pair_parts)
  obtain acc where acc: "GetModuleAccount (ak ref_pb) erc20_ModuleName = Some acc" "ma_address acc = module_addr (ak ref_pb) erc20_ModuleName"
    by (simp add: ref_accounts_def ref_module_addr_def erc20_ModuleName_def module_addr_def)
  have app: "ref_refund ?c = (Ok (), ?refunded)" using b(1) by (simp add: ref_refund_def run_simps)
  have away: "addr_Bytes 1 \<noteq> ma_address acc" using b(2,3) acc(2) by auto
  let ?packet = "\<lparr>SourcePort = ''transfer'', SourceChannel = ''channel-0'', DestinationPort = ''transfer'', DestinationChannel = ''channel-1'',
    packet_data = Some ref_return\<rparr>"
  have on: "EnableErc20 (erc20_GetParams s)" using s(2) by (simp add: erc20_GetParams_def IsERC20Enabled_def)
  note fact = timeout_strands_coins [where E = ref_erc20 and app = ref_refund and c = ?c and packet = ?packet and data = ref_return and sender = "addr_Bytes 1" and d = "''token''" and n = 7 and bs = "[2]",
      OF _ app _ _ ref_pair_parts(3) _ _ _ _ _ _ _ _ _ _ away read _ ref_clean reject]
  obtain c' s' where "IBCMiddleware_OnTimeoutPacket ref_erc20 ref_refund ?packet ?c = (Ok (), c')"
     "ec_vm (ex_evm c') = (ec_vm ?w)\<lparr>bank_state := s'\<rparr>" "lg_balance (bank s') (addr_Bytes 1) ''token'' = 0"
     "lg_balance (bank s') (ma_address acc) ''token'' = 7"
    using fact acc b(2,3) on s(3) id registered ref_env ref_pair_parts rp.precise_bank_axioms
    by (auto simp: ref_return_def ref_coins_def ref_bank_def)
  moreover have "erc20_reachable ref_erc20 ?c" using ref_start s(1) by simp
  ultimately show ?thesis using app b(2) acc(2)
    by (intro exI [of _ ?c] exI [of _ ?refunded] exI [of _ c'] exI [of _ s'] conjI) simp_all
qed

end
