(* ===== verification/BigFloat.thy ===== *)
theory BigFloat
  imports Complex_Main Sdk "HOL-Library.Product_Lexorder" "HOL-Library.Log_Nat"
begin

text \<open>
  The part of Go's \<^verbatim>\<open>math/big.Float\<close> the oracle uses, at the 64 bits of precision that a fresh value gets from
  \<^verbatim>\<open>SetString\<close>, \<^verbatim>\<open>Add\<close>, \<^verbatim>\<open>Quo\<close> and \<^verbatim>\<open>SetInt64\<close>: finite numbers, the negative zero and the two
  infinities, comparison, addition and division rounded to nearest even, and the panic (\<^verbatim>\<open>ErrNaN\<close>) on adding
  infinities of opposite signs. The reading and printing of decimal text is a pair of functions of the
  library that the definitions take as arguments. Exponents are unbounded here, those of the library have 32 bits.
\<close>

datatype bigfloat = Finite rat | NegZero | PosInf | NegInf

text \<open>The order of \<^verbatim>\<open>Cmp\<close>; both zeros are equal.\<close>

fun bf_key :: "bigfloat \<Rightarrow> int \<times> rat" where
  "bf_key (Finite q) = (0, q)"
| "bf_key NegZero = (0, 0)"
| "bf_key PosInf = (1, 0)"
| "bf_key NegInf = (-1, 0)"

definition bf_Cmp :: "bigfloat \<Rightarrow> bigfloat \<Rightarrow> int" where
  "bf_Cmp x y = (if bf_key x < bf_key y then -1 else if bf_key y < bf_key x then 1 else 0)"

text \<open>Rounding to a mantissa of 64 bits, to nearest, ties to even.\<close>

definition scaled :: "int \<Rightarrow> int \<Rightarrow> int \<Rightarrow> int \<times> int" where
  "scaled p q e = (if 0 \<le> e then (p, q * 2 ^ nat e) else (p * 2 ^ nat (- e), q))"

definition round64 :: "rat \<Rightarrow> rat" where
  "round64 x =
     (let (p, q) = quotient_of x;
          e = bitlen \<bar>p\<bar> - bitlen q - 64;
          (a, b) = scaled p q e;
          e' = (if 2 ^ 64 * b \<le> \<bar>a\<bar> then e + 1 else e);
          (a, b) = scaled p q e';
          n = round_half_even a b in
      if 0 \<le> e' then of_int (n * 2 ^ nat e') else of_int n / of_int (2 ^ nat (- e')))"

fun bf_Add :: "bigfloat \<Rightarrow> bigfloat \<Rightarrow> bigfloat res" where
  "bf_Add PosInf NegInf = Panic ''ErrNaN: addition of infinities with opposite signs''"
| "bf_Add NegInf PosInf = Panic ''ErrNaN: addition of infinities with opposite signs''"
| "bf_Add PosInf y = Ok PosInf"
| "bf_Add NegInf y = Ok NegInf"
| "bf_Add x PosInf = Ok PosInf"
| "bf_Add x NegInf = Ok NegInf"
| "bf_Add NegZero NegZero = Ok NegZero"
| "bf_Add NegZero (Finite y) = Ok (Finite (round64 y))"
| "bf_Add (Finite x) NegZero = Ok (Finite (round64 x))"
| "bf_Add (Finite x) (Finite y) = Ok (Finite (round64 (x + y)))"

text \<open>\<open>bf_QuoInt x n\<close> is \<^verbatim>\<open>Quo(x, SetInt64(n))\<close> for a positive \<open>n\<close>.\<close>

fun bf_QuoInt :: "bigfloat \<Rightarrow> int \<Rightarrow> bigfloat" where
  "bf_QuoInt (Finite x) n = Finite (round64 (x / of_int n))"
| "bf_QuoInt x n = x"

text \<open>\<^verbatim>\<open>new(big.Float)\<close> and \<^verbatim>\<open>SetFloat64(math.MaxFloat64)\<close>.\<close>

definition bf_zero :: bigfloat where "bf_zero = Finite 0"

definition bf_MaxFloat64 :: bigfloat where "bf_MaxFloat64 = Finite (of_int ((2 ^ 53 - 1) * 2 ^ 971))"

lemma bf_Cmp_simps [simp]:
  "0 < bf_Cmp x y \<longleftrightarrow> bf_key y < bf_key x" "bf_Cmp x y < 0 \<longleftrightarrow> bf_key x < bf_key y"
  by (auto simp: bf_Cmp_def)

end
