(* ===== verification/Oracle.thy ===== *)
theory Oracle
  imports BigFloat KVStore
begin

text \<open>
  \<^verbatim>\<open>x/oracle\<close>: request documents, the data providers submit for the next nonce of a document, the aggregation
  at the start of a block (\<^verbatim>\<open>keeper/aggregate.go\<close>), the hooks, the messages, queries and genesis. The protobuf
  enumerations are integers, as in Go, where any 32-bit value can arrive. The stores are kept apart by
  their one-byte prefix and hold decoded values. Accounts with their public keys are SDK code, and the
  decimal text of numbers is read and printed by \<^verbatim>\<open>math/big\<close>: they are fields of \<open>or_env\<close>. Logging is left out.
\<close>

section \<open>Data\<close>

type_synonym enum = int

definition ORACLE_TYPE_UNSPECIFIED :: enum where "ORACLE_TYPE_UNSPECIFIED = 0"
definition ORACLE_TYPE_MIN_GAS_PRICE :: enum where "ORACLE_TYPE_MIN_GAS_PRICE = 1"
definition REQUEST_STATUS_UNSPECIFIED :: enum where "REQUEST_STATUS_UNSPECIFIED = 0"
definition REQUEST_STATUS_ENABLED :: enum where "REQUEST_STATUS_ENABLED = 1"
definition REQUEST_STATUS_DISABLED :: enum where "REQUEST_STATUS_DISABLED = 3"
definition AGGREGATION_RULE_UNSPECIFIED :: enum where "AGGREGATION_RULE_UNSPECIFIED = 0"
definition AGGREGATION_RULE_AVG :: enum where "AGGREGATION_RULE_AVG = 1"
definition AGGREGATION_RULE_MIN :: enum where "AGGREGATION_RULE_MIN = 2"
definition AGGREGATION_RULE_MAX :: enum where "AGGREGATION_RULE_MAX = 3"
definition AGGREGATION_RULE_MEDIAN :: enum where "AGGREGATION_RULE_MEDIAN = 4"

record OracleEndpoint =
  Url :: string
  ParseRule :: string

record OracleRequestDoc =
  RequestId :: uint64
  OracleType :: enum
  Name :: string
  Description :: string
  Period :: uint32
  AccountList :: "string list"
  Quorum :: uint32
  Endpoints :: "OracleEndpoint list"
  AggregationRule :: enum
  Status :: enum
  Nonce :: uint64

record SubmitDataSet =
  sd_RequestId :: uint64
  sd_Nonce :: uint64
  sd_RawData :: string
  sd_Provider :: string
  sd_Signature :: bytes

record DataSet =
  ds_RequestId :: uint64
  ds_Nonce :: uint64
  ds_BlockHeight :: uint64
  ds_BlockTime :: uint64
  ds_RawData :: string

record or_Params =
  EnableOracle :: bool
  SubmitWindow :: uint64
  MinSubmitPerWindow :: "dec option"
  SlashFractionDowntime :: "dec option"
  MaxAccountListSize :: uint64

datatype or_event =
    RegisterDocEvent OracleRequestDoc
  | UpdateDocEvent OracleRequestDoc
  | SubmitDataEvent uint64 uint64 string string
  | ParamsEvent string or_Params
  | ModeratorEvent string
  | CompleteDataSetEvent DataSet

text \<open>\<open>hook_state\<close> is the state of the modules that listen to the oracle.\<close>

record 'h or_state =
  or_params :: "or_Params option"
  or_moderator :: "string option"
  or_docs :: "(bytes, OracleRequestDoc) kv"
  or_count :: "uint64 option"
  or_submits :: "(bytes, SubmitDataSet) kv"
  or_datasets :: "(bytes, DataSet) kv"
  or_events :: "or_event list"
  hook_state :: 'h

text \<open>
  \<open>or_account\<close> gives no account, an account without public key, or one with the verification of its signatures;
  \<open>or_hooks\<close> is nil until the hooks are set.
\<close>

record 'h or_env =
  or_bech :: "string \<Rightarrow> address option"
  or_authority :: string
  or_account :: "address \<Rightarrow> (bytes \<Rightarrow> bytes \<Rightarrow> bool) option option"
  SetString :: "string \<Rightarrow> bigfloat option"
  Text :: "bigfloat \<Rightarrow> string"
  or_hooks :: "(DataSet \<Rightarrow> 'h \<Rightarrow> 'h res) option"
  or_height :: int
  or_time :: int

section \<open>Keys\<close>

definition IDToBytes :: "uint64 \<Rightarrow> bytes" where "IDToBytes i = be_bytes 8 i"
definition KeyOracleRequestDoc :: bytes where "KeyOracleRequestDoc = [3]"
definition KeyOracleData :: bytes where "KeyOracleData = [5]"
definition KeyOracleDataSet :: bytes where "KeyOracleDataSet = [6]"

definition GetOracleRequestDocKey :: "uint64 \<Rightarrow> bytes" where
  "GetOracleRequestDocKey i = KeyOracleRequestDoc @ IDToBytes i"

definition GetSubmitDataKey :: "uint64 \<Rightarrow> uint64 \<Rightarrow> bytes" where
  "GetSubmitDataKey request_id nonce =
     (if nonce = 0 then KeyOracleData @ IDToBytes request_id
      else (KeyOracleData @ IDToBytes request_id) @ IDToBytes nonce)"

definition GetSubmitDataKeyByProvider :: "uint64 \<Rightarrow> uint64 \<Rightarrow> string \<Rightarrow> bytes" where
  "GetSubmitDataKeyByProvider request_id nonce provider = GetSubmitDataKey request_id nonce @ StringToBytes provider"

definition GetDataSetKey :: "uint64 \<Rightarrow> uint64 \<Rightarrow> bytes" where
  "GetDataSetKey request_id nonce = KeyOracleDataSet @ IDToBytes request_id"

definition GetOracleDataKey :: "uint64 \<Rightarrow> bytes" where
  "GetOracleDataKey i = KeyOracleData @ be_bytes 8 i"

definition ParseOracleDataKey :: "bytes \<Rightarrow> uint64 res" where
  "ParseOracleDataKey key =
     (if length key \<noteq> 9 then Fail (ErrPlain ''invalid oracle data key length'') else Ok (un_be (drop 1 key)))"

lemma ParseOracleDataKey_key: "ParseOracleDataKey (GetOracleDataKey i) = Ok i"
  by (simp add: ParseOracleDataKey_def GetOracleDataKey_def KeyOracleData_def un_be_bytes)

section \<open>Validation\<close>

definition or_DefaultParams :: or_Params where
  "or_DefaultParams = \<lparr>EnableOracle = True, SubmitWindow = 3600, MinSubmitPerWindow = Some dec_one,
     SlashFractionDowntime = Some (dec_one div 100), MaxAccountListSize = 1000\<rparr>"

definition or_Params_Validate :: "or_Params \<Rightarrow> unit res" where
  "or_Params_Validate p =
     bind_res (require (SubmitWindow p \<noteq> 0) (ErrPlain ''submit window cannot be zero'')) (\<lambda>_.
     bind_res (dec_val (MinSubmitPerWindow p)) (\<lambda>m.
     bind_res (require (\<not> m < 0) (ErrPlain ''min submit per window cannot be negative'')) (\<lambda>_.
     bind_res (dec_val (SlashFractionDowntime p)) (\<lambda>f.
     bind_res (require (\<not> f < 0) (ErrPlain ''slash fraction downtime cannot be negative'')) (\<lambda>_.
     bind_res (require (MaxAccountListSize p \<noteq> 0) (ErrPlain ''max account list size cannot be zero'')) (\<lambda>_.
     require (\<not> 1000 < MaxAccountListSize p) (ErrPlain ''max account list size cannot exceed 1000'')))))))"

definition ValidateWithParams :: "(string \<Rightarrow> address option) \<Rightarrow> OracleRequestDoc \<Rightarrow> or_Params \<Rightarrow> unit res" where
  "ValidateWithParams bech doc params =
     bind_res (require (OracleType doc \<noteq> ORACLE_TYPE_UNSPECIFIED) (ErrPlain ''oracle type cannot be unspecified'')) (\<lambda>_.
     bind_res (require (Name doc \<noteq> '''') (ErrPlain ''name cannot be empty'')) (\<lambda>_.
     bind_res (require (length (Endpoints doc) \<noteq> 0) (ErrPlain ''endpoints cannot be empty'')) (\<lambda>_.
     bind_res (require (AggregationRule doc \<noteq> AGGREGATION_RULE_UNSPECIFIED)
       (ErrPlain ''aggregation rule cannot be unspecified'')) (\<lambda>_.
     bind_res (require (length (AccountList doc) \<noteq> 0) (ErrPlain ''account list cannot be empty'')) (\<lambda>_.
     bind_res (require (\<not> MaxAccountListSize params < of_nat (length (AccountList doc)))
       (ErrPlain ''account list size exceeds maximum allowed'')) (\<lambda>_.
     bind_res (require (list_all (\<lambda>account. bech account \<noteq> None) (AccountList doc))
       (ErrPlain ''account address is not valid bech32'')) (\<lambda>_.
     bind_res (require (Quorum doc \<noteq> 0) (ErrPlain ''quorum cannot be 0'')) (\<lambda>_.
     bind_res (require (\<not> of_nat (length (AccountList doc)) < Quorum doc)
       (ErrPlain ''quorum cannot be greater than account list length'')) (\<lambda>_.
     bind_res (require (\<not> MaxAccountListSize params < ucast (Quorum doc)) (ErrPlain ''quorum exceeds maximum allowed'')) (\<lambda>_.
     require (Status doc \<noteq> REQUEST_STATUS_UNSPECIFIED) (ErrPlain ''status cannot be unspecified'')))))))))))"

definition doc_Validate :: "(string \<Rightarrow> address option) \<Rightarrow> OracleRequestDoc \<Rightarrow> unit res" where
  "doc_Validate bech doc = ValidateWithParams bech doc or_DefaultParams"

definition validateSubmitData :: "SubmitDataSet \<Rightarrow> unit res" where
  "validateSubmitData data =
     bind_res (require (sd_RequestId data \<noteq> 0) (ErrPlain ''request id is 0'')) (\<lambda>_.
     bind_res (require (sd_Nonce data \<noteq> 0) (ErrPlain ''nonce is 0'')) (\<lambda>_.
     bind_res (require (sd_Provider data \<noteq> '''') (ErrPlain ''provider is empty'')) (\<lambda>_.
     require (sd_RawData data \<noteq> '''') (ErrPlain ''raw data is empty''))))"

section \<open>The keeper\<close>

definition or_SetParams :: "or_Params \<Rightarrow> 'h or_state \<Rightarrow> 'h or_state" where
  "or_SetParams p s = s\<lparr>or_params := Some (p\<lparr>MinSubmitPerWindow := marshal_dec (MinSubmitPerWindow p),
     SlashFractionDowntime := marshal_dec (SlashFractionDowntime p)\<rparr>)\<rparr>"

definition or_GetParams :: "'h or_state \<Rightarrow> or_Params" where
  "or_GetParams s = (case or_params s of None \<Rightarrow> or_DefaultParams | Some p \<Rightarrow> p)"

definition or_SetModeratorAddress :: "string \<Rightarrow> 'h or_state \<Rightarrow> 'h or_state" where
  "or_SetModeratorAddress address s = s\<lparr>or_moderator := Some address\<rparr>"

definition or_GetModeratorAddress :: "'h or_state \<Rightarrow> string" where
  "or_GetModeratorAddress s = (case or_moderator s of None \<Rightarrow> '''' | Some a \<Rightarrow> a)"

definition SetOracleRequestDocCount :: "uint64 \<Rightarrow> 'h or_state \<Rightarrow> 'h or_state" where
  "SetOracleRequestDocCount n s = s\<lparr>or_count := Some n\<rparr>"

definition GetOracleRequestDocCount :: "'h or_state \<Rightarrow> uint64" where
  "GetOracleRequestDocCount s = (case or_count s of None \<Rightarrow> 0 | Some n \<Rightarrow> n)"

definition SetOracleRequestDoc :: "OracleRequestDoc \<Rightarrow> 'h or_state \<Rightarrow> 'h or_state" where
  "SetOracleRequestDoc doc s = s\<lparr>or_docs := kv_set (GetOracleRequestDocKey (RequestId doc)) doc (or_docs s)\<rparr>"

definition GetOracleRequestDoc :: "'h or_state \<Rightarrow> uint64 \<Rightarrow> OracleRequestDoc res" where
  "GetOracleRequestDoc s i = (case kv_get (or_docs s) (GetOracleRequestDocKey i) of
     None \<Rightarrow> Fail (ErrPlain ''not exist RequestDoc'') | Some doc \<Rightarrow> Ok doc)"

definition GetOracleRequestDocs :: "'h or_state \<Rightarrow> OracleRequestDoc list" where
  "GetOracleRequestDocs s = map snd (kv_prefix KeyOracleRequestDoc (or_docs s))"

definition GetOracleRequestDocsByStatus :: "'h or_state \<Rightarrow> enum \<Rightarrow> OracleRequestDoc list" where
  "GetOracleRequestDocsByStatus s status = filter (\<lambda>doc. Status doc = status) (GetOracleRequestDocs s)"

definition update_fields :: "OracleRequestDoc \<Rightarrow> OracleRequestDoc \<Rightarrow> OracleRequestDoc" where
  "update_fields doc existingDoc =
     (let d = existingDoc;
          d = (if Period doc \<noteq> 0 then d\<lparr>Period := Period doc\<rparr> else d);
          d = (if Status doc \<noteq> REQUEST_STATUS_UNSPECIFIED then d\<lparr>Status := Status doc\<rparr> else d);
          d = (if length (AccountList doc) \<noteq> 0 then d\<lparr>AccountList := AccountList doc\<rparr> else d);
          d = (if Quorum doc \<noteq> 0 then d\<lparr>Quorum := Quorum doc\<rparr> else d);
          d = (if length (Endpoints doc) \<noteq> 0 then d\<lparr>Endpoints := Endpoints doc\<rparr> else d);
          d = (if AggregationRule doc \<noteq> AGGREGATION_RULE_UNSPECIFIED then d\<lparr>AggregationRule := AggregationRule doc\<rparr> else d) in
      d)"

definition updateOracleRequestDoc :: "'h or_env \<Rightarrow> OracleRequestDoc \<Rightarrow> 'h or_state \<Rightarrow> 'h or_state res" where
  "updateOracleRequestDoc E doc s =
     bind_res (GetOracleRequestDoc s (RequestId doc)) (\<lambda>existingDoc.
     bind_res (require (\<not> (Status existingDoc = REQUEST_STATUS_DISABLED \<and> Status doc = REQUEST_STATUS_UNSPECIFIED))
       (ErrPlain ''cannot modify disabled Request Doc except status'')) (\<lambda>_.
     let existingDoc = update_fields doc existingDoc in
     bind_res (ValidateWithParams (or_bech E) existingDoc (or_GetParams s)) (\<lambda>_.
     Ok (SetOracleRequestDoc existingDoc s))))"

definition SetSubmitData :: "SubmitDataSet \<Rightarrow> 'h or_state \<Rightarrow> 'h or_state" where
  "SetSubmitData data s = s\<lparr>or_submits :=
     kv_set (GetSubmitDataKeyByProvider (sd_RequestId data) (sd_Nonce data) (sd_Provider data)) data (or_submits s)\<rparr>"

definition GetSubmitDatas :: "'h or_state \<Rightarrow> uint64 \<Rightarrow> uint64 \<Rightarrow> SubmitDataSet list" where
  "GetSubmitDatas s requestId nonce = map snd (kv_prefix (GetSubmitDataKey requestId nonce) (or_submits s))"

definition GetSubmitData :: "'h or_state \<Rightarrow> uint64 \<Rightarrow> uint64 \<Rightarrow> string \<Rightarrow> SubmitDataSet list res" where
  "GetSubmitData s requestId nonce provider =
     (if provider = '''' then Ok (GetSubmitDatas s requestId nonce)
      else case kv_get (or_submits s) (GetSubmitDataKeyByProvider requestId nonce provider) of
        None \<Rightarrow> Fail (ErrPlain ''not exist SubmitData'') | Some data \<Rightarrow> Ok [data])"

definition SetDataSet :: "DataSet \<Rightarrow> 'h or_state \<Rightarrow> 'h or_state" where
  "SetDataSet dataSet s = s\<lparr>or_datasets := kv_set (GetDataSetKey (ds_RequestId dataSet) (ds_Nonce dataSet)) dataSet (or_datasets s)\<rparr>"

definition GetDataSet :: "'h or_state \<Rightarrow> uint64 \<Rightarrow> uint64 \<Rightarrow> DataSet res" where
  "GetDataSet s requestId nonce = (case kv_get (or_datasets s) (GetDataSetKey requestId nonce) of
     None \<Rightarrow> Fail (ErrPlain ''not exist DataSet'') | Some d \<Rightarrow> Ok d)"

definition GetOracleData :: "'h or_state \<Rightarrow> uint64 \<Rightarrow> DataSet res" where
  "GetOracleData s requestId =
     bind_res (GetOracleRequestDoc s requestId) (\<lambda>doc. GetDataSet s (RequestId doc) (Nonce doc))"

definition checkAccountAuthorized :: "string list \<Rightarrow> string \<Rightarrow> bool" where
  "checkAccountAuthorized accountList fromAddress = list_ex (\<lambda>account. account = fromAddress) accountList"

section \<open>Aggregation\<close>

fun parse_values :: "(string \<Rightarrow> bigfloat option) \<Rightarrow> SubmitDataSet list \<Rightarrow> bigfloat list res" where
  "parse_values parse [] = Ok []"
| "parse_values parse (data # datas) = (case parse (sd_RawData data) of
     None \<Rightarrow> Fail (ErrPlain ''invalid decimal number in raw data'')
   | Some v \<Rightarrow> bind_res (parse_values parse datas) (\<lambda>vs. Ok (v # vs)))"

text \<open>A loop that reads a value and updates an accumulator, stopping at the first text that is not a number.\<close>

definition value_loop ::
  "(string \<Rightarrow> bigfloat option) \<Rightarrow> (bigfloat \<Rightarrow> bigfloat \<Rightarrow> bigfloat res) \<Rightarrow> SubmitDataSet list \<Rightarrow> bigfloat \<Rightarrow> bigfloat res" where
  "value_loop parse f = for_each (\<lambda>data acc. case parse (sd_RawData data) of
     None \<Rightarrow> Fail (ErrPlain ''invalid decimal number in raw data'') | Some v \<Rightarrow> f v acc)"

definition calculateMax :: "'h or_env \<Rightarrow> SubmitDataSet list \<Rightarrow> string res" where
  "calculateMax E submitDatas =
     (if submitDatas = [] then Fail (ErrPlain ''no data to calculate max'')
      else bind_res (value_loop (SetString E) (\<lambda>v m. Ok (if 0 < bf_Cmp v m then v else m)) submitDatas bf_zero)
        (\<lambda>m. Ok (Text E m)))"

definition calculateMin :: "'h or_env \<Rightarrow> SubmitDataSet list \<Rightarrow> string res" where
  "calculateMin E submitDatas =
     (if submitDatas = [] then Fail (ErrPlain ''no data to calculate min'')
      else bind_res (value_loop (SetString E) (\<lambda>v m. Ok (if bf_Cmp v m < 0 then v else m)) submitDatas bf_MaxFloat64)
        (\<lambda>m. Ok (Text E m)))"

definition calculateAverage :: "'h or_env \<Rightarrow> SubmitDataSet list \<Rightarrow> string res" where
  "calculateAverage E submitDatas =
     (if submitDatas = [] then Fail (ErrPlain ''no data to average'')
      else bind_res (value_loop (SetString E) (\<lambda>v sum. bf_Add sum v) submitDatas bf_zero)
        (\<lambda>sum. Ok (Text E (bf_QuoInt sum (int (length submitDatas))))))"

text \<open>\<^verbatim>\<open>sort.Slice\<close> sorts by \<^verbatim>\<open>Cmp\<close>; values it cannot tell apart differ at most in the sign of zero.\<close>

definition calculateMedian :: "'h or_env \<Rightarrow> 'h or_state \<Rightarrow> SubmitDataSet list \<Rightarrow> string res" where
  "calculateMedian E s submitDatas =
     (if submitDatas = [] then Fail (ErrPlain ''no data to calculate median'')
      else if MaxAccountListSize (or_GetParams s) < of_nat (length submitDatas) then Fail (ErrPlain ''too many submissions'')
      else bind_res (parse_values (SetString E) submitDatas) (\<lambda>values.
        let values = sort_key bf_key values; mid = length values div 2 in
        if length values mod 2 = 0
        then bind_res (bf_Add (values ! (mid - 1)) (values ! mid)) (\<lambda>median. Ok (Text E (bf_QuoInt median 2)))
        else Ok (Text E (values ! mid))))"

definition AggregateData :: "'h or_env \<Rightarrow> 'h or_state \<Rightarrow> enum \<Rightarrow> SubmitDataSet list \<Rightarrow> string res" where
  "AggregateData E s rule submitDatas =
     (if rule = AGGREGATION_RULE_AVG then calculateAverage E submitDatas
      else if rule = AGGREGATION_RULE_MIN then calculateMin E submitDatas
      else if rule = AGGREGATION_RULE_MAX then calculateMax E submitDatas
      else if rule = AGGREGATION_RULE_MEDIAN then calculateMedian E s submitDatas
      else Fail (ErrPlain ''unsupported aggregation rule''))"

definition MultiOracleHooks_AfterOracleEnd :: "(DataSet \<Rightarrow> 'h \<Rightarrow> 'h res) list \<Rightarrow> DataSet \<Rightarrow> 'h \<Rightarrow> 'h res" where
  "MultiOracleHooks_AfterOracleEnd mh dataSet h = for_each (\<lambda>hook h. hook dataSet h) mh h"

text \<open>\<^verbatim>\<open>SetHooks\<close> on the hooks field of the keeper, called once while the application is built.\<close>

definition SetHooks :: "(DataSet \<Rightarrow> 'h \<Rightarrow> 'h res) \<Rightarrow> 'h or_env \<Rightarrow> 'h or_env res" where
  "SetHooks eh E = bind_res (must (or_hooks E = None) ''cannot set oracle hooks twice'') (\<lambda>_. Ok (E\<lparr>or_hooks := Some eh\<rparr>))"

definition or_AfterOracleEnd :: "'h or_env \<Rightarrow> DataSet \<Rightarrow> 'h or_state \<Rightarrow> 'h or_state res" where
  "or_AfterOracleEnd E dataSet s = (case or_hooks E of
     None \<Rightarrow> Panic ''nil pointer'' | Some hook \<Rightarrow> bind_res (hook dataSet (hook_state s)) (\<lambda>h. Ok (s\<lparr>hook_state := h\<rparr>)))"

definition aggregate_doc :: "'h or_env \<Rightarrow> OracleRequestDoc \<Rightarrow> 'h or_state \<Rightarrow> 'h or_state res" where
  "aggregate_doc E doc s =
     (if Status doc \<noteq> REQUEST_STATUS_ENABLED then Ok s
      else
        let nextNonce = Nonce doc + 1; submitDatas = GetSubmitDatas s (RequestId doc) nextNonce in
        if (of_nat (length submitDatas) :: uint32) < Quorum doc then Ok s
        else case AggregateData E s (AggregationRule doc) submitDatas of
          Fail _ \<Rightarrow> Ok s
        | Panic p \<Rightarrow> Panic p
        | Ok aggregatedValue \<Rightarrow>
            let dataSet = \<lparr>ds_RequestId = RequestId doc, ds_Nonce = nextNonce, ds_BlockHeight = word_of_int (or_height E),
                  ds_BlockTime = word_of_int (or_time E), ds_RawData = aggregatedValue\<rparr>;
                s = SetDataSet dataSet s in
            bind_res (if OracleType doc = ORACLE_TYPE_MIN_GAS_PRICE then or_AfterOracleEnd E dataSet s else Ok s) (\<lambda>s.
            let s = SetOracleRequestDoc (doc\<lparr>Nonce := nextNonce\<rparr>) s in
            Ok (s\<lparr>or_events := or_events s @ [CompleteDataSetEvent dataSet]\<rparr>)))"

definition ProcessOracleDataSetAggregation :: "'h or_env \<Rightarrow> 'h or_state \<Rightarrow> 'h or_state res" where
  "ProcessOracleDataSetAggregation E s = for_each (aggregate_doc E) (GetOracleRequestDocs s) s"

definition or_BeginBlocker :: "'h or_env \<Rightarrow> 'h or_state \<Rightarrow> 'h or_state res" where
  "or_BeginBlocker E s = (if \<not> EnableOracle (or_GetParams s) then Ok s else ProcessOracleDataSetAggregation E s)"

section \<open>Messages\<close>

text \<open>\<^verbatim>\<open>errorsmod.Wrap(ErrInvalidRequest, err.Error())\<close>; of the text of an error its own message is kept.\<close>

definition err_Error :: "err \<Rightarrow> string" where
  "err_Error e = (case e of ErrPlain m \<Rightarrow> m | ErrUnauthorized m \<Rightarrow> m | ErrInvalidAddress m \<Rightarrow> m | ErrInvalidRequest m \<Rightarrow> m | _ \<Rightarrow> '''')"

definition wrap_invalid :: "'a res \<Rightarrow> 'a res" where
  "wrap_invalid r = (case r of Ok x \<Rightarrow> Ok x | Fail e \<Rightarrow> Fail (ErrInvalidRequest (err_Error e)) | Panic p \<Rightarrow> Panic p)"

lemma wrap_invalid_Ok_iff [res_simps]: "wrap_invalid r = Ok x \<longleftrightarrow> r = Ok x"
  by (simp add: wrap_invalid_def split: res.splits)

lemma wrap_invalid_Ok [simp]: "wrap_invalid (Ok x) = Ok x"
  by (simp add: wrap_invalid_def)

definition or_check_moderator :: "string \<Rightarrow> 'h or_state \<Rightarrow> unit res" where
  "or_check_moderator sender s =
     (let moderatorAddress = or_GetModeratorAddress s in
      bind_res (require (moderatorAddress \<noteq> '''') (ErrInvalidRequest ''moderator address is not set'')) (\<lambda>_.
      require (moderatorAddress = sender) (ErrUnauthorized ''moderator address is not authorized'')))"

definition RegisterOracleRequestDoc ::
  "'h or_env \<Rightarrow> string \<Rightarrow> OracleRequestDoc \<Rightarrow> 'h or_state \<Rightarrow> (uint64 \<times> 'h or_state) res" where
  "RegisterOracleRequestDoc E moderator doc s =
     bind_res (or_check_moderator moderator s) (\<lambda>_.
     let n = GetOracleRequestDocCount s;
         oracleRequestDoc = \<lparr>RequestId = n + 1, OracleType = OracleType doc, Name = Name doc, Description = Description doc,
           Period = Period doc, AccountList = AccountList doc, Quorum = Quorum doc, Endpoints = Endpoints doc,
           AggregationRule = AggregationRule doc, Status = Status doc, Nonce = 0\<rparr> in
     bind_res (wrap_invalid (ValidateWithParams (or_bech E) oracleRequestDoc (or_GetParams s))) (\<lambda>_.
     let s = SetOracleRequestDocCount (n + 1) (SetOracleRequestDoc oracleRequestDoc s) in
     Ok (RequestId oracleRequestDoc, s\<lparr>or_events := or_events s @ [RegisterDocEvent oracleRequestDoc]\<rparr>)))"

definition UpdateOracleRequestDoc ::
  "'h or_env \<Rightarrow> string \<Rightarrow> OracleRequestDoc \<Rightarrow> 'h or_state \<Rightarrow> (uint64 \<times> 'h or_state) res" where
  "UpdateOracleRequestDoc E moderator doc s =
     bind_res (or_check_moderator moderator s) (\<lambda>_.
     bind_res (wrap_invalid (updateOracleRequestDoc E doc s)) (\<lambda>s.
     Ok (RequestId doc, s\<lparr>or_events := or_events s @ [UpdateDocEvent doc]\<rparr>)))"

definition SubmitDataSet_Bytes :: "(string \<Rightarrow> address option) \<Rightarrow> SubmitDataSet \<Rightarrow> bytes res" where
  "SubmitDataSet_Bytes bech sds =
     (case bech (sd_Provider sds) of
        None \<Rightarrow> Fail (ErrPlain ''invalid provider bech32'')
      | Some acc \<Rightarrow> Ok (StringToBytes ''guru.oracle.SubmitDataSet'' @ IDToBytes (sd_RequestId sds) @ IDToBytes (sd_Nonce sds) @
          be_bytes 4 (of_nat (length (sd_RawData sds)) :: uint32) @ StringToBytes (sd_RawData sds) @ acc))"

text \<open>The check normalises the recovery byte of the signature in place, so that the data set is returned with it.\<close>

definition verifySubmitData :: "'h or_env \<Rightarrow> SubmitDataSet \<Rightarrow> SubmitDataSet res" where
  "verifySubmitData E data =
     bind_res (wrap_invalid (SubmitDataSet_Bytes (or_bech E) data)) (\<lambda>signBytes.
     let sig = sd_Signature data in
     bind_res (require (length sig = 65) (ErrUnauthorized ''invalid signature length'')) (\<lambda>_.
     let sig = (if 27 \<le> sig ! 64 then sig[64 := sig ! 64 - 27] else sig) in
     bind_res (require (\<not> (sig ! 64 \<noteq> 0 \<and> sig ! 64 \<noteq> 1)) (ErrUnauthorized ''invalid signature recovery id'')) (\<lambda>_.
     (case or_bech E (sd_Provider data) of
        None \<Rightarrow> Fail (ErrInvalidAddress ''invalid provider address'')
      | Some providerAcc \<Rightarrow>
          (case or_account E providerAcc of
             None \<Rightarrow> Fail (ErrUnauthorized ''account not found'')
           | Some None \<Rightarrow> Fail (ErrUnauthorized ''public key not found'')
           | Some (Some verify) \<Rightarrow>
               bind_res (require (verify signBytes sig) (ErrUnauthorized ''invalid dataset signature'')) (\<lambda>_.
               Ok (data\<lparr>sd_Signature := sig\<rparr>)))))))"

definition SubmitOracleData :: "'h or_env \<Rightarrow> string \<Rightarrow> SubmitDataSet option \<Rightarrow> 'h or_state \<Rightarrow> 'h or_state res" where
  "SubmitOracleData E fromAddress dataSet s =
     (case dataSet of None \<Rightarrow> Fail (ErrInvalidRequest ''DataSet must be provided'')
      | Some data \<Rightarrow>
          bind_res (wrap_invalid (validateSubmitData data)) (\<lambda>_.
          bind_res (case GetOracleRequestDoc s (sd_RequestId data) of
              Fail _ \<Rightarrow> Fail (ErrInvalidRequest ''request document not found'') | r \<Rightarrow> r) (\<lambda>requestDoc.
          bind_res (require (Status requestDoc = REQUEST_STATUS_ENABLED) (ErrInvalidRequest ''request document is not enabled'')) (\<lambda>_.
          bind_res (require (checkAccountAuthorized (AccountList requestDoc) fromAddress)
            (ErrInvalidRequest ''account is not authorized'')) (\<lambda>_.
          bind_res (require (sd_Nonce data = Nonce requestDoc + 1) (ErrInvalidRequest ''nonce is not correct'')) (\<lambda>_.
          bind_res (wrap_invalid (verifySubmitData E data)) (\<lambda>data.
          let s = SetSubmitData data s in
          Ok (s\<lparr>or_events := or_events s @
            [SubmitDataEvent (sd_RequestId data) (sd_Nonce data) (sd_RawData data) fromAddress]\<rparr>))))))))"

definition or_UpdateParams :: "'h or_env \<Rightarrow> string \<Rightarrow> or_Params \<Rightarrow> 'h or_state \<Rightarrow> 'h or_state res" where
  "or_UpdateParams E authority p s =
     bind_res (require (or_authority E = authority) (ErrUnauthorized ''invalid authority'')) (\<lambda>_.
     bind_res (wrap_invalid (or_Params_Validate p)) (\<lambda>_.
     let s = or_SetParams p s in
     Ok (s\<lparr>or_events := or_events s @ [ParamsEvent authority p]\<rparr>)))"

definition UpdateModeratorAddress :: "string \<Rightarrow> string \<Rightarrow> 'h or_state \<Rightarrow> 'h or_state res" where
  "UpdateModeratorAddress moderator newModerator s =
     (let current = or_GetModeratorAddress s in
      bind_res (require (current = moderator) (ErrInvalidRequest ''from address is different from current moderator address'')) (\<lambda>_.
      bind_res (require (current \<noteq> '''') (ErrInvalidRequest ''moderator address is not set'')) (\<lambda>_.
      bind_res (require (current \<noteq> newModerator) (ErrInvalidRequest ''new moderator address is same as current'')) (\<lambda>_.
      let s = or_SetModeratorAddress newModerator s in
      Ok (s\<lparr>or_events := or_events s @ [ModeratorEvent newModerator]\<rparr>)))))"

section \<open>Stateless checks of the messages\<close>

definition MsgOracleRequestDoc_ValidateBasic :: "(string \<Rightarrow> address option) \<Rightarrow> string \<Rightarrow> OracleRequestDoc \<Rightarrow> unit res" where
  "MsgOracleRequestDoc_ValidateBasic bech moderator doc =
     bind_res (require (bech moderator \<noteq> None) (ErrInvalidAddress moderator)) (\<lambda>_.
     wrap_invalid (ValidateWithParams bech doc or_DefaultParams))"

text \<open>A nil signature is the empty one.\<close>

definition MsgSubmitOracleData_ValidateBasic :: "'h or_env \<Rightarrow> SubmitDataSet option \<Rightarrow> unit res" where
  "MsgSubmitOracleData_ValidateBasic E dataSet =
     (case dataSet of None \<Rightarrow> Fail (ErrInvalidRequest ''DataSet must be provided'')
      | Some data \<Rightarrow>
          bind_res (require (or_bech E (sd_Provider data) \<noteq> None) (ErrInvalidAddress (sd_Provider data))) (\<lambda>_.
          bind_res (require (sd_RequestId data \<noteq> 0) (ErrInvalidRequest ''request ID cannot be empty'')) (\<lambda>_.
          bind_res (require (sd_RawData data \<noteq> '''') (ErrInvalidRequest ''raw data cannot be empty'')) (\<lambda>_.
          bind_res (require (SetString E (sd_RawData data) \<noteq> None)
            (ErrInvalidRequest ''raw data must be a valid decimal number'')) (\<lambda>_.
          require (sd_Signature data \<noteq> []) (ErrInvalidRequest ''signature cannot be empty''))))))"

definition MsgUpdateModeratorAddress_ValidateBasic :: "(string \<Rightarrow> address option) \<Rightarrow> string \<Rightarrow> string \<Rightarrow> unit res" where
  "MsgUpdateModeratorAddress_ValidateBasic bech moderator newModerator =
     bind_res (require (moderator \<noteq> '''') (ErrInvalidRequest ''moderator address cannot be empty'')) (\<lambda>_.
     bind_res (require (newModerator \<noteq> '''') (ErrInvalidRequest ''new moderator address cannot be empty'')) (\<lambda>_.
     bind_res (require (moderator \<noteq> newModerator) (ErrInvalidRequest ''moderator addresses cannot be the same'')) (\<lambda>_.
     bind_res (require (bech moderator \<noteq> None) (ErrInvalidAddress moderator)) (\<lambda>_.
     require (bech newModerator \<noteq> None) (ErrInvalidAddress newModerator)))))"

section \<open>Genesis and queries\<close>

record or_GenesisState =
  org_Params :: or_Params
  org_OracleRequestDocCount :: uint64
  org_OracleRequestDocs :: "OracleRequestDoc list"
  org_ModeratorAddress :: string

definition or_Genesis_Validate :: "(string \<Rightarrow> address option) \<Rightarrow> or_GenesisState \<Rightarrow> unit res" where
  "or_Genesis_Validate bech gs =
     bind_res (or_Params_Validate (org_Params gs)) (\<lambda>_.
     bind_res (require (org_ModeratorAddress gs \<noteq> '''') (ErrPlain ''moderator address must be set in genesis'')) (\<lambda>_.
     bind_res (for_each (\<lambda>doc (_::unit). doc_Validate bech doc) (org_OracleRequestDocs gs) ()) (\<lambda>_.
     require (bech (org_ModeratorAddress gs) \<noteq> None) (ErrPlain ''invalid moderator address''))))"

definition or_InitGenesis :: "'h or_env \<Rightarrow> or_GenesisState \<Rightarrow> 'h or_state \<Rightarrow> 'h or_state res" where
  "or_InitGenesis E data s =
     (let s = or_SetParams (org_Params data) s;
          moderatorAddress = (if org_ModeratorAddress data = '''' then or_authority E else org_ModeratorAddress data) in
      bind_res (must (or_bech E moderatorAddress \<noteq> None) ''invalid moderator address'') (\<lambda>_.
      let s = or_SetModeratorAddress moderatorAddress s in
      bind_res (for_each (\<lambda>doc s. case doc_Validate (or_bech E) doc of
          Ok _ \<Rightarrow> Ok (SetOracleRequestDoc doc s)
        | Fail _ \<Rightarrow> Panic ''error validating oracle request doc'' | Panic p \<Rightarrow> Panic p) (org_OracleRequestDocs data) s) (\<lambda>s.
      bind_res (must (of_nat (length (org_OracleRequestDocs data)) = org_OracleRequestDocCount data)
        ''oracle request doc count must match actual documents'') (\<lambda>_.
      Ok (SetOracleRequestDocCount (org_OracleRequestDocCount data) s)))))"

definition or_ExportGenesis :: "'h or_state \<Rightarrow> or_GenesisState" where
  "or_ExportGenesis s = \<lparr>org_Params = or_GetParams s, org_OracleRequestDocCount = GetOracleRequestDocCount s,
     org_OracleRequestDocs = GetOracleRequestDocs s, org_ModeratorAddress = or_GetModeratorAddress s\<rparr>"

definition or_DefaultGenesisState :: or_GenesisState where
  "or_DefaultGenesisState = \<lparr>org_Params = or_DefaultParams, org_OracleRequestDocCount = 0, org_OracleRequestDocs = [],
     org_ModeratorAddress = ''''\<rparr>"

definition Query_OracleData :: "'h or_state \<Rightarrow> uint64 \<Rightarrow> DataSet res" where
  "Query_OracleData s requestId =
     bind_res (GetOracleRequestDoc s requestId) (\<lambda>doc. GetDataSet s requestId (Nonce doc))"

definition Query_OracleRequestDocs :: "'h or_state \<Rightarrow> enum \<Rightarrow> OracleRequestDoc list" where
  "Query_OracleRequestDocs s status =
     (if status \<noteq> REQUEST_STATUS_UNSPECIFIED then GetOracleRequestDocsByStatus s status else GetOracleRequestDocs s)"

definition Query_OracleSubmitData :: "'h or_state \<Rightarrow> uint64 \<Rightarrow> uint64 \<Rightarrow> string \<Rightarrow> SubmitDataSet list res" where
  "Query_OracleSubmitData s requestId nonce provider = GetSubmitData s requestId nonce provider"

end
