(* ===== verification/OracleProofs.thy ===== *)
theory OracleProofs
  imports Oracle
begin

text \<open>
  Lemmas on the oracle: its keys, the aggregation rules on the parsed values, what the aggregation of one
  document and of a whole block changes, and the invariant of the stored state with its preservation.
\<close>

section \<open>Keys\<close>

lemma IDToBytes_inj [simp]: "IDToBytes i = IDToBytes j \<longleftrightarrow> i = j"
  by (simp add: IDToBytes_def be_bytes_inj)

lemma length_IDToBytes [simp]: "length (IDToBytes i) = 8"
  by (simp add: IDToBytes_def)

lemma GetOracleRequestDocKey_inj [simp]: "GetOracleRequestDocKey i = GetOracleRequestDocKey j \<longleftrightarrow> i = j"
  by (simp add: GetOracleRequestDocKey_def)

lemma has_prefix_doc [simp]: "has_prefix KeyOracleRequestDoc (GetOracleRequestDocKey i)"
  by (simp add: GetOracleRequestDocKey_def)

lemma GetDataSetKey_inj [simp]: "GetDataSetKey i n = GetDataSetKey j m \<longleftrightarrow> i = j"
  by (simp add: GetDataSetKey_def)

lemma submit_key_prefix:
  assumes "n \<noteq> 0" and "m \<noteq> 0"
  shows "has_prefix (GetSubmitDataKey i n) (GetSubmitDataKeyByProvider j m p) \<longleftrightarrow> i = j \<and> n = m"
  using assms by (auto simp: has_prefix_def GetSubmitDataKeyByProvider_def GetSubmitDataKey_def KeyOracleData_def)

section \<open>Aggregation rules\<close>

lemma parse_values_Ok_iff:
  "parse_values parse datas = Ok vs \<longleftrightarrow> map (\<lambda>d. parse (sd_RawData d)) datas = map Some vs"
  by (induction datas arbitrary: vs) (auto simp: res_simps split: option.splits)

lemma value_loop_values:
  "map (\<lambda>d. parse (sd_RawData d)) datas = map Some vs \<Longrightarrow> value_loop parse f datas acc = for_each f vs acc"
  unfolding value_loop_def
  by (induction datas arbitrary: vs acc) (auto simp: Cons_eq_map_conv intro!: bind_res_cong [OF refl])

lemma add_loop_inf:
  "PosInf \<in> set vs \<Longrightarrow> acc = NegInf \<Longrightarrow> \<exists>e. for_each (\<lambda>v sum. bf_Add sum v) vs acc = Panic e"
  "NegInf \<in> set vs \<Longrightarrow> acc = PosInf \<Longrightarrow> \<exists>e. for_each (\<lambda>v sum. bf_Add sum v) vs acc = Panic e"
proof (induction vs)
  case (Cons v vs)
  { case 1 then show ?case using Cons.IH(1) by (cases v) auto }
  { case 2 then show ?case using Cons.IH(2) by (cases v) auto }
qed simp_all

lemma add_loop_nan:
  "PosInf \<in> set vs \<Longrightarrow> NegInf \<in> set vs \<Longrightarrow> \<exists>e. for_each (\<lambda>v sum. bf_Add sum v) vs acc = Panic e"
proof (induction vs arbitrary: acc)
  case (Cons v vs)
  show ?case
  proof (cases v)
    case PosInf
    with Cons.prems have "NegInf \<in> set vs" by auto
    with add_loop_inf(2) [OF this] PosInf show ?thesis by (cases acc) auto
  next
    case NegInf
    with Cons.prems have "PosInf \<in> set vs" by auto
    with add_loop_inf(1) [OF this] NegInf show ?thesis by (cases acc) auto
  next
    case (Finite q)
    with Cons show ?thesis by (cases acc) auto
  next
    case NegZero
    with Cons show ?thesis by (cases acc) auto
  qed
qed simp

lemma max_loop:
  "\<exists>m. for_each (\<lambda>v m. Ok (if 0 < bf_Cmp v m then v else m)) vs acc = Ok m \<and> m \<in> insert acc (set vs) \<and>
     (\<forall>x \<in> insert acc (set vs). bf_key x \<le> bf_key m)"
proof (induction vs arbitrary: acc)
  case (Cons v vs)
  show ?case using Cons.IH [of "if 0 < bf_Cmp v acc then v else acc"] by (fastforce split: if_splits)
qed simp

lemma min_loop:
  "\<exists>m. for_each (\<lambda>v m. Ok (if bf_Cmp v m < 0 then v else m)) vs acc = Ok m \<and> m \<in> insert acc (set vs) \<and>
     (\<forall>x \<in> insert acc (set vs). bf_key m \<le> bf_key x)"
proof (induction vs arbitrary: acc)
  case (Cons v vs)
  show ?case using Cons.IH [of "if bf_Cmp v acc < 0 then v else acc"] by (fastforce split: if_splits)
qed simp

text \<open>The middle element of a sorted list lies in every interval that holds more than half of the elements.\<close>

lemma sorted_middle_between:
  fixes ys :: "'a::linorder list"
  assumes s: "sorted ys" and odd: "odd (length ys)"
    and maj: "length ys < 2 * length (filter (\<lambda>x. lo \<le> x \<and> x \<le> hi) ys)"
  shows "lo \<le> ys ! (length ys div 2) \<and> ys ! (length ys div 2) \<le> hi"
proof -
  let ?mid = "length ys div 2" and ?in = "\<lambda>x. lo \<le> x \<and> x \<le> hi"
  have n: "length ys = 2 * ?mid + 1" using odd by presburger
  have len: "length (filter ?in ys) = length (filter ?in (take k ys)) + length (filter ?in (drop k ys))" for k
    by (metis append_take_drop_id filter_append length_append)
  have lo: "lo \<le> ys ! ?mid"
  proof (rule ccontr)
    assume "\<not> lo \<le> ys ! ?mid"
    then have below: "x < lo" if x: "x \<in> set (take (Suc ?mid) ys)" for x
    proof -
      obtain j where "j < Suc ?mid" "x = ys ! j" using x by (auto simp: in_set_conv_nth)
      then have "x \<le> ys ! ?mid" using sorted_nth_mono [OF s, of j ?mid] n by simp
      with \<open>\<not> lo \<le> ys ! ?mid\<close> show ?thesis by simp
    qed
    then have "filter ?in (take (Suc ?mid) ys) = []" unfolding filter_empty_conv by (meson not_le)
    moreover have "length (filter ?in (drop (Suc ?mid) ys)) \<le> ?mid"
      using n length_filter_le [of ?in "drop (Suc ?mid) ys"] by simp
    ultimately show False using len [of "Suc ?mid"] maj n by simp
  qed
  moreover have "ys ! ?mid \<le> hi"
  proof (rule ccontr)
    assume "\<not> ys ! ?mid \<le> hi"
    then have "hi < x" if x: "x \<in> set (drop ?mid ys)" for x
    proof -
      obtain j where "?mid + j < length ys" "x = ys ! (?mid + j)" using x by (auto simp: in_set_conv_nth less_diff_conv ac_simps)
      then have "ys ! ?mid \<le> x" using sorted_nth_mono [OF s, of ?mid "?mid + j"] by simp
      with \<open>\<not> ys ! ?mid \<le> hi\<close> show ?thesis by simp
    qed
    then have "filter ?in (drop ?mid ys) = []" unfolding filter_empty_conv by (meson not_le)
    moreover have "length (filter ?in (take ?mid ys)) \<le> ?mid"
      using n length_filter_le [of ?in "take ?mid ys"] by simp
    ultimately show False using len [of ?mid] maj n by simp
  qed
  ultimately show ?thesis by blast
qed

lemma median_between:
  assumes "odd (length vs)" and "length vs < 2 * length (filter (\<lambda>x. lo \<le> bf_key x \<and> bf_key x \<le> hi) vs)"
  defines "v \<equiv> sort_key bf_key vs ! (length vs div 2)"
  shows "v \<in> set vs" and "lo \<le> bf_key v" and "bf_key v \<le> hi"
proof -
  let ?ys = "map bf_key (sort_key bf_key vs)"
  have n: "length vs div 2 < length vs" using assms(1) by (cases vs) auto
  show "v \<in> set vs" unfolding v_def using n nth_mem [of "length vs div 2" "sort_key bf_key vs"] by simp
  let ?P = "\<lambda>x. lo \<le> bf_key x \<and> bf_key x \<le> hi"
  have "mset (filter ?P (sort_key bf_key vs)) = mset (filter ?P vs)" by simp
  then have "length (filter ?P (sort_key bf_key vs)) = length (filter ?P vs)" by (rule mset_eq_length)
  then have "length (filter (\<lambda>x. lo \<le> x \<and> x \<le> hi) ?ys) = length (filter ?P vs)" by (simp add: filter_map o_def)
  then have "lo \<le> ?ys ! (length ?ys div 2) \<and> ?ys ! (length ?ys div 2) \<le> hi"
    using assms(1,2) by (intro sorted_middle_between) auto
  then show "lo \<le> bf_key v" "bf_key v \<le> hi" using n by (simp_all add: v_def)
qed

section \<open>The aggregation of a block\<close>

text \<open>A document is advanced when it is enabled, has the quorum for its next nonce, and the values aggregate.\<close>

definition advances :: "'h or_env \<Rightarrow> 'h or_state \<Rightarrow> OracleRequestDoc \<Rightarrow> string \<Rightarrow> bool" where
  "advances E s d v \<longleftrightarrow> Status d = REQUEST_STATUS_ENABLED \<and>
     \<not> (of_nat (length (GetSubmitDatas s (RequestId d) (Nonce d + 1))) :: uint32) < Quorum d \<and>
     AggregateData E s (AggregationRule d) (GetSubmitDatas s (RequestId d) (Nonce d + 1)) = Ok v"

definition dataset_of :: "'h or_env \<Rightarrow> OracleRequestDoc \<Rightarrow> string \<Rightarrow> DataSet" where
  "dataset_of E d v = \<lparr>ds_RequestId = RequestId d, ds_Nonce = Nonce d + 1, ds_BlockHeight = word_of_int (or_height E),
     ds_BlockTime = word_of_int (or_time E), ds_RawData = v\<rparr>"

text \<open>What the aggregation leaves alone.\<close>

definition or_same :: "'h or_state \<Rightarrow> 'h or_state \<Rightarrow> bool" where
  "or_same s s' \<longleftrightarrow> or_params s' = or_params s \<and> or_submits s' = or_submits s \<and> or_moderator s' = or_moderator s \<and>
     or_count s' = or_count s"

lemma or_same_trans: "or_same s t \<Longrightarrow> or_same t u \<Longrightarrow> or_same s u"
  by (simp add: or_same_def)

lemma GetSubmitDatas_same: "or_same s s' \<Longrightarrow> GetSubmitDatas s' = GetSubmitDatas s"
  by (simp add: or_same_def GetSubmitDatas_def fun_eq_iff)

lemma AggregateData_same: "or_same s s' \<Longrightarrow> AggregateData E s' = AggregateData E s"
  by (simp add: or_same_def AggregateData_def calculateMedian_def or_GetParams_def fun_eq_iff)

lemma advances_same: "or_same s s' \<Longrightarrow> advances E s' d v = advances E s d v"
  by (simp add: advances_def GetSubmitDatas_same AggregateData_same)

lemma or_AfterOracleEnd_frame:
  "or_AfterOracleEnd E ds s = Ok s' \<Longrightarrow> \<exists>h. s' = s\<lparr>hook_state := h\<rparr>"
  by (auto simp: or_AfterOracleEnd_def res_simps split: option.splits)

lemma aggregate_doc_idle: "\<nexists>v. advances E s d v \<Longrightarrow> aggregate_doc E d s = Ok s' \<Longrightarrow> s' = s"
  by (auto simp: aggregate_doc_def advances_def Let_def split: if_splits res.splits)

lemma aggregate_doc_advance:
  assumes "advances E s d v" and "aggregate_doc E d s = Ok s'"
  shows "or_same s s'" and "or_docs s' = kv_set (GetOracleRequestDocKey (RequestId d)) (d\<lparr>Nonce := Nonce d + 1\<rparr>) (or_docs s)"
    and "or_datasets s' = kv_set (GetDataSetKey (RequestId d) (Nonce d + 1)) (dataset_of E d v) (or_datasets s)"
proof -
  obtain s1 where s1: "(if OracleType d = ORACLE_TYPE_MIN_GAS_PRICE then or_AfterOracleEnd E (dataset_of E d v)
      (SetDataSet (dataset_of E d v) s) else Ok (SetDataSet (dataset_of E d v) s)) = Ok s1"
    and s': "s' = (SetOracleRequestDoc (d\<lparr>Nonce := Nonce d + 1\<rparr>) s1)\<lparr>or_events := or_events s1 @ [CompleteDataSetEvent (dataset_of E d v)]\<rparr>"
    using assms by (auto simp: aggregate_doc_def advances_def dataset_of_def [symmetric] Let_def res_simps SetOracleRequestDoc_def)
  then obtain h where "s1 = (SetDataSet (dataset_of E d v) s)\<lparr>hook_state := h\<rparr>"
    using or_AfterOracleEnd_frame [of E "dataset_of E d v" "SetDataSet (dataset_of E d v) s" s1]
    by (auto split: if_splits) (metis or_state.surjective or_state.update_convs(8))
  then show "or_same s s'" "or_docs s' = kv_set (GetOracleRequestDocKey (RequestId d)) (d\<lparr>Nonce := Nonce d + 1\<rparr>) (or_docs s)"
    "or_datasets s' = kv_set (GetDataSetKey (RequestId d) (Nonce d + 1)) (dataset_of E d v) (or_datasets s)"
    by (simp_all add: s' or_same_def SetOracleRequestDoc_def SetDataSet_def dataset_of_def)
qed

definition outcome :: "'h or_env \<Rightarrow> 'h or_state \<Rightarrow> 'h or_state \<Rightarrow> OracleRequestDoc \<Rightarrow> bool" where
  "outcome E s s' d \<longleftrightarrow>
     (if \<exists>v. advances E s d v
      then \<exists>v. advances E s d v \<and>
        kv_get (or_docs s') (GetOracleRequestDocKey (RequestId d)) = Some (d\<lparr>Nonce := Nonce d + 1\<rparr>) \<and>
        kv_get (or_datasets s') (GetDataSetKey (RequestId d) (Nonce d + 1)) = Some (dataset_of E d v)
      else kv_get (or_docs s') (GetOracleRequestDocKey (RequestId d)) = kv_get (or_docs s) (GetOracleRequestDocKey (RequestId d)) \<and>
        kv_get (or_datasets s') (GetDataSetKey (RequestId d) 0) = kv_get (or_datasets s) (GetDataSetKey (RequestId d) 0))"

lemma aggregate_docs:
  assumes "for_each (aggregate_doc E) ds s = Ok s'" and "distinct (map RequestId ds)"
  shows "or_same s s' \<and> (\<forall>d \<in> set ds. outcome E s s' d) \<and>
    (\<forall>k. k \<notin> (\<lambda>d. GetOracleRequestDocKey (RequestId d)) ` set ds \<longrightarrow> kv_get (or_docs s') k = kv_get (or_docs s) k) \<and>
    (\<forall>k. k \<notin> (\<lambda>d. GetDataSetKey (RequestId d) 0) ` set ds \<longrightarrow> kv_get (or_datasets s') k = kv_get (or_datasets s) k)"
  using assms
proof (induction ds arbitrary: s)
  case (Cons d ds)
  obtain s1 where s1: "aggregate_doc E d s = Ok s1" "for_each (aggregate_doc E) ds s1 = Ok s'"
    using Cons.prems(1) by (auto simp: res_simps)
  have key: "GetDataSetKey i n = GetDataSetKey i 0" for i n by simp
  have same1: "or_same s s1"
    and docs1: "\<And>k. k \<noteq> GetOracleRequestDocKey (RequestId d) \<Longrightarrow> kv_get (or_docs s1) k = kv_get (or_docs s) k"
    and data1: "\<And>k. k \<noteq> GetDataSetKey (RequestId d) 0 \<Longrightarrow> kv_get (or_datasets s1) k = kv_get (or_datasets s) k"
    and out1: "outcome E s s1 d"
    using aggregate_doc_idle [OF _ s1(1)] aggregate_doc_advance [OF _ s1(1)] key [of "RequestId d"]
    by (cases "\<exists>v. advances E s d v"; force simp: or_same_def outcome_def store_simps)+
  note IH = Cons.IH [OF s1(2)]
  have dist: "distinct (map RequestId ds)" "RequestId d \<notin> RequestId ` set ds" using Cons.prems(2) by auto
  have out_tl: "outcome E s s' x" if x: "x \<in> set ds" for x
  proof -
    have "RequestId x \<noteq> RequestId d" using dist(2) imageI [OF x, of RequestId] by metis
    then have "kv_get (or_docs s1) (GetOracleRequestDocKey (RequestId x)) = kv_get (or_docs s) (GetOracleRequestDocKey (RequestId x))"
      "kv_get (or_datasets s1) (GetDataSetKey (RequestId x) 0) = kv_get (or_datasets s) (GetDataSetKey (RequestId x) 0)"
      by (simp_all add: docs1 data1)
    moreover have "advances E s1 = advances E s" by (simp add: fun_eq_iff advances_same [OF same1])
    moreover have "outcome E s1 s' x" using IH dist(1) x by blast
    ultimately show ?thesis by (simp only: outcome_def)
  qed
  have "kv_get (or_docs s') (GetOracleRequestDocKey (RequestId d)) = kv_get (or_docs s1) (GetOracleRequestDocKey (RequestId d))"
    "kv_get (or_datasets s') (GetDataSetKey (RequestId d) 0) = kv_get (or_datasets s1) (GetDataSetKey (RequestId d) 0)"
    using IH dist by (auto simp: image_iff)
  with out1 have "outcome E s s' d" unfolding outcome_def key [of "RequestId d" "Nonce d + 1"] by auto
  with IH dist out_tl same1 docs1 data1 show ?case by (auto intro: or_same_trans)
qed (simp add: or_same_def)

section \<open>The invariant of the stored state\<close>

definition doc_wf :: "OracleRequestDoc \<Rightarrow> bool" where
  "doc_wf d \<longleftrightarrow> OracleType d \<noteq> ORACLE_TYPE_UNSPECIFIED \<and> AggregationRule d \<noteq> AGGREGATION_RULE_UNSPECIFIED \<and>
     Status d \<noteq> REQUEST_STATUS_UNSPECIFIED \<and> 0 < unat (Quorum d) \<and> unat (Quorum d) \<le> length (AccountList d)"

definition docs_ok :: "(bytes, OracleRequestDoc) kv \<Rightarrow> uint64 \<Rightarrow> bool" where
  "docs_ok docs n \<longleftrightarrow> kv_ok docs \<and> (\<forall>k d. kv_get docs k = Some d \<longrightarrow>
     k = GetOracleRequestDocKey (RequestId d) \<and> 0 < RequestId d \<and> RequestId d \<le> n \<and> doc_wf d)"

definition datasets_ok :: "(bytes, OracleRequestDoc) kv \<Rightarrow> (bytes, DataSet) kv \<Rightarrow> bool" where
  "datasets_ok docs ds \<longleftrightarrow> kv_ok ds \<and> (\<forall>k x. kv_get ds k = Some x \<longrightarrow> k = GetDataSetKey (ds_RequestId x) 0 \<and>
     (\<exists>d. kv_get docs (GetOracleRequestDocKey (ds_RequestId x)) = Some d \<and> Nonce d = ds_Nonce x))"

definition submit_wf :: "(string \<Rightarrow> bigfloat option) \<Rightarrow> SubmitDataSet \<Rightarrow> bool" where
  "submit_wf parse x \<longleftrightarrow> sd_Nonce x \<noteq> 0 \<and> sd_Provider x \<noteq> '''' \<and> parse (sd_RawData x) \<noteq> None \<and>
     length (sd_Signature x) = 65 \<and> (sd_Signature x ! 64 = 0 \<or> sd_Signature x ! 64 = 1)"

definition submits_ok ::
  "(string \<Rightarrow> bigfloat option) \<Rightarrow> (bytes, OracleRequestDoc) kv \<Rightarrow> (bytes, SubmitDataSet) kv \<Rightarrow> bool" where
  "submits_ok parse docs subs \<longleftrightarrow> kv_ok subs \<and> (\<forall>k x. kv_get subs k = Some x \<longrightarrow>
     k = GetSubmitDataKeyByProvider (sd_RequestId x) (sd_Nonce x) (sd_Provider x) \<and> submit_wf parse x \<and>
     kv_get docs (GetOracleRequestDocKey (sd_RequestId x)) \<noteq> None)"

definition or_ok :: "(string \<Rightarrow> bigfloat option) \<Rightarrow> 'h or_state \<Rightarrow> bool" where
  "or_ok parse s \<longleftrightarrow> docs_ok (or_docs s) (GetOracleRequestDocCount s) \<and> datasets_ok (or_docs s) (or_datasets s) \<and>
     submits_ok parse (or_docs s) (or_submits s)"

lemma ValidateWithParams_wf:
  assumes "ValidateWithParams bech d p = Ok u"
  shows "doc_wf d"
proof -
  have q: "Quorum d \<noteq> 0" "Quorum d \<le> of_nat (length (AccountList d))"
    using assms by (auto simp: ValidateWithParams_def res_simps not_less)
  have "unat (of_nat (length (AccountList d)) :: uint32) \<le> length (AccountList d)"
    by (simp add: unat_of_nat take_bit_eq_mod)
  with q have "unat (Quorum d) \<le> length (AccountList d)" by (auto simp: word_le_nat_alt)
  with q assms show ?thesis by (auto simp: ValidateWithParams_def res_simps doc_wf_def unat_gt_0)
qed

lemma docs_ok_set:
  assumes "docs_ok docs n" and "doc_wf d" and "0 < RequestId d" and "RequestId d \<le> m" and "n \<le> m"
  shows "docs_ok (kv_set (GetOracleRequestDocKey (RequestId d)) d docs) m"
  using assms by (auto simp: docs_ok_def store_simps intro: order_trans)

lemma datasets_ok_set_doc:
  assumes "datasets_ok docs ds"
    and "\<And>d0. kv_get docs (GetOracleRequestDocKey (RequestId d)) = Some d0 \<Longrightarrow> Nonce d0 = Nonce d"
  shows "datasets_ok (kv_set (GetOracleRequestDocKey (RequestId d)) d docs) ds"
  using assms by (fastforce simp: datasets_ok_def store_simps)

lemma datasets_ok_advance:
  assumes "datasets_ok docs ds" and "ds_RequestId x = RequestId d" and "ds_Nonce x = Nonce d"
  shows "datasets_ok (kv_set (GetOracleRequestDocKey (RequestId d)) d docs) (kv_set (GetDataSetKey (RequestId d) n) x ds)"
  using assms by (fastforce simp: datasets_ok_def store_simps)

lemma submits_ok_set_doc: "submits_ok parse docs subs \<Longrightarrow> submits_ok parse (kv_set k d docs) subs"
  by (auto simp: submits_ok_def store_simps)

lemma submits_ok_set:
  assumes "submits_ok parse docs subs" and "submit_wf parse x" and "kv_get docs (GetOracleRequestDocKey (sd_RequestId x)) \<noteq> None"
  shows "submits_ok parse docs (kv_set (GetSubmitDataKeyByProvider (sd_RequestId x) (sd_Nonce x) (sd_Provider x)) x subs)"
  using assms by (auto simp: submits_ok_def store_simps)

lemma aggregate_doc_ok:
  assumes "or_ok parse s" and "aggregate_doc E d s = Ok s'"
    and "doc_wf d" "0 < RequestId d" "RequestId d \<le> GetOracleRequestDocCount s"
  shows "or_ok parse s' \<and> GetOracleRequestDocCount s' = GetOracleRequestDocCount s"
proof (cases "\<exists>v. advances E s d v")
  case False
  then show ?thesis using aggregate_doc_idle [OF _ assms(2)] assms(1) by blast
next
  case True
  then obtain v where "advances E s d v" ..
  note step = aggregate_doc_advance [OF this assms(2)]
  have n: "GetOracleRequestDocCount s' = GetOracleRequestDocCount s" and "or_submits s' = or_submits s"
    using step(1) by (simp_all add: or_same_def GetOracleRequestDocCount_def)
  moreover have "doc_wf (d\<lparr>Nonce := Nonce d + 1\<rparr>)" using assms(3) by (simp add: doc_wf_def)
  moreover have "ds_RequestId (dataset_of E d v) = RequestId d" "ds_Nonce (dataset_of E d v) = Nonce d + 1"
    by (simp_all add: dataset_of_def)
  ultimately show ?thesis
    using assms(1,4,5) docs_ok_set [of "or_docs s" "GetOracleRequestDocCount s" "d\<lparr>Nonce := Nonce d + 1\<rparr>" "GetOracleRequestDocCount s"]
      datasets_ok_advance [of "or_docs s" "or_datasets s" "dataset_of E d v" "d\<lparr>Nonce := Nonce d + 1\<rparr>" "Nonce d + 1"]
    by (simp add: or_ok_def step submits_ok_set_doc)
qed

lemma stored_doc:
  assumes "docs_ok (or_docs s) n" and "d \<in> set (GetOracleRequestDocs s)"
  shows "kv_get (or_docs s) (GetOracleRequestDocKey (RequestId d)) = Some d" and "doc_wf d" and "0 < RequestId d" and "RequestId d \<le> n"
proof -
  obtain k where k: "(k, d) \<in> set (or_docs s)" using assms(2) by (auto simp: GetOracleRequestDocs_def kv_prefix_def)
  then have "kv_get (or_docs s) k = Some d" using assms(1) by (simp add: docs_ok_def kv_get_in_set)
  with assms(1) show "kv_get (or_docs s) (GetOracleRequestDocKey (RequestId d)) = Some d" "doc_wf d" "0 < RequestId d" "RequestId d \<le> n"
    by (auto simp: docs_ok_def)
qed

lemma listed_doc:
  assumes "docs_ok (or_docs s) n" and "kv_get (or_docs s) (GetOracleRequestDocKey i) = Some d"
  shows "d \<in> set (GetOracleRequestDocs s)" and "RequestId d = i"
  using assms by (force simp: docs_ok_def GetOracleRequestDocs_def kv_prefix_def kv_get_in_set)+

lemma distinct_ids:
  assumes "docs_ok (or_docs s) n"
  shows "distinct (map RequestId (GetOracleRequestDocs s))"
proof -
  let ?es = "kv_prefix KeyOracleRequestDoc (or_docs s)"
  have key: "fst e = GetOracleRequestDocKey (RequestId (snd e))" if e: "e \<in> set ?es" for e
    using e assms by (cases e rule: prod.exhaust) (auto simp: docs_ok_def kv_prefix_def kv_get_in_set)
  have "distinct (map fst ?es)" using assms by (simp add: docs_ok_def kv_ok_prefix kv_ok_distinct)
  also have "map fst ?es = map GetOracleRequestDocKey (map RequestId (GetOracleRequestDocs s))"
    using key by (simp add: GetOracleRequestDocs_def)
  finally show ?thesis by (simp only: distinct_map [of GetOracleRequestDocKey])
qed

lemma BeginBlocker_ok:
  assumes "or_ok parse s" and "or_BeginBlocker E s = Ok s'"
  shows "or_ok parse s'"
proof (cases "EnableOracle (or_GetParams s)")
  case True
  then have loop: "for_each (aggregate_doc E) (GetOracleRequestDocs s) s = Ok s'"
    using assms(2) by (simp add: or_BeginBlocker_def ProcessOracleDataSetAggregation_def)
  have docs: "docs_ok (or_docs s) (GetOracleRequestDocCount s)" using assms(1) by (simp add: or_ok_def)
  have "or_ok parse s' \<and> GetOracleRequestDocCount s' = GetOracleRequestDocCount s"
    using loop
  proof (rule for_each_inv)
    fix d t t' assume d: "d \<in> set (GetOracleRequestDocs s)" and t: "aggregate_doc E d t = Ok t'"
      "or_ok parse t \<and> GetOracleRequestDocCount t = GetOracleRequestDocCount s"
    then show "or_ok parse t' \<and> GetOracleRequestDocCount t' = GetOracleRequestDocCount s"
      using aggregate_doc_ok [OF _ t(1), of parse] stored_doc(2-4) [OF docs d] by simp
  qed (use assms(1) in simp)
  then show ?thesis ..
next
  case False
  then show ?thesis using assms by (simp add: or_BeginBlocker_def)
qed

section \<open>The messages keep the invariant\<close>

lemma Register_ok:
  assumes "or_ok parse s" and "GetOracleRequestDocCount s \<noteq> -1" and "RegisterOracleRequestDoc E m doc s = Ok (i, s')"
  shows "or_ok parse s'"
proof -
  let ?n = "GetOracleRequestDocCount s"
  define d where "d = \<lparr>RequestId = ?n + 1, OracleType = OracleType doc, Name = Name doc, Description = Description doc,
    Period = Period doc, AccountList = AccountList doc, Quorum = Quorum doc, Endpoints = Endpoints doc,
    AggregationRule = AggregationRule doc, Status = Status doc, Nonce = 0\<rparr>"
  have d: "RequestId d = ?n + 1" "doc_wf d" and s': "or_docs s' = kv_set (GetOracleRequestDocKey (?n + 1)) d (or_docs s)"
    "GetOracleRequestDocCount s' = ?n + 1" "or_datasets s' = or_datasets s" "or_submits s' = or_submits s"
    using assms(3) by (auto simp: RegisterOracleRequestDoc_def Let_def res_simps SetOracleRequestDoc_def d_def
        SetOracleRequestDocCount_def GetOracleRequestDocCount_def dest: ValidateWithParams_wf)
  have "1 + ?n \<noteq> 0" using assms(2) by (metis add_eq_0_iff)
  then have lt: "?n < ?n + 1" using unatSuc [of ?n] by (simp add: word_less_nat_alt add.commute)
  have docs: "docs_ok (or_docs s) ?n" using assms(1) by (simp add: or_ok_def)
  have none: "kv_get (or_docs s) (GetOracleRequestDocKey (?n + 1)) = None"
  proof (rule ccontr)
    assume "kv_get (or_docs s) (GetOracleRequestDocKey (?n + 1)) \<noteq> None"
    then obtain d0 where "kv_get (or_docs s) (GetOracleRequestDocKey (?n + 1)) = Some d0" by blast
    note d0 = listed_doc [OF docs this]
    show False using stored_doc(4) [OF docs d0(1)] d0(2) lt by simp
  qed
  have "0 < ?n + 1" by (rule le_less_trans [OF word_zero_le lt])
  moreover have "docs_ok (kv_set (GetOracleRequestDocKey (RequestId d)) d (or_docs s)) (?n + 1)"
    using docs d(2) calculation lt by (intro docs_ok_set [of _ ?n]) (simp_all add: d(1))
  moreover have "datasets_ok (kv_set (GetOracleRequestDocKey (RequestId d)) d (or_docs s)) (or_datasets s)"
    using assms(1) none by (intro datasets_ok_set_doc) (simp_all add: or_ok_def d(1))
  ultimately show ?thesis using assms(1) by (simp add: or_ok_def s' d(1) submits_ok_set_doc)
qed

lemma update_fields_keeps [simp]:
  "RequestId (update_fields doc d) = RequestId d" "Nonce (update_fields doc d) = Nonce d"
  by (simp_all add: update_fields_def Let_def)

lemma Update_ok:
  assumes "or_ok parse s" and "UpdateOracleRequestDoc E m doc s = Ok (i, s')"
  shows "or_ok parse s'"
proof -
  obtain d where d: "kv_get (or_docs s) (GetOracleRequestDocKey (RequestId doc)) = Some d"
      "doc_wf (update_fields doc d)"
    and s': "or_docs s' = kv_set (GetOracleRequestDocKey (RequestId d)) (update_fields doc d) (or_docs s)"
      "GetOracleRequestDocCount s' = GetOracleRequestDocCount s" "or_datasets s' = or_datasets s" "or_submits s' = or_submits s"
    using assms(2) by (auto simp: UpdateOracleRequestDoc_def updateOracleRequestDoc_def GetOracleRequestDoc_def Let_def res_simps
        SetOracleRequestDoc_def GetOracleRequestDocCount_def split: option.splits dest: ValidateWithParams_wf)
  have docs: "docs_ok (or_docs s) (GetOracleRequestDocCount s)" using assms(1) by (simp add: or_ok_def)
  note listed = listed_doc [OF docs d(1)]
  note stored = stored_doc(3,4) [OF docs listed(1)]
  show ?thesis
    using assms(1) d listed(2) stored docs_ok_set [of "or_docs s" "GetOracleRequestDocCount s" "update_fields doc d"]
      datasets_ok_set_doc [of "or_docs s" "or_datasets s" "update_fields doc d"]
    by (simp add: or_ok_def s' submits_ok_set_doc)
qed

lemma verifySubmitData_Ok:
  assumes "verifySubmitData E data = Ok data'"
  obtains sig where "data' = data\<lparr>sd_Signature := sig\<rparr>" "length sig = 65" "sig ! 64 = 0 \<or> sig ! 64 = 1"
proof -
  define sig where "sig = (if 27 \<le> sd_Signature data ! 64
    then (sd_Signature data)[64 := sd_Signature data ! 64 - 27] else sd_Signature data)"
  have "data' = data\<lparr>sd_Signature := sig\<rparr>" "length (sd_Signature data) = 65" "\<not> (sig ! 64 \<noteq> 0 \<and> sig ! 64 \<noteq> 1)"
    using assms unfolding verifySubmitData_def Let_def sig_def [symmetric] by (auto simp: res_simps split: option.splits)
  moreover from this(2) have "length sig = 65" by (simp add: sig_def)
  ultimately show ?thesis using that by blast
qed

lemma SubmitOracleData_Ok:
  assumes "SubmitOracleData E from data s = Ok s'"
  obtains x y d where "data = Some x" "verifySubmitData E x = Ok y" "sd_Nonce x \<noteq> 0" "sd_Provider x \<noteq> ''''"
    "kv_get (or_docs s) (GetOracleRequestDocKey (sd_RequestId x)) = Some d" "Status d = REQUEST_STATUS_ENABLED"
    "from \<in> set (AccountList d)" "sd_Nonce x = Nonce d + 1"
    "s' = (SetSubmitData y s)\<lparr>or_events := or_events s @ [SubmitDataEvent (sd_RequestId y) (sd_Nonce y) (sd_RawData y) from]\<rparr>"
  using assms that
  by (auto simp: SubmitOracleData_def validateSubmitData_def GetOracleRequestDoc_def checkAccountAuthorized_def list_ex_iff
      SetSubmitData_def Let_def res_simps split: option.splits)

lemma Submit_ok:
  assumes "or_ok parse s" and "MsgSubmitOracleData_ValidateBasic E data = Ok u" and "SetString E = parse"
    and "SubmitOracleData E from data s = Ok s'"
  shows "or_ok parse s'"
proof -
  from assms(4) obtain x y d where x: "data = Some x" "verifySubmitData E x = Ok y" "sd_Nonce x \<noteq> 0" "sd_Provider x \<noteq> ''''"
    "kv_get (or_docs s) (GetOracleRequestDocKey (sd_RequestId x)) = Some d"
    and s': "s' = (SetSubmitData y s)\<lparr>or_events := or_events s @ [SubmitDataEvent (sd_RequestId y) (sd_Nonce y) (sd_RawData y) from]\<rparr>"
    by (rule SubmitOracleData_Ok) blast
  from x(2) obtain sig where y: "y = x\<lparr>sd_Signature := sig\<rparr>" "length sig = 65" "sig ! 64 = 0 \<or> sig ! 64 = 1"
    by (rule verifySubmitData_Ok)
  have "parse (sd_RawData x) \<noteq> None"
    using assms(2,3) x(1) by (auto simp: MsgSubmitOracleData_ValidateBasic_def res_simps)
  with x y have "submit_wf parse y" by (simp add: submit_wf_def)
  then show ?thesis
    using assms(1) submits_ok_set [of parse "or_docs s" "or_submits s" y] x(5) y(1)
    by (simp add: or_ok_def s' SetSubmitData_def GetOracleRequestDocCount_def)
qed

lemma or_ok_same_stores:
  assumes "or_ok parse s" and "or_docs s' = or_docs s" "or_count s' = or_count s" "or_datasets s' = or_datasets s"
    "or_submits s' = or_submits s"
  shows "or_ok parse s'"
  using assms by (simp add: or_ok_def GetOracleRequestDocCount_def)

lemma UpdateParams_ok: "or_ok parse s \<Longrightarrow> or_UpdateParams E a p s = Ok s' \<Longrightarrow> or_ok parse s'"
  by (erule or_ok_same_stores) (auto simp: or_UpdateParams_def or_SetParams_def Let_def res_simps)

lemma UpdateModerator_ok: "or_ok parse s \<Longrightarrow> UpdateModeratorAddress m m' s = Ok s' \<Longrightarrow> or_ok parse s'"
  by (erule or_ok_same_stores) (auto simp: UpdateModeratorAddress_def or_SetModeratorAddress_def Let_def res_simps)

text \<open>The state before genesis, and the document ids a genesis must have for the counter to give fresh ones.\<close>

definition or_empty :: "'h \<Rightarrow> 'h or_state" where
  "or_empty h = \<lparr>or_params = None, or_moderator = None, or_docs = [], or_count = None, or_submits = [], or_datasets = [],
     or_events = [], hook_state = h\<rparr>"

definition genesis_ids :: "or_GenesisState \<Rightarrow> bool" where
  "genesis_ids g \<longleftrightarrow> list_all (\<lambda>d. 0 < RequestId d \<and> RequestId d \<le> org_OracleRequestDocCount g) (org_OracleRequestDocs g)"

lemma InitGenesis_ok:
  assumes "or_InitGenesis E g (or_empty h) = Ok s" and "genesis_ids g"
  shows "or_ok parse s"
proof -
  let ?put = "\<lambda>doc s. case doc_Validate (or_bech E) doc of
    Ok _ \<Rightarrow> Ok (SetOracleRequestDoc doc s) | Fail _ \<Rightarrow> Panic ''error validating oracle request doc'' | Panic p \<Rightarrow> Panic p"
  let ?P = "\<lambda>t. docs_ok (or_docs t) (org_OracleRequestDocCount g) \<and> or_datasets t = [] \<and> or_submits t = []"
  obtain t0 t where t: "for_each ?put (org_OracleRequestDocs g) t0 = Ok t" "s = SetOracleRequestDocCount (org_OracleRequestDocCount g) t"
    "?P t0"
    using assms(1) by (auto simp: or_InitGenesis_def Let_def res_simps or_SetParams_def or_SetModeratorAddress_def or_empty_def docs_ok_def)
  have "?P t" using t(1,3)
  proof (rule for_each_inv)
    fix d a b assume "d \<in> set (org_OracleRequestDocs g)" "?P a" "?put d a = Ok b"
    then show "?P b" using assms(2)
      by (auto simp: genesis_ids_def list_all_iff doc_Validate_def SetOracleRequestDoc_def split: res.splits
          intro!: docs_ok_set dest: ValidateWithParams_wf)
  qed
  then show ?thesis
    by (auto simp: or_ok_def t(2) SetOracleRequestDocCount_def GetOracleRequestDocCount_def datasets_ok_def submits_ok_def)
qed

section \<open>Documents with a quorum\<close>

lemma aggregate_doc_same: "aggregate_doc E d s = Ok s' \<Longrightarrow> or_same s s'"
  using aggregate_doc_idle aggregate_doc_advance(1) by (metis or_same_def)

lemma aggregate_docs_visit:
  assumes "for_each (aggregate_doc E) ds s = Ok s'" and "d \<in> set ds"
  shows "\<exists>t t'. or_same s t \<and> aggregate_doc E d t = Ok t'"
  using assms
proof (induction ds arbitrary: s)
  case (Cons e ds)
  obtain s1 where s1: "aggregate_doc E e s = Ok s1" "for_each (aggregate_doc E) ds s1 = Ok s'"
    using Cons.prems(1) by (auto simp: res_simps)
  show ?case
  proof (cases "d = e")
    case True
    with s1(1) show ?thesis by (auto simp: or_same_def)
  next
    case False
    then obtain t t' where "or_same s1 t" "aggregate_doc E d t = Ok t'" using Cons.IH [OF s1(2)] Cons.prems(2) by auto
    with aggregate_doc_same [OF s1(1)] show ?thesis using or_same_trans by blast
  qed
qed simp

text \<open>Whatever the rule returns for a document with a quorum, it does not panic in a block that completes.\<close>

lemma BeginBlocker_no_panic:
  assumes "or_BeginBlocker E s = Ok s'" and "EnableOracle (or_GetParams s)" and "d \<in> set (GetOracleRequestDocs s)"
    and "Status d = REQUEST_STATUS_ENABLED"
    and "\<not> (of_nat (length (GetSubmitDatas s (RequestId d) (Nonce d + 1))) :: uint32) < Quorum d"
  shows "AggregateData E s (AggregationRule d) (GetSubmitDatas s (RequestId d) (Nonce d + 1)) \<noteq> Panic p"
proof -
  have "for_each (aggregate_doc E) (GetOracleRequestDocs s) s = Ok s'"
    using assms(1,2) by (simp add: or_BeginBlocker_def ProcessOracleDataSetAggregation_def)
  from aggregate_docs_visit [OF this assms(3)] obtain t t' where t: "or_same s t" "aggregate_doc E d t = Ok t'" by blast
  have "AggregateData E t (AggregationRule d) (GetSubmitDatas t (RequestId d) (Nonce d + 1)) \<noteq> Panic p"
    using t(2) assms(4,5) by (auto simp: aggregate_doc_def Let_def GetSubmitDatas_same [OF t(1)])
  then show ?thesis by (simp add: AggregateData_same [OF t(1)] GetSubmitDatas_same [OF t(1)])
qed

lemma parse_values_total:
  "\<forall>x \<in> set datas. parse (sd_RawData x) \<noteq> None \<Longrightarrow> \<exists>vs. parse_values parse datas = Ok vs"
  by (induction datas) (auto simp: res_simps)

lemma stored_submit:
  assumes "submits_ok parse docs (or_submits s)" and "x \<in> set (GetSubmitDatas s i n)"
  shows "submit_wf parse x"
proof -
  obtain k where "(k, x) \<in> set (or_submits s)" using assms(2) by (auto simp: GetSubmitDatas_def kv_prefix_def)
  then show ?thesis using assms(1) by (auto simp: submits_ok_def kv_get_in_set)
qed

text \<open>On values that are numbers the rules return or panic; they do not fail.\<close>

lemma AggregateData_returns:
  assumes "\<forall>x \<in> set datas. SetString E (sd_RawData x) \<noteq> None" and "datas \<noteq> []"
    and "rule \<in> {AGGREGATION_RULE_AVG, AGGREGATION_RULE_MIN, AGGREGATION_RULE_MAX, AGGREGATION_RULE_MEDIAN}"
    and "rule = AGGREGATION_RULE_MEDIAN \<longrightarrow> \<not> MaxAccountListSize (or_GetParams s) < of_nat (length datas)"
  shows "AggregateData E s rule datas \<noteq> Fail e"
proof -
  obtain vs where vs: "parse_values (SetString E) datas = Ok vs" using parse_values_total assms(1) by blast
  then have loop: "value_loop (SetString E) f datas acc = for_each f vs acc" for f acc
    by (simp add: value_loop_values parse_values_Ok_iff)
  have add: "for_each (\<lambda>v sum. bf_Add sum v) vs acc \<noteq> Fail e" for acc
  proof (induction vs arbitrary: acc)
    case (Cons v vs) then show ?case by (cases "bf_Add acc v") (auto elim!: bf_Add.elims)
  qed simp
  obtain a where a: "for_each (\<lambda>v m. Ok (if 0 < bf_Cmp v m then v else m)) vs bf_zero = Ok a" using max_loop by blast
  obtain b where b: "for_each (\<lambda>v m. Ok (if bf_Cmp v m < 0 then v else m)) vs bf_MaxFloat64 = Ok b" using min_loop by blast
  have "bf_Add x y \<noteq> Fail e" for x y by (cases x; cases y) auto
  with assms vs add a b show ?thesis
    by (auto simp: AggregateData_def calculateAverage_def calculateMax_def calculateMin_def calculateMedian_def loop Let_def
        res_simps AGGREGATION_RULE_AVG_def AGGREGATION_RULE_MIN_def AGGREGATION_RULE_MAX_def AGGREGATION_RULE_MEDIAN_def)
qed

end
