(* ===== verification/OracleProps.thy ===== *)
theory OracleProps
  imports OracleProofs
begin

text \<open>
  The properties of the oracle: the invariant of every reachable state, what a block does to each request
  document, that a quorum makes progress, the robustness of the median, the panic on infinities of opposite
  signs, and what one authorised account can submit.
\<close>

section \<open>Reachable states\<close>

text \<open>
  A chain starts at a genesis and takes messages and block starts in any order, each in its own environment;
  only the reading of numbers is the same throughout. A registration counts one more document than before.
\<close>

inductive or_reachable :: "(string \<Rightarrow> bigfloat option) \<Rightarrow> 'h or_state \<Rightarrow> bool" for parse where
  or_init: "or_InitGenesis E g (or_empty h) = Ok s \<Longrightarrow> genesis_ids g \<Longrightarrow> or_reachable parse s"
| or_register: "or_reachable parse s \<Longrightarrow> GetOracleRequestDocCount s \<noteq> -1 \<Longrightarrow>
    RegisterOracleRequestDoc E m doc s = Ok (i, s') \<Longrightarrow> or_reachable parse s'"
| or_update: "or_reachable parse s \<Longrightarrow> UpdateOracleRequestDoc E m doc s = Ok (i, s') \<Longrightarrow> or_reachable parse s'"
| or_submit: "or_reachable parse s \<Longrightarrow> SetString E = parse \<Longrightarrow> MsgSubmitOracleData_ValidateBasic E data = Ok () \<Longrightarrow>
    SubmitOracleData E from data s = Ok s' \<Longrightarrow> or_reachable parse s'"
| or_change_params: "or_reachable parse s \<Longrightarrow> or_UpdateParams E a p s = Ok s' \<Longrightarrow> or_reachable parse s'"
| or_change_moderator: "or_reachable parse s \<Longrightarrow> UpdateModeratorAddress m m' s = Ok s' \<Longrightarrow> or_reachable parse s'"
| or_block: "or_reachable parse s \<Longrightarrow> or_BeginBlocker E s = Ok s' \<Longrightarrow> or_reachable parse s'"

lemma or_reachable_inv: "or_reachable parse s \<Longrightarrow> or_ok parse s"
proof (induction rule: or_reachable.induct)
  case or_init then show ?case by (rule InitGenesis_ok)
next
  case or_register then show ?case by (blast intro: Register_ok)
next
  case or_update then show ?case by (blast intro: Update_ok)
next
  case or_submit then show ?case by (blast intro: Submit_ok)
next
  case or_change_params then show ?case by (blast intro: UpdateParams_ok)
next
  case or_change_moderator then show ?case by (blast intro: UpdateModerator_ok)
next
  case or_block then show ?case by (blast intro: BeginBlocker_ok)
qed

lemma GetOracleRequestDoc_Ok_iff:
  "GetOracleRequestDoc s i = Ok d \<longleftrightarrow> kv_get (or_docs s) (GetOracleRequestDocKey i) = Some d"
  by (simp add: GetOracleRequestDoc_def split: option.splits)

lemma reachable_doc:
  assumes "or_reachable parse s" and "GetOracleRequestDoc s i = Ok d"
  shows "d \<in> set (GetOracleRequestDocs s)" and "RequestId d = i" and "0 < i" and "doc_wf d"
proof -
  have docs: "docs_ok (or_docs s) (GetOracleRequestDocCount s)" using or_reachable_inv [OF assms(1)] by (simp add: or_ok_def)
  note d = listed_doc [OF docs assms(2) [unfolded GetOracleRequestDoc_Ok_iff]]
  show "d \<in> set (GetOracleRequestDocs s)" "RequestId d = i" "0 < i" "doc_wf d" using d stored_doc [OF docs d(1)] by auto
qed

lemma block_outcome:
  assumes "or_reachable parse s" and "EnableOracle (or_GetParams s)" and "or_BeginBlocker E s = Ok s'"
    and "GetOracleRequestDoc s i = Ok d"
  shows "or_same s s' \<and> outcome E s s' d"
proof -
  have "docs_ok (or_docs s) (GetOracleRequestDocCount s)" using or_reachable_inv [OF assms(1)] by (simp add: or_ok_def)
  from aggregate_docs [OF _ distinct_ids [OF this], of E s s'] assms(2,3) reachable_doc(1) [OF assms(1,4)]
  show ?thesis by (simp add: or_BeginBlocker_def ProcessOracleDataSetAggregation_def)
qed

lemma outcome_advance:
  assumes "outcome E s s' d" and "advances E s d v"
  shows "kv_get (or_docs s') (GetOracleRequestDocKey (RequestId d)) = Some (d\<lparr>Nonce := Nonce d + 1\<rparr>)"
    and "kv_get (or_datasets s') (GetDataSetKey (RequestId d) n) = Some (dataset_of E d v)"
proof -
  have some: "\<exists>v. advances E s d v" using assms(2) by blast
  obtain w where w: "advances E s d w" and out: "kv_get (or_docs s') (GetOracleRequestDocKey (RequestId d)) = Some (d\<lparr>Nonce := Nonce d + 1\<rparr>)"
    "kv_get (or_datasets s') (GetDataSetKey (RequestId d) (Nonce d + 1)) = Some (dataset_of E d w)"
    using assms(1) unfolding outcome_def if_P [OF some] by blast
  have "w = v" using w assms(2) by (simp add: advances_def)
  then show "kv_get (or_docs s') (GetOracleRequestDocKey (RequestId d)) = Some (d\<lparr>Nonce := Nonce d + 1\<rparr>)"
    "kv_get (or_datasets s') (GetDataSetKey (RequestId d) n) = Some (dataset_of E d v)" using out by (simp_all add: GetDataSetKey_def)
qed

lemma block_advance:
  assumes "or_reachable parse s" and "EnableOracle (or_GetParams s)" and "or_BeginBlocker E s = Ok s'"
    and "GetOracleRequestDoc s i = Ok d" and "advances E s d v"
  shows "GetOracleRequestDoc s' i = Ok (d\<lparr>Nonce := Nonce d + 1\<rparr>) \<and> GetOracleData s' i = Ok (dataset_of E d v)"
  using outcome_advance [OF _ assms(5), of s'] block_outcome [OF assms(1-4)] reachable_doc(2) [OF assms(1,4)]
  by (simp add: GetOracleRequestDoc_def GetOracleData_def GetDataSet_def)

section \<open>A reference chain\<close>

text \<open>
  Instances the properties are applied to: a chain whose genesis has one document with two accounts and a quorum of two,
  and the state after a submission of each account. Every signature verifies and the texts read are few.
\<close>

definition ref_parse :: "string \<Rightarrow> bigfloat option" where
  "ref_parse t = (if t = ''1'' then Some (Finite 1) else if t = ''3'' then Some (Finite 3)
     else if t = ''Inf'' then Some PosInf else if t = ''-Inf'' then Some NegInf else None)"

definition ref_text :: "bigfloat \<Rightarrow> string" where
  "ref_text v = (if v = Finite 1 then ''1'' else if v = Finite 3 then ''3'' else ''?'')"

definition ref_oracle :: "unit or_env" where
  "ref_oracle = \<lparr>or_bech = (\<lambda>a. if a = '''' then None else Some (StringToBytes a)), or_authority = ''gov'',
     or_account = (\<lambda>_. Some (Some (\<lambda>_ _. True))), SetString = ref_parse, Text = ref_text, or_hooks = None,
     or_height = 10, or_time = 20\<rparr>"

definition ref_doc :: "enum \<Rightarrow> OracleRequestDoc" where
  "ref_doc rule = \<lparr>RequestId = 1, OracleType = 2, Name = ''n'', Description = '''', Period = 1, AccountList = [''a'', ''b''],
     Quorum = 2, Endpoints = [\<lparr>Url = ''u'', ParseRule = ''p''\<rparr>], AggregationRule = rule, Status = REQUEST_STATUS_ENABLED, Nonce = 0\<rparr>"

definition ref_submit :: "string \<Rightarrow> string \<Rightarrow> SubmitDataSet" where
  "ref_submit p raw = \<lparr>sd_RequestId = 1, sd_Nonce = 1, sd_RawData = raw, sd_Provider = p, sd_Signature = replicate 65 0\<rparr>"

definition ref_genesis :: "enum \<Rightarrow> or_GenesisState" where
  "ref_genesis rule = \<lparr>org_Params = or_DefaultParams, org_OracleRequestDocCount = 1, org_OracleRequestDocs = [ref_doc rule],
     org_ModeratorAddress = ''m''\<rparr>"

definition ref_start :: "enum \<Rightarrow> unit or_state" where
  "ref_start rule = \<lparr>or_params = Some or_DefaultParams, or_moderator = Some ''m'',
     or_docs = [(GetOracleRequestDocKey 1, ref_doc rule)], or_count = Some 1, or_submits = [], or_datasets = [],
     or_events = [], hook_state = ()\<rparr>"

definition ref_put :: "string \<Rightarrow> string \<Rightarrow> unit or_state \<Rightarrow> unit or_state" where
  "ref_put p raw s = (SetSubmitData (ref_submit p raw) s)\<lparr>or_events := or_events s @ [SubmitDataEvent 1 1 raw p]\<rparr>"

lemma ref_start_reachable:
  assumes "rule \<noteq> AGGREGATION_RULE_UNSPECIFIED"
  shows "or_reachable ref_parse (ref_start rule)"
proof (rule or_init)
  have "doc_Validate (or_bech ref_oracle) (ref_doc rule) = Ok ()"
    using assms by (simp add: doc_Validate_def ValidateWithParams_def ref_doc_def ref_oracle_def or_DefaultParams_def
        ORACLE_TYPE_UNSPECIFIED_def REQUEST_STATUS_ENABLED_def REQUEST_STATUS_UNSPECIFIED_def)
  then show "or_InitGenesis ref_oracle (ref_genesis rule) (or_empty ()) = Ok (ref_start rule)"
    by (simp add: or_InitGenesis_def ref_genesis_def Let_def or_SetParams_def or_SetModeratorAddress_def or_empty_def
        SetOracleRequestDoc_def SetOracleRequestDocCount_def ref_start_def marshal_dec_Some or_DefaultParams_def ref_oracle_def ref_doc_def)
  show "genesis_ids (ref_genesis rule)" by (simp add: genesis_ids_def ref_genesis_def ref_doc_def)
qed

lemma ref_verify: "p \<noteq> '''' \<Longrightarrow> verifySubmitData ref_oracle (ref_submit p raw) = Ok (ref_submit p raw)"
  by (simp add: verifySubmitData_def SubmitDataSet_Bytes_def ref_oracle_def ref_submit_def)

lemma ref_put_reachable:
  assumes "or_reachable ref_parse s" and "GetOracleRequestDoc s 1 = Ok (ref_doc rule)" and "p \<in> {''a'', ''b''}"
    and "ref_parse raw \<noteq> None" and "raw \<noteq> ''''"
  shows "or_reachable ref_parse (ref_put p raw s)" and "GetOracleRequestDoc (ref_put p raw s) 1 = Ok (ref_doc rule)"
proof -
  show "or_reachable ref_parse (ref_put p raw s)" using assms(1)
  proof (rule or_submit)
    show "SetString ref_oracle = ref_parse" by (simp add: ref_oracle_def)
    show "MsgSubmitOracleData_ValidateBasic ref_oracle (Some (ref_submit p raw)) = Ok ()"
      using assms(3-5) by (auto simp: MsgSubmitOracleData_ValidateBasic_def ref_oracle_def ref_submit_def)
    show "SubmitOracleData ref_oracle p (Some (ref_submit p raw)) s = Ok (ref_put p raw s)"
      using assms(2,3,5) ref_verify [of p raw] by (auto simp: SubmitOracleData_def validateSubmitData_def checkAccountAuthorized_def
          ref_doc_def ref_submit_def ref_put_def SetSubmitData_def)
  qed
  show "GetOracleRequestDoc (ref_put p raw s) 1 = Ok (ref_doc rule)"
    using assms(2) by (simp add: ref_put_def SetSubmitData_def GetOracleRequestDoc_def)
qed

definition ref_quorum :: "enum \<Rightarrow> string \<Rightarrow> string \<Rightarrow> unit or_state" where
  "ref_quorum rule x y = ref_put ''b'' y (ref_put ''a'' x (ref_start rule))"

lemma ref_quorum_facts:
  assumes "rule \<noteq> AGGREGATION_RULE_UNSPECIFIED" and "ref_parse x \<noteq> None" "ref_parse y \<noteq> None" "x \<noteq> ''''" "y \<noteq> ''''"
  shows "or_reachable ref_parse (ref_quorum rule x y)" and "GetOracleRequestDoc (ref_quorum rule x y) 1 = Ok (ref_doc rule)"
    and "or_GetParams (ref_quorum rule x y) = or_DefaultParams"
    and "GetSubmitDatas (ref_quorum rule x y) 1 1 = [ref_submit ''a'' x, ref_submit ''b'' y]"
proof -
  have start: "GetOracleRequestDoc (ref_start rule) 1 = Ok (ref_doc rule)" by (simp add: ref_start_def GetOracleRequestDoc_def)
  note a = ref_put_reachable [OF ref_start_reachable [OF assms(1)] start _ assms(2,4), of "''a''", simplified]
  note b = ref_put_reachable [OF a _ assms(3,5), of "''b''", simplified]
  show "or_reachable ref_parse (ref_quorum rule x y)" "GetOracleRequestDoc (ref_quorum rule x y) 1 = Ok (ref_doc rule)"
    using b by (simp_all add: ref_quorum_def)
  show "or_GetParams (ref_quorum rule x y) = or_DefaultParams"
    by (simp add: ref_quorum_def ref_put_def SetSubmitData_def ref_start_def or_GetParams_def)
  have "k @ u < k @ v \<longleftrightarrow> u < v" for k u v :: bytes by (induction k) auto
  then show "GetSubmitDatas (ref_quorum rule x y) 1 1 = [ref_submit ''a'' x, ref_submit ''b'' y]"
    by (simp add: ref_quorum_def ref_put_def SetSubmitData_def ref_start_def GetSubmitDatas_def ref_submit_def kv_prefix_def
        has_prefix_def GetSubmitDataKeyByProvider_def StringToBytes_def)
qed

lemma ref_block:
  assumes "rule \<noteq> AGGREGATION_RULE_UNSPECIFIED" and "ref_parse x \<noteq> None" "ref_parse y \<noteq> None" "x \<noteq> ''''" "y \<noteq> ''''"
    and "AggregateData ref_oracle (ref_quorum rule x y) rule [ref_submit ''a'' x, ref_submit ''b'' y] = Ok v"
  shows "\<exists>s'. or_BeginBlocker ref_oracle (ref_quorum rule x y) = Ok s'" and "advances ref_oracle (ref_quorum rule x y) (ref_doc rule) v"
proof -
  note facts = ref_quorum_facts [OF assms(1-5)]
  have "GetOracleRequestDocs (ref_quorum rule x y) = [ref_doc rule]"
    by (simp add: GetOracleRequestDocs_def ref_quorum_def ref_put_def SetSubmitData_def ref_start_def kv_prefix_def)
  then show "\<exists>s'. or_BeginBlocker ref_oracle (ref_quorum rule x y) = Ok s'"
    using assms(6) facts(3,4) by (simp add: or_BeginBlocker_def ProcessOracleDataSetAggregation_def or_DefaultParams_def aggregate_doc_def
        ref_doc_def ORACLE_TYPE_MIN_GAS_PRICE_def Let_def)
  show "advances ref_oracle (ref_quorum rule x y) (ref_doc rule) v"
    using assms(6) facts(4) by (simp add: advances_def ref_doc_def)
qed

lemma ref_max: "AggregateData ref_oracle s AGGREGATION_RULE_MAX [ref_submit ''a'' ''1'', ref_submit ''b'' ''3''] = Ok ''3''"
  by (simp add: AggregateData_def AGGREGATION_RULE_MAX_def AGGREGATION_RULE_AVG_def AGGREGATION_RULE_MIN_def calculateMax_def
      value_loop_def ref_oracle_def ref_submit_def ref_parse_def ref_text_def bf_Cmp_def bf_zero_def less_prod_def)

lemma ref_max_hyps:
  "AGGREGATION_RULE_MAX \<noteq> AGGREGATION_RULE_UNSPECIFIED" "ref_parse ''1'' \<noteq> None" "ref_parse ''3'' \<noteq> None" "''1'' \<noteq> ''''" "''3'' \<noteq> ''''"
  by (simp_all add: AGGREGATION_RULE_MAX_def AGGREGATION_RULE_UNSPECIFIED_def ref_parse_def)

section \<open>Properties\<close>

text \<open>
  C36. In every reachable state the documents are stored under their own id, between one and the counter, with a
  quorum of at least one and at most the number of listed accounts and with type, rule and status specified; the
  stored data set of a request carries the nonce of its document; and every stored submission is under the key of
  its request, nonce and provider, belongs to a document, is a number and has a normalised 65-byte signature.
\<close>

theorem or_reachable_ok:
  assumes "or_reachable parse s"
  shows "or_ok parse s"
  using assms by (rule or_reachable_inv)

theorem or_reachable_ok_witness: "or_ok ref_parse (ref_quorum AGGREGATION_RULE_MAX ''1'' ''3'')"
  by (rule or_reachable_ok [OF ref_quorum_facts(1) [OF ref_max_hyps]])

text \<open>
  C35. The block start advances exactly the documents that are enabled, have a quorum of submissions for their next
  nonce and whose values aggregate: their nonce grows by one and the aggregated value with that nonce is what
  the module answers; every other document and its data set stay as they were, and the parameters,
  submissions, moderator and counter do not change.
\<close>

theorem BeginBlocker_aggregates:
  assumes "or_reachable parse s" and "EnableOracle (or_GetParams s)" and "or_BeginBlocker E s = Ok s'"
    and "GetOracleRequestDoc s i = Ok d"
  shows "or_same s s' \<and>
    (\<forall>v. advances E s d v \<longrightarrow>
      GetOracleRequestDoc s' i = Ok (d\<lparr>Nonce := Nonce d + 1\<rparr>) \<and> GetOracleData s' i = Ok (dataset_of E d v)) \<and>
    ((\<nexists>v. advances E s d v) \<longrightarrow> GetOracleRequestDoc s' i = Ok d \<and> GetOracleData s' i = GetOracleData s i)"
proof (intro conjI allI impI)
  note out = block_outcome [OF assms]
  have i: "RequestId d = i" by (rule reachable_doc(2) [OF assms(1,4)])
  show "or_same s s'" using out ..
  show "GetOracleRequestDoc s' i = Ok (d\<lparr>Nonce := Nonce d + 1\<rparr>)" "GetOracleData s' i = Ok (dataset_of E d v)"
    if v: "advances E s d v" for v using block_advance [OF assms v] by blast+
  assume none: "\<nexists>v. advances E s d v"
  have "GetOracleRequestDoc s' i = GetOracleRequestDoc s i" "GetDataSet s' i n = GetDataSet s i n" for n
    using out none by (simp_all add: outcome_def i GetOracleRequestDoc_def GetDataSet_def GetDataSetKey_def)
  then show "GetOracleRequestDoc s' i = Ok d" "GetOracleData s' i = GetOracleData s i"
    using assms(4) i by (simp_all add: GetOracleData_def)
qed

theorem BeginBlocker_aggregates_witness:
  "\<exists>s'. or_BeginBlocker ref_oracle (ref_quorum AGGREGATION_RULE_MAX ''1'' ''3'') = Ok s' \<and>
     GetOracleData s' 1 = Ok (dataset_of ref_oracle (ref_doc AGGREGATION_RULE_MAX) ''3'')"
proof -
  note facts = ref_quorum_facts [OF ref_max_hyps]
  obtain s' where s': "or_BeginBlocker ref_oracle (ref_quorum AGGREGATION_RULE_MAX ''1'' ''3'') = Ok s'"
    using ref_block(1) [OF ref_max_hyps ref_max] by blast
  have "EnableOracle (or_GetParams (ref_quorum AGGREGATION_RULE_MAX ''1'' ''3''))" by (simp add: facts(3) or_DefaultParams_def)
  from BeginBlocker_aggregates [OF facts(1) this s' facts(2)] ref_block(2) [OF ref_max_hyps ref_max]
  show ?thesis using s' by blast
qed

text \<open>
  C37. A quorum makes progress: in a block that completes, an enabled document with one of the four rules and a quorum of
  submissions for its next nonce (for the median no more than the largest account list) gets a new
  data set with that nonce.
\<close>

theorem quorum_makes_progress:
  assumes "or_reachable (SetString E) s" and "EnableOracle (or_GetParams s)" and "or_BeginBlocker E s = Ok s'"
    and "GetOracleRequestDoc s i = Ok d" and "Status d = REQUEST_STATUS_ENABLED"
    and "AggregationRule d \<in> {AGGREGATION_RULE_AVG, AGGREGATION_RULE_MIN, AGGREGATION_RULE_MAX, AGGREGATION_RULE_MEDIAN}"
    and "unat (Quorum d) \<le> length (GetSubmitDatas s i (Nonce d + 1))" and "length (GetSubmitDatas s i (Nonce d + 1)) < 2 ^ 32"
    and "AggregationRule d = AGGREGATION_RULE_MEDIAN \<longrightarrow>
      length (GetSubmitDatas s i (Nonce d + 1)) \<le> unat (MaxAccountListSize (or_GetParams s))"
  shows "\<exists>x. GetOracleData s' i = Ok x \<and> ds_Nonce x = Nonce d + 1 \<and> GetOracleRequestDoc s' i = Ok (d\<lparr>Nonce := Nonce d + 1\<rparr>)"
proof -
  let ?datas = "GetSubmitDatas s i (Nonce d + 1)"
  note d = reachable_doc [OF assms(1,4)]
  have subs: "submits_ok (SetString E) (or_docs s) (or_submits s)" using or_reachable_inv [OF assms(1)] by (simp add: or_ok_def)
  have num: "\<forall>x \<in> set ?datas. SetString E (sd_RawData x) \<noteq> None" using stored_submit [OF subs] by (auto simp: submit_wf_def)
  have "unat (of_nat (length ?datas) :: uint32) = length ?datas" "unat (of_nat (length ?datas) :: uint64) = length ?datas"
    using assms(8) by (simp_all add: unat_of_nat take_bit_eq_mod)
  then have q: "\<not> (of_nat (length ?datas) :: uint32) < Quorum d"
    and med: "AggregationRule d = AGGREGATION_RULE_MEDIAN \<longrightarrow> \<not> MaxAccountListSize (or_GetParams s) < of_nat (length ?datas)"
    using assms(7,9) by (simp_all add: not_less word_le_nat_alt)
  have "?datas \<noteq> []" using assms(7) d(4) by (auto simp: doc_wf_def)
  note nofail = AggregateData_returns [OF num this assms(6) med]
  have q': "\<not> (of_nat (length (GetSubmitDatas s (RequestId d) (Nonce d + 1))) :: uint32) < Quorum d" using q d(2) by simp
  note nopanic = BeginBlocker_no_panic [OF assms(3,2) d(1) assms(5) q']
  obtain v where "AggregateData E s (AggregationRule d) ?datas = Ok v"
    using nofail nopanic d(2) by (cases "AggregateData E s (AggregationRule d) ?datas") auto
  then have adv: "advances E s d v" using q d(2) assms(5) by (simp add: advances_def)
  show ?thesis using block_advance [OF assms(1-4) adv] by (simp add: dataset_of_def)
qed

theorem quorum_makes_progress_witness:
  "\<exists>s' x. or_BeginBlocker ref_oracle (ref_quorum AGGREGATION_RULE_MAX ''1'' ''3'') = Ok s' \<and>
     GetOracleData s' 1 = Ok x \<and> ds_Nonce x = 1"
proof -
  note facts = ref_quorum_facts [OF ref_max_hyps]
  obtain s' where s': "or_BeginBlocker ref_oracle (ref_quorum AGGREGATION_RULE_MAX ''1'' ''3'') = Ok s'"
    using ref_block(1) [OF ref_max_hyps ref_max] by blast
  have E: "or_reachable (SetString ref_oracle) (ref_quorum AGGREGATION_RULE_MAX ''1'' ''3'')"
    using facts(1) by (simp add: ref_oracle_def)
  have on: "EnableOracle (or_GetParams (ref_quorum AGGREGATION_RULE_MAX ''1'' ''3''))" by (simp add: facts(3) or_DefaultParams_def)
  have datas: "GetSubmitDatas (ref_quorum AGGREGATION_RULE_MAX ''1'' ''3'') 1 (Nonce (ref_doc AGGREGATION_RULE_MAX) + 1) =
      [ref_submit ''a'' ''1'', ref_submit ''b'' ''3'']" using facts(4) by (simp add: ref_doc_def)
  have "\<exists>x. GetOracleData s' 1 = Ok x \<and> ds_Nonce x = Nonce (ref_doc AGGREGATION_RULE_MAX) + 1 \<and>
      GetOracleRequestDoc s' 1 = Ok ((ref_doc AGGREGATION_RULE_MAX)\<lparr>Nonce := Nonce (ref_doc AGGREGATION_RULE_MAX) + 1\<rparr>)"
    by (rule quorum_makes_progress [OF E on s' facts(2)])
      (simp_all only: datas, simp_all add: ref_doc_def AGGREGATION_RULE_MAX_def AGGREGATION_RULE_MEDIAN_def)
  then show ?thesis using s' by (auto simp: ref_doc_def)
qed

text \<open>
  C38. The median of an odd number of submissions is one of the submitted values and lies in every interval that holds
  more than half of them: a minority of providers cannot move it out of the range of the others.
\<close>

theorem calculateMedian_majority:
  assumes "parse_values (SetString E) datas = Ok vs" and "odd (length vs)"
    and "\<not> MaxAccountListSize (or_GetParams s) < of_nat (length datas)"
    and "length vs < 2 * length (filter (\<lambda>x. lo \<le> bf_key x \<and> bf_key x \<le> hi) vs)"
  shows "\<exists>x \<in> set vs. calculateMedian E s datas = Ok (Text E x) \<and> lo \<le> bf_key x \<and> bf_key x \<le> hi"
proof -
  have len: "length datas = length vs" using assms(1) unfolding parse_values_Ok_iff by (metis length_map)
  then have "datas \<noteq> []" using assms(2) by auto
  moreover have "length vs mod 2 \<noteq> 0" using assms(2) by presburger
  ultimately have "calculateMedian E s datas = Ok (Text E (sort_key bf_key vs ! (length vs div 2)))"
    using assms(1,3) by (simp add: calculateMedian_def Let_def)
  with median_between [OF assms(2,4)] show ?thesis by blast
qed

theorem calculateMedian_majority_witness:
  "calculateMedian ref_oracle (ref_start 4) [ref_submit ''a'' ''1'', ref_submit ''b'' ''Inf'', ref_submit ''c'' ''3''] = Ok ''3'' \<or>
   calculateMedian ref_oracle (ref_start 4) [ref_submit ''a'' ''1'', ref_submit ''b'' ''Inf'', ref_submit ''c'' ''3''] = Ok ''1''"
proof -
  let ?datas = "[ref_submit ''a'' ''1'', ref_submit ''b'' ''Inf'', ref_submit ''c'' ''3'']"
  have "\<exists>x \<in> set [Finite 1, PosInf, Finite 3]. calculateMedian ref_oracle (ref_start 4) ?datas = Ok (Text ref_oracle x) \<and>
      (0, 1) \<le> bf_key x \<and> bf_key x \<le> (0, 3)"
    by (rule calculateMedian_majority)
      (simp_all add: ref_oracle_def ref_submit_def ref_parse_def ref_start_def or_GetParams_def or_DefaultParams_def less_eq_prod_def)
  then show ?thesis by (auto simp: ref_oracle_def ref_text_def less_eq_prod_def)
qed

text \<open>
  C39. An enabled document with the average rule whose quorum of submissions holds both infinities keeps the block start from
  completing: adding them panics.
\<close>

theorem BeginBlocker_stops_on_infinities:
  assumes "or_reachable (SetString E) s" and "EnableOracle (or_GetParams s)"
    and "GetOracleRequestDoc s i = Ok d" and "Status d = REQUEST_STATUS_ENABLED" and "AggregationRule d = AGGREGATION_RULE_AVG"
    and "\<not> (of_nat (length (GetSubmitDatas s i (Nonce d + 1))) :: uint32) < Quorum d"
    and "Some PosInf \<in> (\<lambda>x. SetString E (sd_RawData x)) ` set (GetSubmitDatas s i (Nonce d + 1))"
    and "Some NegInf \<in> (\<lambda>x. SetString E (sd_RawData x)) ` set (GetSubmitDatas s i (Nonce d + 1))"
  shows "\<not> is_ok (or_BeginBlocker E s)"
proof
  let ?datas = "GetSubmitDatas s i (Nonce d + 1)"
  assume "is_ok (or_BeginBlocker E s)"
  then obtain s' where s': "or_BeginBlocker E s = Ok s'" by (auto simp: is_ok_iff)
  note d = reachable_doc [OF assms(1,3)]
  have subs: "submits_ok (SetString E) (or_docs s) (or_submits s)" using or_reachable_inv [OF assms(1)] by (simp add: or_ok_def)
  have "\<forall>x \<in> set ?datas. SetString E (sd_RawData x) \<noteq> None" using stored_submit [OF subs] by (auto simp: submit_wf_def)
  then obtain vs where vs: "map (\<lambda>x. SetString E (sd_RawData x)) ?datas = map Some vs"
    using parse_values_total [of ?datas "SetString E"] parse_values_Ok_iff by metis
  have "set (map (\<lambda>x. SetString E (sd_RawData x)) ?datas) = Some ` set vs" by (simp only: vs set_map)
  then have "PosInf \<in> set vs" "NegInf \<in> set vs" using assms(7,8) by (auto simp: image_iff)
  then obtain p where "for_each (\<lambda>v sum. bf_Add sum v) vs bf_zero = Panic p" using add_loop_nan by blast
  moreover have "?datas \<noteq> []" using assms(7) by auto
  ultimately have "AggregateData E s (AggregationRule d) ?datas = Panic p"
    by (simp add: AggregateData_def assms(5) calculateAverage_def value_loop_values [OF vs])
  with BeginBlocker_no_panic [OF s' assms(2) d(1) assms(4), of p] assms(6) d(2) show False by simp
qed

theorem BeginBlocker_stops_on_infinities_witness:
  "\<not> is_ok (or_BeginBlocker ref_oracle (ref_quorum AGGREGATION_RULE_AVG ''Inf'' ''-Inf''))"
proof -
  have hyps: "AGGREGATION_RULE_AVG \<noteq> AGGREGATION_RULE_UNSPECIFIED" "ref_parse ''Inf'' \<noteq> None" "ref_parse ''-Inf'' \<noteq> None"
    "''Inf'' \<noteq> ''''" "''-Inf'' \<noteq> ''''"
    by (simp_all add: AGGREGATION_RULE_AVG_def AGGREGATION_RULE_UNSPECIFIED_def ref_parse_def)
  note facts = ref_quorum_facts [OF hyps]
  have E: "or_reachable (SetString ref_oracle) (ref_quorum AGGREGATION_RULE_AVG ''Inf'' ''-Inf'')"
    using facts(1) by (simp add: ref_oracle_def)
  show ?thesis
    by (rule BeginBlocker_stops_on_infinities [OF E _ facts(2)])
      (simp_all add: facts(3,4) or_DefaultParams_def ref_doc_def ref_oracle_def ref_submit_def ref_parse_def)
qed

section \<open>What one account can submit\<close>

lemma submit_key_inj:
  "GetSubmitDataKeyByProvider i n p = GetSubmitDataKeyByProvider i n q \<longleftrightarrow> p = q"
  by (simp add: GetSubmitDataKeyByProvider_def StringToBytes_inj)

lemma length_GetSubmitDatas:
  assumes "kv_ok (or_submits s)" and "distinct ps"
    and "\<forall>p \<in> set ps. kv_get (or_submits s) (GetSubmitDataKeyByProvider i n p) \<noteq> None"
  shows "length ps \<le> length (GetSubmitDatas s i n)"
proof -
  let ?es = "kv_prefix (GetSubmitDataKey i n) (or_submits s)" and ?key = "GetSubmitDataKeyByProvider i n"
  have "?key ` set ps \<subseteq> set (map fst ?es)"
    using assms(1,3) by (force simp: kv_prefix_def kv_get_in_set has_prefix_def GetSubmitDataKeyByProvider_def)
  then have "card (?key ` set ps) \<le> card (set (map fst ?es))" by (intro card_mono) simp_all
  moreover have "card (?key ` set ps) = length ps"
    using assms(2) by (simp add: card_image inj_on_def submit_key_inj distinct_card)
  moreover have "card (set (map fst ?es)) \<le> length ?es" using card_length [of "map fst ?es"] by simp
  ultimately show ?thesis by (simp add: GetSubmitDatas_def)
qed

text \<open>A submission for the next nonce of a document that the signature check lets pass.\<close>

definition submittable :: "'h or_env \<Rightarrow> OracleRequestDoc \<Rightarrow> SubmitDataSet \<Rightarrow> bool" where
  "submittable E d x \<longleftrightarrow> sd_RequestId x = RequestId d \<and> sd_Nonce x = Nonce d + 1 \<and> sd_Provider x \<noteq> '''' \<and>
     sd_RawData x \<noteq> '''' \<and> is_ok (verifySubmitData E x)"

lemma SubmitOracleData_submittable:
  assumes "submittable E d x" and "kv_get (or_docs s) (GetOracleRequestDocKey (RequestId d)) = Some d"
    and "0 < RequestId d" and "Nonce d + 1 \<noteq> 0" and "Status d = REQUEST_STATUS_ENABLED" and "from \<in> set (AccountList d)"
    and "kv_ok (or_submits s)"
  shows "\<exists>s'. SubmitOracleData E from (Some x) s = Ok s' \<and> or_docs s' = or_docs s \<and> kv_ok (or_submits s') \<and>
    (\<forall>k. kv_get (or_submits s') k \<noteq> None \<longleftrightarrow> kv_get (or_submits s) k \<noteq> None \<or>
      k = GetSubmitDataKeyByProvider (RequestId d) (Nonce d + 1) (sd_Provider x))"
proof -
  obtain y where y: "verifySubmitData E x = Ok y" using assms(1) by (auto simp: submittable_def is_ok_iff)
  then obtain sig where "y = x\<lparr>sd_Signature := sig\<rparr>" by (rule verifySubmitData_Ok)
  moreover have "RequestId d \<noteq> 0" using assms(3) by auto
  ultimately show ?thesis using assms y
    by (auto simp: SubmitOracleData_def submittable_def validateSubmitData_def GetOracleRequestDoc_def checkAccountAuthorized_def
        list_ex_iff SetSubmitData_def Let_def store_simps)
qed

lemma SubmitOracleData_submittables:
  assumes "list_all (submittable E d) datas" and "kv_get (or_docs s) (GetOracleRequestDocKey (RequestId d)) = Some d"
    and "0 < RequestId d" and "Nonce d + 1 \<noteq> 0" and "Status d = REQUEST_STATUS_ENABLED" and "from \<in> set (AccountList d)"
    and "kv_ok (or_submits s)"
  shows "\<exists>s'. for_each (\<lambda>x. SubmitOracleData E from (Some x)) datas s = Ok s' \<and> kv_ok (or_submits s') \<and>
    (\<forall>k. kv_get (or_submits s) k \<noteq> None \<longrightarrow> kv_get (or_submits s') k \<noteq> None) \<and>
    (\<forall>x \<in> set datas. kv_get (or_submits s') (GetSubmitDataKeyByProvider (RequestId d) (Nonce d + 1) (sd_Provider x)) \<noteq> None)"
  using assms(1,2,7)
proof (induction datas arbitrary: s)
  case (Cons x datas)
  have x: "submittable E d x" and tl: "list_all (submittable E d) datas" using Cons.prems(1) by simp_all
  obtain t where t: "SubmitOracleData E from (Some x) s = Ok t" "or_docs t = or_docs s" "kv_ok (or_submits t)"
    "\<forall>k. kv_get (or_submits t) k \<noteq> None \<longleftrightarrow> kv_get (or_submits s) k \<noteq> None \<or>
      k = GetSubmitDataKeyByProvider (RequestId d) (Nonce d + 1) (sd_Provider x)"
    using SubmitOracleData_submittable [OF x Cons.prems(2) assms(3-6) Cons.prems(3)] by blast
  have "kv_get (or_docs t) (GetOracleRequestDocKey (RequestId d)) = Some d" using Cons.prems(2) t(2) by simp
  note IH = Cons.IH [OF tl this t(3)]
  then obtain s' where s': "for_each (\<lambda>x. SubmitOracleData E from (Some x)) datas t = Ok s'" "kv_ok (or_submits s')"
    "\<forall>k. kv_get (or_submits t) k \<noteq> None \<longrightarrow> kv_get (or_submits s') k \<noteq> None"
    "\<forall>x \<in> set datas. kv_get (or_submits s') (GetSubmitDataKeyByProvider (RequestId d) (Nonce d + 1) (sd_Provider x)) \<noteq> None"
    by blast
  have "\<forall>k. kv_get (or_submits s) k \<noteq> None \<longrightarrow> kv_get (or_submits s') k \<noteq> None"
    "kv_get (or_submits s') (GetSubmitDataKeyByProvider (RequestId d) (Nonce d + 1) (sd_Provider x)) \<noteq> None"
    using t(4) s'(3) by metis+
  with s' t(1) show ?case by auto
qed simp

text \<open>
  The sender of a submission must be a listed account of the document, but the provider it is counted for need not
  be: one listed account can submit for any number of accounts whose signatures it holds, and each counts
  towards the quorum.
\<close>

lemma one_account_fills_quorum:
  assumes "or_reachable parse s" and "GetOracleRequestDoc s i = Ok d" and "Status d = REQUEST_STATUS_ENABLED"
    and "from \<in> set (AccountList d)" and "Nonce d + 1 \<noteq> 0"
    and "list_all (submittable E d) datas" and "distinct (map sd_Provider datas)"
  shows "\<exists>s'. for_each (\<lambda>x. SubmitOracleData E from (Some x)) datas s = Ok s' \<and>
    length datas \<le> length (GetSubmitDatas s' i (Nonce d + 1))"
proof -
  note d = reachable_doc [OF assms(1,2)]
  have stored: "kv_get (or_docs s) (GetOracleRequestDocKey (RequestId d)) = Some d" using assms(2) by (simp add: GetOracleRequestDoc_Ok_iff d(2))
  have pos: "0 < RequestId d" and subs: "kv_ok (or_submits s)"
    using d(2,3) or_reachable_inv [OF assms(1)] by (simp_all add: or_ok_def submits_ok_def)
  obtain s' where s': "for_each (\<lambda>x. SubmitOracleData E from (Some x)) datas s = Ok s'" "kv_ok (or_submits s')"
    "\<forall>x \<in> set datas. kv_get (or_submits s') (GetSubmitDataKeyByProvider i (Nonce d + 1) (sd_Provider x)) \<noteq> None"
    using SubmitOracleData_submittables [OF assms(6) stored pos assms(5,3,4) subs] d(2) by auto
  from s'(3) have "\<forall>p \<in> set (map sd_Provider datas). kv_get (or_submits s') (GetSubmitDataKeyByProvider i (Nonce d + 1) p) \<noteq> None"
    by simp
  from length_GetSubmitDatas [OF s'(2) assms(7) this] s'(1) show ?thesis by auto
qed

end
