(* ===== verification/Spec2Isabelle.thy ===== *)
theory Spec2Isabelle
  imports VMKeeperProps TxDataProps CosmosAnteProps EvmParamsProps Erc20Props OracleProps
begin

text \<open>
  Verification of the Guru chain, a Cosmos SDK application with an Ethereum virtual machine (Go, under \<^verbatim>\<open>src/\<close>). The
  development follows a transaction from the checks before it runs, through the EVM state, down to the bank, and covers the modules the
  chain adds around that: the fee market, fee discounts, the oracle that sets the minimum gas price, and the registry of token pairs.

  \<^bold>\<open>The program and its theories.\<close>
  \<^item> Money: \<^verbatim>\<open>x/precisebank\<close> keeps balances of 18 decimals on top of an integer coin, with a reserve account that backs the
    fractions. \<open>EvmCoin\<close> models the coin configuration and scaling (\<^verbatim>\<open>x/vm/types/denom.go\<close>, \<^verbatim>\<open>denom_config.go\<close>, \<^verbatim>\<open>scaling.go\<close>), \<open>PreciseBank\<close> the
    keeper with genesis and queries; a state is the record \<open>pb_state\<close> of the module store, the bank and the events. \<open>PreciseBankProofs\<close> and
    \<open>PreciseBankProps\<close> show that every operation moves exactly the amounts it says and that the reserve is worth exactly the
    fractions and the remainder in every reachable state.
  \<^item> EVM state: \<^verbatim>\<open>x/vm/statedb\<close> journals what contracts change. \<open>StateDB\<close> models the state objects, journal, snapshots, precompile snapshots
    and the commit, \<open>AccessList\<close> the access list and transient storage, \<open>SnapshotStore\<close> the cache stores of \<^verbatim>\<open>x/vm/store\<close>. \<open>StateDBProofs\<close>,
    \<open>StateDBSpec\<close>, \<open>StateDBCommit\<close> and \<open>StateDBProps\<close> define what can be observed (\<open>view\<close>), show that the operations refine their
    specification on it, that a revert restores it, that a commit flushes what precompile calls have written and then writes exactly the
    dirty accounts, and which events it emits once a precompile call has been reverted.
  \<^item> EVM keeper: \<open>VMKeeper\<close> models \<^verbatim>\<open>x/vm/keeper/statedb.go\<close>, \<^verbatim>\<open>keeper.go\<close> and \<^verbatim>\<open>x/vm/wrappers/bank.go\<close>, which store accounts, code, slots and
    balances; \<open>VMKeeperProofs\<close> and \<open>VMKeeperProps\<close> show that they implement the backend the journal is written against. \<open>EvmParams\<close> models the parameters,
    the access control and the choice of precompiles, \<open>EvmParamsProps\<close> their well-formedness and the policy they implement.
  \<^item> Transactions: \<open>TxData\<close> models the three transaction types, messages, call arguments and fee checks (\<^verbatim>\<open>x/vm/types\<close>, \<^verbatim>\<open>x/vm/keeper/fees.go\<close>),
    \<open>EvmLogs\<close> the logs, \<open>EvmAnte\<close> the gas meter and the decorator of \<^verbatim>\<open>ante/evm/mono_decorator.go\<close> with its steps \<^verbatim>\<open>01\<close> to \<^verbatim>\<open>11\<close>, and
    \<open>StateTransition\<close> the execution (\<^verbatim>\<open>x/vm/keeper/state_transition.go\<close>, \<^verbatim>\<open>gas.go\<close>, \<^verbatim>\<open>config.go\<close>, \<^verbatim>\<open>hooks.go\<close>, \<^verbatim>\<open>call_evm.go\<close>, \<^verbatim>\<open>msg_server.go\<close>, \<^verbatim>\<open>abci.go\<close>). \<open>TxDataProps\<close>,
    \<open>EvmAnteProps\<close> and \<open>StateTransitionProps\<close> show round trips and bounds of the data, which nonces and fees an accepted transaction
    has used, the bounds of the gas it is charged, and what a failed one costs.
  \<^item> Fees: \<open>FeeMarket\<close> models \<^verbatim>\<open>x/feemarket\<close>, \<open>FeePolicy\<close> the discounts of \<^verbatim>\<open>x/feepolicy\<close>, \<open>CosmosAnte\<close> the decorators of \<^verbatim>\<open>ante/cosmos\<close>, \<^verbatim>\<open>gurud/ante\<close>
    and the fee checker of \<^verbatim>\<open>ante/evm\<close>; \<open>FeeMarketProps\<close> and \<open>CosmosAnteProps\<close> bound the base fee and the minimum gas price and state what is deducted.
  \<^item> Oracle: \<open>Oracle\<close> models \<^verbatim>\<open>x/oracle\<close> with the floating point numbers of \<open>BigFloat\<close>; \<open>OracleProofs\<close> and \<open>OracleProps\<close> hold the invariant of its state, what
    a block does to each document, progress, and the median.
  \<^item> Tokens: \<open>Erc20Registry\<close> models the store of \<^verbatim>\<open>x/erc20\<close> (pairs of a coin and a contract, allowances, precompiles, parameters), \<open>Erc20\<close> its conversions, messages, packet callbacks,
    both middlewares and genesis, on top of the calls of \<open>StateTransition\<close>; \<open>Erc20Props\<close> holds the invariant of the registry in every reachable state, the reading of
    allowances, and what a failed conversion leaves when a packet times out.
  \<^item> This theory joins the components: the hooks of \<^verbatim>\<open>gurud/app.go\<close>, the commit of the journal onto the precise bank, and the oracle's effect on the fee market and on transactions.

  \<^bold>\<open>Conventions.\<close> A Go call is a function to \<open>'a res\<close> of \<open>Prelude\<close>: \<open>Ok\<close> a value, \<open>Fail\<close> a returned error, \<open>Panic\<close>. Errors carry no state, as the SDK
  discards the writes of a failed message; where the caller goes on with the state of a failed call, as in the commit of the journal and in packet callbacks, the model returns both (\<open>run\<close> of \<open>Erc20\<close>). Stores are the
  ordered lists of \<open>KVStore\<close>; parameters and protobuf messages are kept decoded. \<^verbatim>\<open>uint64\<close> and \<^verbatim>\<open>uint256\<close> are words and wrap, \<^verbatim>\<open>sdk.Int\<close> and \<^verbatim>\<open>big.Int\<close> are
  \<open>int\<close>, decimals are integers in units of \<open>10\<^sup>-\<^sup>1\<^sup>8\<close>. Code outside of the repository (the SDK, go-ethereum, hex and bech32 text) is a record of operations
  passed to the model, with a locale for the behaviour that proofs rely on: \<open>Sdk\<close> and \<open>Bank\<close> hold coins, decimals, bank and accounts; \<open>hex_laws\<close>, \<open>auth_laws\<close>,
  \<open>vm_laws\<close>, \<open>evm_laws\<close>, \<open>exec_laws\<close> and \<open>registry_laws\<close> add hexadecimal names, accounts, the keeper, the signature and message of a transaction, the
  interpreter, and a hash without collisions. Every locale is interpreted, the interfaces that the program provides on the program's own definitions, and those of other code on a
  reference implementation (names \<open>ref_\<close>\<dots>) that also serves the witnesses.

  \<^bold>\<open>Bounds and termination.\<close> No function has fuel. The gas search \<open>BinSearch\<close> is a partial function, since it may diverge: it ends for upper bounds up to \<open>2\<^sup>6\<^sup>3\<close> and is
  shown not to end for the largest one. The other loops are structural or have a measure. The exponents of big floats are unbounded integers, where
  Go has 32 bits. The bounds of the gas used assume limits below \<open>2\<^sup>6\<^sup>3\<close>, where the conversion to a signed integer in the code is exact.

  \<^bold>\<open>Not modelled.\<close> Genesis, queries and tracers of \<^verbatim>\<open>x/vm\<close>; the precompiled contracts, which decode ABI data and then call SDK message
  servers (a call of the EVM leaves the store of \<^verbatim>\<open>x/erc20\<close> alone, and approvals through a precompiled token are steps of their own); \<^verbatim>\<open>x/ibc\<close>, middleware of ibc-go; \<^verbatim>\<open>rpc\<close>, \<^verbatim>\<open>server\<close>, \<^verbatim>\<open>indexer\<close>, \<^verbatim>\<open>cmd\<close>, \<^verbatim>\<open>client\<close>, \<^verbatim>\<open>oralce\<close> and \<^verbatim>\<open>wallets\<close>, which are input and output; \<^verbatim>\<open>crypto\<close>, \<^verbatim>\<open>encoding\<close> and
  \<^verbatim>\<open>ethereum/eip712\<close>, which call cryptographic libraries; generated protobuf code but for the types the models use; test support. Of the modelled
  components, telemetry, logging, tracing, the gas the SDK charges for store access (the ante handler sets it to zero) and the gas meter after an error are left out.
\<close>

section \<open>The oracle and the fee market\<close>

text \<open>The application gives the oracle the hooks of the fee market.\<close>

definition app_OracleHooks :: "legacy_dec_ops \<Rightarrow> DataSet \<Rightarrow> fm_state \<Rightarrow> fm_state res" where
  "app_OracleHooks D = MultiOracleHooks_AfterOracleEnd [\<lambda>dataSet. fm_AfterOracleEnd D (ds_RawData dataSet)]"

lemma app_OracleHooks_eq: "app_OracleHooks D dataSet h = fm_AfterOracleEnd D (ds_RawData dataSet) h"
  by (cases "fm_AfterOracleEnd D (ds_RawData dataSet) h") (simp_all add: app_OracleHooks_def MultiOracleHooks_AfterOracleEnd_def)

lemma gas_price_block:
  assumes "or_hooks E = Some (app_OracleHooks D)" and "EnableOracle (or_GetParams s)" and "GetOracleRequestDocs s = [d]"
    and "OracleType d = ORACLE_TYPE_MIN_GAS_PRICE" and "OracleProofs.advances E s d v" and "fm_AfterOracleEnd D v (hook_state s) = Ok h"
  shows "\<exists>s'. or_BeginBlocker E s = Ok s' \<and> hook_state s' = h"
  using assms
  by (auto simp: or_BeginBlocker_def ProcessOracleDataSetAggregation_def aggregate_doc_def OracleProofs.advances_def Let_def
      or_AfterOracleEnd_def app_OracleHooks_eq SetDataSet_def SetOracleRequestDoc_def)

text \<open>
  C40. While the minimum gas price is zero, its default, a negative aggregate of a minimum-gas-price document, at most half
  the adjustment factor in size, is turned into a negative minimum gas price by the block start, and from then on
  the minimum gas price check refuses every Cosmos transaction, whatever fee it offers.
\<close>

theorem negative_report_blocks_transactions:
  assumes "fee_laws F" and "or_hooks E = Some (app_OracleHooks (fe_dec F))" and "EnableOracle (or_GetParams s)"
    and "GetOracleRequestDocs s = [d]" and "OracleType d = ORACLE_TYPE_MIN_GAS_PRICE" and "OracleProofs.advances E s d v"
    and "fm_ok (hook_state s)" and "GasPriceAdjustmentFactor (fm_GetParams (hook_state s)) = Some a"
    and "MinGasPrice (fm_GetParams (hook_state s)) = Some 0"
    and "LegacyNewDecFromStr (fe_dec F) v = Some x" and "x < 0" and "2 * - x \<le> a"
  shows "\<exists>s'. or_BeginBlocker E s = Ok s' \<and>
    (\<forall>c tx next_handler. fe_market F c = hook_state s' \<longrightarrow> (\<exists>e. MinGasPrice_AnteHandle F (Some tx) False next_handler c = Fail e))"
proof -
  have D: "legacy_dec (fe_dec F)" using assms(1) by (simp add: fee_laws_def)
  obtain h p where h: "fm_AfterOracleEnd (fe_dec F) v (hook_state s) = Ok h" "MinGasPrice (fm_GetParams h) = Some p" "p < 0"
    using AfterOracleEnd_negative_price [OF D assms(7-12)] by blast
  obtain s' where s': "or_BeginBlocker E s = Ok s'" "hook_state s' = h"
    using gas_price_block [OF assms(2-6) h(1)] by blast
  then show ?thesis using fee_laws.negative_price_rejects [OF assms(1)] h(2,3) by metis
qed

definition ref_gas_oracle :: "fm_state or_env" where
  "ref_gas_oracle = \<lparr>or_bech = (\<lambda>a. Some (StringToBytes a)), or_authority = ''gov'',
     or_account = (\<lambda>_. Some (Some (\<lambda>_ _. True))), SetString = (\<lambda>t. if t = ''-1'' then Some (Finite (- 1)) else None),
     Text = (\<lambda>v. if v = Finite (- 1) then ''-1'' else ''0''), or_hooks = Some (app_OracleHooks ref_dec), or_height = 10, or_time = 20\<rparr>"

definition ref_gas_doc :: OracleRequestDoc where
  "ref_gas_doc = (ref_doc AGGREGATION_RULE_MIN)\<lparr>OracleType := ORACLE_TYPE_MIN_GAS_PRICE, Quorum := 1\<rparr>"

definition ref_gas_state :: "fm_state or_state" where
  "ref_gas_state = \<lparr>or_params = Some or_DefaultParams, or_moderator = Some ''m'',
     or_docs = [(GetOracleRequestDocKey 1, ref_gas_doc)], or_count = Some 1,
     or_submits = [(GetSubmitDataKeyByProvider 1 1 ''a'', ref_submit ''a'' ''-1'')], or_datasets = [],
     or_events = [], hook_state = ref_fm 0\<rparr>"

theorem negative_report_blocks_transactions_witness:
  "\<exists>s'. or_BeginBlocker ref_gas_oracle ref_gas_state = Ok s' \<and>
     (\<forall>policy. \<not> is_ok (MinGasPrice_AnteHandle ref_fee (Some ref_fee_tx) False Ok (policy, hook_state s', [])))"
proof -
  have raw: "LegacyNewDecFromStr (fe_dec ref_fee) ''-1'' = Some (- dec_one)"
    by (simp add: ref_fee_def ref_dec_def ref_dec_of_string_def)
  have sub: "GetSubmitDatas ref_gas_state 1 1 = [ref_submit ''a'' ''-1'']"
    by (simp add: ref_gas_state_def GetSubmitDatas_def kv_prefix_def has_prefix_def GetSubmitDataKeyByProvider_def)
  have adv: "OracleProofs.advances ref_gas_oracle ref_gas_state ref_gas_doc ''-1''"
    by (simp add: OracleProofs.advances_def ref_gas_doc_def ref_doc_def sub AggregateData_def AGGREGATION_RULE_MIN_def AGGREGATION_RULE_AVG_def
        calculateMin_def value_loop_def ref_gas_oracle_def ref_submit_def bf_Cmp_def bf_MaxFloat64_def less_prod_def)
  have "\<exists>s'. or_BeginBlocker ref_gas_oracle ref_gas_state = Ok s' \<and>
    (\<forall>c tx next_handler. fe_market ref_fee c = hook_state s' \<longrightarrow> (\<exists>e. MinGasPrice_AnteHandle ref_fee (Some tx) False next_handler c = Fail e))"
    by (rule negative_report_blocks_transactions [OF rf.fee_laws_axioms _ _ _ _ adv _ _ _ raw, of "4 * dec_one"])
      (simp_all add: ref_gas_oracle_def ref_fee_def ref_gas_state_def or_GetParams_def or_DefaultParams_def GetOracleRequestDocs_def
        kv_prefix_def ref_gas_doc_def ref_fm_ok)
  moreover have "fe_market ref_fee (policy, h, cs) = h" for policy h cs by (simp add: ref_fee_def)
  ultimately show ?thesis unfolding is_ok_iff by (metis res.distinct(1))
qed

section \<open>The state journal on the keeper and the precise bank\<close>

text \<open>
  C2. Committing the state journal to the keeper of \<^verbatim>\<open>x/vm\<close>, with the precise bank underneath, keeps every
  fractional balance backed, and leaves every dirty account in the keeper as the EVM saw it: gone when it has
  self-destructed, and otherwise with its nonce, balance and code hash and with every slot the EVM wrote at the
  value written. The commit builds on what precompile calls have flushed (the context of \<open>db1\<close>, which is that of
  \<open>db\<close> when there were none): the other slots and the other accounts are as they are there. It is assumed that
  the context flushed is backed and that the dirty accounts are ordinary ones: neither the reserve of the precise bank
  nor the module account of \<^verbatim>\<open>x/vm\<close>, and without locked coins.
\<close>

theorem evm_commit_keeps_backing:
  assumes "vm_laws k" and "distinct (storeKeys k)" and "db_reach (vm_backend k) db" and "flush_cache (vm_backend k) db = Ok db1"
    and "pb_inv (bankWrapper k) (bank_state (ctx db1))" and "\<forall>a \<in> dirtied (entries db). ordinary k a"
    and "Commit (vm_backend k) db = Ok (db', None)"
  shows "pb_inv (bankWrapper k) (bank_state (ctx db')) \<and>
    (\<forall>a \<in> dirtied (entries db). \<exists>x obj. v_accounts (view (vm_backend k) db) a = Some x \<and> stateObjects db a = Some obj \<and>
      (if av_destructed x then vm_GetAccount k (ctx db') a = Ok None
       else vm_GetAccount k (ctx db') a = Ok (Some (av_account x)) \<and>
         (\<forall>key. vm_GetState (ctx db') a key =
           (if kv_get (dirtyStorage obj) key = None \<and> writeCache db \<noteq> None then vm_GetState (ctx db1) a key else av_state x key)))) \<and>
    (\<forall>a. a \<notin> dirtied (entries db) \<longrightarrow> vm_GetState (ctx db') a = vm_GetState (ctx db1) a \<and>
      (ordinary k a \<longrightarrow> vm_GetAccount k (ctx db') a = vm_GetAccount k (ctx db1) a))"
proof -
  let ?K = "vm_backend k"
  have keys: "distinct (kKVStoreKeys ?K)" using assms(2) by (simp add: vm_backend_def)
  note commit = commit_view [OF vm_laws.backend_store [OF assms(1)] keys assms(3,4,5) _ assms(7)]
  have inv: "pb_inv (bankWrapper k) (bank_state (ctx db'))" using commit(2) assms(6) by simp
  have acc: "vm_GetAccount k (ctx d) a = Ok (kGetAccount ?K (ctx d) a)"
    if "ordinary k a" "pb_inv (bankWrapper k) (bank_state (ctx d))" for a d
    using vm_laws.read_account [OF assms(1) that(2,1)] by (auto simp: vm_backend_def)
  have st: "kGetState ?K = vm_GetState" by (simp add: vm_backend_def)
  have "\<exists>x obj. v_accounts (view ?K db) a = Some x \<and> stateObjects db a = Some obj \<and>
      (if av_destructed x then vm_GetAccount k (ctx db') a = Ok None
       else vm_GetAccount k (ctx db') a = Ok (Some (av_account x)) \<and>
         (\<forall>key. vm_GetState (ctx db') a key =
           (if kv_get (dirtyStorage obj) key = None \<and> writeCache db \<noteq> None then vm_GetState (ctx db1) a key else av_state x key)))"
    if a: "a \<in> dirtied (entries db)" for a
  proof -
    obtain x obj where x: "v_accounts (view ?K db) a = Some x" "stateObjects db a = Some obj"
        "if av_destructed x then kGetAccount ?K (ctx db') a = None
         else kGetAccount ?K (ctx db') a = Some (av_account x) \<and> (\<forall>key. kGetState ?K (ctx db') a key =
           (if kv_get (dirtyStorage obj) key = None then kGetState ?K (ctx db1) a key else av_state x key))"
      using commit(1) [of a] a assms(6) by auto
    from commit_slots [OF assms(3) _ assms(4) keys x(2,1)] x a acc [OF _ inv] assms(6) st show ?thesis
      by (intro exI [of _ x] exI [of _ obj]) auto
  qed
  moreover have "vm_GetState (ctx db') a = vm_GetState (ctx db1) a \<and>
      (ordinary k a \<longrightarrow> vm_GetAccount k (ctx db') a = vm_GetAccount k (ctx db1) a)" if "a \<notin> dirtied (entries db)" for a
    using commit(1) [of a] that assms(6) acc [OF _ inv, of a] acc [OF _ assms(5), of a] st by (auto simp: same_account_def)
  ultimately show ?thesis using inv by blast
qed

lemma ref_SetAccount: "\<exists>c'. vm_SetAccount ref_vm a acct ref_vmctx = Ok c'"
proof -
  have inv: "pb_inv (bankWrapper ref_vm) (bank_state c)" if "bank_state c = bank_state ref_vmctx" for c :: "(address \<Rightarrow> uint64 option, ledger) vm_ctx"
    using that ref_vmctx_inv by simp
  have "\<exists>c'. vm_SetBalance ref_vm a (Some w) c = Ok c'" if "bank_state c = bank_state ref_vmctx" for w c
    using vm_laws.set_balance_spec [OF rv.vm_laws_axioms inv [OF that] ref_ordinary, of a w] ref_vm_balance(2) by auto
  then show ?thesis
    by (simp add: vm_SetAccount_def Let_def ref_vm_def [THEN arg_cong [where f = accountKeeper]] ref_auth_def DeleteCodeHash_def SetCodeHash_def
        split: option.splits)
qed

theorem evm_commit_keeps_backing_witness:
  "\<exists>db0 db db'. Prepare ref_rules 1 9 None [] [] (New ref_vmctx ref_cfg) = Ok db0 \<and> exec (vm_backend ref_vm) (OpSetNonce 1 6) db0 = Ok db \<and>
     Commit (vm_backend ref_vm) db = Ok (db', None) \<and> 1 \<in> dirtied (entries db) \<and> pb_inv (bankWrapper ref_vm) (bank_state (ctx db'))"
proof -
  let ?K = "vm_backend ref_vm"
  let ?start = "(New ref_vmctx ref_cfg)\<lparr>accessList := \<lparr>addresses = (\<lambda>_. None)(1 \<mapsto> -1, 9 \<mapsto> -1), slots = []\<rparr>\<rparr>"
  have p: "Prepare ref_rules 1 9 None [] [] (New ref_vmctx ref_cfg) = Ok ?start"
    by (simp add: Prepare_def ref_rules_def warm_list_def AddAddress_def newAccessList_def add_addresses_def New_def Let_def newTransientStorage_def)
  let ?db = "SetNonce ?K 1 6 ?start"
  have e: "exec ?K (OpSetNonce 1 6) ?start = Ok ?db" by simp
  have r: "db_reach ?K ?db" by (rule db_reach.op [OF db_reach.start [OF p] e])
  obtain acct where acct: "kGetAccount ?K ref_vmctx 1 = Some acct"
    using rv.read_account [OF ref_vmctx_inv ref_ordinary, of 1]
    by (auto simp: vm_backend_def ref_vmctx_def ref_vm_def [THEN arg_cong [where f = accountKeeper]] ref_auth_def)
  obtain c' where c': "kSetAccount ?K 1 (acct\<lparr>Account.Nonce := 6\<rparr>) ref_vmctx = (c', None)"
    using ref_SetAccount [of 1 "acct\<lparr>Account.Nonce := 6\<rparr>"] by (auto simp: vm_backend_def backend_result_def)
  have db: "entries ?db = [nonceChange 1 (Account.Nonce acct)]" "writeCache ?db = None" "ctx ?db = ref_vmctx"
    and c: "Commit ?K ?db = Ok (?db\<lparr>ctx := c'\<rparr>, None)"
    using c' by (simp_all add: SetNonce_def getOrNewStateObject_def getStateObject_def obj_SetNonce_def setStateObject_def
        journal_append_def New_def newObject_def obj_setNonce_def Commit_def acct
        commitWithCtx_def sortedDirties_def commit_object_def commit_storage_def Let_def)
  have d: "dirtied (entries ?db) = {1}" by (simp add: db dirtied_def)
  have "distinct (storeKeys ref_vm)" by (simp add: ref_vm_def)
  moreover have "flush_cache ?K ?db = Ok ?db" by (simp add: flush_cache_def db)
  ultimately show ?thesis
    using evm_commit_keeps_backing [OF rv.vm_laws_axioms _ r _ _ _ c] ref_vmctx_inv ref_ordinary p e c d db(3) by auto
qed

end
